(* ===== verification/Wingman_Prelude.thy ===== *)
theory Wingman_Prelude
  imports Main "HOL-Library.AList" "HOL-Library.Char_ord" "HOL-Library.List_Lexorder"
    "HOL-Library.Product_Lexorder" "HOL-Library.Multiset"
begin

text \<open>
  The vocabulary every component of the development shares: results that may be errors,
  loops that stop at the first error, Go maps as association lists, the string functions of
  the Go library that the program calls, and the automation over them.

  A Go \<^theory_text>\<open>(T, error)\<close> result is a sum, \<open>Inl\<close> the error.  A Go map is an association list with
  distinct keys; the order of the list is the order in which one run iterates over the map.
  Strings are byte lists.
\<close>

named_theorems res_simps \<open>rewriting of error results\<close>
named_theorems map_simps \<open>rewriting of association-list maps\<close>

section \<open>Results and loops over them\<close>

definition bindE :: "'e + 'a \<Rightarrow> ('a \<Rightarrow> 'e + 'b) \<Rightarrow> 'e + 'b" where
  "bindE m f = (case m of Inl e \<Rightarrow> Inl e | Inr x \<Rightarrow> f x)"

lemma bindE_simps [simp]: "bindE (Inl e) f = Inl e" "bindE (Inr x) f = f x"
  by (simp_all add: bindE_def)

lemma bindE_Inr_conv [res_simps]: "bindE m f = Inr y \<longleftrightarrow> (\<exists>x. m = Inr x \<and> f x = Inr y)"
  by (cases m) auto

lemma bindE_cong [fundef_cong]:
  "m = m' \<Longrightarrow> (\<And>x. m' = Inr x \<Longrightarrow> f x = g x) \<Longrightarrow> bindE m f = bindE m' g"
  by (cases m') auto

lemma bindE_assoc: "bindE (bindE m f) g = bindE m (\<lambda>x. bindE (f x) g)"
  by (cases m) auto

fun mapE :: "('a \<Rightarrow> 'e + 'b) \<Rightarrow> 'a list \<Rightarrow> 'e + 'b list" where
  "mapE f [] = Inr []"
| "mapE f (x # xs) = bindE (f x) (\<lambda>y. bindE (mapE f xs) (\<lambda>ys. Inr (y # ys)))"

lemma mapE_map: "mapE f (map g xs) = mapE (\<lambda>x. f (g x)) xs"
  by (induction xs) auto

lemma mapE_all_Inr: "(\<And>x. x \<in> set xs \<Longrightarrow> f x = Inr (g x)) \<Longrightarrow> mapE f xs = Inr (map g xs)"
  by (induction xs) auto

lemma mapE_length: "mapE f xs = Inr ys \<Longrightarrow> length ys = length xs"
  by (induction xs arbitrary: ys) (auto simp: res_simps)

text \<open>A loop that threads a state and returns at the first error.\<close>

fun foldE :: "('s \<Rightarrow> 'a \<Rightarrow> 'e + 's) \<Rightarrow> 's \<Rightarrow> 'a list \<Rightarrow> 'e + 's" where
  "foldE f s [] = Inr s"
| "foldE f s (x # xs) = bindE (f s x) (\<lambda>s'. foldE f s' xs)"

lemma foldE_append: "foldE f s (xs @ ys) = bindE (foldE f s xs) (\<lambda>s'. foldE f s' ys)"
  by (induction xs arbitrary: s) (auto simp: bindE_assoc)

lemma foldE_snoc [simp]: "foldE f s (xs @ [x]) = bindE (foldE f s xs) (\<lambda>s'. f s' x)"
proof -
  have "(\<lambda>s'. foldE f s' [x]) = (\<lambda>s'. f s' x)"
    by (auto simp: fun_eq_iff bindE_def split: sum.split)
  then show ?thesis by (simp add: foldE_append)
qed

lemma foldE_prefix_Inr: "foldE f s (xs @ ys) = Inr t \<Longrightarrow> \<exists>u. foldE f s xs = Inr u"
  by (auto simp: foldE_append res_simps)

text \<open>An invariant of the loop body is an invariant of the loop.\<close>

lemma foldE_invariant:
  assumes "foldE f s xs = Inr t" "P s"
    and "\<And>s x s'. P s \<Longrightarrow> x \<in> set xs \<Longrightarrow> f s x = Inr s' \<Longrightarrow> P s'"
  shows "P t"
  using assms
proof (induction xs arbitrary: s)
  case (Cons x xs)
  from Cons.prems(1) obtain s' where s': "f s x = Inr s'" "foldE f s' xs = Inr t"
    by (auto simp: res_simps)
  have "P s'" using Cons.prems(2) _ s'(1) by (rule Cons.prems(3)) simp
  with s'(2) show ?case by (rule Cons.IH) (rule Cons.prems(3), auto)
qed simp

text \<open>
  The interface of a loop over a history in which each pass looks at some kinds of events
  only: an event that is not relevant to the pass leaves its state alone.
\<close>

locale history_pass =
  fixes step :: "'s \<Rightarrow> 'ev \<Rightarrow> 'e + 's"
    and relevant :: "'ev \<Rightarrow> bool"
  assumes step_irrelevant: "\<not> relevant e \<Longrightarrow> step s e = Inr s"
begin

lemma pass_filter: "foldE step s (filter relevant evs) = foldE step s evs"
  by (induction evs arbitrary: s) (auto simp: step_irrelevant)

lemma pass_snoc_irrelevant:
  "\<not> relevant e \<Longrightarrow> foldE step s (evs @ [e]) = foldE step s evs"
  by (cases "foldE step s evs") (auto simp: step_irrelevant)

lemma pass_append_irrelevant:
  assumes "\<forall>e \<in> set es. \<not> relevant e"
  shows "foldE step s (evs @ es) = foldE step s evs"
proof -
  have "filter relevant es = []" using assms by auto
  then have "foldE step s (filter relevant (evs @ es)) = foldE step s (filter relevant evs)"
    by simp
  then show ?thesis by (simp only: pass_filter)
qed

lemma pass_none_relevant: "\<forall>e \<in> set evs. \<not> relevant e \<Longrightarrow> foldE step s evs = Inr s"
  using pass_append_irrelevant [of evs s "[]"] by simp

end

section \<open>Go maps as association lists\<close>

type_synonym ('k, 'v) gomap = "('k \<times> 'v) list"

definition wf_map :: "('k, 'v) gomap \<Rightarrow> bool" where
  "wf_map m \<longleftrightarrow> distinct (map fst m)"

definition vals :: "('k, 'v) gomap \<Rightarrow> 'v list" where
  "vals m = map snd m"

definition del_where :: "('v \<Rightarrow> bool) \<Rightarrow> ('k, 'v) gomap \<Rightarrow> ('k, 'v) gomap" where
  \<comment> \<open>the loop \<^verbatim>\<open>for k, v := range m { if p(v) { delete(m, k) } }\<close>\<close>
  "del_where p m = filter (\<lambda>(k, v). \<not> p v) m"

definition map_values :: "('v \<Rightarrow> 'v) \<Rightarrow> ('k, 'v) gomap \<Rightarrow> ('k, 'v) gomap" where
  "map_values f m = map (\<lambda>(k, v). (k, f v)) m"

lemma wf_map_Nil [simp]: "wf_map []"
  by (simp add: wf_map_def)

lemma wf_map_update [simp]: "wf_map m \<Longrightarrow> wf_map (AList.update k v m)"
  by (simp add: wf_map_def distinct_update)

lemma wf_map_delete [simp]: "wf_map m \<Longrightarrow> wf_map (AList.delete k m)"
  by (simp add: wf_map_def distinct_delete)

lemma wf_map_del_where [simp]: "wf_map m \<Longrightarrow> wf_map (del_where p m)"
  by (simp add: wf_map_def del_where_def distinct_map_filter)

lemma wf_map_map_values [simp]: "wf_map (map_values f m) = wf_map m"
  by (simp add: wf_map_def map_values_def comp_def split_def)

lemma map_of_update [simp]: "map_of (AList.update k v m) = (map_of m)(k \<mapsto> v)"
  by (rule update_conv')

lemma map_of_delete [simp]: "map_of (AList.delete k m) = (map_of m)(k := None)"
  by (rule delete_conv')

lemma map_of_map_values [simp]: "map_of (map_values f m) k = map_option f (map_of m k)"
  by (induction m) (auto simp: map_values_def)

lemma map_of_del_where [map_simps]:
  "wf_map m \<Longrightarrow> map_of (del_where p m) k =
     (case map_of m k of None \<Rightarrow> None | Some v \<Rightarrow> if p v then None else Some v)"
proof (induction m)
  case (Cons kv m)
  obtain k' v where kv: "kv = (k', v)" by fastforce
  have "k' = k \<Longrightarrow> map_of m k = None"
    using Cons.prems by (auto simp: kv wf_map_def map_of_eq_None_iff)
  then show ?case using Cons by (auto simp: kv wf_map_def del_where_def split: option.splits)
qed (simp add: del_where_def)

lemma vals_mem [map_simps]: "wf_map m \<Longrightarrow> v \<in> set (vals m) \<longleftrightarrow> (\<exists>k. map_of m k = Some v)"
  by (force simp: vals_def wf_map_def map_of_eq_Some_iff)

lemma vals_map_values: "vals (map_values f m) = map f (vals m)"
  by (simp add: vals_def map_values_def split_def comp_def)

text \<open>A loop of assignments \<^verbatim>\<open>m[key(v)] = v\<close>.\<close>

definition put_all :: "('v \<Rightarrow> 'k) \<Rightarrow> 'v list \<Rightarrow> ('k, 'v) gomap \<Rightarrow> ('k, 'v) gomap" where
  "put_all key vs m = fold (\<lambda>v. AList.update (key v) v) vs m"

lemma put_all_simps [simp]:
  "put_all key [] m = m"
  "put_all key (v # vs) m = put_all key vs (AList.update (key v) v m)"
  by (simp_all add: put_all_def)

lemma wf_map_put_all [simp]: "wf_map m \<Longrightarrow> wf_map (put_all key vs m)"
  by (induction vs arbitrary: m) auto

lemma map_of_put_all:
  assumes "distinct (map key vs)"
  shows "map_of (put_all key vs m) k =
    (case List.find (\<lambda>v. key v = k) vs of Some v \<Rightarrow> Some v | None \<Rightarrow> map_of m k)"
  using assms
proof (induction vs arbitrary: m)
  case (Cons v vs)
  show ?case
  proof (cases "key v = k")
    case True
    then have "List.find (\<lambda>v. key v = k) vs = None"
      using Cons.prems by (auto simp: find_None_iff) (metis image_eqI)
    then show ?thesis using Cons True by simp
  next
    case False
    then show ?thesis using Cons by (simp split: option.splits)
  qed
qed simp

lemma find_distinct_Some:
  "distinct (map key vs) \<Longrightarrow> List.find (\<lambda>v. key v = k) vs = Some v \<longleftrightarrow> v \<in> set vs \<and> key v = k"
  by (induction vs) auto

text \<open>The running maximum of the loops that look for the highest sequence number.\<close>

definition max_where :: "('v \<Rightarrow> bool) \<Rightarrow> ('v \<Rightarrow> int) \<Rightarrow> 'v list \<Rightarrow> int" where
  \<comment> \<open>the loop \<^verbatim>\<open>for v { if p(v) && f(v) > max { max = f(v) } }\<close>, from 0\<close>
  "max_where p f vs = fold (\<lambda>v m. if p v \<and> f v > m then f v else m) vs 0"

lemma fold_max_ge:
  fixes f :: "'v \<Rightarrow> int"
  shows "m \<le> fold (\<lambda>v m. if p v \<and> f v > m then f v else m) vs m"
proof (induction vs arbitrary: m)
  case (Cons v vs)
  have "m \<le> (if p v \<and> f v > m then f v else m)" by simp
  also have "\<dots> \<le> fold (\<lambda>v m. if p v \<and> f v > m then f v else m) vs \<dots>" by (rule Cons.IH)
  finally show ?case by simp
qed simp

lemma fold_max_upper:
  fixes f :: "'v \<Rightarrow> int"
  shows "v \<in> set vs \<Longrightarrow> p v \<Longrightarrow> f v \<le> fold (\<lambda>v m. if p v \<and> f v > m then f v else m) vs m"
proof (induction vs arbitrary: m)
  case (Cons u vs)
  show ?case
  proof (cases "v = u")
    case True
    have "f v \<le> (if p v \<and> f v > m then f v else m)" using Cons.prems by auto
    also have "\<dots> \<le> fold (\<lambda>v m. if p v \<and> f v > m then f v else m) vs \<dots>" by (rule fold_max_ge)
    finally show ?thesis unfolding True [symmetric] by (simp only: fold_simps)
  next
    case False
    then show ?thesis using Cons by simp
  qed
qed simp

lemma max_where_nonneg: "0 \<le> max_where p f vs"
  unfolding max_where_def by (rule fold_max_ge)

lemma max_where_upper: "v \<in> set vs \<Longrightarrow> p v \<Longrightarrow> f v \<le> max_where p f vs"
  unfolding max_where_def by (rule fold_max_upper)

lemma max_where_attained:
  "max_where p f vs = 0 \<or> (\<exists>v \<in> set vs. p v \<and> max_where p f vs = f v)"
proof -
  have "fold (\<lambda>v m. if p v \<and> f v > m then f v else m) vs m = m
      \<or> (\<exists>v \<in> set vs. p v \<and> fold (\<lambda>v m. if p v \<and> f v > m then f v else m) vs m = f v)" for m
    by (induction vs arbitrary: m) (force split: if_splits)+
  then show ?thesis unfolding max_where_def by blast
qed

section \<open>Strings\<close>

definition has_prefix :: "string \<Rightarrow> string \<Rightarrow> bool" where
  "has_prefix s p = (take (length p) s = p)"

definition trim_prefix :: "string \<Rightarrow> string \<Rightarrow> string" where
  "trim_prefix s p = (if has_prefix s p then drop (length p) s else s)"

lemma has_prefix_append [simp]: "has_prefix (p @ s) p"
  by (simp add: has_prefix_def)

lemma has_prefix_conv: "has_prefix s p \<longleftrightarrow> (\<exists>t. s = p @ t)"
  unfolding has_prefix_def by (metis append_eq_conv_conj)

lemma trim_prefix_append [simp]: "trim_prefix (p @ s) p = s"
  by (simp add: trim_prefix_def)

definition is_space :: "char \<Rightarrow> bool" where
  "is_space c = (c = CHR '' '' \<or> c = CHR 0x09 \<or> c = CHR 0x0A \<or> c = CHR 0x0B \<or> c = CHR 0x0C \<or> c = CHR 0x0D)"

definition trim_space :: "string \<Rightarrow> string" where
  "trim_space s = rev (dropWhile is_space (rev (dropWhile is_space s)))"

definition to_lower :: "char \<Rightarrow> char" where
  "to_lower c = (if CHR ''A'' \<le> c \<and> c \<le> CHR ''Z'' then char_of (of_char c + 32 :: nat) else c)"

definition fold_case :: "string \<Rightarrow> string" where
  "fold_case s = map to_lower s"

definition equal_fold :: "string \<Rightarrow> string \<Rightarrow> bool" where
  "equal_fold a b = (fold_case a = fold_case b)"

lemma equal_fold_refl [simp]: "equal_fold a a"
  by (simp add: equal_fold_def)

lemma equal_fold_sym: "equal_fold a b \<longleftrightarrow> equal_fold b a"
  by (auto simp: equal_fold_def)

lemma equal_fold_trans: "equal_fold a b \<Longrightarrow> equal_fold b c \<Longrightarrow> equal_fold a c"
  by (simp add: equal_fold_def)

section \<open>Sorted listings\<close>

text \<open>The result of \<^verbatim>\<open>sort.Slice\<close> by a key: the same elements, in key order.\<close>

lemma sort_key_set [simp]: "set (sort_key f xs) = set xs"
  by simp

lemma map_sort_key_distinct: "distinct (map g (sort_key f xs)) = distinct (map g xs)"
  using mset_sort [of f xs] by (metis mset_map mset_eq_imp_distinct_iff)

end
