(* ===== verification/Go_Json.thy ===== *)
theory Go_Json
  imports Wingman_Prelude Complex_Main
begin

text \<open>
  Errors of the program and the part of Go's \<^verbatim>\<open>encoding/json\<close> it uses: JSON values as trees,
  object members in order, the field rules of struct tags (\<^verbatim>\<open>omitempty\<close>, a missing or null
  member leaves the zero value, names match without regard to ASCII case), and one encoder and
  decoder per scalar type.  Text formats (RFC 3339, base64, JSON text itself) are functions of
  the record \<open>lib\<close>; what a property needs of them is a hypothesis \<open>lib_ok\<close>.
\<close>

section \<open>Errors\<close>

text \<open>
  The sentinel and structured errors of \<^verbatim>\<open>store/storage.go\<close> and \<^verbatim>\<open>store/aggregate.go\<close>.  An error
  made by \<^verbatim>\<open>fmt.Errorf\<close> with no wrapped sentinel is \<open>Errorf\<close> with its fixed text;
  \<open>NilDereference\<close> is the panic of reading through a nil pointer.
\<close>

datatype go_error =
    JsonError string
  | Errorf string
  | ErrSessionNotFound
  | ErrClientNameExists
  | ErrClientIDExists
  | ErrWorkspaceNameExists
  | SessionRunAdmissionConflict string string
  | ErrSessionRunNotFound
  | ErrSessionRunTransitionConflict
  | ErrModelCallAttemptConflict
  | ErrToolUseIdentityConflict
  | ErrToolUseInvalidTransition
  | ErrMessageRevisionStale
  | ErrMessageRevisionConflict
  | PermissionRequestNotFound string string
  | PermissionRequestTransitionConflict string string
  | AggregateVersionConflict string string int int
  | NilDereference

type_synonym 'a res = "go_error + 'a"

section \<open>JSON values\<close>

datatype json =
    JNull
  | JBool bool
  | JNum rat
  | JStr string
  | JArr "json list"
  | JObj "(string \<times> json) list"

type_synonym members = "(string \<times> json) list"

type_synonym time = int \<comment> \<open>nanoseconds since the zero \<^verbatim>\<open>time.Time\<close>, year 1 UTC; 0 is \<^verbatim>\<open>IsZero\<close>\<close>
type_synonym bytes = string

text \<open>
  The library functions between values and text: \<open>fmt_time\<close> and \<open>parse_time\<close> are
  \<^verbatim>\<open>time.RFC3339Nano\<close>, \<open>fmt_now\<close> the layout \<^verbatim>\<open>time.RFC3339\<close> of \<^verbatim>\<open>store.Now\<close>, \<open>b64\<close> and \<open>unb64\<close> the
  base64 of a \<^verbatim>\<open>[]byte\<close> member, \<open>json_text\<close> and \<open>json_parse\<close> the text of \<^verbatim>\<open>json.Marshal\<close> and its
  inverse, \<open>sha256_hex\<close> the digest, \<open>home\<close> the environment variable HOME.
\<close>

record lib =
  fmt_time :: "time \<Rightarrow> string"
  fmt_now :: "time \<Rightarrow> string"
  parse_time :: "string \<Rightarrow> time option"
  b64 :: "bytes \<Rightarrow> string"
  unb64 :: "string \<Rightarrow> bytes option"
  json_text :: "json \<Rightarrow> string"
  json_parse :: "string \<Rightarrow> json option"
  sha256_hex :: "string \<Rightarrow> string"
  home :: string

definition lib_ok :: "lib \<Rightarrow> bool" where
  "lib_ok L \<longleftrightarrow> (\<forall>t. parse_time L (fmt_time L t) = Some t) \<and> (\<forall>t. parse_time L (fmt_now L t) \<noteq> None)
     \<and> (\<forall>b. unb64 L (b64 L b) = Some b)"

text \<open>Raw JSON text that \<^verbatim>\<open>json.Marshal\<close> embeds and \<^verbatim>\<open>json.Unmarshal\<close> returns unchanged.\<close>

definition raw_ok :: "lib \<Rightarrow> bytes \<Rightarrow> bool" where
  "raw_ok L b \<longleftrightarrow> (case json_parse L b of None \<Rightarrow> False | Some j \<Rightarrow> json_text L j = b)"

lemma lib_okD:
  "lib_ok L \<Longrightarrow> parse_time L (fmt_time L t) = Some t"
  "lib_ok L \<Longrightarrow> \<exists>u. parse_time L (fmt_now L t) = Some u"
  "lib_ok L \<Longrightarrow> unb64 L (b64 L b) = Some b"
  by (auto simp: lib_ok_def)

section \<open>Objects\<close>

definition members :: "(string \<times> json option) list \<Rightarrow> members" where
  \<comment> \<open>the members a struct marshals to; \<open>None\<close> is a field that \<^verbatim>\<open>omitempty\<close> drops\<close>
  "members fs = List.map_filter (\<lambda>(k, v). map_option (Pair k) v) fs"

definition jget :: "string \<Rightarrow> members \<Rightarrow> json option" where
  \<comment> \<open>the member that \<^verbatim>\<open>json.Unmarshal\<close> stores into the field named \<open>k\<close>: the last that matches\<close>
  "jget k ms = (case filter (\<lambda>(k', _). equal_fold k' k) ms of
     [] \<Rightarrow> None | kvs \<Rightarrow> Some (snd (last kvs)))"

definition distinct_names :: "string list \<Rightarrow> bool" where
  "distinct_names ks = distinct (map fold_case ks)"

lemma members_filter_none:
  "\<forall>(k', v) \<in> set fs. \<not> equal_fold k' k \<Longrightarrow>
     filter (\<lambda>(k', _). equal_fold k' k) (members fs) = []"
  by (induction fs) (auto simp: members_def map_filter_def split: option.splits)

lemma jget_members:
  assumes "distinct_names (map fst fs)" "k \<in> set (map fst fs)"
  shows "jget k (members fs) = the (map_of fs k)"
  using assms
proof (induction fs)
  case (Cons f fs)
  obtain k' v where f: "f = (k', v)" by fastforce
  show ?case
  proof (cases "k' = k")
    case True
    have "\<forall>(k'', v) \<in> set fs. \<not> equal_fold k'' k"
      using Cons.prems(1) True by (force simp: f distinct_names_def equal_fold_def)
    then have "filter (\<lambda>(k', _). equal_fold k' k) (members fs) = []"
      by (rule members_filter_none)
    then show ?thesis using True
      by (auto simp: f jget_def members_def map_filter_def split: option.splits)
  next
    case False
    then have "k \<in> set (map fst fs)" using Cons.prems(2) by (simp add: f)
    moreover from this have "\<not> equal_fold k' k"
      using Cons.prems(1) by (force simp: f distinct_names_def equal_fold_def)
    ultimately show ?thesis using Cons False
      by (auto simp: f jget_def members_def map_filter_def distinct_names_def split: option.splits)
  qed
qed simp

section \<open>Scalars\<close>

definition jnum :: "int \<Rightarrow> json" where
  "jnum n = JNum (of_int n)"

definition omit_str :: "string \<Rightarrow> json option" where
  "omit_str s = (if s = '''' then None else Some (JStr s))"

definition omit_num :: "int \<Rightarrow> json option" where
  "omit_num n = (if n = 0 then None else Some (jnum n))"

definition jtime :: "lib \<Rightarrow> time \<Rightarrow> json" where
  "jtime L t = JStr (fmt_time L t)"

definition jstrs :: "string list \<Rightarrow> json" where
  "jstrs ss = JArr (map JStr ss)"

definition dec_str :: "json \<Rightarrow> string res" where
  "dec_str j = (case j of JStr s \<Rightarrow> Inr s | JNull \<Rightarrow> Inr '''' | _ \<Rightarrow> Inl (JsonError ''string''))"

definition dec_int :: "json \<Rightarrow> int res" where
  "dec_int j = (case j of
     JNum q \<Rightarrow> (if of_int \<lfloor>q\<rfloor> = q then Inr \<lfloor>q\<rfloor> else Inl (JsonError ''int''))
   | JNull \<Rightarrow> Inr 0 | _ \<Rightarrow> Inl (JsonError ''int''))"

definition dec_time :: "lib \<Rightarrow> json \<Rightarrow> time res" where
  "dec_time L j = (case j of
     JStr s \<Rightarrow> (case parse_time L s of Some t \<Rightarrow> Inr t | None \<Rightarrow> Inl (JsonError ''time''))
   | JNull \<Rightarrow> Inr 0 | _ \<Rightarrow> Inl (JsonError ''time''))"

definition dec_bytes :: "lib \<Rightarrow> json \<Rightarrow> bytes res" where
  "dec_bytes L j = (case j of
     JStr s \<Rightarrow> (case unb64 L s of Some b \<Rightarrow> Inr b | None \<Rightarrow> Inl (JsonError ''base64''))
   | JNull \<Rightarrow> Inr [] | _ \<Rightarrow> Inl (JsonError ''[]byte''))"

definition dec_list :: "(json \<Rightarrow> 'a res) \<Rightarrow> json \<Rightarrow> 'a list res" where
  "dec_list d j = (case j of JArr js \<Rightarrow> mapE d js | JNull \<Rightarrow> Inr [] | _ \<Rightarrow> Inl (JsonError ''array''))"

definition dec_struct :: "(members \<Rightarrow> 'a res) \<Rightarrow> json \<Rightarrow> 'a res" where
  "dec_struct d j = (case j of JObj ms \<Rightarrow> d ms | JNull \<Rightarrow> d [] | _ \<Rightarrow> Inl (JsonError ''struct''))"

definition get :: "(json \<Rightarrow> 'a res) \<Rightarrow> 'a \<Rightarrow> string \<Rightarrow> members \<Rightarrow> 'a res" where
  \<comment> \<open>a struct field: absent or null keeps the zero value \<open>z\<close>\<close>
  "get d z k ms = (case jget k ms of None \<Rightarrow> Inr z | Some j \<Rightarrow> if j = JNull then Inr z else d j)"

text \<open>A \<^verbatim>\<open>float64\<close> that is finite is a rational number; the others do not marshal.\<close>

datatype float64 = Finite rat | NonFinite

definition enc_float :: "float64 \<Rightarrow> json res" where
  "enc_float x = (case x of Finite q \<Rightarrow> Inr (JNum q) | NonFinite \<Rightarrow> Inl (JsonError ''float64''))"

definition dec_float :: "json \<Rightarrow> float64 res" where
  "dec_float j = (case j of JNum q \<Rightarrow> Inr (Finite q) | JNull \<Rightarrow> Inr (Finite 0) | _ \<Rightarrow> Inl (JsonError ''float64''))"

text \<open>A \<^verbatim>\<open>json.RawMessage\<close> field: its own text goes in and comes out, null included.\<close>

definition enc_raw :: "lib \<Rightarrow> bytes \<Rightarrow> json res" where
  "enc_raw L b = (if b = [] then Inr JNull else
     case json_parse L b of Some j \<Rightarrow> Inr j | None \<Rightarrow> Inl (JsonError ''RawMessage''))"

definition omit_raw :: "lib \<Rightarrow> bytes \<Rightarrow> json option res" where
  "omit_raw L b = (if b = [] then Inr None else bindE (enc_raw L b) (\<lambda>j. Inr (Some j)))"

definition get_raw :: "lib \<Rightarrow> string \<Rightarrow> members \<Rightarrow> bytes res" where
  "get_raw L k ms = (case jget k ms of None \<Rightarrow> Inr [] | Some j \<Rightarrow> Inr (json_text L j))"

lemma dec_scalars [simp]:
  "dec_str (JStr s) = Inr s"
  "dec_int (jnum n) = Inr n"
  by (simp_all add: dec_str_def dec_int_def jnum_def)

lemma dec_lib_scalars [simp]:
  "lib_ok L \<Longrightarrow> dec_time L (jtime L t) = Inr t"
  "lib_ok L \<Longrightarrow> dec_bytes L (JStr (b64 L b)) = Inr b"
  by (simp_all add: dec_time_def dec_bytes_def jtime_def lib_okD)

lemma dec_jstrs [simp]: "dec_list dec_str (jstrs ss) = Inr ss"
  by (induction ss) (simp_all add: dec_list_def jstrs_def)

lemma scalar_not_null [simp]:
  "jnum n \<noteq> JNull" "jtime L t \<noteq> JNull" "jstrs ss \<noteq> JNull"
  by (simp_all add: jnum_def jtime_def jstrs_def)

lemma get_Some: "jget k ms = Some j \<Longrightarrow> j \<noteq> JNull \<Longrightarrow> get d z k ms = d j"
  by (simp add: get_def)

lemma get_omit_str: "jget k ms = omit_str s \<Longrightarrow> get dec_str '''' k ms = Inr s"
  by (simp add: get_def omit_str_def)

lemma get_omit_num: "jget k ms = omit_num n \<Longrightarrow> get dec_int 0 k ms = Inr n"
  by (simp add: get_def omit_num_def)

lemma get_raw_omit:
  assumes "omit_raw L b = Inr oj" "b = [] \<or> raw_ok L b" "jget k ms = oj"
  shows "get_raw L k ms = Inr b"
proof (cases "b = []")
  case True
  then show ?thesis using assms by (auto simp: omit_raw_def get_raw_def)
next
  case False
  then obtain j where j: "json_parse L b = Some j" "json_text L j = b"
    using assms(2) by (auto simp: raw_ok_def split: option.splits)
  then have "oj = Some j" using assms(1) False by (simp add: omit_raw_def enc_raw_def)
  then show ?thesis using assms(3) j(2) by (simp add: get_raw_def)
qed

lemma omit_raw_ok: "b = [] \<or> raw_ok L b \<Longrightarrow> \<exists>oj. omit_raw L b = Inr oj"
  by (auto simp: omit_raw_def enc_raw_def raw_ok_def split: option.splits)

section \<open>Codecs\<close>

text \<open>
  The contract of a pair of encoder and decoder: on the values \<open>ok\<close> the encoder succeeds
  and the decoder returns the value.  Lists of such values, and optional tails, then
  round-trip as well.
\<close>

locale codec =
  fixes enc :: "'a \<Rightarrow> json res"
    and dec :: "json \<Rightarrow> 'a res"
    and ok :: "'a \<Rightarrow> bool"
  assumes enc_dec: "ok x \<Longrightarrow> \<exists>j. enc x = Inr j \<and> dec j = Inr x"
begin

lemma enc_succeeds: "ok x \<Longrightarrow> \<exists>j. enc x = Inr j"
  using enc_dec by blast

lemma dec_enc: "ok x \<Longrightarrow> enc x = Inr j \<Longrightarrow> dec j = Inr x"
  using enc_dec by fastforce

lemma enc_inj: "ok x \<Longrightarrow> ok y \<Longrightarrow> enc x = enc y \<Longrightarrow> x = y"
  using enc_dec by (metis sum.inject(2))

lemma mapE_enc_dec: "\<forall>x \<in> set xs. ok x \<Longrightarrow> \<exists>js. mapE enc xs = Inr js \<and> mapE dec js = Inr xs"
proof (induction xs)
  case (Cons x xs)
  then obtain j js where "enc x = Inr j" "dec j = Inr x" "mapE enc xs = Inr js" "mapE dec js = Inr xs"
    using enc_dec by (auto simp: Ball_def) (metis)
  then show ?case by simp
qed simp

end

end
