(* ===== verification/Go_Path.thy ===== *)
theory Go_Path
  imports Wingman_Prelude
begin

text \<open>
  The functions of Go's \<^verbatim>\<open>strings\<close> and \<^verbatim>\<open>path/filepath\<close> (Unix) that the program calls on paths:
  \<^verbatim>\<open>strings.Split\<close> at one byte, \<^verbatim>\<open>filepath.Clean\<close>, \<^verbatim>\<open>filepath.IsAbs\<close>.  \<^verbatim>\<open>filepath.ToSlash\<close> is the
  identity on Unix.
\<close>

fun split_on :: "char \<Rightarrow> string \<Rightarrow> string list" where
  "split_on c [] = [[]]"
| "split_on c (x # s) = (if x = c then [] # split_on c s
     else (case split_on c s of [] \<Rightarrow> [[x]] | w # ws \<Rightarrow> (x # w) # ws))"

definition join_with :: "char \<Rightarrow> string list \<Rightarrow> string" where
  "join_with c ws = (case ws of [] \<Rightarrow> [] | w # ws \<Rightarrow> w @ concat (map (\<lambda>v. c # v) ws))"

lemma split_on_nonempty [simp]: "split_on c s \<noteq> []"
  by (induction s) (auto split: list.splits)

lemma join_split [simp]: "join_with c (split_on c s) = s"
  by (induction s) (auto simp: join_with_def split: list.splits)

lemma split_on_no_sep: "w \<in> set (split_on c s) \<Longrightarrow> c \<notin> set w"
  by (induction s arbitrary: w) (auto split: list.splits if_splits)

definition is_abs :: "string \<Rightarrow> bool" where
  "is_abs p = has_prefix p ''/''"

fun clean_segments :: "bool \<Rightarrow> string list \<Rightarrow> string list \<Rightarrow> string list" where
  \<comment> \<open>the elements kept so far, the last one first\<close>
  "clean_segments rooted [] out = out"
| "clean_segments rooted (w # ws) out =
     (if w = '''' \<or> w = ''.'' then clean_segments rooted ws out
      else if w = ''..'' then
        (case out of
           [] \<Rightarrow> clean_segments rooted ws (if rooted then [] else [''..''])
         | v # vs \<Rightarrow> clean_segments rooted ws (if v = ''..'' then ''..'' # out else vs))
      else clean_segments rooted ws (w # out))"

definition path_clean :: "string \<Rightarrow> string" where
  "path_clean p =
     (let segs = rev (clean_segments (is_abs p) (split_on CHR ''/'' p) []) in
      if is_abs p then CHR ''/'' # join_with CHR ''/'' segs
      else if segs = [] then ''.'' else join_with CHR ''/'' segs)"

lemma path_clean_abs: "is_abs p \<Longrightarrow> \<exists>t. path_clean p = CHR ''/'' # t"
  by (simp add: path_clean_def)

end
