(* ===== verification/Permission.thy ===== *)
theory Permission
  imports Go_Json Go_Path
begin

text \<open>
  \<^verbatim>\<open>permission/permission.go\<close>: rules, their evaluation (the last match wins), the wildcard
  matcher with its single backtracking point, the expansion of the home directory, and the
  JSON forms a ruleset may be written in.  The matcher is proved equivalent to a direct
  definition of the pattern language, and evaluation to a search from the end of the rules.
\<close>

type_synonym effect = string

definition EffectAllow :: effect where "EffectAllow = ''allow''"
definition EffectAsk :: effect where "EffectAsk = ''ask''"
definition EffectDeny :: effect where "EffectDeny = ''deny''"

lemmas effect_defs = EffectAllow_def EffectAsk_def EffectDeny_def

record rule =
  rule_Action :: string
  rule_Resource :: string
  rule_Effect :: effect

type_synonym ruleset = "rule list"

record decision =
  dec_Effect :: effect
  dec_Rule :: "rule option"

section \<open>The wildcard matcher\<close>

text \<open>
  The loop of \<^verbatim>\<open>wildcardMatch\<close>.  \<open>i\<close> and \<open>j\<close> are the positions \<^verbatim>\<open>pi\<close> and \<^verbatim>\<open>vi\<close> in the pattern and the
  value, \<open>star\<close> the position of the last star taken (\<open>None\<close> for \<^verbatim>\<open>-1\<close>) and \<open>mt\<close> the value
  position it was last tried at.  \<open>None\<close> as the result would be a loop that does not end.
\<close>

partial_function (option) wildcard_loop ::
    "string \<Rightarrow> string \<Rightarrow> nat \<Rightarrow> nat \<Rightarrow> nat option \<Rightarrow> nat \<Rightarrow> bool option" where
  [code]: "wildcard_loop p v i j star mt =
     (if j < length v then
        (if i < length p \<and> (p ! i = CHR ''?'' \<or> p ! i = v ! j)
         then wildcard_loop p v (i + 1) (j + 1) star mt
         else if i < length p \<and> p ! i = CHR ''*''
         then wildcard_loop p v (i + 1) j (Some i) j
         else (case star of
             Some st \<Rightarrow> wildcard_loop p v (st + 1) (mt + 1) (Some st) (mt + 1)
           | None \<Rightarrow> Some False))
      else Some (dropWhile (\<lambda>c. c = CHR ''*'') (drop i p) = []))"

definition wildcardMatch :: "string \<Rightarrow> string \<Rightarrow> bool option" where
  "wildcardMatch pattern v = wildcard_loop pattern v 0 0 None 0"

text \<open>
  The pattern language the matcher is for: \<^verbatim>\<open>?\<close> stands for one byte, \<^verbatim>\<open>*\<close> for any number of
  bytes, every other byte for itself.
\<close>

fun glob :: "string \<Rightarrow> string \<Rightarrow> bool" where
  "glob [] v = (v = [])"
| "glob (c # p) [] = (c = CHR ''*'' \<and> glob p [])"
| "glob (c # p) (x # v) =
     (if c = CHR ''*'' then glob p (x # v) \<or> glob (c # p) v
      else (c = CHR ''?'' \<or> c = x) \<and> glob p v)"

lemma glob_star: "glob (CHR ''*'' # p) v \<longleftrightarrow> (\<exists>k \<le> length v. glob p (drop k v))"
proof (induction v)
  case (Cons x v)
  have "(\<exists>k \<le> length (x # v). glob p (drop k (x # v)))
      \<longleftrightarrow> glob p (x # v) \<or> (\<exists>k \<le> length v. glob p (drop k v))"
    by (metis Suc_le_mono drop0 drop_Suc_Cons le0 length_Cons not0_implies_Suc)
  then show ?case using Cons by simp
qed simp

lemma glob_Nil_value: "glob p [] \<longleftrightarrow> (\<forall>c \<in> set p. c = CHR ''*'')"
  by (induction p) auto

lemma glob_prefix_no_star:
  "CHR ''*'' \<notin> set q \<Longrightarrow> glob (q @ p) v \<Longrightarrow> length q \<le> length v \<and> glob p (drop (length q) v)"
proof (induction q arbitrary: v)
  case (Cons c q)
  then show ?case by (cases v) auto
qed simp

lemma drop_nth: "i < length xs \<Longrightarrow> drop i xs = xs ! i # drop (i + 1) xs"
  by (simp add: Cons_nth_drop_Suc)

lemma glob_step:
  assumes "j < length v" "i < length p" "p ! i \<noteq> CHR ''*''"
  shows "glob (drop i p) (drop j v) \<longleftrightarrow>
    (p ! i = CHR ''?'' \<or> p ! i = v ! j) \<and> glob (drop (i + 1) p) (drop (j + 1) v)"
  unfolding drop_nth [OF assms(1)] drop_nth [OF assms(2)] using assms(3) by simp

lemma glob_at_star:
  assumes "i < length p" "p ! i = CHR ''*''" "j \<le> length v"
  shows "glob (drop i p) (drop j v) \<longleftrightarrow>
    (\<exists>k. j \<le> k \<and> k \<le> length v \<and> glob (drop (i + 1) p) (drop k v))" (is "?L \<longleftrightarrow> ?R")
proof -
  have "?L \<longleftrightarrow> (\<exists>k \<le> length v - j. glob (drop (i + 1) p) (drop (j + k) v))"
    unfolding drop_nth [OF assms(1)] assms(2) glob_star by (simp add: add.commute)
  also have "\<dots> \<longleftrightarrow> ?R"
  proof
    assume "\<exists>k \<le> length v - j. glob (drop (i + 1) p) (drop (j + k) v)"
    then obtain k where "k \<le> length v - j" "glob (drop (i + 1) p) (drop (j + k) v)" by blast
    then show ?R using assms(3) by (intro exI [of _ "j + k"]) auto
  next
    assume ?R
    then obtain k where "j \<le> k" "k \<le> length v" "glob (drop (i + 1) p) (drop k v)" by blast
    then show "\<exists>k \<le> length v - j. glob (drop (i + 1) p) (drop (j + k) v)"
      by (intro exI [of _ "k - j"]) auto
  qed
  finally show ?thesis .
qed

text \<open>
  What the loop keeps true: after a star at \<open>st\<close> last tried at \<open>mt\<close>, the pattern between the
  star and \<open>i\<close> has matched the value between \<open>mt\<close> and \<open>j\<close> byte by byte.
\<close>

definition loop_inv :: "string \<Rightarrow> string \<Rightarrow> nat \<Rightarrow> nat \<Rightarrow> nat option \<Rightarrow> nat \<Rightarrow> bool" where
  "loop_inv p v i j star mt \<longleftrightarrow> i \<le> length p \<and> j \<le> length v \<and>
     (case star of None \<Rightarrow> True | Some st \<Rightarrow> st < i \<and> mt \<le> j \<and> j - mt = i - st - 1)"

definition loop_measure :: "string \<Rightarrow> string \<Rightarrow> nat \<Rightarrow> nat \<Rightarrow> nat option \<Rightarrow> nat \<Rightarrow> nat \<times> nat \<times> nat" where
  "loop_measure p v i j star mt = (case star of None \<Rightarrow> (Suc (length v), 0, length v - j)
     | Some st \<Rightarrow> (length v - mt, length p - st, length v - j))"

definition rest_matches :: "string \<Rightarrow> string \<Rightarrow> nat \<Rightarrow> nat \<Rightarrow> nat option \<Rightarrow> nat \<Rightarrow> bool" where
  \<comment> \<open>the rest of the pattern matches here, or the last star can absorb more and match later\<close>
  "rest_matches p v i j star mt \<longleftrightarrow> glob (drop i p) (drop j v) \<or>
     (case star of None \<Rightarrow> False
      | Some st \<Rightarrow> \<exists>k. mt < k \<and> k \<le> length v \<and> glob (drop (st + 1) p) (drop k v))"

lemma glob_literal_star:
  assumes "i < length p" "p ! i = CHR ''*''" "j < length v"
    "glob (drop (i + 1) p) (drop (j + 1) v)"
  shows "glob (drop i p) (drop j v)"
  using assms glob_at_star [OF assms(1,2), of j v] by (auto intro!: exI [of _ "j + 1"])

text \<open>The five ways an iteration can go, as equations and as an induction rule over the loop.\<close>

lemma wildcard_loop_cases:
  "\<not> j < length v \<Longrightarrow> wildcard_loop p v i j star mt = Some (dropWhile (\<lambda>c. c = CHR ''*'') (drop i p) = [])"
  "j < length v \<Longrightarrow> i < length p \<Longrightarrow> p ! i = CHR ''?'' \<or> p ! i = v ! j \<Longrightarrow>
     wildcard_loop p v i j star mt = wildcard_loop p v (i + 1) (j + 1) star mt"
  "j < length v \<Longrightarrow> i < length p \<Longrightarrow> p ! i \<noteq> v ! j \<Longrightarrow> p ! i = CHR ''*'' \<Longrightarrow>
     wildcard_loop p v i j star mt = wildcard_loop p v (i + 1) j (Some i) j"
  "j < length v \<Longrightarrow> \<not> (i < length p \<and> p ! i \<in> {CHR ''?'', v ! j, CHR ''*''}) \<Longrightarrow>
     wildcard_loop p v i j (Some st) mt = wildcard_loop p v (st + 1) (mt + 1) (Some st) (mt + 1)"
  "j < length v \<Longrightarrow> \<not> (i < length p \<and> p ! i \<in> {CHR ''?'', v ! j, CHR ''*''}) \<Longrightarrow>
     wildcard_loop p v i j None mt = Some False"
  by (auto simp: wildcard_loop.simps [of p v i j])

lemma wildcard_loop_induct [consumes 1, case_names finish lit star retry stuck]:
  assumes "loop_inv p v i j star mt"
    and "\<And>i j star mt. loop_inv p v i j star mt \<Longrightarrow> \<not> j < length v \<Longrightarrow> P i j star mt"
    and "\<And>i j star mt. loop_inv p v i j star mt \<Longrightarrow> j < length v \<Longrightarrow> i < length p \<Longrightarrow>
      p ! i = CHR ''?'' \<or> p ! i = v ! j \<Longrightarrow> P (i + 1) (j + 1) star mt \<Longrightarrow> P i j star mt"
    and "\<And>i j star mt. loop_inv p v i j star mt \<Longrightarrow> j < length v \<Longrightarrow> i < length p \<Longrightarrow>
      p ! i \<noteq> v ! j \<Longrightarrow> p ! i = CHR ''*'' \<Longrightarrow> P (i + 1) j (Some i) j \<Longrightarrow> P i j star mt"
    and "\<And>i j st mt. loop_inv p v i j (Some st) mt \<Longrightarrow> j < length v \<Longrightarrow>
      \<not> (i < length p \<and> p ! i \<in> {CHR ''?'', v ! j, CHR ''*''}) \<Longrightarrow>
      P (st + 1) (mt + 1) (Some st) (mt + 1) \<Longrightarrow> P i j (Some st) mt"
    and "\<And>i j mt. loop_inv p v i j None mt \<Longrightarrow> j < length v \<Longrightarrow>
      \<not> (i < length p \<and> p ! i \<in> {CHR ''?'', v ! j, CHR ''*''}) \<Longrightarrow> P i j None mt"
  shows "P i j star mt"
  using assms(1)
proof (induction "loop_measure p v i j star mt" arbitrary: i j star mt
    rule: wf_induct_rule [OF wf_lex_prod [OF wf_less_than wf_lex_prod [OF wf_less_than wf_less_than]]])
  case less: 1
  note inv = less.prems and IH = less.hyps
  consider "\<not> j < length v"
    | "j < length v" "i < length p" "p ! i = CHR ''?'' \<or> p ! i = v ! j"
    | "j < length v" "i < length p" "p ! i \<noteq> v ! j" "p ! i = CHR ''*''"
    | st where "star = Some st" "j < length v" "\<not> (i < length p \<and> p ! i \<in> {CHR ''?'', v ! j, CHR ''*''})"
    | "star = None" "j < length v" "\<not> (i < length p \<and> p ! i \<in> {CHR ''?'', v ! j, CHR ''*''})"
    by (cases star; cases "j < length v"; cases "v ! j = CHR ''*''";
        cases "i < length p \<and> p ! i \<in> {CHR ''?'', v ! j, CHR ''*''}") auto
  then show ?case
  proof cases
    case 2
    then have "P (i + 1) (j + 1) star mt"
      using inv by (intro IH) (auto simp: loop_measure_def loop_inv_def split: option.splits)
    with inv 2 show ?thesis by (rule assms(3))
  next
    case 3
    then have "P (i + 1) j (Some i) j"
      using inv by (intro IH) (auto simp: loop_measure_def loop_inv_def split: option.splits)
    with inv 3 show ?thesis by (rule assms(4))
  next
    case 4
    then have "P (st + 1) (mt + 1) (Some st) (mt + 1)"
      using inv by (intro IH) (auto simp: loop_measure_def loop_inv_def)
    with inv 4 show ?thesis by (simp only:) (rule assms(5))
  qed (use inv assms(2,6) in auto)
qed

lemma wildcard_loop_sound:
  "loop_inv p v i j star mt \<Longrightarrow>
    \<exists>b. wildcard_loop p v i j star mt = Some b \<and> (b \<longrightarrow> rest_matches p v i j star mt)"
proof (induction rule: wildcard_loop_induct)
  case (finish i j star mt)
  then show ?case
    by (auto simp: wildcard_loop_cases(1) rest_matches_def loop_inv_def glob_Nil_value)
next
  case (lit i j star mt)
  have "rest_matches p v (i + 1) (j + 1) star mt \<Longrightarrow> rest_matches p v i j star mt"
    using lit glob_step [of j v i p] glob_literal_star [of i p j v]
    by (cases "p ! i = CHR ''*''") (auto simp: rest_matches_def)
  then show ?case using lit by (auto simp: wildcard_loop_cases(2))
next
  case (star i j star mt)
  have "rest_matches p v (i + 1) j (Some i) j \<Longrightarrow> rest_matches p v i j star mt"
    using star glob_at_star [of i p j v] by (auto simp: rest_matches_def intro: less_imp_le_nat)
  then show ?case using star by (auto simp: wildcard_loop_cases(3))
next
  case (retry i j st mt)
  have "mt + 1 \<le> length v" using retry by (auto simp: loop_inv_def)
  then have "rest_matches p v (st + 1) (mt + 1) (Some st) (mt + 1) \<Longrightarrow> rest_matches p v i j (Some st) mt"
    by (auto simp: rest_matches_def)
  then show ?case using retry by (auto simp: wildcard_loop_cases(4))
next
  case (stuck i j mt)
  then show ?case by (auto simp: wildcard_loop_cases(5) intro: exI [of _ False])
qed

text \<open>
  Completeness needs two more facts: the pattern between the star and \<open>i\<close> holds no star of
  its own, and the value holds no star, which the loop would take for a literal match.
\<close>

definition star_free_between :: "string \<Rightarrow> nat \<Rightarrow> nat option \<Rightarrow> bool" where
  "star_free_between p i star \<longleftrightarrow> (case star of None \<Rightarrow> True
     | Some st \<Rightarrow> CHR ''*'' \<notin> set (take (i - (st + 1)) (drop (st + 1) p)))"

lemma star_match_moves_along:
  assumes "loop_inv p v i j (Some st) mt" "star_free_between p i (Some st)"
    and "mt < k" "k \<le> length v" "glob (drop (st + 1) p) (drop k v)"
  shows "\<exists>k'. j < k' \<and> k' \<le> length v \<and> glob (drop i p) (drop k' v)"
proof -
  let ?q = "take (i - (st + 1)) (drop (st + 1) p)"
  have "st + 1 \<le> i" using assms(1) by (simp add: loop_inv_def)
  then have split: "drop (st + 1) p = ?q @ drop i p"
    by (metis append_take_drop_id drop_drop le_add_diff_inverse2)
  have len: "length ?q = j - mt" using assms(1) by (auto simp: loop_inv_def)
  have "length ?q \<le> length (drop k v) \<and> glob (drop i p) (drop (length ?q) (drop k v))"
    by (rule glob_prefix_no_star) (use assms(2,5) split in \<open>auto simp: star_free_between_def\<close>)
  then have "j - mt \<le> length (drop k v)" "glob (drop i p) (drop (j - mt) (drop k v))"
    unfolding len by blast+
  then have "j - mt \<le> length v - k" "glob (drop i p) (drop (k + (j - mt)) v)"
    by (simp_all add: add.commute)
  moreover have "mt \<le> j" using assms(1) by (simp add: loop_inv_def)
  ultimately show ?thesis using assms(3,4) by (intro exI [of _ "k + (j - mt)"]) auto
qed

lemma glob_mismatch:
  assumes "j < length v" "\<not> (i < length p \<and> p ! i \<in> {CHR ''?'', v ! j, CHR ''*''})"
  shows "\<not> glob (drop i p) (drop j v)"
  using assms glob_step [OF assms(1), of i p] by (cases "i < length p") auto

lemma wildcard_loop_complete:
  assumes "loop_inv p v i j star mt" "CHR ''*'' \<notin> set v" "star_free_between p i star"
    and "rest_matches p v i j star mt"
  shows "wildcard_loop p v i j star mt = Some True"
  using assms(1,3,4)
proof (induction rule: wildcard_loop_induct)
  case (finish i j star mt)
  have "glob (drop i p) []"
    using finish star_match_moves_along [of p v i j _ mt]
    by (fastforce simp: rest_matches_def loop_inv_def split: option.splits)
  then show ?case using finish(2) by (simp add: wildcard_loop_cases(1) glob_Nil_value)
next
  case (lit i j star mt)
  have "v ! j \<noteq> CHR ''*''" using lit(2) assms(2) by (metis nth_mem)
  then have no_star: "p ! i \<noteq> CHR ''*''" using lit(4) by auto
  have "star_free_between p (i + 1) star"
  proof (cases star)
    case (Some st)
    then have "st + 1 \<le> i" using lit(1) by (simp add: loop_inv_def)
    moreover from this have "i + 1 - (st + 1) = Suc (i - (st + 1))" by simp
    ultimately have "take (i + 1 - (st + 1)) (drop (st + 1) p) = take (i - (st + 1)) (drop (st + 1) p) @ [p ! i]"
      using lit(3) by (simp only: take_Suc_conv_app_nth) (simp add: take_Suc_conv_app_nth)
    then show ?thesis using lit(6) no_star Some by (simp add: star_free_between_def)
  qed (simp add: star_free_between_def)
  moreover have "rest_matches p v (i + 1) (j + 1) star mt"
    using lit(7) glob_step [OF lit(2,3) no_star] by (auto simp: rest_matches_def)
  ultimately show ?case using lit by (simp add: wildcard_loop_cases(2))
next
  case (star i j star mt)
  have "\<exists>k. j \<le> k \<and> k \<le> length v \<and> glob (drop i p) (drop k v)"
  proof (cases "glob (drop i p) (drop j v)")
    case True
    then show ?thesis using star(2) by (intro exI [of _ j]) simp
  next
    case False
    then obtain st k where "star = Some st" "mt < k" "k \<le> length v" "glob (drop (st + 1) p) (drop k v)"
      using star(8) by (auto simp: rest_matches_def split: option.splits)
    then show ?thesis using star_match_moves_along [of p v i j st mt k] star(1,7)
      by (auto intro: less_imp_le_nat)
  qed
  then obtain k where "j \<le> k" "k \<le> length v" "glob (drop (i + 1) p) (drop k v)"
    using glob_at_star [OF star(3,5)] by (meson order_trans)
  then have "rest_matches p v (i + 1) j (Some i) j"
    by (cases "k = j") (auto simp: rest_matches_def)
  then show ?case using star by (simp add: wildcard_loop_cases(3) star_free_between_def)
next
  case (retry i j st mt)
  then obtain k where k: "mt < k" "k \<le> length v" "glob (drop (st + 1) p) (drop k v)"
    using glob_mismatch [OF retry(2,3)] by (auto simp: rest_matches_def)
  then have "rest_matches p v (st + 1) (mt + 1) (Some st) (mt + 1)"
    by (cases "k = mt + 1") (auto simp: rest_matches_def)
  then show ?case using retry by (simp add: wildcard_loop_cases(4) star_free_between_def)
next
  case (stuck i j mt)
  then show ?case using glob_mismatch [OF stuck(2,3)] by (simp add: rest_matches_def)
qed

lemma wildcardMatch_returns: "\<exists>b. wildcardMatch p v = Some b \<and> (b \<longrightarrow> glob p v)"
  using wildcard_loop_sound [of p v 0 0 None 0]
  by (simp add: wildcardMatch_def loop_inv_def rest_matches_def)

lemma wildcardMatch_glob:
  assumes "CHR ''*'' \<notin> set v"
  shows "wildcardMatch p v = Some (glob p v)"
  using wildcardMatch_returns [of p v] wildcard_loop_complete [of p v 0 0 None 0] assms
  by (auto simp: wildcardMatch_def loop_inv_def rest_matches_def star_free_between_def)

section \<open>Evaluation\<close>

definition match :: "string \<Rightarrow> string \<Rightarrow> bool" where
  "match pattern v =
     (let pattern = (if pattern = '''' then ''*'' else pattern) in
      if pattern = ''*'' \<or> pattern = v then True
      else the (wildcardMatch pattern v))"

fun evaluate_loop :: "string \<Rightarrow> string \<Rightarrow> ruleset \<Rightarrow> decision \<Rightarrow> decision" where
  "evaluate_loop action resource [] d = d"
| "evaluate_loop action resource (r # rs) d =
     (if \<not> match (rule_Action r) action \<or> \<not> match (rule_Resource r) resource
      then evaluate_loop action resource rs d
      else evaluate_loop action resource rs (d\<lparr>dec_Effect := rule_Effect r, dec_Rule := Some r\<rparr>))"

definition Evaluate :: "string \<Rightarrow> string \<Rightarrow> ruleset \<Rightarrow> effect \<Rightarrow> decision" where
  "Evaluate action resource rules defaultEffect =
     evaluate_loop action resource rules \<lparr>dec_Effect = defaultEffect, dec_Rule = None\<rparr>"

definition Merge :: "ruleset list \<Rightarrow> ruleset" where
  "Merge sets = fold (\<lambda>set out. out @ set) sets []"

definition applies :: "string \<Rightarrow> string \<Rightarrow> rule \<Rightarrow> bool" where
  "applies action resource r \<longleftrightarrow> match (rule_Action r) action \<and> match (rule_Resource r) resource"

lemma find_snoc: "List.find q (xs @ [x]) = (case List.find q xs of
    Some y \<Rightarrow> Some y | None \<Rightarrow> if q x then Some x else None)"
  by (induction xs) auto

lemma evaluate_loop_rev:
  "evaluate_loop a v rs d = (case List.find (applies a v) (rev rs) of
     Some r \<Rightarrow> d\<lparr>dec_Effect := rule_Effect r, dec_Rule := Some r\<rparr> | None \<Rightarrow> d)"
  by (induction rs arbitrary: d) (auto simp: applies_def find_snoc split: option.splits)

lemma Merge_concat: "Merge sets = concat sets"
proof -
  have "fold (\<lambda>set out. out @ set) sets acc = acc @ concat sets" for acc :: ruleset
    by (induction sets arbitrary: acc) auto
  then show ?thesis by (simp add: Merge_def)
qed

section \<open>Home directory and normal form of a rule\<close>

definition ExpandHome :: "string \<Rightarrow> string \<Rightarrow> string" where
  \<comment> \<open>the first argument is the value of HOME, the variable \<^verbatim>\<open>getenvHome\<close> reads\<close>
  "ExpandHome envHome pattern =
     (let home = trim_space (path_clean envHome); slashHome = home in
      if home = ''.'' \<or> home = '''' then pattern
      else if pattern = ''~'' then slashHome
      else if has_prefix pattern ''~/'' then slashHome @ ''/'' @ trim_prefix pattern ''~/''
      else if pattern = ''$HOME'' then slashHome
      else if has_prefix pattern ''$HOME/'' then slashHome @ ''/'' @ trim_prefix pattern ''$HOME/''
      else pattern)"

definition validateEffect :: "effect \<Rightarrow> unit res" where
  "validateEffect e = (if e = EffectAllow \<or> e = EffectAsk \<or> e = EffectDeny then Inr ()
     else Inl (Errorf ''unknown permission effect''))"

definition normalizeRule :: "string \<Rightarrow> rule \<Rightarrow> rule res" where
  "normalizeRule envHome r =
     (let r = (if rule_Action r = '''' then r\<lparr>rule_Action := ''*''\<rparr> else r);
          r = (if rule_Resource r = '''' then r\<lparr>rule_Resource := ''*''\<rparr> else r);
          r = r\<lparr>rule_Resource := ExpandHome envHome (rule_Resource r)\<rparr>
      in bindE (validateEffect (rule_Effect r)) (\<lambda>_. Inr r))"

section \<open>The JSON forms of a ruleset\<close>

definition enc_rule :: "rule \<Rightarrow> json" where
  "enc_rule r = JObj [(''action'', JStr (rule_Action r)), (''resource'', JStr (rule_Resource r)),
     (''effect'', JStr (rule_Effect r))]"

definition enc_ruleset :: "ruleset \<Rightarrow> json" where
  "enc_ruleset rs = JArr (map enc_rule rs)"

definition dec_rule :: "json \<Rightarrow> rule res" where
  "dec_rule = dec_struct (\<lambda>ms.
     bindE (get dec_str '''' ''action'' ms) (\<lambda>a.
     bindE (get dec_str '''' ''resource'' ms) (\<lambda>r.
     bindE (get dec_str '''' ''effect'' ms) (\<lambda>e.
     Inr \<lparr>rule_Action = a, rule_Resource = r, rule_Effect = e\<rparr>))))"

fun parseResourceMembers :: "string \<Rightarrow> string \<Rightarrow> members \<Rightarrow> ruleset res" where
  "parseResourceMembers envHome action [] = Inr []"
| "parseResourceMembers envHome action ((resource, v) # ms) =
     bindE (dec_str v) (\<lambda>e.
     bindE (validateEffect e) (\<lambda>_.
     bindE (normalizeRule envHome
       \<lparr>rule_Action = action, rule_Resource = ExpandHome envHome resource, rule_Effect = e\<rparr>) (\<lambda>r.
     bindE (parseResourceMembers envHome action ms) (\<lambda>rs. Inr (r # rs)))))"

definition parseResourceRules :: "string \<Rightarrow> string \<Rightarrow> json \<Rightarrow> ruleset res" where
  "parseResourceRules envHome action j = (case j of
     JObj ms \<Rightarrow> parseResourceMembers envHome action ms
   | _ \<Rightarrow> Inl (Errorf ''expected effect or resource map''))"

fun parseObjectMembers :: "string \<Rightarrow> members \<Rightarrow> ruleset res" where
  "parseObjectMembers envHome [] = Inr []"
| "parseObjectMembers envHome ((action, raw) # ms) =
     bindE (case dec_str raw of
         Inr e \<Rightarrow> bindE (validateEffect e) (\<lambda>_.
           bindE (normalizeRule envHome
             \<lparr>rule_Action = action, rule_Resource = ''*'', rule_Effect = e\<rparr>) (\<lambda>r. Inr [r]))
       | Inl _ \<Rightarrow> parseResourceRules envHome action raw) (\<lambda>rs.
     bindE (parseObjectMembers envHome ms) (\<lambda>rest. Inr (rs @ rest)))"

definition parseObjectRules :: "string \<Rightarrow> json \<Rightarrow> ruleset res" where
  "parseObjectRules envHome j = (case j of
     JObj ms \<Rightarrow> parseObjectMembers envHome ms
   | _ \<Rightarrow> Inl (Errorf ''permissions must be an effect, object, or rule array''))"

definition dec_ruleset :: "string \<Rightarrow> json \<Rightarrow> ruleset res" where
  \<comment> \<open>\<^verbatim>\<open>Ruleset.UnmarshalJSON\<close>\<close>
  "dec_ruleset envHome j = (case dec_list dec_rule j of
     Inr rules \<Rightarrow> mapE (normalizeRule envHome) rules
   | Inl _ \<Rightarrow> (case dec_str j of
       Inr e \<Rightarrow> bindE (validateEffect e) (\<lambda>_.
         Inr [\<lparr>rule_Action = ''*'', rule_Resource = ''*'', rule_Effect = e\<rparr>])
     | Inl _ \<Rightarrow> parseObjectRules envHome j))"

definition normal_rule :: "string \<Rightarrow> rule \<Rightarrow> bool" where
  \<comment> \<open>a rule as \<^verbatim>\<open>normalizeRule\<close> leaves it\<close>
  "normal_rule envHome r \<longleftrightarrow> rule_Action r \<noteq> '''' \<and> rule_Resource r \<noteq> '''' \<and>
     ExpandHome envHome (rule_Resource r) = rule_Resource r \<and> validateEffect (rule_Effect r) = Inr ()"

lemma normalizeRule_normal: "normal_rule h r \<Longrightarrow> normalizeRule h r = Inr r"
  by (simp add: normal_rule_def normalizeRule_def Let_def)

lemma dec_rule_enc [simp]: "dec_rule (enc_rule r) = Inr r"
  by (simp add: dec_rule_def enc_rule_def dec_struct_def get_def jget_def equal_fold_def
      fold_case_def to_lower_def)

lemma dec_ruleset_enc:
  "list_all (normal_rule h) rs \<Longrightarrow> dec_ruleset h (enc_ruleset rs) = Inr rs"
proof -
  assume "list_all (normal_rule h) rs"
  then have "mapE (normalizeRule h) rs = Inr (map (\<lambda>r. r) rs)"
    by (intro mapE_all_Inr) (auto simp: list_all_iff normalizeRule_normal)
  moreover have "mapE dec_rule (map enc_rule rs) = Inr (map (\<lambda>r. r) rs)"
    unfolding mapE_map by (rule mapE_all_Inr) simp
  ultimately show ?thesis by (simp add: dec_ruleset_def enc_ruleset_def dec_list_def)
qed

text \<open>With an absolute home directory the expansion is idempotent, so rules stay normal.\<close>

lemma trim_space_slash: "\<exists>t. trim_space (CHR ''/'' # s) = CHR ''/'' # t"
proof -
  have "\<exists>u. dropWhile is_space (xs @ [CHR ''/'']) = u @ [CHR ''/'']" for xs
    by (induction xs) (auto simp: is_space_def)
  from this [of "rev s"] show ?thesis
    by (auto simp: trim_space_def is_space_def) (metis rev_rev_ident)
qed

lemma home_absolute: "is_abs h \<Longrightarrow> \<exists>t. trim_space (path_clean h) = CHR ''/'' # t"
  using path_clean_abs trim_space_slash by metis

lemma ExpandHome_slash [simp]: "ExpandHome h (CHR ''/'' # s) = CHR ''/'' # s"
  by (simp add: ExpandHome_def has_prefix_def Let_def)

lemma ExpandHome_star [simp]: "ExpandHome h ''*'' = ''*''"
  by (simp add: ExpandHome_def has_prefix_def Let_def)

lemma ExpandHome_idem: "is_abs h \<Longrightarrow> ExpandHome h (ExpandHome h p) = ExpandHome h p"
proof -
  assume "is_abs h"
  then obtain t where t: "trim_space (path_clean h) = CHR ''/'' # t"
    using home_absolute by blast
  have "ExpandHome h p = p \<or> (\<exists>s. ExpandHome h p = CHR ''/'' # s)"
    by (auto simp: ExpandHome_def t Let_def)
  then show ?thesis by auto
qed

lemma ExpandHome_nonempty: "p \<noteq> '''' \<Longrightarrow> ExpandHome h p \<noteq> ''''"
  by (auto simp: ExpandHome_def Let_def)

lemma normalizeRule_result:
  "is_abs h \<Longrightarrow> normalizeRule h r = Inr r' \<Longrightarrow> normal_rule h r'"
  by (auto simp: normalizeRule_def normal_rule_def Let_def res_simps ExpandHome_idem
      ExpandHome_nonempty split: if_splits)

lemma mapE_normal:
  "is_abs h \<Longrightarrow> mapE (normalizeRule h) rs = Inr rs' \<Longrightarrow> list_all (normal_rule h) rs'"
  by (induction rs arbitrary: rs') (auto simp: res_simps normalizeRule_result)

lemma parseResourceMembers_normal:
  "is_abs h \<Longrightarrow> parseResourceMembers h a ms = Inr rs \<Longrightarrow> list_all (normal_rule h) rs"
  by (induction h a ms arbitrary: rs rule: parseResourceMembers.induct)
    (auto simp: res_simps normalizeRule_result)

lemma parseObjectMembers_normal:
  "is_abs h \<Longrightarrow> parseObjectMembers h ms = Inr rs \<Longrightarrow> list_all (normal_rule h) rs"
proof (induction h ms arbitrary: rs rule: parseObjectMembers.induct)
  case (2 h action raw ms)
  then show ?case
    by (auto simp: res_simps normalizeRule_result parseResourceRules_def
        intro: parseResourceMembers_normal split: sum.splits json.splits)
qed simp

lemma dec_ruleset_normal:
  assumes "is_abs h" "dec_ruleset h j = Inr rs"
  shows "list_all (normal_rule h) rs"
proof (cases "dec_list dec_rule j")
  case (Inr rules)
  then show ?thesis using assms by (auto simp: dec_ruleset_def intro: mapE_normal)
next
  case list: (Inl e)
  show ?thesis
  proof (cases "dec_str j")
    case (Inr s)
    then show ?thesis using assms list
      by (auto simp: dec_ruleset_def res_simps normal_rule_def)
  next
    case (Inl e')
    then show ?thesis using assms list
      by (auto simp: dec_ruleset_def parseObjectRules_def intro: parseObjectMembers_normal
          split: json.splits)
  qed
qed

end
