(* ===== verification/Model_Content.thy ===== *)
theory Model_Content
  imports Permission
begin

text \<open>
  The messages of \<^verbatim>\<open>models/models.go\<close> and the stream parts of \<^verbatim>\<open>models/stream.go\<close>: content parts,
  messages, token usage, the normalization of tool messages into the assistant's tool parts and the
  expansion back into what a provider is sent.

  A struct is a record.  The structs that hold parts themselves are split: the list of parts,
  \<^verbatim>\<open>OutputParts\<close> of a tool part and \<^verbatim>\<open>Output\<close> of a tool result, is an argument of the constructor
  of \<open>part\<close>, the other fields are its record.  A map that may be nil is an option.  Token counts are
  unbounded integers.
\<close>

section \<open>Parts\<close>

type_synonym meta = "members option"
type_synonym args = "members option" \<comment> \<open>a \<^verbatim>\<open>map[string]any\<close>\<close>

record text_part =
  txt_ID :: string
  txt_Text :: string
  txt_ProviderMetadata :: meta

record image_part =
  img_ID :: string
  img_URL :: string
  img_Base64 :: string
  img_MediaType :: string
  img_ProviderMetadata :: meta

record reasoning_part =
  rsn_ID :: string
  rsn_Reasoning :: string
  rsn_Encrypted :: string
  rsn_ProviderMetadata :: meta

record tool_part =
  \<comment> \<open>but its \<^verbatim>\<open>OutputParts\<close>\<close>
  tpt_ID :: string
  tpt_ToolUseID :: string
  tpt_CallID :: string
  tpt_Name :: string
  tpt_State :: string
  tpt_Input :: args
  tpt_InputRaw :: string
  tpt_Output :: string
  tpt_Structured :: json
  tpt_Metadata :: meta
  tpt_ProviderExecuted :: bool
  tpt_ProviderMetadata :: meta
  tpt_Error :: string
  tpt_StartedAt :: int
  tpt_CompletedAt :: int

record tool_call_part =
  tcp_ID :: string
  tcp_ToolUseID :: string
  tcp_CallID :: string
  tcp_Name :: string
  tcp_Input :: args
  tcp_ProviderExecuted :: bool
  tcp_ProviderMetadata :: meta

record tool_result_part =
  \<comment> \<open>but its \<^verbatim>\<open>Output\<close>\<close>
  trp_ID :: string
  trp_ToolUseID :: string
  trp_CallID :: string
  trp_Name :: string
  trp_Structured :: json
  trp_IsError :: bool
  trp_Metadata :: meta
  trp_ProviderExecuted :: bool
  trp_ProviderMetadata :: meta

record opaque_part =
  opq_TypeName :: string
  opq_ID :: string
  opq_Raw :: bytes

datatype part =
    TextPart text_part
  | ImagePart image_part
  | ReasoningPart reasoning_part
  | ToolPart tool_part "part list"
  | ToolCallPart tool_call_part
  | ToolResultPart tool_result_part "part list"
  | OpaquePart opaque_part

type_synonym content = "part list"

definition ToolStatePending :: string where "ToolStatePending = ''pending''"
definition ToolStateRunning :: string where "ToolStateRunning = ''running''"
definition ToolStateCompleted :: string where "ToolStateCompleted = ''completed''"
definition ToolStateError :: string where "ToolStateError = ''error''"

lemmas tool_state_defs = ToolStatePending_def ToolStateRunning_def ToolStateCompleted_def ToolStateError_def

fun PartType :: "part \<Rightarrow> string" where
  "PartType (TextPart _) = ''text''"
| "PartType (ImagePart _) = ''image''"
| "PartType (ReasoningPart _) = ''reasoning''"
| "PartType (ToolPart _ _) = ''tool''"
| "PartType (ToolCallPart _) = ''tool_call''"
| "PartType (ToolResultPart _ _) = ''tool_result''"
| "PartType (OpaquePart p) = opq_TypeName p"

fun PartID :: "part \<Rightarrow> string" where
  "PartID (TextPart p) = txt_ID p"
| "PartID (ImagePart p) = img_ID p"
| "PartID (ReasoningPart p) = rsn_ID p"
| "PartID (ToolPart p _) = tpt_ID p"
| "PartID (ToolCallPart p) = tcp_ID p"
| "PartID (ToolResultPart p _) = trp_ID p"
| "PartID (OpaquePart p) = opq_ID p"

fun WithPartID :: "part \<Rightarrow> string \<Rightarrow> part" where
  "WithPartID (TextPart p) i = TextPart (p\<lparr>txt_ID := i\<rparr>)"
| "WithPartID (ImagePart p) i = ImagePart (p\<lparr>img_ID := i\<rparr>)"
| "WithPartID (ReasoningPart p) i = ReasoningPart (p\<lparr>rsn_ID := i\<rparr>)"
| "WithPartID (ToolPart p out) i = ToolPart (p\<lparr>tpt_ID := i\<rparr>) out"
| "WithPartID (ToolCallPart p) i = ToolCallPart (p\<lparr>tcp_ID := i\<rparr>)"
| "WithPartID (ToolResultPart p out) i = ToolResultPart (p\<lparr>trp_ID := i\<rparr>) out"
| "WithPartID (OpaquePart p) i = OpaquePart (p\<lparr>opq_ID := i\<rparr>)"

lemma WithPartID_simps [simp]:
  "PartID (WithPartID p i) = i" "PartType (WithPartID p i) = PartType p" "WithPartID (WithPartID p i) j = WithPartID p j"
  by (cases p; simp)+

definition text_of :: "string \<Rightarrow> part" where
  "text_of t = TextPart \<lparr>txt_ID = '''', txt_Text = t, txt_ProviderMetadata = None\<rparr>"

section \<open>Usage\<close>

record usage =
  usg_InputTokens :: int
  usg_OutputTokens :: int
  usg_TotalTokens :: int
  usg_ReasoningTokens :: int
  usg_CachedInputTokens :: int
  usg_CacheWriteTokens :: int

definition no_usage :: usage where
  "no_usage = \<lparr>usg_InputTokens = 0, usg_OutputTokens = 0, usg_TotalTokens = 0, usg_ReasoningTokens = 0,
     usg_CachedInputTokens = 0, usg_CacheWriteTokens = 0\<rparr>"

definition UsageEmpty :: "usage \<Rightarrow> bool" where
  "UsageEmpty u \<longleftrightarrow> usg_InputTokens u = 0 \<and> usg_OutputTokens u = 0 \<and> usg_TotalTokens u = 0
     \<and> usg_ReasoningTokens u = 0 \<and> usg_CachedInputTokens u = 0 \<and> usg_CacheWriteTokens u = 0"

definition safeTokenCount :: "int \<Rightarrow> int" where
  "safeTokenCount n = (if n < 0 then 0 else n)"

definition BillableInputTokens :: "usage \<Rightarrow> int" where
  "BillableInputTokens u = safeTokenCount (usg_InputTokens u - usg_CachedInputTokens u - usg_CacheWriteTokens u)"

definition VisibleOutputTokens :: "usage \<Rightarrow> int" where
  "VisibleOutputTokens u = safeTokenCount (usg_OutputTokens u - usg_ReasoningTokens u)"

definition ContextTokens :: "usage \<Rightarrow> int" where
  "ContextTokens u =
     (let computed = BillableInputTokens u + VisibleOutputTokens u + safeTokenCount (usg_ReasoningTokens u)
        + safeTokenCount (usg_CachedInputTokens u) + safeTokenCount (usg_CacheWriteTokens u) in
      if computed = 0 \<and> usg_TotalTokens u > 0 then usg_TotalTokens u else computed)"

definition TotalOrComputed :: "usage \<Rightarrow> int" where
  "TotalOrComputed u = (if usg_TotalTokens u > 0 then usg_TotalTokens u else ContextTokens u)"

lemma UsageEmpty_iff: "UsageEmpty u \<longleftrightarrow> u = no_usage"
  by (cases u) (simp add: UsageEmpty_def no_usage_def)

lemma token_bounds:
  "0 \<le> safeTokenCount n" "n \<le> safeTokenCount n" "0 \<le> BillableInputTokens u" "0 \<le> VisibleOutputTokens u"
  by (simp_all add: safeTokenCount_def BillableInputTokens_def VisibleOutputTokens_def)

section \<open>Messages\<close>

definition RoleUser :: string where "RoleUser = ''user''"
definition RoleAssistant :: string where "RoleAssistant = ''assistant''"
definition RoleTool :: string where "RoleTool = ''tool''"

definition MessageStateInProgress :: string where "MessageStateInProgress = ''in_progress''"
definition MessageStateCompleted :: string where "MessageStateCompleted = ''completed''"
definition MessageStateFailed :: string where "MessageStateFailed = ''failed''"

lemmas role_defs = RoleUser_def RoleAssistant_def RoleTool_def
lemmas message_state_defs = MessageStateInProgress_def MessageStateCompleted_def MessageStateFailed_def

record message_origin =
  org_Provider :: string
  org_API :: string
  org_ModelID :: string

record message =
  mes_ID :: string
  mes_Revision :: int
  mes_State :: string
  mes_Role :: string
  mes_Content :: content
  mes_FinishReason :: string
  mes_Origin :: "message_origin option"
  mes_Usage :: "usage option"
  mes_Metadata :: meta

definition plain_message :: "string \<Rightarrow> content \<Rightarrow> message" where
  \<comment> \<open>\<^verbatim>\<open>Message{Role: role, Content: content}\<close>\<close>
  "plain_message role content = \<lparr>mes_ID = '''', mes_Revision = 0, mes_State = '''', mes_Role = role, mes_Content = content,
     mes_FinishReason = '''', mes_Origin = None, mes_Usage = None, mes_Metadata = None\<rparr>"

definition NewUserText :: "string \<Rightarrow> message" where
  "NewUserText text = plain_message RoleUser [text_of text]"

definition NewAssistantText :: "string \<Rightarrow> message" where
  "NewAssistantText text = plain_message RoleAssistant [text_of text]"

section \<open>Tool messages and tool parts\<close>

text \<open>
  \<^verbatim>\<open>NormalizeMessages\<close> folds messages of the role \<^verbatim>\<open>tool\<close> into the tool parts of the assistant's
  messages, \<^verbatim>\<open>ExpandToolMessages\<close> is the way back to what a provider is sent.
\<close>

definition pending_tool :: "tool_call_part \<Rightarrow> tool_part" where
  \<comment> \<open>the pending tool part of a tool call\<close>
  "pending_tool c = \<lparr>tpt_ID = tcp_ID c, tpt_ToolUseID = tcp_ToolUseID c, tpt_CallID = tcp_CallID c, tpt_Name = tcp_Name c,
     tpt_State = ToolStatePending, tpt_Input = tcp_Input c, tpt_InputRaw = '''', tpt_Output = '''', tpt_Structured = JNull,
     tpt_Metadata = None, tpt_ProviderExecuted = tcp_ProviderExecuted c, tpt_ProviderMetadata = tcp_ProviderMetadata c,
     tpt_Error = '''', tpt_StartedAt = 0, tpt_CompletedAt = 0\<rparr>"

definition normalizeToolCalls :: "content \<Rightarrow> content" where
  "normalizeToolCalls content = map (\<lambda>p. case p of ToolCallPart c \<Rightarrow> ToolPart (pending_tool c) [] | _ \<Rightarrow> p) content"

fun part_text :: "part \<Rightarrow> string" where
  "part_text (TextPart t) = txt_Text t"
| "part_text _ = ''''"

definition toolResultText :: "content \<Rightarrow> string" where
  \<comment> \<open>of \<^verbatim>\<open>models.go\<close>: the text of the output of a tool result\<close>
  "toolResultText output = concat (map part_text output)"

definition result_tool :: "tool_result_part \<Rightarrow> content \<Rightarrow> tool_part" where
  \<comment> \<open>the tool part of a tool result\<close>
  "result_tool r output =
     (let t = \<lparr>tpt_ID = trp_ID r, tpt_ToolUseID = trp_ToolUseID r, tpt_CallID = trp_CallID r, tpt_Name = trp_Name r,
            tpt_State = ToolStateCompleted, tpt_Input = None, tpt_InputRaw = '''', tpt_Output = toolResultText output,
            tpt_Structured = trp_Structured r, tpt_Metadata = trp_Metadata r,
            tpt_ProviderExecuted = trp_ProviderExecuted r, tpt_ProviderMetadata = trp_ProviderMetadata r,
            tpt_Error = '''', tpt_StartedAt = 0, tpt_CompletedAt = 0\<rparr> in
      if trp_IsError r then t\<lparr>tpt_State := ToolStateError, tpt_Output := '''', tpt_Error := toolResultText output\<rparr> else t)"

definition same_tool :: "tool_part \<Rightarrow> tool_part \<Rightarrow> bool" where
  \<comment> \<open>\<open>tool\<close> is about the call of \<open>current\<close>\<close>
  "same_tool tool current \<longleftrightarrow>
     (if tpt_ToolUseID tool \<noteq> '''' then tpt_ToolUseID current = tpt_ToolUseID tool else tpt_CallID current = tpt_CallID tool)"

definition keep_tool_fields :: "tool_part \<Rightarrow> tool_part \<Rightarrow> tool_part" where
  "keep_tool_fields tool current =
     tool\<lparr>tpt_Input := tpt_Input current, tpt_InputRaw := tpt_InputRaw current, tpt_StartedAt := tpt_StartedAt current,
       tpt_ID := (if tpt_ID current \<noteq> '''' then tpt_ID current else tpt_ID tool),
       tpt_ToolUseID := (if tpt_ToolUseID tool = '''' then tpt_ToolUseID current else tpt_ToolUseID tool),
       tpt_ProviderExecuted := (if \<not> tpt_ProviderExecuted tool then tpt_ProviderExecuted current else True),
       tpt_ProviderMetadata := (if tpt_ProviderMetadata tool = None then tpt_ProviderMetadata current
         else tpt_ProviderMetadata tool)\<rparr>"

fun replace_in_content :: "tool_part \<Rightarrow> content \<Rightarrow> content \<Rightarrow> content option" where
  \<comment> \<open>the inner loop: the first tool part of the call is replaced\<close>
  "replace_in_content tool output [] = None"
| "replace_in_content tool output (ToolPart current out # ps) =
     (if same_tool tool current then Some (ToolPart (keep_tool_fields tool current) output # ps)
      else map_option (Cons (ToolPart current out)) (replace_in_content tool output ps))"
| "replace_in_content tool output (p # ps) = map_option (Cons p) (replace_in_content tool output ps)"

fun replace_backwards :: "tool_part \<Rightarrow> content \<Rightarrow> message list \<Rightarrow> message list option" where
  \<comment> \<open>the outer loop, over the messages from the last to the first\<close>
  "replace_backwards tool output [] = None"
| "replace_backwards tool output (m # ms) =
     (if mes_Role m \<noteq> RoleAssistant then map_option (Cons m) (replace_backwards tool output ms)
      else case replace_in_content tool output (mes_Content m) of
        Some content \<Rightarrow> Some (m\<lparr>mes_Content := content\<rparr> # ms)
      | None \<Rightarrow> map_option (Cons m) (replace_backwards tool output ms))"

definition replaceToolPart :: "message list \<Rightarrow> tool_part \<Rightarrow> content \<Rightarrow> message list option" where
  "replaceToolPart messages tool output = map_option rev (replace_backwards tool output (rev messages))"

fun fold_result :: "message list \<Rightarrow> part \<Rightarrow> message list" where
  \<comment> \<open>one part of a tool message\<close>
  "fold_result out (ToolResultPart r output) =
     (case replaceToolPart out (result_tool r output) output of
        Some out' \<Rightarrow> out'
      | None \<Rightarrow> out @ [plain_message RoleAssistant [ToolPart (result_tool r output) output]])"
| "fold_result out _ = out"

definition normalize_message :: "message list \<Rightarrow> message \<Rightarrow> message list" where
  "normalize_message out m =
     (if mes_Role m \<noteq> RoleTool then out @ [m\<lparr>mes_Content := normalizeToolCalls (mes_Content m)\<rparr>]
      else foldl fold_result out (mes_Content m))"

definition NormalizeMessages :: "message list \<Rightarrow> message list" where
  "NormalizeMessages messages = foldl normalize_message [] messages"

definition tool_resolved :: "tool_part \<Rightarrow> bool" where
  "tool_resolved t \<longleftrightarrow> tpt_State t = ToolStateCompleted \<or> tpt_State t = ToolStateError"

definition expand_call :: "tool_part \<Rightarrow> tool_call_part" where
  "expand_call t = \<lparr>tcp_ID = tpt_ID t, tcp_ToolUseID = tpt_ToolUseID t, tcp_CallID = tpt_CallID t, tcp_Name = tpt_Name t,
     tcp_Input = tpt_Input t, tcp_ProviderExecuted = tpt_ProviderExecuted t,
     tcp_ProviderMetadata = tpt_ProviderMetadata t\<rparr>"

definition expand_text :: "tool_part \<Rightarrow> string" where
  "expand_text t =
     (if tpt_State t = ToolStateError then
        (if tpt_Output t \<noteq> '''' \<and> tpt_Error t \<noteq> '''' then tpt_Output t @ ''\<newline>'' @ tpt_Error t
         else if tpt_Error t \<noteq> '''' then tpt_Error t else tpt_Output t)
      else tpt_Output t)"

definition expand_output :: "tool_part \<Rightarrow> content \<Rightarrow> content" where
  "expand_output t output = (if output = [] then [text_of (expand_text t)] else output)"

definition expand_result :: "tool_part \<Rightarrow> tool_result_part" where
  "expand_result t = \<lparr>trp_ID = tpt_ID t, trp_ToolUseID = tpt_ToolUseID t, trp_CallID = tpt_CallID t, trp_Name = tpt_Name t,
     trp_Structured = tpt_Structured t, trp_IsError = (tpt_State t = ToolStateError), trp_Metadata = tpt_Metadata t,
     trp_ProviderExecuted = tpt_ProviderExecuted t, trp_ProviderMetadata = tpt_ProviderMetadata t\<rparr>"

fun expand_parts :: "content \<Rightarrow> content \<times> content \<times> bool" where
  \<comment> \<open>the loop over the parts: the content, the results, and whether a tool is unresolved\<close>
  "expand_parts [] = ([], [], False)"
| "expand_parts (ToolPart t output # ps) =
     (let (content, results, unresolved) = expand_parts ps in
      if tool_resolved t
      then (ToolCallPart (expand_call t) # content, ToolResultPart (expand_result t) (expand_output t output) # results, unresolved)
      else (content, results, True))"
| "expand_parts (p # ps) =
     (let (content, results, unresolved) = expand_parts ps in (p # content, results, unresolved))"

definition expand_message :: "message \<Rightarrow> message list" where
  "expand_message m =
     (if mes_Role m \<noteq> RoleAssistant then [m]
      else let (content, results, unresolved) = expand_parts (mes_Content m) in
        if unresolved \<and> content = [] then []
        else m\<lparr>mes_Content := content\<rparr> # (if results = [] then [] else [plain_message RoleTool results]))"

definition ExpandToolMessages :: "message list \<Rightarrow> message list" where
  "ExpandToolMessages messages = concat (map expand_message messages)"

section \<open>Model references\<close>

record model_capabilities =
  cap_Tools :: bool
  cap_Images :: bool
  cap_Reasoning :: bool
  cap_StructuredOutput :: bool

record model_ref =
  mrf_Provider :: string
  mrf_ID :: string
  mrf_API :: string
  mrf_BaseURL :: string
  mrf_Env :: "string list"
  mrf_ContextWindow :: int
  mrf_MaxOutput :: int
  mrf_Capabilities :: model_capabilities

definition no_capabilities :: model_capabilities where
  "no_capabilities = \<lparr>cap_Tools = False, cap_Images = False, cap_Reasoning = False, cap_StructuredOutput = False\<rparr>"

definition provider_model :: "string \<Rightarrow> string \<Rightarrow> model_ref" where
  \<comment> \<open>\<^verbatim>\<open>ModelRef{Provider: p, ID: i}\<close>\<close>
  "provider_model p i = \<lparr>mrf_Provider = p, mrf_ID = i, mrf_API = '''', mrf_BaseURL = '''', mrf_Env = [],
     mrf_ContextWindow = 0, mrf_MaxOutput = 0, mrf_Capabilities = no_capabilities\<rparr>"

definition ModelRef_Ref :: "model_ref \<Rightarrow> string" where
  "ModelRef_Ref m = (if mrf_Provider m = '''' \<or> mrf_ID m = '''' then '''' else mrf_Provider m @ ''/'' @ mrf_ID m)"

function parse_ref_loop :: "string \<Rightarrow> nat \<Rightarrow> model_ref option" where
  \<comment> \<open>the loop of \<^verbatim>\<open>ParseModelRef\<close> from the byte \<open>i\<close>\<close>
  "parse_ref_loop ref i =
     (if i < length ref then
        (if ref ! i = CHR ''/'' \<and> i > 0 \<and> i + 1 < length ref
         then Some (provider_model (take i ref) (drop (i + 1) ref))
         else parse_ref_loop ref (i + 1))
      else None)"
  by auto
termination by (relation "measure (\<lambda>(ref, i). length ref - i)") auto

declare parse_ref_loop.simps [simp del]

definition ParseModelRef :: "string \<Rightarrow> model_ref option" where
  "ParseModelRef ref = parse_ref_loop ref 0"

lemma parse_ref_loop_sound:
  "parse_ref_loop ref i = Some m \<Longrightarrow> \<exists>p q. ref = p @ ''/'' @ q \<and> p \<noteq> '''' \<and> q \<noteq> '''' \<and> m = provider_model p q"
proof (induction ref i rule: parse_ref_loop.induct)
  case (1 ref i)
  show ?case
  proof (cases "i < length ref \<and> ref ! i = CHR ''/'' \<and> i > 0 \<and> i + 1 < length ref")
    case True
    then have "m = provider_model (take i ref) (drop (i + 1) ref)" using "1.prems" by (simp add: parse_ref_loop.simps)
    moreover have "ref = take i ref @ ''/'' @ drop (i + 1) ref"
      using True by (metis Cons_eq_appendI append_Nil id_take_nth_drop Suc_eq_plus1)
    moreover have "take i ref \<noteq> ''''" "drop (i + 1) ref \<noteq> ''''" using True by auto
    ultimately show ?thesis by blast
  next
    case False
    then show ?thesis using "1.IH" "1.prems" by (subst (asm) parse_ref_loop.simps) (auto split: if_splits)
  qed
qed

section \<open>Stream parts\<close>

datatype stream_part =
    StreamStartPart
  | TextStartPart string meta
  | TextDeltaPart string string meta
  | TextEndPart string meta
  | ReasoningStartPart string meta
  | ReasoningDeltaPart string string meta
  | ReasoningEndPart string meta
  | ToolInputStartPart string string meta
  | ToolInputDeltaPart string string meta
  | ToolInputEndPart string meta
  | StreamToolCallPart string string args bool meta
  | FinishPart string usage "message option"
  | ErrorPart string
  | ResponseMetadataPart args

fun streamPartTypeName :: "stream_part \<Rightarrow> string" where
  "streamPartTypeName StreamStartPart = ''stream_start''"
| "streamPartTypeName (TextStartPart _ _) = ''text_start''"
| "streamPartTypeName (TextDeltaPart _ _ _) = ''text_delta''"
| "streamPartTypeName (TextEndPart _ _) = ''text_end''"
| "streamPartTypeName (ReasoningStartPart _ _) = ''reasoning_start''"
| "streamPartTypeName (ReasoningDeltaPart _ _ _) = ''reasoning_delta''"
| "streamPartTypeName (ReasoningEndPart _ _) = ''reasoning_end''"
| "streamPartTypeName (ToolInputStartPart _ _ _) = ''tool_input_start''"
| "streamPartTypeName (ToolInputDeltaPart _ _ _) = ''tool_input_delta''"
| "streamPartTypeName (ToolInputEndPart _ _) = ''tool_input_end''"
| "streamPartTypeName (StreamToolCallPart _ _ _ _ _) = ''tool_call''"
| "streamPartTypeName (FinishPart _ _ _) = ''finish''"
| "streamPartTypeName (ErrorPart _) = ''error''"
| "streamPartTypeName (ResponseMetadataPart _) = ''response_metadata''"

section \<open>Requests and their traces\<close>

record tool_def =
  tdf_Name :: string
  tdf_Description :: string
  tdf_InputSchema :: members

record output_schema =
  osc_Name :: string
  osc_Schema :: members
  osc_Strict :: bool

text \<open>A request as the agent builds it; the fields of \<^verbatim>\<open>Request\<close> that the agent leaves zero are not here.\<close>

record request =
  req_Model :: model_ref
  req_System :: string
  req_Messages :: "message list"
  req_Tools :: "tool_def list"
  req_ToolChoice :: string
  req_Thinking :: bool \<comment> \<open>\<^verbatim>\<open>Capabilities\<close>\<close>
  req_OutputSchema :: "output_schema option"
  req_MaxOutputTokens :: int

record tool_trace =
  ttr_Name :: string
  ttr_SchemaHash :: string
  ttr_SchemaBytes :: nat

record call_trace =
  ctr_Version :: string
  ctr_Model :: model_ref
  ctr_API :: string
  ctr_Provider :: string
  ctr_Thinking :: bool
  ctr_CurrentDate :: bool
  ctr_Tools :: "tool_trace list"
  ctr_Count :: nat
  ctr_ByRole :: "(string, int) gomap"
  ctr_PartKinds :: "(string, int) gomap"
  ctr_SystemSHA256 :: string
  ctr_SystemBytes :: nat
  ctr_ReasoningSummaryAuto :: bool

definition count_key :: "string \<Rightarrow> (string, int) gomap \<Rightarrow> (string, int) gomap" where
  \<comment> \<open>\<^verbatim>\<open>m[k]++\<close>\<close>
  "count_key k m = AList.update k ((case map_of m k of None \<Rightarrow> 0 | Some n \<Rightarrow> n) + 1) m"

fun str_contains :: "string \<Rightarrow> string \<Rightarrow> bool" where
  \<comment> \<open>\<^verbatim>\<open>strings.Contains\<close>\<close>
  "str_contains [] sub = (sub = [])"
| "str_contains (c # cs) sub = (has_prefix (c # cs) sub \<or> str_contains cs sub)"

definition trace_tool :: "lib \<Rightarrow> tool_def \<Rightarrow> tool_trace" where
  "trace_tool L t = (let schema = json_text L (JObj (tdf_InputSchema t)) in
     \<lparr>ttr_Name = tdf_Name t, ttr_SchemaHash = sha256_hex L schema, ttr_SchemaBytes = length schema\<rparr>)"

definition NewCallTrace :: "lib \<Rightarrow> request \<Rightarrow> bool \<Rightarrow> call_trace" where
  "NewCallTrace L req lowered =
     \<lparr>ctr_Version = ''1'', ctr_Model = req_Model req, ctr_API = mrf_API (req_Model req),
      ctr_Provider = mrf_Provider (req_Model req), ctr_Thinking = req_Thinking req,
      ctr_CurrentDate = str_contains (req_System req) ''Current date:'',
      ctr_Tools = map (trace_tool L) (req_Tools req), ctr_Count = length (req_Messages req),
      ctr_ByRole = fold count_key (map mes_Role (req_Messages req)) [],
      ctr_PartKinds = fold count_key (map PartType (concat (map mes_Content (req_Messages req)))) [],
      ctr_SystemSHA256 = sha256_hex L (req_System req), ctr_SystemBytes = length (req_System req),
      ctr_ReasoningSummaryAuto = lowered\<rparr>"

end
