(* ===== verification/Agent_Types.thy ===== *)
theory Agent_Types
  imports Model_Content
begin

text \<open>
  The vocabulary of the agent's run loop: errors as trees that \<^verbatim>\<open>errors.Is\<close> and \<^verbatim>\<open>errors.As\<close> search
  (\<^verbatim>\<open>models/error.go\<close> for a provider's), the tools and their catalog of \<^verbatim>\<open>tool/tool.go\<close>, and the
  records and events of \<^verbatim>\<open>agent/run/types.go\<close>.

  Functions of libraries are in the record \<open>run_lib\<close>: the compiler and validator of JSON schemas, the
  quotation of \<^verbatim>\<open>%q\<close>, and \<open>lib\<close>.
\<close>

section \<open>Errors\<close>

record provider_error =
  \<comment> \<open>but its \<^verbatim>\<open>Cause\<close>\<close>
  pve_Category :: string
  pve_Provider :: string
  pve_Status :: int
  pve_RequestID :: string
  pve_Retryable :: bool
  pve_RetryAfter :: "int option"
  pve_Message :: string
  pve_Metadata :: "(string, string) gomap"

datatype failure =
    Canceled                          \<comment> \<open>\<^verbatim>\<open>context.Canceled\<close>\<close>
  | DeadlineExceeded                  \<comment> \<open>\<^verbatim>\<open>context.DeadlineExceeded\<close>\<close>
  | ErrSkipTool
  | ProviderError provider_error "failure option"
  | Failure string                    \<comment> \<open>an error that wraps nothing\<close>
  | Wrapped string failure            \<comment> \<open>\<^verbatim>\<open>fmt.Errorf("text: %w", err)\<close>\<close>
  | Followed failure string           \<comment> \<open>\<^verbatim>\<open>fmt.Errorf("%w text", err)\<close>\<close>
  | Joined "failure list"             \<comment> \<open>\<^verbatim>\<open>errors.Join\<close>\<close>

fun nat_text :: "nat \<Rightarrow> string" where
  "nat_text n = (if n < 10 then [char_of (48 + n)] else nat_text (n div 10) @ [char_of (48 + n mod 10)])"

declare nat_text.simps [simp del]

definition int_text :: "int \<Rightarrow> string" where
  "int_text n = (if n < 0 then ''-'' @ nat_text (nat (- n)) else nat_text (nat n))"

definition ProviderError_Error :: "provider_error \<Rightarrow> string" where
  "ProviderError_Error e =
     (let message = (if pve_Message e = '''' then pve_Category e else pve_Message e) in
      if pve_Provider e = '''' then message
      else if pve_Status e \<noteq> 0 then pve_Provider e @ '': '' @ message @ '' (HTTP '' @ int_text (pve_Status e) @ '')''
      else pve_Provider e @ '': '' @ message)"

fun lines :: "string list \<Rightarrow> string" where
  \<comment> \<open>\<^verbatim>\<open>strings.Join(ss, "\n")\<close>\<close>
  "lines [] = ''''"
| "lines [s] = s"
| "lines (s # ss) = s @ ''\<newline>'' @ lines ss"

fun err_text :: "failure \<Rightarrow> string" where
  "err_text Canceled = ''context canceled''"
| "err_text DeadlineExceeded = ''context deadline exceeded''"
| "err_text ErrSkipTool = ''skip tool''"
| "err_text (ProviderError e _) = ProviderError_Error e"
| "err_text (Failure s) = s"
| "err_text (Wrapped s e) = s @ '': '' @ err_text e"
| "err_text (Followed e s) = err_text e @ s"
| "err_text (Joined es) = lines (map err_text es)"

fun is_canceled :: "failure \<Rightarrow> bool" where
  \<comment> \<open>\<^verbatim>\<open>errors.Is(err, context.Canceled)\<close>\<close>
  "is_canceled Canceled = True"
| "is_canceled (ProviderError _ (Some e)) = is_canceled e"
| "is_canceled (Wrapped _ e) = is_canceled e"
| "is_canceled (Followed e _) = is_canceled e"
| "is_canceled (Joined es) = list_ex is_canceled es"
| "is_canceled _ = False"

fun is_deadline :: "failure \<Rightarrow> bool" where
  \<comment> \<open>\<^verbatim>\<open>errors.Is(err, context.DeadlineExceeded)\<close>\<close>
  "is_deadline DeadlineExceeded = True"
| "is_deadline (ProviderError _ (Some e)) = is_deadline e"
| "is_deadline (Wrapped _ e) = is_deadline e"
| "is_deadline (Followed e _) = is_deadline e"
| "is_deadline (Joined es) = list_ex is_deadline es"
| "is_deadline _ = False"

fun is_skip :: "failure \<Rightarrow> bool" where
  \<comment> \<open>\<^verbatim>\<open>errors.Is(err, ErrSkipTool)\<close>\<close>
  "is_skip ErrSkipTool = True"
| "is_skip (ProviderError _ (Some e)) = is_skip e"
| "is_skip (Wrapped _ e) = is_skip e"
| "is_skip (Followed e _) = is_skip e"
| "is_skip (Joined es) = list_ex is_skip es"
| "is_skip _ = False"

fun as_provider_error :: "failure \<Rightarrow> provider_error option" and
    first_provider_error :: "failure list \<Rightarrow> provider_error option" where
  \<comment> \<open>\<^verbatim>\<open>errors.As(err, &providerErr)\<close>: the first in the order of the tree\<close>
  "as_provider_error (ProviderError e _) = Some e"
| "as_provider_error (Wrapped _ e) = as_provider_error e"
| "as_provider_error (Followed e _) = as_provider_error e"
| "as_provider_error (Joined es) = first_provider_error es"
| "as_provider_error _ = None"
| "first_provider_error [] = None"
| "first_provider_error (e # es) = (case as_provider_error e of Some p \<Rightarrow> Some p | None \<Rightarrow> first_provider_error es)"

definition join_errors :: "failure option list \<Rightarrow> failure option" where
  \<comment> \<open>\<^verbatim>\<open>errors.Join\<close>: nil when every argument is nil\<close>
  "join_errors es = (case List.map_filter id es of [] \<Rightarrow> None | fs \<Rightarrow> Some (Joined fs))"

lemma join_errors_simps [simp]:
  "join_errors [None, None] = None" "join_errors [Some e, None] = Some (Joined [e])"
  "join_errors [None, Some e] = Some (Joined [e])" "join_errors [Some e, Some f] = Some (Joined [e, f])"
  by (simp_all add: join_errors_def map_filter_def)

definition also_failed :: "failure \<Rightarrow> failure option \<Rightarrow> failure" where
  \<comment> \<open>\<^verbatim>\<open>errors.Join(err, other)\<close> of an error that is not nil\<close>
  "also_failed e other = Joined (e # (case other of None \<Rightarrow> [] | Some f \<Rightarrow> [f]))"

lemma join_errors_Some: "join_errors [Some e, other] = Some (also_failed e other)"
  by (cases other) (simp_all add: also_failed_def)

lemma join_errors_None: "join_errors [a, b] = None \<longleftrightarrow> a = None \<and> b = None"
  by (cases a; cases b) simp_all

section \<open>Libraries\<close>

record run_lib =
  rl_lib :: lib
  rl_quote :: "string \<Rightarrow> string"                              \<comment> \<open>\<^verbatim>\<open>%q\<close>\<close>
  rl_compile :: "string \<Rightarrow> members \<Rightarrow> failure option"           \<comment> \<open>\<^verbatim>\<open>compileSchema\<close>\<close>
  rl_validate :: "string \<Rightarrow> members \<Rightarrow> json \<Rightarrow> failure option"   \<comment> \<open>validate a value against a schema that compiles\<close>
  rl_unmarshal :: "string \<Rightarrow> failure + args"                   \<comment> \<open>\<^verbatim>\<open>json.Unmarshal\<close> into a \<^verbatim>\<open>map[string]any\<close>\<close>

section \<open>Tools\<close>

record property =
  prp_Type :: string
  prp_Description :: string
  prp_Enum :: "string list"

record input_schema =
  isc_Type :: string
  isc_Properties :: "(string, property) gomap"
  isc_Required :: "string list"

record permission_target =
  ptg_Action :: string
  ptg_ResourceFields :: "string list"

record tool_definition =
  tld_Name :: string
  tld_Description :: string
  tld_InputSchema :: input_schema
  tld_RawInputSchema :: "members option"
  tld_OutputSchema :: "members option"
  tld_Sequential :: bool
  tld_DirectoryScoped :: bool
  tld_Permission :: "permission_target option"

record invocation =
  inv_Input :: members
  inv_WorkDir :: string
  inv_SessionID :: string
  inv_RunID :: string
  inv_AgentID :: string
  inv_ToolUseID :: string
  inv_CallID :: string
  inv_MessageID :: string
  inv_PartID :: string
  inv_ModelCallID :: string

record permission_check =
  pck_Action :: string
  pck_Resources :: "string list"
  pck_Save :: "string list"

text \<open>
  A tool: its name and definition, and for each optional interface (\<^verbatim>\<open>SequentialTool\<close>,
  \<^verbatim>\<open>DirectoryScopedTool\<close>, \<^verbatim>\<open>PermissionedTool\<close>) whether it has it and what its method returns.  What
  \<^verbatim>\<open>Execute\<close> does is an answer of the environment.
\<close>

record tool =
  tol_Name :: string
  tol_Definition :: tool_definition
  tol_Sequential :: "bool option"
  tol_DirectoryScoped :: bool
  tol_Permission :: "(invocation \<Rightarrow> failure + permission_check) option"

definition property_schema :: "property \<Rightarrow> json" where
  "property_schema p = JObj (members
     [(''type'', Some (JStr (prp_Type p))),
      (''description'', if prp_Description p \<noteq> '''' then Some (JStr (prp_Description p)) else None),
      (''enum'', if prp_Enum p \<noteq> [] then Some (JArr (map JStr (prp_Enum p))) else None)])"

definition AsModelToolDef :: "tool_definition \<Rightarrow> tool_def" where
  "AsModelToolDef d =
     \<lparr>tdf_Name = tld_Name d, tdf_Description = tld_Description d,
      tdf_InputSchema = (case tld_RawInputSchema d of
        Some schema \<Rightarrow> schema
      | None \<Rightarrow> members
          [(''type'', Some (JStr (isc_Type (tld_InputSchema d)))),
           (''properties'', Some (JObj (map (\<lambda>(k, p). (k, property_schema p)) (isc_Properties (tld_InputSchema d))))),
           (''required'', if isc_Required (tld_InputSchema d) \<noteq> []
              then Some (JArr (map JStr (isc_Required (tld_InputSchema d)))) else None)])\<rparr>"

definition IsSequential :: "tool \<Rightarrow> bool" where
  "IsSequential t = (case tol_Sequential t of Some b \<Rightarrow> b | None \<Rightarrow> tld_Sequential (tol_Definition t))"

definition IsDirectoryScoped :: "tool \<Rightarrow> bool" where
  "IsDirectoryScoped t = (tol_DirectoryScoped t \<or> tld_DirectoryScoped (tol_Definition t))"

fun string_values :: "json \<Rightarrow> string list" where
  \<comment> \<open>the non-empty strings of a string or of an array\<close>
  "string_values (JStr s) = (if s \<noteq> '''' then [s] else [])"
| "string_values (JArr js) = concat (map (\<lambda>j. case j of JStr s \<Rightarrow> if s \<noteq> '''' then [s] else [] | _ \<Rightarrow> []) js)"
| "string_values _ = []"

definition PermissionFor :: "tool \<Rightarrow> invocation \<Rightarrow> failure + (permission_check \<times> bool)" where
  "PermissionFor t i =
     (case tol_Permission t of
        Some permission \<Rightarrow> bindE (permission i) (\<lambda>check. Inr (check, True))
      | None \<Rightarrow>
          (case tld_Permission (tol_Definition t) of
             None \<Rightarrow> Inr (\<lparr>pck_Action = '''', pck_Resources = [], pck_Save = []\<rparr>, False)
           | Some target \<Rightarrow>
               let resources = concat (map (\<lambda>field. case map_of (inv_Input i) field of
                     None \<Rightarrow> [] | Some v \<Rightarrow> string_values v) (ptg_ResourceFields target)) in
               Inr (\<lparr>pck_Action = ptg_Action target,
                 pck_Resources = (if resources = [] then [''*''] else resources), pck_Save = []\<rparr>, True)))"

type_synonym registry = "(string, tool) gomap"

definition tool_error :: "run_lib \<Rightarrow> string \<Rightarrow> string \<Rightarrow> failure \<Rightarrow> failure" where
  \<comment> \<open>a \<^verbatim>\<open>ValidationError\<close>\<close>
  "tool_error R kind name e =
     Wrapped (''tool '' @ kind @ (if name = '''' then '''' else '' '' @ rl_quote R name)) e"

fun first_error :: "failure option list \<Rightarrow> failure option" where
  \<comment> \<open>a sequence of checks that return at the first error\<close>
  "first_error [] = None"
| "first_error (Some e # _) = Some e"
| "first_error (None # es) = first_error es"

definition check_schema :: "run_lib \<Rightarrow> string \<Rightarrow> string \<Rightarrow> string \<Rightarrow> members \<Rightarrow> failure option" where
  "check_schema R kind name suffix schema =
     map_option (\<lambda>e. tool_error R kind name (Joined [Failure ''invalid tool'', e])) (rl_compile R (name @ suffix) schema)"

definition Validate :: "run_lib \<Rightarrow> tool \<Rightarrow> failure option" where
  "Validate R t =
     (let name = tol_Name t; d = tol_Definition t; invalid = Failure ''invalid tool'' in
      first_error
        [if name = '''' then Some (tool_error R ''empty name'' '''' invalid) else None,
         if tld_Name d \<noteq> name then Some (tool_error R ''name mismatch'' name invalid) else None,
         case tld_Permission d of None \<Rightarrow> None | Some p \<Rightarrow>
           if ptg_Action p = '''' then Some (tool_error R ''permission action'' name invalid) else None,
         case tld_Permission d of None \<Rightarrow> None | Some p \<Rightarrow>
           if '''' \<in> set (ptg_ResourceFields p) then Some (tool_error R ''permission resource field'' name invalid) else None,
         if tld_RawInputSchema d \<noteq> None \<or> isc_Type (tld_InputSchema d) \<noteq> ''''
           then check_schema R ''input schema'' name ''-input.json'' (tdf_InputSchema (AsModelToolDef d)) else None,
         case tld_OutputSchema d of None \<Rightarrow> None | Some schema \<Rightarrow>
           if schema \<noteq> [] then check_schema R ''output schema'' name ''-output.json'' schema else None])"

definition Register :: "run_lib \<Rightarrow> registry \<Rightarrow> tool \<Rightarrow> failure + registry" where
  "Register R r t =
     (case Validate R t of
        Some e \<Rightarrow> Inl e
      | None \<Rightarrow> (case map_of r (tol_Name t) of
          Some _ \<Rightarrow> Inl (tool_error R ''duplicate'' (tol_Name t) (Failure ''duplicate tool''))
        | None \<Rightarrow> Inr (AList.update (tol_Name t) t r)))"

definition Compose :: "run_lib \<Rightarrow> tool list \<Rightarrow> failure + registry" where
  "Compose R tools = foldE (Register R) [] tools"

definition ListTools :: "registry \<Rightarrow> tool list" where
  "ListTools r = sort_key tol_Name (vals r)"

definition Definitions :: "registry \<Rightarrow> tool_definition list" where
  "Definitions r = map tol_Definition (ListTools r)"

definition definitionsFor :: "registry \<Rightarrow> tool_def list" where
  "definitionsFor r = map AsModelToolDef (Definitions r)"

section \<open>The loop's records\<close>

definition ToolUseCompleted :: string where "ToolUseCompleted = ''completed''"
definition ToolUseFailed :: string where "ToolUseFailed = ''failed''"
definition ToolUseInterrupted :: string where "ToolUseInterrupted = ''interrupted''"
definition ToolUseDeclined :: string where "ToolUseDeclined = ''declined''"

definition ToolExecutionDefault :: string where "ToolExecutionDefault = ''''"
definition ToolExecutionParallel :: string where "ToolExecutionParallel = ''parallel''"
definition ToolExecutionSequential :: string where "ToolExecutionSequential = ''sequential''"

definition ResponseOnce :: string where "ResponseOnce = ''once''"
definition ResponseAlways :: string where "ResponseAlways = ''always''"
definition ResponseReject :: string where "ResponseReject = ''reject''"

definition StopReasonEndTurn :: string where "StopReasonEndTurn = ''end_turn''"
definition StopReasonMaxSteps :: string where "StopReasonMaxSteps = ''max_steps''"
definition StopReasonAborted :: string where "StopReasonAborted = ''aborted''"
definition StopReasonError :: string where "StopReasonError = ''error''"

lemmas tool_use_defs = ToolUseCompleted_def ToolUseFailed_def ToolUseInterrupted_def ToolUseDeclined_def
lemmas execution_mode_defs = ToolExecutionDefault_def ToolExecutionParallel_def ToolExecutionSequential_def
lemmas response_defs = ResponseOnce_def ResponseAlways_def ResponseReject_def
lemmas stop_reason_defs = StopReasonEndTurn_def StopReasonMaxSteps_def StopReasonAborted_def StopReasonError_def

record tool_call =
  tcl_ID :: string
  tcl_ToolUseID :: string
  tcl_MessageID :: string
  tcl_PartID :: string
  tcl_ModelCallID :: string
  tcl_Step :: int
  tcl_Ordinal :: int
  tcl_ProposedAt :: time
  tcl_AuthorizedAt :: time
  tcl_StartedAt :: time
  tcl_Name :: string
  tcl_Args :: members
  tcl_Tool :: "tool option"

record tool_result =
  trs_CallID :: string
  trs_ToolUseID :: string
  trs_Status :: string
  trs_Name :: string
  trs_Args :: members
  trs_Output :: string
  trs_OutputParts :: content
  trs_Structured :: json
  trs_Error :: string
  trs_ErrorType :: string
  trs_Metadata :: meta
  trs_IsError :: bool
  trs_Duration :: int

definition no_result :: tool_result where
  \<comment> \<open>\<^verbatim>\<open>ToolResult{}\<close>\<close>
  "no_result = \<lparr>trs_CallID = '''', trs_ToolUseID = '''', trs_Status = '''', trs_Name = '''', trs_Args = [], trs_Output = '''',
     trs_OutputParts = [], trs_Structured = JNull, trs_Error = '''', trs_ErrorType = '''', trs_Metadata = None,
     trs_IsError = False, trs_Duration = 0\<rparr>"

record turn =
  trn_Step :: int
  trn_ModelCallID :: string
  trn_Attempt :: nat
  trn_ProviderRequestID :: string
  trn_Assistant :: message
  trn_Results :: "tool_result list"
  trn_Usage :: usage
  trn_StartedAt :: time
  trn_CompletedAt :: time
  trn_Trace :: "call_trace option"
  trn_Failure :: "failure option"

definition no_turn :: turn where
  \<comment> \<open>\<^verbatim>\<open>Turn{}\<close>\<close>
  "no_turn = \<lparr>trn_Step = 0, trn_ModelCallID = '''', trn_Attempt = 0, trn_ProviderRequestID = '''',
     trn_Assistant = plain_message '''' [], trn_Results = [], trn_Usage = no_usage, trn_StartedAt = 0,
     trn_CompletedAt = 0, trn_Trace = None, trn_Failure = None\<rparr>"

record run_result =
  rrs_Messages :: "message list"
  rrs_Turns :: "turn list"
  rrs_Usage :: usage
  rrs_Steps :: nat
  rrs_StopReason :: string
  rrs_StructuredOutput :: args

datatype event =
    IterationStartEvent nat
  | IterationEndEvent nat turn
  | MessageEvent int message
  | ToolUseProposedEvent tool_call
  | ToolUseAuthorizedEvent tool_call
  | ToolExecutionStartEvent tool_call
  | ToolExecutionProgressEvent string string string string meta
  | ToolExecutionEndEvent tool_result
  | StreamPartEvent int string string int stream_part
  | ErrorEvent failure
  | StructuredOutputEvent string string args
  | ContextTransformedEvent int string nat nat "message option"

record retry_policy =
  rty_MaxAttempts :: nat \<comment> \<open>a negative number of attempts is 0\<close>
  rty_InitialDelay :: int
  rty_MaxDelay :: int

definition DefaultRetryPolicy :: retry_policy where
  "DefaultRetryPolicy = \<lparr>rty_MaxAttempts = 3, rty_InitialDelay = 250000000, rty_MaxDelay = 2000000000\<rparr>"

text \<open>Which of the hooks and callbacks are installed; what they answer is up to the environment.\<close>

record hooks =
  hk_BeforeRun :: bool
  hk_OnTurnStart :: bool
  hk_OnTurnEnd :: bool
  hk_TransformHistory :: bool
  hk_TransformSystem :: bool
  hk_TransformContext :: bool
  hk_BeforeToolCall :: bool
  hk_AfterToolCall :: bool
  hk_AfterRun :: bool
  hk_TransformToolDefs :: bool
  hk_TransformParams :: bool

record config =
  cfg_SessionID :: string
  cfg_RunID :: string
  cfg_AgentID :: string
  cfg_Client :: bool
  cfg_LowersOptions :: bool \<comment> \<open>the client has the method \<^verbatim>\<open>LoweredOptions\<close>\<close>
  cfg_Model :: model_ref
  cfg_StructuredOutput :: bool \<comment> \<open>\<^verbatim>\<open>ModelInfo.Capabilities.StructuredOutput\<close>\<close>
  cfg_ModelInfo :: "string \<times> string" \<comment> \<open>its provider and identifier\<close>
  cfg_Messages :: "message list"
  cfg_System :: string
  cfg_Tools :: "tool list"
  cfg_WorkDir :: string
  cfg_Permissions :: ruleset
  cfg_PermissionPrompter :: bool
  cfg_ToolChoice :: string
  cfg_Thinking :: bool
  cfg_OutputSchema :: "output_schema option"
  cfg_MaxSteps :: nat
  cfg_ToolExecution :: string
  cfg_Hooks :: hooks
  cfg_ModelCallLifecycle :: bool
  cfg_Retry :: retry_policy
  cfg_MessageCheckpoint :: bool
  cfg_ToolUseLifecycle :: bool

text \<open>
  What the callbacks are told of a tool use.  \<^verbatim>\<open>ToolUseProposeInfo\<close>, \<^verbatim>\<open>ToolUseAuthorizeInfo\<close> and
  \<^verbatim>\<open>ToolUseStartInfo\<close> differ in their time only; \<open>use_At\<close> is that time.  \<^verbatim>\<open>PermissionRequestInfo\<close>
  and \<^verbatim>\<open>ToolUseFinishInfo\<close> have more fields.
\<close>

record use_info =
  use_Step :: int
  use_Ordinal :: int
  use_ToolUseID :: string
  use_CallID :: string
  use_Name :: string
  use_Args :: members
  use_MessageID :: string
  use_PartID :: string
  use_ModelCallID :: string
  use_At :: time

record permission_request_info = use_info +
  pri_Action :: string
  pri_Resources :: "string list"

record finish_info = use_info +
  fin_ProposedAt :: time
  fin_AuthorizedAt :: time
  fin_StartedAt :: time
  fin_Status :: string
  fin_ToolResult :: tool_result
  fin_ErrorType :: string
  fin_ErrorMessage :: string
  fin_Failure :: "failure option"

record call_start_info =
  csi_Step :: int
  csi_Attempt :: nat
  csi_MessageID :: string
  csi_StartedAt :: time
  csi_Trace :: "call_trace option"

record call_finish_info =
  cfi_Step :: int
  cfi_Attempt :: nat
  cfi_CallID :: string
  cfi_StartedAt :: time
  cfi_CompletedAt :: time
  cfi_Trace :: "call_trace option"
  cfi_Assistant :: "message option"
  cfi_Usage :: usage
  cfi_ProviderRequestID :: string
  cfi_Failure :: "failure option"

record execution =
  \<comment> \<open>what \<^verbatim>\<open>Execute\<close> returns, and the progress it reported before\<close>
  exe_Text :: string
  exe_OutputParts :: content
  exe_Structured :: json
  exe_Metadata :: meta
  exe_Failure :: "failure option"
  exe_Progress :: "(string \<times> meta) list"

end
