(* ===== verification/Agent_Program.thy ===== *)
theory Agent_Program
  imports Agent_Types
begin

text \<open>
  Programs that talk to their environment.  The run loop calls hooks, callbacks, the client and
  tools, reads the clock and its context, and emits events; all of these are questions, and the
  program is a tree that branches on the answers.  The environment is arbitrary: it may answer as it
  likes, and differently each time.  A program may also panic.

  Tools that run in parallel are an interleaving of their programs, at the granularity of questions,
  in an order that is itself an answer.  The weakest precondition of a monitor, an automaton over the
  questions and answers, is computed from the tree; it is the tool of the proofs about the loop.
\<close>

section \<open>Questions and answers\<close>

datatype question =
    Ask_Context                                   \<comment> \<open>\<^verbatim>\<open>ctx.Err()\<close>\<close>
  | Ask_Now                                       \<comment> \<open>\<^verbatim>\<open>time.Now()\<close>\<close>
  | Ask_Order nat                                 \<comment> \<open>the interleaving of so many goroutines\<close>
  | Emit event
  | Hook_BeforeRun "message list"
  | Hook_AfterRun run_result "failure option"
  | Hook_OnTurnStart nat
  | Hook_OnTurnEnd nat turn
  | Hook_TransformSystem string
  | Hook_TransformToolDefs nat "tool_def list"
  | Hook_TransformParams nat
  | Hook_TransformHistory nat "message list" usage request
  | Hook_TransformContext nat "message list"
  | Hook_BeforeToolCall tool_call
  | Hook_AfterToolCall tool_call tool_result
  | Checkpoint_Save int message
  | Client_LoweredOptions request
  | Client_Stream request
  | Wait_Retry int
  | ModelCall_Start call_start_info
  | ModelCall_Finish call_finish_info
  | ToolUse_Propose use_info
  | ToolUse_Authorize use_info
  | ToolUse_Start use_info
  | ToolUse_Finish finish_info
  | Prompt_Permission permission_request_info
  | Execute_Tool tool_call invocation

datatype answer =
    Is_Done
  | Is_Error "failure option"
  | Is_Number int
  | Is_Text "failure + string"
  | Is_Messages "failure + message list option"
  | Is_Tools "failure + tool_def list"
  | Is_Tokens "failure + int option"
  | Is_Message "failure + message"
  | Is_Flag bool
  | Is_Stream "failure + stream_part list \<times> failure option \<times> message option"
  | Is_Args "args \<times> failure option"
  | Is_Result "failure + tool_result"
  | Is_Execution execution
  | Is_Order "nat list"

text \<open>
  The reading of an answer at the type its question has.  An answer of another type, which Go's
  types exclude, is read as some answer of that type.
\<close>

fun error_answer :: "answer \<Rightarrow> failure option" where
  "error_answer (Is_Error e) = e" | "error_answer _ = None"

fun number_answer :: "answer \<Rightarrow> int" where
  "number_answer (Is_Number n) = n" | "number_answer _ = 0"

fun text_answer :: "answer \<Rightarrow> failure + string" where
  "text_answer (Is_Text r) = r" | "text_answer _ = Inr ''''"

fun messages_answer :: "answer \<Rightarrow> failure + message list option" where
  "messages_answer (Is_Messages r) = r" | "messages_answer _ = Inr None"

fun tools_answer :: "answer \<Rightarrow> failure + tool_def list" where
  "tools_answer (Is_Tools r) = r" | "tools_answer _ = Inr []"

fun tokens_answer :: "answer \<Rightarrow> failure + int option" where
  "tokens_answer (Is_Tokens r) = r" | "tokens_answer _ = Inr None"

fun message_answer :: "message \<Rightarrow> answer \<Rightarrow> failure + message" where
  "message_answer m (Is_Message r) = r" | "message_answer m _ = Inr m"

fun flag_answer :: "answer \<Rightarrow> bool" where
  "flag_answer (Is_Flag b) = b" | "flag_answer _ = False"

fun stream_answer :: "answer \<Rightarrow> failure + stream_part list \<times> failure option \<times> message option" where
  "stream_answer (Is_Stream r) = r" | "stream_answer _ = Inr ([], None, None)"

fun args_answer :: "answer \<Rightarrow> args \<times> failure option" where
  "args_answer (Is_Args r) = r" | "args_answer _ = (None, None)"

fun result_answer :: "tool_result \<Rightarrow> answer \<Rightarrow> failure + tool_result" where
  "result_answer res (Is_Result r) = r" | "result_answer res _ = Inr res"

definition no_execution :: execution where
  "no_execution = \<lparr>exe_Text = '''', exe_OutputParts = [], exe_Structured = JNull, exe_Metadata = None, exe_Failure = None,
     exe_Progress = []\<rparr>"

fun execution_answer :: "answer \<Rightarrow> execution" where
  "execution_answer (Is_Execution e) = e" | "execution_answer _ = no_execution"

fun order_answer :: "answer \<Rightarrow> nat list" where
  "order_answer (Is_Order is) = is" | "order_answer _ = []"

section \<open>Programs\<close>

datatype 'a program = Return 'a | Panic | Ask question "answer \<Rightarrow> 'a program"

primrec bindP :: "'a program \<Rightarrow> ('a \<Rightarrow> 'b program) \<Rightarrow> 'b program" where
  "bindP (Return a) f = f a"
| "bindP Panic f = Panic"
| "bindP (Ask q k) f = Ask q (\<lambda>r. bindP (k r) f)"

lemma bindP_Return [simp]: "bindP p Return = p"
  by (induction p) auto

lemma bindP_assoc [simp]: "bindP (bindP p f) g = bindP p (\<lambda>a. bindP (f a) g)"
  by (induction p) auto

definition ask :: "question \<Rightarrow> (answer \<Rightarrow> 'a) \<Rightarrow> 'a program" where
  \<comment> \<open>one question and the reading of its answer\<close>
  "ask q f = Ask q (\<lambda>r. Return (f r))"

definition emit :: "event \<Rightarrow> unit program" where
  "emit e = ask (Emit e) (\<lambda>_. ())"

definition emitError :: "failure \<Rightarrow> unit program" where
  "emitError e = emit (ErrorEvent e)"

definition tell :: "bool \<Rightarrow> question \<Rightarrow> failure option program" where
  \<comment> \<open>a callback that may not be installed and returns an error at most\<close>
  "tell installed q = (if installed then ask q error_answer else Return None)"

primrec deferP :: "'a program \<Rightarrow> ('a option \<Rightarrow> 'b program) \<Rightarrow> 'b program" where
  \<comment> \<open>a deferred function, which runs after a panic, too, and the panic goes on\<close>
  "deferP (Return a) f = f (Some a)"
| "deferP Panic f = bindP (f None) (\<lambda>_. Panic)"
| "deferP (Ask q k) f = Ask q (\<lambda>r. deferP (k r) f)"

definition now :: "time program" where
  "now = ask Ask_Now number_answer"

primrec mapP :: "('a \<Rightarrow> 'b program) \<Rightarrow> 'a list \<Rightarrow> 'b list program" where
  "mapP f [] = Return []"
| "mapP f (x # xs) = bindP (f x) (\<lambda>y. bindP (mapP f xs) (\<lambda>ys. Return (y # ys)))"

primrec emit_all :: "event list \<Rightarrow> unit program" where
  "emit_all [] = Return ()"
| "emit_all (e # es) = bindP (emit e) (\<lambda>_. emit_all es)"

text \<open>One program after the other, and programs in parallel: each entry of the order lets one of
  them ask its next question, and when the order is used up the rest runs one after the other.\<close>

primrec in_turn :: "'a program list \<Rightarrow> 'a list program" where
  "in_turn [] = Return []"
| "in_turn (p # ps) = bindP p (\<lambda>a. bindP (in_turn ps) (\<lambda>as. Return (a # as)))"

primrec in_parallel :: "nat list \<Rightarrow> 'a program list \<Rightarrow> 'a list program" where
  "in_parallel [] ps = in_turn ps"
| "in_parallel (i # order) ps =
     (if i < length ps then
        (case ps ! i of
           Return a \<Rightarrow> in_parallel order ps
         | Panic \<Rightarrow> Panic
         | Ask q k \<Rightarrow> Ask q (\<lambda>r. in_parallel order (ps[i := k r])))
      else in_parallel order ps)"

section \<open>Runs\<close>

type_synonym dialogue = "(question \<times> answer) list"

primrec runs :: "'a program \<Rightarrow> dialogue \<Rightarrow> 'a \<Rightarrow> bool" where
  \<comment> \<open>the program can have the dialogue and return the value\<close>
  "runs (Return a) d b \<longleftrightarrow> d = [] \<and> b = a"
| "runs Panic d b \<longleftrightarrow> False"
| "runs (Ask q k) d b \<longleftrightarrow> (\<exists>r d'. d = (q, r) # d' \<and> runs (k r) d' b)"

primrec talks :: "'a program \<Rightarrow> dialogue \<Rightarrow> bool" where
  \<comment> \<open>the program can have the dialogue, and may go on\<close>
  "talks (Return a) d \<longleftrightarrow> d = []"
| "talks Panic d \<longleftrightarrow> d = []"
| "talks (Ask q k) d \<longleftrightarrow> d = [] \<or> (\<exists>r d'. d = (q, r) # d' \<and> talks (k r) d')"

primrec play :: "(dialogue \<Rightarrow> question \<Rightarrow> answer) \<Rightarrow> dialogue \<Rightarrow> 'a program \<Rightarrow> dialogue \<times> 'a option" where
  \<comment> \<open>the run against an environment that answers from the dialogue so far, None for a panic\<close>
  "play env d (Return a) = (d, Some a)"
| "play env d Panic = (d, None)"
| "play env d (Ask q k) = (let r = env d q in play env (d @ [(q, r)]) (k r))"

lemma runs_bind:
  "runs (bindP p f) d b \<longleftrightarrow> (\<exists>d1 a d2. d = d1 @ d2 \<and> runs p d1 a \<and> runs (f a) d2 b)"
proof (induction p arbitrary: d)
  case (Ask q k)
  have "runs (bindP (Ask q k) f) d b \<longleftrightarrow> (\<exists>r d'. d = (q, r) # d' \<and> (\<exists>d1 a d2. d' = d1 @ d2 \<and> runs (k r) d1 a \<and> runs (f a) d2 b))"
    using Ask by simp
  also have "\<dots> \<longleftrightarrow> (\<exists>d1 a d2. d = d1 @ d2 \<and> runs (Ask q k) d1 a \<and> runs (f a) d2 b)"
    by (simp add: ex_simps [symmetric] del: ex_simps) (metis append_Cons)
  finally show ?case .
qed simp_all

lemma runs_talks: "runs p d a \<Longrightarrow> talks p d"
  by (induction p arbitrary: d) auto

text \<open>Every environment has a run, which returns or panics.\<close>

lemma play_runs: "play env d p = (e, a) \<Longrightarrow> \<exists>d'. e = d @ d' \<and> talks p d' \<and> (\<forall>b. a = Some b \<longrightarrow> runs p d' b)"
proof (induction p arbitrary: d)
  case (Ask q k)
  let ?r = "env d q"
  have "play env (d @ [(q, ?r)]) (k ?r) = (e, a)" using Ask.prems by (simp add: Let_def)
  from Ask.IH [OF rangeI this] obtain d' where "e = (d @ [(q, ?r)]) @ d'" "talks (k ?r) d'" "\<forall>b. a = Some b \<longrightarrow> runs (k ?r) d' b"
    by blast
  then show ?case by (intro exI [of _ "(q, ?r) # d'"]) simp
qed auto

section \<open>Monitors\<close>

text \<open>
  A monitor accepts a question with its answer by moving to a next state, and rejects it otherwise.
  \<open>wp accept p s Q\<close> says that from the state \<open>s\<close> every dialogue of \<open>p\<close> is accepted and ends in a state
  that satisfies \<open>Q\<close> with the value returned, unless the program panics there.
\<close>

type_synonym 's monitor = "'s \<Rightarrow> question \<Rightarrow> answer \<Rightarrow> 's option"

primrec wp :: "'s monitor \<Rightarrow> 'a program \<Rightarrow> 's \<Rightarrow> ('s \<Rightarrow> 'a \<Rightarrow> bool) \<Rightarrow> bool" where
  "wp accept (Return a) s Q \<longleftrightarrow> Q s a"
| "wp accept Panic s Q \<longleftrightarrow> True"
| "wp accept (Ask q k) s Q \<longleftrightarrow> (\<forall>r. case accept s q r of None \<Rightarrow> False | Some s' \<Rightarrow> wp accept (k r) s' Q)"

fun watch :: "'s monitor \<Rightarrow> dialogue \<Rightarrow> 's \<Rightarrow> 's option" where
  \<comment> \<open>the state after a dialogue, if it is accepted\<close>
  "watch accept [] s = Some s"
| "watch accept ((q, r) # d) s = (case accept s q r of None \<Rightarrow> None | Some s' \<Rightarrow> watch accept d s')"

lemma watch_append: "watch accept (d @ d') s = (case watch accept d s of None \<Rightarrow> None | Some s' \<Rightarrow> watch accept d' s')"
  by (induction accept d s rule: watch.induct) (auto split: option.split)

lemma wp_bind [simp]: "wp accept (bindP p f) s Q \<longleftrightarrow> wp accept p s (\<lambda>s a. wp accept (f a) s Q)"
  by (induction p arbitrary: s) (auto cong: option.case_cong)

lemma wp_mono: "wp accept p s Q \<Longrightarrow> (\<And>s a. Q s a \<Longrightarrow> Q' s a) \<Longrightarrow> wp accept p s Q'"
proof (induction p arbitrary: s)
  case (Ask q k)
  show ?case unfolding wp.simps
  proof
    fix r
    have "case accept s q r of None \<Rightarrow> False | Some s' \<Rightarrow> wp accept (k r) s' Q" using Ask.prems(1) by simp
    then show "case accept s q r of None \<Rightarrow> False | Some s' \<Rightarrow> wp accept (k r) s' Q'"
      using Ask.IH Ask.prems(2) by (cases "accept s q r") auto
  qed
qed simp_all

lemma wp_talks: "talks p d \<Longrightarrow> wp accept p s Q \<Longrightarrow> watch accept d s \<noteq> None"
proof (induction p arbitrary: d s)
  case (Ask q k)
  show ?case
  proof (cases "d = []")
    case False
    then obtain r d' where d: "d = (q, r) # d'" "talks (k r) d'" using Ask.prems(1) by auto
    from Ask.prems(2) obtain s' where s': "accept s q r = Some s'" "wp accept (k r) s' Q"
      by (auto split: option.splits dest: spec [of _ r])
    from Ask.IH [OF _ d(2) s'(2)] show ?thesis by (auto simp: d(1) s'(1))
  qed simp
qed auto

lemma wp_runs: "runs p d a \<Longrightarrow> wp accept p s Q \<Longrightarrow> \<exists>s'. watch accept d s = Some s' \<and> Q s' a"
proof (induction p arbitrary: d s)
  case (Ask q k)
  from Ask.prems(1) obtain r d' where d: "d = (q, r) # d'" "runs (k r) d' a" by auto
  from Ask.prems(2) obtain s' where s': "accept s q r = Some s'" "wp accept (k r) s' Q"
    by (auto split: option.splits dest: spec [of _ r])
  from Ask.IH [OF _ d(2) s'(2)] show ?case by (auto simp: d(1) s'(1))
qed auto

lemma wp_ask [simp]:
  "wp accept (ask q f) s Q \<longleftrightarrow> (\<forall>r. case accept s q r of None \<Rightarrow> False | Some s' \<Rightarrow> Q s' (f r))"
  by (simp add: ask_def cong: option.case_cong)

lemma wp_deferP:
  assumes "wp accept p s (\<lambda>s' a. wp accept (f (Some a)) s' Q)" "\<And>s'. wp accept (f None) s' (\<lambda>_ _. True)"
  shows "wp accept (deferP p f) s Q"
  using assms(1)
proof (induction p arbitrary: s)
  case Panic
  then show ?case using assms(2) by simp
next
  case (Ask q k)
  show ?case unfolding deferP.simps wp.simps
  proof
    fix r
    have "case accept s q r of None \<Rightarrow> False | Some s' \<Rightarrow> wp accept (k r) s' (\<lambda>s' a. wp accept (f (Some a)) s' Q)"
      using Ask.prems by simp
    then show "case accept s q r of None \<Rightarrow> False | Some s' \<Rightarrow> wp accept (deferP (k r) f) s' Q"
      using Ask.IH by (cases "accept s q r") auto
  qed
qed simp

text \<open>
  A monitor of things that have a key each, such as the tool uses of one turn: a question is about one
  thing or about none, and one about none changes nothing.  The things are watched by a function from
  their keys to their states; a program that only asks about its own thing is judged by that thing's
  state alone, also when it runs in parallel with programs of other things.
\<close>

locale keyed_monitor =
  fixes key :: "question \<Rightarrow> 'k option"
    and accept :: "'s monitor"
  assumes keyless: "key q = None \<Longrightarrow> accept s q r = Some s"
begin

definition accept_all :: "('k \<Rightarrow> 's) monitor" where
  "accept_all m q r = (case key q of None \<Rightarrow> Some m | Some i \<Rightarrow> map_option (\<lambda>s. m(i := s)) (accept (m i) q r))"

definition accept_own :: "'k \<Rightarrow> 's monitor" where
  \<comment> \<open>the monitor of one thing, which rejects a question about another\<close>
  "accept_own i s q r = (case key q of None \<Rightarrow> Some s | Some j \<Rightarrow> if j = i then accept s q r else None)"

lemma own_step: "accept_own i (m i) q r = Some s' \<Longrightarrow> accept_all m q r = Some (m(i := s'))"
  by (auto simp: accept_all_def accept_own_def split: option.splits if_splits)

lemma own_Ask:
  assumes "wp (accept_own i) (Ask q k) (m i) Q"
  obtains s' where "accept_all m q r = Some (m(i := s'))" "wp (accept_own i) (k r) s' Q"
proof -
  have "case accept_own i (m i) q r of None \<Rightarrow> False | Some s' \<Rightarrow> wp (accept_own i) (k r) s' Q"
    using assms by simp
  then show thesis using that own_step by (cases "accept_own i (m i) q r") auto
qed

lemma own_in_all:
  "wp (accept_own i) p (m i) Q \<Longrightarrow> wp accept_all p m (\<lambda>m' a. Q (m' i) a \<and> (\<forall>j. j \<noteq> i \<longrightarrow> m' j = m j))"
proof (induction p arbitrary: m)
  case (Ask q k)
  show ?case unfolding wp.simps
  proof
    fix r
    obtain s' where s': "accept_all m q r = Some (m(i := s'))" "wp (accept_own i) (k r) s' Q"
      using Ask.prems by (rule own_Ask)
    have "wp (accept_own i) (k r) ((m(i := s')) i) Q" using s'(2) by simp
    from Ask.IH [OF rangeI, where m = "m(i := s')", OF this] have "wp accept_all (k r) (m(i := s')) (\<lambda>m' a. Q (m' i) a \<and> (\<forall>j. j \<noteq> i \<longrightarrow> m' j = m j))"
      by (rule wp_mono) simp
    then show "case accept_all m q r of None \<Rightarrow> False
      | Some m' \<Rightarrow> wp accept_all (k r) m' (\<lambda>m' a. Q (m' i) a \<and> (\<forall>j. j \<noteq> i \<longrightarrow> m' j = m j))"
      by (simp add: s'(1))
  qed
qed simp_all

lemma turns:
  assumes "\<forall>n < length ps. wp (accept_own (i n)) (ps ! n) (m (i n)) (Q n)" "inj i"
  shows "wp accept_all (in_turn ps) m (\<lambda>m' as. length as = length ps
    \<and> (\<forall>n < length ps. Q n (m' (i n)) (as ! n)) \<and> (\<forall>j. j \<notin> i ` {..<length ps} \<longrightarrow> m' j = m j))"
  using assms
proof (induction ps arbitrary: i m Q)
  case (Cons p ps)
  have "wp (accept_own (i 0)) p (m (i 0)) (Q 0)" using Cons.prems(1) by force
  then have p: "wp accept_all p m (\<lambda>m' a. Q 0 (m' (i 0)) a \<and> (\<forall>j. j \<noteq> i 0 \<longrightarrow> m' j = m j))"
    by (rule own_in_all)
  have other: "i (Suc n) \<noteq> i 0" for n using Cons.prems(2) by (auto dest: injD)
  show ?case unfolding in_turn.simps wp_bind wp.simps
  proof (rule wp_mono [OF p])
    fix m' a assume first: "Q 0 (m' (i 0)) a \<and> (\<forall>j. j \<noteq> i 0 \<longrightarrow> m' j = m j)"
    have "\<forall>n < length ps. wp (accept_own (i (Suc n))) (ps ! n) (m' (i (Suc n))) (Q (Suc n))"
      using Cons.prems(1) first other by force
    moreover have "inj (\<lambda>n. i (Suc n))" using Cons.prems(2) by (auto simp: inj_def)
    ultimately have rest: "wp accept_all (in_turn ps) m' (\<lambda>m'' as. length as = length ps
        \<and> (\<forall>n < length ps. Q (Suc n) (m'' (i (Suc n))) (as ! n)) \<and> (\<forall>j. j \<notin> (\<lambda>n. i (Suc n)) ` {..<length ps} \<longrightarrow> m'' j = m' j))"
      by (rule Cons.IH)
    show "wp accept_all (in_turn ps) m' (\<lambda>s aa. length (a # aa) = length (p # ps)
        \<and> (\<forall>n < length (p # ps). Q n (s (i n)) ((a # aa) ! n)) \<and> (\<forall>j. j \<notin> i ` {..<length (p # ps)} \<longrightarrow> s j = m j))"
    proof (rule wp_mono [OF rest])
      fix s aa
      assume r: "length aa = length ps \<and> (\<forall>n < length ps. Q (Suc n) (s (i (Suc n))) (aa ! n))
        \<and> (\<forall>j. j \<notin> (\<lambda>n. i (Suc n)) ` {..<length ps} \<longrightarrow> s j = m' j)"
      have "i 0 \<notin> (\<lambda>n. i (Suc n)) ` {..<length ps}" using other by force
      then have i0: "s (i 0) = m' (i 0)" using r by blast
      have "s j = m j" if "j \<notin> i ` {..<length (p # ps)}" for j
      proof -
        have "j \<notin> (\<lambda>n. i (Suc n)) ` {..<length ps}" "j \<noteq> i 0" using that by auto
        then show ?thesis using r first by metis
      qed
      then show "length (a # aa) = length (p # ps) \<and> (\<forall>n < length (p # ps). Q n (s (i n)) ((a # aa) ! n))
        \<and> (\<forall>j. j \<notin> i ` {..<length (p # ps)} \<longrightarrow> s j = m j)"
        using r first i0 by (auto simp: less_Suc_eq_0_disj)
    qed
  qed
qed simp

lemma parallel:
  assumes "\<forall>n < length ps. wp (accept_own (i n)) (ps ! n) (m (i n)) (Q n)" "inj i"
  shows "wp accept_all (in_parallel order ps) m (\<lambda>m' as. length as = length ps
    \<and> (\<forall>n < length ps. Q n (m' (i n)) (as ! n)) \<and> (\<forall>j. j \<notin> i ` {..<length ps} \<longrightarrow> m' j = m j))"
  using assms(1)
proof (induction order arbitrary: ps m)
  case Nil
  then show ?case using turns assms(2) by simp
next
  case (Cons n order)
  show ?case
  proof (cases "n < length ps")
    case True
    show ?thesis
    proof (cases "ps ! n")
      case (Return a)
      then show ?thesis using Cons by simp
    next
      case Panic
      then show ?thesis using True by simp
    next
      case (Ask q k)
      have step: "\<exists>m''. accept_all m q r = Some m'' \<and> wp accept_all (in_parallel order (ps[n := k r])) m'' (\<lambda>m' as. length as = length ps
        \<and> (\<forall>n < length ps. Q n (m' (i n)) (as ! n)) \<and> (\<forall>j. j \<notin> i ` {..<length ps} \<longrightarrow> m' j = m j))" for r
      proof -
        have "wp (accept_own (i n)) (Ask q k) (m (i n)) (Q n)" using Cons.prems True Ask by force
        then obtain s' where s': "accept_all m q r = Some (m(i n := s'))" "wp (accept_own (i n)) (k r) s' (Q n)"
          by (rule own_Ask)
        have "\<forall>l < length (ps[n := k r]). wp (accept_own (i l)) (ps[n := k r] ! l) ((m(i n := s')) (i l)) (Q l)"
          using Cons.prems s'(2) assms(2) by (auto simp: nth_list_update inj_eq)
        then have "wp accept_all (in_parallel order (ps[n := k r])) (m(i n := s')) (\<lambda>m' as. length as = length (ps[n := k r])
            \<and> (\<forall>l < length (ps[n := k r]). Q l (m' (i l)) (as ! l))
            \<and> (\<forall>j. j \<notin> i ` {..<length (ps[n := k r])} \<longrightarrow> m' j = (m(i n := s')) j))"
          by (rule Cons.IH)
        then have "wp accept_all (in_parallel order (ps[n := k r])) (m(i n := s')) (\<lambda>m' as. length as = length ps
            \<and> (\<forall>n < length ps. Q n (m' (i n)) (as ! n)) \<and> (\<forall>j. j \<notin> i ` {..<length ps} \<longrightarrow> m' j = m j))"
          by (rule wp_mono) (use True in auto)
        with s'(1) show ?thesis by blast
      qed
      show ?thesis unfolding in_parallel.simps if_P [OF True] Ask program.case wp.simps
      proof
        fix r
        show "case accept_all m q r of None \<Rightarrow> False | Some s' \<Rightarrow> wp accept_all (in_parallel order (ps[n := k r])) s'
          (\<lambda>m' as. length as = length ps \<and> (\<forall>n < length ps. Q n (m' (i n)) (as ! n))
            \<and> (\<forall>j. j \<notin> i ` {..<length ps} \<longrightarrow> m' j = m j))"
          using step [of r] by (elim exE conjE) simp
      qed
    qed
  next
    case False
    then show ?thesis using Cons by simp
  qed
qed

end

end
