(* ===== verification/Agent_Stream.thy ===== *)
theory Agent_Stream
  imports Agent_Program
begin

text \<open>
  The assistant's message of one turn in \<^verbatim>\<open>agent/run/run.go\<close>: the snapshot that grows with the parts
  of the stream, the merge with the final message of the provider, its tool calls, and the tool parts
  that the results become.  A failed type assertion or an index out of range is a panic.
\<close>

section \<open>Streaming\<close>

fun streamPartProviderID :: "stream_part \<Rightarrow> string" where
  "streamPartProviderID (TextStartPart i _) = i"
| "streamPartProviderID (TextDeltaPart i _ _) = i"
| "streamPartProviderID (TextEndPart i _) = i"
| "streamPartProviderID (ReasoningStartPart i _) = i"
| "streamPartProviderID (ReasoningDeltaPart i _ _) = i"
| "streamPartProviderID (ReasoningEndPart i _) = i"
| "streamPartProviderID (ToolInputStartPart i _ _) = i"
| "streamPartProviderID (ToolInputDeltaPart i _ _) = i"
| "streamPartProviderID (ToolInputEndPart i _) = i"
| "streamPartProviderID (StreamToolCallPart i _ _ _ _) = i"
| "streamPartProviderID _ = ''''"

type_synonym indexes = "(string, nat) gomap"

definition new_tool :: "string \<Rightarrow> string \<Rightarrow> args \<Rightarrow> bool \<Rightarrow> meta \<Rightarrow> part" where
  \<comment> \<open>the pending tool part of a streamed call\<close>
  "new_tool callID name input executed metadata =
     ToolPart (pending_tool \<lparr>tcp_ID = '''', tcp_ToolUseID = '''', tcp_CallID = callID, tcp_Name = name, tcp_Input = input,
       tcp_ProviderExecuted = executed, tcp_ProviderMetadata = metadata\<rparr>) []"

definition append_part :: "string \<Rightarrow> part \<Rightarrow> message \<times> indexes \<Rightarrow> message \<times> indexes" where
  \<comment> \<open>the closure \<^verbatim>\<open>appendPart\<close>\<close>
  "append_part i p = (\<lambda>(m, ix). (m\<lparr>mes_Content := mes_Content m @ [p]\<rparr>, AList.update i (length (mes_Content m)) ix))"

definition edit_part :: "(part \<Rightarrow> part option) \<Rightarrow> nat \<Rightarrow> message \<Rightarrow> message option" where
  \<comment> \<open>read the part at an index as some type of part and write it back; None is a panic\<close>
  "edit_part f n m =
     (if n < length (mes_Content m)
      then map_option (\<lambda>p. m\<lparr>mes_Content := (mes_Content m)[n := p]\<rparr>) (f (mes_Content m ! n)) else None)"

fun text_delta :: "string \<Rightarrow> meta \<Rightarrow> part \<Rightarrow> part option" where
  "text_delta d pm (TextPart t) = Some (TextPart (t\<lparr>txt_Text := txt_Text t @ d, txt_ProviderMetadata := pm\<rparr>))"
| "text_delta d pm _ = None"

fun reasoning_delta :: "string \<Rightarrow> meta \<Rightarrow> part \<Rightarrow> part option" where
  "reasoning_delta d pm (ReasoningPart t) =
     Some (ReasoningPart (t\<lparr>rsn_Reasoning := rsn_Reasoning t @ d, rsn_ProviderMetadata := pm\<rparr>))"
| "reasoning_delta d pm _ = None"

fun input_delta :: "string \<Rightarrow> meta \<Rightarrow> part \<Rightarrow> part option" where
  "input_delta d pm (ToolPart t out) = Some (ToolPart (t\<lparr>tpt_InputRaw := tpt_InputRaw t @ d, tpt_ProviderMetadata := pm\<rparr>) out)"
| "input_delta d pm _ = None"

fun set_call :: "string \<Rightarrow> string \<Rightarrow> args \<Rightarrow> bool \<Rightarrow> meta \<Rightarrow> part \<Rightarrow> part option" where
  "set_call callID name input executed pm (ToolPart t out) =
     Some (ToolPart (t\<lparr>tpt_CallID := callID, tpt_Name := name, tpt_Input := input, tpt_ProviderExecuted := executed,
       tpt_ProviderMetadata := pm\<rparr>) out)"
| "set_call callID name input executed pm _ = None"

type_synonym applied = "(message \<times> indexes) \<times> string \<times> bool"

definition delta_part :: "string \<Rightarrow> (part \<Rightarrow> part option) \<Rightarrow> message \<times> indexes \<Rightarrow> applied option" where
  \<comment> \<open>a delta of the block \<open>i\<close>\<close>
  "delta_part i f = (\<lambda>(m, ix).
     (case map_of ix i of
        None \<Rightarrow> Some ((m, ix), '''', False)
      | Some n \<Rightarrow> map_option (\<lambda>m'. ((m', ix), i, True)) (edit_part f n m)))"

definition end_part :: "string \<Rightarrow> message \<times> indexes \<Rightarrow> applied" where
  "end_part i s = (case map_of (snd s) i of None \<Rightarrow> (s, '''', False) | Some _ \<Rightarrow> (s, i, True))"

fun applyStreamPart :: "stream_part \<Rightarrow> message \<times> indexes \<Rightarrow> applied option" where
  "applyStreamPart (TextStartPart i pm) s =
     Some (append_part i (TextPart \<lparr>txt_ID = '''', txt_Text = '''', txt_ProviderMetadata = pm\<rparr>) s, i, True)"
| "applyStreamPart (TextDeltaPart i d pm) s = delta_part i (text_delta d pm) s"
| "applyStreamPart (TextEndPart i _) s = Some (end_part i s)"
| "applyStreamPart (ReasoningStartPart i pm) s =
     Some (append_part i (ReasoningPart \<lparr>rsn_ID = '''', rsn_Reasoning = '''', rsn_Encrypted = '''', rsn_ProviderMetadata = pm\<rparr>) s, i, True)"
| "applyStreamPart (ReasoningDeltaPart i d pm) s = delta_part i (reasoning_delta d pm) s"
| "applyStreamPart (ReasoningEndPart i _) s = Some (end_part i s)"
| "applyStreamPart (ToolInputStartPart i name pm) s = Some (append_part i (new_tool '''' name (Some []) False pm) s, i, True)"
| "applyStreamPart (ToolInputDeltaPart i d pm) s = delta_part i (input_delta d pm) s"
| "applyStreamPart (ToolInputEndPart i _) s = Some (end_part i s)"
| "applyStreamPart (StreamToolCallPart i name input executed pm) s =
     (case map_of (snd s) i of
        None \<Rightarrow> Some (append_part i (new_tool i name input executed pm) s, i, True)
      | Some n \<Rightarrow>
          (if n < length (mes_Content (fst s)) then
             (case edit_part (set_call i name input executed pm) n (fst s) of
                None \<Rightarrow> Some (s, '''', False)
              | Some m \<Rightarrow> Some ((m, snd s), i, True))
           else None))"
| "applyStreamPart _ s = Some (s, '''', False)"

section \<open>The provider's final message\<close>

definition at_or :: "'a \<Rightarrow> 'a list \<Rightarrow> nat \<Rightarrow> 'a" where
  "at_or z xs n = (if n < length xs then xs ! n else z)"

fun text_ids :: "content \<Rightarrow> string list" where
  "text_ids [] = []"
| "text_ids (TextPart t # ps) = txt_ID t # text_ids ps"
| "text_ids (_ # ps) = text_ids ps"

fun reasoning_ids :: "content \<Rightarrow> string list" where
  "reasoning_ids [] = []"
| "reasoning_ids (ReasoningPart t # ps) = rsn_ID t # reasoning_ids ps"
| "reasoning_ids (_ # ps) = reasoning_ids ps"

type_synonym streamed_tools = "(string, tool_part \<times> content) gomap"

fun streamed_tool :: "part \<Rightarrow> streamed_tools \<Rightarrow> streamed_tools" where
  "streamed_tool (ToolPart t out) m = AList.update (tpt_CallID t) (t, out) m"
| "streamed_tool (ToolCallPart c) m = AList.update (tcp_CallID c) (pending_tool c, []) m"
| "streamed_tool _ m = m"

definition with_id :: "part \<Rightarrow> string \<Rightarrow> part" where
  "with_id p i = (if i \<noteq> '''' then WithPartID p i else p)"

definition merge_call :: "tool_part \<Rightarrow> tool_call_part \<Rightarrow> tool_part" where
  "merge_call streamed p =
     streamed\<lparr>tpt_CallID := tcp_CallID p, tpt_Name := tcp_Name p, tpt_State := ToolStatePending, tpt_Input := tcp_Input p,
       tpt_ToolUseID := (if tpt_ToolUseID streamed = '''' then tcp_ToolUseID p else tpt_ToolUseID streamed),
       tpt_ProviderExecuted := tcp_ProviderExecuted p, tpt_ProviderMetadata := tcp_ProviderMetadata p\<rparr>"

definition merge_tool :: "tool_part \<Rightarrow> tool_part \<Rightarrow> tool_part" where
  "merge_tool streamed p =
     p\<lparr>tpt_ID := tpt_ID streamed,
       tpt_ToolUseID := (if tpt_ToolUseID p = '''' then tpt_ToolUseID streamed else tpt_ToolUseID p),
       tpt_InputRaw := (if tpt_InputRaw p = '''' then tpt_InputRaw streamed else tpt_InputRaw p)\<rparr>"

fun merge_parts :: "string list \<Rightarrow> string list \<Rightarrow> streamed_tools \<Rightarrow> nat \<Rightarrow> nat \<Rightarrow> content \<Rightarrow> content" where
  \<comment> \<open>the second loop, with \<^verbatim>\<open>textN\<close> and \<^verbatim>\<open>reasoningN\<close>\<close>
  "merge_parts texts reasonings tools tn rn [] = []"
| "merge_parts texts reasonings tools tn rn (TextPart p # ps) =
     with_id (TextPart p) (at_or '''' texts tn) # merge_parts texts reasonings tools (tn + 1) rn ps"
| "merge_parts texts reasonings tools tn rn (ReasoningPart p # ps) =
     with_id (ReasoningPart p) (at_or '''' reasonings rn) # merge_parts texts reasonings tools tn (rn + 1) ps"
| "merge_parts texts reasonings tools tn rn (ToolCallPart p # ps) =
     (case map_of tools (tcp_CallID p) of
        Some (streamed, out) \<Rightarrow> with_id (ToolPart (merge_call streamed p) out) (tpt_ID streamed)
      | None \<Rightarrow> ToolCallPart p) # merge_parts texts reasonings tools tn rn ps"
| "merge_parts texts reasonings tools tn rn (ToolPart p out # ps) =
     (case map_of tools (tpt_CallID p) of
        Some (streamed, _) \<Rightarrow> with_id (ToolPart (merge_tool streamed p) out) (tpt_ID streamed)
      | None \<Rightarrow> ToolPart p out) # merge_parts texts reasonings tools tn rn ps"
| "merge_parts texts reasonings tools tn rn (p # ps) = p # merge_parts texts reasonings tools tn rn ps"

definition mergeFinalAssistant :: "message \<Rightarrow> message \<Rightarrow> message" where
  "mergeFinalAssistant current final =
     current\<lparr>mes_Content := merge_parts (text_ids (mes_Content current)) (reasoning_ids (mes_Content current))
         (fold streamed_tool (mes_Content current) []) 0 0 (mes_Content final),
       mes_FinishReason := mes_FinishReason final, mes_Origin := mes_Origin final, mes_Usage := mes_Usage final,
       mes_Metadata := mes_Metadata final\<rparr>"

section \<open>Tool calls of a message\<close>

fun part_calls :: "part \<Rightarrow> tool_call_part list" where
  "part_calls (ToolCallPart c) = [c]"
| "part_calls (ToolPart t _) = [expand_call t]"
| "part_calls _ = []"

definition extractToolCalls :: "message \<Rightarrow> tool_call_part list" where
  "extractToolCalls m = concat (map part_calls (mes_Content m))"

definition textOf :: "message \<Rightarrow> string" where
  "textOf m = concat (map part_text (mes_Content m))"

definition anySequential :: "tool_call list \<Rightarrow> bool" where
  "anySequential calls = list_ex (\<lambda>c. case tcl_Tool c of None \<Rightarrow> False | Some t \<Rightarrow> IsSequential t) calls"

fun set_tool_use :: "(string, string) gomap \<Rightarrow> part \<Rightarrow> part" where
  "set_tool_use ids (ToolPart t out) = ToolPart (t\<lparr>tpt_ToolUseID := (case map_of ids (tpt_ID t) of Some i \<Rightarrow> i | None \<Rightarrow> '''')\<rparr>) out"
| "set_tool_use ids (ToolCallPart c) = ToolCallPart (c\<lparr>tcp_ToolUseID := (case map_of ids (tcp_ID c) of Some i \<Rightarrow> i | None \<Rightarrow> '''')\<rparr>)"
| "set_tool_use ids p = p"

definition applyToolUseIDs :: "content \<Rightarrow> tool_call list \<Rightarrow> content" where
  "applyToolUseIDs content calls =
     map (set_tool_use (fold (\<lambda>c. AList.update (tcl_PartID c) (tcl_ToolUseID c)) calls [])) content"

fun firstChangedMessage :: "message list \<Rightarrow> message list \<Rightarrow> message option" where
  "firstChangedMessage old new =
     (case List.find (\<lambda>(a, b). a \<noteq> b) (zip old new) of
        Some (_, b) \<Rightarrow> Some b
      | None \<Rightarrow> if length new > length old then Some (new ! length old)
          else (case new of [] \<Rightarrow> None | m # _ \<Rightarrow> Some m))"

section \<open>Tool results\<close>

definition completedToolResults :: "tool_result list \<Rightarrow> tool_result list" where
  "completedToolResults results = filter (\<lambda>r. trs_CallID r \<noteq> '''' \<or> trs_ToolUseID r \<noteq> '''') results"

definition milliseconds :: "int \<Rightarrow> int" where
  \<comment> \<open>\<^verbatim>\<open>Duration.Milliseconds()\<close>, which truncates\<close>
  "milliseconds d = (if d < 0 then - ((- d) div 1000000) else d div 1000000)"

definition unix_milli :: "time \<Rightarrow> int" where
  "unix_milli t = t div 1000000 - 62135596800000"

type_synonym results = "(string, tool_result) gomap"

definition result_maps :: "tool_result list \<Rightarrow> results \<times> results" where
  "result_maps rs = fold (\<lambda>r (byUse, byCall).
     if trs_ToolUseID r \<noteq> '''' then (AList.update (trs_ToolUseID r) r byUse, byCall)
     else (byUse, AList.update (trs_CallID r) r byCall)) rs ([], [])"

definition find_result :: "results \<times> results \<Rightarrow> tool_part \<Rightarrow> tool_result option" where
  "find_result m t = (if tpt_ToolUseID t \<noteq> '''' then map_of (fst m) (tpt_ToolUseID t) else map_of (snd m) (tpt_CallID t))"

definition put_result :: "tool_result \<Rightarrow> tool_part \<Rightarrow> int \<Rightarrow> part" where
  \<comment> \<open>the tool part with its result, completed at the given time\<close>
  "put_result r t completedAt =
     ToolPart (t\<lparr>tpt_State := (if trs_IsError r then ToolStateError else ToolStateCompleted), tpt_Input := Some (trs_Args r),
       tpt_ToolUseID := (if trs_ToolUseID r \<noteq> '''' then trs_ToolUseID r else tpt_ToolUseID t),
       tpt_Output := trs_Output r, tpt_Structured := trs_Structured r, tpt_Metadata := trs_Metadata r,
       tpt_Error := trs_Error r, tpt_StartedAt := completedAt - milliseconds (trs_Duration r),
       tpt_CompletedAt := completedAt\<rparr>) (trs_OutputParts r)"

definition settle_part :: "results \<times> results \<Rightarrow> tool_part \<Rightarrow> content \<Rightarrow> part program" where
  "settle_part m t out =
     (case find_result m t of
        None \<Rightarrow> Return (ToolPart (t\<lparr>tpt_State := ToolStatePending\<rparr>) out)
      | Some r \<Rightarrow> bindP now (\<lambda>time. Return (put_result r t (unix_milli time))))"

fun part_from_results :: "results \<times> results \<Rightarrow> part \<Rightarrow> part program" where
  "part_from_results m (ToolCallPart c) = settle_part m (pending_tool c) []"
| "part_from_results m (ToolPart t out) = settle_part m t out"
| "part_from_results m p = Return p"

definition toolPartsFromResults :: "content \<Rightarrow> tool_result list \<Rightarrow> content program" where
  "toolPartsFromResults content results = mapP (part_from_results (result_maps results)) content"

definition result_text :: "tool_result \<Rightarrow> string" where
  \<comment> \<open>\<^verbatim>\<open>toolResultText\<close> of \<^verbatim>\<open>run.go\<close>\<close>
  "result_text r =
     (if trs_IsError r \<and> trs_Output r \<noteq> '''' \<and> trs_Error r \<noteq> '''' then trs_Output r @ ''\<newline>'' @ trs_Error r
      else if trs_IsError r \<and> trs_Error r \<noteq> '''' then trs_Error r
      else trs_Output r)"

definition toolResultParts :: "tool_result \<Rightarrow> string \<Rightarrow> content" where
  "toolResultParts r text =
     (if text \<noteq> '''' \<or> trs_OutputParts r = [] then text_of text # trs_OutputParts r else trs_OutputParts r)"

definition buildToolResultMessage :: "tool_result list \<Rightarrow> message" where
  "buildToolResultMessage results = plain_message RoleTool
     (map (\<lambda>r. ToolResultPart
       \<lparr>trp_ID = '''', trp_ToolUseID = trs_ToolUseID r, trp_CallID = trs_CallID r, trp_Name = trs_Name r,
        trp_Structured = trs_Structured r, trp_IsError = trs_IsError r, trp_Metadata = trs_Metadata r,
        trp_ProviderExecuted = False, trp_ProviderMetadata = None\<rparr>
       (toolResultParts r (result_text r))) results)"

end
