(* ===== verification/Agent_Tools.thy ===== *)
theory Agent_Tools
  imports Agent_Stream Go_Path
begin

text \<open>
  The execution of one tool call in \<^verbatim>\<open>agent/run/run.go\<close>: the hook before it, the validation of the
  input, the permission rules and the prompt, the lifecycle callbacks, the execution itself and the
  settlement, which every path ends in.

  The progress a tool reports is part of the answer to its execution and is emitted after it.
\<close>

section \<open>Relative paths\<close>

definition path_elements :: "string \<Rightarrow> string list" where
  \<comment> \<open>the elements of a clean path\<close>
  "path_elements p = filter (\<lambda>w. w \<noteq> '''' \<and> w \<noteq> ''.'') (split_on CHR ''/'' p)"

fun rel_elements :: "string list \<Rightarrow> string list \<Rightarrow> string list option" where
  "rel_elements (b # bs) (t # ts) = (if b = t then rel_elements bs ts
     else if b = ''..'' then None else Some (map (\<lambda>_. ''..'') (b # bs) @ t # ts))"
| "rel_elements [] ts = Some ts"
| "rel_elements (b # bs) [] = (if b = ''..'' then None else Some (map (\<lambda>_. ''..'') (b # bs)))"

definition path_rel :: "string \<Rightarrow> string \<Rightarrow> string option" where
  \<comment> \<open>\<^verbatim>\<open>filepath.Rel\<close>, None for its error\<close>
  "path_rel base targ =
     (let b = path_clean base; t = path_clean targ in
      if b = t then Some ''.''
      else if is_abs b \<noteq> is_abs t then None
      else map_option (join_with CHR ''/'') (rel_elements (path_elements b) (path_elements t)))"

definition path_join :: "string \<Rightarrow> string \<Rightarrow> string" where
  \<comment> \<open>\<^verbatim>\<open>filepath.Join\<close> of two elements\<close>
  "path_join a b =
     (if a = '''' then (if b = '''' then '''' else path_clean b)
      else if b = '''' then path_clean a else path_clean (a @ ''/'' @ b))"

section \<open>The permission of a call\<close>

definition stringArg :: "members \<Rightarrow> string \<Rightarrow> string \<Rightarrow> string" where
  "stringArg args key fallback =
     (case map_of args key of Some (JStr s) \<Rightarrow> if s = '''' then fallback else s | _ \<Rightarrow> fallback)"

definition relativeResource :: "string \<Rightarrow> string \<Rightarrow> string" where
  "relativeResource workDir raw =
     (let path = path_clean (if is_abs raw then raw else path_join workDir raw) in
      case path_rel (path_clean workDir) path of
        None \<Rightarrow> ''''
      | Some rel \<Rightarrow> if rel = ''..'' \<or> is_abs rel \<or> has_prefix rel ''../'' then '''' else rel)"

definition pathResources :: "tool_call \<Rightarrow> string \<Rightarrow> string list" where
  "pathResources call workDir =
     (if tcl_Name call = ''apply_patch'' then [''*'']
      else
        let path = stringArg (tcl_Args call) ''filePath'' '''';
            path = (if path = '''' then stringArg (tcl_Args call) ''path'' '''' else path) in
        if path = '''' then [''*'']
        else if workDir \<noteq> '''' \<and> relativeResource workDir path \<noteq> '''' then [relativeResource workDir path]
        else [path_clean path])"

definition permission_invocation :: "members \<Rightarrow> string \<Rightarrow> invocation" where
  \<comment> \<open>\<^verbatim>\<open>tool.Invocation{Input: args, WorkDir: workDir}\<close>\<close>
  "permission_invocation args workDir = \<lparr>inv_Input = args, inv_WorkDir = workDir, inv_SessionID = '''', inv_RunID = '''',
     inv_AgentID = '''', inv_ToolUseID = '''', inv_CallID = '''', inv_MessageID = '''', inv_PartID = '''', inv_ModelCallID = ''''\<rparr>"

definition named_target :: "tool_call \<Rightarrow> string \<Rightarrow> string \<times> string list" where
  \<comment> \<open>the \<^verbatim>\<open>switch\<close> over the names of the built-in tools\<close>
  "named_target call workDir =
     (let name = tcl_Name call; args = tcl_Args call in
      if name \<in> {''write'', ''edit''} then (''edit'', pathResources call workDir)
      else if name = ''apply_patch'' then (''edit'', [''*''])
      else if name = ''read'' then (''read'', pathResources call workDir)
      else if name = ''bash'' then (''bash'', [stringArg args ''command'' ''*''])
      else if name \<in> {''glob'', ''grep''} then (name, [stringArg args ''pattern'' ''*''])
      else if name = ''webfetch'' then (''webfetch'', [stringArg args ''url'' ''*''])
      else if name = ''websearch'' then (''websearch'', [stringArg args ''query'' ''*''])
      else (name, [''*'']))"

definition permissionTarget :: "tool_call \<Rightarrow> string \<Rightarrow> failure + string \<times> string list" where
  "permissionTarget call workDir =
     (case tcl_Tool call of
        None \<Rightarrow> Inr (named_target call workDir)
      | Some t \<Rightarrow> bindE (PermissionFor t (permission_invocation (tcl_Args call) workDir)) (\<lambda>(check, declared).
          Inr (if declared then (pck_Action check, pck_Resources check) else named_target call workDir)))"

record permission_decision =
  pdn_action :: string
  pdn_askResources :: "string list"
  pdn_denyResource :: string
  pdn_err :: "failure option"

definition no_decision :: permission_decision where
  "no_decision = \<lparr>pdn_action = '''', pdn_askResources = [], pdn_denyResource = '''', pdn_err = None\<rparr>"

fun decide_resources :: "ruleset \<Rightarrow> permission_decision \<Rightarrow> string list \<Rightarrow> permission_decision" where
  "decide_resources rules d [] = d"
| "decide_resources rules d (resource # rest) =
     (let effect = dec_Effect (Evaluate (pdn_action d) resource rules EffectAllow) in
      if effect = EffectDeny then d\<lparr>pdn_denyResource := resource\<rparr>
      else if effect = EffectAsk then decide_resources rules (d\<lparr>pdn_askResources := pdn_askResources d @ [resource]\<rparr>) rest
      else decide_resources rules d rest)"

definition checkPermission :: "config \<Rightarrow> tool_call \<Rightarrow> permission_decision" where
  "checkPermission cfg call =
     (if cfg_Permissions cfg = [] then no_decision
      else case permissionTarget call (cfg_WorkDir cfg) of
        Inl e \<Rightarrow> no_decision\<lparr>pdn_err := Some e\<rparr>
      | Inr (action, resources) \<Rightarrow>
          decide_resources (cfg_Permissions cfg) (no_decision\<lparr>pdn_action := action\<rparr>)
            (if resources = [] then [''*''] else resources))"

section \<open>Results that stand for an error\<close>

definition error_result :: "tool_call \<Rightarrow> string \<Rightarrow> tool_result" where
  \<comment> \<open>the failed result of a call that is not executed\<close>
  "error_result call message = no_result\<lparr>trs_CallID := tcl_ID call, trs_ToolUseID := tcl_ToolUseID call,
     trs_Name := tcl_Name call, trs_Args := tcl_Args call, trs_Error := message, trs_IsError := True\<rparr>"

definition permissionToolResult :: "tool_call \<Rightarrow> effect \<Rightarrow> string \<Rightarrow> string \<Rightarrow> tool_result" where
  "permissionToolResult call effect action resource =
     (let label = (if effect = EffectAsk then ''permission required'' else ''permission denied'') in
      (error_result call (label @ '': '' @ action @ '' '' @ resource))\<lparr>trs_ToolUseID := '''',
        trs_Metadata := Some [(''permission'',
          JObj [(''effect'', JStr effect), (''action'', JStr action), (''resource'', JStr resource)])]\<rparr>)"

definition permission_result :: "tool_call \<Rightarrow> effect \<Rightarrow> string \<Rightarrow> string \<Rightarrow> tool_result" where
  \<comment> \<open>with the tool use, which \<^verbatim>\<open>executeOne\<close> adds\<close>
  "permission_result call effect action resource =
     (permissionToolResult call effect action resource)\<lparr>trs_ToolUseID := tcl_ToolUseID call\<rparr>"

definition rejected_result :: "tool_call \<Rightarrow> string \<Rightarrow> string \<Rightarrow> tool_result" where
  "rejected_result call action resource =
     (permission_result call EffectAsk action resource)\<lparr>trs_Metadata := Some
       [(''permission'', JObj [(''effect'', JStr EffectAsk), (''action'', JStr action), (''resource'', JStr resource),
          (''response'', JStr ''reject'')]),
        (''error_type'', JStr ''permission_denied'')]\<rparr>"

section \<open>Validation\<close>

definition validateToolInput :: "run_lib \<Rightarrow> tool \<Rightarrow> members \<Rightarrow> failure option" where
  "validateToolInput R t args =
     (let schema = tdf_InputSchema (AsModelToolDef (tol_Definition t));
          prefix = (\<lambda>text. ''tool '' @ rl_quote R (tol_Name t) @ text) in
      if schema = [] then None
      else case rl_compile R ''tool-input.json'' schema of
        Some e \<Rightarrow> Some (Wrapped (prefix '' input schema compile error'') e)
      | None \<Rightarrow> map_option (Wrapped (prefix '' input validation error'')) (rl_validate R ''tool-input.json'' schema (JObj args)))"

definition validateAgainstSchema :: "run_lib \<Rightarrow> members \<Rightarrow> json \<Rightarrow> failure option" where
  "validateAgainstSchema R schema v =
     (case rl_compile R ''schema.json'' schema of
        Some e \<Rightarrow> Some (Wrapped ''compile schema'' e)
      | None \<Rightarrow> rl_validate R ''schema.json'' schema v)"

definition result_error :: "run_lib \<Rightarrow> tool_call \<Rightarrow> tool \<Rightarrow> json \<Rightarrow> failure option" where
  \<comment> \<open>the check of a structured result against the output schema, a \<^verbatim>\<open>ResultValidationError\<close>\<close>
  "result_error R call t structured =
     (case tld_OutputSchema (tol_Definition t) of
        None \<Rightarrow> None
      | Some schema \<Rightarrow>
          map_option (Wrapped (''tool '' @ rl_quote R (tcl_Name call) @ '' result validation error''))
            (if structured = JNull then Some (Failure ''structured result is required'')
             else validateAgainstSchema R schema structured))"

section \<open>Settlement\<close>

definition use_info_of :: "tool_call \<Rightarrow> time \<Rightarrow> use_info" where
  "use_info_of call t = \<lparr>use_Step = tcl_Step call, use_Ordinal = tcl_Ordinal call, use_ToolUseID = tcl_ToolUseID call,
     use_CallID = tcl_ID call, use_Name = tcl_Name call, use_Args = tcl_Args call, use_MessageID = tcl_MessageID call,
     use_PartID = tcl_PartID call, use_ModelCallID = tcl_ModelCallID call, use_At = t\<rparr>"

definition toolUseAuthorizeInfo :: "tool_call \<Rightarrow> time \<Rightarrow> use_info" where
  "toolUseAuthorizeInfo call authorizedAt = use_info_of call authorizedAt"

definition toolUseStartInfo :: "tool_call \<Rightarrow> time \<Rightarrow> use_info" where
  "toolUseStartInfo call startedAt = use_info_of call startedAt"

definition finish_info_of :: "tool_call \<Rightarrow> time \<Rightarrow> string \<Rightarrow> tool_result \<Rightarrow> string \<Rightarrow> string \<Rightarrow> failure option \<Rightarrow> finish_info" where
  "finish_info_of call t status res errorType message e = use_info.extend (use_info_of call t)
     \<lparr>fin_ProposedAt = tcl_ProposedAt call, fin_AuthorizedAt = tcl_AuthorizedAt call, fin_StartedAt = tcl_StartedAt call,
      fin_Status = status, fin_ToolResult = res, fin_ErrorType = errorType, fin_ErrorMessage = message, fin_Failure = e\<rparr>"

definition append_line :: "string \<Rightarrow> string \<Rightarrow> string" where
  \<comment> \<open>a further line of a result's error\<close>
  "append_line text line = (if text \<noteq> '''' then text @ ''\<newline>'' @ line else line)"

definition runAfterToolCallResult :: "config \<Rightarrow> tool_call \<Rightarrow> tool_result \<Rightarrow> (tool_result \<times> failure option) program" where
  "runAfterToolCallResult cfg call res =
     (if \<not> hk_AfterToolCall (cfg_Hooks cfg) then Return (res, None)
      else bindP (ask (Hook_AfterToolCall call res) (result_answer res)) (\<lambda>r. Return
        (case r of
           Inl e \<Rightarrow> (res\<lparr>trs_Error := append_line (trs_Error res) (''after_tool_call hook error: '' @ err_text e),
             trs_IsError := True\<rparr>, Some e)
         | Inr updated \<Rightarrow> (updated\<lparr>trs_CallID := trs_CallID res, trs_ToolUseID := trs_ToolUseID res,
             trs_Name := trs_Name res, trs_Args := trs_Args res, trs_Duration := trs_Duration res\<rparr>, None))))"

definition settleToolUse ::
  "config \<Rightarrow> tool_call \<Rightarrow> tool_result \<Rightarrow> string \<Rightarrow> string \<Rightarrow> failure option \<Rightarrow> (tool_result \<times> failure option) program" where
  "settleToolUse cfg call res status errorType e =
     bindP (runAfterToolCallResult cfg call res) (\<lambda>(updated, afterErr).
       let (status, errorType, e) =
             (case afterErr of Some a \<Rightarrow> (ToolUseFailed, ''after_tool_call'', afterErr) | None \<Rightarrow> (status, errorType, e));
           updated = updated\<lparr>trs_Status := status\<rparr> in
       if \<not> cfg_ToolUseLifecycle cfg
       then bindP (emit (ToolExecutionEndEvent updated)) (\<lambda>_. Return (updated, afterErr))
       else
         bindP now (\<lambda>completedAt.
           let message = (if trs_Error updated = '''' then (case e of Some f \<Rightarrow> err_text f | None \<Rightarrow> '''') else trs_Error updated) in
           bindP (tell True (ToolUse_Finish (finish_info_of call completedAt status updated errorType message e))) (\<lambda>finishErr.
             case finishErr of
               Some f \<Rightarrow> Return
                 (updated\<lparr>trs_Error := append_line (trs_Error updated) (''tool use finish: '' @ err_text f), trs_IsError := True\<rparr>,
                  join_errors [afterErr, Some (Wrapped ''tool use finish'' f)])
             | None \<Rightarrow> bindP (emit (ToolExecutionEndEvent updated)) (\<lambda>_. Return (updated, afterErr)))))"

definition settle_failure ::
  "config \<Rightarrow> tool_call \<Rightarrow> tool_result \<Rightarrow> string \<Rightarrow> string \<Rightarrow> failure \<Rightarrow> failure \<Rightarrow> (tool_result \<times> failure option) program" where
  \<comment> \<open>settle, and join the run's error with that of the settlement\<close>
  "settle_failure cfg call res status errorType cause runErr =
     bindP (settleToolUse cfg call res status errorType (Some cause)) (\<lambda>(settled, settleErr).
       Return (settled, join_errors [Some runErr, settleErr]))"

fun interruptToolUses :: "config \<Rightarrow> tool_call list \<Rightarrow> failure \<Rightarrow> string \<Rightarrow> tool_result list program" where
  "interruptToolUses cfg [] cause errorType = Return []"
| "interruptToolUses cfg (call # calls) cause errorType =
     (if \<not> cfg_ToolUseLifecycle cfg then Return []
      else
        let res = (error_result call (err_text cause))\<lparr>trs_Status := ToolUseInterrupted\<rparr> in
        bindP now (\<lambda>completedAt.
        bindP (tell True (ToolUse_Finish
          (finish_info_of call completedAt ToolUseInterrupted res errorType (err_text cause) (Some cause)))) (\<lambda>finishErr.
        bindP (if finishErr = None then emit (ToolExecutionEndEvent res) else Return ()) (\<lambda>_.
        bindP (interruptToolUses cfg calls cause errorType) (\<lambda>results. Return (res # results))))))"

section \<open>Execution\<close>

definition invocation_of :: "config \<Rightarrow> tool_call \<Rightarrow> invocation" where
  "invocation_of cfg call = \<lparr>inv_Input = tcl_Args call, inv_WorkDir = cfg_WorkDir cfg, inv_SessionID = cfg_SessionID cfg,
     inv_RunID = cfg_RunID cfg, inv_AgentID = cfg_AgentID cfg, inv_ToolUseID = tcl_ToolUseID call, inv_CallID = tcl_ID call,
     inv_MessageID = tcl_MessageID call, inv_PartID = tcl_PartID call, inv_ModelCallID = tcl_ModelCallID call\<rparr>"

definition executed_result :: "tool_call \<Rightarrow> execution \<Rightarrow> int \<Rightarrow> tool_result" where
  "executed_result call e duration = no_result\<lparr>trs_CallID := tcl_ID call, trs_ToolUseID := tcl_ToolUseID call,
     trs_Name := tcl_Name call, trs_Args := tcl_Args call, trs_Output := exe_Text e, trs_OutputParts := exe_OutputParts e,
     trs_Structured := exe_Structured e, trs_Metadata := exe_Metadata e, trs_IsError := (exe_Failure e \<noteq> None),
     trs_Duration := duration, trs_Error := (case exe_Failure e of Some f \<Rightarrow> err_text f | None \<Rightarrow> '''')\<rparr>"

definition settle_execution :: "run_lib \<Rightarrow> config \<Rightarrow> tool_call \<Rightarrow> tool \<Rightarrow> execution \<Rightarrow> int \<Rightarrow> (tool_result \<times> failure option) program" where
  "settle_execution R cfg call t e duration =
     (let res = executed_result call e duration in
      case exe_Failure e of
        Some f \<Rightarrow>
          (if is_canceled f \<or> is_deadline f then settleToolUse cfg call res ToolUseInterrupted ''interrupted'' (Some f)
           else settleToolUse cfg call res ToolUseFailed ''execution'' (Some f))
      | None \<Rightarrow>
          (case result_error R call t (exe_Structured e) of
             Some f \<Rightarrow> settleToolUse cfg call (res\<lparr>trs_Error := err_text f, trs_ErrorType := ''result_validation'',
               trs_IsError := True\<rparr>) ToolUseFailed ''result_validation'' (Some f)
           | None \<Rightarrow> settleToolUse cfg call res ToolUseCompleted '''' None))"

definition progress_events :: "tool_call \<Rightarrow> execution \<Rightarrow> event list" where
  "progress_events call e = map (\<lambda>(delta, metadata).
     ToolExecutionProgressEvent (tcl_ID call) (tcl_ToolUseID call) (tcl_Name call) delta metadata) (exe_Progress e)"

definition execute_tool :: "run_lib \<Rightarrow> config \<Rightarrow> tool_call \<Rightarrow> tool \<Rightarrow> (tool_result \<times> failure option) program" where
  \<comment> \<open>from the start event on\<close>
  "execute_tool R cfg call t =
     bindP (emit (ToolExecutionStartEvent call)) (\<lambda>_.
     bindP now (\<lambda>start.
     bindP (ask (Execute_Tool call (invocation_of cfg call)) execution_answer) (\<lambda>e.
     bindP (emit_all (progress_events call e)) (\<lambda>_.
     bindP now (\<lambda>stop.
       settle_execution R cfg call t e (stop - start))))))"

definition authorize_and_start :: "run_lib \<Rightarrow> config \<Rightarrow> tool_call \<Rightarrow> tool \<Rightarrow> (tool_result \<times> failure option) program" where
  "authorize_and_start R cfg call t =
     (if \<not> cfg_ToolUseLifecycle cfg then execute_tool R cfg call t
      else
        bindP now (\<lambda>authorizedAt.
        bindP (tell True (ToolUse_Authorize (toolUseAuthorizeInfo call authorizedAt))) (\<lambda>authorizeErr.
          case authorizeErr of
            Some e \<Rightarrow> settle_failure cfg call (error_result call (err_text e)) ToolUseFailed ''authorize'' e
              (Wrapped ''tool use authorize'' e)
          | None \<Rightarrow>
              let call = call\<lparr>tcl_AuthorizedAt := authorizedAt\<rparr> in
              bindP (emit (ToolUseAuthorizedEvent call)) (\<lambda>_.
              bindP now (\<lambda>startedAt.
              bindP (tell True (ToolUse_Start (toolUseStartInfo call startedAt))) (\<lambda>startErr.
                case startErr of
                  Some e \<Rightarrow> settle_failure cfg call (error_result call (err_text e)) ToolUseFailed ''start'' e
                    (Wrapped ''tool use start'' e)
                | None \<Rightarrow> execute_tool R cfg (call\<lparr>tcl_StartedAt := startedAt\<rparr>) t))))))"

definition permission_request_of :: "tool_call \<Rightarrow> permission_decision \<Rightarrow> permission_request_info" where
  "permission_request_of call d =
     use_info.extend (use_info_of call 0) \<lparr>pri_Action = pdn_action d, pri_Resources = pdn_askResources d\<rparr>"

definition is_interruption :: "failure \<Rightarrow> bool program" where
  \<comment> \<open>\<^verbatim>\<open>errors.Is(err, Canceled) || errors.Is(err, DeadlineExceeded) || ctx.Err() != nil\<close>\<close>
  "is_interruption e =
     (if is_canceled e \<or> is_deadline e then Return True
      else bindP (ask Ask_Context error_answer) (\<lambda>c. Return (c \<noteq> None)))"

definition prompt_failure :: "config \<Rightarrow> tool_call \<Rightarrow> permission_decision \<Rightarrow> failure \<Rightarrow> (tool_result \<times> failure option) program" where
  \<comment> \<open>the prompter returned an error\<close>
  "prompt_failure cfg call d e =
     bindP (is_interruption e) (\<lambda>interrupted.
       let res = permission_result call EffectAsk (pdn_action d) (hd (pdn_askResources d)) in
       if interrupted then
         bindP (ask Ask_Context error_answer) (\<lambda>c.
           let cause = (case c of Some f \<Rightarrow> f | None \<Rightarrow> e);
               errorType = (if is_deadline cause then ''permission_timeout'' else ''permission_interrupted'') in
           settle_failure cfg call (res\<lparr>trs_Error := err_text cause\<rparr>) ToolUseInterrupted errorType cause cause)
       else settle_failure cfg call (res\<lparr>trs_Error := err_text e\<rparr>) ToolUseFailed ''permission_prompt'' e
         (Wrapped ''permission prompt'' e))"

definition ask_permission ::
  "run_lib \<Rightarrow> config \<Rightarrow> tool_call \<Rightarrow> tool \<Rightarrow> permission_decision \<Rightarrow> (tool_result \<times> failure option) program" where
  "ask_permission R cfg call t d =
     (let action = pdn_action d; resource = hd (pdn_askResources d) in
      if \<not> cfg_PermissionPrompter cfg
      then settleToolUse cfg call (permission_result call EffectAsk action resource) ToolUseDeclined ''permission_unavailable'' None
      else bindP (ask (Prompt_Permission (permission_request_of call d)) text_answer) (\<lambda>answer.
        case answer of
          Inl e \<Rightarrow> prompt_failure cfg call d e
        | Inr response \<Rightarrow>
            if response = ResponseOnce \<or> response = ResponseAlways then authorize_and_start R cfg call t
            else if response = ResponseReject
            then settleToolUse cfg call (rejected_result call action resource) ToolUseDeclined ''permission_denied'' None
            else settleToolUse cfg call (permission_result call EffectAsk action resource) ToolUseDeclined
              ''permission_invalid_response'' None))"

definition execute_call :: "run_lib \<Rightarrow> config \<Rightarrow> tool_call \<Rightarrow> (tool_result \<times> failure option) program" where
  \<comment> \<open>\<^verbatim>\<open>executeOne\<close> after the hook\<close>
  "execute_call R cfg call =
     (case tcl_Tool call of
        None \<Rightarrow> settleToolUse cfg call (error_result call (''tool '' @ rl_quote R (tcl_Name call) @ '' is not registered''))
          ToolUseDeclined ''unknown_tool'' None
      | Some t \<Rightarrow>
          (case validateToolInput R t (tcl_Args call) of
             Some e \<Rightarrow> settleToolUse cfg call (error_result call (err_text e)) ToolUseDeclined ''input_validation'' None
           | None \<Rightarrow>
               let d = checkPermission cfg call in
               case pdn_err d of
                 Some e \<Rightarrow> settleToolUse cfg call (error_result call (err_text e)) ToolUseDeclined ''permission_check'' (Some e)
               | None \<Rightarrow>
                   if pdn_denyResource d \<noteq> ''''
                   then settleToolUse cfg call (permission_result call EffectDeny (pdn_action d) (pdn_denyResource d))
                     ToolUseDeclined ''permission_denied'' None
                   else if pdn_askResources d \<noteq> [] then ask_permission R cfg call t d
                   else authorize_and_start R cfg call t))"

definition executeOne :: "run_lib \<Rightarrow> config \<Rightarrow> tool_call \<Rightarrow> (tool_result \<times> failure option) program" where
  "executeOne R cfg call =
     (if \<not> hk_BeforeToolCall (cfg_Hooks cfg) then execute_call R cfg call
      else bindP (ask (Hook_BeforeToolCall call) args_answer) (\<lambda>(newArgs, e).
        case e of
          Some f \<Rightarrow>
            if is_skip f then
              settleToolUse cfg call ((error_result call (err_text f))\<lparr>trs_Args := (case newArgs of Some a \<Rightarrow> a | None \<Rightarrow> tcl_Args call)\<rparr>)
                ToolUseDeclined ''tool_skipped'' (Some f)
            else settle_failure cfg call (error_result call (err_text f)) ToolUseFailed ''before_tool_call'' f
              (Wrapped ''hook BeforeToolCall'' f)
        | None \<Rightarrow> execute_call R cfg (case newArgs of Some a \<Rightarrow> call\<lparr>tcl_Args := a\<rparr> | None \<Rightarrow> call)))"

end
