(* ===== verification/Tool_Files.thy ===== *)
theory Tool_Files
  imports Agent_Tools
begin

text \<open>
  The tools that change files, \<^verbatim>\<open>write\<close>, \<^verbatim>\<open>edit\<close> and \<^verbatim>\<open>apply_patch\<close> of \<^verbatim>\<open>src/tool\<close>: the functions of Go's
  \<^verbatim>\<open>strings\<close> they use, a file system, the containment of paths, the patch language and the operations.

  A file system is a map from clean paths to files and directories, without links.  Every call of the
  system may fail as the environment decides: a failing write leaves what the environment says, the other
  failing calls leave the files as they were.  The diff of two texts comes from a package outside the
  repository and is a parameter.
\<close>

section \<open>Strings\<close>

definition newline :: char where
  "newline = CHR 0x0A"

fun str_cut :: "string \<Rightarrow> string \<Rightarrow> (string \<times> string) option" where
  \<comment> \<open>what is before and after the first occurrence\<close>
  "str_cut old [] = (if old = '''' then Some ('''', '''') else None)"
| "str_cut old (c # cs) =
     (if has_prefix (c # cs) old then Some ('''', drop (length old) (c # cs))
      else map_option (\<lambda>(a, b). (c # a, b)) (str_cut old cs))"

lemma str_cut_Some: "str_cut old s = Some (a, b) \<Longrightarrow> s = a @ old @ b"
  by (induction s arbitrary: a) (auto simp: has_prefix_conv split: if_splits)

definition continuation :: "char \<Rightarrow> bool" where
  "continuation c \<longleftrightarrow> CHR 0x80 \<le> c \<and> c \<le> CHR 0xBF"

definition rune_size :: "bytes \<Rightarrow> nat" where
  \<comment> \<open>\<^verbatim>\<open>utf8.DecodeRuneInString\<close>: the length of the first rune, 1 for a byte that starts none\<close>
  "rune_size s =
     (case s of
        a # b # rest \<Rightarrow>
          let c = (case rest of c # _ \<Rightarrow> continuation c | [] \<Rightarrow> False);
              d = (case rest of _ # d # _ \<Rightarrow> continuation d | _ \<Rightarrow> False) in
          if CHR 0xC2 \<le> a \<and> a \<le> CHR 0xDF \<and> continuation b then 2
          else if CHR 0xE0 \<le> a \<and> a \<le> CHR 0xEF \<and> continuation b \<and> c \<and> (a = CHR 0xE0 \<longrightarrow> CHR 0xA0 \<le> b) \<and> (a = CHR 0xED \<longrightarrow> b \<le> CHR 0x9F)
          then 3
          else if CHR 0xF0 \<le> a \<and> a \<le> CHR 0xF4 \<and> continuation b \<and> c \<and> d \<and> (a = CHR 0xF0 \<longrightarrow> CHR 0x90 \<le> b) \<and> (a = CHR 0xF4 \<longrightarrow> b \<le> CHR 0x8F)
          then 4
          else 1
      | _ \<Rightarrow> 1)"

function runes :: "bytes \<Rightarrow> bytes list" where
  "runes [] = []"
| "runes (c # cs) = (let n = rune_size (c # cs) - 1 in (c # take n cs) # runes (drop n cs))"
  by pat_completeness auto
termination by (relation "measure length") auto

function str_count :: "string \<Rightarrow> string \<Rightarrow> nat" where
  \<comment> \<open>\<^verbatim>\<open>strings.Count\<close>\<close>
  "str_count old s =
     (if old = '''' then Suc (length (runes s))
      else case str_cut old s of None \<Rightarrow> 0 | Some (_, rest) \<Rightarrow> Suc (str_count old rest))"
  by auto
termination
  by (relation "measure (\<lambda>(old, s). length s)") (auto dest!: str_cut_Some)

declare str_count.simps [simp del]

function str_replace_all :: "string \<Rightarrow> string \<Rightarrow> string \<Rightarrow> string" where
  \<comment> \<open>\<^verbatim>\<open>strings.ReplaceAll\<close> with the arguments in the order old, new, text\<close>
  "str_replace_all old new s =
     (if old = '''' then new @ concat (map (\<lambda>r. r @ new) (runes s))
      else case str_cut old s of None \<Rightarrow> s | Some (before, rest) \<Rightarrow> before @ new @ str_replace_all old new rest)"
  by auto
termination
  by (relation "measure (\<lambda>(old, new, s). length s)") (auto dest!: str_cut_Some)

declare str_replace_all.simps [simp del]

definition str_replace_first :: "string \<Rightarrow> string \<Rightarrow> string \<Rightarrow> string" where
  \<comment> \<open>\<^verbatim>\<open>strings.Replace\<close> of at most one occurrence\<close>
  "str_replace_first old new s = (case str_cut old s of None \<Rightarrow> s | Some (before, rest) \<Rightarrow> before @ new @ rest)"

definition split_lines :: "string \<Rightarrow> string list" where
  \<comment> \<open>\<^verbatim>\<open>strings.SplitAfter(text, "\n")\<close>\<close>
  "split_lines text = (let ws = split_on newline text in map (\<lambda>w. w @ [newline]) (butlast ws) @ [last ws])"

definition trim_newline :: "string \<Rightarrow> string" where
  \<comment> \<open>\<^verbatim>\<open>strings.TrimSuffix(line, "\n")\<close>\<close>
  "trim_newline s = (if s \<noteq> '''' \<and> last s = newline then butlast s else s)"

section \<open>Paths\<close>

definition path_dir :: "string \<Rightarrow> string" where
  \<comment> \<open>\<^verbatim>\<open>filepath.Dir\<close>\<close>
  "path_dir p = path_clean (rev (dropWhile (\<lambda>c. c \<noteq> CHR ''/'') (rev p)))"

definition path_prefixes :: "string \<Rightarrow> string list" where
  \<comment> \<open>a clean path and the directories above it, the highest first\<close>
  "path_prefixes p = (let es = path_elements p in
     map (\<lambda>n. (if is_abs p then ''/'' else '''') @ join_with CHR ''/'' (take n es)) [1 ..< Suc (length es)])"

definition resolveWorkPath :: "string \<Rightarrow> string \<Rightarrow> failure + string \<times> string" where
  "resolveWorkPath workDir raw =
     (let path = path_clean (if is_abs raw then raw else path_join workDir raw) in
      case path_rel (path_clean workDir) path of
        None \<Rightarrow> Inl (Failure ''Rel: cannot make path relative'')
      | Some rel \<Rightarrow>
          if rel = ''..'' \<or> has_prefix rel ''../'' then Inl (Failure (''path escapes working directory: '' @ raw))
          else Inr (path, rel))"

section \<open>Files\<close>

datatype node = File bytes | Directory

type_synonym files = "(string, node) gomap"

type_synonym 'a file_outcome = "(failure + 'a) \<times> files"

record file_env =
  \<comment> \<open>the errors the system gives, and the package that compares texts\<close>
  env_stat :: "string \<Rightarrow> failure option"
  env_read :: "string \<Rightarrow> failure option"
  env_mkdir :: "string \<Rightarrow> failure option"
  env_write :: "string \<Rightarrow> bytes \<Rightarrow> (failure \<times> node option) option"  \<comment> \<open>with the node a failing write leaves\<close>
  env_remove :: "string \<Rightarrow> failure option"
  env_done :: "nat \<Rightarrow> failure option"  \<comment> \<open>\<^verbatim>\<open>ctx.Err()\<close> at the given check\<close>
  env_diff :: "string list \<Rightarrow> string list \<Rightarrow> string \<Rightarrow> string \<Rightarrow> string option"  \<comment> \<open>\<^verbatim>\<open>difflib.GetUnifiedDiffString\<close>\<close>

definition not_exist :: "string \<Rightarrow> failure" where
  "not_exist p = Failure (p @ '': no such file or directory'')"

definition is_file :: "files \<Rightarrow> string \<Rightarrow> bool" where
  "is_file fs p \<longleftrightarrow> (case map_of fs p of Some (File _) \<Rightarrow> True | _ \<Rightarrow> False)"

definition read_file :: "file_env \<Rightarrow> string \<Rightarrow> files \<Rightarrow> (failure \<times> bool) + bytes" where
  \<comment> \<open>\<^verbatim>\<open>os.ReadFile\<close>, its error with \<^verbatim>\<open>os.IsNotExist\<close>\<close>
  "read_file E p fs =
     (case env_read E p of
        Some e \<Rightarrow> Inl (e, False)
      | None \<Rightarrow> (case map_of fs p of
            None \<Rightarrow>
              if list_ex (is_file fs) (path_prefixes (path_dir p)) then Inl (Failure (p @ '': not a directory''), False)
              else Inl (not_exist p, True)
          | Some Directory \<Rightarrow> Inl (Failure (p @ '': is a directory''), False)
          | Some (File b) \<Rightarrow> Inr b))"

definition file_exists :: "file_env \<Rightarrow> string \<Rightarrow> files \<Rightarrow> bool" where
  \<comment> \<open>\<^verbatim>\<open>os.Stat\<close> without an error\<close>
  "file_exists E p fs \<longleftrightarrow> env_stat E p = None \<and> map_of fs p \<noteq> None"

definition mkdir_all :: "file_env \<Rightarrow> string \<Rightarrow> files \<Rightarrow> unit file_outcome" where
  "mkdir_all E d fs =
     (case env_mkdir E d of
        Some e \<Rightarrow> (Inl e, fs)
      | None \<Rightarrow>
          if list_ex (is_file fs) (path_prefixes d)
          then (Inl (Failure (d @ '': not a directory'')), fs)
          else (Inr (), fold (\<lambda>p. AList.update p Directory) (path_prefixes d) fs))"

definition write_file :: "file_env \<Rightarrow> string \<Rightarrow> bytes \<Rightarrow> files \<Rightarrow> unit file_outcome" where
  "write_file E p b fs =
     (case env_write E p b of
        Some (e, left) \<Rightarrow> (Inl e, case left of None \<Rightarrow> fs | Some n \<Rightarrow> AList.update p n fs)
      | None \<Rightarrow>
          if map_of fs p = Some Directory then (Inl (Failure (p @ '': is a directory'')), fs)
          else (Inr (), AList.update p (File b) fs))"

definition remove_file :: "file_env \<Rightarrow> string \<Rightarrow> files \<Rightarrow> unit file_outcome" where
  "remove_file E p fs =
     (case env_remove E p of
        Some e \<Rightarrow> (Inl e, fs)
      | None \<Rightarrow> (case map_of fs p of
            None \<Rightarrow> (Inl (not_exist p), fs)
          | Some Directory \<Rightarrow>
              if list_ex (\<lambda>(q, _). has_prefix q (p @ ''/'')) fs then (Inl (Failure (p @ '': directory not empty'')), fs)
              else (Inr (), AList.delete p fs)
          | Some (File _) \<Rightarrow> (Inr (), AList.delete p fs)))"

definition and_then :: "'a file_outcome \<Rightarrow> (failure \<Rightarrow> failure) \<Rightarrow> ('a \<Rightarrow> files \<Rightarrow> 'b file_outcome) \<Rightarrow> 'b file_outcome" where
  \<comment> \<open>the next operation, unless this one has an error, which is returned wrapped\<close>
  "and_then r wrap f = (case r of (Inl e, fs) \<Rightarrow> (Inl (wrap e), fs) | (Inr x, fs) \<Rightarrow> f x fs)"

section \<open>Diffs\<close>

definition splitDiffLines :: "string \<Rightarrow> string list" where
  "splitDiffLines content =
     (if content = '''' then []
      else
        let ls = split_lines content in
        if last ls = '''' then butlast ls
        else butlast ls @ [last ls @ [newline, CHR 0x5C] @ '' No newline at end of file'' @ [newline]])"

fun count_changes :: "bool \<Rightarrow> string list \<Rightarrow> nat \<times> nat" where
  \<comment> \<open>added and deleted lines in the hunks of a diff\<close>
  "count_changes inHunk [] = (0, 0)"
| "count_changes inHunk (l # ls) =
     (if has_prefix l ''@@'' then count_changes True ls
      else if \<not> inHunk then count_changes inHunk ls
      else
        let (a, d) = count_changes inHunk ls in
        ((if has_prefix l ''+'' then a + 1 else a), (if has_prefix l ''-'' then d + 1 else d)))"

definition unifiedPatch :: "file_env \<Rightarrow> string \<Rightarrow> string \<Rightarrow> string \<Rightarrow> string \<times> nat \<times> nat" where
  "unifiedPatch E name oldContent newContent =
     (case env_diff E (splitDiffLines oldContent) (splitDiffLines newContent) (''a/'' @ name) (''b/'' @ name) of
        None \<Rightarrow> (''--- a/'' @ name @ [newline] @ ''+++ b/'' @ name @ [newline], 0, 0)
      | Some patch \<Rightarrow> let (a, d) = count_changes False (split_on newline patch) in (patch, a, d))"

definition change_json :: "string \<Rightarrow> string \<Rightarrow> string \<Rightarrow> string \<times> nat \<times> nat \<Rightarrow> members" where
  "change_json path rel kind diff = (case diff of (patch, additions, deletions) \<Rightarrow>
     [(''filePath'', JStr path), (''relativePath'', JStr rel), (''type'', JStr kind), (''patch'', JStr patch),
      (''additions'', jnum (int additions)), (''deletions'', jnum (int deletions))])"

definition fileDiffMetadata :: "string \<Rightarrow> string \<Rightarrow> string \<Rightarrow> string \<times> nat \<times> nat \<Rightarrow> meta" where
  "fileDiffMetadata path rel kind diff = Some [(''files'', JArr [JObj (change_json path rel kind diff)])]"

section \<open>Write and edit\<close>

definition string_arg :: "members \<Rightarrow> string \<Rightarrow> string option" where
  "string_arg args key = (case map_of args key of Some (JStr s) \<Rightarrow> Some s | _ \<Rightarrow> None)"

definition check_done :: "file_env \<Rightarrow> nat \<Rightarrow> files \<Rightarrow> unit file_outcome" where
  "check_done E n fs = (case env_done E n of Some e \<Rightarrow> (Inl e, fs) | None \<Rightarrow> (Inr (), fs))"

definition lift_file :: "failure + 'a \<Rightarrow> files \<Rightarrow> 'a file_outcome" where
  "lift_file r fs = (r, fs)"

definition file_error :: "string \<Rightarrow> 'a file_outcome \<Rightarrow> ('a \<Rightarrow> files \<Rightarrow> 'b file_outcome) \<Rightarrow> 'b file_outcome" where
  \<comment> \<open>\<^verbatim>\<open>fmt.Errorf("text: %w", err)\<close>\<close>
  "file_error text r f = and_then r (Wrapped text) f"

definition Write_Execute :: "file_env \<Rightarrow> invocation \<Rightarrow> files \<Rightarrow> execution file_outcome" where
  "Write_Execute E iv fs =
     (case (string_arg (inv_Input iv) ''filePath'', string_arg (inv_Input iv) ''content'') of
        (None, _) \<Rightarrow> (Inl (Failure ''filePath is required''), fs)
      | (Some filePath, content) \<Rightarrow>
          if filePath = '''' then (Inl (Failure ''filePath is required''), fs)
          else (case content of
              None \<Rightarrow> (Inl (Failure ''content is required''), fs)
            | Some content \<Rightarrow>
                if inv_WorkDir iv = '''' then (Inl (Failure ''workDir is required for write tool''), fs)
                else and_then (lift_file (resolveWorkPath (inv_WorkDir iv) filePath) fs) id (\<lambda>(path, rel) fs.
                  and_then (check_done E 0 fs) id (\<lambda>_ fs.
                  case read_file E path fs of
                    Inl (e, False) \<Rightarrow> (Inl (Wrapped ''failed to read existing file'' e), fs)
                  | old \<Rightarrow>
                      let oldContent = (case old of Inr b \<Rightarrow> b | Inl _ \<Rightarrow> '''') in
                      file_error ''failed to create directory'' (mkdir_all E (path_dir path) fs) (\<lambda>_ fs.
                      file_error ''failed to write file'' (write_file E path content fs) (\<lambda>_ fs.
                      (Inr (no_execution\<lparr>
                          exe_Text := ''Successfully wrote '' @ nat_text (length content) @ '' bytes to '' @ path,
                          exe_Metadata := fileDiffMetadata path rel (case old of Inr _ \<Rightarrow> ''update'' | Inl _ \<Rightarrow> ''add'')
                            (unifiedPatch E rel oldContent content)\<rparr>), fs)))))))"

definition edit_content :: "string \<Rightarrow> string \<Rightarrow> bool \<Rightarrow> string \<Rightarrow> failure + string" where
  \<comment> \<open>the text after the replacement\<close>
  "edit_content oldString newString replaceAll content =
     (let n = str_count oldString content in
      if n = 0 then Inl (Failure ''oldString not found in file'')
      else if n > 1 \<and> \<not> replaceAll
      then Inl (Failure (''oldString found '' @ nat_text n @ '' times, must be unique or replaceAll must be true''))
      else Inr (if replaceAll then str_replace_all oldString newString content else str_replace_first oldString newString content))"

definition Edit_Execute :: "file_env \<Rightarrow> invocation \<Rightarrow> files \<Rightarrow> execution file_outcome" where
  "Edit_Execute E iv fs =
     (case string_arg (inv_Input iv) ''filePath'' of
        None \<Rightarrow> (Inl (Failure ''filePath is required''), fs)
      | Some filePath \<Rightarrow>
     if filePath = '''' then (Inl (Failure ''filePath is required''), fs)
     else (case string_arg (inv_Input iv) ''oldString'' of
        None \<Rightarrow> (Inl (Failure ''oldString is required''), fs)
      | Some oldString \<Rightarrow>
     (case string_arg (inv_Input iv) ''newString'' of
        None \<Rightarrow> (Inl (Failure ''newString is required''), fs)
      | Some newString \<Rightarrow>
     if oldString = newString then (Inl (Failure ''oldString and newString are identical''), fs)
     else if inv_WorkDir iv = '''' then (Inl (Failure ''workDir is required for edit tool''), fs)
     else and_then (lift_file (resolveWorkPath (inv_WorkDir iv) filePath) fs) id (\<lambda>(path, rel) fs.
       and_then (check_done E 0 fs) id (\<lambda>_ fs.
       case read_file E path fs of
         Inl (e, _) \<Rightarrow> (Inl (Wrapped ''failed to read file'' e), fs)
       | Inr oldContent \<Rightarrow>
           and_then (lift_file (edit_content oldString newString (map_of (inv_Input iv) ''replaceAll'' = Some (JBool True)) oldContent) fs) id
             (\<lambda>newContent fs.
           file_error ''failed to write file'' (write_file E path newContent fs) (\<lambda>_ fs.
           (Inr (no_execution\<lparr>exe_Text := ''Successfully edited '' @ path,
              exe_Metadata := fileDiffMetadata path rel ''update'' (unifiedPatch E rel oldContent newContent)\<rparr>), fs))))))))"

end
