(* ===== verification/Path_Properties.thy ===== *)
theory Path_Properties
  imports Tool_Files
begin

text \<open>
  Clean paths, their elements, and the containment of the paths that the file tools resolve: a path that
  \<^verbatim>\<open>resolveWorkPath\<close> accepts is the working directory or below it, and the relative path it returns is the
  resource whose permission is checked.
\<close>

section \<open>Splitting and joining\<close>

lemma split_on_cons: "c \<notin> set w \<Longrightarrow> split_on c (w @ c # s) = w # split_on c s"
  by (induction w) auto

lemma split_on_single: "c \<notin> set w \<Longrightarrow> split_on c w = [w]"
  by (induction w) auto

lemma join_with_Cons: "ws \<noteq> [] \<Longrightarrow> join_with c (w # ws) = w @ c # join_with c ws"
  by (cases ws) (simp_all add: join_with_def)

lemma join_with_single [simp]: "join_with c [w] = w" "join_with c [] = ''''"
  by (simp_all add: join_with_def)

lemma split_join: "ws \<noteq> [] \<Longrightarrow> \<forall>w \<in> set ws. c \<notin> set w \<Longrightarrow> split_on c (join_with c ws) = ws"
proof (induction ws)
  case (Cons w ws)
  then show ?case by (cases "ws = []") (simp_all add: split_on_single join_with_Cons split_on_cons)
qed simp

section \<open>Clean paths\<close>

definition plain_element :: "string \<Rightarrow> bool" where
  "plain_element w \<longleftrightarrow> w \<noteq> '''' \<and> w \<noteq> ''.'' \<and> CHR ''/'' \<notin> set w"

definition clean_elements :: "bool \<Rightarrow> string list \<Rightarrow> bool" where
  \<comment> \<open>the elements of a clean path, the last one first: parents are left only at the front of a relative path\<close>
  "clean_elements rooted out \<longleftrightarrow> (\<forall>w \<in> set out. plain_element w)
     \<and> set (dropWhile (\<lambda>w. w \<noteq> ''..'') out) \<subseteq> {''..''} \<and> (rooted \<longrightarrow> ''..'' \<notin> set out)"

lemma clean_elements_Nil [simp]: "clean_elements rooted []"
  by (simp add: clean_elements_def)

lemma clean_elements_Cons:
  "clean_elements rooted out \<Longrightarrow> plain_element w \<Longrightarrow> w \<noteq> ''..'' \<Longrightarrow> clean_elements rooted (w # out)"
  by (simp add: clean_elements_def)

lemma clean_elements_tl: "clean_elements rooted (v # vs) \<Longrightarrow> v \<noteq> ''..'' \<Longrightarrow> clean_elements rooted vs"
  by (simp add: clean_elements_def)

lemma clean_elements_dots: "clean_elements rooted (''..'' # vs) \<Longrightarrow> clean_elements rooted (''..'' # ''..'' # vs)"
  by (simp add: clean_elements_def)

lemma clean_segments_clean:
  assumes "clean_elements rooted out" "\<forall>w \<in> set ws. CHR ''/'' \<notin> set w"
  shows "clean_elements rooted (clean_segments rooted ws out)"
  using assms
proof (induction rooted ws out rule: clean_segments.induct)
  case (2 rooted w ws out)
  have dots: "clean_elements False [''..'']"
    by (simp add: clean_elements_def plain_element_def)
  show ?case using 2 dots
    by (auto simp: plain_element_def clean_elements_Cons clean_elements_dots split: list.splits
        dest: clean_elements_tl)
qed simp

lemma clean_segments_same:
  assumes "\<forall>w \<in> set ws. plain_element w" "''..'' \<notin> set ws"
  shows "clean_segments rooted ws out = rev ws @ out"
  using assms by (induction ws arbitrary: out) (auto simp: plain_element_def)

lemma clean_segments_dots:
  "clean_segments False (replicate n ''..'' @ ws) (replicate m ''..'') = clean_segments False ws (replicate (n + m) ''..'')"
proof (induction n arbitrary: m)
  case (Suc n)
  have "clean_segments False (replicate (Suc n) ''..'' @ ws) (replicate m ''..'')
      = clean_segments False (replicate n ''..'' @ ws) (replicate (Suc m) ''..'')"
    by (cases m) simp_all
  then show ?case using Suc.IH [of "Suc m"] by simp
qed simp

lemma clean_segments_idem:
  assumes "clean_elements rooted out"
  shows "clean_segments rooted (rev out) [] = out"
proof -
  define a b where "a = takeWhile (\<lambda>w. w \<noteq> ''..'') out" and "b = dropWhile (\<lambda>w. w \<noteq> ''..'') out"
  then have ab: "out = a @ b" "''..'' \<notin> set a" "set b \<subseteq> {''..''}" "rooted \<longrightarrow> b = []" "\<forall>w \<in> set out. plain_element w"
    using assms by (auto simp: clean_elements_def dropWhile_eq_Nil_conv dest: set_takeWhileD)
  have b: "b = replicate (length b) ''..''" using ab(3) by (intro replicate_length_same [symmetric]) blast
  have a: "clean_segments rooted (rev a) c = a @ c" for c
    using clean_segments_same [of "rev a"] ab by simp
  show ?thesis
  proof (cases rooted)
    case True
    then show ?thesis using a [of "[]"] ab by simp
  next
    case False
    have "rev b = replicate (length b) ''..''" using b by (metis rev_replicate)
    then have "clean_segments False (rev b @ rev a) [] = clean_segments False (rev a) b"
      using clean_segments_dots [of "length b" "rev a" 0] b by simp
    then show ?thesis using a [of b] ab(1) False by simp
  qed
qed

definition path_segments :: "string \<Rightarrow> string list" where
  \<comment> \<open>the elements of the clean form of a path\<close>
  "path_segments p = rev (clean_segments (is_abs p) (split_on CHR ''/'' p) [])"

lemma path_segments_clean: "clean_elements (is_abs p) (rev (path_segments p))"
  unfolding path_segments_def rev_rev_ident
  by (rule clean_segments_clean) (auto dest: split_on_no_sep)

lemma path_segments_plain: "w \<in> set (path_segments p) \<Longrightarrow> plain_element w"
  using path_segments_clean [of p] by (simp add: clean_elements_def)

lemma rooted_no_parents: "is_abs p \<Longrightarrow> ''..'' \<notin> set (path_segments p)"
  using path_segments_clean [of p] by (simp add: clean_elements_def)

lemma path_clean_segments:
  "path_clean p = (if is_abs p then CHR ''/'' # join_with CHR ''/'' (path_segments p)
     else if path_segments p = [] then ''.'' else join_with CHR ''/'' (path_segments p))"
  by (simp add: path_clean_def path_segments_def Let_def)

lemma path_segments_no_slash: "\<forall>w \<in> set (path_segments p). CHR ''/'' \<notin> set w"
  using path_segments_plain by (auto simp: plain_element_def)

lemma join_not_abs:
  assumes "ws \<noteq> []" "\<forall>w \<in> set ws. plain_element w"
  shows "\<not> is_abs (join_with CHR ''/'' ws)"
proof -
  obtain w vs where ws: "ws = w # vs" using assms(1) by (cases ws) auto
  then have "w \<noteq> ''''" "CHR ''/'' \<notin> set w" using assms(2) by (auto simp: plain_element_def)
  then show ?thesis by (cases w) (auto simp: ws join_with_def is_abs_def has_prefix_def split: list.splits)
qed

lemma is_abs_clean [simp]: "is_abs (path_clean p) = is_abs p"
proof (cases "is_abs p \<or> path_segments p = []")
  case True
  then show ?thesis by (auto simp: path_clean_segments is_abs_def has_prefix_def)
next
  case False
  then show ?thesis using join_not_abs [of "path_segments p"] path_segments_plain by (auto simp: path_clean_segments)
qed

lemma split_clean:
  "split_on CHR ''/'' (path_clean p) =
     (if path_segments p = [] then (if is_abs p then ['''', ''''] else [''.''])
      else if is_abs p then '''' # path_segments p else path_segments p)"
  using split_join [OF _ path_segments_no_slash [of p]] by (auto simp: path_clean_segments)

lemma path_elements_clean [simp]: "path_elements (path_clean p) = path_segments p"
proof -
  have "filter (\<lambda>w. w \<noteq> '''' \<and> w \<noteq> ''.'') (path_segments p) = path_segments p"
    using path_segments_plain by (auto simp: filter_id_conv plain_element_def)
  then show ?thesis unfolding path_elements_def split_clean by simp
qed

lemma path_segments_idem [simp]: "path_segments (path_clean p) = path_segments p"
proof -
  have idem: "clean_segments (is_abs p) (path_segments p) [] = rev (path_segments p)"
    using clean_segments_idem [OF path_segments_clean [of p]] by simp
  then show ?thesis unfolding path_segments_def [of "path_clean p"] split_clean is_abs_clean by auto
qed

lemma path_clean_idem [simp]: "path_clean (path_clean p) = path_clean p"
  unfolding path_clean_segments [of "path_clean p"] is_abs_clean path_segments_idem by (rule path_clean_segments [symmetric])

lemma clean_eqI: "is_abs a = is_abs b \<Longrightarrow> path_segments a = path_segments b \<Longrightarrow> path_clean a = path_clean b"
  by (simp add: path_clean_segments)

section \<open>Relative paths\<close>

lemma rel_elements_cases:
  "rel_elements bs ts = Some es \<Longrightarrow> ts = bs @ es \<or> (\<exists>rest. es = ''..'' # rest)"
  by (induction bs ts rule: rel_elements.induct) (auto split: if_splits)

lemma parent_prefix: "join_with CHR ''/'' (''..'' # rest) = ''..'' \<or> has_prefix (join_with CHR ''/'' (''..'' # rest)) ''../''"
  by (cases rest) (auto simp: join_with_def has_prefix_def)

text \<open>What an accepted path is.\<close>

lemma resolved:
  assumes "resolveWorkPath workDir raw = Inr (p, rel)"
  obtains es where "path_segments p = path_segments workDir @ es" "rel = (if es = [] then ''.'' else join_with CHR ''/'' es)"
    "path_clean p = p" "is_abs p = is_abs workDir"
proof -
  let ?p = "path_clean (if is_abs raw then raw else path_join workDir raw)"
  have p: "p = ?p" "path_rel (path_clean workDir) ?p = Some rel" "rel \<noteq> ''..''" "\<not> has_prefix rel ''../''"
    using assms by (auto simp: resolveWorkPath_def Let_def split: option.splits if_splits)
  have clean: "path_clean p = p" by (simp add: p(1))
  show thesis
  proof (cases "path_clean workDir = p")
    case True
    then have "rel = ''.''" using p(2) by (simp add: path_rel_def p(1) Let_def)
    moreover have "path_segments p = path_segments workDir" "is_abs p = is_abs workDir"
      using True path_segments_idem is_abs_clean by metis+
    ultimately show thesis using that [of "[]"] clean by simp
  next
    case False
    then obtain es where es: "rel_elements (path_segments workDir) (path_segments p) = Some es" "rel = join_with CHR ''/'' es"
      "is_abs workDir = is_abs p"
      using p(2) unfolding path_rel_def Let_def p(1) [symmetric] by (auto simp: clean p(1) split: if_splits)
    have "path_segments p = path_segments workDir @ es"
      using rel_elements_cases [OF es(1)] parent_prefix p(3,4) es(2) by blast
    moreover have "es \<noteq> []"
    proof
      assume "es = []"
      then have "path_clean workDir = path_clean p" using calculation es(3) by (intro clean_eqI) simp_all
      then show False using False clean by simp
    qed
    ultimately show thesis using that [of es] es clean by simp
  qed
qed

end
