(* ===== verification/Tool_Patch.thy ===== *)
theory Tool_Patch
  imports Tool_Files
begin

text \<open>
  The tool \<^verbatim>\<open>apply_patch\<close> of \<^verbatim>\<open>src/tool/apply_patch.go\<close>: the parser of the patch language, the application
  of a section to a text and to the file system, the resources the tool asks a permission for, and the
  execution, which stops at the first section with an error and keeps what the sections before it did.
\<close>

section \<open>The patch language\<close>

record patch_section =
  sec_Type :: string
  sec_Path :: string
  sec_MovePath :: string
  sec_Lines :: "string list"

definition new_section :: "string \<Rightarrow> string \<Rightarrow> patch_section" where
  "new_section typ path = \<lparr>sec_Type = typ, sec_Path = path, sec_MovePath = '''', sec_Lines = []\<rparr>"

definition unverified :: "string \<Rightarrow> failure" where
  "unverified text = Failure (''apply_patch verification failed: '' @ text)"

definition add_header :: string where "add_header = ''*** Add File: ''"
definition delete_header :: string where "delete_header = ''*** Delete File: ''"
definition update_header :: string where "update_header = ''*** Update File: ''"
definition move_header :: string where "move_header = ''*** Move to: ''"

lemmas header_defs = add_header_def delete_header_def update_header_def move_header_def

type_synonym parse_state = "patch_section list \<times> patch_section option"

definition flush :: "parse_state \<Rightarrow> patch_section list" where
  \<comment> \<open>\<^verbatim>\<open>if current != nil { sections = append(sections, *current) }\<close>\<close>
  "flush st = (case st of (sections, None) \<Rightarrow> sections | (sections, Some c) \<Rightarrow> sections @ [c])"

definition header_path :: "string \<Rightarrow> string \<Rightarrow> string" where
  "header_path header line = trim_space (trim_prefix line header)"

definition parse_line :: "parse_state \<Rightarrow> string \<Rightarrow> failure + parse_state" where
  \<comment> \<open>the body of the loop over the lines between the markers\<close>
  "parse_line st line =
     (if has_prefix line add_header
      then Inr (flush st, Some (new_section ''add'' (header_path add_header line)))
      else if has_prefix line delete_header
      then Inr (flush st, Some (new_section ''delete'' (header_path delete_header line)))
      else if has_prefix line update_header
      then Inr (flush st, Some (new_section ''update'' (header_path update_header line)))
      else if has_prefix line move_header
      then (case snd st of
          None \<Rightarrow> Inl (unverified ''Move to must follow Update File'')
        | Some c \<Rightarrow>
            if sec_Type c \<noteq> ''update'' then Inl (unverified ''Move to must follow Update File'')
            else Inr (fst st, Some (c\<lparr>sec_MovePath := header_path move_header line\<rparr>)))
      else (case snd st of
          None \<Rightarrow> if trim_space line = '''' then Inr st else Inl (unverified ''content before file header'')
        | Some c \<Rightarrow> Inr (fst st, Some (c\<lparr>sec_Lines := sec_Lines c @ [line]\<rparr>))))"

definition begin_patch :: string where "begin_patch = ''*** Begin Patch''"
definition end_patch :: string where "end_patch = ''*** End Patch''"

definition unix_lines :: "string \<Rightarrow> string" where
  "unix_lines text = str_replace_all [CHR 0x0D] [newline] (str_replace_all [CHR 0x0D, newline] [newline] text)"

definition parse_sections :: "string list \<Rightarrow> failure + patch_section list" where
  \<comment> \<open>the loop and the checks after it\<close>
  "parse_sections body =
     bindE (foldE parse_line ([], None) body) (\<lambda>st.
       let sections = flush st in
       if sections = [] then Inl (unverified ''no file sections found'')
       else if list_ex (\<lambda>s. sec_Path s = '''') sections then Inl (unverified ''file path is required'')
       else Inr sections)"

definition parsePatchSections :: "string \<Rightarrow> failure + patch_section list" where
  "parsePatchSections text =
     (let ls = split_on newline (unix_lines text) in
      if length ls < 2 \<or> trim_space (hd ls) \<noteq> begin_patch then Inl (unverified ''patch must start with *** Begin Patch'')
      else
        let ls = (if trim_space (last ls) = '''' then butlast ls else ls) in
        if length ls < 2 \<or> trim_space (last ls) \<noteq> end_patch then Inl (unverified ''patch must end with *** End Patch'')
        else parse_sections (butlast (tl ls)))"

section \<open>Sections applied to a text\<close>

definition splitLinesKeepEnd :: "string \<Rightarrow> string list" where
  "splitLinesKeepEnd text =
     (if text = '''' then []
      else let parts = split_lines text in if last parts = '''' then butlast parts else parts)"

fun findLine :: "string list \<Rightarrow> string \<Rightarrow> nat option" where
  \<comment> \<open>from the start of the list; None for the result -1\<close>
  "findLine [] expected = None"
| "findLine (l # ls) expected = (if trim_newline l = expected then Some 0 else map_option Suc (findLine ls expected))"

definition context_not_found :: "string \<Rightarrow> failure" where
  "context_not_found line = unverified (''context not found: '' @ line)"

fun update_loop :: "string list \<Rightarrow> string list \<Rightarrow> string list \<Rightarrow> failure + string list" where
  \<comment> \<open>the loop of \<^verbatim>\<open>applyUpdateLines\<close>: the lines of the patch that are left, the old lines from \<^verbatim>\<open>pos\<close> on,
     and \<^verbatim>\<open>out\<close>\<close>
  "update_loop [] rest out = Inr (out @ rest)"
| "update_loop (line # ls) rest out =
     (if has_prefix line ''@@'' then
        let anchor = trim_space (trim_prefix line ''@@'') in
        if anchor = '''' then update_loop ls rest out
        else (case findLine rest anchor of
            None \<Rightarrow> Inl (context_not_found anchor)
          | Some i \<Rightarrow> update_loop ls (drop (Suc i) rest) (out @ take (Suc i) rest))
      else if has_prefix line ''+'' then update_loop ls rest (out @ [trim_prefix line ''+'' @ [newline]])
      else if \<not> has_prefix line ''-'' \<and> \<not> has_prefix line '' ''
      then Inl (unverified ''update lines must start with +, -, space, or @@'')
      else
        let expected = tl line in
        (case findLine rest expected of
           None \<Rightarrow> Inl (context_not_found expected)
         | Some i \<Rightarrow> update_loop ls (drop (Suc i) rest)
             (out @ take i rest @ (if has_prefix line '' '' then [rest ! i] else []))))"

definition applyUpdateLines :: "string \<Rightarrow> string list \<Rightarrow> failure + string" where
  "applyUpdateLines oldContent patchLines =
     bindE (update_loop patchLines (splitLinesKeepEnd oldContent) []) (\<lambda>out. Inr (concat out))"

fun added_content :: "string list \<Rightarrow> failure + string" where
  \<comment> \<open>the content of a new file\<close>
  "added_content [] = Inr ''''"
| "added_content (l # ls) =
     (if \<not> has_prefix l ''+'' then Inl (unverified ''add file lines must start with +'')
      else bindE (added_content ls) (\<lambda>rest. Inr (trim_prefix l ''+'' @ newline # rest)))"

section \<open>Sections applied to the files\<close>

record patch_change =
  chg_Path :: string
  chg_RelativePath :: string
  chg_MovePath :: string
  chg_Type :: string
  chg_Diff :: "string \<times> nat \<times> nat"  \<comment> \<open>the patch, its additions and its deletions\<close>

definition section_contents :: "file_env \<Rightarrow> patch_section \<Rightarrow> string \<Rightarrow> files \<Rightarrow> failure + string \<times> string" where
  \<comment> \<open>the old and the new content\<close>
  "section_contents E s path fs =
     (if sec_Type s = ''add'' then
        if file_exists E path fs then Inl (unverified (''file already exists: '' @ sec_Path s))
        else bindE (added_content (sec_Lines s)) (\<lambda>b. Inr ('''', b))
      else if sec_Type s = ''delete'' then
        (case read_file E path fs of
           Inl (e, _) \<Rightarrow> Inl (Wrapped ''apply_patch verification failed: failed to read file to delete'' e)
         | Inr b \<Rightarrow> Inr (b, ''''))
      else if sec_Type s = ''update'' then
        (case read_file E path fs of
           Inl (e, _) \<Rightarrow> Inl (Wrapped ''apply_patch verification failed: failed to read file to update'' e)
         | Inr b \<Rightarrow> bindE (applyUpdateLines b (sec_Lines s)) (\<lambda>b'. Inr (b, b')))
      else Inl (unverified (''unknown section type '' @ sec_Type s)))"

definition move_target :: "string \<Rightarrow> patch_section \<Rightarrow> failure + string \<times> string" where
  "move_target workDir s = (if sec_MovePath s = '''' then Inr ('''', '''') else resolveWorkPath workDir (sec_MovePath s))"

definition commit_section :: "file_env \<Rightarrow> patch_section \<Rightarrow> string \<Rightarrow> string \<Rightarrow> string \<Rightarrow> files \<Rightarrow> unit file_outcome" where
  \<comment> \<open>the second \<^verbatim>\<open>switch\<close>: the changes of the files\<close>
  "commit_section E s path movePath newContent fs =
     (if sec_Type s = ''delete'' then file_error ''apply_patch failed: delete file'' (remove_file E path fs) (\<lambda>_ fs. (Inr (), fs))
      else
        file_error ''apply_patch failed: create parent directories'' (mkdir_all E (path_dir path) fs) (\<lambda>_ fs.
        file_error ''apply_patch failed: write file'' (write_file E path newContent fs) (\<lambda>_ fs.
        if movePath = '''' then (Inr (), fs)
        else
          file_error ''apply_patch failed: create move parent directories'' (mkdir_all E (path_dir movePath) fs) (\<lambda>_ fs.
          file_error ''apply_patch failed: write moved file'' (write_file E movePath newContent fs) (\<lambda>_ fs.
          file_error ''apply_patch failed: remove original file'' (remove_file E path fs) (\<lambda>_ fs. (Inr (), fs)))))))"

definition applyPatchSection :: "file_env \<Rightarrow> string \<Rightarrow> patch_section \<Rightarrow> files \<Rightarrow> patch_change file_outcome" where
  "applyPatchSection E workDir s fs =
     and_then (lift_file (resolveWorkPath workDir (sec_Path s)) fs) id (\<lambda>(path, rel) fs.
     and_then (lift_file (move_target workDir s) fs) id (\<lambda>(movePath, moveRel) fs.
     and_then (lift_file (section_contents E s path fs) fs) id (\<lambda>(oldContent, newContent) fs.
     and_then (commit_section E s path movePath newContent fs) id (\<lambda>_ fs.
     (Inr \<lparr>chg_Path = path, chg_RelativePath = rel, chg_MovePath = moveRel,
        chg_Type = (if sec_MovePath s = '''' then sec_Type s else ''move''),
        chg_Diff = unifiedPatch E rel oldContent newContent\<rparr>, fs)))))"

section \<open>The tool\<close>

definition patch_text :: "invocation \<Rightarrow> failure + string" where
  "patch_text iv =
     (case string_arg (inv_Input iv) ''patchText'' of
        None \<Rightarrow> Inl (Failure ''patchText is required'')
      | Some text \<Rightarrow>
          if trim_space text = '''' then Inl (Failure ''patchText is required'')
          else if inv_WorkDir iv = '''' then Inl (Failure ''workDir is required for apply_patch tool'')
          else Inr text)"

definition add_resource :: "string \<Rightarrow> string list \<Rightarrow> string \<Rightarrow> failure + string list" where
  "add_resource workDir resources raw =
     (if raw = '''' then Inr resources
      else bindE (resolveWorkPath workDir raw) (\<lambda>(_, rel).
        Inr (if rel \<in> set resources then resources else resources @ [rel])))"

definition ApplyPatch_Permission :: "invocation \<Rightarrow> failure + permission_check" where
  "ApplyPatch_Permission iv =
     bindE (patch_text iv) (\<lambda>text.
     bindE (parsePatchSections text) (\<lambda>sections.
     bindE (foldE (\<lambda>resources s. bindE (add_resource (inv_WorkDir iv) resources (sec_Path s)) (\<lambda>resources.
         add_resource (inv_WorkDir iv) resources (sec_MovePath s))) [] sections) (\<lambda>resources.
     Inr \<lparr>pck_Action = ''edit'', pck_Resources = (if resources = [] then [''*''] else resources), pck_Save = [''*'']\<rparr>)))"

definition patchSummaryPrefix :: "string \<Rightarrow> string" where
  "patchSummaryPrefix kind = (if kind = ''add'' then ''A'' else if kind = ''delete'' then ''D'' else ''M'')"

definition change_summary :: "patch_change \<Rightarrow> string" where
  "change_summary c = patchSummaryPrefix (chg_Type c) @ '' '' @ chg_RelativePath c
     @ (if chg_MovePath c = '''' then '''' else '' -> '' @ chg_MovePath c)"

fun apply_sections :: "file_env \<Rightarrow> string \<Rightarrow> nat \<Rightarrow> patch_section list \<Rightarrow> files \<Rightarrow> patch_change list file_outcome" where
  "apply_sections E workDir n [] fs = (Inr [], fs)"
| "apply_sections E workDir n (s # ss) fs =
     and_then (check_done E n fs) id (\<lambda>_ fs.
     and_then (applyPatchSection E workDir s fs) id (\<lambda>c fs.
     and_then (apply_sections E workDir (Suc n) ss fs) id (\<lambda>cs fs. (Inr (c # cs), fs))))"

definition ApplyPatch_Execute :: "file_env \<Rightarrow> invocation \<Rightarrow> files \<Rightarrow> execution file_outcome" where
  "ApplyPatch_Execute E iv fs =
     and_then (lift_file (patch_text iv) fs) id (\<lambda>text fs.
     and_then (lift_file (parsePatchSections text) fs) id (\<lambda>sections fs.
     and_then (apply_sections E (inv_WorkDir iv) 0 sections fs) id (\<lambda>changes fs.
     (Inr (no_execution\<lparr>
        exe_Text := ''Success. Updated the following files:'' @ [newline] @ join_with newline (map change_summary changes),
        exe_Metadata := Some [(''files'', JArr (map (\<lambda>c. JObj
          (change_json (chg_Path c) (chg_RelativePath c) (chg_Type c) (chg_Diff c) @ [(''movePath'', JStr (chg_MovePath c))])) changes))]\<rparr>),
      fs))))"

end
