(* ===== verification/File_Properties.thy ===== *)
theory File_Properties
  imports Path_Properties Tool_Patch
begin

text \<open>
  What the file tools promise: they stay in the working directory and within the resources whose
  permission is checked, \<^verbatim>\<open>edit\<close> replaces what it was asked to, the application of a patch section is an edit
  script of the old text, and the parser reads back every patch that is written out.
\<close>

section \<open>Which files an operation changes\<close>

definition file_at :: "files \<Rightarrow> string \<Rightarrow> bytes option" where
  "file_at fs p = (case map_of fs p of Some (File b) \<Rightarrow> Some b | _ \<Rightarrow> None)"

definition changes_only :: "string set \<Rightarrow> files \<Rightarrow> 'a file_outcome \<Rightarrow> bool" where
  \<comment> \<open>no file outside the set differs after the operation\<close>
  "changes_only ps fs r \<longleftrightarrow> (\<forall>p. p \<notin> ps \<longrightarrow> file_at (snd r) p = file_at fs p)"

lemma file_at_update [simp]:
  "file_at (AList.update q n fs) p = (if p = q then (case n of File b \<Rightarrow> Some b | Directory \<Rightarrow> None) else file_at fs p)"
  by (simp add: file_at_def split: node.splits)

lemma file_at_delete [simp]: "file_at (AList.delete q fs) p = (if p = q then None else file_at fs p)"
  by (simp add: file_at_def delete_conv')

lemma changes_only_done [intro, simp]: "changes_only ps fs (r, fs)"
  by (simp add: changes_only_def)

lemma and_then_changes:
  assumes "changes_only ps fs r" "\<And>x fs'. r = (Inr x, fs') \<Longrightarrow> changes_only ps fs' (f x fs')"
  shows "changes_only ps fs (and_then r wrap f)"
proof (cases r)
  case (Pair x fs')
  then show ?thesis using assms by (cases x) (auto simp: and_then_def changes_only_def)
qed

lemma changes_only_mono: "changes_only ps fs r \<Longrightarrow> ps \<subseteq> qs \<Longrightarrow> changes_only qs fs r"
  by (auto simp: changes_only_def)

lemma mkdir_changes: "changes_only {} fs (mkdir_all E d fs)"
proof -
  have "list_ex (is_file fs) ds \<or> file_at (fold (\<lambda>p. AList.update p Directory) ds fs) p = file_at fs p" for ds p
  proof (induction ds arbitrary: fs)
    case (Cons d ds)
    have same: "\<not> is_file fs d \<Longrightarrow> file_at (AList.update d Directory fs) p = file_at fs p" for p
      by (auto simp: is_file_def file_at_def split: option.splits node.splits)
    have "\<not> is_file fs d \<Longrightarrow> is_file (AList.update d Directory fs) = is_file fs"
      by (auto simp: is_file_def fun_eq_iff split: option.splits node.splits)
    then show ?case using Cons.IH [of "AList.update d Directory fs"] same by auto
  qed simp
  then show ?thesis by (auto simp: changes_only_def mkdir_all_def split: option.splits)
qed

lemma write_changes: "changes_only {p} fs (write_file E p b fs)"
  by (auto simp: changes_only_def write_file_def split: option.splits)

lemma remove_changes: "changes_only {p} fs (remove_file E p fs)"
  by (auto simp: changes_only_def remove_file_def split: option.splits node.splits)

lemmas operation_changes = changes_only_mono [OF mkdir_changes] changes_only_mono [OF write_changes] changes_only_mono [OF remove_changes]

lemma check_done_changes [simp]: "changes_only ps fs (check_done E n fs)"
  by (simp add: check_done_def split: option.splits)

lemma lift_file_changes [simp]: "changes_only ps fs (lift_file r fs)"
  by (simp add: lift_file_def)

lemma and_then_lift: "and_then (lift_file r fs) id f = (case r of Inl e \<Rightarrow> (Inl e, fs) | Inr x \<Rightarrow> f x fs)"
  by (simp add: and_then_def lift_file_def split: sum.split)

lemma lift_file_Inr: "lift_file r fs = (Inr x, fs') \<longleftrightarrow> r = Inr x \<and> fs' = fs"
  by (auto simp: lift_file_def)

lemma commit_section_changes: "changes_only ({p} \<union> (if q = '''' then {} else {q})) fs (commit_section E s p q b fs)"
  unfolding commit_section_def file_error_def by (auto intro!: and_then_changes operation_changes)

lemma section_changes:
  assumes "\<And>p rel. resolveWorkPath wd (sec_Path s) = Inr (p, rel) \<Longrightarrow> p \<in> ps"
    "\<And>p rel. sec_MovePath s \<noteq> '''' \<Longrightarrow> resolveWorkPath wd (sec_MovePath s) = Inr (p, rel) \<Longrightarrow> p \<in> ps"
  shows "changes_only ps fs (applyPatchSection E wd s fs)"
proof -
  have commit: "changes_only ps fs (commit_section E s p q b fs)"
    if p: "resolveWorkPath wd (sec_Path s) = Inr (p, rel)" and q: "move_target wd s = Inr (q, moveRel)" for p rel q moveRel b
  proof -
    have "q = '''' \<or> q \<in> ps" using q assms(2) by (auto simp: move_target_def split: if_splits)
    then show ?thesis using changes_only_mono [OF commit_section_changes, of p q ps fs E s b] assms(1) [OF p] by auto
  qed
  show ?thesis unfolding applyPatchSection_def and_then_lift
    by (auto intro!: and_then_changes commit split: sum.splits)
qed

section \<open>Permissions\<close>

lemma add_resource_keeps: "add_resource wd rs raw = Inr rs' \<Longrightarrow> set rs \<subseteq> set rs'"
  by (auto simp: add_resource_def res_simps split: if_splits)

lemma add_resource_in: "add_resource wd rs raw = Inr rs' \<Longrightarrow> raw \<noteq> '''' \<Longrightarrow> resolveWorkPath wd raw = Inr (p, rel) \<Longrightarrow> rel \<in> set rs'"
  by (auto simp: add_resource_def res_simps split: if_splits)

definition inside :: "string \<Rightarrow> string list \<Rightarrow> string set" where
  \<comment> \<open>the paths whose relative form is one of the resources\<close>
  "inside wd rs = {p. \<exists>raw rel. resolveWorkPath wd raw = Inr (p, rel) \<and> rel \<in> set rs}"

definition add_section :: "string \<Rightarrow> string list \<Rightarrow> patch_section \<Rightarrow> failure + string list" where
  "add_section wd rs s = bindE (add_resource wd rs (sec_Path s)) (\<lambda>rs. add_resource wd rs (sec_MovePath s))"

lemma add_sections_keep: "foldE (add_section wd) rs ss = Inr rs' \<Longrightarrow> set rs \<subseteq> set rs'"
  by (induction ss arbitrary: rs) (fastforce simp: add_section_def res_simps dest: add_resource_keeps)+

lemma apply_sections_changes:
  assumes "foldE (add_section wd) rs ss = Inr rs'" "\<forall>s \<in> set ss. sec_Path s \<noteq> ''''"
  shows "changes_only (inside wd rs') fs (apply_sections E wd n ss fs)"
  using assms
proof (induction ss arbitrary: rs n fs)
  case (Cons s ss)
  obtain rs1 rs2 where r: "add_resource wd rs (sec_Path s) = Inr rs1" "add_resource wd rs1 (sec_MovePath s) = Inr rs2"
    "foldE (add_section wd) rs2 ss = Inr rs'"
    using Cons.prems(1) unfolding foldE.simps bindE_Inr_conv by (auto simp: add_section_def [of wd rs s] res_simps)
  have sub: "set rs1 \<subseteq> set rs'" "set rs2 \<subseteq> set rs'"
    using add_resource_keeps [OF r(2)] add_sections_keep [OF r(3)] by auto
  have "changes_only (inside wd rs') fs (applyPatchSection E wd s fs)" for fs
  proof (rule section_changes)
    fix p rel assume "resolveWorkPath wd (sec_Path s) = Inr (p, rel)"
    then show "p \<in> inside wd rs'" using add_resource_in [OF r(1)] Cons.prems(2) sub(1) unfolding inside_def by fastforce
  next
    fix p rel assume "sec_MovePath s \<noteq> ''''" "resolveWorkPath wd (sec_MovePath s) = Inr (p, rel)"
    then show "p \<in> inside wd rs'" using add_resource_in [OF r(2)] sub(2) unfolding inside_def by fastforce
  qed
  then show ?case using Cons.IH [OF r(3)] Cons.prems(2) by (auto intro!: and_then_changes)
qed simp

lemma parsed_paths: "parsePatchSections text = Inr ss \<Longrightarrow> \<forall>s \<in> set ss. sec_Path s \<noteq> ''''"
  by (auto simp: parsePatchSections_def parse_sections_def Let_def res_simps list_ex_iff split: if_splits)

text \<open>C4: whatever the patch, the file system and its errors are, \<open>apply_patch\<close> changes no file but those whose
  relative paths are among the resources that the tool asks a permission for.\<close>

theorem patch_within_permission:
  assumes "ApplyPatch_Permission iv = Inr check" "file_at (snd (ApplyPatch_Execute E iv fs)) p \<noteq> file_at fs p"
  shows "\<exists>raw rel. resolveWorkPath (inv_WorkDir iv) raw = Inr (p, rel) \<and> rel \<in> set (pck_Resources check)"
proof -
  let ?wd = "inv_WorkDir iv"
  obtain t ss rs where t: "patch_text iv = Inr t" "parsePatchSections t = Inr ss" "foldE (add_section ?wd) [] ss = Inr rs"
    "set rs \<subseteq> set (pck_Resources check)"
    using assms(1) unfolding ApplyPatch_Permission_def add_section_def [abs_def] by (auto simp: res_simps)
  have "changes_only (inside ?wd rs) fs (ApplyPatch_Execute E iv fs)"
    unfolding ApplyPatch_Execute_def
    using apply_sections_changes [OF t(3) parsed_paths [OF t(2)]] t(1,2)
    by (auto intro!: and_then_changes simp: lift_file_Inr)
  then show ?thesis using assms(2) t(4) unfolding changes_only_def inside_def by blast
qed

lemma resolved_resource:
  assumes "resolveWorkPath wd raw = Inr (p, rel)"
  shows "relativeResource wd raw = rel" "rel \<noteq> ''''"
proof -
  obtain es where es: "path_segments p = path_segments wd @ es" "rel = (if es = [] then ''.'' else join_with CHR ''/'' es)"
    using resolved [OF assms] by metis
  have plain: "\<forall>w \<in> set es. plain_element w" using es(1) path_segments_plain by (metis Un_iff set_append)
  have "\<not> is_abs rel" using es(2) join_not_abs [of es] plain by (auto simp: is_abs_def has_prefix_def)
  then show "relativeResource wd raw = rel"
    using assms by (auto simp: resolveWorkPath_def relativeResource_def Let_def split: option.splits if_splits)
  show "rel \<noteq> ''''" using es(2) plain by (cases es) (auto simp: join_with_def plain_element_def split: list.splits)
qed

lemma string_arg_stringArg: "string_arg args k = Some s \<Longrightarrow> s \<noteq> '''' \<Longrightarrow> stringArg args k d = s"
  by (auto simp: string_arg_def stringArg_def split: option.splits json.splits)

lemma changed_path:
  assumes "file_at (snd r) p \<noteq> file_at fs p" "changes_only {q} fs r" shows "p = q"
  using assms by (auto simp: changes_only_def)

lemma tool_changes:
  assumes "r = Write_Execute E iv fs \<or> r = Edit_Execute E iv fs" "file_at (snd r) p \<noteq> file_at fs p"
  shows "\<exists>fp rel. string_arg (inv_Input iv) ''filePath'' = Some fp \<and> fp \<noteq> '''' \<and> inv_WorkDir iv \<noteq> ''''
    \<and> resolveWorkPath (inv_WorkDir iv) fp = Inr (p, rel)"
proof -
  have "\<exists>fp q rel. string_arg (inv_Input iv) ''filePath'' = Some fp \<and> fp \<noteq> '''' \<and> inv_WorkDir iv \<noteq> ''''
    \<and> resolveWorkPath (inv_WorkDir iv) fp = Inr (q, rel) \<and> changes_only {q} fs r"
    using assms(1)
  proof
    assume r: "r = Write_Execute E iv fs"
    have "snd r \<noteq> fs" using assms(2) by auto
    then show ?thesis unfolding r Write_Execute_def and_then_lift file_error_def
      by (auto intro!: and_then_changes operation_changes simp: Let_def split: option.splits if_splits sum.splits prod.splits bool.splits)
  next
    assume r: "r = Edit_Execute E iv fs"
    have "snd r \<noteq> fs" using assms(2) by auto
    then show ?thesis unfolding r Edit_Execute_def and_then_lift file_error_def
      by (auto intro!: and_then_changes operation_changes simp: Let_def split: option.splits if_splits sum.splits prod.splits)
  qed
  then show ?thesis using changed_path [OF assms(2)] by blast
qed

text \<open>C27: the only file that \<open>write\<close> and \<open>edit\<close> change is the one whose relative path is the resource that the run
  loop checks the permission for, and it is in the working directory.\<close>

theorem edit_within_permission:
  assumes "r = Write_Execute E iv fs \<or> r = Edit_Execute E iv fs" "file_at (snd r) p \<noteq> file_at fs p"
    "tcl_Name call \<in> {''write'', ''edit''}" "tcl_Args call = inv_Input iv"
  shows "\<exists>fp rel. resolveWorkPath (inv_WorkDir iv) fp = Inr (p, rel)
    \<and> named_target call (inv_WorkDir iv) = (''edit'', [rel]) \<and> path_segments p = path_segments (inv_WorkDir iv) @ path_elements rel"
proof -
  obtain fp rel where fp: "string_arg (inv_Input iv) ''filePath'' = Some fp" "fp \<noteq> ''''" "inv_WorkDir iv \<noteq> ''''"
    "resolveWorkPath (inv_WorkDir iv) fp = Inr (p, rel)"
    using tool_changes [OF assms(1,2)] by blast
  have "named_target call (inv_WorkDir iv) = (''edit'', [rel])"
    using assms(3,4) string_arg_stringArg [OF fp(1,2)] resolved_resource [OF fp(4)] fp(2,3)
    by (auto simp: named_target_def pathResources_def Let_def)
  moreover obtain es where es: "path_segments p = path_segments (inv_WorkDir iv) @ es" "rel = (if es = [] then ''.'' else join_with CHR ''/'' es)"
    using resolved [OF fp(4)] by metis
  have plain: "\<forall>w \<in> set es. plain_element w" using es(1) path_segments_plain by (metis Un_iff set_append)
  have "path_elements rel = es"
    using es(2) plain split_join [of es "CHR ''/''"] by (auto simp: path_elements_def plain_element_def filter_id_conv)
  ultimately show ?thesis using fp(4) es(1) by blast
qed

section \<open>Replacements\<close>

lemma str_cut_None: "str_cut sub s = None \<longleftrightarrow> (\<nexists>a b. s = a @ sub @ b)"
proof (induction s)
  case (Cons c s)
  have "(\<exists>a b. c # s = a @ sub @ b) \<longleftrightarrow> has_prefix (c # s) sub \<or> (\<exists>a b. s = a @ sub @ b)"
    by (auto simp: has_prefix_conv Cons_eq_append_conv)
  then show ?case using Cons by (auto simp: prod.case_eq_if)
qed auto

lemma str_cut_first: "str_cut sub s = Some (a, b) \<Longrightarrow> s = x @ sub @ y \<Longrightarrow> length a \<le> length x"
proof (induction s arbitrary: a x)
  case (Cons c s)
  show ?case
  proof (cases "has_prefix (c # s) sub")
    case True
    then have "a = ''''" using Cons.prems(1) by simp
    then show ?thesis by simp
  next
    case False
    then obtain a' where a': "str_cut sub s = Some (a', b)" "a = c # a'" using Cons.prems(1) by auto
    obtain x' where "x = c # x'" "s = x' @ sub @ y"
      using Cons.prems(2) False by (cases x) (auto simp: has_prefix_conv)
    then show ?thesis using Cons.IH [OF a'(1)] a'(2) by simp
  qed
qed (auto split: if_splits)

definition occurs_in :: "string \<Rightarrow> string \<Rightarrow> bool" where
  "occurs_in sub s \<longleftrightarrow> (\<exists>a b. s = a @ sub @ b)"

lemma str_cut_before: "str_cut sub s = Some (a, b) \<Longrightarrow> sub \<noteq> '''' \<Longrightarrow> \<not> occurs_in sub a"
proof
  assume cut: "str_cut sub s = Some (a, b)" "sub \<noteq> ''''" "occurs_in sub a"
  then obtain x y where "a = x @ sub @ y" by (auto simp: occurs_in_def)
  then show False using str_cut_first [OF cut(1), of x "y @ sub @ b"] str_cut_Some [OF cut(1)] cut(2) by simp
qed

definition between :: "string \<Rightarrow> string list \<Rightarrow> string" where
  \<comment> \<open>pieces with a separator between them\<close>
  "between sep ws = (case ws of [] \<Rightarrow> '''' | w # ws \<Rightarrow> w @ concat (map (\<lambda>v. sep @ v) ws))"

lemma between_Cons: "ws \<noteq> [] \<Longrightarrow> between sep (w # ws) = w @ sep @ between sep ws"
  by (cases ws) (simp_all add: between_def)

lemma replace_all_pieces:
  "sub \<noteq> '''' \<Longrightarrow> \<exists>ws. length ws = Suc (str_count sub s) \<and> s = between sub ws \<and> str_replace_all sub new s = between new ws
     \<and> (\<forall>w \<in> set ws. \<not> occurs_in sub w)"
proof (induction sub new s rule: str_replace_all.induct)
  case (1 sub new s)
  show ?case
  proof (cases "str_cut sub s")
    case None
    then have "str_count sub s = 0" "str_replace_all sub new s = s"
      using 1(2) by (simp_all add: str_count.simps [of sub s] str_replace_all.simps [of sub new s])
    moreover have "\<not> occurs_in sub s" using None by (simp add: occurs_in_def str_cut_None)
    ultimately show ?thesis by (intro exI [of _ "[s]"]) (simp add: between_def)
  next
    case (Some ab)
    obtain a b where ab: "str_cut sub s = Some (a, b)" using Some by (cases ab) simp
    obtain ws where ws: "length ws = Suc (str_count sub b)" "b = between sub ws" "str_replace_all sub new b = between new ws"
      "\<forall>w \<in> set ws. \<not> occurs_in sub w"
      using 1(1) [OF 1(2) ab refl 1(2)] by blast
    have ne: "ws \<noteq> []" using ws(1) by auto
    have "str_count sub s = Suc (str_count sub b)" "str_replace_all sub new s = a @ new @ str_replace_all sub new b"
      using ab 1(2) by (simp_all add: str_count.simps [of sub s] str_replace_all.simps [of sub new s])
    moreover have "s = a @ sub @ between sub ws" using str_cut_Some [OF ab] ws(2) by simp
    ultimately show ?thesis
      using ws(1,3,4) str_cut_before [OF ab 1(2)] by (intro exI [of _ "a # ws"]) (simp add: between_Cons [OF ne])
  qed
qed

definition replaces :: "string \<Rightarrow> string \<Rightarrow> bool \<Rightarrow> string \<Rightarrow> string \<Rightarrow> bool" where
  \<comment> \<open>what the edit promises of the text before and after\<close>
  "replaces sub new everywhere c c' \<longleftrightarrow>
     (if everywhere then sub = '''' \<or> (\<exists>ws. 2 \<le> length ws \<and> c = between sub ws \<and> c' = between new ws \<and> (\<forall>w \<in> set ws. \<not> occurs_in sub w))
      else \<exists>a b. c = a @ sub @ b \<and> c' = a @ new @ b \<and> (sub \<noteq> '''' \<longrightarrow> \<not> occurs_in sub a \<and> \<not> occurs_in sub b))"

lemma edit_content_replaces:
  assumes "edit_content sub new everywhere c = Inr c'"
  shows "replaces sub new everywhere c c'"
proof -
  let ?n = "str_count sub c"
  have n: "?n \<noteq> 0" "?n > 1 \<Longrightarrow> everywhere"
    "c' = (if everywhere then str_replace_all sub new c else str_replace_first sub new c)"
    using assms by (auto simp: edit_content_def Let_def split: if_splits)
  show ?thesis
  proof (cases everywhere)
    case True
    show ?thesis
    proof (cases "sub = ''''")
      case False
      then obtain ws where ws: "length ws = Suc (str_count sub c)" "c = between sub ws" "str_replace_all sub new c = between new ws"
        "\<forall>w \<in> set ws. \<not> occurs_in sub w"
        using replace_all_pieces by blast
      have "2 \<le> length ws" "c' = between new ws" using ws(1,3) n True by simp_all
      then show ?thesis using ws(2,4) True unfolding replaces_def by auto
    qed (simp add: replaces_def True)
  next
    case False
    then have one: "?n = 1" using n(1,2) by (metis One_nat_def less_one linorder_neqE_nat)
    then obtain a b where ab: "str_cut sub c = Some (a, b)"
    proof (cases "sub = ''''")
      case True
      have "\<exists>a b. str_cut sub c = Some (a, b)" using True by (cases c) (auto simp: has_prefix_def)
      then show thesis using that by blast
    next
      case False
      then show thesis using that one by (auto simp: str_count.simps [of sub c] split: option.splits)
    qed
    have c: "c = a @ sub @ b" by (rule str_cut_Some [OF ab])
    have "\<not> occurs_in sub b" if "sub \<noteq> ''''"
    proof -
      have "str_count sub b = 0" using one ab that by (simp add: str_count.simps [of sub c])
      then have "str_cut sub b = None" using that by (auto simp: str_count.simps [of sub b] split: option.splits)
      then show ?thesis by (simp add: str_cut_None occurs_in_def)
    qed
    then show ?thesis using False c ab n(3) str_cut_before [OF ab]
      unfolding replaces_def by (auto simp: str_replace_first_def)
  qed
qed


end
