(* ===== verification/Patch_Properties.thy ===== *)
theory Patch_Properties
  imports File_Properties
begin

text \<open>
  The patch language and its meaning: the application of a section's lines to a text is an edit script of the
  text that drops, keeps and inserts what the lines say and nothing else, and the parser reads a written
  patch back.
\<close>

section \<open>Edit scripts\<close>

datatype edit_step = Kept string | Context string | Dropped string | Inserted string

fun old_lines :: "edit_step \<Rightarrow> string list" where
  "old_lines (Inserted l) = []"
| "old_lines (Kept l) = [l]"
| "old_lines (Context l) = [l]"
| "old_lines (Dropped l) = [l]"

fun new_lines :: "edit_step \<Rightarrow> string list" where
  "new_lines (Dropped l) = []"
| "new_lines (Kept l) = [l]"
| "new_lines (Context l) = [l]"
| "new_lines (Inserted l) = [l]"

fun said_by :: "edit_step \<Rightarrow> string list" where
  \<comment> \<open>the line of the patch that asks for the step; kept lines need none\<close>
  "said_by (Kept l) = []"
| "said_by (Context l) = ['' '' @ trim_newline l]"
| "said_by (Dropped l) = [''-'' @ trim_newline l]"
| "said_by (Inserted l) = [''+'' @ trim_newline l]"

definition is_anchor :: "string \<Rightarrow> bool" where
  "is_anchor line = has_prefix line ''@@''"

definition carries_out :: "string list \<Rightarrow> edit_step list \<Rightarrow> bool" where
  \<comment> \<open>the steps of the script are those of the lines of the patch, in order\<close>
  "carries_out patch script \<longleftrightarrow> concat (map said_by script) = filter (\<lambda>l. \<not> is_anchor l) patch
     \<and> (\<forall>l. Inserted l \<in> set script \<longrightarrow> l \<noteq> '''' \<and> last l = newline)"

lemma trim_newline_append [simp]: "trim_newline (l @ [newline]) = l"
  by (simp add: trim_newline_def)

lemma findLine_Some:
  "findLine ls e = Some i \<Longrightarrow> i < length ls \<and> trim_newline (ls ! i) = e \<and> ls = take i ls @ ls ! i # drop (Suc i) ls"
  by (induction ls arbitrary: i) (auto split: if_splits)

lemma concat_kept [simp]: "concat (map (\<lambda>x. old_lines (Kept x)) ls) = ls" "concat (map (\<lambda>x. new_lines (Kept x)) ls) = ls"
  "concat (map (\<lambda>x. said_by (Kept x)) ls) = []"
  by (induction ls) simp_all

lemma carries_out_kept: "carries_out patch script \<Longrightarrow> carries_out patch (map Kept ls @ script)"
  by (auto simp: carries_out_def comp_def)

lemma carries_out_anchor: "is_anchor l \<Longrightarrow> carries_out ls script \<Longrightarrow> carries_out (l # ls) script"
  by (simp add: carries_out_def)

lemma carries_out_step:
  "carries_out ls script \<Longrightarrow> \<not> is_anchor l \<Longrightarrow> said_by x = [l] \<Longrightarrow> (\<And>t. x = Inserted t \<Longrightarrow> t \<noteq> '''' \<and> last t = newline)
    \<Longrightarrow> carries_out (l # ls) (x # script)"
  by (auto simp: carries_out_def)

lemma trim_of: "s = p @ t \<Longrightarrow> trim_prefix s p = t"
  by simp

lemma update_loop_script:
  "update_loop ls rest out = Inr res \<Longrightarrow> \<exists>script. concat (map old_lines script) = rest
     \<and> res = out @ concat (map new_lines script) \<and> carries_out ls script"
proof (induction ls rest out rule: update_loop.induct)
  case (1 rest out)
  then show ?case by (intro exI [of _ "map Kept rest"]) (auto simp: comp_def carries_out_def)
next
  case (2 line ls rest out)
  consider (anchor) "has_prefix line ''@@''" | (insert) "\<not> has_prefix line ''@@''" "has_prefix line ''+''"
    | (old) "\<not> has_prefix line ''@@''" "\<not> has_prefix line ''+''" by blast
  then show ?case
  proof cases
    case anchor
    let ?anchor = "trim_space (trim_prefix line ''@@'')"
    show ?thesis
    proof (cases "?anchor = ''''")
      case True
      then show ?thesis using 2 anchor carries_out_anchor by (fastforce simp: is_anchor_def)
    next
      case False
      then obtain i where i: "findLine rest ?anchor = Some i" "update_loop ls (drop (Suc i) rest) (out @ take (Suc i) rest) = Inr res"
        using "2.prems" anchor by (auto simp: Let_def split: option.splits)
      obtain script where s: "concat (map old_lines script) = drop (Suc i) rest"
        "res = (out @ take (Suc i) rest) @ concat (map new_lines script)" "carries_out ls script"
        using "2.IH"(2) [OF anchor refl False i] by blast
      have "carries_out (line # ls) (map Kept (take (Suc i) rest) @ script)"
        using carries_out_anchor carries_out_kept s(3) anchor by (simp add: is_anchor_def)
      then show ?thesis using s(1,2) by (intro exI [of _ "map Kept (take (Suc i) rest) @ script"]) (simp add: comp_def)
    qed
  next
    case insert
    obtain t where t: "line = ''+'' @ t" using insert(2) by (auto simp: has_prefix_conv)
    obtain script where s: "concat (map old_lines script) = rest"
      "res = (out @ [t @ [newline]]) @ concat (map new_lines script)" "carries_out ls script"
      using "2.IH"(3) [OF insert] "2.prems" insert by (auto simp: trim_of [OF t])
    have "carries_out (line # ls) (Inserted (t @ [newline]) # script)"
      using s(3) insert(1) t by (intro carries_out_step) (auto simp: is_anchor_def)
    then show ?thesis using s(1,2) by (intro exI [of _ "Inserted (t @ [newline]) # script"]) simp
  next
    case old
    then have sign: "has_prefix line ''-'' \<or> has_prefix line '' ''" using "2.prems" by (auto split: if_splits)
    then obtain i where i: "findLine rest (tl line) = Some i"
      "update_loop ls (drop (Suc i) rest) (out @ take i rest @ (if has_prefix line '' '' then [rest ! i] else [])) = Inr res"
      using "2.prems" old by (auto simp: Let_def split: option.splits)
    obtain script where s: "concat (map old_lines script) = drop (Suc i) rest"
      "res = (out @ take i rest @ (if has_prefix line '' '' then [rest ! i] else [])) @ concat (map new_lines script)"
      "carries_out ls script"
      using "2.IH"(4) [OF old _ refl i] sign by blast
    note found = findLine_Some [OF i(1)]
    let ?x = "if has_prefix line '' '' then Context (rest ! i) else Dropped (rest ! i)"
    have "said_by ?x = [line]" using found sign by (auto simp: has_prefix_conv)
    then have "carries_out (line # ls) (map Kept (take i rest) @ ?x # script)"
      using s(3) old(1) by (intro carries_out_kept carries_out_step) (auto simp: is_anchor_def split: if_splits)
    moreover have "concat (map old_lines (map Kept (take i rest) @ ?x # script)) = rest"
      using s(1) found by (simp add: comp_def)
    moreover have "res = out @ concat (map new_lines (map Kept (take i rest) @ ?x # script))"
      using s(2) by (simp add: comp_def)
    ultimately show ?thesis by blast
  qed
qed

lemma concat_split_lines: "concat (split_lines t) = t"
proof -
  have "concat (map (\<lambda>w. w @ [c]) (butlast ws) @ [last ws]) = join_with c ws" if "ws \<noteq> []" for ws :: "string list" and c
    using that by (induction ws rule: induct_list012) (simp_all add: join_with_def)
  then show ?thesis unfolding split_lines_def Let_def by simp
qed

lemma concat_splitLinesKeepEnd [simp]: "concat (splitLinesKeepEnd t) = t"
proof -
  let ?ls = "split_lines t"
  have "?ls \<noteq> []" by (simp add: split_lines_def Let_def)
  then have "concat (butlast ?ls) @ last ?ls = t"
    using concat_split_lines [of t] append_butlast_last_id [of ?ls] by (metis concat_append concat.simps append_Nil2)
  then show ?thesis by (auto simp: splitLinesKeepEnd_def Let_def concat_split_lines)
qed

text \<open>C29: the application of the lines of a section to a text is an edit script of its lines: each line of the patch
  that is not an anchor is one step, in order, the lines dropped and kept as context are lines of the old text that
  read as the patch says, the lines inserted are the patch's, and every other line of the old text stays.\<close>

theorem update_is_script:
  assumes "applyUpdateLines old patch = Inr new"
  shows "\<exists>script. concat (map old_lines script) = splitLinesKeepEnd old \<and> concat (concat (map old_lines script)) = old
    \<and> concat (concat (map new_lines script)) = new \<and> carries_out patch script"
proof -
  obtain res where res: "update_loop patch (splitLinesKeepEnd old) [] = Inr res" "new = concat res"
    using assms by (auto simp: applyUpdateLines_def res_simps)
  then show ?thesis using update_loop_script [OF res(1)] by fastforce
qed

section \<open>Written patches\<close>

definition patch_headers :: "string list" where
  "patch_headers = [add_header, delete_header, update_header, move_header]"

definition plain_line :: "string \<Rightarrow> bool" where
  "plain_line l \<longleftrightarrow> newline \<notin> set l \<and> CHR 0x0D \<notin> set l"

definition header_of :: "string \<Rightarrow> string" where
  "header_of k = (if k = ''add'' then add_header else if k = ''delete'' then delete_header else update_header)"

definition section_ok :: "patch_section \<Rightarrow> bool" where
  \<comment> \<open>the sections the language can express\<close>
  "section_ok s \<longleftrightarrow> sec_Type s \<in> {''add'', ''delete'', ''update''} \<and> sec_Path s \<noteq> '''' \<and> trim_space (sec_Path s) = sec_Path s
     \<and> plain_line (sec_Path s) \<and> trim_space (sec_MovePath s) = sec_MovePath s \<and> plain_line (sec_MovePath s)
     \<and> (sec_MovePath s \<noteq> '''' \<longrightarrow> sec_Type s = ''update'')
     \<and> (\<forall>l \<in> set (sec_Lines s). plain_line l \<and> \<not> list_ex (has_prefix l) patch_headers)"

definition write_section :: "patch_section \<Rightarrow> string list" where
  "write_section s = (header_of (sec_Type s) @ sec_Path s) #
     (if sec_MovePath s = '''' then [] else [move_header @ sec_MovePath s]) @ sec_Lines s"

definition write_patch :: "patch_section list \<Rightarrow> string" where
  "write_patch ss = join_with newline (begin_patch # concat (map write_section ss) @ [end_patch])"

lemma parse_lines:
  assumes "\<forall>l \<in> set ls. \<not> list_ex (has_prefix l) patch_headers"
  shows "foldE parse_line (a, Some c) ls = Inr (a, Some (c\<lparr>sec_Lines := sec_Lines c @ ls\<rparr>))"
  using assms by (induction ls arbitrary: c) (auto simp: parse_line_def patch_headers_def)

lemma header_prefixes [simp]:
  "has_prefix (add_header @ p) add_header" "\<not> has_prefix (delete_header @ p) add_header"
  "\<not> has_prefix (update_header @ p) add_header" "\<not> has_prefix (update_header @ p) delete_header"
  "\<not> has_prefix (move_header @ p) add_header" "\<not> has_prefix (move_header @ p) delete_header"
  "\<not> has_prefix (move_header @ p) update_header"
  by (simp_all add: has_prefix_def header_defs)

lemma parse_header:
  assumes "section_ok s"
  shows "parse_line st (header_of (sec_Type s) @ sec_Path s) = Inr (flush st, Some (new_section (sec_Type s) (sec_Path s)))"
proof -
  have "sec_Type s = ''add'' \<or> sec_Type s = ''delete'' \<or> sec_Type s = ''update''" and p: "trim_space (sec_Path s) = sec_Path s"
    using assms by (auto simp: section_ok_def)
  then show ?thesis
    by (elim disjE) (simp_all add: header_of_def parse_line_def header_path_def p)
qed

lemma parse_move:
  assumes "section_ok s" "sec_MovePath s \<noteq> ''''"
  shows "parse_line (a, Some (new_section (sec_Type s) p)) (move_header @ sec_MovePath s)
    = Inr (a, Some ((new_section (sec_Type s) p)\<lparr>sec_MovePath := sec_MovePath s\<rparr>))"
proof -
  have "sec_Type s = ''update''" "trim_space (sec_MovePath s) = sec_MovePath s"
    using assms by (auto simp: section_ok_def)
  then show ?thesis
    by (simp add: parse_line_def header_path_def new_section_def)
qed

lemma parse_section:
  assumes "section_ok s" shows "foldE parse_line st (write_section s) = Inr (flush st, Some s)"
proof -
  have ls: "\<forall>l \<in> set (sec_Lines s). \<not> list_ex (has_prefix l) patch_headers" using assms by (simp add: section_ok_def)
  have s: "s = (new_section (sec_Type s) (sec_Path s))\<lparr>sec_MovePath := sec_MovePath s, sec_Lines := sec_Lines s\<rparr>"
    by (simp add: new_section_def)
  have "foldE parse_line (flush st, Some (new_section (sec_Type s) (sec_Path s)))
      (if sec_MovePath s = '''' then [] else [move_header @ sec_MovePath s])
    = Inr (flush st, Some ((new_section (sec_Type s) (sec_Path s))\<lparr>sec_MovePath := sec_MovePath s\<rparr>))"
    using assms by (simp add: parse_move) (simp add: new_section_def)
  then have "foldE parse_line st (write_section s) = foldE parse_line
      (flush st, Some ((new_section (sec_Type s) (sec_Path s))\<lparr>sec_MovePath := sec_MovePath s\<rparr>)) (sec_Lines s)"
    using parse_header [OF assms] by (simp add: write_section_def foldE_append)
  also have "\<dots> = Inr (flush st, Some s)"
    unfolding parse_lines [OF ls] using s by (simp add: new_section_def)
  finally show ?thesis .
qed

lemma parse_written: "\<forall>s \<in> set ss. section_ok s \<Longrightarrow> \<exists>st'. foldE parse_line st (concat (map write_section ss)) = Inr st' \<and> flush st' = flush st @ ss"
proof (induction ss arbitrary: st)
  case (Cons s ss)
  obtain st' where st': "foldE parse_line (flush st, Some s) (concat (map write_section ss)) = Inr st'" "flush st' = flush (flush st, Some s) @ ss"
    using Cons by fastforce
  then show ?case using parse_section [of s st] Cons.prems by (intro exI [of _ st']) (simp add: foldE_append flush_def)
qed simp

lemma no_carriage_returns: "CHR 0x0D \<notin> set text \<Longrightarrow> unix_lines text = text"
proof -
  assume "CHR 0x0D \<notin> set text"
  then have "str_cut (CHR 0x0D # x) text = None" for x by (auto simp: str_cut_None)
  then show ?thesis by (simp add: unix_lines_def str_replace_all.simps)
qed

lemma set_join: "c \<in> set (join_with d ws) \<Longrightarrow> c = d \<or> (\<exists>w \<in> set ws. c \<in> set w)"
  by (cases ws) (auto simp: join_with_def split: if_splits)

text \<open>C33: a patch that is written out, with one section or more, is read back.\<close>

theorem patch_round_trip:
  assumes "ss \<noteq> []" "\<forall>s \<in> set ss. section_ok s"
  shows "parsePatchSections (write_patch ss) = Inr ss"
proof -
  let ?ls = "begin_patch # concat (map write_section ss) @ [end_patch]"
  have "plain_line begin_patch" "plain_line end_patch" by (simp_all add: plain_line_def begin_patch_def end_patch_def newline_def)
  moreover have "plain_line (header_of k @ p) \<longleftrightarrow> plain_line p" "plain_line (move_header @ p) \<longleftrightarrow> plain_line p" for k p
    by (simp_all add: plain_line_def header_of_def newline_def header_defs)
  ultimately have plain: "\<forall>l \<in> set ?ls. plain_line l"
    using assms(2) unfolding write_section_def section_ok_def by (auto split: if_splits)
  have split: "split_on newline (write_patch ss) = ?ls"
    unfolding write_patch_def using plain by (intro split_join) (auto simp: plain_line_def)
  have "CHR 0x0D \<notin> set (write_patch ss)"
    using plain set_join [of "CHR 0x0D" newline ?ls] unfolding write_patch_def plain_line_def newline_def by auto
  then have unix: "unix_lines (write_patch ss) = write_patch ss" by (rule no_carriage_returns)
  have trims: "trim_space begin_patch = begin_patch" "trim_space end_patch = end_patch" "end_patch \<noteq> ''''"
    by (simp_all add: begin_patch_def end_patch_def trim_space_def is_space_def)
  obtain st where st: "foldE parse_line ([], None) (concat (map write_section ss)) = Inr st" "flush st = ss"
    using parse_written [OF assms(2), of "([], None)"] by (auto simp: flush_def)
  have "parse_sections (concat (map write_section ss)) = Inr ss"
    using st assms by (auto simp: parse_sections_def list_ex_iff section_ok_def)
  then show ?thesis by (simp add: parsePatchSections_def unix split trims butlast_append)
qed

end
