(* ===== verification/Tool_Findings.thy ===== *)
theory Tool_Findings
  imports Patch_Properties
begin

text \<open>
  Concrete inputs for the properties of the file tools, and three behaviours of the tools that their own
  descriptions do not promise.
\<close>

section \<open>Samples\<close>

definition sample_file_env :: file_env where
  \<comment> \<open>a system without errors; the diff is empty\<close>
  "sample_file_env = \<lparr>env_stat = (\<lambda>_. None), env_read = (\<lambda>_. None), env_mkdir = (\<lambda>_. None), env_write = (\<lambda>_ _. None),
     env_remove = (\<lambda>_. None), env_done = (\<lambda>_. None), env_diff = (\<lambda>_ _ _ _. Some '''')\<rparr>"

definition sample_files :: files where
  "sample_files = [(''/w'', Directory), (''/w/a'', File (''x'' @ [newline] @ ''y'' @ [newline]))]"

definition sample_invocation :: "members \<Rightarrow> invocation" where
  "sample_invocation args = permission_invocation args ''/w''"

definition sample_sections :: "patch_section list" where
  "sample_sections =
     [\<lparr>sec_Type = ''update'', sec_Path = ''a'', sec_MovePath = ''b'', sec_Lines = [''@@'', '' x'', ''-y'', ''+z'']\<rparr>,
      \<lparr>sec_Type = ''add'', sec_Path = ''d/c'', sec_MovePath = '''', sec_Lines = [''+new'']\<rparr>]"

definition sample_patch :: invocation where
  "sample_patch = sample_invocation [(''patchText'', JStr (write_patch sample_sections))]"

lemma sample_sections_ok: "list_all section_ok sample_sections" "sample_sections \<noteq> []"
  by code_simp+

lemma patch_round_trip_witness: "parsePatchSections (write_patch sample_sections) = Inr sample_sections"
  using patch_round_trip [of sample_sections] sample_sections_ok by (simp add: list_all_iff)

lemma sample_patch_runs:
  "ApplyPatch_Permission sample_patch = Inr \<lparr>pck_Action = ''edit'', pck_Resources = [''a'', ''b'', ''d/c''], pck_Save = [''*'']\<rparr>"
  "file_at (snd (ApplyPatch_Execute sample_file_env sample_patch sample_files)) ''/w/b'' = Some (''x'' @ [newline] @ ''z'' @ [newline])"
  "file_at sample_files ''/w/b'' = None"
  by code_simp+

lemma patch_within_permission_witness:
  "\<exists>raw rel. resolveWorkPath (inv_WorkDir sample_patch) raw = Inr (''/w/b'', rel) \<and> rel \<in> set [''a'', ''b'', ''d/c'']"
  using patch_within_permission [OF sample_patch_runs(1), of sample_file_env sample_files "''/w/b''"] sample_patch_runs(2,3) by simp

definition sample_edit :: invocation where
  "sample_edit = sample_invocation [(''filePath'', JStr ''a''), (''oldString'', JStr ''y''), (''newString'', JStr ''z'')]"

definition sample_edit_call :: tool_call where
  "sample_edit_call = \<lparr>tcl_ID = ''c'', tcl_ToolUseID = '''', tcl_MessageID = '''', tcl_PartID = '''', tcl_ModelCallID = '''', tcl_Step = 1,
     tcl_Ordinal = 1, tcl_ProposedAt = 0, tcl_AuthorizedAt = 0, tcl_StartedAt = 0, tcl_Name = ''edit'', tcl_Args = inv_Input sample_edit,
     tcl_Tool = None\<rparr>"

lemma sample_edit_runs:
  "file_at (snd (Edit_Execute sample_file_env sample_edit sample_files)) ''/w/a'' \<noteq> file_at sample_files ''/w/a''"
  "\<not> isl (fst (Edit_Execute sample_file_env sample_edit sample_files))"
  by code_simp+

lemma edit_within_permission_witness:
  "\<exists>fp rel. resolveWorkPath ''/w'' fp = Inr (''/w/a'', rel) \<and> named_target sample_edit_call ''/w'' = (''edit'', [rel])
    \<and> path_segments ''/w/a'' = path_segments ''/w'' @ path_elements rel"
proof -
  have "inv_WorkDir sample_edit = ''/w''" "tcl_Name sample_edit_call \<in> {''write'', ''edit''}" "tcl_Args sample_edit_call = inv_Input sample_edit"
    by (simp_all add: sample_edit_def sample_invocation_def permission_invocation_def sample_edit_call_def)
  then show ?thesis
    using edit_within_permission [OF disjI2 [OF refl] sample_edit_runs(1), of sample_edit_call] by metis
qed


definition sample_update :: "string list" where
  "sample_update = [''@@'', '' x'', ''-y'', ''+z'']"

lemma update_is_script_witness: "\<exists>script. concat (map old_lines script) = [''x'' @ [newline], ''y'' @ [newline]]
    \<and> concat (concat (map new_lines script)) = ''x'' @ [newline] @ ''z'' @ [newline] \<and> carries_out sample_update script"
proof -
  have "applyUpdateLines (''x'' @ [newline] @ ''y'' @ [newline]) sample_update = Inr (''x'' @ [newline] @ ''z'' @ [newline])"
    "splitLinesKeepEnd (''x'' @ [newline] @ ''y'' @ [newline]) = [''x'' @ [newline], ''y'' @ [newline]]"
    by code_simp+
  then show ?thesis using update_is_script by metis
qed

section \<open>Findings\<close>

text \<open>A section that moves a file onto itself writes the new content and then removes the file: the tool reports
  success and the file is gone.\<close>

theorem patch_moves_onto_itself:
  assumes "applyPatchSection E wd s fs = (Inr c, fs')" "sec_Type s = ''update''" "sec_MovePath s \<noteq> ''''"
    "resolveWorkPath wd (sec_Path s) = Inr (p, rel)" "resolveWorkPath wd (sec_MovePath s) = Inr (p, rel')" "p \<noteq> ''''"
  shows "file_at fs p \<noteq> None \<and> file_at fs' p = None"
proof -
  obtain old new where c: "section_contents E s p fs = Inr (old, new)" "commit_section E s p p new fs = (Inr (), fs')"
    using assms unfolding applyPatchSection_def and_then_lift
    by (auto simp: and_then_def move_target_def split: sum.splits prod.splits)
  have "file_at fs p = Some old"
    using c(1) assms(2) by (auto simp: section_contents_def read_file_def file_at_def res_simps split: sum.splits option.splits node.splits if_splits)
  moreover obtain t where "remove_file E p t = (Inr (), fs')"
    using c(2) assms(2,6) by (auto simp: commit_section_def file_error_def and_then_def split: sum.splits prod.splits if_splits)
  then have "file_at fs' p = None"
    by (auto simp: remove_file_def split: option.splits node.splits if_splits)
  ultimately show ?thesis by simp
qed

lemma sample_moves_onto_itself:
  "let r = applyPatchSection sample_file_env ''/w'' \<lparr>sec_Type = ''update'', sec_Path = ''a'', sec_MovePath = ''./a'', sec_Lines = ['' x'']\<rparr>
     sample_files in \<not> isl (fst r) \<and> file_at (snd r) ''/w/a'' = None"
  by code_simp

text \<open>A line that is inserted after a last line without a newline is joined to it.\<close>

theorem patch_joins_last_line: "applyUpdateLines ''a'' ['' a'', ''+b''] = Inr (''ab'' @ [newline])"
  by code_simp

text \<open>Occurrences that overlap are counted once, so \<open>edit\<close> takes a string with two of them for a unique one.\<close>

theorem edit_overlapping_unique:
  "edit_content ''aa'' ''b'' False ''aaa'' = Inr ''ba''" "''aaa'' = '''' @ ''aa'' @ ''a''" "''aaa'' = ''a'' @ ''aa'' @ ''''"
  by code_simp+

end
