(* ===== verification/Agent_Turn.thy ===== *)
theory Agent_Turn
  imports Agent_Tools
begin

text \<open>
  One turn of the loop of \<^verbatim>\<open>agent/run/run.go\<close>: the request and its transforms, the attempts to open
  the provider's stream, the stream, the settlement of the model call, the proposal of the tool uses,
  their execution in sequence or in parallel, and the final state of the assistant's message.

  A turn returns the state of the runner, the turn and an error.  Where Go returns a variable together
  with a call that changes it (\<^verbatim>\<open>return turn, r.finalizeToolTurn(ctx, &turn, ...)\<close>), the value after the
  call is returned, as the Go compiler does.
\<close>

record runner =
  rnr_messages :: "message list"
  rnr_turns :: "turn list"
  rnr_usage :: usage
  rnr_structuredOutput :: args

section \<open>Checkpoints and model calls\<close>

definition checkpoint :: "config \<Rightarrow> int \<Rightarrow> message \<Rightarrow> (message \<times> failure option) program" where
  "checkpoint cfg step m =
     (if \<not> cfg_MessageCheckpoint cfg then Return (m, None)
      else ask (Checkpoint_Save step m) (\<lambda>r. case message_answer m r of
        Inl e \<Rightarrow> (m, Some (Wrapped ''message checkpoint'' e)) | Inr saved \<Rightarrow> (saved, None)))"

definition next_revision :: "message \<Rightarrow> message" where
  "next_revision m = m\<lparr>mes_Revision := mes_Revision m + 1\<rparr>"

definition retainFailedAssistant :: "config \<Rightarrow> runner \<Rightarrow> int \<Rightarrow> message \<Rightarrow> failure \<Rightarrow> (runner \<times> message \<times> failure) program" where
  "retainFailedAssistant cfg r step m runErr =
     bindP (checkpoint cfg step (next_revision (m\<lparr>mes_State := MessageStateFailed\<rparr>))) (\<lambda>(m, checkpointErr).
       Return (r\<lparr>rnr_messages := rnr_messages r @ [m]\<rparr>, m, also_failed runErr checkpointErr))"

definition settleModelCall :: "config \<Rightarrow> turn \<Rightarrow> message option \<Rightarrow> usage \<Rightarrow> failure option \<Rightarrow> failure option program" where
  "settleModelCall cfg t assistant usage e =
     tell (cfg_ModelCallLifecycle cfg) (ModelCall_Finish
       \<lparr>cfi_Step = trn_Step t, cfi_Attempt = trn_Attempt t, cfi_CallID = trn_ModelCallID t,
        cfi_StartedAt = trn_StartedAt t, cfi_CompletedAt = trn_CompletedAt t, cfi_Trace = trn_Trace t,
        cfi_Assistant = assistant, cfi_Usage = usage, cfi_ProviderRequestID = trn_ProviderRequestID t,
        cfi_Failure = e\<rparr>)"

definition finishModelCall ::
  "config \<Rightarrow> turn \<Rightarrow> message \<Rightarrow> usage \<Rightarrow> failure option \<Rightarrow> failure option \<Rightarrow> failure option program" where
  "finishModelCall cfg t assistant usage e runErr =
     bindP (settleModelCall cfg t (Some assistant) usage e) (\<lambda>settleErr. Return (join_errors [runErr, settleErr]))"

section \<open>Retries\<close>

definition normalizedRetryPolicy :: "retry_policy \<Rightarrow> retry_policy" where
  "normalizedRetryPolicy policy =
     (let defaults = DefaultRetryPolicy;
          attempts = (if rty_MaxAttempts policy = 0 then rty_MaxAttempts defaults else rty_MaxAttempts policy);
          initial = (if rty_InitialDelay policy \<le> 0 then rty_InitialDelay defaults else rty_InitialDelay policy);
          longest = (if rty_MaxDelay policy \<le> 0 then rty_MaxDelay defaults else rty_MaxDelay policy) in
      \<lparr>rty_MaxAttempts = attempts, rty_InitialDelay = initial,
       rty_MaxDelay = (if longest < initial then initial else longest)\<rparr>)"

definition retryableProviderError :: "failure \<Rightarrow> bool" where
  "retryableProviderError e = (case as_provider_error e of Some p \<Rightarrow> pve_Retryable p | None \<Rightarrow> False)"

definition providerRequestID :: "failure \<Rightarrow> string" where
  \<comment> \<open>provider errors are the errors that have a request ID\<close>
  "providerRequestID e = (case as_provider_error e of Some p \<Rightarrow> pve_RequestID p | None \<Rightarrow> '''')"

fun double_delay :: "retry_policy \<Rightarrow> nat \<Rightarrow> int \<Rightarrow> int" where
  \<comment> \<open>the loop over the attempts before, so many of them\<close>
  "double_delay policy 0 delay = (if delay > rty_MaxDelay policy then rty_MaxDelay policy else delay)"
| "double_delay policy (Suc n) delay =
     (if delay < rty_MaxDelay policy then
        (if delay > rty_MaxDelay policy div 2 then rty_MaxDelay policy else double_delay policy n (delay * 2))
      else if delay > rty_MaxDelay policy then rty_MaxDelay policy else delay)"

definition retryDelay :: "retry_policy \<Rightarrow> nat \<Rightarrow> failure \<Rightarrow> int" where
  "retryDelay policy attempt e =
     (case as_provider_error e of
        Some p \<Rightarrow> (case pve_RetryAfter p of Some d \<Rightarrow> d
          | None \<Rightarrow> double_delay policy (attempt - 1) (rty_InitialDelay policy))
      | None \<Rightarrow> double_delay policy (attempt - 1) (rty_InitialDelay policy))"

definition waitRetry :: "int \<Rightarrow> failure option program" where
  \<comment> \<open>the timer or the end of the context\<close>
  "waitRetry delay = (if delay \<le> 0 then ask Ask_Context error_answer else ask (Wait_Retry delay) error_answer)"

section \<open>The stream\<close>

type_synonym turn_result = "runner \<times> turn \<times> failure option"
type_synonym stream = "stream_part list \<times> failure option \<times> message option"

definition failed_turn :: "config \<Rightarrow> runner \<Rightarrow> turn \<Rightarrow> message \<Rightarrow> failure \<Rightarrow> turn_result program" where
  \<comment> \<open>retain the message and return the turn with the error\<close>
  "failed_turn cfg r t m e =
     bindP (retainFailedAssistant cfg r (trn_Step t) m e) (\<lambda>(r, m, f).
       Return (r, t\<lparr>trn_Assistant := m, trn_Failure := Some f\<rparr>, Some f))"

definition failed_call ::
  "config \<Rightarrow> runner \<Rightarrow> turn \<Rightarrow> message \<Rightarrow> usage \<Rightarrow> bool \<Rightarrow> failure \<Rightarrow> turn_result program" where
  \<comment> \<open>retain the message, then finish the call, which failed itself or not\<close>
  "failed_call cfg r t m usage call_failed e =
     bindP (retainFailedAssistant cfg r (trn_Step t) m e) (\<lambda>(r, m, f).
       let t = t\<lparr>trn_Assistant := m, trn_Failure := Some f\<rparr> in
       bindP (finishModelCall cfg t m usage (if call_failed then Some f else None) (Some f)) (\<lambda>e. Return (r, t, e)))"

fun attempts ::
  "config \<Rightarrow> retry_policy \<Rightarrow> request \<Rightarrow> call_trace \<Rightarrow> runner \<Rightarrow> int \<Rightarrow> message \<Rightarrow> nat \<Rightarrow> (turn_result + turn \<times> stream) program" where
  \<comment> \<open>the loop that opens the stream, with so many attempts left\<close>
  "attempts cfg policy req trace r step m 0 = Panic"
| "attempts cfg policy req trace r step m (Suc left) =
     (let attempt = rty_MaxAttempts policy - left in
      bindP now (\<lambda>startedAt.
      let t = no_turn\<lparr>trn_Step := step, trn_Attempt := attempt, trn_Trace := Some trace, trn_StartedAt := startedAt\<rparr> in
      bindP (if \<not> cfg_ModelCallLifecycle cfg then Return (Inr '''')
             else ask (ModelCall_Start \<lparr>csi_Step = step, csi_Attempt = attempt, csi_MessageID = mes_ID m,
               csi_StartedAt = startedAt, csi_Trace = Some trace\<rparr>) text_answer) (\<lambda>started.
      case started of
        Inl e \<Rightarrow> bindP (retainFailedAssistant cfg r step m (Wrapped ''model call start'' e)) (\<lambda>(r, m, f).
          Return (Inl (r, no_turn, Some f)))
      | Inr callID \<Rightarrow>
          let t = t\<lparr>trn_ModelCallID := callID\<rparr> in
          bindP (ask (Client_Stream req) stream_answer) (\<lambda>opened.
          case opened of
            Inr stream \<Rightarrow> Return (Inr (t, stream))
          | Inl e \<Rightarrow>
              bindP now (\<lambda>completedAt.
              let cause = Wrapped ''model stream'' e;
                  t = t\<lparr>trn_CompletedAt := completedAt, trn_ProviderRequestID := providerRequestID e,
                    trn_Failure := Some cause\<rparr> in
              if left > 0 \<and> retryableProviderError e then
                bindP (settleModelCall cfg t None no_usage (Some cause)) (\<lambda>settleErr.
                case settleErr of
                  Some s \<Rightarrow> bindP (failed_turn cfg r t m (Joined [cause, s])) (\<lambda>res. Return (Inl res))
                | None \<Rightarrow>
                    bindP (waitRetry (retryDelay policy attempt e)) (\<lambda>waitErr.
                    case waitErr of
                      Some w \<Rightarrow> bindP (failed_turn cfg r t m (Joined [cause, w])) (\<lambda>res. Return (Inl res))
                    | None \<Rightarrow> attempts cfg policy req trace r step m left))
              else bindP (failed_call cfg r t m no_usage True cause) (\<lambda>res. Return (Inl res)))))))"

record drain =
  drn_snapshot :: "message \<times> indexes"
  drn_usage :: usage
  drn_reason :: string
  drn_requestID :: string

fun note_part :: "stream_part \<Rightarrow> drain \<Rightarrow> drain" where
  "note_part (FinishPart reason usage _) s = s\<lparr>drn_usage := usage, drn_reason := reason\<rparr>"
| "note_part (ResponseMetadataPart (Some md)) s =
     (case map_of md ''request_id'' of Some (JStr i) \<Rightarrow> s\<lparr>drn_requestID := i\<rparr> | _ \<Rightarrow> s)"
| "note_part _ s = s"

definition part_of_block :: "message \<Rightarrow> indexes \<Rightarrow> stream_part \<Rightarrow> string option" where
  \<comment> \<open>the identifier of the part at the block's index; None is an index out of range\<close>
  "part_of_block m ix part =
     (let n = (case map_of ix (streamPartProviderID part) of Some n \<Rightarrow> n | None \<Rightarrow> 0) in
      if n < length (mes_Content m) then Some (PartID (mes_Content m ! n)) else None)"

definition emit_part :: "int \<Rightarrow> message \<Rightarrow> string \<Rightarrow> stream_part \<Rightarrow> unit program" where
  "emit_part step m partID part = emit (StreamPartEvent step (mes_ID m) partID (mes_Revision m) part)"

definition drain_part :: "config \<Rightarrow> int \<Rightarrow> stream_part \<Rightarrow> drain \<Rightarrow> (drain \<times> failure option) program" where
  \<comment> \<open>the body of the loop over the stream\<close>
  "drain_part cfg step part s =
     (let s = note_part part s in
      case applyStreamPart part (drn_snapshot s) of
        None \<Rightarrow> Panic
      | Some ((m, ix), partID, changed) \<Rightarrow>
          if \<not> changed then bindP (emit_part step m partID part) (\<lambda>_. Return (s\<lparr>drn_snapshot := (m, ix)\<rparr>, None))
          else
            bindP (checkpoint cfg step (next_revision m)) (\<lambda>(m, e).
              case e of
                Some f \<Rightarrow> Return (s\<lparr>drn_snapshot := (m, ix)\<rparr>, Some f)
              | None \<Rightarrow>
                  (case (if partID = '''' then Some '''' else part_of_block m ix part) of
                     None \<Rightarrow> Panic
                   | Some partID \<Rightarrow> bindP (emit_part step m partID part) (\<lambda>_.
                       Return (s\<lparr>drn_snapshot := (m, ix)\<rparr>, None)))))"

fun drain_stream :: "config \<Rightarrow> int \<Rightarrow> stream_part list \<Rightarrow> drain \<Rightarrow> (drain \<times> failure option) program" where
  "drain_stream cfg step [] s = Return (s, None)"
| "drain_stream cfg step (part # parts) s =
     bindP (drain_part cfg step part s) (\<lambda>(s, e). case e of
       Some f \<Rightarrow> Return (s, Some f)
     | None \<Rightarrow> drain_stream cfg step parts s)"


section \<open>The tools of a turn\<close>

definition replace_last :: "message \<Rightarrow> runner \<Rightarrow> runner" where
  \<comment> \<open>\<^verbatim>\<open>r.messages[len(r.messages)-1] = m\<close>\<close>
  "replace_last m r = r\<lparr>rnr_messages := butlast (rnr_messages r) @ [m]\<rparr>"

definition finalizeToolTurn ::
  "config \<Rightarrow> runner \<Rightarrow> turn \<Rightarrow> message \<Rightarrow> tool_result list \<Rightarrow> string \<Rightarrow> failure option \<Rightarrow> turn_result program" where
  "finalizeToolTurn cfg r t m results state runErr =
     (let done_results = completedToolResults results in
      bindP (toolPartsFromResults (mes_Content m) done_results) (\<lambda>content.
      bindP (checkpoint cfg (trn_Step t) (next_revision (m\<lparr>mes_Content := content, mes_State := state\<rparr>))) (\<lambda>(m, e).
        let t = t\<lparr>trn_Results := done_results, trn_Assistant := m\<rparr>; r = replace_last m r in
        case e of
          Some f \<Rightarrow> Return (r, t, join_errors [runErr, Some f])
        | None \<Rightarrow>
            bindP (if state = MessageStateCompleted then emit (MessageEvent (trn_Step t) m) else Return ()) (\<lambda>_.
              Return (r, t, runErr)))))"

definition resolve_call :: "registry \<Rightarrow> message \<Rightarrow> turn \<Rightarrow> tool_call_part \<Rightarrow> nat \<Rightarrow> tool_call" where
  "resolve_call reg m t c i =
     \<lparr>tcl_ID = tcp_CallID c, tcl_ToolUseID = tcp_ToolUseID c, tcl_MessageID = mes_ID m, tcl_PartID = tcp_ID c,
      tcl_ModelCallID = trn_ModelCallID t, tcl_Step = trn_Step t, tcl_Ordinal = int i + 1, tcl_ProposedAt = 0,
      tcl_AuthorizedAt = 0, tcl_StartedAt = 0, tcl_Name = tcp_Name c,
      tcl_Args = (case tcp_Input c of Some a \<Rightarrow> a | None \<Rightarrow> []), tcl_Tool = map_of reg (tcp_Name c)\<rparr>"

definition resolve_calls :: "registry \<Rightarrow> message \<Rightarrow> turn \<Rightarrow> tool_call list" where
  "resolve_calls reg m t = map (\<lambda>(c, i). resolve_call reg m t c i)
     (zip (extractToolCalls m) [0 ..< length (extractToolCalls m)])"

definition proposal_error :: "run_lib \<Rightarrow> tool_call list \<Rightarrow> failure + string \<Rightarrow> failure option" where
  \<comment> \<open>of the identifier a proposal returned, after the calls proposed before\<close>
  "proposal_error R proposed answer =
     (case answer of
        Inl e \<Rightarrow> Some e
      | Inr i \<Rightarrow>
          if i = '''' then Some (Failure ''tool use proposal returned empty ID'')
          else if i \<in> tcl_ToolUseID ` set proposed
          then Some (Failure (''tool use proposal returned duplicate ID '' @ rl_quote R i)) else None)"

fun propose_calls :: "run_lib \<Rightarrow> config \<Rightarrow> message \<Rightarrow> tool_call list \<Rightarrow> tool_call list \<Rightarrow> (message \<times> tool_call list \<times> failure option) program" where
  \<comment> \<open>the calls that are proposed, with their tool uses, and those that are left\<close>
  "propose_calls R cfg m proposed [] = Return (m, proposed, None)"
| "propose_calls R cfg m proposed (call # calls) =
     bindP now (\<lambda>t.
     bindP (ask (ToolUse_Propose ((use_info_of call t)\<lparr>use_ToolUseID := ''''\<rparr>)) text_answer) (\<lambda>answer.
     case proposal_error R proposed answer of
       Some e \<Rightarrow> Return (m, proposed, Some (Wrapped ''tool use proposal'' e))
     | None \<Rightarrow>
         (let call = call\<lparr>tcl_ProposedAt := t, tcl_ToolUseID := (case answer of Inr i \<Rightarrow> i | Inl _ \<Rightarrow> '''')\<rparr>;
              proposed = proposed @ [call];
              m = m\<lparr>mes_Content := applyToolUseIDs (mes_Content m) (proposed @ calls)\<rparr> in
          bindP (emit (ToolUseProposedEvent call)) (\<lambda>_. propose_calls R cfg m proposed calls))))"

definition interrupt_turn ::
  "config \<Rightarrow> runner \<Rightarrow> turn \<Rightarrow> message \<Rightarrow> tool_call list \<Rightarrow> failure \<Rightarrow> string \<Rightarrow> turn_result program" where
  \<comment> \<open>the calls proposed so far are interrupted and the turn fails\<close>
  "interrupt_turn cfg r t m proposed e errorType =
     bindP (interruptToolUses cfg proposed e errorType) (\<lambda>results.
       finalizeToolTurn cfg r t m results MessageStateFailed (Some e))"

fun run_sequential :: "run_lib \<Rightarrow> config \<Rightarrow> tool_call list \<Rightarrow> (tool_result list \<times> failure option) program" where
  \<comment> \<open>the results, zero for the calls after an error\<close>
  "run_sequential R cfg [] = Return ([], None)"
| "run_sequential R cfg (call # calls) =
     bindP (executeOne R cfg call) (\<lambda>(res, e). case e of
       Some f \<Rightarrow> Return (res # map (\<lambda>_. no_result) calls, Some f)
     | None \<Rightarrow> bindP (run_sequential R cfg calls) (\<lambda>(results, e). Return (res # results, e)))"

fun surface_error :: "failure option \<Rightarrow> failure list \<Rightarrow> failure option" where
  \<comment> \<open>the first error, or the first cancellation\<close>
  "surface_error firstErr [] = firstErr"
| "surface_error firstErr (e # es) =
     (case firstErr of
        None \<Rightarrow> surface_error (Some e) es
      | Some f \<Rightarrow> surface_error (if is_canceled e \<and> \<not> is_canceled f then Some e else Some f) es)"

definition arrange :: "nat list \<Rightarrow> 'a list \<Rightarrow> 'a list" where
  \<comment> \<open>the elements in the order of the indexes, then the others\<close>
  "arrange order xs =
     (let is = remdups (filter (\<lambda>i. i < length xs) order) in
      map ((!) xs) (is @ filter (\<lambda>i. i \<notin> set is) [0 ..< length xs]))"

definition run_parallel :: "run_lib \<Rightarrow> config \<Rightarrow> tool_call list \<Rightarrow> (tool_result list \<times> failure option) program" where
  \<comment> \<open>the errors come in the order in which the calls end, which is open\<close>
  "run_parallel R cfg calls =
     bindP (ask (Ask_Order (length calls)) order_answer) (\<lambda>order.
     bindP (in_parallel order (map (executeOne R cfg) calls)) (\<lambda>outcomes.
     bindP (ask (Ask_Order (length calls)) order_answer) (\<lambda>order.
       Return (map fst outcomes, surface_error None (List.map_filter snd (arrange order outcomes))))))"

definition execution_mode :: "config \<Rightarrow> tool_call list \<Rightarrow> string" where
  "execution_mode cfg calls =
     (if cfg_ToolExecution cfg = ToolExecutionDefault
      then (if anySequential calls then ToolExecutionSequential else ToolExecutionParallel)
      else cfg_ToolExecution cfg)"

definition execute_calls :: "run_lib \<Rightarrow> config \<Rightarrow> runner \<Rightarrow> turn \<Rightarrow> message \<Rightarrow> tool_call list \<Rightarrow> turn_result program" where
  "execute_calls R cfg r t m calls =
     (let mode = execution_mode cfg calls;
          finish = (\<lambda>(results, e). case e of
            Some f \<Rightarrow> finalizeToolTurn cfg r t m results MessageStateFailed (Some f)
          | None \<Rightarrow> finalizeToolTurn cfg r t m results MessageStateCompleted None) in
      if mode = ToolExecutionSequential then bindP (run_sequential R cfg calls) finish
      else if mode = ToolExecutionParallel then bindP (run_parallel R cfg calls) finish
      else Return (r, t, Some (Failure (''unknown ToolExecutionMode: '' @ rl_quote R mode))))"

definition tool_turn :: "run_lib \<Rightarrow> config \<Rightarrow> registry \<Rightarrow> runner \<Rightarrow> turn \<Rightarrow> message \<Rightarrow> turn_result program" where
  \<comment> \<open>the turn of a message with tool calls, from its first checkpoint on\<close>
  "tool_turn R cfg reg r t m =
     bindP (toolPartsFromResults (mes_Content m) []) (\<lambda>content.
     bindP (checkpoint cfg (trn_Step t) (next_revision (m\<lparr>mes_Content := content\<rparr>))) (\<lambda>(m, e).
     case e of
       Some f \<Rightarrow> failed_turn cfg r t m f
     | None \<Rightarrow>
         let r = r\<lparr>rnr_messages := rnr_messages r @ [m]\<rparr>; resolved = resolve_calls reg m t in
         if \<not> cfg_ToolUseLifecycle cfg then execute_calls R cfg r t m resolved
         else
           bindP (propose_calls R cfg m [] resolved) (\<lambda>(m, proposed, e).
           case e of
             Some f \<Rightarrow> interrupt_turn cfg r t m proposed f ''proposal''
           | None \<Rightarrow>
               bindP (checkpoint cfg (trn_Step t)
                 (next_revision (m\<lparr>mes_Content := applyToolUseIDs (mes_Content m) proposed\<rparr>))) (\<lambda>(m, e).
               case e of
                 Some f \<Rightarrow> interrupt_turn cfg r t m proposed f ''checkpoint''
               | None \<Rightarrow> execute_calls R cfg (replace_last m r) t m proposed))))"

section \<open>A turn\<close>

definition add_usage :: "usage \<Rightarrow> usage \<Rightarrow> usage" where
  "add_usage a b = \<lparr>usg_InputTokens = usg_InputTokens a + usg_InputTokens b, usg_OutputTokens = usg_OutputTokens a + usg_OutputTokens b,
     usg_TotalTokens = usg_TotalTokens a + usg_TotalTokens b, usg_ReasoningTokens = usg_ReasoningTokens a + usg_ReasoningTokens b,
     usg_CachedInputTokens = usg_CachedInputTokens a + usg_CachedInputTokens b,
     usg_CacheWriteTokens = usg_CacheWriteTokens a + usg_CacheWriteTokens b\<rparr>"

definition finish_turn :: "run_lib \<Rightarrow> config \<Rightarrow> registry \<Rightarrow> runner \<Rightarrow> turn \<Rightarrow> message \<Rightarrow> turn_result program" where
  \<comment> \<open>after the model call is settled\<close>
  "finish_turn R cfg reg r t m =
     (let r = r\<lparr>rnr_usage := add_usage (rnr_usage r) (trn_Usage t)\<rparr> in
      if extractToolCalls m \<noteq> [] then tool_turn R cfg reg r t m
      else
        bindP (checkpoint cfg (trn_Step t) (next_revision (m\<lparr>mes_State := MessageStateCompleted\<rparr>))) (\<lambda>(m, e).
          case e of
            Some f \<Rightarrow> failed_turn cfg r t m f
          | None \<Rightarrow> bindP (emit (MessageEvent (trn_Step t) m)) (\<lambda>_.
              Return (r\<lparr>rnr_messages := rnr_messages r @ [m]\<rparr>, t\<lparr>trn_Assistant := m\<rparr>, None))))"

definition final_snapshot :: "message \<Rightarrow> message \<Rightarrow> usage \<Rightarrow> string \<Rightarrow> message" where
  \<comment> \<open>the snapshot with the provider's final message merged in\<close>
  "final_snapshot m final usage reason =
     (let final = (if UsageEmpty usage then final else final\<lparr>mes_Usage := Some usage\<rparr>);
          m = mergeFinalAssistant m final in
      if reason \<noteq> '''' then m\<lparr>mes_FinishReason := reason\<rparr> else m)"

definition finish_stream ::
  "run_lib \<Rightarrow> config \<Rightarrow> registry \<Rightarrow> runner \<Rightarrow> turn \<Rightarrow> drain \<Rightarrow> failure option \<Rightarrow> message option \<Rightarrow> turn_result program" where
  \<comment> \<open>after the loop over the stream, with what \<^verbatim>\<open>stream.Final()\<close> returns\<close>
  "finish_stream R cfg reg r t s finalErr finalMsg =
     bindP now (\<lambda>completedAt.
     let m = fst (drn_snapshot s); usage = drn_usage s;
         t = t\<lparr>trn_CompletedAt := completedAt, trn_Usage := usage, trn_ProviderRequestID := drn_requestID s\<rparr> in
     case finalErr of
       Some e \<Rightarrow>
         bindP (retainFailedAssistant cfg r (trn_Step t) m (Wrapped ''stream.Final'' e)) (\<lambda>(r, m, f).
           let t = t\<lparr>trn_Assistant := m, trn_Failure := Some (Wrapped ''stream.Final'' e)\<rparr> in
           bindP (finishModelCall cfg t m usage (Some f) (Some f)) (\<lambda>e. Return (r, t, e)))
     | None \<Rightarrow>
         (case finalMsg of
            None \<Rightarrow> failed_call cfg r t m usage True (Failure ''model returned nil assistant message without error'')
          | Some final \<Rightarrow>
              bindP (checkpoint cfg (trn_Step t) (next_revision (final_snapshot m final usage (drn_reason s)))) (\<lambda>(m, e).
              case e of
                Some f \<Rightarrow> failed_call cfg r t m usage False f
              | None \<Rightarrow>
                  bindP (finishModelCall cfg t m usage None None) (\<lambda>settleErr.
                  case settleErr of
                    Some f \<Rightarrow> Return (r, t, Some f)
                  | None \<Rightarrow> finish_turn R cfg reg r t m))))"

definition stream_turn :: "run_lib \<Rightarrow> config \<Rightarrow> registry \<Rightarrow> runner \<Rightarrow> turn \<Rightarrow> message \<Rightarrow> stream \<Rightarrow> turn_result program" where
  \<comment> \<open>the turn from the loop over the stream on\<close>
  "stream_turn R cfg reg r t m stream =
     (let (parts, finalErr, finalMsg) = stream in
      bindP (drain_stream cfg (trn_Step t) parts
        \<lparr>drn_snapshot = (m, []), drn_usage = no_usage, drn_reason = '''', drn_requestID = ''''\<rparr>) (\<lambda>(s, e).
      case e of
        Some f \<Rightarrow>
          bindP (retainFailedAssistant cfg r (trn_Step t) (fst (drn_snapshot s)) f) (\<lambda>(r, m, f).
          bindP now (\<lambda>completedAt.
            let t = t\<lparr>trn_Assistant := m, trn_Failure := Some f, trn_CompletedAt := completedAt, trn_Usage := drn_usage s,
                  trn_ProviderRequestID := drn_requestID s\<rparr> in
            bindP (finishModelCall cfg t m (drn_usage s) (Some f) (Some f)) (\<lambda>e. Return (r, t, e))))
      | None \<Rightarrow> finish_stream R cfg reg r t s finalErr finalMsg))"

definition first_snapshot :: message where
  "first_snapshot = (plain_message RoleAssistant [])\<lparr>mes_State := MessageStateInProgress, mes_Revision := 1\<rparr>"

definition request_turn :: "run_lib \<Rightarrow> config \<Rightarrow> registry \<Rightarrow> runner \<Rightarrow> int \<Rightarrow> request \<Rightarrow> turn_result program" where
  \<comment> \<open>the turn from the request on\<close>
  "request_turn R cfg reg r step req =
     bindP (checkpoint cfg step first_snapshot) (\<lambda>(m, e).
     case e of
       Some f \<Rightarrow> bindP (retainFailedAssistant cfg r step m f) (\<lambda>(r, _, f). Return (r, no_turn, Some f))
     | None \<Rightarrow>
         bindP (if cfg_LowersOptions cfg then ask (Client_LoweredOptions req) flag_answer else Return False) (\<lambda>lowered.
         bindP (attempts cfg (normalizedRetryPolicy (cfg_Retry cfg)) req (NewCallTrace (rl_lib R) req lowered) r step m
             (rty_MaxAttempts (normalizedRetryPolicy (cfg_Retry cfg)))) (\<lambda>opened.
         case opened of
           Inl res \<Rightarrow> Return res
         | Inr (t, stream) \<Rightarrow> stream_turn R cfg reg r t m stream)))"

definition hooked :: "bool \<Rightarrow> question \<Rightarrow> (answer \<Rightarrow> failure + 'a) \<Rightarrow> 'a \<Rightarrow> string \<Rightarrow> (failure + 'a) program" where
  \<comment> \<open>a hook that may not be installed, and the name its error is wrapped with\<close>
  "hooked installed q f x name =
     (if installed then ask q (\<lambda>r. case f r of Inl e \<Rightarrow> Inl (Wrapped (''hook '' @ name) e) | Inr y \<Rightarrow> Inr y) else Return (Inr x))"

definition transform_history :: "config \<Rightarrow> runner \<Rightarrow> nat \<Rightarrow> request \<Rightarrow> (failure + runner) program" where
  "transform_history cfg r step req =
     bindP (hooked (hk_TransformHistory (cfg_Hooks cfg)) (Hook_TransformHistory step (rnr_messages r) (rnr_usage r) req)
       messages_answer None ''TransformHistory'') (\<lambda>answer.
     case answer of
       Inl e \<Rightarrow> Return (Inl e)
     | Inr None \<Rightarrow> Return (Inr r)
     | Inr (Some new) \<Rightarrow>
         if length new = length (rnr_messages r) then Return (Inr r)
         else bindP (emit (ContextTransformedEvent (int step) ''before_step'' (length (rnr_messages r)) (length new)
             (firstChangedMessage (rnr_messages r) new))) (\<lambda>_. Return (Inr (r\<lparr>rnr_messages := new\<rparr>))))"

definition transform_context :: "config \<Rightarrow> nat \<Rightarrow> message list \<Rightarrow> (failure + message list) program" where
  "transform_context cfg step msgs =
     bindP (hooked (hk_TransformContext (cfg_Hooks cfg)) (Hook_TransformContext step msgs) messages_answer None
       ''TransformContext'') (\<lambda>answer.
     case answer of
       Inl e \<Rightarrow> Return (Inl e)
     | Inr None \<Rightarrow> Return (Inr msgs)
     | Inr (Some new) \<Rightarrow>
         bindP (if length new = length msgs then Return ()
             else emit (ContextTransformedEvent (int step) ''transform_context'' (length msgs) (length new)
               (case new of [] \<Rightarrow> None | h # _ \<Rightarrow> Some h))) (\<lambda>_. Return (Inr new)))"

definition bindR :: "(failure + 'a) program \<Rightarrow> runner \<Rightarrow> ('a \<Rightarrow> turn_result program) \<Rightarrow> turn_result program" where
  \<comment> \<open>\<^verbatim>\<open>if err != nil { return Turn{}, err }\<close>\<close>
  "bindR p r f = bindP p (\<lambda>answer. case answer of Inl e \<Rightarrow> Return (r, no_turn, Some e) | Inr x \<Rightarrow> f x)"

definition base_request :: "config \<Rightarrow> runner \<Rightarrow> string \<Rightarrow> tool_def list \<Rightarrow> int option \<Rightarrow> request" where
  "base_request cfg r system tools tokens =
     \<lparr>req_Model = cfg_Model cfg, req_System = system, req_Messages = rnr_messages r, req_Tools = tools,
      req_ToolChoice = cfg_ToolChoice cfg, req_Thinking = cfg_Thinking cfg, req_OutputSchema = cfg_OutputSchema cfg,
      req_MaxOutputTokens = (case tokens of Some n \<Rightarrow> n | None \<Rightarrow> 0)\<rparr>"

definition runTurn :: "run_lib \<Rightarrow> config \<Rightarrow> registry \<Rightarrow> runner \<Rightarrow> nat \<Rightarrow> turn_result program" where
  "runTurn R cfg reg r step =
     (let hs = cfg_Hooks cfg; defs = definitionsFor reg in
      bindR (hooked (hk_TransformSystem hs) (Hook_TransformSystem (cfg_System cfg)) text_answer (cfg_System cfg) ''TransformSystem'') r (\<lambda>system.
      bindR (hooked (hk_TransformToolDefs hs) (Hook_TransformToolDefs step defs) tools_answer defs ''TransformToolDefs'') r (\<lambda>tools.
      bindR (hooked (hk_TransformParams hs) (Hook_TransformParams step) tokens_answer None ''TransformParams'') r (\<lambda>tokens.
      let req = base_request cfg r system tools tokens in
      bindR (transform_history cfg r step req) r (\<lambda>r.
      bindR (transform_context cfg step (rnr_messages r)) r (\<lambda>msgs.
        request_turn R cfg reg r (int step) (req\<lparr>req_Messages := msgs\<rparr>)))))))"

end
