(* ===== verification/Agent_Run.thy ===== *)
theory Agent_Run
  imports Agent_Turn
begin

text \<open>
  The loop of \<^verbatim>\<open>agent/run/run.go\<close> and its entry \<^verbatim>\<open>Run\<close>.  A run without a limit of steps may go on for
  ever; the loop is given a number of turns, and returns None when they are used up.
\<close>

type_synonym run_outcome = "run_result option \<times> failure option"

definition finalize :: "runner \<Rightarrow> nat \<Rightarrow> string \<Rightarrow> run_result" where
  "finalize r step reason = \<lparr>rrs_Messages = rnr_messages r, rrs_Turns = rnr_turns r, rrs_Usage = rnr_usage r,
     rrs_Steps = step, rrs_StopReason = reason, rrs_StructuredOutput = rnr_structuredOutput r\<rparr>"

definition stop_with :: "runner \<Rightarrow> nat \<Rightarrow> string \<Rightarrow> failure option \<Rightarrow> run_outcome option program" where
  \<comment> \<open>\<^verbatim>\<open>return r.finalize(step, reason), err\<close>\<close>
  "stop_with r step reason e = Return (Some (Some (finalize r step reason), e))"

definition fail_with :: "runner \<Rightarrow> nat \<Rightarrow> string \<Rightarrow> failure \<Rightarrow> run_outcome option program" where
  \<comment> \<open>emit the error and return it\<close>
  "fail_with r step reason e = bindP (emitError e) (\<lambda>_. stop_with r step reason (Some e))"

definition structured_error :: "string \<Rightarrow> failure \<Rightarrow> string \<Rightarrow> failure" where
  "structured_error kind e text = Followed (Wrapped (''loop: structured output '' @ kind @ '' error'') e) ('' (raw: '' @ text @ '')'')"

definition handleStructuredOutput :: "run_lib \<Rightarrow> config \<Rightarrow> runner \<Rightarrow> turn \<Rightarrow> (failure + runner) program" where
  "handleStructuredOutput R cfg r t =
     (case cfg_OutputSchema cfg of
        None \<Rightarrow> Return (Inr r)
      | Some schema \<Rightarrow>
          let text = textOf (trn_Assistant t) in
          if text = '''' then Return (Inl (Failure ''loop: structured output required but assistant returned empty text''))
          else (case rl_unmarshal R text of
            Inl e \<Rightarrow> Return (Inl (structured_error ''parse'' e text))
          | Inr parsed \<Rightarrow>
              (case validateAgainstSchema R (osc_Schema schema) (JObj (case parsed of Some ms \<Rightarrow> ms | None \<Rightarrow> [])) of
                 Some e \<Rightarrow> Return (Inl (structured_error ''validation'' e text))
               | None \<Rightarrow> bindP (emit (StructuredOutputEvent (osc_Name schema) text parsed)) (\<lambda>_.
                   Return (Inr (r\<lparr>rnr_structuredOutput := parsed\<rparr>))))))"

definition end_turn :: "run_lib \<Rightarrow> config \<Rightarrow> runner \<Rightarrow> nat \<Rightarrow> turn \<Rightarrow> run_outcome option program" where
  \<comment> \<open>a turn without tool calls ends the run\<close>
  "end_turn R cfg r step t =
     bindP (handleStructuredOutput R cfg r t) (\<lambda>answer. case answer of
       Inl e \<Rightarrow> fail_with r step StopReasonError e
     | Inr r \<Rightarrow> stop_with r step StopReasonEndTurn None)"

fun run_loop :: "nat \<Rightarrow> run_lib \<Rightarrow> config \<Rightarrow> registry \<Rightarrow> runner \<Rightarrow> nat \<Rightarrow> run_outcome option program" where
  \<comment> \<open>the loop of \<^verbatim>\<open>run\<close>, for at most so many iterations\<close>
  "run_loop 0 R cfg reg r step = Return None"
| "run_loop (Suc fuel) R cfg reg r step =
     bindP (ask Ask_Context error_answer) (\<lambda>ended. case ended of
       Some e \<Rightarrow> stop_with r step StopReasonAborted (Some e)
     | None \<Rightarrow>
         if cfg_MaxSteps cfg > 0 \<and> step \<ge> cfg_MaxSteps cfg then stop_with r step StopReasonMaxSteps None
         else
           let step = step + 1 in
           bindP (tell (hk_OnTurnStart (cfg_Hooks cfg)) (Hook_OnTurnStart step)) (\<lambda>startErr. case startErr of
             Some e \<Rightarrow> fail_with r step StopReasonError e
           | None \<Rightarrow>
               bindP (emit (IterationStartEvent step)) (\<lambda>_.
               bindP (runTurn R cfg reg r step) (\<lambda>(r, t, e). case e of
                 Some f \<Rightarrow>
                   (let r = (if trn_StartedAt t \<noteq> 0 then r\<lparr>rnr_turns := rnr_turns r @ [t]\<rparr> else r) in
                    fail_with r step (if is_canceled f \<or> is_deadline f then StopReasonAborted else StopReasonError) f)
               | None \<Rightarrow>
                   let r = r\<lparr>rnr_turns := rnr_turns r @ [t]\<rparr> in
                   bindP (emit (IterationEndEvent step t)) (\<lambda>_.
                   bindP (tell (hk_OnTurnEnd (cfg_Hooks cfg)) (Hook_OnTurnEnd step t)) (\<lambda>endErr. case endErr of
                     Some f \<Rightarrow> fail_with r step StopReasonError f
                   | None \<Rightarrow>
                       if trn_Results t = [] then end_turn R cfg r step t
                       else run_loop fuel R cfg reg r step))))))"

definition run_checks :: "run_lib \<Rightarrow> config \<Rightarrow> failure + registry" where
  \<comment> \<open>what \<^verbatim>\<open>Run\<close> requires of its configuration\<close>
  "run_checks R cfg =
     (if \<not> cfg_Client cfg then Inl (Failure ''run.Run: Config.Client is required'')
      else if mrf_Provider (cfg_Model cfg) = '''' \<or> mrf_ID (cfg_Model cfg) = ''''
      then Inl (Failure ''run.Run: Config.Model is required'')
      else if hk_BeforeRun (cfg_Hooks cfg) \<and> length (cfg_Messages cfg) > 0
      then Inl (Failure ''run.Run: BeforeRun hook installed with non-empty Config.Messages; pick one source of initial history'')
      else if cfg_OutputSchema cfg \<noteq> None \<and> \<not> cfg_StructuredOutput cfg
      then Inl (Failure (''loop: model '' @ fst (cfg_ModelInfo cfg) @ ''/'' @ snd (cfg_ModelInfo cfg) @
        '' does not support structured output''))
      else case Compose R (cfg_Tools cfg) of
        Inl e \<Rightarrow> Inl (Wrapped ''run.Run: tool catalog'' e)
      | Inr reg \<Rightarrow> Inr reg)"

definition new_runner :: "message list \<Rightarrow> runner" where
  "new_runner msgs = \<lparr>rnr_messages = msgs, rnr_turns = [], rnr_usage = no_usage, rnr_structuredOutput = None\<rparr>"

definition run_body :: "nat \<Rightarrow> run_lib \<Rightarrow> config \<Rightarrow> run_outcome option program" where
  \<comment> \<open>\<^verbatim>\<open>Run\<close> but its deferred function\<close>
  "run_body fuel R cfg =
     (case run_checks R cfg of
        Inl e \<Rightarrow> Return (Some (None, Some e))
      | Inr reg \<Rightarrow>
          bindP (hooked (hk_BeforeRun (cfg_Hooks cfg)) (Hook_BeforeRun (cfg_Messages cfg)) messages_answer None ''BeforeRun'') (\<lambda>answer.
            case answer of
              Inl e \<Rightarrow> stop_with (new_runner (cfg_Messages cfg)) 0 StopReasonError (Some e)
            | Inr msgs \<Rightarrow> run_loop fuel R cfg reg
                (new_runner (case msgs of Some ms \<Rightarrow> ms | None \<Rightarrow> cfg_Messages cfg)) 0))"

definition no_run_result :: run_result where
  \<comment> \<open>\<^verbatim>\<open>Result{StopReason: StopReasonError}\<close>\<close>
  "no_run_result = finalize (new_runner []) 0 StopReasonError"

definition after_run :: "run_outcome \<Rightarrow> run_outcome program" where
  \<comment> \<open>the deferred function\<close>
  "after_run out =
     (let res = (case fst out of Some res \<Rightarrow> res | None \<Rightarrow> no_run_result) in
      bindP (ask (Hook_AfterRun res (snd out)) error_answer) (\<lambda>hookErr.
        Return (Some res, case hookErr of None \<Rightarrow> snd out | Some h \<Rightarrow> join_errors [snd out, Some h])))"

definition Run :: "nat \<Rightarrow> run_lib \<Rightarrow> config \<Rightarrow> run_outcome option program" where
  "Run fuel R cfg =
     (if \<not> hk_AfterRun (cfg_Hooks cfg) then run_body fuel R cfg
      else deferP (run_body fuel R cfg) (\<lambda>out. case out of
        Some None \<Rightarrow> Return None
      | Some (Some out) \<Rightarrow> bindP (after_run out) (\<lambda>out. Return (Some out))
      | None \<Rightarrow> bindP (after_run (None, None)) (\<lambda>_. Return None)))"

end
