(* ===== verification/Store_Models.thy ===== *)
theory Store_Models
  imports Permission
begin

text \<open>
  The data of \<^verbatim>\<open>store/models.go\<close> and the payload structs of \<^verbatim>\<open>store/aggregate.go\<close>, field by field,
  with the status and event-type constants, and the state-transition tables of runs, tool uses
  and permission requests.
\<close>

section \<open>Constants\<close>

definition SessionRunStatusQueued :: string where "SessionRunStatusQueued = ''queued''"
definition SessionRunStatusRunning :: string where "SessionRunStatusRunning = ''running''"
definition SessionRunStatusCompleted :: string where "SessionRunStatusCompleted = ''completed''"
definition SessionRunStatusFailed :: string where "SessionRunStatusFailed = ''failed''"
definition SessionRunStatusAborted :: string where "SessionRunStatusAborted = ''aborted''"

lemmas run_status_defs = SessionRunStatusQueued_def
  SessionRunStatusRunning_def
  SessionRunStatusCompleted_def
  SessionRunStatusFailed_def
  SessionRunStatusAborted_def

lemma run_status_distinct [simp]:
  "SessionRunStatusQueued \<noteq> SessionRunStatusRunning" "SessionRunStatusQueued \<noteq> SessionRunStatusCompleted" "SessionRunStatusQueued \<noteq> SessionRunStatusFailed" "SessionRunStatusQueued \<noteq> SessionRunStatusAborted"
  "SessionRunStatusRunning \<noteq> SessionRunStatusQueued" "SessionRunStatusRunning \<noteq> SessionRunStatusCompleted" "SessionRunStatusRunning \<noteq> SessionRunStatusFailed" "SessionRunStatusRunning \<noteq> SessionRunStatusAborted"
  "SessionRunStatusCompleted \<noteq> SessionRunStatusQueued" "SessionRunStatusCompleted \<noteq> SessionRunStatusRunning" "SessionRunStatusCompleted \<noteq> SessionRunStatusFailed" "SessionRunStatusCompleted \<noteq> SessionRunStatusAborted"
  "SessionRunStatusFailed \<noteq> SessionRunStatusQueued" "SessionRunStatusFailed \<noteq> SessionRunStatusRunning" "SessionRunStatusFailed \<noteq> SessionRunStatusCompleted" "SessionRunStatusFailed \<noteq> SessionRunStatusAborted"
  "SessionRunStatusAborted \<noteq> SessionRunStatusQueued" "SessionRunStatusAborted \<noteq> SessionRunStatusRunning" "SessionRunStatusAborted \<noteq> SessionRunStatusCompleted" "SessionRunStatusAborted \<noteq> SessionRunStatusFailed"
  "SessionRunStatusQueued \<noteq> []" "SessionRunStatusRunning \<noteq> []" "SessionRunStatusCompleted \<noteq> []" "SessionRunStatusFailed \<noteq> []" "SessionRunStatusAborted \<noteq> []"
  "[] \<noteq> SessionRunStatusQueued" "[] \<noteq> SessionRunStatusRunning" "[] \<noteq> SessionRunStatusCompleted" "[] \<noteq> SessionRunStatusFailed" "[] \<noteq> SessionRunStatusAborted"
  by (simp_all add: run_status_defs)

definition ToolUseStatusProposed :: string where "ToolUseStatusProposed = ''proposed''"
definition ToolUseStatusAuthorized :: string where "ToolUseStatusAuthorized = ''authorized''"
definition ToolUseStatusStarted :: string where "ToolUseStatusStarted = ''started''"
definition ToolUseStatusCompleted :: string where "ToolUseStatusCompleted = ''completed''"
definition ToolUseStatusFailed :: string where "ToolUseStatusFailed = ''failed''"
definition ToolUseStatusInterrupted :: string where "ToolUseStatusInterrupted = ''interrupted''"
definition ToolUseStatusDeclined :: string where "ToolUseStatusDeclined = ''declined''"

lemmas tool_status_defs = ToolUseStatusProposed_def
  ToolUseStatusAuthorized_def
  ToolUseStatusStarted_def
  ToolUseStatusCompleted_def
  ToolUseStatusFailed_def
  ToolUseStatusInterrupted_def
  ToolUseStatusDeclined_def

lemma tool_status_distinct [simp]:
  "ToolUseStatusProposed \<noteq> ToolUseStatusAuthorized" "ToolUseStatusProposed \<noteq> ToolUseStatusStarted" "ToolUseStatusProposed \<noteq> ToolUseStatusCompleted" "ToolUseStatusProposed \<noteq> ToolUseStatusFailed" "ToolUseStatusProposed \<noteq> ToolUseStatusInterrupted" "ToolUseStatusProposed \<noteq> ToolUseStatusDeclined"
  "ToolUseStatusAuthorized \<noteq> ToolUseStatusProposed" "ToolUseStatusAuthorized \<noteq> ToolUseStatusStarted" "ToolUseStatusAuthorized \<noteq> ToolUseStatusCompleted" "ToolUseStatusAuthorized \<noteq> ToolUseStatusFailed" "ToolUseStatusAuthorized \<noteq> ToolUseStatusInterrupted" "ToolUseStatusAuthorized \<noteq> ToolUseStatusDeclined"
  "ToolUseStatusStarted \<noteq> ToolUseStatusProposed" "ToolUseStatusStarted \<noteq> ToolUseStatusAuthorized" "ToolUseStatusStarted \<noteq> ToolUseStatusCompleted" "ToolUseStatusStarted \<noteq> ToolUseStatusFailed" "ToolUseStatusStarted \<noteq> ToolUseStatusInterrupted" "ToolUseStatusStarted \<noteq> ToolUseStatusDeclined"
  "ToolUseStatusCompleted \<noteq> ToolUseStatusProposed" "ToolUseStatusCompleted \<noteq> ToolUseStatusAuthorized" "ToolUseStatusCompleted \<noteq> ToolUseStatusStarted" "ToolUseStatusCompleted \<noteq> ToolUseStatusFailed" "ToolUseStatusCompleted \<noteq> ToolUseStatusInterrupted" "ToolUseStatusCompleted \<noteq> ToolUseStatusDeclined"
  "ToolUseStatusFailed \<noteq> ToolUseStatusProposed" "ToolUseStatusFailed \<noteq> ToolUseStatusAuthorized" "ToolUseStatusFailed \<noteq> ToolUseStatusStarted" "ToolUseStatusFailed \<noteq> ToolUseStatusCompleted" "ToolUseStatusFailed \<noteq> ToolUseStatusInterrupted" "ToolUseStatusFailed \<noteq> ToolUseStatusDeclined"
  "ToolUseStatusInterrupted \<noteq> ToolUseStatusProposed" "ToolUseStatusInterrupted \<noteq> ToolUseStatusAuthorized" "ToolUseStatusInterrupted \<noteq> ToolUseStatusStarted" "ToolUseStatusInterrupted \<noteq> ToolUseStatusCompleted" "ToolUseStatusInterrupted \<noteq> ToolUseStatusFailed" "ToolUseStatusInterrupted \<noteq> ToolUseStatusDeclined"
  "ToolUseStatusDeclined \<noteq> ToolUseStatusProposed" "ToolUseStatusDeclined \<noteq> ToolUseStatusAuthorized" "ToolUseStatusDeclined \<noteq> ToolUseStatusStarted" "ToolUseStatusDeclined \<noteq> ToolUseStatusCompleted" "ToolUseStatusDeclined \<noteq> ToolUseStatusFailed" "ToolUseStatusDeclined \<noteq> ToolUseStatusInterrupted"
  "ToolUseStatusProposed \<noteq> []" "ToolUseStatusAuthorized \<noteq> []" "ToolUseStatusStarted \<noteq> []" "ToolUseStatusCompleted \<noteq> []" "ToolUseStatusFailed \<noteq> []" "ToolUseStatusInterrupted \<noteq> []" "ToolUseStatusDeclined \<noteq> []"
  "[] \<noteq> ToolUseStatusProposed" "[] \<noteq> ToolUseStatusAuthorized" "[] \<noteq> ToolUseStatusStarted" "[] \<noteq> ToolUseStatusCompleted" "[] \<noteq> ToolUseStatusFailed" "[] \<noteq> ToolUseStatusInterrupted" "[] \<noteq> ToolUseStatusDeclined"
  by (simp_all add: tool_status_defs)

definition PermissionRequestStatusPending :: string where "PermissionRequestStatusPending = ''pending''"
definition PermissionRequestStatusApproved :: string where "PermissionRequestStatusApproved = ''approved''"
definition PermissionRequestStatusRejected :: string where "PermissionRequestStatusRejected = ''rejected''"
definition PermissionRequestStatusTimedOut :: string where "PermissionRequestStatusTimedOut = ''timed_out''"
definition PermissionRequestStatusInterrupted :: string where "PermissionRequestStatusInterrupted = ''interrupted''"

lemmas request_status_defs = PermissionRequestStatusPending_def
  PermissionRequestStatusApproved_def
  PermissionRequestStatusRejected_def
  PermissionRequestStatusTimedOut_def
  PermissionRequestStatusInterrupted_def

lemma request_status_distinct [simp]:
  "PermissionRequestStatusPending \<noteq> PermissionRequestStatusApproved" "PermissionRequestStatusPending \<noteq> PermissionRequestStatusRejected" "PermissionRequestStatusPending \<noteq> PermissionRequestStatusTimedOut" "PermissionRequestStatusPending \<noteq> PermissionRequestStatusInterrupted"
  "PermissionRequestStatusApproved \<noteq> PermissionRequestStatusPending" "PermissionRequestStatusApproved \<noteq> PermissionRequestStatusRejected" "PermissionRequestStatusApproved \<noteq> PermissionRequestStatusTimedOut" "PermissionRequestStatusApproved \<noteq> PermissionRequestStatusInterrupted"
  "PermissionRequestStatusRejected \<noteq> PermissionRequestStatusPending" "PermissionRequestStatusRejected \<noteq> PermissionRequestStatusApproved" "PermissionRequestStatusRejected \<noteq> PermissionRequestStatusTimedOut" "PermissionRequestStatusRejected \<noteq> PermissionRequestStatusInterrupted"
  "PermissionRequestStatusTimedOut \<noteq> PermissionRequestStatusPending" "PermissionRequestStatusTimedOut \<noteq> PermissionRequestStatusApproved" "PermissionRequestStatusTimedOut \<noteq> PermissionRequestStatusRejected" "PermissionRequestStatusTimedOut \<noteq> PermissionRequestStatusInterrupted"
  "PermissionRequestStatusInterrupted \<noteq> PermissionRequestStatusPending" "PermissionRequestStatusInterrupted \<noteq> PermissionRequestStatusApproved" "PermissionRequestStatusInterrupted \<noteq> PermissionRequestStatusRejected" "PermissionRequestStatusInterrupted \<noteq> PermissionRequestStatusTimedOut"
  "PermissionRequestStatusPending \<noteq> []" "PermissionRequestStatusApproved \<noteq> []" "PermissionRequestStatusRejected \<noteq> []" "PermissionRequestStatusTimedOut \<noteq> []" "PermissionRequestStatusInterrupted \<noteq> []"
  "[] \<noteq> PermissionRequestStatusPending" "[] \<noteq> PermissionRequestStatusApproved" "[] \<noteq> PermissionRequestStatusRejected" "[] \<noteq> PermissionRequestStatusTimedOut" "[] \<noteq> PermissionRequestStatusInterrupted"
  by (simp_all add: request_status_defs)

definition PermissionResponseOnce :: string where "PermissionResponseOnce = ''once''"
definition PermissionResponseAlways :: string where "PermissionResponseAlways = ''always''"
definition PermissionResponseReject :: string where "PermissionResponseReject = ''reject''"

lemmas response_defs = PermissionResponseOnce_def
  PermissionResponseAlways_def
  PermissionResponseReject_def

lemma response_distinct [simp]:
  "PermissionResponseOnce \<noteq> PermissionResponseAlways" "PermissionResponseOnce \<noteq> PermissionResponseReject"
  "PermissionResponseAlways \<noteq> PermissionResponseOnce" "PermissionResponseAlways \<noteq> PermissionResponseReject"
  "PermissionResponseReject \<noteq> PermissionResponseOnce" "PermissionResponseReject \<noteq> PermissionResponseAlways"
  "PermissionResponseOnce \<noteq> []" "PermissionResponseAlways \<noteq> []" "PermissionResponseReject \<noteq> []"
  "[] \<noteq> PermissionResponseOnce" "[] \<noteq> PermissionResponseAlways" "[] \<noteq> PermissionResponseReject"
  by (simp_all add: response_defs)

definition ModelCallStatusStarted :: string where "ModelCallStatusStarted = ''started''"
definition ModelCallStatusCompleted :: string where "ModelCallStatusCompleted = ''completed''"
definition ModelCallStatusFailed :: string where "ModelCallStatusFailed = ''failed''"
definition ModelCallStatusAborted :: string where "ModelCallStatusAborted = ''aborted''"

lemmas call_status_defs = ModelCallStatusStarted_def
  ModelCallStatusCompleted_def
  ModelCallStatusFailed_def
  ModelCallStatusAborted_def

lemma call_status_distinct [simp]:
  "ModelCallStatusStarted \<noteq> ModelCallStatusCompleted" "ModelCallStatusStarted \<noteq> ModelCallStatusFailed" "ModelCallStatusStarted \<noteq> ModelCallStatusAborted"
  "ModelCallStatusCompleted \<noteq> ModelCallStatusStarted" "ModelCallStatusCompleted \<noteq> ModelCallStatusFailed" "ModelCallStatusCompleted \<noteq> ModelCallStatusAborted"
  "ModelCallStatusFailed \<noteq> ModelCallStatusStarted" "ModelCallStatusFailed \<noteq> ModelCallStatusCompleted" "ModelCallStatusFailed \<noteq> ModelCallStatusAborted"
  "ModelCallStatusAborted \<noteq> ModelCallStatusStarted" "ModelCallStatusAborted \<noteq> ModelCallStatusCompleted" "ModelCallStatusAborted \<noteq> ModelCallStatusFailed"
  "ModelCallStatusStarted \<noteq> []" "ModelCallStatusCompleted \<noteq> []" "ModelCallStatusFailed \<noteq> []" "ModelCallStatusAborted \<noteq> []"
  "[] \<noteq> ModelCallStatusStarted" "[] \<noteq> ModelCallStatusCompleted" "[] \<noteq> ModelCallStatusFailed" "[] \<noteq> ModelCallStatusAborted"
  by (simp_all add: call_status_defs)

definition EventSessionCreated :: string where "EventSessionCreated = ''session.created''"
definition EventSessionRenamed :: string where "EventSessionRenamed = ''session.renamed''"
definition EventSessionMoved :: string where "EventSessionMoved = ''session.moved''"
definition EventSessionRunAdmitted :: string where "EventSessionRunAdmitted = ''session.run.admitted''"
definition EventSessionRunStarted :: string where "EventSessionRunStarted = ''session.run.started''"
definition EventSessionRunCompleted :: string where "EventSessionRunCompleted = ''session.run.completed''"
definition EventSessionRunFailed :: string where "EventSessionRunFailed = ''session.run.failed''"
definition EventSessionRunAborted :: string where "EventSessionRunAborted = ''session.run.aborted''"
definition EventSessionMessageSaved :: string where "EventSessionMessageSaved = ''session.message.saved''"
definition EventSessionModelCallSaved :: string where "EventSessionModelCallSaved = ''session.model_call.saved''"
definition EventSessionToolUseSaved :: string where "EventSessionToolUseSaved = ''session.tool_use.saved''"
definition EventSessionPermissionRequested :: string where "EventSessionPermissionRequested = ''session.permission.requested''"
definition EventSessionPermissionResolved :: string where "EventSessionPermissionResolved = ''session.permission.resolved''"
definition EventSessionPermissionGrantCreated :: string where "EventSessionPermissionGrantCreated = ''session.permission_grant.created''"

lemmas event_type_defs = EventSessionCreated_def
  EventSessionRenamed_def
  EventSessionMoved_def
  EventSessionRunAdmitted_def
  EventSessionRunStarted_def
  EventSessionRunCompleted_def
  EventSessionRunFailed_def
  EventSessionRunAborted_def
  EventSessionMessageSaved_def
  EventSessionModelCallSaved_def
  EventSessionToolUseSaved_def
  EventSessionPermissionRequested_def
  EventSessionPermissionResolved_def
  EventSessionPermissionGrantCreated_def

lemma event_type_distinct [simp]:
  "EventSessionCreated \<noteq> EventSessionRenamed" "EventSessionCreated \<noteq> EventSessionMoved" "EventSessionCreated \<noteq> EventSessionRunAdmitted" "EventSessionCreated \<noteq> EventSessionRunStarted" "EventSessionCreated \<noteq> EventSessionRunCompleted" "EventSessionCreated \<noteq> EventSessionRunFailed" "EventSessionCreated \<noteq> EventSessionRunAborted" "EventSessionCreated \<noteq> EventSessionMessageSaved" "EventSessionCreated \<noteq> EventSessionModelCallSaved" "EventSessionCreated \<noteq> EventSessionToolUseSaved" "EventSessionCreated \<noteq> EventSessionPermissionRequested" "EventSessionCreated \<noteq> EventSessionPermissionResolved" "EventSessionCreated \<noteq> EventSessionPermissionGrantCreated"
  "EventSessionRenamed \<noteq> EventSessionCreated" "EventSessionRenamed \<noteq> EventSessionMoved" "EventSessionRenamed \<noteq> EventSessionRunAdmitted" "EventSessionRenamed \<noteq> EventSessionRunStarted" "EventSessionRenamed \<noteq> EventSessionRunCompleted" "EventSessionRenamed \<noteq> EventSessionRunFailed" "EventSessionRenamed \<noteq> EventSessionRunAborted" "EventSessionRenamed \<noteq> EventSessionMessageSaved" "EventSessionRenamed \<noteq> EventSessionModelCallSaved" "EventSessionRenamed \<noteq> EventSessionToolUseSaved" "EventSessionRenamed \<noteq> EventSessionPermissionRequested" "EventSessionRenamed \<noteq> EventSessionPermissionResolved" "EventSessionRenamed \<noteq> EventSessionPermissionGrantCreated"
  "EventSessionMoved \<noteq> EventSessionCreated" "EventSessionMoved \<noteq> EventSessionRenamed" "EventSessionMoved \<noteq> EventSessionRunAdmitted" "EventSessionMoved \<noteq> EventSessionRunStarted" "EventSessionMoved \<noteq> EventSessionRunCompleted" "EventSessionMoved \<noteq> EventSessionRunFailed" "EventSessionMoved \<noteq> EventSessionRunAborted" "EventSessionMoved \<noteq> EventSessionMessageSaved" "EventSessionMoved \<noteq> EventSessionModelCallSaved" "EventSessionMoved \<noteq> EventSessionToolUseSaved" "EventSessionMoved \<noteq> EventSessionPermissionRequested" "EventSessionMoved \<noteq> EventSessionPermissionResolved" "EventSessionMoved \<noteq> EventSessionPermissionGrantCreated"
  "EventSessionRunAdmitted \<noteq> EventSessionCreated" "EventSessionRunAdmitted \<noteq> EventSessionRenamed" "EventSessionRunAdmitted \<noteq> EventSessionMoved" "EventSessionRunAdmitted \<noteq> EventSessionRunStarted" "EventSessionRunAdmitted \<noteq> EventSessionRunCompleted" "EventSessionRunAdmitted \<noteq> EventSessionRunFailed" "EventSessionRunAdmitted \<noteq> EventSessionRunAborted" "EventSessionRunAdmitted \<noteq> EventSessionMessageSaved" "EventSessionRunAdmitted \<noteq> EventSessionModelCallSaved" "EventSessionRunAdmitted \<noteq> EventSessionToolUseSaved" "EventSessionRunAdmitted \<noteq> EventSessionPermissionRequested" "EventSessionRunAdmitted \<noteq> EventSessionPermissionResolved" "EventSessionRunAdmitted \<noteq> EventSessionPermissionGrantCreated"
  "EventSessionRunStarted \<noteq> EventSessionCreated" "EventSessionRunStarted \<noteq> EventSessionRenamed" "EventSessionRunStarted \<noteq> EventSessionMoved" "EventSessionRunStarted \<noteq> EventSessionRunAdmitted" "EventSessionRunStarted \<noteq> EventSessionRunCompleted" "EventSessionRunStarted \<noteq> EventSessionRunFailed" "EventSessionRunStarted \<noteq> EventSessionRunAborted" "EventSessionRunStarted \<noteq> EventSessionMessageSaved" "EventSessionRunStarted \<noteq> EventSessionModelCallSaved" "EventSessionRunStarted \<noteq> EventSessionToolUseSaved" "EventSessionRunStarted \<noteq> EventSessionPermissionRequested" "EventSessionRunStarted \<noteq> EventSessionPermissionResolved" "EventSessionRunStarted \<noteq> EventSessionPermissionGrantCreated"
  "EventSessionRunCompleted \<noteq> EventSessionCreated" "EventSessionRunCompleted \<noteq> EventSessionRenamed" "EventSessionRunCompleted \<noteq> EventSessionMoved" "EventSessionRunCompleted \<noteq> EventSessionRunAdmitted" "EventSessionRunCompleted \<noteq> EventSessionRunStarted" "EventSessionRunCompleted \<noteq> EventSessionRunFailed" "EventSessionRunCompleted \<noteq> EventSessionRunAborted" "EventSessionRunCompleted \<noteq> EventSessionMessageSaved" "EventSessionRunCompleted \<noteq> EventSessionModelCallSaved" "EventSessionRunCompleted \<noteq> EventSessionToolUseSaved" "EventSessionRunCompleted \<noteq> EventSessionPermissionRequested" "EventSessionRunCompleted \<noteq> EventSessionPermissionResolved" "EventSessionRunCompleted \<noteq> EventSessionPermissionGrantCreated"
  "EventSessionRunFailed \<noteq> EventSessionCreated" "EventSessionRunFailed \<noteq> EventSessionRenamed" "EventSessionRunFailed \<noteq> EventSessionMoved" "EventSessionRunFailed \<noteq> EventSessionRunAdmitted" "EventSessionRunFailed \<noteq> EventSessionRunStarted" "EventSessionRunFailed \<noteq> EventSessionRunCompleted" "EventSessionRunFailed \<noteq> EventSessionRunAborted" "EventSessionRunFailed \<noteq> EventSessionMessageSaved" "EventSessionRunFailed \<noteq> EventSessionModelCallSaved" "EventSessionRunFailed \<noteq> EventSessionToolUseSaved" "EventSessionRunFailed \<noteq> EventSessionPermissionRequested" "EventSessionRunFailed \<noteq> EventSessionPermissionResolved" "EventSessionRunFailed \<noteq> EventSessionPermissionGrantCreated"
  "EventSessionRunAborted \<noteq> EventSessionCreated" "EventSessionRunAborted \<noteq> EventSessionRenamed" "EventSessionRunAborted \<noteq> EventSessionMoved" "EventSessionRunAborted \<noteq> EventSessionRunAdmitted" "EventSessionRunAborted \<noteq> EventSessionRunStarted" "EventSessionRunAborted \<noteq> EventSessionRunCompleted" "EventSessionRunAborted \<noteq> EventSessionRunFailed" "EventSessionRunAborted \<noteq> EventSessionMessageSaved" "EventSessionRunAborted \<noteq> EventSessionModelCallSaved" "EventSessionRunAborted \<noteq> EventSessionToolUseSaved" "EventSessionRunAborted \<noteq> EventSessionPermissionRequested" "EventSessionRunAborted \<noteq> EventSessionPermissionResolved" "EventSessionRunAborted \<noteq> EventSessionPermissionGrantCreated"
  "EventSessionMessageSaved \<noteq> EventSessionCreated" "EventSessionMessageSaved \<noteq> EventSessionRenamed" "EventSessionMessageSaved \<noteq> EventSessionMoved" "EventSessionMessageSaved \<noteq> EventSessionRunAdmitted" "EventSessionMessageSaved \<noteq> EventSessionRunStarted" "EventSessionMessageSaved \<noteq> EventSessionRunCompleted" "EventSessionMessageSaved \<noteq> EventSessionRunFailed" "EventSessionMessageSaved \<noteq> EventSessionRunAborted" "EventSessionMessageSaved \<noteq> EventSessionModelCallSaved" "EventSessionMessageSaved \<noteq> EventSessionToolUseSaved" "EventSessionMessageSaved \<noteq> EventSessionPermissionRequested" "EventSessionMessageSaved \<noteq> EventSessionPermissionResolved" "EventSessionMessageSaved \<noteq> EventSessionPermissionGrantCreated"
  "EventSessionModelCallSaved \<noteq> EventSessionCreated" "EventSessionModelCallSaved \<noteq> EventSessionRenamed" "EventSessionModelCallSaved \<noteq> EventSessionMoved" "EventSessionModelCallSaved \<noteq> EventSessionRunAdmitted" "EventSessionModelCallSaved \<noteq> EventSessionRunStarted" "EventSessionModelCallSaved \<noteq> EventSessionRunCompleted" "EventSessionModelCallSaved \<noteq> EventSessionRunFailed" "EventSessionModelCallSaved \<noteq> EventSessionRunAborted" "EventSessionModelCallSaved \<noteq> EventSessionMessageSaved" "EventSessionModelCallSaved \<noteq> EventSessionToolUseSaved" "EventSessionModelCallSaved \<noteq> EventSessionPermissionRequested" "EventSessionModelCallSaved \<noteq> EventSessionPermissionResolved" "EventSessionModelCallSaved \<noteq> EventSessionPermissionGrantCreated"
  "EventSessionToolUseSaved \<noteq> EventSessionCreated" "EventSessionToolUseSaved \<noteq> EventSessionRenamed" "EventSessionToolUseSaved \<noteq> EventSessionMoved" "EventSessionToolUseSaved \<noteq> EventSessionRunAdmitted" "EventSessionToolUseSaved \<noteq> EventSessionRunStarted" "EventSessionToolUseSaved \<noteq> EventSessionRunCompleted" "EventSessionToolUseSaved \<noteq> EventSessionRunFailed" "EventSessionToolUseSaved \<noteq> EventSessionRunAborted" "EventSessionToolUseSaved \<noteq> EventSessionMessageSaved" "EventSessionToolUseSaved \<noteq> EventSessionModelCallSaved" "EventSessionToolUseSaved \<noteq> EventSessionPermissionRequested" "EventSessionToolUseSaved \<noteq> EventSessionPermissionResolved" "EventSessionToolUseSaved \<noteq> EventSessionPermissionGrantCreated"
  "EventSessionPermissionRequested \<noteq> EventSessionCreated" "EventSessionPermissionRequested \<noteq> EventSessionRenamed" "EventSessionPermissionRequested \<noteq> EventSessionMoved" "EventSessionPermissionRequested \<noteq> EventSessionRunAdmitted" "EventSessionPermissionRequested \<noteq> EventSessionRunStarted" "EventSessionPermissionRequested \<noteq> EventSessionRunCompleted" "EventSessionPermissionRequested \<noteq> EventSessionRunFailed" "EventSessionPermissionRequested \<noteq> EventSessionRunAborted" "EventSessionPermissionRequested \<noteq> EventSessionMessageSaved" "EventSessionPermissionRequested \<noteq> EventSessionModelCallSaved" "EventSessionPermissionRequested \<noteq> EventSessionToolUseSaved" "EventSessionPermissionRequested \<noteq> EventSessionPermissionResolved" "EventSessionPermissionRequested \<noteq> EventSessionPermissionGrantCreated"
  "EventSessionPermissionResolved \<noteq> EventSessionCreated" "EventSessionPermissionResolved \<noteq> EventSessionRenamed" "EventSessionPermissionResolved \<noteq> EventSessionMoved" "EventSessionPermissionResolved \<noteq> EventSessionRunAdmitted" "EventSessionPermissionResolved \<noteq> EventSessionRunStarted" "EventSessionPermissionResolved \<noteq> EventSessionRunCompleted" "EventSessionPermissionResolved \<noteq> EventSessionRunFailed" "EventSessionPermissionResolved \<noteq> EventSessionRunAborted" "EventSessionPermissionResolved \<noteq> EventSessionMessageSaved" "EventSessionPermissionResolved \<noteq> EventSessionModelCallSaved" "EventSessionPermissionResolved \<noteq> EventSessionToolUseSaved" "EventSessionPermissionResolved \<noteq> EventSessionPermissionRequested" "EventSessionPermissionResolved \<noteq> EventSessionPermissionGrantCreated"
  "EventSessionPermissionGrantCreated \<noteq> EventSessionCreated" "EventSessionPermissionGrantCreated \<noteq> EventSessionRenamed" "EventSessionPermissionGrantCreated \<noteq> EventSessionMoved" "EventSessionPermissionGrantCreated \<noteq> EventSessionRunAdmitted" "EventSessionPermissionGrantCreated \<noteq> EventSessionRunStarted" "EventSessionPermissionGrantCreated \<noteq> EventSessionRunCompleted" "EventSessionPermissionGrantCreated \<noteq> EventSessionRunFailed" "EventSessionPermissionGrantCreated \<noteq> EventSessionRunAborted" "EventSessionPermissionGrantCreated \<noteq> EventSessionMessageSaved" "EventSessionPermissionGrantCreated \<noteq> EventSessionModelCallSaved" "EventSessionPermissionGrantCreated \<noteq> EventSessionToolUseSaved" "EventSessionPermissionGrantCreated \<noteq> EventSessionPermissionRequested" "EventSessionPermissionGrantCreated \<noteq> EventSessionPermissionResolved"
  "EventSessionCreated \<noteq> []" "EventSessionRenamed \<noteq> []" "EventSessionMoved \<noteq> []" "EventSessionRunAdmitted \<noteq> []" "EventSessionRunStarted \<noteq> []" "EventSessionRunCompleted \<noteq> []" "EventSessionRunFailed \<noteq> []" "EventSessionRunAborted \<noteq> []" "EventSessionMessageSaved \<noteq> []" "EventSessionModelCallSaved \<noteq> []" "EventSessionToolUseSaved \<noteq> []" "EventSessionPermissionRequested \<noteq> []" "EventSessionPermissionResolved \<noteq> []" "EventSessionPermissionGrantCreated \<noteq> []"
  "[] \<noteq> EventSessionCreated" "[] \<noteq> EventSessionRenamed" "[] \<noteq> EventSessionMoved" "[] \<noteq> EventSessionRunAdmitted" "[] \<noteq> EventSessionRunStarted" "[] \<noteq> EventSessionRunCompleted" "[] \<noteq> EventSessionRunFailed" "[] \<noteq> EventSessionRunAborted" "[] \<noteq> EventSessionMessageSaved" "[] \<noteq> EventSessionModelCallSaved" "[] \<noteq> EventSessionToolUseSaved" "[] \<noteq> EventSessionPermissionRequested" "[] \<noteq> EventSessionPermissionResolved" "[] \<noteq> EventSessionPermissionGrantCreated"
  by (simp_all add: event_type_defs)

section \<open>Records\<close>

text \<open>The session, an aggregate event and the events streamed to clients.\<close>

record session =
  ses_ID :: string
  ses_Title :: string
  ses_WorkDir :: string
  ses_WorkspaceID :: string
  ses_ClientID :: string
  ses_CreatedAt :: string
  ses_UpdatedAt :: string
  ses_AggregateVersion :: int

record aggregate_ref =
  ref_Type :: string
  ref_ID :: string

definition AggregateSession :: string where "AggregateSession = ''session''"

definition session_ref :: "string \<Rightarrow> aggregate_ref" where
  "session_ref sid = \<lparr>ref_Type = AggregateSession, ref_ID = sid\<rparr>"

lemma session_ref_simps [simp]:
  "ref_Type (session_ref sid) = AggregateSession" "ref_ID (session_ref sid) = sid"
  "session_ref a = session_ref b \<longleftrightarrow> a = b"
  by (auto simp: session_ref_def)

lemma session_ref_surj: "ref_Type r = AggregateSession \<Longrightarrow> r = session_ref (ref_ID r)"
  by (simp add: session_ref_def)

record aggregate_event =
  agg_GlobalSequence :: int
  agg_ID :: string
  agg_Aggregate :: aggregate_ref
  agg_Version :: int
  agg_Type :: string
  agg_SchemaVersion :: int
  agg_Time :: time
  agg_Data :: json
  agg_CausationID :: string
  agg_CorrelationID :: string
  agg_ClientID :: string
  agg_RunID :: string

record session_event =
  evt_ID :: string
  evt_SchemaVersion :: int
  evt_Type :: string
  evt_Time :: time
  evt_SessionID :: string
  evt_Seq :: int
  evt_DataJSON :: "json option"
  evt_Data :: "json option"

record client =
  cli_ID :: string
  cli_Name :: string
  cli_CreatedAt :: string

record workspace =
  wsp_ID :: string
  wsp_Name :: string
  wsp_Path :: string
  wsp_ClientID :: string
  wsp_CreatedAt :: string
  wsp_UpdatedAt :: string

record auth_credential =
  cred_Type :: string
  cred_Key :: string
  cred_Access :: string
  cred_Refresh :: string
  cred_ExpiresAt :: int
  cred_AccountID :: string

record auth =
  auth_Providers :: "(string, auth_credential) gomap"
  auth_UpdatedAt :: string

text \<open>Agents, runs, messages and their parts, model calls, tool uses, permissions.\<close>

record agent =
  agt_ID :: string
  agt_Name :: string
  agt_Instructions :: string
  agt_Tools :: "string list"
  agt_Permissions :: ruleset
  agt_ModelRef :: string
  agt_Options :: members
  agt_OutputSchema :: members
  agt_CreatedAt :: string
  agt_UpdatedAt :: string

record session_run =
  run_ID :: string
  run_SessionID :: string
  run_RequestID :: string
  run_RequestHash :: string
  run_AdmittedVersion :: int
  run_WorkDir :: string
  run_WorkspaceID :: string
  run_ClientID :: string
  run_Sequence :: int
  run_Status :: string
  run_Message :: string
  run_Agent :: agent
  run_OutputSchemaJSON :: bytes
  run_ErrorType :: string
  run_ErrorMessage :: string
  run_CreatedAt :: time
  run_StartedAt :: time
  run_CompletedAt :: time
  run_UpdatedAt :: time

record stored_part =
  prt_ID :: string
  prt_MessageID :: string
  prt_Sequence :: int
  prt_Kind :: string
  prt_PayloadJSON :: bytes
  prt_CreatedAt :: time
  prt_UpdatedAt :: time

record stored_message =
  msg_ID :: string
  msg_SessionID :: string
  msg_RunID :: string
  msg_Idx :: int
  msg_Role :: string
  msg_Revision :: int
  msg_State :: string
  msg_MetadataJSON :: bytes
  msg_CreatedAt :: time
  msg_UpdatedAt :: time
  msg_Parts :: "stored_part list"

record model_call =
  mcl_ID :: string
  mcl_SessionID :: string
  mcl_RunID :: string
  mcl_AssistantMessageID :: string
  mcl_Step :: int
  mcl_Attempt :: int
  mcl_Status :: string
  mcl_AgentID :: string
  mcl_ModelRef :: string
  mcl_Provider :: string
  mcl_ProviderRequestID :: string
  mcl_API :: string
  mcl_ModelID :: string
  mcl_FinishReason :: string
  mcl_StopReason :: string
  mcl_ErrorType :: string
  mcl_ErrorMessage :: string
  mcl_InputTokens :: int
  mcl_OutputTokens :: int
  mcl_ReasoningTokens :: int
  mcl_CachedInputTokens :: int
  mcl_CacheWriteTokens :: int
  mcl_TotalTokens :: int
  mcl_ContextTokens :: int
  mcl_ContextWindow :: int
  mcl_ContextPercent :: float64
  mcl_Cost :: "float64 option"
  mcl_StructuredOutputJSON :: bytes
  mcl_MetadataJSON :: bytes
  mcl_Trace :: bytes
  mcl_StartedAt :: time
  mcl_CompletedAt :: time
  mcl_CreatedAt :: time
  mcl_UpdatedAt :: time

record tool_use =
  tlu_ID :: string
  tlu_SessionID :: string
  tlu_RunID :: string
  tlu_ModelCallID :: string
  tlu_AssistantMessageID :: string
  tlu_PartID :: string
  tlu_Step :: int
  tlu_Ordinal :: int
  tlu_CallID :: string
  tlu_Name :: string
  tlu_Status :: string
  tlu_InputJSON :: bytes
  tlu_Output :: string
  tlu_StructuredJSON :: bytes
  tlu_MetadataJSON :: bytes
  tlu_ErrorType :: string
  tlu_ErrorMessage :: string
  tlu_ProposedAt :: time
  tlu_AuthorizedAt :: time
  tlu_StartedAt :: time
  tlu_CompletedAt :: time
  tlu_CreatedAt :: time
  tlu_UpdatedAt :: time

record permission_request =
  prq_ID :: string
  prq_SessionID :: string
  prq_RunID :: string
  prq_ToolUseID :: string
  prq_CallID :: string
  prq_Action :: string
  prq_Resources :: "string list"
  prq_Status :: string
  prq_Response :: string
  prq_ErrorType :: string
  prq_ErrorMessage :: string
  prq_CreatedAt :: time
  prq_ResolvedAt :: time
  prq_UpdatedAt :: time

record permission_grant =
  pgr_ID :: string
  pgr_SessionID :: string
  pgr_Action :: string
  pgr_Resource :: string
  pgr_CreatedAt :: time

record permission_resolution =
  rsl_SessionID :: string
  rsl_RequestID :: string
  rsl_ExpectedStatus :: string
  rsl_Status :: string
  rsl_Response :: string
  rsl_ErrorType :: string
  rsl_ErrorMessage :: string

record run_settlement =
  stl_ID :: string
  stl_ExpectedStatus :: string
  stl_Status :: string
  stl_ErrorType :: string
  stl_ErrorMessage :: string
  stl_EventData :: members

text \<open>The payload structs of the session's own events.\<close>

record created_data =
  crd_ID :: string
  crd_Title :: string
  crd_WorkDir :: string
  crd_WorkspaceID :: string
  crd_ClientID :: string
  crd_CreatedAt :: string
  crd_UpdatedAt :: string

record renamed_data =
  rnd_Title :: string
  rnd_UpdatedAt :: string

record moved_data =
  mvd_WorkDir :: string
  mvd_WorkspaceID :: string
  mvd_UpdatedAt :: string

section \<open>Transition tables\<close>

definition isSessionRunTerminal :: "string \<Rightarrow> bool" where
  "isSessionRunTerminal status \<longleftrightarrow> status = SessionRunStatusCompleted \<or> status = SessionRunStatusFailed
     \<or> status = SessionRunStatusAborted"

definition legalSessionRunSettlement :: "string \<Rightarrow> string \<Rightarrow> bool" where
  "legalSessionRunSettlement from_st to_st \<longleftrightarrow>
     (from_st = SessionRunStatusRunning \<and> isSessionRunTerminal to_st) \<or>
     (from_st = SessionRunStatusQueued \<and> to_st = SessionRunStatusAborted)"

definition legalProjectedRunTransition :: "string \<Rightarrow> string \<Rightarrow> bool" where
  "legalProjectedRunTransition from_st to_st \<longleftrightarrow>
     (from_st = SessionRunStatusQueued \<and> (to_st = SessionRunStatusRunning \<or> to_st = SessionRunStatusAborted)) \<or>
     (from_st = SessionRunStatusRunning \<and> isSessionRunTerminal to_st)"

definition legalToolUseTransition :: "string \<Rightarrow> string \<Rightarrow> bool" where
  "legalToolUseTransition from_st to_st =
     (if from_st = ToolUseStatusProposed then
        to_st = ToolUseStatusAuthorized \<or> to_st = ToolUseStatusDeclined \<or> to_st = ToolUseStatusFailed
          \<or> to_st = ToolUseStatusInterrupted
      else if from_st = ToolUseStatusAuthorized then
        to_st = ToolUseStatusStarted \<or> to_st = ToolUseStatusFailed \<or> to_st = ToolUseStatusInterrupted
      else if from_st = ToolUseStatusStarted then
        to_st = ToolUseStatusCompleted \<or> to_st = ToolUseStatusFailed \<or> to_st = ToolUseStatusInterrupted
      else False)"

definition isToolUseTerminal :: "string \<Rightarrow> bool" where
  "isToolUseTerminal status \<longleftrightarrow> status = ToolUseStatusCompleted \<or> status = ToolUseStatusFailed
     \<or> status = ToolUseStatusInterrupted \<or> status = ToolUseStatusDeclined"

definition legalPermissionResolution :: "string \<Rightarrow> string \<Rightarrow> bool" where
  "legalPermissionResolution status response =
     (if response = PermissionResponseOnce \<or> response = PermissionResponseAlways
        then status = PermissionRequestStatusApproved
      else if response = PermissionResponseReject then status = PermissionRequestStatusRejected
      else if response = '''' then
        status = PermissionRequestStatusTimedOut \<or> status = PermissionRequestStatusInterrupted
      else False)"

definition sameToolUseIdentity :: "tool_use \<Rightarrow> tool_use \<Rightarrow> bool" where
  "sameToolUseIdentity a b \<longleftrightarrow> tlu_SessionID a = tlu_SessionID b \<and> tlu_RunID a = tlu_RunID b
     \<and> tlu_ModelCallID a = tlu_ModelCallID b \<and> tlu_AssistantMessageID a = tlu_AssistantMessageID b
     \<and> tlu_PartID a = tlu_PartID b \<and> tlu_Step a = tlu_Step b \<and> tlu_Ordinal a = tlu_Ordinal b
     \<and> tlu_CallID a = tlu_CallID b \<and> tlu_Name a = tlu_Name b"

definition samePermissionRequestIdentity :: "permission_request \<Rightarrow> permission_request \<Rightarrow> bool" where
  "samePermissionRequestIdentity a b \<longleftrightarrow> prq_ID a = prq_ID b \<and> prq_SessionID a = prq_SessionID b
     \<and> prq_RunID a = prq_RunID b \<and> prq_ToolUseID a = prq_ToolUseID b \<and> prq_CallID a = prq_CallID b
     \<and> prq_Action a = prq_Action b \<and> prq_CreatedAt a = prq_CreatedAt b \<and> prq_Resources a = prq_Resources b"

lemma terminal_run_final:
  "isSessionRunTerminal s \<Longrightarrow> \<not> legalProjectedRunTransition s t"
  "isSessionRunTerminal s \<Longrightarrow> \<not> legalSessionRunSettlement s t"
  by (auto simp: isSessionRunTerminal_def legalProjectedRunTransition_def legalSessionRunSettlement_def)

lemma settlement_projected:
  "legalSessionRunSettlement s t \<Longrightarrow> legalProjectedRunTransition s t"
  by (auto simp: legalProjectedRunTransition_def legalSessionRunSettlement_def)

lemma terminal_tool_use_final: "isToolUseTerminal s \<Longrightarrow> \<not> legalToolUseTransition s t"
  by (auto simp: isToolUseTerminal_def legalToolUseTransition_def)

lemma tool_use_never_returns_to_proposed: "\<not> legalToolUseTransition s ToolUseStatusProposed"
  by (auto simp: legalToolUseTransition_def)

lemma resolution_not_pending: "legalPermissionResolution s r \<Longrightarrow> s \<noteq> PermissionRequestStatusPending"
  by (auto simp: legalPermissionResolution_def split: if_splits)

lemma sameToolUseIdentity_refl [simp]: "sameToolUseIdentity u u"
  by (simp add: sameToolUseIdentity_def)

end
