(* ===== verification/Tool_Protocol.thy ===== *)
theory Tool_Protocol
  imports Agent_Run Store_Models
begin

text \<open>
  The protocol of a tool use over a whole run: for every step and ordinal a watcher follows the
  questions the loop asks about that tool use.  The status it keeps is the one the store would have,
  and moves as the store's table \<open>legalToolUseTransition\<close> allows; a tool is executed once at most, after
  its start is recorded, on input that its schema accepts and that the permission rules or the user allow.
\<close>

section \<open>Programs that ask some questions only\<close>

primrec asks_only :: "(question \<Rightarrow> bool) \<Rightarrow> 'a program \<Rightarrow> bool" where
  "asks_only P (Return a) \<longleftrightarrow> True"
| "asks_only P Panic \<longleftrightarrow> True"
| "asks_only P (Ask q k) \<longleftrightarrow> P q \<and> (\<forall>r. asks_only P (k r))"

lemma asks_only_bind: "asks_only P p \<Longrightarrow> (\<And>a. asks_only P (f a)) \<Longrightarrow> asks_only P (bindP p f)"
  by (induction p) auto

lemma asks_only_ask [simp]: "asks_only P (ask q f) \<longleftrightarrow> P q"
  by (simp add: ask_def)

lemma asks_only_tell [simp]: "asks_only P (tell b q) \<longleftrightarrow> (b \<longrightarrow> P q)"
  by (simp add: tell_def)

lemma asks_only_emit_all: "(\<And>e. P (Emit e)) \<Longrightarrow> asks_only P (emit_all es)"
  by (induction es) (auto intro!: asks_only_bind simp: emit_def)

lemma asks_only_mapP: "(\<And>x. asks_only P (f x)) \<Longrightarrow> asks_only P (mapP f xs)"
  by (induction xs) (auto intro!: asks_only_bind)

lemma asks_only_case [intro!]:
  "(\<And>e. x = Inl e \<Longrightarrow> asks_only P (f e)) \<Longrightarrow> (\<And>y. x = Inr y \<Longrightarrow> asks_only P (g y)) \<Longrightarrow> asks_only P (case x of Inl e \<Rightarrow> f e | Inr y \<Rightarrow> g y)"
  "(z = None \<Longrightarrow> asks_only P p) \<Longrightarrow> (\<And>y. z = Some y \<Longrightarrow> asks_only P (h y)) \<Longrightarrow> asks_only P (case z of None \<Rightarrow> p | Some y \<Rightarrow> h y)"
  "(b \<Longrightarrow> asks_only P p') \<Longrightarrow> (\<not> b \<Longrightarrow> asks_only P p'') \<Longrightarrow> asks_only P (if b then p' else p'')"
  "(\<And>x y. xy = (x, y) \<Longrightarrow> asks_only P (k x y)) \<Longrightarrow> asks_only P (case xy of (x, y) \<Rightarrow> k x y)"
  by (auto split: sum.split option.split prod.split)

text \<open>A monitor ignores the questions it accepts without a change of state.\<close>

lemma wp_ignored:
  assumes "asks_only P p" "\<And>q r. P q \<Longrightarrow> accept s q r = Some s" "\<And>a. Q s a"
  shows "wp accept p s Q"
  using assms(1) by (induction p) (auto simp: assms(2,3))

section \<open>The watcher of a tool use\<close>

fun use_key_of :: "question \<Rightarrow> (int \<times> int) option" where
  \<comment> \<open>the step and ordinal of the tool use a question is about\<close>
  "use_key_of (ToolUse_Propose i) = Some (use_Step i, use_Ordinal i)"
| "use_key_of (ToolUse_Authorize i) = Some (use_Step i, use_Ordinal i)"
| "use_key_of (ToolUse_Start i) = Some (use_Step i, use_Ordinal i)"
| "use_key_of (ToolUse_Finish i) = Some (use_Step i, use_Ordinal i)"
| "use_key_of (Prompt_Permission i) = Some (use_Step i, use_Ordinal i)"
| "use_key_of (Execute_Tool call _) = Some (tcl_Step call, tcl_Ordinal call)"
| "use_key_of _ = None"

record use_watch =
  uwt_Status :: string  \<comment> \<open>empty before the proposal\<close>
  uwt_Approved :: bool  \<comment> \<open>the user has allowed it\<close>
  uwt_Executed :: bool
  uwt_Finished :: bool

definition unproposed :: use_watch where
  "unproposed = \<lparr>uwt_Status = '''', uwt_Approved = False, uwt_Executed = False, uwt_Finished = False\<rparr>"

definition allowed :: "config \<Rightarrow> tool_call \<Rightarrow> bool \<Rightarrow> bool" where
  \<comment> \<open>no rule denies what the call is about, and the user has approved it if a rule asks\<close>
  "allowed cfg call approved \<longleftrightarrow> cfg_Permissions cfg = [] \<or>
     (\<exists>action resources. permissionTarget call (cfg_WorkDir cfg) = Inr (action, resources) \<and>
       ('''' \<in> set resources \<or>
        (\<forall>resource \<in> set (if resources = [] then [''*''] else resources).
          let effect = dec_Effect (Evaluate action resource (cfg_Permissions cfg) EffectAllow) in
          effect \<noteq> EffectDeny \<and> (effect = EffectAsk \<longrightarrow> approved))))"

definition may_execute :: "run_lib \<Rightarrow> config \<Rightarrow> tool_call \<Rightarrow> bool \<Rightarrow> bool" where
  "may_execute R cfg call approved \<longleftrightarrow>
     (\<exists>t. tcl_Tool call = Some t \<and> validateToolInput R t (tcl_Args call) = None) \<and> allowed cfg call approved"

definition moved_to :: "string \<Rightarrow> answer \<Rightarrow> use_watch \<Rightarrow> use_watch" where
  \<comment> \<open>the status after a callback, which an error leaves as it was\<close>
  "moved_to status r s = (case error_answer r of None \<Rightarrow> s\<lparr>uwt_Status := status\<rparr> | Some _ \<Rightarrow> s)"

definition recorded :: "config \<Rightarrow> string \<Rightarrow> use_watch \<Rightarrow> bool" where
  "recorded cfg status s \<longleftrightarrow> (cfg_ToolUseLifecycle cfg \<longrightarrow> uwt_Status s = status) \<and> \<not> uwt_Executed s \<and> \<not> uwt_Finished s"

fun use_accept :: "run_lib \<Rightarrow> config \<Rightarrow> use_watch monitor" where
  "use_accept R cfg s (ToolUse_Propose i) r =
     (if recorded cfg '''' s
      then Some (case text_answer r of Inr u \<Rightarrow> if u = '''' then s else s\<lparr>uwt_Status := ToolUseStatusProposed\<rparr> | Inl _ \<Rightarrow> s) else None)"
| "use_accept R cfg s (Prompt_Permission i) r =
     (if recorded cfg ToolUseStatusProposed s
      then Some (s\<lparr>uwt_Approved := (text_answer r = Inr ResponseOnce \<or> text_answer r = Inr ResponseAlways)\<rparr>) else None)"
| "use_accept R cfg s (ToolUse_Authorize i) r =
     (if legalToolUseTransition (uwt_Status s) ToolUseStatusAuthorized \<and> \<not> uwt_Executed s \<and> \<not> uwt_Finished s
      then Some (moved_to ToolUseStatusAuthorized r s) else None)"
| "use_accept R cfg s (ToolUse_Start i) r =
     (if legalToolUseTransition (uwt_Status s) ToolUseStatusStarted \<and> \<not> uwt_Executed s \<and> \<not> uwt_Finished s
      then Some (moved_to ToolUseStatusStarted r s) else None)"
| "use_accept R cfg s (Execute_Tool call i) r =
     (if recorded cfg ToolUseStatusStarted s \<and> may_execute R cfg call (uwt_Approved s) \<and> inv_Input i = tcl_Args call
      then Some (s\<lparr>uwt_Executed := True\<rparr>) else None)"
| "use_accept R cfg s (ToolUse_Finish i) r =
     (if legalToolUseTransition (uwt_Status s) (fin_Status i) \<and> (fin_Status i = ToolUseStatusCompleted \<longrightarrow> uwt_Executed s)
        \<and> \<not> uwt_Finished s
      then Some ((moved_to (fin_Status i) r s)\<lparr>uwt_Finished := True\<rparr>) else None)"
| "use_accept R cfg s q r = Some s"

lemma use_keyless: "use_key_of q = None \<Longrightarrow> use_accept R cfg s q r = Some s"
  by (cases q) auto

interpretation uses: keyed_monitor use_key_of "use_accept R cfg" for R cfg
  by unfold_locales (rule use_keyless)

abbreviation watch_use :: "run_lib \<Rightarrow> config \<Rightarrow> int \<times> int \<Rightarrow> use_watch monitor" where
  "watch_use R cfg \<equiv> keyed_monitor.accept_own use_key_of (use_accept R cfg)"

abbreviation watch_uses :: "run_lib \<Rightarrow> config \<Rightarrow> (int \<times> int \<Rightarrow> use_watch) monitor" where
  "watch_uses R cfg \<equiv> keyed_monitor.accept_all use_key_of (use_accept R cfg)"

lemma watch_use_other [simp]: "use_key_of q = None \<Longrightarrow> watch_use R cfg i s q r = Some s"
  by (simp add: uses.accept_own_def)

lemma watch_use_own [simp]: "use_key_of q = Some i \<Longrightarrow> watch_use R cfg i s q r = use_accept R cfg s q r"
  by (simp add: uses.accept_own_def)

lemma watch_uses_other [simp]: "use_key_of q = None \<Longrightarrow> watch_uses R cfg m q r = Some m"
  by (simp add: uses.accept_all_def)

section \<open>Permission decisions\<close>

lemma decide_resources_sound:
  assumes "pdn_denyResource (decide_resources rules d rs) = ''''" "'''' \<notin> set rs" "resource \<in> set rs"
  shows "dec_Effect (Evaluate (pdn_action d) resource rules EffectAllow) \<noteq> EffectDeny
    \<and> (dec_Effect (Evaluate (pdn_action d) resource rules EffectAllow) = EffectAsk
        \<longrightarrow> pdn_askResources (decide_resources rules d rs) \<noteq> [])"
proof -
  have asks: "pdn_askResources d \<noteq> [] \<Longrightarrow> pdn_askResources (decide_resources rules d rs) \<noteq> []" for d rs
    by (induction rs arbitrary: d) (simp_all add: Let_def)
  show ?thesis using assms
  proof (induction rs arbitrary: d)
    case (Cons r rs)
    show ?case
    proof (cases "resource = r")
      case True
      then show ?thesis using Cons.prems by (auto simp: Let_def asks split: if_splits)
    next
      case False
      then show ?thesis using Cons.prems Cons.IH [of d] Cons.IH [of "d\<lparr>pdn_askResources := pdn_askResources d @ [r]\<rparr>"]
        by (auto simp: Let_def split: if_splits)
    qed
  qed simp
qed

lemma decide_resources_err [simp]: "pdn_err (decide_resources rules d rs) = pdn_err d"
  by (induction rs arbitrary: d) (simp_all add: Let_def)

lemma checkPermission_allowed:
  assumes "pdn_err (checkPermission cfg call) = None" "pdn_denyResource (checkPermission cfg call) = ''''"
    "pdn_askResources (checkPermission cfg call) = [] \<or> approved"
  shows "allowed cfg call approved"
proof (cases "cfg_Permissions cfg = []")
  case False
  then obtain a rs where t: "permissionTarget call (cfg_WorkDir cfg) = Inr (a, rs)"
    using assms(1) by (auto simp: checkPermission_def split: sum.splits)
  let ?d = "no_decision\<lparr>pdn_action := a\<rparr>" and ?rs = "if rs = [] then [''*''] else rs"
  have c: "checkPermission cfg call = decide_resources (cfg_Permissions cfg) ?d ?rs"
    using False t by (simp add: checkPermission_def)
  have "'''' \<in> set rs \<or> (\<forall>resource \<in> set ?rs. dec_Effect (Evaluate a resource (cfg_Permissions cfg) EffectAllow) \<noteq> EffectDeny
      \<and> (dec_Effect (Evaluate a resource (cfg_Permissions cfg) EffectAllow) = EffectAsk \<longrightarrow> approved))"
  proof (cases "'''' \<in> set ?rs")
    case True
    then show ?thesis by (auto split: if_splits)
  next
    case False
    have "resource \<in> set ?rs \<Longrightarrow> dec_Effect (Evaluate a resource (cfg_Permissions cfg) EffectAllow) \<noteq> EffectDeny
      \<and> (dec_Effect (Evaluate a resource (cfg_Permissions cfg) EffectAllow) = EffectAsk
          \<longrightarrow> pdn_askResources (checkPermission cfg call) \<noteq> [])" for resource
      using decide_resources_sound [OF _ False] assms(2) unfolding c by fastforce
    then show ?thesis using assms(3) by blast
  qed
  then show ?thesis using t unfolding allowed_def Let_def by blast
qed (simp add: allowed_def)

section \<open>One tool use\<close>

definition key_of :: "tool_call \<Rightarrow> int \<times> int" where
  "key_of call = (tcl_Step call, tcl_Ordinal call)"

lemma key_of_updates [simp]:
  "key_of (call\<lparr>tcl_Args := a\<rparr>) = key_of call" "key_of (call\<lparr>tcl_AuthorizedAt := t\<rparr>) = key_of call"
  "key_of (call\<lparr>tcl_StartedAt := t\<rparr>) = key_of call" "key_of (call\<lparr>tcl_ProposedAt := t, tcl_ToolUseID := u\<rparr>) = key_of call"
  by (simp_all add: key_of_def)

lemma use_info_simps [simp]:
  "use_Step (finish_info_of call t st res et msg e) = tcl_Step call"
  "use_Ordinal (finish_info_of call t st res et msg e) = tcl_Ordinal call"
  "fin_Status (finish_info_of call t st res et msg e) = st"
  "use_Step (use_info_of call t) = tcl_Step call" "use_Ordinal (use_info_of call t) = tcl_Ordinal call"
  "use_Step (permission_request_of call d) = tcl_Step call" "use_Ordinal (permission_request_of call d) = tcl_Ordinal call"
  "use_Step (toolUseAuthorizeInfo call t) = tcl_Step call" "use_Ordinal (toolUseAuthorizeInfo call t) = tcl_Ordinal call"
  "use_Step (toolUseStartInfo call t) = tcl_Step call" "use_Ordinal (toolUseStartInfo call t) = tcl_Ordinal call"
  by (simp_all add: finish_info_of_def use_info_of_def permission_request_of_def use_info.defs toolUseAuthorizeInfo_def
      toolUseStartInfo_def)

lemma use_status_simps [simp]:
  "ToolUseCompleted = ToolUseStatusCompleted" "ToolUseFailed = ToolUseStatusFailed"
  "ToolUseInterrupted = ToolUseStatusInterrupted" "ToolUseDeclined = ToolUseStatusDeclined"
  by (simp_all add: tool_use_defs ToolUseStatusCompleted_def ToolUseStatusFailed_def ToolUseStatusInterrupted_def
      ToolUseStatusDeclined_def)

definition settled_as :: "config \<Rightarrow> tool_call \<Rightarrow> use_watch \<Rightarrow> tool_result \<times> failure option \<Rightarrow> bool" where
  \<comment> \<open>what the execution of a call ends with\<close>
  "settled_as cfg call s out \<longleftrightarrow>
     (cfg_ToolUseLifecycle cfg \<longrightarrow> uwt_Finished s \<and> (snd out = None \<longrightarrow> uwt_Status s = trs_Status (fst out)))
     \<and> isToolUseTerminal (trs_Status (fst out)) \<and> trs_CallID (fst out) = tcl_ID call \<and> trs_Name (fst out) = tcl_Name call
     \<and> trs_ToolUseID (fst out) = tcl_ToolUseID call"

definition may_settle :: "config \<Rightarrow> string \<Rightarrow> use_watch \<Rightarrow> bool" where
  "may_settle cfg status s \<longleftrightarrow> isToolUseTerminal status \<and> \<not> uwt_Finished s \<and>
     (cfg_ToolUseLifecycle cfg \<longrightarrow> legalToolUseTransition (uwt_Status s) status \<and>
        legalToolUseTransition (uwt_Status s) ToolUseStatusFailed \<and> (status = ToolUseStatusCompleted \<longrightarrow> uwt_Executed s))"

definition of_call :: "tool_call \<Rightarrow> tool_result \<Rightarrow> bool" where
  "of_call call res \<longleftrightarrow> trs_CallID res = tcl_ID call \<and> trs_Name res = tcl_Name call \<and> trs_ToolUseID res = tcl_ToolUseID call"

lemma terminal_Failed [simp]: "isToolUseTerminal ToolUseStatusFailed"
  by (simp add: isToolUseTerminal_def)

lemma settle_watched:
  assumes "may_settle cfg status s" "of_call call res"
  shows "wp (watch_use R cfg (key_of call)) (settleToolUse cfg call res status errorType e) s (settled_as cfg call)"
proof -
  have "wp (watch_use R cfg (key_of call)) (runAfterToolCallResult cfg call res) s
     (\<lambda>s' (res', e'). s' = s \<and> of_call call res')"
    using assms(2) by (auto simp: runAfterToolCallResult_def of_call_def split: sum.split)
  then show ?thesis unfolding settleToolUse_def wp_bind
    by (rule wp_mono) (use assms(1) in \<open>auto simp: Let_def may_settle_def settled_as_def of_call_def emit_def now_def tell_def
          key_of_def moved_to_def split: option.split\<close>)
qed

lemma emit_watched [simp]: "wp (watch_use R cfg i) (emit e) s Q \<longleftrightarrow> Q s ()"
  by (simp add: emit_def)

lemma emit_all_watched [simp]: "wp (watch_use R cfg i) (emit_all es) s Q \<longleftrightarrow> Q s ()"
  by (induction es) simp_all

lemma now_watched [simp]: "wp (watch_use R cfg i) now s Q \<longleftrightarrow> (\<forall>t. Q s t)"
proof -
  have "(\<forall>r. Q s (number_answer r)) \<longleftrightarrow> (\<forall>t. Q s t)" by (metis number_answer.simps(1))
  then show ?thesis by (simp add: now_def)
qed

lemma settle_failure_watched:
  assumes "may_settle cfg status s" "of_call call res"
  shows "wp (watch_use R cfg (key_of call)) (settle_failure cfg call res status errorType cause e) s (settled_as cfg call)"
  unfolding settle_failure_def wp_bind
  by (rule wp_mono [OF settle_watched [OF assms]]) (auto simp: settled_as_def join_errors_Some)

lemma of_call_results [simp]:
  "of_call call (error_result call msg)" "of_call call (permission_result call eff action resource)"
  "of_call call (rejected_result call action resource)" "of_call call (executed_result call x d)"
  "of_call call (res\<lparr>trs_Error := msg\<rparr>) = of_call call res" "of_call call (res\<lparr>trs_Args := a\<rparr>) = of_call call res"
  "of_call call (res\<lparr>trs_Error := msg, trs_ErrorType := et, trs_IsError := b\<rparr>) = of_call call res"
  "of_call (call\<lparr>tcl_Args := a\<rparr>) res = of_call call res" "of_call (call\<lparr>tcl_AuthorizedAt := t\<rparr>) res = of_call call res"
  "of_call (call\<lparr>tcl_StartedAt := t\<rparr>) res = of_call call res"
  by (simp_all add: of_call_def error_result_def permission_result_def permissionToolResult_def rejected_result_def
      executed_result_def Let_def)

lemma error_result_updates [simp]: "error_result (call\<lparr>tcl_AuthorizedAt := t\<rparr>) msg = error_result call msg"
  by (simp add: error_result_def)

lemma settled_as_updates [simp]:
  "settled_as cfg (call\<lparr>tcl_Args := a\<rparr>) = settled_as cfg call"
  "settled_as cfg (call\<lparr>tcl_AuthorizedAt := t\<rparr>) = settled_as cfg call"
  "settled_as cfg (call\<lparr>tcl_StartedAt := t\<rparr>) = settled_as cfg call"
  by (auto simp: settled_as_def fun_eq_iff)

lemma may_execute_updates [simp]:
  "may_execute R cfg (call\<lparr>tcl_AuthorizedAt := t\<rparr>) b = may_execute R cfg call b"
  "may_execute R cfg (call\<lparr>tcl_StartedAt := t\<rparr>) b = may_execute R cfg call b"
proof -
  have "pathResources (call\<lparr>tcl_AuthorizedAt := t\<rparr>) w = pathResources call w"
    "pathResources (call\<lparr>tcl_StartedAt := t\<rparr>) w = pathResources call w" for w
    by (simp_all add: pathResources_def Let_def)
  then have "named_target (call\<lparr>tcl_AuthorizedAt := t\<rparr>) w = named_target call w"
    "named_target (call\<lparr>tcl_StartedAt := t\<rparr>) w = named_target call w" for w
    by (simp_all add: named_target_def Let_def)
  then have "permissionTarget (call\<lparr>tcl_AuthorizedAt := t\<rparr>) w = permissionTarget call w"
    "permissionTarget (call\<lparr>tcl_StartedAt := t\<rparr>) w = permissionTarget call w" for w
    by (simp_all add: permissionTarget_def bindE_def split: option.split sum.split prod.split)
  then show "may_execute R cfg (call\<lparr>tcl_AuthorizedAt := t\<rparr>) b = may_execute R cfg call b"
    "may_execute R cfg (call\<lparr>tcl_StartedAt := t\<rparr>) b = may_execute R cfg call b"
    by (simp_all add: may_execute_def allowed_def)
qed

lemma may_settle_Proposed:
  assumes "recorded cfg ToolUseStatusProposed s"
  shows "may_settle cfg ToolUseStatusFailed s" "may_settle cfg ToolUseStatusDeclined s" "may_settle cfg ToolUseStatusInterrupted s"
  using assms by (auto simp: may_settle_def recorded_def isToolUseTerminal_def legalToolUseTransition_def tool_status_defs)

lemma may_settle_Started:
  assumes "recorded cfg ToolUseStatusStarted s"
  shows "may_settle cfg ToolUseStatusFailed (s\<lparr>uwt_Executed := True\<rparr>)"
    "may_settle cfg ToolUseStatusCompleted (s\<lparr>uwt_Executed := True\<rparr>)"
    "may_settle cfg ToolUseStatusInterrupted (s\<lparr>uwt_Executed := True\<rparr>)"
  using assms by (auto simp: may_settle_def recorded_def isToolUseTerminal_def legalToolUseTransition_def tool_status_defs)

lemma execute_watched:
  assumes "recorded cfg ToolUseStatusStarted s" "may_execute R cfg call (uwt_Approved s)"
  shows "wp (watch_use R cfg (key_of call)) (execute_tool R cfg call t) s (settled_as cfg call)"
  unfolding execute_tool_def
  using assms
  by (auto simp: key_of_def [symmetric] invocation_of_def settle_execution_def Let_def
      intro!: settle_watched may_settle_Started split: option.split)

lemma authorize_watched:
  assumes "recorded cfg ToolUseStatusProposed s" "may_execute R cfg call (uwt_Approved s)"
  shows "wp (watch_use R cfg (key_of call)) (authorize_and_start R cfg call t) s (settled_as cfg call)"
proof (cases "cfg_ToolUseLifecycle cfg")
  case False
  then have "recorded cfg ToolUseStatusStarted s" using assms(1) by (simp add: recorded_def)
  then show ?thesis using False assms(2) by (simp add: authorize_and_start_def execute_watched)
next
  case True
  let ?a = "s\<lparr>uwt_Status := ToolUseStatusAuthorized\<rparr>"
  have s: "uwt_Status s = ToolUseStatusProposed" "\<not> uwt_Executed s" "\<not> uwt_Finished s"
    using assms(1) True by (auto simp: recorded_def)
  have legal: "legalToolUseTransition ToolUseStatusProposed ToolUseStatusAuthorized"
    "legalToolUseTransition ToolUseStatusAuthorized ToolUseStatusStarted"
    by (simp_all add: legalToolUseTransition_def tool_status_defs)
  have a: "may_settle cfg ToolUseStatusFailed ?a"
    using s by (simp add: may_settle_def isToolUseTerminal_def legalToolUseTransition_def tool_status_defs)
  have st: "recorded cfg ToolUseStatusStarted (?a\<lparr>uwt_Status := ToolUseStatusStarted\<rparr>)"
    using s by (simp add: recorded_def)
  have run: "wp (watch_use R cfg (key_of call)) (execute_tool R cfg (call\<lparr>tcl_AuthorizedAt := x, tcl_StartedAt := y\<rparr>) t)
      (?a\<lparr>uwt_Status := ToolUseStatusStarted\<rparr>) (settled_as cfg call)" for x y
    using execute_watched [OF st, where call = "call\<lparr>tcl_AuthorizedAt := x, tcl_StartedAt := y\<rparr>"] assms(2) by simp
  have fail: "wp (watch_use R cfg (key_of call)) (settle_failure cfg (call\<lparr>tcl_AuthorizedAt := x\<rparr>) (error_result (call\<lparr>tcl_AuthorizedAt := x\<rparr>) msg)
      ToolUseFailed et e e') ?a (settled_as cfg call)" for x msg et e e'
    using settle_failure_watched [OF a, where call = "call\<lparr>tcl_AuthorizedAt := x\<rparr>"] by simp
  show ?thesis unfolding authorize_and_start_def
    using s legal True may_settle_Proposed [OF assms(1)]
    by (auto simp: tell_def Let_def moved_to_def key_of_def [symmetric]
        intro!: settle_failure_watched fail [simplified] run [simplified] split: option.split)
qed

lemma prompt_failure_watched:
  assumes "recorded cfg ToolUseStatusProposed s"
  shows "wp (watch_use R cfg (key_of call)) (prompt_failure cfg call d e) s (settled_as cfg call)"
  unfolding prompt_failure_def is_interruption_def
  by (auto simp: Let_def intro!: settle_failure_watched may_settle_Proposed assms split: option.split)

lemma ask_permission_watched:
  assumes "recorded cfg ToolUseStatusProposed s" "\<And>b. b \<Longrightarrow> may_execute R cfg call b"
  shows "wp (watch_use R cfg (key_of call)) (ask_permission R cfg call t d) s (settled_as cfg call)"
proof -
  have rec: "recorded cfg ToolUseStatusProposed (s\<lparr>uwt_Approved := b\<rparr>)" for b
    using assms(1) by (simp add: recorded_def)
  note settle = settle_watched [OF may_settle_Proposed(2)]
  have auth: "wp (watch_use R cfg (key_of call)) (authorize_and_start R cfg call t) (s\<lparr>uwt_Approved := True\<rparr>) (settled_as cfg call)"
    using rec assms(2) by (intro authorize_watched) simp_all
  show ?thesis unfolding ask_permission_def
    using assms(1) auth rec
    by (auto simp: Let_def key_of_def [symmetric] intro!: settle prompt_failure_watched split: sum.split)
qed

lemma execute_call_watched:
  assumes "recorded cfg ToolUseStatusProposed s"
  shows "wp (watch_use R cfg (key_of call)) (execute_call R cfg call) s (settled_as cfg call)"
proof -
  note settle = settle_watched [OF may_settle_Proposed(2) [OF assms]]
  have ok: "may_execute R cfg call b"
    if "tcl_Tool call = Some t" "validateToolInput R t (tcl_Args call) = None" "pdn_err (checkPermission cfg call) = None"
      "pdn_denyResource (checkPermission cfg call) = ''''" "pdn_askResources (checkPermission cfg call) = [] \<or> b" for t b
    using checkPermission_allowed [OF that(3,4,5)] that(1,2) by (auto simp: may_execute_def)
  show ?thesis unfolding execute_call_def
    using assms
    by (auto simp: Let_def intro!: settle ask_permission_watched authorize_watched split: option.split)
      (auto intro: ok)
qed

lemma executeOne_watched:
  assumes "recorded cfg ToolUseStatusProposed s"
  shows "wp (watch_use R cfg (key_of call)) (executeOne R cfg call) s (settled_as cfg call)"
proof -
  have args: "wp (watch_use R cfg (key_of call)) (execute_call R cfg (call\<lparr>tcl_Args := a\<rparr>)) s (settled_as cfg call)" for a
    using execute_call_watched [OF assms, where call = "call\<lparr>tcl_Args := a\<rparr>"] by simp
  show ?thesis unfolding executeOne_def
    using execute_call_watched [OF assms] args
    by (auto simp: Let_def intro!: settle_watched settle_failure_watched may_settle_Proposed assms split: prod.split option.split)
qed

end
