(* ===== verification/Run_Protocol.thy ===== *)
theory Run_Protocol
  imports Tool_Protocol
begin

text \<open>
  The protocol of tool uses lifted from one call to a turn and to the whole run: the parts of the loop
  that ask nothing about a tool use, the proposals, the interruption of what was proposed, and the
  execution of a batch in sequence or under any interleaving.
\<close>

named_theorems quiet \<open>programs that ask nothing about a tool use\<close>

definition about_no_use :: "question \<Rightarrow> bool" where
  "about_no_use q \<longleftrightarrow> use_key_of q = None"

abbreviation silent :: "'a program \<Rightarrow> bool" where
  "silent \<equiv> asks_only about_no_use"

lemma about_no_use_simps [simp]:
  "about_no_use Ask_Context" "about_no_use Ask_Now" "about_no_use (Ask_Order n)" "about_no_use (Emit e)"
  "about_no_use (Hook_BeforeRun ms)" "about_no_use (Hook_AfterRun res e')" "about_no_use (Hook_OnTurnStart n)"
  "about_no_use (Hook_OnTurnEnd n t)" "about_no_use (Hook_TransformSystem str)" "about_no_use (Hook_TransformToolDefs n ds)"
  "about_no_use (Hook_TransformParams n)" "about_no_use (Hook_TransformHistory n ms u req)"
  "about_no_use (Hook_TransformContext n ms)" "about_no_use (Checkpoint_Save i m)" "about_no_use (Client_LoweredOptions req)"
  "about_no_use (Client_Stream req)" "about_no_use (Wait_Retry d)" "about_no_use (ModelCall_Start cs)"
  "about_no_use (ModelCall_Finish cf)"
  by (simp_all add: about_no_use_def)

lemma silent_basic [quiet]:
  "silent (emit e)" "silent (emitError f)" "silent now" "silent (emit_all es)"
  by (auto simp: emit_def emitError_def now_def intro: asks_only_emit_all)

lemma silent_checkpoint [quiet]: "silent (checkpoint cfg step m)"
  by (simp add: checkpoint_def)

lemma silent_retain [quiet]: "silent (retainFailedAssistant cfg r step m e)"
  by (auto simp: retainFailedAssistant_def intro!: asks_only_bind quiet)

lemma silent_finishModelCall [quiet]: "silent (settleModelCall cfg t a u e)" "silent (finishModelCall cfg t m u e f)"
  by (auto simp: settleModelCall_def finishModelCall_def intro!: asks_only_bind)

lemma silent_failed [quiet]: "silent (failed_turn cfg r t m e)" "silent (failed_call cfg r t m u b e)"
  by (auto simp: failed_turn_def failed_call_def Let_def intro!: asks_only_bind quiet)

lemma silent_waitRetry [quiet]: "silent (waitRetry d)"
  by (simp add: waitRetry_def)

lemma silent_attempts [quiet]: "silent (attempts cfg policy req trace r step m n)"
  by (induction n) (auto simp: Let_def intro!: asks_only_bind quiet)

lemma silent_drain_part [quiet]: "silent (drain_part cfg step part s)"
  by (auto simp: drain_part_def emit_part_def Let_def intro!: asks_only_bind quiet)

lemma silent_drain_stream [quiet]: "silent (drain_stream cfg step parts s)"
  by (induction parts arbitrary: s) (auto intro!: asks_only_bind quiet)

lemma silent_toolPartsFromResults [quiet]: "silent (toolPartsFromResults content results)"
proof -
  have "silent (part_from_results m p)" for m p
    by (cases p) (auto simp: settle_part_def intro!: asks_only_bind quiet)
  then show ?thesis by (simp add: toolPartsFromResults_def asks_only_mapP)
qed

lemma silent_finalizeToolTurn [quiet]: "silent (finalizeToolTurn cfg r t m results state e)"
  by (auto simp: finalizeToolTurn_def Let_def intro!: asks_only_bind quiet)

lemma silent_hooked [quiet]: "about_no_use q \<Longrightarrow> silent (hooked b q f x name)"
  by (simp add: hooked_def)

lemma silent_transforms [quiet]: "silent (transform_history cfg r step req)" "silent (transform_context cfg step ms)"
  by (auto simp: transform_history_def transform_context_def intro!: asks_only_bind quiet)

lemma silent_structured [quiet]: "silent (handleStructuredOutput R cfg r t)"
  by (auto simp: handleStructuredOutput_def Let_def intro!: asks_only_bind quiet)

lemma silent_stops [quiet]:
  "silent (stop_with r step reason e)" "silent (fail_with r step reason f)" "silent (end_turn R cfg r step t)"
  "silent (after_run out)"
  by (auto simp: stop_with_def fail_with_def end_turn_def after_run_def Let_def intro!: asks_only_bind quiet)

section \<open>What programs return\<close>

definition returns :: "'a program \<Rightarrow> ('a \<Rightarrow> bool) \<Rightarrow> bool" where
  \<comment> \<open>every value the program can return has the property\<close>
  "returns p T \<longleftrightarrow> wp (\<lambda>_ _ _. Some ()) p () (\<lambda>_. T)"

lemma returns_simps [simp]:
  "returns (Return a) T \<longleftrightarrow> T a" "returns Panic T" "returns (Ask q k) T \<longleftrightarrow> (\<forall>r. returns (k r) T)"
  "returns (bindP p f) T \<longleftrightarrow> returns p (\<lambda>a. returns (f a) T)" "returns (ask q g) T \<longleftrightarrow> (\<forall>r. T (g r))"
  by (simp_all add: returns_def)

lemma returns_mono: "returns p T \<Longrightarrow> (\<And>a. T a \<Longrightarrow> T' a) \<Longrightarrow> returns p T'"
  unfolding returns_def by (erule wp_mono)

lemma returns_True [simp]: "returns p (\<lambda>_. True)"
  by (induction p) simp_all

lemma returns_runs: "returns p T \<Longrightarrow> runs p d a \<Longrightarrow> T a"
  by (induction p arbitrary: d) auto

lemma wp_silent:
  assumes "silent p" "returns p (Q m)"
  shows "wp (watch_uses R cfg) p m Q"
  using assms by (induction p) (auto simp: about_no_use_def)

lemma wp_silent_same: "silent p \<Longrightarrow> (\<And>a. Q m a) \<Longrightarrow> wp (watch_uses R cfg) p m Q"
  by (rule wp_silent) (auto intro: returns_mono [OF returns_True])

lemma wp_bind_silent:
  "silent p \<Longrightarrow> (\<And>a. wp (watch_uses R cfg) (f a) m Q) \<Longrightarrow> wp (watch_uses R cfg) (bindP p f) m Q"
  unfolding wp_bind by (rule wp_silent_same)

lemma attempts_step: "returns (attempts cfg policy req trace r step m n)
    (\<lambda>out. case out of Inl _ \<Rightarrow> True | Inr (t, _) \<Rightarrow> trn_Step t = step)"
proof (induction n)
  case (Suc n)
  then show ?case by (auto simp: Let_def now_def no_turn_def split: sum.split option.split prod.split)
qed simp

section \<open>Proposals and interruptions\<close>

definition numbered :: "int \<Rightarrow> tool_call list \<Rightarrow> bool" where
  \<comment> \<open>the calls of one step, with the ordinals 1, 2, ...\<close>
  "numbered step calls \<longleftrightarrow> map key_of calls = map (\<lambda>n. (step, int n + 1)) [0 ..< length calls]"

lemma numbered_nth: "numbered step calls \<Longrightarrow> n < length calls \<Longrightarrow> key_of (calls ! n) = (step, int n + 1)"
  by (metis (no_types, lifting) add_0 diff_zero length_map length_upt nth_map nth_upt numbered_def)

lemma numbered_distinct: "numbered step calls \<Longrightarrow> distinct (map key_of calls)"
  by (auto simp: numbered_def distinct_map inj_on_def)

lemma numbered_step: "numbered step calls \<Longrightarrow> k \<in> key_of ` set calls \<Longrightarrow> fst k = step"
proof -
  assume "numbered step calls" "k \<in> key_of ` set calls"
  then have "k \<in> set (map (\<lambda>n. (step, int n + 1)) [0 ..< length calls])" by (metis numbered_def list.set_map)
  then show ?thesis by auto
qed

lemma resolve_calls_numbered: "numbered (trn_Step t) (resolve_calls reg m t)"
  unfolding numbered_def by (rule nth_equalityI) (simp_all add: resolve_calls_def key_of_def resolve_call_def)

lemma watch_uses_own: "use_key_of q = Some i \<Longrightarrow>
    watch_uses R cfg m q r = map_option (\<lambda>s. m(i := s)) (use_accept R cfg (m i) q r)"
  by (simp add: uses.accept_all_def)

lemma emit_watched_all [simp]: "wp (watch_uses R cfg) (emit e) m Q \<longleftrightarrow> Q m ()"
  by (simp add: emit_def)

lemma now_watched_all [simp]: "wp (watch_uses R cfg) now m Q \<longleftrightarrow> (\<forall>t. Q m t)"
proof -
  have "(\<forall>r. Q m (number_answer r)) \<longleftrightarrow> (\<forall>t. Q m t)" by (metis number_answer.simps(1))
  then show ?thesis by (simp add: now_def)
qed

definition proposed_in :: "config \<Rightarrow> (int \<times> int \<Rightarrow> use_watch) \<Rightarrow> tool_call list \<Rightarrow> bool" where
  "proposed_in cfg m calls \<longleftrightarrow> (\<forall>c \<in> set calls. recorded cfg ToolUseStatusProposed (m (key_of c)))"

lemma proposed_in_cong: "(\<And>c. c \<in> set calls \<Longrightarrow> m (key_of c) = m' (key_of c)) \<Longrightarrow> proposed_in cfg m calls = proposed_in cfg m' calls"
  by (auto simp: proposed_in_def)

definition outside :: "tool_call list \<Rightarrow> (int \<times> int \<Rightarrow> use_watch) \<Rightarrow> (int \<times> int \<Rightarrow> use_watch) \<Rightarrow> bool" where
  \<comment> \<open>only the tool uses of these calls have moved\<close>
  "outside calls m m' \<longleftrightarrow> (\<forall>k. k \<notin> key_of ` set calls \<longrightarrow> m' k = m k)"

lemma outsideD: "outside calls m m' \<Longrightarrow> k \<notin> key_of ` set calls \<Longrightarrow> m' k = m k"
  unfolding outside_def by blast

lemma proposed_in_other [simp]: "k \<notin> key_of ` set calls \<Longrightarrow> proposed_in cfg (m(k := s)) calls = proposed_in cfg m calls"
  by (rule proposed_in_cong) auto

lemma propose_watched:
  assumes "cfg_ToolUseLifecycle cfg" "distinct (map key_of calls)" "\<forall>c \<in> set calls. m (key_of c) = unproposed"
  shows "wp (watch_uses R cfg) (propose_calls R cfg msg before calls) m (\<lambda>m' (msg', proposed, e).
    \<exists>new. proposed = before @ new \<and> (\<exists>n. map key_of new = take n (map key_of calls)) \<and> (e = None \<longrightarrow> map key_of new = map key_of calls)
      \<and> proposed_in cfg m' new \<and> outside calls m m')"
  using assms(2,3)
proof (induction calls arbitrary: msg before m)
  case Nil
  then show ?case by (simp add: proposed_in_def outside_def)
next
  case (Cons c cs)
  let ?q = "\<lambda>t. ToolUse_Propose ((use_info_of c t)\<lparr>use_ToolUseID := ''''\<rparr>)"
  have key: "use_key_of (?q t) = Some (key_of c)" for t by (simp add: key_of_def)
  have rec: "recorded cfg '''' (m (key_of c))" using Cons.prems by (simp add: recorded_def unproposed_def)
  have fresh: "key_of c \<notin> key_of ` set cs" using Cons.prems by simp
  have step: "\<exists>m'. watch_uses R cfg m (?q t) r = Some m' \<and>
      (case proposal_error R before (text_answer r) of
         Some e \<Rightarrow> outside [c] m m'
       | None \<Rightarrow> m' = m(key_of c := unproposed\<lparr>uwt_Status := ToolUseStatusProposed\<rparr>))" for t r
    using rec Cons.prems
    by (simp add: watch_uses_own [OF key] outside_def proposal_error_def split: sum.split option.split)
  show ?case unfolding propose_calls.simps wp_bind now_watched_all wp_ask
  proof (intro allI)
    fix t r
    obtain m' where m': "watch_uses R cfg m (?q t) r = Some m'"
      and moved: "case proposal_error R before (text_answer r) of Some e \<Rightarrow> outside [c] m m'
        | None \<Rightarrow> m' = m(key_of c := unproposed\<lparr>uwt_Status := ToolUseStatusProposed\<rparr>)"
      using step by blast
    show "case watch_uses R cfg m (?q t) r of None \<Rightarrow> False
      | Some s' \<Rightarrow> wp (watch_uses R cfg) (case proposal_error R before (text_answer r) of
            None \<Rightarrow> let call = c\<lparr>tcl_ProposedAt := t, tcl_ToolUseID := case text_answer r of Inl x \<Rightarrow> '''' | Inr i \<Rightarrow> i\<rparr>;
                       proposed = before @ [call]; m = msg\<lparr>mes_Content := applyToolUseIDs (mes_Content msg) (proposed @ cs)\<rparr>
                   in bindP (emit (ToolUseProposedEvent call)) (\<lambda>_. propose_calls R cfg m proposed cs)
          | Some e \<Rightarrow> Return (msg, before, Some (Wrapped ''tool use proposal'' e))) s'
        (\<lambda>m' (msg', proposed, e). \<exists>new. proposed = before @ new \<and> (\<exists>n. map key_of new = take n (map key_of (c # cs))) \<and>
           (e = None \<longrightarrow> map key_of new = map key_of (c # cs)) \<and> proposed_in cfg m' new \<and> outside (c # cs) m m')"
    proof (cases "proposal_error R before (text_answer r)")
      case (Some e)
      then show ?thesis using m' moved by (simp add: proposed_in_def outside_def exI [of _ 0])
    next
      case None
      define call where "call = c\<lparr>tcl_ProposedAt := t, tcl_ToolUseID := case text_answer r of Inl x \<Rightarrow> '''' | Inr i \<Rightarrow> i\<rparr>"
      have call: "key_of call = key_of c" by (simp add: call_def)
      have m'_def: "m' = m(key_of c := unproposed\<lparr>uwt_Status := ToolUseStatusProposed\<rparr>)" using moved None by simp
      have "key_of c' \<noteq> key_of c" if "c' \<in> set cs" for c' using fresh that by (metis image_eqI)
      then have "\<forall>c \<in> set cs. m' (key_of c) = unproposed" using Cons.prems by (simp add: m'_def)
      moreover have "distinct (map key_of cs)" using Cons.prems(1) by simp
      ultimately have rest: "wp (watch_uses R cfg) (propose_calls R cfg msg2 (before @ [call]) cs) m' (\<lambda>m'' (msg', proposed, e).
        \<exists>new. proposed = (before @ [call]) @ new \<and> (\<exists>n. map key_of new = take n (map key_of cs))
          \<and> (e = None \<longrightarrow> map key_of new = map key_of cs) \<and> proposed_in cfg m'' new \<and> outside cs m' m'')" for msg2
        by (intro Cons.IH)
      have post: "\<exists>new. proposed = before @ new \<and> (\<exists>n. map key_of new = take n (map key_of (c # cs))) \<and>
           (e = None \<longrightarrow> map key_of new = map key_of (c # cs)) \<and> proposed_in cfg m'' new \<and> outside (c # cs) m m''"
        if p: "proposed = (before @ [call]) @ new" "map key_of new = take n (map key_of cs)"
          "e = None \<longrightarrow> map key_of new = map key_of cs" "proposed_in cfg m'' new" "outside cs m' m''" for proposed e m'' new n
      proof (intro exI [of _ "call # new"] conjI exI [of _ "Suc n"])
        have "m'' (key_of c) = m' (key_of c)" using p(5) fresh by (rule outsideD)
        then show "proposed_in cfg m'' (call # new)"
          using p(4) by (simp add: proposed_in_def call m'_def recorded_def unproposed_def)
        show "outside (c # cs) m m''" using p(5) by (auto simp: outside_def m'_def)
      qed (use p call in simp_all)
      have "wp (watch_uses R cfg) (propose_calls R cfg msg2 (before @ [call]) cs) m' (\<lambda>m'' (msg', proposed, e).
        \<exists>new. proposed = before @ new \<and> (\<exists>n. map key_of new = take n (map key_of (c # cs))) \<and>
           (e = None \<longrightarrow> map key_of new = map key_of (c # cs)) \<and> proposed_in cfg m'' new \<and> outside (c # cs) m m'')" for msg2
      proof (rule wp_mono [OF rest], goal_cases)
        case (1 m'' out)
        obtain msg' proposed e where out: "out = (msg', proposed, e)" by (metis prod_cases3)
        from 1 obtain new n where "proposed = (before @ [call]) @ new" "map key_of new = take n (map key_of cs)"
          "e = None \<longrightarrow> map key_of new = map key_of cs" "proposed_in cfg m'' new" "outside cs m' m''"
          unfolding out prod.case by blast
        then show ?case unfolding out prod.case by (rule post)
      qed
      then show ?thesis using None m' by (simp add: Let_def call_def [symmetric])
    qed
  qed
qed

lemma interrupt_watched:
  assumes "distinct (map key_of calls)" "proposed_in cfg m calls"
  shows "wp (watch_uses R cfg) (interruptToolUses cfg calls e et) m (\<lambda>m' _. outside calls m m')"
  using assms
proof (induction calls arbitrary: m)
  case Nil
  then show ?case by (simp add: outside_def)
next
  case (Cons c cs)
  show ?case
  proof (cases "cfg_ToolUseLifecycle cfg")
    case False
    then show ?thesis by (simp add: outside_def)
  next
    case True
    let ?q = "\<lambda>t res. ToolUse_Finish (finish_info_of c t ToolUseStatusInterrupted res et (err_text e) (Some e))"
    have key: "use_key_of (?q t res) = Some (key_of c)" for t res by (simp add: key_of_def)
    have rec: "recorded cfg ToolUseStatusProposed (m (key_of c))" using Cons.prems by (simp add: proposed_in_def)
    have "legalToolUseTransition (uwt_Status (m (key_of c))) ToolUseStatusInterrupted" "\<not> uwt_Finished (m (key_of c))"
      using rec True by (simp_all add: recorded_def legalToolUseTransition_def tool_status_defs)
    then have step: "\<exists>s'. watch_uses R cfg m (?q t res) r = Some (m(key_of c := s'))" for t res r
      unfolding watch_uses_own [OF key]
      by (intro exI [of _ "(moved_to ToolUseStatusInterrupted r (m (key_of c)))\<lparr>uwt_Finished := True\<rparr>"])
        (simp add: tool_status_defs)
    have rest: "wp (watch_uses R cfg) (interruptToolUses cfg cs e et) (m(key_of c := s')) (\<lambda>m' _. outside (c # cs) m m')" for s'
    proof (rule wp_mono)
      have "key_of c \<notin> key_of ` set cs" "proposed_in cfg m cs" using Cons.prems by (simp_all add: proposed_in_def)
      then have "proposed_in cfg (m(key_of c := s')) cs" by (rule proposed_in_other [THEN iffD2])
      then show "wp (watch_uses R cfg) (interruptToolUses cfg cs e et) (m(key_of c := s')) (\<lambda>m' _. outside cs (m(key_of c := s')) m')"
        using Cons.prems(1) by (intro Cons.IH [where m = "m(key_of c := s')"]) (simp, assumption)
    qed (auto simp: outside_def)
    have go: "case watch_uses R cfg m (?q t res) r of None \<Rightarrow> False
      | Some m2 \<Rightarrow> wp (watch_uses R cfg) (Return ()) m2 (\<lambda>m2 _. wp (watch_uses R cfg) (interruptToolUses cfg cs e et) m2
          (\<lambda>m' _. outside (c # cs) m m'))" for t res r
      using step [of t res r] rest by (elim exE) simp
    have emit: "case watch_uses R cfg m (?q t res) r of None \<Rightarrow> False
      | Some m2 \<Rightarrow> wp (watch_uses R cfg) (emit ev) m2 (\<lambda>m2 _. wp (watch_uses R cfg) (interruptToolUses cfg cs e et) m2
          (\<lambda>m' _. outside (c # cs) m m'))" for t res r ev
      using step [of t res r] rest by (elim exE) simp
    show ?thesis using True by (simp add: Let_def tell_def go emit)
  qed
qed

section \<open>Batches\<close>

definition batch_settled :: "config \<Rightarrow> tool_call list \<Rightarrow> (int \<times> int \<Rightarrow> use_watch) \<Rightarrow> tool_result list \<Rightarrow> failure option \<Rightarrow> bool" where
  \<comment> \<open>a result for every call, in order; without an error every tool use is settled with the status of its result\<close>
  "batch_settled cfg calls m results e \<longleftrightarrow> length results = length calls \<and>
     (\<forall>n < length calls. e = None \<longrightarrow> settled_as cfg (calls ! n) (m (key_of (calls ! n))) (results ! n, None))"

lemma surface_error_None: "surface_error None es = None \<Longrightarrow> es = []"
proof -
  have "surface_error (Some f) es \<noteq> None" for f es by (induction es arbitrary: f) simp_all
  then show "surface_error None es = None \<Longrightarrow> es = []" by (cases es) simp_all
qed

lemma arrange_set [simp]: "set (arrange order xs) = set xs"
proof -
  have "set (remdups (filter (\<lambda>i. i < length xs) order) @
      filter (\<lambda>i. i \<notin> set (remdups (filter (\<lambda>i. i < length xs) order))) [0 ..< length xs]) = {0 ..< length xs}" by auto
  then show ?thesis unfolding arrange_def Let_def set_map by (auto simp: set_conv_nth)
qed

lemma arrange_no_error: "List.map_filter snd (arrange order outs) = [] \<Longrightarrow> n < length outs \<Longrightarrow> snd (outs ! n) = None"
proof -
  assume "List.map_filter snd (arrange order outs) = []" "n < length outs"
  then have "\<forall>x \<in> set (arrange order outs). snd x = None" "outs ! n \<in> set (arrange order outs)"
    by (auto simp: map_filter_def filter_empty_conv)
  then show ?thesis by blast
qed

lemma sequential_watched:
  assumes "distinct (map key_of calls)" "proposed_in cfg m calls"
  shows "wp (watch_uses R cfg) (run_sequential R cfg calls) m
    (\<lambda>m' (results, e). outside calls m m' \<and> batch_settled cfg calls m' results e)"
  using assms
proof (induction calls arbitrary: m)
  case Nil
  then show ?case by (simp add: outside_def batch_settled_def)
next
  case (Cons c cs)
  have "recorded cfg ToolUseStatusProposed (m (key_of c))" using Cons.prems by (simp add: proposed_in_def)
  then have first: "wp (watch_uses R cfg) (executeOne R cfg c) m
      (\<lambda>m' out. settled_as cfg c (m' (key_of c)) out \<and> (\<forall>j. j \<noteq> key_of c \<longrightarrow> m' j = m j))"
    by (intro uses.own_in_all [where m = m and i = "key_of c"] executeOne_watched)
  have fresh: "key_of c' \<noteq> key_of c" if "c' \<in> set cs" for c' using Cons.prems(1) that by (metis distinct.simps(2) image_eqI list.set_map list.simps(9))
  show ?case unfolding run_sequential.simps wp_bind
  proof (rule wp_mono [OF first], goal_cases)
    case (1 m' out)
    note first_post = 1
    obtain res e where out: "out = (res, e)" by fastforce
    show ?case
    proof (cases e)
      case (Some f)
      then show ?thesis using 1 by (simp add: out batch_settled_def outside_def)
    next
      case None
      have "m' (key_of c') = m (key_of c')" if "c' \<in> set cs" for c' using 1 fresh [OF that] by blast
      then have "proposed_in cfg m' cs" using Cons.prems(2) by (simp add: proposed_in_def)
      with Cons.prems(1) have "wp (watch_uses R cfg) (run_sequential R cfg cs) m'
          (\<lambda>m2 (results, e). outside cs m' m2 \<and> batch_settled cfg cs m2 results e)" by (intro Cons.IH) simp_all
      then show ?thesis unfolding out None prod.case option.case wp_bind
      proof (rule wp_mono, goal_cases)
        case (1 m2 out2)
        obtain results e2 where out2: "out2 = (results, e2)" by fastforce
        have o: "outside cs m' m2" "batch_settled cfg cs m2 results e2" using 1 by (simp_all add: out2)
        have f: "settled_as cfg c (m' (key_of c)) out" "\<And>j. j \<noteq> key_of c \<Longrightarrow> m' j = m j" using first_post by blast+
        have "key_of c \<notin> key_of ` set cs" using fresh by (metis imageE)
        then have "m2 (key_of c) = m' (key_of c)" by (rule outsideD [OF o(1)])
        then have "batch_settled cfg (c # cs) m2 (res # results) e2"
          using f(1) o(2) by (auto simp: out None batch_settled_def nth_Cons split: nat.splits)
        moreover have "outside (c # cs) m m2"
          unfolding outside_def
        proof (intro allI impI)
          fix k assume "k \<notin> key_of ` set (c # cs)"
          then have "k \<notin> key_of ` set cs" "k \<noteq> key_of c" by auto
          then show "m2 k = m k" using outsideD [OF o(1)] f(2) by simp
        qed
        ultimately show ?case by (simp add: out2)
      qed
    qed
  qed
qed

lemma parallel_watched:
  assumes "numbered step calls" "proposed_in cfg m calls"
  shows "wp (watch_uses R cfg) (run_parallel R cfg calls) m
    (\<lambda>m' (results, e). outside calls m m' \<and> batch_settled cfg calls m' results e)"
proof -
  let ?ps = "map (executeOne R cfg) calls" and ?i = "\<lambda>n. (step, int n + 1)"
  have "\<forall>n < length ?ps. wp (watch_use R cfg (?i n)) (?ps ! n) (m (?i n)) (settled_as cfg (calls ! n))"
    using assms executeOne_watched by (auto simp: proposed_in_def numbered_nth [OF assms(1), symmetric])
  moreover have "inj ?i" by (simp add: inj_def)
  ultimately have batch: "wp (watch_uses R cfg) (in_parallel order ?ps) m (\<lambda>m' outs. length outs = length ?ps
      \<and> (\<forall>n < length ?ps. settled_as cfg (calls ! n) (m' (?i n)) (outs ! n)) \<and> (\<forall>j. j \<notin> ?i ` {..<length ?ps} \<longrightarrow> m' j = m j))" for order
    by (rule uses.parallel)
  have keys: "?i ` {..<length calls} = key_of ` set calls"
    using numbered_nth [OF assms(1)] by (force simp: set_conv_nth image_iff)
  have post: "outside calls m m' \<and> batch_settled cfg calls m' (map fst outs) (surface_error None (List.map_filter snd (arrange order outs)))"
    if o: "length outs = length ?ps \<and> (\<forall>n < length ?ps. settled_as cfg (calls ! n) (m' (?i n)) (outs ! n))
        \<and> (\<forall>j. j \<notin> ?i ` {..<length ?ps} \<longrightarrow> m' j = m j)" for m' outs order
  proof
    show "outside calls m m'" using o keys unfolding outside_def by simp
    have "settled_as cfg (calls ! n) (m' (key_of (calls ! n))) (fst (outs ! n), None)"
      if n: "n < length calls" and none: "surface_error None (List.map_filter snd (arrange order outs)) = None" for n
    proof -
      have "List.map_filter snd (arrange order outs) = []" using none by (rule surface_error_None)
      then have "snd (outs ! n) = None" using n o by (intro arrange_no_error) simp_all
      then show ?thesis using o n numbered_nth [OF assms(1) n] by (metis length_map prod.collapse)
    qed
    then show "batch_settled cfg calls m' (map fst outs) (surface_error None (List.map_filter snd (arrange order outs)))"
      using o by (simp add: batch_settled_def)
  qed
  show ?thesis unfolding run_parallel_def wp_bind wp_ask
    by (auto simp: about_no_use_def intro!: wp_mono [OF batch] post [THEN conjunct1] post [THEN conjunct2])
qed

section \<open>A turn\<close>

definition in_step :: "int \<Rightarrow> (int \<times> int \<Rightarrow> use_watch) \<Rightarrow> (int \<times> int \<Rightarrow> use_watch) \<Rightarrow> bool" where
  \<comment> \<open>only tool uses of one step have moved\<close>
  "in_step step m m' \<longleftrightarrow> (\<forall>k. fst k \<noteq> step \<longrightarrow> m' k = m k)"

definition step_fresh :: "int \<Rightarrow> (int \<times> int \<Rightarrow> use_watch) \<Rightarrow> bool" where
  "step_fresh step m \<longleftrightarrow> (\<forall>k. fst k = step \<longrightarrow> m k = unproposed)"

lemma in_step_refl [simp]: "in_step step m m"
  by (simp add: in_step_def)

lemma in_step_trans: "in_step step m m' \<Longrightarrow> in_step step m' m'' \<Longrightarrow> in_step step m m''"
  by (simp add: in_step_def)

lemma outside_in_step:
  assumes "outside calls m m'" "\<And>k. k \<in> key_of ` set calls \<Longrightarrow> fst k = step"
  shows "in_step step m m'"
  unfolding in_step_def
proof (intro allI impI)
  fix k :: "int \<times> int" assume "fst k \<noteq> step"
  then have "k \<notin> key_of ` set calls" using assms(2) by blast
  then show "m' k = m k" by (rule outsideD [OF assms(1)])
qed

lemma silent_in_step: "silent p \<Longrightarrow> in_step step m0 m \<Longrightarrow> wp (watch_uses R cfg) p m (\<lambda>m' _. in_step step m0 m')"
  by (rule wp_silent_same)

lemma execute_calls_watched:
  assumes "numbered step calls" "proposed_in cfg m calls" "in_step step m0 m"
  shows "wp (watch_uses R cfg) (execute_calls R cfg r t msg calls) m (\<lambda>m' _. in_step step m0 m')"
proof -
  have go: "wp (watch_uses R cfg) (case out of (results, None) \<Rightarrow> finalizeToolTurn cfg r t msg results MessageStateCompleted None
        | (results, Some f) \<Rightarrow> finalizeToolTurn cfg r t msg results MessageStateFailed (Some f)) m' (\<lambda>m' _. in_step step m0 m')"
    if "case out of (results, e) \<Rightarrow> outside calls m m' \<and> batch_settled cfg calls m' results e" for m' out
  proof -
    obtain results e where out: "out = (results, e)" by fastforce
    have "in_step step m m'" using that numbered_step [OF assms(1)] by (intro outside_in_step) (auto simp: out)
    then have "in_step step m0 m'" using assms(3) in_step_trans by blast
    then show ?thesis unfolding out prod.case by (auto intro!: silent_in_step quiet split: option.split)
  qed
  let ?f = "\<lambda>out. case out of (results, None) \<Rightarrow> finalizeToolTurn cfg r t msg results MessageStateCompleted None
        | (results, Some f) \<Rightarrow> finalizeToolTurn cfg r t msg results MessageStateFailed (Some f)"
  have seq: "wp (watch_uses R cfg) (bindP (run_sequential R cfg calls) ?f) m (\<lambda>m' _. in_step step m0 m')"
    unfolding wp_bind by (rule wp_mono [OF sequential_watched [OF numbered_distinct [OF assms(1)] assms(2)] go])
  have par: "wp (watch_uses R cfg) (bindP (run_parallel R cfg calls) ?f) m (\<lambda>m' _. in_step step m0 m')"
    unfolding wp_bind by (rule wp_mono [OF parallel_watched [OF assms(1,2)] go])
  show ?thesis unfolding execute_calls_def Let_def using assms(3) seq par by (simp del: wp_bind)
qed

lemma tool_turn_watched:
  assumes "step_fresh (trn_Step t) m0"
  shows "wp (watch_uses R cfg) (tool_turn R cfg reg r t msg) m0 (\<lambda>m' _. in_step (trn_Step t) m0 m')"
proof -
  let ?P = "\<lambda>m' _. in_step (trn_Step t) m0 m'"
  have batch: "wp (watch_uses R cfg) (execute_calls R cfg r' t msg' calls) m ?P"
    if "numbered (trn_Step t) calls" "proposed_in cfg m calls" "in_step (trn_Step t) m0 m" for r' msg' calls m
    using that by (rule execute_calls_watched)
  show ?thesis
  proof (cases "cfg_ToolUseLifecycle cfg")
    case False
    have "recorded cfg ToolUseStatusProposed (m0 k)" if "fst k = trn_Step t" for k
      using assms that False by (simp add: step_fresh_def recorded_def unproposed_def del: split_paired_All)
    then have "proposed_in cfg m0 (resolve_calls reg msg' t)" for msg'
      using numbered_step [OF resolve_calls_numbered [of t reg msg']] by (auto simp: proposed_in_def)
    then show ?thesis unfolding tool_turn_def Let_def if_P [OF False]
      by (intro wp_bind_silent quiet) (auto intro!: batch resolve_calls_numbered split: option.split,
          auto intro!: silent_in_step quiet)
  next
    case True
    have stop: "wp (watch_uses R cfg) (interrupt_turn cfg r' t msg' proposed f name) m' ?P"
      if "proposed_in cfg m' proposed" "distinct (map key_of proposed)" "key_of ` set proposed \<subseteq> key_of ` set calls"
        "numbered (trn_Step t) calls" "in_step (trn_Step t) m0 m'" for r' msg' proposed f name calls m'
      unfolding interrupt_turn_def wp_bind
    proof (rule wp_mono [OF interrupt_watched [OF that(2,1)]])
      fix m2 results assume "outside proposed m' m2"
      then have "in_step (trn_Step t) m' m2"
        by (rule outside_in_step) (use that(3) numbered_step [OF that(4)] in blast)
      with that(5) have "in_step (trn_Step t) m0 m2" by (rule in_step_trans)
      then show "wp (watch_uses R cfg) (finalizeToolTurn cfg r' t msg' results MessageStateFailed (Some f)) m2 ?P"
        by (intro silent_in_step quiet)
    qed
    have after: "wp (watch_uses R cfg) (case e of Some f \<Rightarrow> interrupt_turn cfg r' t msg' proposed f ''proposal''
        | None \<Rightarrow>
            bindP (checkpoint cfg (trn_Step t) (next_revision (msg'\<lparr>mes_Content := applyToolUseIDs (mes_Content msg') proposed\<rparr>))) (\<lambda>(m, e).
               case e of
                 Some f \<Rightarrow> interrupt_turn cfg r' t m proposed f ''checkpoint''
               | None \<Rightarrow> execute_calls R cfg (replace_last m r') t m proposed)) m' ?P"
      if new: "map key_of proposed = take n (map key_of calls)" "e = None \<longrightarrow> map key_of proposed = map key_of calls"
          "proposed_in cfg m' proposed" "outside calls m0 m'" and num: "numbered (trn_Step t) calls"
      for msg' proposed e m' r' calls n
    proof -
      have d: "distinct (map key_of proposed)" using numbered_distinct [OF num] new(1) by simp
      have sub: "key_of ` set proposed \<subseteq> key_of ` set calls" using new(1) by (metis list.set_map set_take_subset)
      have i: "in_step (trn_Step t) m0 m'" using new(4) numbered_step [OF num] by (rule outside_in_step)
      note s = stop [OF new(3) d sub num i]
      have num': "numbered (trn_Step t) proposed" if "e = None"
      proof -
        have "map key_of proposed = map key_of calls" using new(2) that by simp
        moreover from this have "length proposed = length calls" by (metis length_map)
        ultimately show ?thesis using num by (simp add: numbered_def)
      qed
      show ?thesis
      proof (cases e)
        case None
        show ?thesis unfolding None option.case wp_bind
          by (rule wp_silent_same) (auto intro!: quiet s batch num' [OF None] new(3) i split: option.split)
      qed (simp add: s)
    qed
    have fresh: "\<forall>c \<in> set calls. m0 (key_of c) = unproposed" if "numbered (trn_Step t) calls" for calls
      using assms numbered_step [OF that] unfolding step_fresh_def by blast
    have propose: "wp (watch_uses R cfg) (bindP (propose_calls R cfg msg1 [] calls) (\<lambda>(msg', proposed, e).
        case e of Some f \<Rightarrow> interrupt_turn cfg r' t msg' proposed f ''proposal''
        | None \<Rightarrow>
            bindP (checkpoint cfg (trn_Step t) (next_revision (msg'\<lparr>mes_Content := applyToolUseIDs (mes_Content msg') proposed\<rparr>))) (\<lambda>(m, e).
               case e of
                 Some f \<Rightarrow> interrupt_turn cfg r' t m proposed f ''checkpoint''
               | None \<Rightarrow> execute_calls R cfg (replace_last m r') t m proposed))) m0 ?P"
      if num: "numbered (trn_Step t) calls" for msg1 r' calls
      unfolding wp_bind
    proof (rule wp_mono [OF propose_watched [OF True numbered_distinct [OF num] fresh [OF num]]], goal_cases)
      case (1 m' out)
      obtain msg' proposed e where out: "out = (msg', proposed, e)" by (metis prod_cases3)
      from 1 obtain n where "map key_of proposed = take n (map key_of calls)" "e = None \<longrightarrow> map key_of proposed = map key_of calls"
          "proposed_in cfg m' proposed" "outside calls m0 m'" unfolding out prod.case append_Nil by blast
      from after [OF this num] show ?case by (simp only: out prod.case wp_bind)
    qed
    show ?thesis unfolding tool_turn_def Let_def if_not_P [OF not_not [THEN iffD2, OF True]]
      by (intro wp_bind_silent quiet) (auto intro!: propose resolve_calls_numbered split: option.split simp del: wp_bind,
          auto intro!: silent_in_step quiet)
  qed
qed

lemma finish_turn_watched:
  assumes "step_fresh (trn_Step t) m0"
  shows "wp (watch_uses R cfg) (finish_turn R cfg reg r t msg) m0 (\<lambda>m' _. in_step (trn_Step t) m0 m')"
  unfolding finish_turn_def Let_def
  using tool_turn_watched [OF assms]
  by (auto intro!: wp_bind_silent quiet simp del: wp_bind split: option.split) (auto intro!: silent_in_step quiet)

lemma finish_stream_watched:
  assumes "step_fresh (trn_Step t) m0"
  shows "wp (watch_uses R cfg) (finish_stream R cfg reg r t s e final) m0 (\<lambda>m' _. in_step (trn_Step t) m0 m')"
proof -
  have go: "wp (watch_uses R cfg) (finish_turn R cfg reg r' (t\<lparr>trn_CompletedAt := c, trn_Usage := u, trn_ProviderRequestID := i\<rparr>) msg) m0
      (\<lambda>m' _. in_step (trn_Step t) m0 m')" for r' c u i msg
    using finish_turn_watched [of "t\<lparr>trn_CompletedAt := c, trn_Usage := u, trn_ProviderRequestID := i\<rparr>"] assms by simp
  show ?thesis unfolding finish_stream_def Let_def
    by (auto intro!: go wp_bind_silent quiet simp del: wp_bind split: option.split)
      (auto intro!: silent_in_step quiet)
qed

lemma stream_turn_watched:
  assumes "step_fresh (trn_Step t) m0"
  shows "wp (watch_uses R cfg) (stream_turn R cfg reg r t msg stream) m0 (\<lambda>m' _. in_step (trn_Step t) m0 m')"
  unfolding stream_turn_def Let_def
  by (auto intro!: finish_stream_watched assms wp_bind_silent quiet simp del: wp_bind split: prod.split option.split)

lemma request_turn_watched:
  assumes "step_fresh step m0"
  shows "wp (watch_uses R cfg) (request_turn R cfg reg r step req) m0 (\<lambda>m' _. in_step step m0 m')"
proof -
  have opens: "wp (watch_uses R cfg) (bindP (attempts cfg p req trace r step msg n)
      (\<lambda>opened. case opened of Inl res \<Rightarrow> Return res | Inr (t, stream) \<Rightarrow> stream_turn R cfg reg r t msg stream)) m0
      (\<lambda>m' _. in_step step m0 m')" for p trace msg n
    unfolding wp_bind
  proof (rule wp_silent [OF silent_attempts], rule returns_mono [OF attempts_step], goal_cases)
    case (1 out)
    then show ?case using assms stream_turn_watched by (auto split: sum.splits)
  qed
  show ?thesis unfolding request_turn_def Let_def
    by (auto intro!: opens wp_bind_silent quiet simp del: wp_bind split: option.split)
qed

lemma runTurn_watched:
  assumes "step_fresh (int step) m0"
  shows "wp (watch_uses R cfg) (runTurn R cfg reg r step) m0 (\<lambda>m' _. in_step (int step) m0 m')"
  unfolding runTurn_def bindR_def Let_def
  by (auto intro!: request_turn_watched assms wp_bind_silent quiet simp del: wp_bind split: sum.split)

section \<open>The run\<close>

definition later_fresh :: "nat \<Rightarrow> (int \<times> int \<Rightarrow> use_watch) \<Rightarrow> bool" where
  "later_fresh step m \<longleftrightarrow> (\<forall>k. fst k > int step \<longrightarrow> m k = unproposed)"

lemma run_loop_watched:
  assumes "later_fresh step m"
  shows "wp (watch_uses R cfg) (run_loop fuel R cfg reg r step) m (\<lambda>_ _. True)"
  using assms
proof (induction fuel arbitrary: r step m)
  case (Suc fuel)
  have fresh: "step_fresh (int (Suc step)) m" using Suc.prems by (auto simp: step_fresh_def later_fresh_def)
  have fresh2: "later_fresh (Suc step) m'" if "in_step (int (Suc step)) m m'" for m'
    using Suc.prems that by (auto simp: in_step_def later_fresh_def)
  have rest: "wp (watch_uses R cfg) (run_loop fuel R cfg reg r' (Suc step)) m' (\<lambda>_ _. True)"
    if "in_step (int (Suc step)) m m'" for r' m'
    using fresh2 [OF that] by (rule Suc.IH)
  have trivial: "silent p \<Longrightarrow> wp (watch_uses R cfg) p m' (\<lambda>_ _. True)" for p :: "run_outcome option program" and m'
    by (rule wp_silent_same) simp_all
  have after: "wp (watch_uses R cfg) (bindP (runTurn R cfg reg r (Suc step)) f) m (\<lambda>_ _. True)"
    if "\<And>out m'. in_step (int (Suc step)) m m' \<Longrightarrow> wp (watch_uses R cfg) (f out) m' (\<lambda>_ _. True)" for f
    unfolding wp_bind by (rule wp_mono [OF runTurn_watched [OF fresh]]) (rule that)
  show ?case unfolding run_loop.simps Let_def Suc_eq_plus1 [symmetric]
    by (auto intro!: wp_bind_silent quiet after rest simp del: wp_bind split: option.split prod.split)
      (auto intro!: trivial quiet)
qed simp

lemma run_body_watched: "wp (watch_uses R cfg) (run_body fuel R cfg) (\<lambda>_. unproposed) (\<lambda>_ _. True)"
proof -
  have "later_fresh 0 (\<lambda>_. unproposed)" by (simp add: later_fresh_def)
  note loop = run_loop_watched [OF this]
  show ?thesis unfolding run_body_def
    by (auto intro!: wp_bind_silent quiet loop simp del: wp_bind split: sum.split) (auto intro!: wp_silent_same quiet)
qed

lemma Run_watched: "wp (watch_uses R cfg) (Run fuel R cfg) (\<lambda>_. unproposed) (\<lambda>_ _. True)"
proof -
  let ?f = "\<lambda>out. case out of Some None \<Rightarrow> Return None | Some (Some out) \<Rightarrow> bindP (after_run out) (\<lambda>out. Return (Some out))
    | None \<Rightarrow> bindP (after_run (None, None)) (\<lambda>_. Return None)"
  have quiet_f: "wp (watch_uses R cfg) (?f out) m (\<lambda>_ _. True)" for out m
    by (rule wp_silent_same) (auto intro!: asks_only_bind quiet split: option.split)
  have "wp (watch_uses R cfg) (deferP (run_body fuel R cfg) ?f) (\<lambda>_. unproposed) (\<lambda>_ _. True)"
    by (rule wp_deferP [OF wp_mono [OF run_body_watched]]) (rule quiet_f)+
  then show ?thesis by (simp add: Run_def run_body_watched)
qed

end
