(* ===== verification/Call_Protocol.thy ===== *)
theory Call_Protocol
  imports Run_Protocol
begin

text \<open>
  The protocol of model calls over a whole run: a call is started before the request is sent, and every
  call that was started is finished exactly once, under its own step, attempt and identifier, before the
  next one starts and before the run returns.
\<close>

named_theorems uncalled \<open>programs that ask nothing about a model call\<close>

fun about_no_call :: "question \<Rightarrow> bool" where
  "about_no_call (ModelCall_Start _) = False"
| "about_no_call (ModelCall_Finish _) = False"
| "about_no_call (Client_Stream _) = False"
| "about_no_call _ = True"

fun plain :: "question \<Rightarrow> bool" where
  \<comment> \<open>neither about a model call nor a checkpoint\<close>
  "plain (Checkpoint_Save _ _) = False"
| "plain q = about_no_call q"

lemma plain_no_call: "plain q \<Longrightarrow> about_no_call q"
  by (cases q) auto

lemma asks_only_mono: "asks_only P p \<Longrightarrow> (\<And>q. P q \<Longrightarrow> P' q) \<Longrightarrow> asks_only P' p"
  by (induction p) auto

lemma asks_only_in_turn: "(\<And>p. p \<in> set ps \<Longrightarrow> asks_only P p) \<Longrightarrow> asks_only P (in_turn ps)"
  by (induction ps) (auto intro!: asks_only_bind)

lemma asks_only_in_parallel: "(\<And>p. p \<in> set ps \<Longrightarrow> asks_only P p) \<Longrightarrow> asks_only P (in_parallel order ps)"
proof (induction order arbitrary: ps)
  case Nil
  then show ?case by (simp add: asks_only_in_turn)
next
  case (Cons i order)
  have step: "asks_only P (in_parallel order (ps[i := k r]))" if "i < length ps" "ps ! i = Ask q k" for q k r
  proof (rule Cons.IH)
    fix p assume "p \<in> set (ps[i := k r])"
    then have "p \<in> set ps \<or> p = k r" using set_update_subset_insert by fastforce
    moreover have "asks_only P (Ask q k)" using Cons.prems [OF nth_mem [OF that(1)]] that(2) by simp
    ultimately show "asks_only P p" using Cons.prems by auto
  qed
  have ask: "P q" if "i < length ps" "ps ! i = Ask q k" for q k
    using Cons.prems [OF nth_mem [OF that(1)]] that(2) by simp
  show ?case using Cons step ask by (auto split: program.split)
qed

section \<open>The execution of tools\<close>

named_theorems plainly \<open>programs that neither ask about a model call nor save a checkpoint\<close>

lemma plain_basic [plainly]:
  "asks_only plain (emit e)" "asks_only plain (emitError f)" "asks_only plain now" "asks_only plain (emit_all es)"
  by (auto simp: emit_def emitError_def now_def intro: asks_only_emit_all)

lemma plain_settle [plainly]:
  "asks_only plain (runAfterToolCallResult cfg call res)" "asks_only plain (settleToolUse cfg call res status et e)"
  "asks_only plain (settle_failure cfg call res status et e' f)"
  by (auto simp: runAfterToolCallResult_def settleToolUse_def settle_failure_def Let_def intro!: asks_only_bind plainly)

lemma plain_interrupt [plainly]: "asks_only plain (interruptToolUses cfg calls e et)"
  by (induction calls) (auto simp: Let_def intro!: asks_only_bind plainly)

lemma plain_execute [plainly]: "asks_only plain (execute_tool R cfg call t)"
  by (auto simp: execute_tool_def settle_execution_def Let_def intro!: asks_only_bind plainly)

lemma plain_authorize [plainly]: "asks_only plain (authorize_and_start R cfg call t)"
  by (auto simp: authorize_and_start_def Let_def intro!: asks_only_bind plainly)

lemma plain_executeOne [plainly]: "asks_only plain (executeOne R cfg call)"
  by (auto simp: executeOne_def execute_call_def ask_permission_def prompt_failure_def is_interruption_def Let_def
      intro!: asks_only_bind plainly)

lemma plain_batches [plainly]: "asks_only plain (run_sequential R cfg calls)" "asks_only plain (run_parallel R cfg calls)"
  by (induction calls) (auto simp: run_parallel_def intro!: asks_only_bind asks_only_in_parallel plainly)

lemma plain_propose [plainly]: "asks_only plain (propose_calls R cfg m before calls)"
  by (induction calls arbitrary: m before) (auto simp: Let_def intro!: asks_only_bind plainly)

lemma plain_toolParts [plainly]: "asks_only plain (toolPartsFromResults content results)"
proof -
  have "asks_only plain (part_from_results m p)" for m p
    by (cases p) (auto simp: settle_part_def intro!: asks_only_bind plainly)
  then show ?thesis by (simp add: toolPartsFromResults_def asks_only_mapP)
qed

lemma plain_transforms [plainly]:
  "asks_only plain (transform_history cfg r step req)" "asks_only plain (transform_context cfg step ms)"
  by (auto simp: transform_history_def transform_context_def hooked_def intro!: asks_only_bind plainly)

lemma plain_structured [plainly]: "asks_only plain (handleStructuredOutput R cfg r t)"
  by (auto simp: handleStructuredOutput_def Let_def intro!: asks_only_bind plainly)

lemma plain_stops [plainly]:
  "asks_only plain (stop_with r step reason e)" "asks_only plain (fail_with r step reason f)"
  "asks_only plain (end_turn R cfg r step t)" "asks_only plain (after_run out)"
  by (auto simp: stop_with_def fail_with_def end_turn_def after_run_def Let_def intro!: asks_only_bind plainly)

lemmas plain_uncalled [uncalled] = plainly [THEN asks_only_mono, OF plain_no_call]

section \<open>The watcher of model calls\<close>

type_synonym open_call = "(int \<times> nat \<times> string) option"

fun call_accept :: "config \<Rightarrow> open_call monitor" where
  "call_accept cfg s (ModelCall_Start i) r =
     (if s \<noteq> None then None
      else Some (case text_answer r of Inl _ \<Rightarrow> None | Inr callID \<Rightarrow> Some (csi_Step i, csi_Attempt i, callID)))"
| "call_accept cfg s (Client_Stream req) r = (if cfg_ModelCallLifecycle cfg \<and> s = None then None else Some s)"
| "call_accept cfg s (ModelCall_Finish i) r = (if s = Some (cfi_Step i, cfi_Attempt i, cfi_CallID i) then Some None else None)"
| "call_accept cfg s q r = Some s"

lemma call_ignores: "about_no_call q \<Longrightarrow> call_accept cfg s q r = Some s"
  by (cases q) auto

lemma wp_uncalled: "asks_only about_no_call p \<Longrightarrow> (\<And>a. Q s a) \<Longrightarrow> wp (call_accept cfg) p s Q"
  by (rule wp_ignored [where P = about_no_call]) (auto simp: call_ignores)

lemma wp_bind_uncalled:
  "asks_only about_no_call p \<Longrightarrow> (\<And>a. wp (call_accept cfg) (f a) s Q) \<Longrightarrow> wp (call_accept cfg) (bindP p f) s Q"
  unfolding wp_bind by (rule wp_uncalled)

lemma uncalled_now: "asks_only about_no_call now"
  by (simp add: now_def)

lemma uncalled_checkpoint [uncalled]: "asks_only about_no_call (checkpoint cfg step m)"
  by (simp add: checkpoint_def)

lemma uncalled_retain [uncalled]: "asks_only about_no_call (retainFailedAssistant cfg r step m e)"
  by (auto simp: retainFailedAssistant_def intro!: asks_only_bind uncalled)

lemma uncalled_failed_turn [uncalled]: "asks_only about_no_call (failed_turn cfg r t m e)"
  by (auto simp: failed_turn_def intro!: asks_only_bind uncalled)

lemma uncalled_waitRetry [uncalled]: "asks_only about_no_call (waitRetry d)"
  by (simp add: waitRetry_def)

lemma uncalled_drain_part [uncalled]: "asks_only about_no_call (drain_part cfg step part s)"
  by (auto simp: drain_part_def emit_part_def Let_def intro!: asks_only_bind uncalled)

lemma uncalled_drain_stream [uncalled]: "asks_only about_no_call (drain_stream cfg step parts s)"
  by (induction parts arbitrary: s) (auto intro!: asks_only_bind uncalled)

lemma uncalled_finalize [uncalled]: "asks_only about_no_call (finalizeToolTurn cfg r t m results state e)"
  by (auto simp: finalizeToolTurn_def Let_def intro!: asks_only_bind uncalled)

lemma uncalled_execute_calls [uncalled]: "asks_only about_no_call (execute_calls R cfg r t m calls)"
  by (auto simp: execute_calls_def Let_def intro!: asks_only_bind uncalled)

lemma uncalled_tool_turn [uncalled]: "asks_only about_no_call (tool_turn R cfg reg r t m)"
  by (auto simp: tool_turn_def interrupt_turn_def Let_def intro!: asks_only_bind uncalled)

lemma uncalled_finish_turn [uncalled]: "asks_only about_no_call (finish_turn R cfg reg r t m)"
  by (auto simp: finish_turn_def Let_def intro!: asks_only_bind uncalled)

definition call_of :: "config \<Rightarrow> turn \<Rightarrow> open_call" where
  \<comment> \<open>the open call of a turn whose stream is open\<close>
  "call_of cfg t = (if cfg_ModelCallLifecycle cfg then Some (trn_Step t, trn_Attempt t, trn_ModelCallID t) else None)"

lemma call_of_updates [simp]:
  "call_of cfg (t\<lparr>trn_Assistant := m\<rparr>) = call_of cfg t" "call_of cfg (t\<lparr>trn_Failure := e\<rparr>) = call_of cfg t"
  "call_of cfg (t\<lparr>trn_CompletedAt := c\<rparr>) = call_of cfg t" "call_of cfg (t\<lparr>trn_Usage := u\<rparr>) = call_of cfg t"
  "call_of cfg (t\<lparr>trn_ProviderRequestID := i\<rparr>) = call_of cfg t"
  by (simp_all add: call_of_def)

lemma settle_closes: "wp (call_accept cfg) (settleModelCall cfg t a u e) (call_of cfg t) (\<lambda>s _. s = None)"
  by (simp add: settleModelCall_def tell_def call_of_def)

lemma finish_closes: "wp (call_accept cfg) (finishModelCall cfg t m u e f) (call_of cfg t) (\<lambda>s _. s = None)"
  unfolding finishModelCall_def wp_bind by (rule wp_mono [OF settle_closes]) simp

lemma finish_then:
  assumes "s = call_of cfg t" "\<And>a. wp (call_accept cfg) (f a) None (\<lambda>s _. s = None)"
  shows "wp (call_accept cfg) (bindP (finishModelCall cfg t m u e e') f) s (\<lambda>s _. s = None)"
  unfolding wp_bind assms(1) by (rule wp_mono [OF finish_closes]) (simp add: assms(2))

lemma failed_call_closes:
  assumes "s = call_of cfg t"
  shows "wp (call_accept cfg) (failed_call cfg r t m u b e) s (\<lambda>s _. s = None)"
  unfolding failed_call_def Let_def using assms
  by (auto intro!: wp_bind_uncalled uncalled finish_then simp del: wp_bind)

lemma finish_stream_closes:
  assumes "s = call_of cfg t"
  shows "wp (call_accept cfg) (finish_stream R cfg reg r t d e final) s (\<lambda>s _. s = None)"
  unfolding finish_stream_def Let_def using assms
  by (auto intro!: wp_bind_uncalled uncalled finish_then failed_call_closes simp del: wp_bind split: option.split)
    (auto intro!: wp_uncalled uncalled)

lemma stream_turn_closes:
  assumes "s = call_of cfg t"
  shows "wp (call_accept cfg) (stream_turn R cfg reg r t m stream) s (\<lambda>s _. s = None)"
  unfolding stream_turn_def Let_def using assms
  by (auto intro!: wp_bind_uncalled uncalled finish_then finish_stream_closes simp del: wp_bind split: prod.split option.split)

lemma failed_closed: "wp (call_accept cfg) (failed_turn cfg r t m e) None (\<lambda>s _. s = None)"
  by (rule wp_uncalled) (simp_all add: uncalled)

lemma stream_asked:
  assumes "\<And>a. wp (call_accept cfg) (f a) (call_of cfg t) Q"
  shows "wp (call_accept cfg) (bindP (ask (Client_Stream req) stream_answer) f) (call_of cfg t) Q"
proof -
  have "call_accept cfg (call_of cfg t) (Client_Stream req) r = Some (call_of cfg t)" for r
    by (simp add: call_of_def)
  then show ?thesis by (simp add: assms)
qed

lemma attempts_opens:
  "wp (call_accept cfg) (attempts cfg policy req trace r step m n) None
     (\<lambda>s out. case out of Inl _ \<Rightarrow> s = None | Inr (t, _) \<Rightarrow> s = call_of cfg t)"
proof (induction n)
  case (Suc n)
  let ?Q = "\<lambda>s out. case out of Inl (_ :: turn_result) \<Rightarrow> s = None | Inr (t, _ :: stream) \<Rightarrow> s = call_of cfg t"
  let ?attempt = "rty_MaxAttempts policy - n"
  have left: "wp (call_accept cfg) (bindP p (\<lambda>res. Return (Inl res))) s ?Q"
    if "wp (call_accept cfg) p s (\<lambda>s _. s = None)" for p s
    unfolding wp_bind by (rule wp_mono [OF that]) simp
  have start: "wp (call_accept cfg) (bindP (if \<not> cfg_ModelCallLifecycle cfg then Return (Inr '''') else ask (ModelCall_Start
      \<lparr>csi_Step = step, csi_Attempt = ?attempt, csi_MessageID = mes_ID m, csi_StartedAt = t, csi_Trace = Some trace\<rparr>) text_answer) f)
      None ?Q"
    if "\<And>e. wp (call_accept cfg) (f (Inl e)) None ?Q"
      "\<And>callID. wp (call_accept cfg) (f (Inr callID)) (if cfg_ModelCallLifecycle cfg then Some (step, ?attempt, callID) else None) ?Q" for t f
    using that(1) that(2) [of "''''"] that(2) by (auto split: sum.split)

  have settle: "wp (call_accept cfg) (bindP (settleModelCall cfg t a u e) f) s ?Q"
    if "s = call_of cfg t" "\<And>x. wp (call_accept cfg) (f x) None ?Q" for t a u e f s
    unfolding wp_bind that(1) by (rule wp_mono [OF settle_closes]) (use that(2) in simp)
  let ?turn = "\<lambda>t callID. no_turn\<lparr>trn_Step := step, trn_Attempt := ?attempt, trn_Trace := Some trace, trn_StartedAt := t, trn_ModelCallID := callID\<rparr>"
  have call: "(if cfg_ModelCallLifecycle cfg then Some (step, ?attempt, i) else None) = call_of cfg (?turn t i)" for t i
    by (simp add: call_of_def)
  show ?case unfolding attempts.simps Let_def
  proof (rule wp_bind_uncalled [OF uncalled_now], rule start, goal_cases)
    case (1 t e)
    show ?case unfolding sum.case by (intro wp_bind_uncalled uncalled) (simp split: prod.split)
  next
    case (2 t callID)
    show ?case unfolding sum.case call [of _ t]
    proof (rule stream_asked, goal_cases)
      case (1 opened)
      show ?case
      proof (cases opened)
        case (Inl e)
        show ?thesis unfolding Inl sum.case using Suc
          by (auto intro!: wp_bind_uncalled [OF uncalled_now] settle left failed_call_closes simp del: wp_bind split: option.split)
            (auto intro!: wp_bind_uncalled uncalled left failed_closed simp del: wp_bind split: option.split)
      qed simp
    qed
  qed
qed simp

lemma request_turn_closes: "wp (call_accept cfg) (request_turn R cfg reg r step req) None (\<lambda>s _. s = None)"
proof -
  have opens: "wp (call_accept cfg) (bindP (attempts cfg p req trace r step msg n)
      (\<lambda>opened. case opened of Inl res \<Rightarrow> Return res | Inr (t, stream) \<Rightarrow> stream_turn R cfg reg r t msg stream)) None
      (\<lambda>s _. s = None)" for p trace msg n
    unfolding wp_bind by (rule wp_mono [OF attempts_opens]) (auto intro!: stream_turn_closes split: sum.splits)
  show ?thesis unfolding request_turn_def Let_def
    by (auto intro!: opens wp_bind_uncalled uncalled simp del: wp_bind split: option.split)
qed

lemma runTurn_closes: "wp (call_accept cfg) (runTurn R cfg reg r step) None (\<lambda>s _. s = None)"
  unfolding runTurn_def bindR_def Let_def hooked_def
  by (auto intro!: request_turn_closes wp_bind_uncalled uncalled simp del: wp_bind split: sum.split)

lemma run_loop_closes: "wp (call_accept cfg) (run_loop fuel R cfg reg r step) None (\<lambda>s _. s = None)"
proof (induction fuel arbitrary: r step)
  case (Suc fuel)
  have after: "wp (call_accept cfg) (bindP (runTurn R cfg reg r step) f) None (\<lambda>s _. s = None)"
    if "\<And>out. wp (call_accept cfg) (f out) None (\<lambda>s _. s = None)" for r step f
    unfolding wp_bind by (rule wp_mono [OF runTurn_closes]) (use that in simp)
  have stop: "wp (call_accept cfg) p None (\<lambda>s _. s = None)" if "asks_only about_no_call p" for p :: "run_outcome option program"
    using that by (rule wp_uncalled) simp
  show ?case unfolding run_loop.simps Let_def
    by (auto intro!: wp_bind_uncalled uncalled after Suc simp del: wp_bind split: option.split prod.split)
      (auto intro!: stop uncalled)
qed simp

lemma Run_closes: "wp (call_accept cfg) (Run fuel R cfg) None (\<lambda>s _. s = None)"
proof -
  have body: "wp (call_accept cfg) (run_body fuel R cfg) None (\<lambda>s _. s = None)"
    unfolding run_body_def hooked_def
    by (auto intro!: wp_bind_uncalled uncalled run_loop_closes simp del: wp_bind split: sum.split)
      (auto intro!: wp_uncalled uncalled)
  let ?f = "\<lambda>out. case out of Some None \<Rightarrow> Return None | Some (Some out) \<Rightarrow> bindP (after_run out) (\<lambda>out. Return (Some out))
    | None \<Rightarrow> bindP (after_run (None, None)) (\<lambda>_. Return None)"
  have f: "asks_only about_no_call (?f out)" for out
    by (auto intro!: asks_only_bind uncalled split: option.split)
  have "wp (call_accept cfg) (deferP (run_body fuel R cfg) ?f) None (\<lambda>s _. s = None)"
    by (rule wp_deferP [OF wp_mono [OF body]]) (simp_all only: wp_uncalled [OF f])
  then show ?thesis by (simp add: Run_def body)
qed

end
