(* ===== verification/Revision_Protocol.thy ===== *)
theory Revision_Protocol
  imports Call_Protocol
begin

text \<open>
  The protocol of checkpoints over a whole run: the snapshots of one step's message are saved with
  consecutive revisions, starting at 1, counted from the revision the checkpoint returned last; and no
  step is saved after a later one.
\<close>

named_theorems unsaved \<open>programs that save no checkpoint\<close>

type_synonym saved = "int \<times> int" \<comment> \<open>the last step that was saved, and its revision\<close>

fun rev_accept :: "saved monitor" where
  "rev_accept (before, n) (Checkpoint_Save step m) r =
     (if step = before \<and> mes_Revision m = n + 1 \<or> step > before \<and> mes_Revision m = 1
      then Some (step, case message_answer m r of Inr m' \<Rightarrow> mes_Revision m' | Inl _ \<Rightarrow> mes_Revision m) else None)"
| "rev_accept s q r = Some s"

fun no_save :: "question \<Rightarrow> bool" where
  "no_save (Checkpoint_Save _ _) = False"
| "no_save q = True"

lemma rev_ignores: "no_save q \<Longrightarrow> rev_accept s q r = Some s"
  by (cases s; cases q) auto

lemma plain_no_save: "plain q \<Longrightarrow> no_save q"
  by (cases q) auto

lemmas plain_unsaved [unsaved] = plainly [THEN asks_only_mono, OF plain_no_save]

lemma wp_unsaved: "asks_only no_save p \<Longrightarrow> (\<And>a. Q s a) \<Longrightarrow> wp rev_accept p s Q"
  by (rule wp_ignored [where P = no_save]) (auto simp: rev_ignores)

lemma wp_bind_unsaved: "asks_only no_save p \<Longrightarrow> (\<And>a. wp rev_accept (f a) s Q) \<Longrightarrow> wp rev_accept (bindP p f) s Q"
  unfolding wp_bind by (rule wp_unsaved)

lemma wp_bind_returns:
  assumes "asks_only no_save p" "returns p T" "\<And>a. T a \<Longrightarrow> wp rev_accept (f a) s Q"
  shows "wp rev_accept (bindP p f) s Q"
proof -
  have "wp rev_accept p s (\<lambda>s' a. s' = s \<and> T a)"
    using assms(1,2) by (induction p) (auto simp: rev_ignores)
  then show ?thesis unfolding wp_bind by (rule wp_mono) (use assms(3) in auto)
qed

lemma unsaved_settle [unsaved]: "asks_only no_save (settleModelCall cfg t a u e)" "asks_only no_save (finishModelCall cfg t m u e f)"
  by (auto simp: settleModelCall_def finishModelCall_def intro!: asks_only_bind)

lemma unsaved_now: "asks_only no_save now"
  by (simp add: now_def)

lemma unsaved_waitRetry [unsaved]: "asks_only no_save (waitRetry d)"
  by (simp add: waitRetry_def)

section \<open>Revisions\<close>

definition tracked :: "config \<Rightarrow> int \<Rightarrow> int \<Rightarrow> saved \<Rightarrow> bool" where
  \<comment> \<open>the revision of the local message is the one last saved\<close>
  "tracked cfg step n s \<longleftrightarrow> fst s \<le> step \<and> (cfg_MessageCheckpoint cfg \<longrightarrow> s = (step, n))"

abbreviation up_to :: "int \<Rightarrow> saved \<Rightarrow> 'a \<Rightarrow> bool" where
  "up_to step \<equiv> \<lambda>s _. fst s \<le> step"

lemma tracked_up_to: "tracked cfg step n s \<Longrightarrow> fst s \<le> step"
  by (simp add: tracked_def)

lemma revision_simps [simp]:
  "mes_Revision (next_revision m) = mes_Revision m + 1"
  "mes_Revision (mergeFinalAssistant m final) = mes_Revision m"
  "mes_Revision (final_snapshot m final u reason) = mes_Revision m"
  by (simp_all add: next_revision_def mergeFinalAssistant_def final_snapshot_def Let_def)

lemma applyStreamPart_revision: "applyStreamPart part s = Some ((m, ix), i, b) \<Longrightarrow> mes_Revision m = mes_Revision (fst s)"
  by (induction part s rule: applyStreamPart.induct)
    (auto simp: append_part_def delta_part_def end_part_def edit_part_def split: option.splits if_splits prod.splits)

lemma note_part_snapshot [simp]: "drn_snapshot (note_part part s) = drn_snapshot s"
  by (induction part s rule: note_part.induct) (auto split: option.split json.split)

lemma checkpoint_tracked:
  assumes "tracked cfg step (mes_Revision m - 1) s" "\<And>m' e s'. tracked cfg step (mes_Revision m') s' \<Longrightarrow> wp rev_accept (f (m', e)) s' Q"
  shows "wp rev_accept (bindP (checkpoint cfg step m) f) s Q"
proof (cases "cfg_MessageCheckpoint cfg")
  case True
  then have s: "s = (step, mes_Revision m - 1)" using assms(1) by (simp add: tracked_def)
  show ?thesis using True assms(2) by (auto simp: checkpoint_def s tracked_def split: sum.split)
next
  case False
  then show ?thesis using assms by (simp add: checkpoint_def tracked_def)
qed

lemma retain_tracked:
  assumes "tracked cfg step (mes_Revision m) s" "\<And>x s'. fst s' \<le> step \<Longrightarrow> wp rev_accept (f x) s' Q"
  shows "wp rev_accept (bindP (retainFailedAssistant cfg r step m e) f) s Q"
  unfolding retainFailedAssistant_def bindP_assoc
  by (rule checkpoint_tracked) (use assms in \<open>auto simp: tracked_def next_revision_def\<close>)

lemma failed_turn_tracked:
  assumes "tracked cfg (trn_Step t) (mes_Revision m) s"
  shows "wp rev_accept (failed_turn cfg r t m e) s (up_to (trn_Step t))"
  unfolding failed_turn_def by (rule retain_tracked [OF assms]) auto

lemma failed_call_tracked:
  assumes "tracked cfg (trn_Step t) (mes_Revision m) s"
  shows "wp rev_accept (failed_call cfg r t m u b e) s (up_to (trn_Step t))"
  unfolding failed_call_def by (rule retain_tracked [OF assms]) (auto simp: Let_def intro!: wp_unsaved unsaved asks_only_bind)

lemma drain_stream_tracked:
  assumes "tracked cfg step (mes_Revision (fst (drn_snapshot s))) s0"
  shows "wp rev_accept (drain_stream cfg step parts s) s0
    (\<lambda>s' (out, e). tracked cfg step (mes_Revision (fst (drn_snapshot out))) s')"
  using assms
proof (induction parts arbitrary: s s0)
  case (Cons part parts)
  have part: "wp rev_accept (drain_part cfg step part s) s0 (\<lambda>s' (out, e). tracked cfg step (mes_Revision (fst (drn_snapshot out))) s')"
  proof (cases "applyStreamPart part (drn_snapshot s)")
    case (Some x)
    obtain m ix i b where x: "x = ((m, ix), i, b)" by (metis surj_pair)
    have m: "mes_Revision m = mes_Revision (fst (drn_snapshot s))"
      using Some unfolding x by (rule applyStreamPart_revision)
    show ?thesis
    proof (cases b)
      case True
      then show ?thesis using Cons.prems m
        by (simp add: drain_part_def Some x Let_def emit_part_def emit_def del: wp_bind)
          (rule checkpoint_tracked, auto simp: rev_ignores emit_part_def emit_def split: option.split)
    next
      case False
      then show ?thesis using Cons.prems m
        by (simp add: drain_part_def Some x Let_def emit_part_def emit_def rev_ignores)
    qed
  qed (simp add: drain_part_def)
  show ?case unfolding drain_stream.simps wp_bind
    by (rule wp_mono [OF part]) (auto intro!: Cons.IH split: option.split)
qed simp

section \<open>A turn\<close>

lemma toolParts_tracked:
  assumes "\<And>content. wp rev_accept (f content) s Q"
  shows "wp rev_accept (bindP (toolPartsFromResults c results) f) s Q"
  by (rule wp_bind_unsaved) (simp_all add: unsaved assms)

lemma finalize_tracked:
  assumes "tracked cfg (trn_Step t) (mes_Revision m) s"
  shows "wp rev_accept (finalizeToolTurn cfg r t m results state e) s (up_to (trn_Step t))"
  unfolding finalizeToolTurn_def Let_def
  by (rule toolParts_tracked, rule checkpoint_tracked)
    (use assms in \<open>auto simp: tracked_def next_revision_def emit_def rev_ignores split: option.split\<close>)

lemma execute_calls_tracked:
  assumes "tracked cfg (trn_Step t) (mes_Revision m) s"
  shows "wp rev_accept (execute_calls R cfg r t m calls) s (up_to (trn_Step t))"
  unfolding execute_calls_def Let_def
  by (auto intro!: wp_bind_unsaved unsaved finalize_tracked assms tracked_up_to [OF assms] simp del: wp_bind split: option.split)

lemma interrupt_turn_tracked:
  assumes "tracked cfg (trn_Step t) (mes_Revision m) s"
  shows "wp rev_accept (interrupt_turn cfg r t m proposed e name) s (up_to (trn_Step t))"
  unfolding interrupt_turn_def by (rule wp_bind_unsaved) (auto intro!: unsaved finalize_tracked assms)

lemma propose_calls_revision:
  "returns (propose_calls R cfg m before calls) (\<lambda>(m', _). mes_Revision m' = mes_Revision m)"
proof (induction calls arbitrary: m before)
  case (Cons c cs)
  have "returns (propose_calls R cfg (m\<lparr>mes_Content := x\<rparr>) b cs) (\<lambda>(m', _). mes_Revision m' = mes_Revision m)" for x b
    using Cons [of "m\<lparr>mes_Content := x\<rparr>"] by simp
  then show ?case by (auto simp: Let_def now_def emit_def split: option.split)
qed simp

lemma tool_turn_tracked:
  assumes "tracked cfg (trn_Step t) (mes_Revision m) s"
  shows "wp rev_accept (tool_turn R cfg reg r t m) s (up_to (trn_Step t))"
proof -
  have propose: "wp rev_accept (bindP (propose_calls R cfg m' [] calls) (\<lambda>(m', proposed, e).
        case e of Some f \<Rightarrow> interrupt_turn cfg r' t m' proposed f ''proposal''
        | None \<Rightarrow>
            bindP (checkpoint cfg (trn_Step t) (next_revision (m'\<lparr>mes_Content := applyToolUseIDs (mes_Content m') proposed\<rparr>))) (\<lambda>(m, e).
               case e of
                 Some f \<Rightarrow> interrupt_turn cfg r' t m proposed f ''checkpoint''
               | None \<Rightarrow> execute_calls R cfg (replace_last m r') t m proposed))) s' (up_to (trn_Step t))"
    if "tracked cfg (trn_Step t) (mes_Revision m') s'" for m' calls r' s'
  proof (rule wp_bind_returns [OF _ propose_calls_revision])
    fix a :: "message \<times> tool_call list \<times> failure option"
    obtain m2 proposed e where a: "a = (m2, proposed, e)" by (metis prod_cases3)
    assume "case a of (m2, _) \<Rightarrow> mes_Revision m2 = mes_Revision m'"
    then have m2: "tracked cfg (trn_Step t) (mes_Revision m2) s'" using that by (simp add: a)
    then show "wp rev_accept (case a of (m', proposed, e) \<Rightarrow>
        case e of Some f \<Rightarrow> interrupt_turn cfg r' t m' proposed f ''proposal''
        | None \<Rightarrow>
            bindP (checkpoint cfg (trn_Step t) (next_revision (m'\<lparr>mes_Content := applyToolUseIDs (mes_Content m') proposed\<rparr>))) (\<lambda>(m, e).
               case e of
                 Some f \<Rightarrow> interrupt_turn cfg r' t m proposed f ''checkpoint''
               | None \<Rightarrow> execute_calls R cfg (replace_last m r') t m proposed)) s' (up_to (trn_Step t))"
      unfolding a prod.case
      by (auto intro!: interrupt_turn_tracked checkpoint_tracked execute_calls_tracked simp del: wp_bind split: option.split)
  qed (simp add: unsaved)
  show ?thesis unfolding tool_turn_def Let_def
    by (rule toolParts_tracked, rule checkpoint_tracked)
      (use assms in \<open>auto intro!: propose failed_turn_tracked execute_calls_tracked simp del: wp_bind split: option.split\<close>)
qed

lemma finish_turn_tracked:
  assumes "tracked cfg (trn_Step t) (mes_Revision m) s"
  shows "wp rev_accept (finish_turn R cfg reg r t m) s (up_to (trn_Step t))"
proof (cases "extractToolCalls m = []")
  case True
  have emit: "wp rev_accept (bindP (emit e) (\<lambda>_. Return x)) s' (up_to (trn_Step t))"
    if "tracked cfg (trn_Step t) n s'" for e x n s'
    using that by (simp add: emit_def rev_ignores tracked_def)
  show ?thesis using True unfolding finish_turn_def Let_def
    by (simp del: wp_bind) (rule checkpoint_tracked, use assms in \<open>auto intro!: failed_turn_tracked emit simp del: wp_bind split: option.split\<close>)
qed (simp add: finish_turn_def Let_def tool_turn_tracked assms)

lemma finish_stream_tracked:
  assumes "tracked cfg (trn_Step t) (mes_Revision (fst (drn_snapshot d))) s"
  shows "wp rev_accept (finish_stream R cfg reg r t d e final) s (up_to (trn_Step t))"
proof -
  have finish: "wp rev_accept (bindP (finishModelCall cfg t' m u a b) f) s' (up_to (trn_Step t))"
    if "\<And>x. wp rev_accept (f x) s' (up_to (trn_Step t))" for t' m u a b f s'
    by (rule wp_bind_unsaved) (simp_all add: unsaved that)
  have ret: "wp rev_accept (bindP (finishModelCall cfg t' m u a b) (\<lambda>e. Return (x, y, e))) s' (up_to (trn_Step t))"
    if "tracked cfg (trn_Step t) n s'" for t' m u a b x y n s'
    by (rule finish) (use that in \<open>simp add: tracked_def\<close>)
  have turn: "wp rev_accept (finish_turn R cfg reg r t' m) s' (up_to (trn_Step t))"
    if "trn_Step t' = trn_Step t" "tracked cfg (trn_Step t) (mes_Revision m) s'" for t' m r s'
    using finish_turn_tracked [of cfg t' m s'] that by simp
  have fail: "wp rev_accept (failed_call cfg r t' m u b f) s' (up_to (trn_Step t))"
    if "trn_Step t' = trn_Step t" "tracked cfg (trn_Step t) (mes_Revision m) s'" for t' m r s' u b f
    using failed_call_tracked [of cfg t' m s'] that by simp
  show ?thesis unfolding finish_stream_def Let_def
  proof (rule wp_bind_unsaved, goal_cases)
    case (2 c)
    show ?case using assms
      by (auto intro!: retain_tracked checkpoint_tracked fail simp del: wp_bind split: option.split)
        (auto intro: ret intro!: finish turn simp del: wp_bind split: option.split, auto simp: tracked_def)
  qed (simp add: unsaved)
qed

lemma stream_turn_tracked:
  assumes "tracked cfg (trn_Step t) (mes_Revision m) s"
  shows "wp rev_accept (stream_turn R cfg reg r t m stream) s (up_to (trn_Step t))"
proof -
  obtain parts e final where stream: "stream = (parts, e, final)" by (metis prod_cases3)
  let ?d = "\<lparr>drn_snapshot = (m, []), drn_usage = no_usage, drn_reason = '''', drn_requestID = ''''\<rparr>"
  have drain: "wp rev_accept (drain_stream cfg (trn_Step t) parts ?d) s
      (\<lambda>s' (out, e). tracked cfg (trn_Step t) (mes_Revision (fst (drn_snapshot out))) s')"
    by (rule drain_stream_tracked) (simp add: assms)
  show ?thesis unfolding stream_turn_def stream Let_def prod.case wp_bind
  proof (rule wp_mono [OF drain], goal_cases)
    case (1 s' out)
    obtain d f where out: "out = (d, f)" by fastforce
    have d: "tracked cfg (trn_Step t) (mes_Revision (fst (drn_snapshot d))) s'" using 1 by (simp add: out)
    show ?case
    proof (cases f)
      case None
      then show ?thesis by (simp add: out finish_stream_tracked [OF d])
    next
      case (Some g)
      show ?thesis unfolding out Some prod.case option.case wp_bind [symmetric]
        by (rule retain_tracked [OF d]) (auto simp: Let_def intro!: wp_unsaved unsaved asks_only_bind)
    qed
  qed
qed

fun opened_by :: "int \<Rightarrow> saved \<Rightarrow> saved \<Rightarrow> turn_result + turn \<times> stream \<Rightarrow> bool" where
  \<comment> \<open>what the attempts to open the stream leave behind\<close>
  "opened_by step s s' (Inl _) \<longleftrightarrow> fst s' \<le> step"
| "opened_by step s s' (Inr (t, _)) \<longleftrightarrow> s' = s \<and> trn_Step t = step"

lemma attempts_tracked:
  assumes "tracked cfg step (mes_Revision m) s"
  shows "wp rev_accept (attempts cfg policy req trace r step m n) s
     (opened_by step s)"
proof (induction n)
  case (Suc n)
  have left: "wp rev_accept (bindP p (\<lambda>res. Return (Inl res))) s (opened_by step s)"
    if "wp rev_accept p s (up_to step)" for p
    unfolding wp_bind by (rule wp_mono [OF that]) simp
  have turn: "wp rev_accept (failed_turn cfg r t m e) s (up_to step)" if "trn_Step t = step" for t e
    using failed_turn_tracked [of cfg t m s] that assms by simp
  have call: "wp rev_accept (failed_call cfg r t m u b e) s (up_to step)" if "trn_Step t = step" for t u b e
    using failed_call_tracked [of cfg t m s] that assms by simp
  have retain: "wp rev_accept (bindP (retainFailedAssistant cfg r step m e) (\<lambda>(r, m, f). Return (Inl (r, no_turn, Some f)))) s (opened_by step s)" for e
    by (rule retain_tracked [OF assms]) (simp split: prod.split)
  have start: "asks_only no_save (if b then Return x else ask (ModelCall_Start i) f)" for b x i and f :: "answer \<Rightarrow> failure + string"
    by simp
  show ?case unfolding attempts.simps Let_def
  proof (rule wp_bind_unsaved [OF unsaved_now], rule wp_bind_unsaved [OF start], goal_cases)
    case (1 t started)
    show ?case
    proof (cases started)
      case (Inl e)
      show ?thesis unfolding Inl sum.case by (rule retain)
    next
      case (Inr callID)
      show ?thesis unfolding Inr sum.case
      proof (rule wp_bind_unsaved, goal_cases)
        case (2 opened)
        show ?case
        proof (cases opened)
          case (Inl e)
          show ?thesis unfolding Inl sum.case using Suc
            by (auto intro!: wp_bind_unsaved [OF unsaved_now] wp_bind_unsaved [OF unsaved_settle(1)] wp_bind_unsaved [OF unsaved_waitRetry]
                left turn call simp del: wp_bind split: option.split)
        qed (simp add: no_turn_def)
      qed simp
    qed
  qed
qed (simp add: assms)

section \<open>The run\<close>

lemma request_turn_tracked:
  assumes "fst s < step"
  shows "wp rev_accept (request_turn R cfg reg r step req) s (up_to step)"
proof -
  have opens: "wp rev_accept (bindP (attempts cfg p req trace r step m n)
      (\<lambda>opened. case opened of Inl res \<Rightarrow> Return res | Inr (t, stream) \<Rightarrow> stream_turn R cfg reg r t m stream)) s' (up_to step)"
    if "tracked cfg step (mes_Revision m) s'" for p trace m n s'
    unfolding wp_bind
  proof (rule wp_mono [OF attempts_tracked [OF that]], goal_cases)
    case (1 s2 out)
    show ?case
    proof (cases out)
      case (Inr x)
      obtain t st where x: "x = (t, st)" by (cases x)
      then show ?thesis using 1 stream_turn_tracked [of cfg t m s' R reg r st] that by (simp add: Inr)
    qed (use 1 in auto)
  qed
  have after: "wp rev_accept (case x of (m, Some f) \<Rightarrow> bindP (retainFailedAssistant cfg r step m f) (\<lambda>(r, _, f). Return (r, no_turn, Some f))
      | (m, None) \<Rightarrow> bindP (if cfg_LowersOptions cfg then ask (Client_LoweredOptions req) flag_answer else Return False) (\<lambda>lowered.
         bindP (attempts cfg (normalizedRetryPolicy (cfg_Retry cfg)) req (NewCallTrace (rl_lib R) req lowered) r step m
             (rty_MaxAttempts (normalizedRetryPolicy (cfg_Retry cfg)))) (\<lambda>opened.
         case opened of Inl res \<Rightarrow> Return res | Inr (t, stream) \<Rightarrow> stream_turn R cfg reg r t m stream))) s' (up_to step)"
    if "tracked cfg step (mes_Revision (fst x)) s'" for x s'
  proof -
    obtain m e where x: "x = (m, e)" by fastforce
    show ?thesis
    proof (cases e)
      case None
      show ?thesis unfolding x None prod.case option.case
        by (rule wp_bind_unsaved, simp) (rule opens, use that in \<open>simp add: x\<close>)
    next
      case (Some f)
      show ?thesis unfolding x Some prod.case option.case
        by (rule retain_tracked) (use that in \<open>auto simp: x\<close>)
    qed
  qed
  have first: "mes_Revision first_snapshot = 1" by (simp add: first_snapshot_def plain_message_def)
  show ?thesis
  proof (cases "cfg_MessageCheckpoint cfg")
    case True
    obtain before n where s: "s = (before, n)" by fastforce
    have "wp rev_accept (checkpoint cfg step first_snapshot) s (\<lambda>s' x. tracked cfg step (mes_Revision (fst x)) s')"
      using True assms first by (auto simp: s checkpoint_def tracked_def split: sum.split)
    then show ?thesis unfolding request_turn_def wp_bind [of _ "checkpoint cfg step first_snapshot"]
      by (rule wp_mono) (rule after)
  next
    case False
    have "wp rev_accept (checkpoint cfg step first_snapshot) s (\<lambda>s' x. tracked cfg step (mes_Revision (fst x)) s')"
      using False assms by (simp add: checkpoint_def tracked_def)
    then show ?thesis unfolding request_turn_def wp_bind [of _ "checkpoint cfg step first_snapshot"]
      by (rule wp_mono) (rule after)
  qed
qed

lemma runTurn_tracked:
  assumes "fst s < int step"
  shows "wp rev_accept (runTurn R cfg reg r step) s (up_to (int step))"
  unfolding runTurn_def bindR_def Let_def hooked_def
  using assms
  by (auto intro!: request_turn_tracked wp_bind_unsaved unsaved simp del: wp_bind split: sum.split)

lemma run_loop_tracked: "fst s \<le> int step \<Longrightarrow> wp rev_accept (run_loop fuel R cfg reg r step) s (\<lambda>_ _. True)"
proof (induction fuel arbitrary: r step s)
  case (Suc fuel)
  have before: "fst s < int (Suc step)" using Suc.prems by simp
  have after: "wp rev_accept (bindP (runTurn R cfg reg r (Suc step)) f) s (\<lambda>_ _. True)"
    if "\<And>out s'. fst s' \<le> int (Suc step) \<Longrightarrow> wp rev_accept (f out) s' (\<lambda>_ _. True)" for f
    unfolding wp_bind by (rule wp_mono [OF runTurn_tracked [OF before]]) (rule that)
  have stop: "wp rev_accept p s' (\<lambda>_ _. True)" if "asks_only no_save p" for p :: "run_outcome option program" and s'
    using that by (rule wp_unsaved) simp
  have rest: "wp rev_accept (run_loop fuel R cfg reg r' (Suc step)) s' (\<lambda>_ _. True)" if "fst s' \<le> int (Suc step)" for r' s'
    using that by (rule Suc.IH)
  show ?case unfolding run_loop.simps Let_def Suc_eq_plus1 [symmetric]
    by (auto intro!: wp_bind_unsaved unsaved after rest simp del: wp_bind split: option.split prod.split)
      (auto intro!: stop unsaved)
qed simp

lemma Run_tracked: "wp rev_accept (Run fuel R cfg) (0, 0) (\<lambda>_ _. True)"
proof -
  have body: "wp rev_accept (run_body fuel R cfg) (0, 0) (\<lambda>_ _. True)"
    unfolding run_body_def hooked_def
    by (auto intro!: wp_bind_unsaved unsaved run_loop_tracked simp del: wp_bind split: sum.split)
      (auto intro!: wp_unsaved unsaved)
  let ?f = "\<lambda>out. case out of Some None \<Rightarrow> Return None | Some (Some out) \<Rightarrow> bindP (after_run out) (\<lambda>out. Return (Some out))
    | None \<Rightarrow> bindP (after_run (None, None)) (\<lambda>_. Return None)"
  have f: "asks_only no_save (?f out)" for out
    by (auto intro!: asks_only_bind unsaved split: option.split)
  have "wp rev_accept (deferP (run_body fuel R cfg) ?f) (0, 0) (\<lambda>_ _. True)"
    by (rule wp_deferP [OF wp_mono [OF body]]) (rule wp_unsaved [OF f], simp)+
  then show ?thesis by (simp add: Run_def body)
qed

end
