(* ===== verification/Stream_Properties.thy ===== *)
theory Stream_Properties
  imports Revision_Protocol
begin

text \<open>
  The loop over the provider's stream: it fails on a stream exactly when a delta names a block of another
  kind, and the text of a block is the concatenation of its deltas, whatever comes in between.
\<close>

section \<open>The parts of a stream\<close>

fun apply_all :: "stream_part list \<Rightarrow> message \<times> indexes \<Rightarrow> (message \<times> indexes) option" where
  \<comment> \<open>the snapshot without checkpoints\<close>
  "apply_all [] s = Some s"
| "apply_all (p # ps) s = (case applyStreamPart p s of
     None \<Rightarrow> None
   | Some ((m, ix), _, changed) \<Rightarrow> apply_all ps (if changed then next_revision m else m, ix))"

lemma apply_all_append: "apply_all (ps @ qs) s = (case apply_all ps s of None \<Rightarrow> None | Some t \<Rightarrow> apply_all qs t)"
  by (induction ps arbitrary: s) (auto split: option.split prod.split)

lemma play_bind: "play env d (bindP p f) = (case play env d p of
    (d', None) \<Rightarrow> (d', None) | (d', Some a) \<Rightarrow> play env d' (f a))"
  by (induction p arbitrary: d) (simp_all add: Let_def)

lemma part_of_block_new: "applyStreamPart p s = Some ((m, ix), i, True) \<Longrightarrow> map_of ix (streamPartProviderID p) = Some n
    \<Longrightarrow> n < length (mes_Content m) \<Longrightarrow> part_of_block (next_revision m) ix p \<noteq> None"
  by (simp add: part_of_block_def next_revision_def)

definition well_indexed :: "message \<times> indexes \<Rightarrow> bool" where
  \<comment> \<open>every block has a part of its own\<close>
  "well_indexed s \<longleftrightarrow> (\<forall>i n. map_of (snd s) i = Some n \<longrightarrow> n < length (mes_Content (fst s)) \<and>
     (\<forall>j. map_of (snd s) j = Some n \<longrightarrow> j = i))"

lemma well_indexed_append:
  assumes "well_indexed (m, ix)"
  shows "well_indexed (m\<lparr>mes_Content := mes_Content m @ [p]\<rparr>, AList.update i (length (mes_Content m)) ix)"
  unfolding well_indexed_def
proof (intro allI impI)
  fix j n
  assume "map_of (snd (m\<lparr>mes_Content := mes_Content m @ [p]\<rparr>, AList.update i (length (mes_Content m)) ix)) j = Some n"
  then have j: "if j = i then n = length (mes_Content m) else map_of ix j = Some n" by (auto split: if_splits)
  have old: "k < length (mes_Content m)" if "map_of ix l = Some k" for l k
    using assms that by (simp add: well_indexed_def)
  have same: "l = j" if "map_of ix l = Some n" "map_of ix j = Some n" for l
    using assms that by (auto simp: well_indexed_def)
  show "n < length (mes_Content (fst (m\<lparr>mes_Content := mes_Content m @ [p]\<rparr>, AList.update i (length (mes_Content m)) ix))) \<and>
      (\<forall>l. map_of (snd (m\<lparr>mes_Content := mes_Content m @ [p]\<rparr>, AList.update i (length (mes_Content m)) ix)) l = Some n \<longrightarrow> l = j)"
  proof (intro conjI allI impI)
    show "n < length (mes_Content (fst (m\<lparr>mes_Content := mes_Content m @ [p]\<rparr>, AList.update i (length (mes_Content m)) ix)))"
      using j old [of j n] by (cases "j = i") simp_all
  next
    fix l
    assume "map_of (snd (m\<lparr>mes_Content := mes_Content m @ [p]\<rparr>, AList.update i (length (mes_Content m)) ix)) l = Some n"
    then have l: "if l = i then n = length (mes_Content m) else map_of ix l = Some n" by (simp split: if_splits)
    show "l = j"
      using j l old [of l n] old [of j n] same [of l] by (cases "j = i"; cases "l = i") simp_all
  qed
qed

lemma well_indexed_revision [simp]: "well_indexed (next_revision m, ix) = well_indexed (m, ix)"
  by (simp add: well_indexed_def next_revision_def)

lemma edit_part_Some:
  "edit_part f n m = Some m' \<longleftrightarrow> n < length (mes_Content m) \<and> (\<exists>p. f (mes_Content m ! n) = Some p \<and> m' = m\<lparr>mes_Content := (mes_Content m)[n := p]\<rparr>)"
  by (auto simp: edit_part_def)

lemma well_indexed_edit: "well_indexed (m, ix) \<Longrightarrow> edit_part f n m = Some m' \<Longrightarrow> well_indexed (m', ix)"
  by (auto simp: edit_part_Some well_indexed_def)

lemma applyStreamPart_indexed:
  assumes "well_indexed s" "applyStreamPart p s = Some (s', i, changed)"
  shows "well_indexed s' \<and> (changed \<longrightarrow> (\<exists>n. map_of (snd s') (streamPartProviderID p) = Some n)) \<and> (changed \<longrightarrow> i = streamPartProviderID p)"
  using assms
  by (induction p s rule: applyStreamPart.induct)
    (auto simp: delta_part_def end_part_def append_part_def
      intro: well_indexed_edit well_indexed_append split: option.splits if_splits prod.splits)

text \<open>Without checkpoints the loop is this fold, for every environment.\<close>

lemma drain_apply_all:
  assumes "\<not> cfg_MessageCheckpoint cfg" "well_indexed (drn_snapshot s)"
  shows "map_option (\<lambda>(s', e). (drn_snapshot s', e)) (snd (play env d (drain_stream cfg step parts s)))
    = map_option (\<lambda>t. (t, None)) (apply_all parts (drn_snapshot s))"
  using assms(2)
proof (induction parts arbitrary: s d)
  case (Cons p ps)
  have emit: "\<exists>d'. play env d (bindP (emit_part step m i p) f) = play env d' (f ())" for d m i and f :: "unit \<Rightarrow> (drain \<times> failure option) program"
    by (auto simp: emit_part_def emit_def ask_def Let_def)
  show ?case
  proof (cases "applyStreamPart p (drn_snapshot s)")
    case None
    then show ?thesis by (simp add: drain_part_def)
  next
    case (Some x)
    obtain m ix i changed where x: "x = ((m, ix), i, changed)" by (metis surj_pair)
    note idx = applyStreamPart_indexed [OF Cons.prems Some [unfolded x]]
    let ?m = "if changed then next_revision m else m"
    have "\<exists>d'. play env d (drain_part cfg step p s) = (d', Some ((note_part p s)\<lparr>drn_snapshot := (?m, ix)\<rparr>, None))"
    proof (cases changed)
      case False
      then show ?thesis using emit [of d m i "\<lambda>_. Return _"] by (simp add: drain_part_def Some x)
    next
      case True
      obtain n where "map_of ix i = Some n" "n < length (mes_Content m)" "i = streamPartProviderID p"
        using idx True by (auto simp: well_indexed_def)
      then have "part_of_block (next_revision m) ix p \<noteq> None"
        by (simp add: part_of_block_def next_revision_def)
      then obtain j where "(if i = '''' then Some '''' else part_of_block (next_revision m) ix p) = Some j" by (cases "i = ''''") auto
      then show ?thesis using True assms(1) emit [of d "next_revision m" j "\<lambda>_. Return _"]
        by (simp add: drain_part_def Some x checkpoint_def)
    qed
    then obtain d' where part: "play env d (drain_part cfg step p s) = (d', Some ((note_part p s)\<lparr>drn_snapshot := (?m, ix)\<rparr>, None))"
      by blast
    have "well_indexed (?m, ix)" using idx by simp
    then show ?thesis using Cons.IH [of "(note_part p s)\<lparr>drn_snapshot := (?m, ix)\<rparr>" d']
      by (simp add: play_bind part Some x)
  qed
qed simp

section \<open>Kinds of blocks\<close>

datatype block_kind = TextBlock | ReasoningBlock | ToolBlock

fun kind_of :: "part \<Rightarrow> block_kind option" where
  "kind_of (TextPart _) = Some TextBlock"
| "kind_of (ReasoningPart _) = Some ReasoningBlock"
| "kind_of (ToolPart _ _) = Some ToolBlock"
| "kind_of _ = None"

type_synonym kinds = "string \<Rightarrow> block_kind option"

fun kinds_after :: "kinds \<Rightarrow> stream_part \<Rightarrow> kinds" where
  \<comment> \<open>the kind of the block with an identifier is that of its latest start\<close>
  "kinds_after K (TextStartPart i _) = K(i \<mapsto> TextBlock)"
| "kinds_after K (ReasoningStartPart i _) = K(i \<mapsto> ReasoningBlock)"
| "kinds_after K (ToolInputStartPart i _ _) = K(i \<mapsto> ToolBlock)"
| "kinds_after K (StreamToolCallPart i _ _ _ _) = (if K i = None then K(i \<mapsto> ToolBlock) else K)"
| "kinds_after K _ = K"

fun fits :: "kinds \<Rightarrow> stream_part \<Rightarrow> bool" where
  \<comment> \<open>a delta belongs to a block of its kind or to no block\<close>
  "fits K (TextDeltaPart i _ _) \<longleftrightarrow> K i = None \<or> K i = Some TextBlock"
| "fits K (ReasoningDeltaPart i _ _) \<longleftrightarrow> K i = None \<or> K i = Some ReasoningBlock"
| "fits K (ToolInputDeltaPart i _ _) \<longleftrightarrow> K i = None \<or> K i = Some ToolBlock"
| "fits K _ \<longleftrightarrow> True"

fun well_kinded :: "kinds \<Rightarrow> stream_part list \<Rightarrow> bool" where
  "well_kinded K [] \<longleftrightarrow> True"
| "well_kinded K (p # ps) \<longleftrightarrow> fits K p \<and> well_kinded (kinds_after K p) ps"

definition block_kinds :: "message \<times> indexes \<Rightarrow> kinds" where
  "block_kinds s i = (case map_of (snd s) i of None \<Rightarrow> None | Some n \<Rightarrow> kind_of (mes_Content (fst s) ! n))"

definition blocks_ok :: "message \<times> indexes \<Rightarrow> bool" where
  "blocks_ok s \<longleftrightarrow> well_indexed s \<and> (\<forall>i n. map_of (snd s) i = Some n \<longrightarrow> kind_of (mes_Content (fst s) ! n) \<noteq> None)"

lemma block_kinds_append:
  assumes "well_indexed (m, ix)"
  shows "block_kinds (m\<lparr>mes_Content := mes_Content m @ [p]\<rparr>, AList.update i (length (mes_Content m)) ix)
    = (block_kinds (m, ix))(i := kind_of p)"
proof
  fix j
  have "n < length (mes_Content m)" if "map_of ix j = Some n" for n using assms that by (simp add: well_indexed_def)
  then show "block_kinds (m\<lparr>mes_Content := mes_Content m @ [p]\<rparr>, AList.update i (length (mes_Content m)) ix) j
    = ((block_kinds (m, ix))(i := kind_of p)) j"
    by (auto simp: block_kinds_def nth_append split: option.split)
qed

lemma block_kinds_edit:
  assumes "edit_part f n m = Some m'" "\<And>p p'. f p = Some p' \<Longrightarrow> kind_of p' = kind_of p"
  shows "block_kinds (m', ix) = block_kinds (m, ix)"
proof
  fix j
  obtain p where p: "n < length (mes_Content m)" "f (mes_Content m ! n) = Some p" "m' = m\<lparr>mes_Content := (mes_Content m)[n := p]\<rparr>"
    using assms(1) by (auto simp: edit_part_Some)
  then show "block_kinds (m', ix) j = block_kinds (m, ix) j"
    using assms(2) [OF p(2)] by (auto simp: block_kinds_def nth_list_update split: option.split)
qed

lemma edits_keep_kind:
  "text_delta d pm p = Some p' \<Longrightarrow> kind_of p' = kind_of p"
  "reasoning_delta d pm p = Some p' \<Longrightarrow> kind_of p' = kind_of p"
  "input_delta d pm p = Some p' \<Longrightarrow> kind_of p' = kind_of p"
  "set_call c name inp ex pm p = Some p' \<Longrightarrow> kind_of p' = kind_of p"
  by (cases p; auto)+

lemma deltas_defined:
  "text_delta d pm p = None \<longleftrightarrow> kind_of p \<noteq> Some TextBlock"
  "reasoning_delta d pm p = None \<longleftrightarrow> kind_of p \<noteq> Some ReasoningBlock"
  "input_delta d pm p = None \<longleftrightarrow> kind_of p \<noteq> Some ToolBlock"
  by (cases p; simp)+

lemma blocks_ok_iff: "blocks_ok s \<longleftrightarrow> well_indexed s \<and> (\<forall>i. (map_of (snd s) i = None) = (block_kinds s i = None))"
  by (auto simp: blocks_ok_def block_kinds_def split: option.splits)

lemma delta_kinds:
  assumes "blocks_ok s" "\<And>p p'. f p = Some p' \<Longrightarrow> kind_of p' = kind_of p" "\<And>p. f p = None \<longleftrightarrow> kind_of p \<noteq> Some k"
  shows "(delta_part i f s = None \<longleftrightarrow> \<not> (block_kinds s i = None \<or> block_kinds s i = Some k))
    \<and> (\<forall>s' j c. delta_part i f s = Some (s', j, c) \<longrightarrow> block_kinds s' = block_kinds s)"
proof -
  obtain m ix where s: "s = (m, ix)" by fastforce
  show ?thesis
  proof (cases "map_of ix i")
    case None
    then show ?thesis by (simp add: s delta_part_def block_kinds_def)
  next
    case (Some n)
    have n: "n < length (mes_Content m)" "kind_of (mes_Content m ! n) \<noteq> None"
      using assms(1) Some by (auto simp: blocks_ok_def well_indexed_def s)
    have k: "block_kinds s i = kind_of (mes_Content m ! n)" using Some by (simp add: block_kinds_def s)
    have "block_kinds (m', ix) = block_kinds (m, ix)" if "edit_part f n m = Some m'" for m'
      using that assms(2) by (rule block_kinds_edit)
    moreover have "edit_part f n m = None \<longleftrightarrow> kind_of (mes_Content m ! n) \<noteq> Some k" using n(1) assms(3) by (simp add: edit_part_def)
    ultimately show ?thesis using Some n(2) by (auto simp: s delta_part_def k [unfolded s])
  qed
qed

lemma applyStreamPart_kinds:
  assumes "blocks_ok s"
  shows "(applyStreamPart p s = None \<longleftrightarrow> \<not> fits (block_kinds s) p)
    \<and> (\<forall>s' j c. applyStreamPart p s = Some (s', j, c) \<longrightarrow> block_kinds s' = kinds_after (block_kinds s) p)"
proof -
  obtain m ix where s: "s = (m, ix)" by fastforce
  have w: "well_indexed (m, ix)" using assms by (simp add: blocks_ok_def s)
  note new = block_kinds_append [OF w]
  show ?thesis
  proof (cases p)
    case (TextDeltaPart i d pm)
    then show ?thesis using delta_kinds [OF assms edits_keep_kind(1) deltas_defined(1)] by simp
  next
    case (ReasoningDeltaPart i d pm)
    then show ?thesis using delta_kinds [OF assms edits_keep_kind(2) deltas_defined(2)] by simp
  next
    case (ToolInputDeltaPart i d pm)
    then show ?thesis using delta_kinds [OF assms edits_keep_kind(3) deltas_defined(3)] by simp
  next
    case (StreamToolCallPart i name inp ex pm)
    have n: "n < length (mes_Content m)" if "map_of ix i = Some n" for n using w that by (simp add: well_indexed_def)
    have k: "map_of ix i = None \<longleftrightarrow> block_kinds (m, ix) i = None"
      using assms unfolding blocks_ok_iff s by simp
    show ?thesis using n k unfolding StreamToolCallPart s
      by (auto simp: append_part_def new new_tool_def block_kinds_edit [OF _ edits_keep_kind(4)] split: option.splits)
  qed (auto simp: s append_part_def end_part_def new new_tool_def split: option.splits)
qed

lemma kinds_after_dom: "K i \<noteq> None \<Longrightarrow> kinds_after K p i \<noteq> None"
  by (cases p) auto

lemma applyStreamPart_blocks:
  assumes "blocks_ok s" "applyStreamPart p s = Some (s', i, c)"
  shows "blocks_ok s'"
proof -
  have w: "well_indexed s'" using applyStreamPart_indexed [OF _ assms(2)] assms(1) by (simp add: blocks_ok_def)
  have k: "block_kinds s' = kinds_after (block_kinds s) p" using applyStreamPart_kinds [OF assms(1)] assms(2) by blast
  have old: "map_of (snd s) j = None \<longleftrightarrow> block_kinds s j = None" for j using assms(1) by (simp add: blocks_ok_iff)
  obtain m ix where s: "s = (m, ix)" by fastforce
  have "map_of (snd s') j = None \<longleftrightarrow> kinds_after (block_kinds s) p j = None" for j
    using assms(2) old unfolding s
    by (cases p) (auto simp: append_part_def end_part_def delta_part_def split: option.splits if_splits)
  then show ?thesis using w k by (simp add: blocks_ok_iff)
qed

lemma apply_all_kinds: "blocks_ok s \<Longrightarrow> apply_all ps s = None \<longleftrightarrow> \<not> well_kinded (block_kinds s) ps"
proof (induction ps arbitrary: s)
  case (Cons p ps)
  have revision: "blocks_ok (next_revision m, ix) = blocks_ok (m, ix)" "block_kinds (next_revision m, ix) = block_kinds (m, ix)" for m ix
    by (auto simp: blocks_ok_def well_indexed_def block_kinds_def next_revision_def fun_eq_iff split: option.split)
  show ?case
  proof (cases "applyStreamPart p s")
    case None
    then show ?thesis using applyStreamPart_kinds [OF Cons.prems, of p] by simp
  next
    case (Some x)
    obtain m ix i c where x: "x = ((m, ix), i, c)" by (metis surj_pair)
    have "blocks_ok (m, ix)" using applyStreamPart_blocks [OF Cons.prems Some [unfolded x]] .
    then have ok: "blocks_ok (if c then next_revision m else m, ix)" by (simp add: revision)
    have k: "block_kinds (if c then next_revision m else m, ix) = kinds_after (block_kinds s) p"
      using applyStreamPart_kinds [OF Cons.prems, of p] Some by (simp add: x revision)
    have "fits (block_kinds s) p" using applyStreamPart_kinds [OF Cons.prems, of p] Some by auto
    then show ?thesis using Cons.IH [OF ok] by (simp add: Some x k)
  qed
qed simp

section \<open>The text of a block\<close>

fun starts_block :: "string \<Rightarrow> stream_part \<Rightarrow> bool" where
  \<comment> \<open>the part starts a block with the identifier, or may replace its content\<close>
  "starts_block i (TextStartPart j _) \<longleftrightarrow> j = i"
| "starts_block i (ReasoningStartPart j _) \<longleftrightarrow> j = i"
| "starts_block i (ToolInputStartPart j _ _) \<longleftrightarrow> j = i"
| "starts_block i _ \<longleftrightarrow> False"

fun text_delta_of :: "string \<Rightarrow> stream_part \<Rightarrow> string" where
  "text_delta_of i (TextDeltaPart j d _) = (if j = i then d else '''')"
| "text_delta_of i _ = ''''"

definition text_block :: "string \<Rightarrow> message \<times> indexes \<Rightarrow> string \<Rightarrow> bool" where
  \<comment> \<open>the block with the identifier is a text part with this text\<close>
  "text_block i s text \<longleftrightarrow> (\<exists>n t. map_of (snd s) i = Some n \<and> n < length (mes_Content (fst s)) \<and>
     mes_Content (fst s) ! n = TextPart t \<and> txt_Text t = text)"

lemma text_block_append:
  "text_block i (m, ix) text \<Longrightarrow> j \<noteq> i \<Longrightarrow> text_block i (m\<lparr>mes_Content := mes_Content m @ [p]\<rparr>, AList.update j (length (mes_Content m)) ix) text"
  by (auto simp: text_block_def nth_append)

lemma text_block_edit_other:
  assumes "text_block i (m, ix) text" "well_indexed (m, ix)" "map_of ix j = Some n" "j \<noteq> i" "edit_part f n m = Some m'"
  shows "text_block i (m', ix) text"
proof -
  obtain k t where k: "map_of ix i = Some k" "k < length (mes_Content m)" "mes_Content m ! k = TextPart t" "txt_Text t = text"
    using assms(1) by (auto simp: text_block_def)
  have "k \<noteq> n" using assms(2,3,4) k(1) by (auto simp: well_indexed_def)
  then show ?thesis using k assms(5) by (auto simp: text_block_def edit_part_Some)
qed

lemma text_block_step:
  assumes "text_block i s text" "well_indexed s" "\<not> starts_block i p" "applyStreamPart p s = Some (s', j, c)"
  shows "text_block i s' (text @ text_delta_of i p)"
proof -
  obtain m ix where s: "s = (m, ix)" by fastforce
  obtain k t where k: "map_of ix i = Some k" "k < length (mes_Content m)" "mes_Content m ! k = TextPart t" "txt_Text t = text"
    using assms(1) by (auto simp: text_block_def s)
  have delta: "text_block i s' text" if d: "delta_part l f (m, ix) = Some (s', j, c)" "l \<noteq> i \<or> f (TextPart t) = None" for l f
  proof (cases "map_of ix l")
    case None
    then show ?thesis using d assms(1) by (simp add: delta_part_def s)
  next
    case (Some n)
    then obtain m' where m': "edit_part f n m = Some m'" "s' = (m', ix)" using d(1) by (auto simp: delta_part_def)
    have "l \<noteq> i" using d(2) m'(1) Some k by (auto simp: edit_part_Some)
    then show ?thesis using text_block_edit_other [OF assms(1,2) [unfolded s] Some _ m'(1)] by (simp add: m'(2))
  qed
  show ?thesis
  proof (cases p)
    case (TextDeltaPart l d pm)
    show ?thesis
    proof (cases "l = i")
      case True
      then show ?thesis using assms(4) k
        by (auto simp: TextDeltaPart s delta_part_def edit_part_def text_block_def)
    qed (use assms(4) delta in \<open>simp add: TextDeltaPart s\<close>)
  next
    case (StreamToolCallPart l name inp ex pm)
    show ?thesis
    proof (cases "map_of ix l")
      case None
      then have "l \<noteq> i" using k by auto
      then show ?thesis using assms(1,4) None unfolding s
        by (simp add: StreamToolCallPart append_part_def) (blast intro: text_block_append)
    next
      case (Some n)
      have keep: "text_block i (m', ix) text" if "l \<noteq> i" "edit_part (set_call l name inp ex pm) n m = Some m'" for m'
        using assms(1,2) Some that unfolding s by (rule text_block_edit_other)
      have "edit_part (set_call l name inp ex pm) n m = None" if "l = i" using that Some k by (simp add: edit_part_def)
      then show ?thesis using assms(1,4) Some keep unfolding s
        by (cases "l = i") (auto simp: StreamToolCallPart split: option.splits if_splits)
    qed
  qed (use assms(1,3,4) delta in \<open>auto simp: s append_part_def end_part_def intro: text_block_append split: option.splits\<close>)
qed

lemma text_block_all:
  assumes "text_block i s u" "well_indexed s" "\<not> list_ex (starts_block i) ps" "apply_all ps s = Some s'"
  shows "text_block i s' (u @ concat (map (text_delta_of i) ps))"
  using assms
proof (induction ps arbitrary: s u)
  case (Cons p ps)
  obtain m ix j c where p: "applyStreamPart p s = Some ((m, ix), j, c)" "apply_all ps (if c then next_revision m else m, ix) = Some s'"
    using Cons.prems(4) by (auto split: option.splits)
  let ?s = "(if c then next_revision m else m, ix)"
  have "text_block i (m, ix) (u @ text_delta_of i p)"
    using text_block_step [OF Cons.prems(1,2) _ p(1)] Cons.prems(3) by simp
  then have t: "text_block i ?s (u @ text_delta_of i p)" by (simp add: text_block_def next_revision_def)
  have w: "well_indexed ?s" using applyStreamPart_indexed [OF Cons.prems(2) p(1)] by simp
  have "\<not> list_ex (starts_block i) ps" using Cons.prems(3) by simp
  from Cons.IH [OF t w this p(2)] show ?case by simp
qed simp

end
