(* ===== verification/Content_Properties.thy ===== *)
theory Content_Properties
  imports Model_Content
begin

text \<open>
  What a provider is sent does not depend on the way the tool calls of a history are stored: expanding the
  tool parts of canonical messages, folding the expansion back and expanding again is the expansion.
\<close>

fun no_bare_call :: "part \<Rightarrow> bool" where
  "no_bare_call (ToolCallPart _) = False"
| "no_bare_call _ = True"

fun resolved_tools :: "content \<Rightarrow> tool_part list" where
  "resolved_tools [] = []"
| "resolved_tools (ToolPart t _ # ps) = (if tool_resolved t then t # resolved_tools ps else resolved_tools ps)"
| "resolved_tools (_ # ps) = resolved_tools ps"

fun told_apart :: "tool_part list \<Rightarrow> bool" where
  \<comment> \<open>no tool part answers to the call of a later one\<close>
  "told_apart [] \<longleftrightarrow> True"
| "told_apart (t # ts) \<longleftrightarrow> (\<forall>u \<in> set ts. \<not> same_tool u t) \<and> told_apart ts"

definition canonical :: "message \<Rightarrow> bool" where
  "canonical m \<longleftrightarrow> mes_Role m \<noteq> RoleTool \<and> list_all no_bare_call (mes_Content m) \<and> told_apart (resolved_tools (mes_Content m))"

definition round_tool :: "tool_part \<Rightarrow> content \<Rightarrow> tool_part" where
  \<comment> \<open>a resolved tool part after both ways\<close>
  "round_tool t output = keep_tool_fields (result_tool (expand_result t) (expand_output t output)) (pending_tool (expand_call t))"

lemma round_tool_simps [simp]:
  "tool_resolved (round_tool t output)" "expand_call (round_tool t output) = expand_call t"
  "tool_resolved t \<Longrightarrow> expand_result (round_tool t output) = expand_result t"
  "tpt_CallID (round_tool t output) = tpt_CallID t" "tpt_ToolUseID (round_tool t output) = tpt_ToolUseID t"
  by (auto simp: round_tool_def keep_tool_fields_def result_tool_def expand_result_def pending_tool_def expand_call_def
      tool_resolved_def tool_state_defs Let_def)

lemma expand_output_idem [simp]: "expand_output u (expand_output t output) = expand_output t output"
  by (simp add: expand_output_def)

fun round_parts :: "content \<Rightarrow> content" where
  \<comment> \<open>the content after both ways\<close>
  "round_parts [] = []"
| "round_parts (ToolPart t output # ps) =
     (if tool_resolved t then ToolPart (round_tool t output) (expand_output t output) # round_parts ps else round_parts ps)"
| "round_parts (p # ps) = p # round_parts ps"

lemma expand_round: "list_all no_bare_call ps \<Longrightarrow> expand_parts (round_parts ps) =
    (case expand_parts ps of (c, rs, u) \<Rightarrow> (c, rs, False))"
  by (induction ps rule: round_parts.induct) (auto simp: Let_def split: prod.splits)

definition answers :: "tool_part \<Rightarrow> part \<Rightarrow> bool" where
  "answers t p \<longleftrightarrow> (case p of ToolPart u _ \<Rightarrow> same_tool t u | _ \<Rightarrow> False)"

lemma replace_in_content_at:
  "\<forall>p \<in> set done_parts. \<not> answers tool p \<Longrightarrow> same_tool tool current \<Longrightarrow>
    replace_in_content tool output (done_parts @ ToolPart current out # ps) = Some (done_parts @ ToolPart (keep_tool_fields tool current) output # ps)"
proof (induction done_parts)
  case (Cons p qs)
  then show ?case by (cases p) (auto simp: answers_def)
qed simp

lemma replaceToolPart_last:
  assumes "mes_Role m = RoleAssistant" "replace_in_content tool output (mes_Content m) = Some content"
  shows "replaceToolPart (out @ [m]) tool output = Some (out @ [m\<lparr>mes_Content := content\<rparr>])"
  using assms by (simp add: replaceToolPart_def)

lemma same_tool_ids: "tpt_ToolUseID a = tpt_ToolUseID b \<Longrightarrow> tpt_CallID a = tpt_CallID b \<Longrightarrow>
    tpt_ToolUseID c = tpt_ToolUseID d \<Longrightarrow> tpt_CallID c = tpt_CallID d \<Longrightarrow> same_tool a c = same_tool b d"
  by (simp add: same_tool_def)

lemma result_tool_ids [simp]:
  "tpt_ToolUseID (result_tool (expand_result t) out) = tpt_ToolUseID t"
  "tpt_CallID (result_tool (expand_result t) out) = tpt_CallID t"
  "tpt_ToolUseID (pending_tool (expand_call t)) = tpt_ToolUseID t" "tpt_CallID (pending_tool (expand_call t)) = tpt_CallID t"
  by (simp_all add: result_tool_def expand_result_def pending_tool_def expand_call_def Let_def)

lemma fold_results:
  assumes "mes_Role m = RoleAssistant" "list_all no_bare_call ps" "told_apart (resolved_tools ps)"
    "\<forall>t \<in> set (resolved_tools ps). \<forall>p \<in> set done_parts. \<not> answers t p"
    "expand_parts ps = (c, rs, u)"
  shows "foldl fold_result (out @ [m\<lparr>mes_Content := done_parts @ normalizeToolCalls c\<rparr>]) rs
    = out @ [m\<lparr>mes_Content := done_parts @ round_parts ps\<rparr>]"
  using assms(2-)
proof (induction ps arbitrary: done_parts c rs u)
  case Nil
  then show ?case by (simp add: normalizeToolCalls_def)
next
  case (Cons p ps)
  obtain c1 rs1 u1 where e: "expand_parts ps = (c1, rs1, u1)" by (metis prod_cases3)
  have next_part: "foldl fold_result (out @ [m\<lparr>mes_Content := (done_parts @ [q]) @ normalizeToolCalls c1\<rparr>]) rs1
      = out @ [m\<lparr>mes_Content := (done_parts @ [q]) @ round_parts ps\<rparr>]"
    if "told_apart (resolved_tools ps)" "\<forall>t \<in> set (resolved_tools ps). \<forall>p \<in> set (done_parts @ [q]). \<not> answers t p" for q
    using Cons.IH [OF _ that e] Cons.prems(1) by simp
  show ?case
  proof (cases p)
    case (ToolPart t body)
    show ?thesis
    proof (cases "tool_resolved t")
      case False
      then show ?thesis using Cons.IH [OF _ _ _ e, of done_parts] Cons.prems by (auto simp: ToolPart e)
    next
      case True
      let ?r = "result_tool (expand_result t) (expand_output t body)" and ?current = "pending_tool (expand_call t)"
      have apart: "\<forall>u \<in> set (resolved_tools ps). \<not> same_tool u t" "told_apart (resolved_tools ps)"
        using Cons.prems(2) True by (auto simp: ToolPart)
      have same: "same_tool ?r ?current" by (simp add: same_tool_def)
      have "\<forall>p \<in> set done_parts. \<not> answers ?r p"
      proof
        fix p assume "p \<in> set done_parts"
        then have "\<not> answers t p" using Cons.prems(3) True by (simp add: ToolPart)
        then show "\<not> answers ?r p" by (auto simp: answers_def same_tool_def split: part.splits)
      qed
      then have step: "fold_result (out @ [m\<lparr>mes_Content := done_parts @ ToolPart ?current [] # normalizeToolCalls c1\<rparr>])
          (ToolResultPart (expand_result t) (expand_output t body))
        = out @ [m\<lparr>mes_Content := done_parts @ ToolPart (round_tool t body) (expand_output t body) # normalizeToolCalls c1\<rparr>]"
        using replaceToolPart_last [of "m\<lparr>mes_Content := done_parts @ ToolPart ?current [] # normalizeToolCalls c1\<rparr>"]
          replace_in_content_at [OF _ same] assms(1) by (simp add: round_tool_def)
      have "\<forall>v \<in> set (resolved_tools ps). \<forall>p \<in> set (done_parts @ [ToolPart (round_tool t body) (expand_output t body)]). \<not> answers v p"
        using Cons.prems(3) True apart(1) by (auto simp: ToolPart answers_def same_tool_def)
      from next_part [OF apart(2) this]
      show ?thesis using Cons.prems(4) True step
        by (auto simp: ToolPart e normalizeToolCalls_def)
    qed
  qed (use Cons.prems e next_part [of p] in \<open>auto simp: normalizeToolCalls_def answers_def\<close>)
qed

definition round_message :: "message \<Rightarrow> message list" where
  \<comment> \<open>the messages a message becomes, both ways\<close>
  "round_message m =
     (if mes_Role m \<noteq> RoleAssistant then [m]
      else case expand_parts (mes_Content m) of (c, rs, u) \<Rightarrow>
        if u \<and> c = [] then [] else [m\<lparr>mes_Content := round_parts (mes_Content m)\<rparr>])"

lemma normalizeToolCalls_id: "list_all no_bare_call ps \<Longrightarrow> normalizeToolCalls ps = ps"
  unfolding normalizeToolCalls_def by (induction ps) (auto split: part.splits)

lemma normalize_expanded:
  assumes "canonical m"
  shows "foldl normalize_message out (expand_message m) = out @ round_message m"
proof (cases "mes_Role m = RoleAssistant")
  case False
  then show ?thesis using assms
    by (simp add: canonical_def expand_message_def round_message_def normalize_message_def normalizeToolCalls_id)
next
  case True
  obtain c rs u where e: "expand_parts (mes_Content m) = (c, rs, u)" by (metis prod_cases3)
  have fold: "foldl fold_result (out @ [m\<lparr>mes_Content := normalizeToolCalls c\<rparr>]) rs
      = out @ [m\<lparr>mes_Content := round_parts (mes_Content m)\<rparr>]"
    using fold_results [OF True _ _ _ e, of "[]" out] assms by (simp add: canonical_def)
  have roles: "RoleAssistant \<noteq> RoleTool" by (simp add: role_defs)
  show ?thesis using True fold roles
    by (cases "rs = []") (simp_all add: expand_message_def round_message_def e normalize_message_def plain_message_def)
qed

lemma expand_round_message:
  assumes "canonical m"
  shows "concat (map expand_message (round_message m)) = expand_message m"
proof -
  obtain c rs u where e: "expand_parts (mes_Content m) = (c, rs, u)" by (metis prod_cases3)
  have "expand_parts (round_parts (mes_Content m)) = (c, rs, False)"
    using expand_round [of "mes_Content m"] assms by (simp add: canonical_def e)
  then show ?thesis using e by (auto simp: round_message_def expand_message_def)
qed

lemma normalize_all:
  assumes "list_all canonical ms"
  shows "foldl normalize_message out (concat (map expand_message ms)) = out @ concat (map round_message ms)"
  using assms by (induction ms arbitrary: out) (simp_all add: foldl_append normalize_expanded)

lemma expand_normalize_expand:
  assumes "list_all canonical ms"
  shows "ExpandToolMessages (NormalizeMessages (ExpandToolMessages ms)) = ExpandToolMessages ms"
proof -
  have "NormalizeMessages (ExpandToolMessages ms) = concat (map round_message ms)"
    using normalize_all [OF assms, of "[]"] by (simp add: NormalizeMessages_def ExpandToolMessages_def)
  moreover have "concat (map expand_message (concat (map round_message ms))) = concat (map expand_message ms)"
    using assms by (induction ms) (simp_all add: expand_round_message)
  ultimately show ?thesis by (simp add: ExpandToolMessages_def)
qed

end
