(* ===== verification/Run_Outcome.thy ===== *)
theory Run_Outcome
  imports Run_Protocol
begin

text \<open>
  What a run returns: a turn adds one message at most to the history and leaves the turns before it
  alone, the loop stops for one of four reasons, and within its limit of steps.
\<close>

section \<open>A turn\<close>

definition grown :: "runner \<Rightarrow> runner \<Rightarrow> bool" where
  \<comment> \<open>a message more at most\<close>
  "grown r r' \<longleftrightarrow> (\<exists>ms. length ms \<le> 1 \<and> rnr_messages r' = rnr_messages r @ ms) \<and> rnr_turns r' = rnr_turns r
     \<and> rnr_structuredOutput r' = rnr_structuredOutput r"

definition grown_by_one :: "runner \<Rightarrow> runner \<Rightarrow> bool" where
  "grown_by_one r r' \<longleftrightarrow> (\<exists>m. rnr_messages r' = rnr_messages r @ [m]) \<and> rnr_turns r' = rnr_turns r
     \<and> rnr_structuredOutput r' = rnr_structuredOutput r"

lemma grown_by_one_grown: "grown_by_one r r' \<Longrightarrow> grown r r'"
  by (force simp: grown_by_one_def grown_def)

lemma grown_simps [simp]:
  "grown r r" "grown_by_one r (r\<lparr>rnr_messages := rnr_messages r @ [m]\<rparr>)"
  "grown_by_one r r' \<Longrightarrow> grown_by_one r (replace_last m r')"
  "grown (r\<lparr>rnr_usage := u\<rparr>) r' = grown r r'" "grown_by_one (r\<lparr>rnr_usage := u\<rparr>) r' = grown_by_one r r'"
  by (auto simp: grown_def grown_by_one_def replace_last_def)

abbreviation turn_grows :: "runner \<Rightarrow> turn_result program \<Rightarrow> bool" where
  "turn_grows r p \<equiv> returns p (\<lambda>(r', _). grown r r')"

lemma returns_bind: "returns p T \<Longrightarrow> (\<And>a. T a \<Longrightarrow> returns (f a) T') \<Longrightarrow> returns (bindP p f) T'"
  by (simp add: returns_mono)

lemma returns_bind_any: "(\<And>a. returns (f a) T') \<Longrightarrow> returns (bindP p f) T'"
  by (rule returns_bind [OF returns_True])

lemma retain_grows: "returns (retainFailedAssistant cfg r step m e) (\<lambda>(r', _). grown_by_one r r')"
  unfolding retainFailedAssistant_def by (rule returns_bind_any) (simp split: prod.split)

lemma failed_turn_grows: "turn_grows r (failed_turn cfg r t m e)"
  unfolding failed_turn_def by (rule returns_bind [OF retain_grows]) (auto simp: grown_by_one_grown)

lemma failed_call_grows: "turn_grows r (failed_call cfg r t m u b e)"
  unfolding failed_call_def Let_def
  by (rule returns_bind [OF retain_grows]) (auto intro!: returns_bind_any simp: grown_by_one_grown simp del: returns_simps(4))

lemma finalize_grows: "grown_by_one r r' \<Longrightarrow> turn_grows r (finalizeToolTurn cfg r' t m results state e)"
  unfolding finalizeToolTurn_def Let_def
  by (auto intro!: returns_bind_any simp: grown_by_one_grown simp del: returns_simps(4) split: option.split)

lemma execute_calls_grows: "grown_by_one r r' \<Longrightarrow> turn_grows r (execute_calls R cfg r' t m calls)"
  unfolding execute_calls_def Let_def
  by (auto intro!: returns_bind_any finalize_grows simp: grown_by_one_grown simp del: returns_simps(4) split: option.split)

lemma tool_turn_grows: "turn_grows r (tool_turn R cfg reg r t m)"
  unfolding tool_turn_def interrupt_turn_def Let_def
  by (auto intro!: returns_bind_any finalize_grows execute_calls_grows failed_turn_grows simp del: returns_simps(4) split: option.split)

lemma finish_turn_grows: "turn_grows r (finish_turn R cfg reg r t m)"
proof -
  let ?r = "r\<lparr>rnr_usage := add_usage (rnr_usage r) (trn_Usage t)\<rparr>"
  have "turn_grows r (tool_turn R cfg reg ?r t m)" for m
    using tool_turn_grows [where r = ?r] by simp
  moreover have "turn_grows r (failed_turn cfg ?r t m e)" for m e
    using failed_turn_grows [where r = ?r] by simp
  moreover have "grown r (?r\<lparr>rnr_messages := rnr_messages r @ [m]\<rparr>)" for m
    by (auto simp: grown_def)
  ultimately show ?thesis unfolding finish_turn_def Let_def
    by (auto intro!: returns_bind_any simp del: returns_simps(4) split: option.split)
qed

lemma finish_stream_grows: "turn_grows r (finish_stream R cfg reg r t d e final)"
proof -
  have retain: "turn_grows r (bindP (retainFailedAssistant cfg r s m x) f)"
    if "\<And>r' m' y. grown_by_one r r' \<Longrightarrow> turn_grows r (f (r', m', y))" for s m x f
    by (rule returns_bind [OF retain_grows]) (use that in auto)
  show ?thesis unfolding finish_stream_def Let_def
    by (rule returns_bind_any, auto intro!: retain simp del: returns_simps(4) split: option.split)
      (auto intro!: returns_bind_any failed_call_grows finish_turn_grows simp: grown_by_one_grown
        simp del: returns_simps(4) split: option.split)
qed

lemma stream_turn_grows: "turn_grows r (stream_turn R cfg reg r t m stream)"
proof -
  have retain: "turn_grows r (bindP (retainFailedAssistant cfg r s m x) f)"
    if "\<And>r' m' y. grown_by_one r r' \<Longrightarrow> turn_grows r (f (r', m', y))" for s m x f
    by (rule returns_bind [OF retain_grows]) (use that in auto)
  show ?thesis unfolding stream_turn_def Let_def
    by (auto split: prod.split simp del: returns_simps(4), rule returns_bind_any,
        auto intro!: retain finish_stream_grows simp del: returns_simps(4) split: option.split)
      (auto intro!: returns_bind_any simp: grown_by_one_grown simp del: returns_simps(4))
qed

fun left_grown :: "runner \<Rightarrow> turn_result + turn \<times> stream \<Rightarrow> bool" where
  "left_grown r (Inl (r', _)) \<longleftrightarrow> grown r r'"
| "left_grown r (Inr _) \<longleftrightarrow> True"

lemma attempts_grow: "returns (attempts cfg policy req trace r step m n) (left_grown r)"
proof (induction n)
  case (Suc n)
  have left: "returns (bindP p (\<lambda>res. Return (Inl res))) (left_grown r)" if "turn_grows r p" for p
    by (rule returns_bind [OF that]) auto
  have retain: "returns (bindP (retainFailedAssistant cfg r step m e) (\<lambda>(r, m, f). Return (Inl (r, no_turn, Some f)))) (left_grown r)" for e
    by (rule returns_bind [OF retain_grows]) (auto simp: grown_by_one_grown)
  show ?case unfolding attempts.simps Let_def
  proof (rule returns_bind_any, rule returns_bind_any, goal_cases)
    case (1 t started)
    show ?case
    proof (cases started)
      case (Inl e)
      show ?thesis unfolding Inl sum.case by (rule retain)
    next
      case (Inr callID)
      show ?thesis unfolding Inr sum.case
      proof (rule returns_bind_any, goal_cases)
        case (1 opened)
        show ?case
        proof (cases opened)
          case (Inl e)
          show ?thesis unfolding Inl sum.case using Suc
            by (intro returns_bind_any [where p = now])
              (auto intro!: left [OF failed_turn_grows] left [OF failed_call_grows]
                returns_bind_any [where p = "settleModelCall cfg t' a' u' e'" for t' a' u' e']
                returns_bind_any [where p = "waitRetry d" for d] simp del: returns_simps(4) split: option.split)
        qed simp
      qed
    qed
  qed
qed simp

lemma request_turn_grows: "turn_grows r (request_turn R cfg reg r step req)"
proof -
  have retain: "turn_grows r (bindP (retainFailedAssistant cfg r step m e) (\<lambda>(r, _, f). Return (r, no_turn, Some f)))" for m e
    by (rule returns_bind [OF retain_grows]) (auto simp: grown_by_one_grown)
  have opens: "turn_grows r (bindP (attempts cfg p req trace r step msg n)
      (\<lambda>opened. case opened of Inl res \<Rightarrow> Return res | Inr (t, stream) \<Rightarrow> stream_turn R cfg reg r t msg stream))" for p trace msg n
    by (rule returns_bind [OF attempts_grow]) (auto simp: stream_turn_grows split: sum.splits)
  show ?thesis unfolding request_turn_def
  proof (rule returns_bind_any, goal_cases)
    case (1 saved)
    obtain m e where saved: "saved = (m, e)" by fastforce
    show ?case
    proof (cases e)
      case None
      show ?thesis unfolding saved None prod.case option.case by (intro returns_bind_any opens)
    next
      case (Some f)
      show ?thesis unfolding saved Some prod.case option.case by (rule retain)
    qed
  qed
qed

lemma transform_history_off:
  "\<not> hk_TransformHistory (cfg_Hooks cfg) \<Longrightarrow> transform_history cfg r step req = Return (Inr r)"
  by (simp add: transform_history_def hooked_def)

definition rewritten :: "config \<Rightarrow> runner \<Rightarrow> runner \<Rightarrow> bool" where
  \<comment> \<open>the history after a turn, which a hook may have rewritten before it\<close>
  "rewritten cfg r r' \<longleftrightarrow> rnr_turns r' = rnr_turns r \<and> rnr_structuredOutput r' = rnr_structuredOutput r \<and>
     (\<not> hk_TransformHistory (cfg_Hooks cfg) \<longrightarrow> (\<exists>ms. length ms \<le> 1 \<and> rnr_messages r' = rnr_messages r @ ms))"

lemma runTurn_rewrites: "returns (runTurn R cfg reg r step) (\<lambda>(r', _). rewritten cfg r r')"
proof -
  have same: "rewritten cfg r r" by (simp add: rewritten_def exI [of _ "[]"])
  have history: "returns (transform_history cfg r step req) (\<lambda>a. case a of Inl _ \<Rightarrow> True
      | Inr r' \<Rightarrow> rnr_turns r' = rnr_turns r \<and> rnr_structuredOutput r' = rnr_structuredOutput r
          \<and> (\<not> hk_TransformHistory (cfg_Hooks cfg) \<longrightarrow> r' = r))" for req
    by (auto simp: transform_history_def hooked_def emit_def split: sum.split option.split)
  have turn: "returns (request_turn R cfg reg r' (int step) req) (\<lambda>(r2, _). rewritten cfg r r2)"
    if "rnr_turns r' = rnr_turns r" "rnr_structuredOutput r' = rnr_structuredOutput r"
      "\<not> hk_TransformHistory (cfg_Hooks cfg) \<longrightarrow> r' = r" for r' req
    by (rule returns_mono [OF request_turn_grows]) (use that in \<open>auto simp: rewritten_def grown_def\<close>)
  have R: "returns (bindR p r f) (\<lambda>(r2, _). rewritten cfg r r2)"
    if "returns p (\<lambda>a. case a of Inl _ \<Rightarrow> True | Inr x \<Rightarrow> returns (f x) (\<lambda>(r2, _). rewritten cfg r r2))" for p f
    unfolding bindR_def by (rule returns_bind [OF that]) (auto simp: same split: sum.splits)
  have any: "returns (bindR p r f) (\<lambda>(r2, _). rewritten cfg r r2)"
    if "\<And>x. returns (f x) (\<lambda>(r2, _). rewritten cfg r r2)" for p f
    by (rule R) (rule returns_mono [OF returns_True], auto simp: that split: sum.splits)
  show ?thesis unfolding runTurn_def Let_def
  proof (rule any, rule any, rule any, rule R, goal_cases)
    case (1 system tools tokens)
    show ?case
    proof (rule returns_mono [OF history], goal_cases)
      case (1 a)
      show ?case
      proof (cases a)
        case (Inr r')
        then have r': "rnr_turns r' = rnr_turns r" "rnr_structuredOutput r' = rnr_structuredOutput r"
          "\<not> hk_TransformHistory (cfg_Hooks cfg) \<longrightarrow> r' = r" using 1 by simp_all
        have "rewritten cfg r r'" using r' by (auto simp: rewritten_def)
        then show ?thesis unfolding Inr sum.case bindR_def
          by (intro returns_bind_any) (auto simp: turn [OF r'] split: sum.split)
      qed simp
    qed
  qed
qed

section \<open>The run\<close>

definition reason_ok :: "config \<Rightarrow> run_result \<Rightarrow> failure option \<Rightarrow> bool" where
  \<comment> \<open>why the loop stopped, and whether it returns an error\<close>
  "reason_ok cfg res e \<longleftrightarrow>
     (if e = None
      then rrs_StopReason res = StopReasonEndTurn \<and> rrs_Turns res \<noteq> [] \<and> trn_Results (last (rrs_Turns res)) = []
        \<or> rrs_StopReason res = StopReasonMaxSteps \<and> 0 < cfg_MaxSteps cfg \<and> cfg_MaxSteps cfg \<le> rrs_Steps res
      else rrs_StopReason res = StopReasonAborted \<or> rrs_StopReason res = StopReasonError)"

fun loop_outcome :: "config \<Rightarrow> nat \<Rightarrow> runner \<Rightarrow> run_outcome option \<Rightarrow> bool" where
  \<comment> \<open>what the loop makes of a runner after so many steps\<close>
  "loop_outcome cfg step r None \<longleftrightarrow> True"
| "loop_outcome cfg step r (Some (None, e)) \<longleftrightarrow> False"
| "loop_outcome cfg step r (Some (Some res, e)) \<longleftrightarrow>
     step \<le> rrs_Steps res \<and> (0 < cfg_MaxSteps cfg \<and> step \<le> cfg_MaxSteps cfg \<longrightarrow> rrs_Steps res \<le> cfg_MaxSteps cfg) \<and>
     (\<exists>ts. rrs_Turns res = rnr_turns r @ ts \<and> step + length ts \<le> rrs_Steps res) \<and>
     (\<not> hk_TransformHistory (cfg_Hooks cfg) \<longrightarrow>
        (\<exists>ms. rrs_Messages res = rnr_messages r @ ms \<and> step + length ms \<le> rrs_Steps res)) \<and>
     reason_ok cfg res e"

lemma loop_outcome_step:
  assumes "loop_outcome cfg (Suc step) r2 out" "rewritten cfg r r1" "rnr_messages r2 = rnr_messages r1"
    "rnr_turns r2 = rnr_turns r1 @ ts" "length ts \<le> 1" "0 < cfg_MaxSteps cfg \<longrightarrow> step < cfg_MaxSteps cfg"
  shows "loop_outcome cfg step r out"
proof (cases out)
  case (Some x)
  obtain res e where out: "out = Some (Some res, e)" using assms(1) Some by (cases x; cases "fst x") auto
  obtain us where us: "rrs_Turns res = (rnr_turns r @ ts) @ us" "Suc step + length us \<le> rrs_Steps res"
    using assms(1,2,4) by (auto simp: out rewritten_def)
  have "\<exists>ts. rrs_Turns res = rnr_turns r @ ts \<and> step + length ts \<le> rrs_Steps res"
    using us assms(5) by (intro exI [of _ "ts @ us"]) simp
  moreover have "\<exists>ms. rrs_Messages res = rnr_messages r @ ms \<and> step + length ms \<le> rrs_Steps res"
    if "\<not> hk_TransformHistory (cfg_Hooks cfg)"
  proof -
    have "\<exists>ms'. rrs_Messages res = rnr_messages r2 @ ms' \<and> Suc step + length ms' \<le> rrs_Steps res"
      using assms(1) that by (simp add: out)
    moreover have "\<exists>ms. length ms \<le> 1 \<and> rnr_messages r1 = rnr_messages r @ ms" using assms(2) that by (simp add: rewritten_def)
    ultimately obtain ms ms' where "rrs_Messages res = rnr_messages r2 @ ms'" "Suc step + length ms' \<le> rrs_Steps res"
      "length ms \<le> 1" "rnr_messages r1 = rnr_messages r @ ms" by blast
    then show ?thesis using assms(3) by (intro exI [of _ "ms @ ms'"]) simp
  qed
  ultimately show ?thesis using assms(1,6) by (auto simp: out)
qed simp

lemma stop_outcome:
  "reason_ok cfg (finalize r step reason) e \<Longrightarrow> returns (stop_with r step reason e) (loop_outcome cfg step r)"
  by (simp add: stop_with_def finalize_def)

lemma fail_outcome:
  "reason = StopReasonAborted \<or> reason = StopReasonError \<Longrightarrow> returns (fail_with r step reason e) (loop_outcome cfg step r)"
  by (auto simp: fail_with_def emitError_def emit_def stop_with_def finalize_def reason_ok_def)

lemma end_turn_outcome:
  assumes "rnr_turns r \<noteq> []" "last (rnr_turns r) = t" "trn_Results t = []"
  shows "returns (end_turn R cfg r step t) (loop_outcome cfg step r)"
proof -
  have "returns (handleStructuredOutput R cfg r t) (\<lambda>a. case a of Inl _ \<Rightarrow> True
      | Inr r' \<Rightarrow> rnr_messages r' = rnr_messages r \<and> rnr_turns r' = rnr_turns r)"
    by (auto simp: handleStructuredOutput_def Let_def emit_def split: option.split sum.split)
  then show ?thesis unfolding end_turn_def
    by (rule returns_bind)
      (use assms fail_outcome in \<open>auto simp: stop_with_def finalize_def reason_ok_def split: sum.splits\<close>)
qed

lemma run_loop_outcome: "returns (run_loop fuel R cfg reg r step) (loop_outcome cfg step r)"
proof (induction fuel arbitrary: r step)
  case (Suc fuel)
  have lift: "returns p (loop_outcome cfg step r)"
    if "returns p (loop_outcome cfg (Suc step) r2)" "rewritten cfg r r1" "rnr_messages r2 = rnr_messages r1"
      "rnr_turns r2 = rnr_turns r1 @ ts" "length ts \<le> 1" "0 < cfg_MaxSteps cfg \<longrightarrow> step < cfg_MaxSteps cfg" for p r1 r2 ts
    by (rule returns_mono [OF that(1)]) (rule loop_outcome_step [OF _ that(2-6)])
  have same: "rewritten cfg r r" by (simp add: rewritten_def exI [of _ "[]"])
  show ?case unfolding run_loop.simps Let_def Suc_eq_plus1 [symmetric]
  proof (rule returns_bind_any, goal_cases)
    case (1 ended)
    show ?case
    proof (cases ended)
      case (Some e)
      then show ?thesis by (simp add: stop_outcome reason_ok_def finalize_def)
    next
      case None
      show ?thesis
      proof (cases "0 < cfg_MaxSteps cfg \<and> cfg_MaxSteps cfg \<le> step")
        case True
        then show ?thesis by (simp add: None stop_outcome reason_ok_def finalize_def)
      next
        case False
        then have limit: "0 < cfg_MaxSteps cfg \<longrightarrow> step < cfg_MaxSteps cfg" by linarith
        note lift0 = lift [OF _ same refl, where ts = "[]", simplified, OF _ limit]
        have turn: "returns (case out of (r, t, Some f) \<Rightarrow>
              let r = if trn_StartedAt t \<noteq> 0 then r\<lparr>rnr_turns := rnr_turns r @ [t]\<rparr> else r
              in fail_with r (Suc step) (if is_canceled f \<or> is_deadline f then StopReasonAborted else StopReasonError) f
            | (r, t, None) \<Rightarrow>
              let r = r\<lparr>rnr_turns := rnr_turns r @ [t]\<rparr>
              in bindP (emit (IterationEndEvent (Suc step) t)) (\<lambda>_.
                   bindP (tell (hk_OnTurnEnd (cfg_Hooks cfg)) (Hook_OnTurnEnd (Suc step) t)) (\<lambda>endErr. case endErr of
                     Some f \<Rightarrow> fail_with r (Suc step) StopReasonError f
                   | None \<Rightarrow> if trn_Results t = [] then end_turn R cfg r (Suc step) t else run_loop fuel R cfg reg r (Suc step))))
            (loop_outcome cfg step r)"
          if "case out of (r', _) \<Rightarrow> rewritten cfg r r'" for out
        proof -
          obtain r1 t e where out: "out = (r1, t, e)" by (metis prod_cases3)
          have r1: "rewritten cfg r r1" using that by (simp add: out)
          note lift1 = lift [OF _ r1 _ _ _ limit]
          show ?thesis
          proof (cases e)
            case (Some f)
            show ?thesis unfolding out Some prod.case option.case Let_def
              by (rule lift1 [OF fail_outcome, where ts = "if trn_StartedAt t \<noteq> 0 then [t] else []"]) auto
          next
            case None
            show ?thesis unfolding out None prod.case option.case Let_def
              by (rule lift1 [where ts = "[t]" and ?r2.0 = "r1\<lparr>rnr_turns := rnr_turns r1 @ [t]\<rparr>"], intro returns_bind_any)
                (auto intro: fail_outcome end_turn_outcome Suc split: option.split)
          qed
        qed
        show ?thesis unfolding None option.case if_not_P [OF False]
        proof (rule returns_bind_any, goal_cases)
          case (1 startErr)
          show ?case
          proof (cases startErr)
            case None
            show ?thesis unfolding None option.case by (rule returns_bind_any, rule returns_bind [OF runTurn_rewrites turn [unfolded Let_def]])
          next
            case (Some e)
            show ?thesis unfolding Some option.case by (rule lift0 [OF fail_outcome]) simp
          qed
        qed
      qed
    qed
  qed
qed simp

lemma run_loop_returns:
  assumes "0 < cfg_MaxSteps cfg" "step \<le> cfg_MaxSteps cfg" "cfg_MaxSteps cfg < step + fuel"
  shows "returns (run_loop fuel R cfg reg r step) (\<lambda>out. out \<noteq> None)"
  using assms(2,3)
proof (induction fuel arbitrary: r step)
  case (Suc fuel)
  have stop: "returns (stop_with r' s reason e) (\<lambda>out. out \<noteq> None)" "returns (fail_with r' s reason f) (\<lambda>out. out \<noteq> None)"
    "returns (end_turn R cfg r' s t) (\<lambda>out. out \<noteq> None)" for r' s reason e f t
    by (auto simp: stop_with_def fail_with_def end_turn_def split: sum.split intro!: returns_bind_any simp del: returns_simps(4))
  have rest: "returns (run_loop fuel R cfg reg r' (Suc step)) (\<lambda>out. out \<noteq> None)" if "\<not> cfg_MaxSteps cfg \<le> step" for r'
    using Suc.prems that by (intro Suc.IH) simp_all
  show ?case unfolding run_loop.simps Let_def Suc_eq_plus1 [symmetric]
    using assms(1) by (auto intro!: returns_bind_any stop rest simp del: returns_simps(4) not_None_eq split: option.split prod.split)
qed simp

lemma returns_deferP:
  "returns p (\<lambda>a. returns (f (Some a)) T) \<Longrightarrow> returns (deferP p f) T"
proof (induction p)
  case Panic
  show ?case by (simp add: returns_bind_any del: returns_simps(4))
qed simp_all

definition start_of :: "config \<Rightarrow> runner \<Rightarrow> bool" where
  \<comment> \<open>the runner a run starts from\<close>
  "start_of cfg r \<longleftrightarrow> rnr_turns r = [] \<and> (\<not> hk_BeforeRun (cfg_Hooks cfg) \<longrightarrow> rnr_messages r = cfg_Messages cfg)"

definition loop_result :: "config \<Rightarrow> run_result \<Rightarrow> failure option \<Rightarrow> bool" where
  \<comment> \<open>what the loop makes of the runner a run starts from\<close>
  "loop_result cfg res e \<longleftrightarrow> (\<exists>r. start_of cfg r \<and> loop_outcome cfg 0 r (Some (Some res, e)))"

fun run_outcome_ok :: "config \<Rightarrow> run_outcome option \<Rightarrow> bool" where
  \<comment> \<open>what a run returns: no result if it could not start, or the result of the loop\<close>
  "run_outcome_ok cfg None \<longleftrightarrow> True"
| "run_outcome_ok cfg (Some (None, e)) \<longleftrightarrow> e \<noteq> None \<and> \<not> hk_AfterRun (cfg_Hooks cfg)"
| "run_outcome_ok cfg (Some (Some res, e)) \<longleftrightarrow>
     (\<exists>e0. (e0 = e \<or> hk_AfterRun (cfg_Hooks cfg) \<and> e \<noteq> None) \<and>
       (hk_AfterRun (cfg_Hooks cfg) \<and> res = no_run_result \<and> e0 \<noteq> None \<or> loop_result cfg res e0))"

lemma run_body_outcome:
  "returns (run_body fuel R cfg) (\<lambda>out. case out of None \<Rightarrow> True | Some (None, e) \<Rightarrow> e \<noteq> None
     | Some (Some res, e) \<Rightarrow> loop_result cfg res e)"
proof -
  have loop: "returns p (\<lambda>out. case out of None \<Rightarrow> True | Some (None, e) \<Rightarrow> e \<noteq> None
     | Some (Some res, e) \<Rightarrow> loop_result cfg res e)"
    if "returns p (loop_outcome cfg 0 r)" "start_of cfg r" for p r
    by (rule returns_mono [OF that(1)]) (use that(2) in \<open>auto simp: loop_result_def split: option.split prod.split\<close>)
  have start: "start_of cfg (new_runner ms)" if "\<not> hk_BeforeRun (cfg_Hooks cfg) \<longrightarrow> ms = cfg_Messages cfg" for ms
    using that by (simp add: start_of_def new_runner_def)
  show ?thesis
  proof (cases "run_checks R cfg")
    case (Inr reg)
    have hook: "returns (hooked (hk_BeforeRun (cfg_Hooks cfg)) (Hook_BeforeRun (cfg_Messages cfg)) messages_answer None ''BeforeRun'')
        (\<lambda>a. \<not> hk_BeforeRun (cfg_Hooks cfg) \<longrightarrow> a = Inr None)"
      by (simp add: hooked_def)
    show ?thesis unfolding run_body_def Inr sum.case
    proof (rule returns_bind [OF hook], goal_cases)
      case (1 a)
      show ?case
      proof (cases a)
        case (Inl e)
        show ?thesis unfolding Inl sum.case
          by (rule loop [OF stop_outcome start]) (auto simp: reason_ok_def finalize_def)
      next
        case (Inr msgs)
        show ?thesis unfolding Inr sum.case
          by (rule loop [OF run_loop_outcome start]) (use 1 in \<open>auto simp: Inr\<close>)
      qed
    qed
  qed (simp add: run_body_def)
qed

lemma join_errors_not_None: "join_errors [e, Some h] \<noteq> None"
  by (cases e) simp_all

lemma Run_outcome: "returns (Run fuel R cfg) (run_outcome_ok cfg)"
proof (cases "hk_AfterRun (cfg_Hooks cfg)")
  case True
  have after: "returns (after_run (x, e)) (\<lambda>out. run_outcome_ok cfg (Some out))"
    if "case x of None \<Rightarrow> e \<noteq> None | Some res \<Rightarrow> loop_result cfg res e" for x e
  proof -
    have "run_outcome_ok cfg (Some (Some (case x of Some res \<Rightarrow> res | None \<Rightarrow> no_run_result), e'))" if "e' = e \<or> e' \<noteq> None" for e'
      using that True \<open>case x of None \<Rightarrow> e \<noteq> None | Some res \<Rightarrow> _\<close>
      by (cases x) auto
    then show ?thesis using join_errors_not_None by (auto simp: after_run_def Let_def simp del: run_outcome_ok.simps split: option.split)
  qed
  show ?thesis using True unfolding Run_def
    by (simp del: returns_simps(4))
      (rule returns_deferP, rule returns_mono [OF run_body_outcome],
        auto intro!: returns_bind [OF after] simp del: returns_simps(4) split: option.splits prod.splits)
next
  case False
  have "run_outcome_ok cfg out"
    if "case out of None \<Rightarrow> True | Some (None, e) \<Rightarrow> e \<noteq> None | Some (Some res, e) \<Rightarrow> loop_result cfg res e" for out
    using that False by (cases "(cfg, out)" rule: run_outcome_ok.cases) auto
  then show ?thesis using False unfolding Run_def by simp (rule returns_mono [OF run_body_outcome])
qed

lemma Run_returns:
  assumes "0 < cfg_MaxSteps cfg" "cfg_MaxSteps cfg < fuel"
  shows "returns (Run fuel R cfg) (\<lambda>out. out \<noteq> None)"
proof -
  have loop: "returns (run_loop fuel R cfg reg r 0) (\<lambda>out. out \<noteq> None)" for reg r
    by (rule run_loop_returns) (use assms in simp_all)
  have body: "returns (run_body fuel R cfg) (\<lambda>out. out \<noteq> None)"
    unfolding run_body_def stop_with_def
    by (auto intro!: returns_bind_any loop simp del: returns_simps(4) not_None_eq split: sum.split)
  show ?thesis unfolding Run_def
    by (auto intro!: returns_deferP returns_mono [OF body] simp: body split: option.split simp del: not_None_eq)
qed

end
