(* ===== verification/Sample_Run.thy ===== *)
theory Sample_Run
  imports Run_Outcome Call_Protocol Revision_Protocol
begin

text \<open>
  A run to try the properties on: a tool that a rule asks about, a user who answers once, a stream with a
  call of the tool in the first step and with text in the second, and callbacks that all succeed.
\<close>

definition sample_library :: lib where
  "sample_library = \<lparr>fmt_time = (\<lambda>_. ''t''), fmt_now = (\<lambda>_. ''t''), parse_time = (\<lambda>_. Some 0), b64 = (\<lambda>s. s), unb64 = Some,
     json_text = (\<lambda>_. ''json''), json_parse = (\<lambda>_. None), sha256_hex = (\<lambda>_. ''hash''), home = ''/home''\<rparr>"

definition sample_run_lib :: run_lib where
  "sample_run_lib = \<lparr>rl_lib = sample_library, rl_quote = (\<lambda>s. s), rl_compile = (\<lambda>_ _. None), rl_validate = (\<lambda>_ _ _. None),
     rl_unmarshal = (\<lambda>_. Inr None)\<rparr>"

definition sample_tool :: tool where
  "sample_tool = \<lparr>tol_Name = ''bash'', tol_Definition = \<lparr>tld_Name = ''bash'', tld_Description = ''run a command'',
      tld_InputSchema = \<lparr>isc_Type = ''object'', isc_Properties = [], isc_Required = []\<rparr>, tld_RawInputSchema = None,
      tld_OutputSchema = None, tld_Sequential = False, tld_DirectoryScoped = False, tld_Permission = None\<rparr>,
    tol_Sequential = None, tol_DirectoryScoped = False, tol_Permission = None\<rparr>"

definition no_hooks :: hooks where
  "no_hooks = \<lparr>hk_BeforeRun = False, hk_OnTurnStart = False, hk_OnTurnEnd = False, hk_TransformHistory = False,
     hk_TransformSystem = False, hk_TransformContext = False, hk_BeforeToolCall = False, hk_AfterToolCall = False,
     hk_AfterRun = False, hk_TransformToolDefs = False, hk_TransformParams = False\<rparr>"

definition sample_config :: config where
  "sample_config = \<lparr>cfg_SessionID = ''ses_1'', cfg_RunID = ''run_1'', cfg_AgentID = ''agt_1'', cfg_Client = True,
     cfg_LowersOptions = False, cfg_Model = provider_model ''acme'' ''m1'', cfg_StructuredOutput = False,
     cfg_ModelInfo = (''acme'', ''m1''), cfg_Messages = [NewUserText ''hi''], cfg_System = '''', cfg_Tools = [sample_tool],
     cfg_WorkDir = ''/w'', cfg_Permissions = [\<lparr>rule_Action = ''bash'', rule_Resource = ''*'', rule_Effect = EffectAsk\<rparr>],
     cfg_PermissionPrompter = True, cfg_ToolChoice = '''', cfg_Thinking = False, cfg_OutputSchema = None, cfg_MaxSteps = 2,
     cfg_ToolExecution = '''', cfg_Hooks = no_hooks, cfg_ModelCallLifecycle = True,
     cfg_Retry = \<lparr>rty_MaxAttempts = 1, rty_InitialDelay = 0, rty_MaxDelay = 0\<rparr>, cfg_MessageCheckpoint = True,
     cfg_ToolUseLifecycle = True\<rparr>"

definition sample_call :: tool_call_part where
  "sample_call = \<lparr>tcp_ID = '''', tcp_ToolUseID = '''', tcp_CallID = ''c1'', tcp_Name = ''bash'',
     tcp_Input = Some [(''command'', JStr ''ls'')], tcp_ProviderExecuted = False, tcp_ProviderMetadata = None\<rparr>"

definition sample_stream :: "request \<Rightarrow> stream" where
  "sample_stream req =
     (if length (req_Messages req) = 1
      then ([StreamToolCallPart ''c1'' ''bash'' (Some [(''command'', JStr ''ls'')]) False None], None,
        Some (plain_message RoleAssistant [ToolCallPart sample_call]))
      else ([TextStartPart ''b'' None, TextDeltaPart ''b'' ''do'' None, TextDeltaPart ''b'' ''ne'' None], None,
        Some (plain_message RoleAssistant [text_of ''done''])))"

fun sample_env :: "dialogue \<Rightarrow> question \<Rightarrow> answer" where
  "sample_env d Ask_Now = Is_Number 1000"
| "sample_env d (Client_Stream req) = Is_Stream (Inr (sample_stream req))"
| "sample_env d (ModelCall_Start i) = Is_Text (Inr ''cal_1'')"
| "sample_env d (ToolUse_Propose i) = Is_Text (Inr ''use_1'')"
| "sample_env d (Prompt_Permission i) = Is_Text (Inr ResponseOnce)"
| "sample_env d (Checkpoint_Save step m) = Is_Message (Inr m)"
| "sample_env d (Execute_Tool c i) = Is_Execution (no_execution\<lparr>exe_Text := ''a.txt''\<rparr>)"
| "sample_env d q = Is_Error None"

definition sample_play :: "dialogue \<times> run_outcome option option" where
  "sample_play = play sample_env [] (Run 3 sample_run_lib sample_config)"

lemma sample_play_returns: "map_option (map_option (\<lambda>(res, e). (map_option rrs_Steps res, map_option rrs_StopReason res, e))) (snd sample_play)
  = Some (Some (Some 2, Some StopReasonEndTurn, None))"
  by code_simp

end
