(* ===== verification/Agent_Properties.thy ===== *)
theory Agent_Properties
  imports Stream_Properties Content_Properties Sample_Run
begin

text \<open>
  Properties of the agent's run loop, each for every environment: whatever the model streams, the tools
  and the hooks answer, and however tools that run in parallel interleave.
\<close>

section \<open>Tool uses\<close>

text \<open>The watcher remembers what has been asked and answered about a tool use.\<close>

definition key_of_call :: "tool_call \<Rightarrow> int \<times> int" where
  "key_of_call call = (tcl_Step call, tcl_Ordinal call)"

definition executed_before :: "dialogue \<Rightarrow> int \<times> int \<Rightarrow> bool" where
  "executed_before d k \<longleftrightarrow> (\<exists>call i r. (Execute_Tool call i, r) \<in> set d \<and> key_of_call call = k)"

definition started_before :: "dialogue \<Rightarrow> int \<times> int \<Rightarrow> bool" where
  \<comment> \<open>its start has been recorded without an error\<close>
  "started_before d k \<longleftrightarrow> (\<exists>i r. (ToolUse_Start i, r) \<in> set d \<and> (use_Step i, use_Ordinal i) = k \<and> error_answer r = None)"

definition approved_before :: "dialogue \<Rightarrow> int \<times> int \<Rightarrow> bool" where
  \<comment> \<open>the user has allowed it\<close>
  "approved_before d k \<longleftrightarrow> (\<exists>i r. (Prompt_Permission i, r) \<in> set d \<and> (use_Step i, use_Ordinal i) = k \<and>
     (text_answer r = Inr ResponseOnce \<or> text_answer r = Inr ResponseAlways))"

definition remembers :: "dialogue \<Rightarrow> int \<times> int \<Rightarrow> use_watch \<Rightarrow> bool" where
  "remembers d k s \<longleftrightarrow> (uwt_Executed s \<longleftrightarrow> executed_before d k) \<and> (uwt_Status s = ToolUseStatusStarted \<and> \<not> uwt_Finished s \<longrightarrow> started_before d k)
     \<and> (uwt_Approved s \<longrightarrow> approved_before d k)"

lemma before_snoc:
  "executed_before (d @ [(q, r)]) k \<longleftrightarrow> executed_before d k \<or> (\<exists>call i. q = Execute_Tool call i \<and> key_of_call call = k)"
  "started_before (d @ [(q, r)]) k \<longleftrightarrow> started_before d k
    \<or> (\<exists>i. q = ToolUse_Start i \<and> (use_Step i, use_Ordinal i) = k \<and> error_answer r = None)"
  "approved_before (d @ [(q, r)]) k \<longleftrightarrow> approved_before d k
    \<or> (\<exists>i. q = Prompt_Permission i \<and> (use_Step i, use_Ordinal i) = k \<and> (text_answer r = Inr ResponseOnce \<or> text_answer r = Inr ResponseAlways))"
  by (auto simp: executed_before_def started_before_def approved_before_def)

lemma remembers_accept:
  assumes "remembers d k s" "use_accept R cfg s q r = Some s'" "use_key_of q = Some k"
  shows "remembers (d @ [(q, r)]) k s'"
  using assms
  by (cases q) (auto simp: remembers_def before_snoc moved_to_def key_of_call_def recorded_def tool_status_defs
      legalToolUseTransition_def split: if_splits option.splits sum.splits)

lemma remembers_other: "remembers d k s \<Longrightarrow> use_key_of q \<noteq> Some k \<Longrightarrow> remembers (d @ [(q, r)]) k s"
  by (cases q) (auto simp: remembers_def before_snoc key_of_call_def)

lemma watch_remembers: "watch (watch_uses R cfg) d (\<lambda>_. unproposed) = Some m \<Longrightarrow> remembers d k (m k)"
proof (induction d arbitrary: m rule: rev_induct)
  case Nil
  then show ?case by (auto simp: remembers_def unproposed_def executed_before_def tool_status_defs)
next
  case (snoc x d)
  obtain q r where x: "x = (q, r)" by fastforce
  obtain m0 where m0: "watch (watch_uses R cfg) d (\<lambda>_. unproposed) = Some m0" "watch_uses R cfg m0 q r = Some m"
    using snoc.prems by (auto simp: watch_append x split: option.splits)
  have before: "remembers d k (m0 k)" by (rule snoc.IH [OF m0(1)])
  show ?case
  proof (cases "use_key_of q = Some k")
    case True
    then have "use_accept R cfg (m0 k) q r = Some (m k)" using m0(2) by (auto simp: uses.accept_all_def split: option.splits)
    then show ?thesis using remembers_accept [OF before _ True] by (simp add: x)
  next
    case False
    then have "m k = m0 k" using m0(2) by (auto simp: uses.accept_all_def split: option.splits)
    then show ?thesis using remembers_other [OF before False] by (simp add: x)
  qed
qed

lemma allowed_mono: "allowed cfg call b \<Longrightarrow> (b \<Longrightarrow> b') \<Longrightarrow> allowed cfg call b'"
  unfolding allowed_def Let_def by blast

lemma Run_watch: "talks (Run fuel R cfg) d \<Longrightarrow> \<exists>m. watch (watch_uses R cfg) d (\<lambda>_. unproposed) = Some m"
  using wp_talks [OF _ Run_watched] by blast

text \<open>C2: whenever a run executes a tool, the call is of a tool of the run, its input is valid against the
  tool's schema and is what the tool is given, no permission rule denies it, the user has approved it if a
  rule asks, its start has been recorded without an error, and the tool use has not been executed before.\<close>
theorem executed_tools_allowed:
  assumes "talks (Run fuel R cfg) (d @ [(Execute_Tool call i, r)])"
  shows "(\<exists>t. tcl_Tool call = Some t \<and> validateToolInput R t (tcl_Args call) = None) \<and> inv_Input i = tcl_Args call
    \<and> allowed cfg call (approved_before d (key_of_call call))
    \<and> (\<not> cfg_ToolUseLifecycle cfg \<or> started_before d (key_of_call call))
    \<and> \<not> executed_before d (key_of_call call)"
proof -
  obtain m m' where m: "watch (watch_uses R cfg) d (\<lambda>_. unproposed) = Some m" "watch_uses R cfg m (Execute_Tool call i) r = Some m'"
    using Run_watch [OF assms] by (auto simp: watch_append split: option.splits)
  let ?k = "key_of_call call"
  have k: "remembers d ?k (m ?k)" by (rule watch_remembers [OF m(1)])
  have "use_accept R cfg (m ?k) (Execute_Tool call i) r \<noteq> None"
    using m(2) by (auto simp: uses.accept_all_def key_of_call_def simp del: use_accept.simps split: option.splits)
  then have a: "recorded cfg ToolUseStatusStarted (m ?k)" "may_execute R cfg call (uwt_Approved (m ?k))" "inv_Input i = tcl_Args call"
    by (simp_all split: if_splits)
  have "allowed cfg call (approved_before d ?k)"
    using a(2) k by (auto simp: may_execute_def remembers_def elim!: allowed_mono)
  then show ?thesis using a k by (auto simp: may_execute_def recorded_def remembers_def)
qed

lemma talks_prefix: "talks p (d @ e) \<Longrightarrow> talks p d"
proof (induction p arbitrary: d)
  case (Ask q k)
  then show ?case by (cases d) auto
qed auto

definition sample_talk :: dialogue where
  "sample_talk = fst sample_play"

fun is_execution :: "question \<times> answer \<Rightarrow> bool" where
  "is_execution (Execute_Tool _ _, _) = True"
| "is_execution _ = False"

lemma sample_talks: "talks (Run 3 sample_run_lib sample_config) sample_talk"
  using play_runs [of sample_env "[]" "Run 3 sample_run_lib sample_config" "fst sample_play" "snd sample_play"]
  by (simp add: sample_talk_def sample_play_def)

lemma sample_executes: "list_ex is_execution sample_talk"
  by code_simp

lemma executed_tools_allowed_witness:
  "\<exists>d call i r. talks (Run 3 sample_run_lib sample_config) (d @ [(Execute_Tool call i, r)]) \<and> inv_Input i = tcl_Args call
    \<and> allowed sample_config call (approved_before d (key_of_call call)) \<and> started_before d (key_of_call call)"
proof -
  obtain x where "x \<in> set sample_talk" "is_execution x" using sample_executes by (auto simp: list_ex_iff)
  then obtain d call i r e where "sample_talk = (d @ [(Execute_Tool call i, r)]) @ e"
    by (cases x rule: is_execution.cases) (auto dest!: split_list)
  then have "talks (Run 3 sample_run_lib sample_config) (d @ [(Execute_Tool call i, r)])" using sample_talks talks_prefix by metis
  moreover have "cfg_ToolUseLifecycle sample_config" by (simp add: sample_config_def)
  ultimately show ?thesis using executed_tools_allowed by blast
qed

text \<open>C5: the callbacks of every tool use follow the table of transitions of the store: a proposal comes first,
  the user is asked and the use authorized, started and finished from a status that allows it, a completion
  is reported of an executed tool only, and no use is finished twice.\<close>
theorem tool_use_lifecycle:
  assumes "talks (Run fuel R cfg) d"
  shows "watch (watch_uses R cfg) d (\<lambda>_. unproposed) \<noteq> None"
  using Run_watch [OF assms] by simp

lemma tool_use_lifecycle_witness: "watch (watch_uses sample_run_lib sample_config) sample_talk (\<lambda>_. unproposed) \<noteq> None"
  by (rule tool_use_lifecycle [OF sample_talks])

section \<open>Model calls and checkpoints\<close>

fun starts_call :: "question \<times> answer \<Rightarrow> bool" where
  \<comment> \<open>a call is started\<close>
  "starts_call (ModelCall_Start _, r) = (\<exists>callID. text_answer r = Inr callID)"
| "starts_call _ = False"

fun finishes_call :: "question \<times> answer \<Rightarrow> bool" where
  "finishes_call (ModelCall_Finish _, _) = True"
| "finishes_call _ = False"

definition still_open :: "'a option \<Rightarrow> nat" where
  "still_open s = (if s = None then 0 else 1)"

lemma calls_counted:
  assumes "watch (call_accept cfg) d s = Some s'"
  shows "length (filter finishes_call d) + still_open s' = length (filter starts_call d) + still_open s"
  using assms
proof (induction d arbitrary: s)
  case (Cons x d)
  obtain q r where x: "x = (q, r)" by fastforce
  obtain s1 where s1: "call_accept cfg s q r = Some s1" "watch (call_accept cfg) d s1 = Some s'"
    using Cons.prems by (auto simp: x split: option.splits)
  have "still_open s1 + of_bool (finishes_call x) = still_open s + of_bool (starts_call x)"
    using s1(1) by (cases q) (auto simp: x still_open_def split: if_splits sum.splits)
  then show ?case using Cons.IH [OF s1(2)] by (cases "finishes_call x"; cases "starts_call x") simp_all
qed simp

text \<open>C7: when a run returns, every model call that was started has been finished exactly once, under its own
  step, attempt and identifier, before the next call was started; and no request was sent outside a call.\<close>
theorem model_calls_settled:
  assumes "runs (Run fuel R cfg) d out"
  shows "watch (call_accept cfg) d None = Some None
    \<and> length (filter starts_call d) = length (filter finishes_call d)"
proof -
  obtain s where "watch (call_accept cfg) d None = Some s" "s = None" using wp_runs [OF assms Run_closes] by blast
  then show ?thesis using calls_counted by (fastforce simp: still_open_def)
qed

lemma sample_runs: "\<exists>out. runs (Run 3 sample_run_lib sample_config) sample_talk out
    \<and> map_option (\<lambda>(res, e). (map_option rrs_Steps res, map_option rrs_StopReason res, e)) out = Some (Some 2, Some StopReasonEndTurn, None)"
proof -
  obtain out where out: "snd sample_play = Some out"
    "map_option (\<lambda>(res, e). (map_option rrs_Steps res, map_option rrs_StopReason res, e)) out = Some (Some 2, Some StopReasonEndTurn, None)"
    using sample_play_returns by fastforce
  moreover have "runs (Run 3 sample_run_lib sample_config) sample_talk out"
    using play_runs [of sample_env "[]" "Run 3 sample_run_lib sample_config" "fst sample_play" "snd sample_play"] out(1)
    by (simp add: sample_talk_def sample_play_def)
  ultimately show ?thesis by blast
qed

lemma model_calls_settled_witness: "watch (call_accept sample_config) sample_talk None = Some None"
  using sample_runs model_calls_settled by blast

definition saved_message :: "message \<Rightarrow> answer \<Rightarrow> message" where
  \<comment> \<open>the message the loop goes on with after a checkpoint\<close>
  "saved_message m r = (case message_answer m r of Inr m' \<Rightarrow> m' | Inl _ \<Rightarrow> m)"

lemma watch_no_save: "list_all (\<lambda>(q, _). no_save q) d \<Longrightarrow> watch rev_accept d s = Some s"
proof (induction d)
  case (Cons x d)
  then show ?case by (cases x) (simp add: rev_ignores)
qed simp

text \<open>C10: the snapshots of a step's message are saved with consecutive revisions, counted from the revision the
  checkpoint returned last, and the first snapshot of a later step has the revision 1.\<close>
theorem checkpoint_revisions:
  assumes "talks (Run fuel R cfg) (d @ (Checkpoint_Save step m, r) # b @ [(Checkpoint_Save step' m', r')])"
    "list_all (\<lambda>(q, _). no_save q) b"
  shows "step' = step \<and> mes_Revision m' = mes_Revision (saved_message m r) + 1 \<or> step' > step \<and> mes_Revision m' = 1"
proof -
  have "watch rev_accept (d @ (Checkpoint_Save step m, r) # b @ [(Checkpoint_Save step' m', r')]) (0, 0) \<noteq> None"
    using wp_talks [OF assms(1) Run_tracked] .
  then obtain s where "watch rev_accept ((Checkpoint_Save step m, r) # b @ [(Checkpoint_Save step' m', r')]) s \<noteq> None"
    by (auto simp: watch_append split: option.splits)
  moreover obtain k n where "s = (k, n)" by fastforce
  ultimately have "watch rev_accept (b @ [(Checkpoint_Save step' m', r')]) (step, mes_Revision (saved_message m r)) \<noteq> None"
    by (auto simp: saved_message_def split: if_splits sum.splits)
  then show ?thesis using watch_no_save [OF assms(2)] by (auto simp: watch_append split: if_splits)
qed

lemma filter_head: "filter P xs = y # ys \<Longrightarrow> \<exists>a b. xs = a @ y # b \<and> P y \<and> (\<forall>z \<in> set a. \<not> P z) \<and> filter P b = ys"
  by (auto simp: filter_eq_Cons_iff)

lemma two_saves: "Suc 0 < length (filter (\<lambda>(q, _). \<not> no_save q) (d :: dialogue)) \<Longrightarrow> \<exists>a step m r b step' m' r' c.
    d = (a @ (Checkpoint_Save step m, r) # b @ [(Checkpoint_Save step' m', r')]) @ c \<and> list_all (\<lambda>(q, _). no_save q) b"
proof -
  assume "Suc 0 < length (filter (\<lambda>(q, _). \<not> no_save q) d)"
  then obtain x y zs where "filter (\<lambda>(q, _). \<not> no_save q) d = x # y # zs"
    by (cases "filter (\<lambda>(q, _). \<not> no_save q) d"; cases "tl (filter (\<lambda>(q, _). \<not> no_save q) d)") auto
  from filter_head [OF this] obtain a v where a: "d = a @ x # v" "\<not> no_save (fst x)" "filter (\<lambda>(q, _). \<not> no_save q) v = y # zs"
    by (auto simp: split_beta)
  from filter_head [OF a(3)] obtain b c where yb: "v = b @ y # c" "\<not> no_save (fst y)" "\<forall>z \<in> set b. no_save (fst z)"
    by (auto simp: split_beta)
  with a have "d = (a @ x # b @ [y]) @ c" "\<not> no_save (fst x)" "\<not> no_save (fst y)" "\<forall>z \<in> set b. no_save (fst z)" by simp_all
  moreover have save: "\<exists>step m r. z = (Checkpoint_Save step m, r)" if "\<not> no_save (fst z)" for z :: "question \<times> answer"
    using that by (cases z; cases "fst z") auto
  moreover obtain step m r where x: "x = (Checkpoint_Save step m, r)" using save [OF a(2)] by blast
  moreover obtain step' m' r' where y: "y = (Checkpoint_Save step' m', r')" using save [OF yb(2)] by blast
  moreover have "list_all (\<lambda>(q, _). no_save q) b" using calculation by (simp add: list_all_iff split_beta)
  ultimately show ?thesis unfolding x y by (intro exI conjI) assumption+
qed

lemma sample_saves: "Suc 0 < length (filter (\<lambda>(q, _). \<not> no_save q) sample_talk)"
  by code_simp

lemma checkpoint_revisions_witness: "\<exists>d step m r b step' m' r'.
    talks (Run 3 sample_run_lib sample_config) (d @ (Checkpoint_Save step m, r) # b @ [(Checkpoint_Save step' m', r')])
    \<and> (step' = step \<and> mes_Revision m' = mes_Revision (saved_message m r) + 1 \<or> step' > step \<and> mes_Revision m' = 1)"
proof -
  obtain d step m r b step' m' r' c where s: "list_all (\<lambda>(q, _). no_save q) b"
    "sample_talk = (d @ (Checkpoint_Save step m, r) # b @ [(Checkpoint_Save step' m', r')]) @ c"
    using two_saves [OF sample_saves] by metis
  have "talks (Run 3 sample_run_lib sample_config) (d @ (Checkpoint_Save step m, r) # b @ [(Checkpoint_Save step' m', r')])"
    using sample_talks unfolding s(2) by (rule talks_prefix)
  then show ?thesis using checkpoint_revisions [OF _ s(1)] by blast
qed

section \<open>The end of a run\<close>

text \<open>C9: a run with a limit of steps returns or panics, whatever its environment does: more turns than the limit are
  never needed.\<close>
theorem run_terminates:
  assumes "0 < cfg_MaxSteps cfg" "cfg_MaxSteps cfg < fuel"
  shows "snd (play env [] (Run fuel R cfg)) \<noteq> Some None"
proof
  assume "snd (play env [] (Run fuel R cfg)) = Some None"
  then have "runs (Run fuel R cfg) (fst (play env [] (Run fuel R cfg))) None"
    using play_runs [of env "[]" "Run fuel R cfg" "fst (play env [] (Run fuel R cfg))" "Some None"]
    by (metis append_Nil prod.collapse)
  then show False using returns_runs [OF Run_returns [OF assms]] by blast
qed

lemma run_terminates_witness: "snd (play sample_env [] (Run 3 sample_run_lib sample_config)) \<noteq> Some None"
  by (rule run_terminates) (simp_all add: sample_config_def)

lemma loop_result_bounds:
  assumes "loop_result cfg res e"
  shows "length (rrs_Turns res) \<le> rrs_Steps res" "0 < cfg_MaxSteps cfg \<Longrightarrow> rrs_Steps res \<le> cfg_MaxSteps cfg" "reason_ok cfg res e"
    "\<not> hk_BeforeRun (cfg_Hooks cfg) \<Longrightarrow> \<not> hk_TransformHistory (cfg_Hooks cfg) \<Longrightarrow>
      \<exists>ms. rrs_Messages res = cfg_Messages cfg @ ms \<and> length ms \<le> rrs_Steps res"
  using assms by (fastforce simp: loop_result_def start_of_def)+

text \<open>C20: a run takes no more steps than its limit, and its result has one turn per step at most.\<close>
theorem run_bounds:
  assumes "runs (Run fuel R cfg) d (Some (Some res, e))" "0 < cfg_MaxSteps cfg"
  shows "rrs_Steps res \<le> cfg_MaxSteps cfg \<and> length (rrs_Turns res) \<le> rrs_Steps res"
proof -
  have "run_outcome_ok cfg (Some (Some res, e))" by (rule returns_runs [OF Run_outcome assms(1)])
  then consider "res = no_run_result" | e0 where "loop_result cfg res e0" by auto
  then show ?thesis
    by cases (auto simp: no_run_result_def finalize_def new_runner_def loop_result_bounds assms(2))
qed

lemma run_bounds_witness: "\<exists>res. runs (Run 3 sample_run_lib sample_config) sample_talk (Some (Some res, None))
    \<and> rrs_Steps res = 2 \<and> rrs_Steps res \<le> cfg_MaxSteps sample_config \<and> length (rrs_Turns res) \<le> rrs_Steps res"
proof -
  obtain res where res: "runs (Run 3 sample_run_lib sample_config) sample_talk (Some (Some res, None))" "rrs_Steps res = 2"
    using sample_runs by auto
  then show ?thesis using run_bounds [OF res(1)] by (auto simp: sample_config_def)
qed

text \<open>C18: a run without hooks on its start, its history and its end keeps the history it was given and adds one
  message per step at most.  Without an error it stopped at a turn without tool results or at its limit of
  steps; with an error it says that it was aborted or failed.\<close>
theorem run_history:
  assumes "runs (Run fuel R cfg) d (Some (Some res, e))" "\<not> hk_BeforeRun (cfg_Hooks cfg)"
    "\<not> hk_TransformHistory (cfg_Hooks cfg)" "\<not> hk_AfterRun (cfg_Hooks cfg)"
  shows "(\<exists>ms. rrs_Messages res = cfg_Messages cfg @ ms \<and> length ms \<le> rrs_Steps res) \<and> reason_ok cfg res e"
proof -
  have "run_outcome_ok cfg (Some (Some res, e))" by (rule returns_runs [OF Run_outcome assms(1)])
  then have "loop_result cfg res e" using assms(4) by auto
  then show ?thesis using loop_result_bounds(3,4) assms(2,3) by blast
qed

lemma run_history_witness: "\<exists>res ms. rrs_Messages res = cfg_Messages sample_config @ ms \<and> length ms \<le> 2
    \<and> reason_ok sample_config res None"
proof -
  obtain res where res: "runs (Run 3 sample_run_lib sample_config) sample_talk (Some (Some res, None))" "rrs_Steps res = 2"
    using sample_runs by auto
  then show ?thesis using run_history [OF res(1)] by (auto simp: sample_config_def no_hooks_def)
qed

section \<open>Batches of tool calls\<close>

definition result_of_call :: "tool_call \<Rightarrow> tool_result \<Rightarrow> bool" where
  "result_of_call call res \<longleftrightarrow> of_call call res \<and> isToolUseTerminal (trs_Status res)"

lemma settle_returns: "of_call call res \<Longrightarrow> isToolUseTerminal status \<Longrightarrow>
    returns (settleToolUse cfg call res status et e) (\<lambda>(res, _). result_of_call call res)"
  by (auto simp: settleToolUse_def runAfterToolCallResult_def result_of_call_def of_call_def Let_def emit_def now_def tell_def
      isToolUseTerminal_def tool_status_defs ToolUseFailed_def split: sum.split option.split)

lemma settle_failure_returns: "of_call call res \<Longrightarrow> isToolUseTerminal status \<Longrightarrow>
    returns (settle_failure cfg call res status et c e) (\<lambda>(res, _). result_of_call call res)"
  unfolding settle_failure_def returns_simps by (rule returns_mono [OF settle_returns]) auto

lemma result_of_updates [simp]:
  "result_of_call (call\<lparr>tcl_Args := a\<rparr>) = result_of_call call" "result_of_call (call\<lparr>tcl_AuthorizedAt := t\<rparr>) = result_of_call call"
  "result_of_call (call\<lparr>tcl_StartedAt := t\<rparr>) = result_of_call call"
  by (auto simp: result_of_call_def of_call_def fun_eq_iff)

lemma executeOne_returns: "returns (executeOne R cfg call) (\<lambda>(res, _). result_of_call call res)"
proof -
  note settles = settle_returns [where cfg = cfg] settle_failure_returns [where cfg = cfg]
  have terminal: "isToolUseTerminal ToolUseCompleted" "isToolUseTerminal ToolUseFailed" "isToolUseTerminal ToolUseInterrupted"
    "isToolUseTerminal ToolUseDeclined"
    "isToolUseTerminal ToolUseStatusCompleted" "isToolUseTerminal ToolUseStatusInterrupted" "isToolUseTerminal ToolUseStatusDeclined"
    by (simp_all add: isToolUseTerminal_def tool_status_defs ToolUseCompleted_def ToolUseFailed_def ToolUseInterrupted_def
        ToolUseDeclined_def)
  have execution: "returns (settle_execution R cfg c t e dur) (\<lambda>(res, _). result_of_call c res)" for c t e dur
    by (auto simp: settle_execution_def Let_def terminal intro!: settles split: option.split)
  have tool: "returns (execute_tool R cfg c t) (\<lambda>(res, _). result_of_call c res)" for c t
    unfolding execute_tool_def by (intro returns_bind_any execution)
  have start: "returns (authorize_and_start R cfg c t) (\<lambda>(res, _). result_of_call c res)" for c t
  proof -
    have "returns (execute_tool R cfg (c\<lparr>tcl_AuthorizedAt := a, tcl_StartedAt := b\<rparr>) t) (\<lambda>(res, _). result_of_call c res)" for a b
      using tool [of "c\<lparr>tcl_AuthorizedAt := a, tcl_StartedAt := b\<rparr>"] by simp
    moreover have "returns (settle_failure cfg (c\<lparr>tcl_AuthorizedAt := a\<rparr>) (error_result c msg) ToolUseFailed et x f)
        (\<lambda>(res, _). result_of_call c res)" for a msg et x f
      using settle_failure_returns [where call = "c\<lparr>tcl_AuthorizedAt := a\<rparr>" and res = "error_result c msg"] terminal by simp
    ultimately show ?thesis unfolding authorize_and_start_def Let_def
      by (auto intro!: returns_bind_any settles tool simp: terminal simp del: returns_simps(4) split: option.split)
  qed
  have prompt: "returns (ask_permission R cfg c t d) (\<lambda>(res, _). result_of_call c res)" for c t d
    unfolding ask_permission_def prompt_failure_def Let_def
    by (auto intro!: returns_bind_any settles start simp: terminal simp del: returns_simps(4) split: sum.split)
  have call: "returns (execute_call R cfg c) (\<lambda>(res, _). result_of_call c res)" for c
    unfolding execute_call_def Let_def by (auto intro!: settles prompt start simp: terminal split: option.split)
  have rewritten: "returns (execute_call R cfg (call\<lparr>tcl_Args := a\<rparr>)) (\<lambda>(res, _). result_of_call call res)" for a
    using call [of "call\<lparr>tcl_Args := a\<rparr>"] by simp
  show ?thesis unfolding executeOne_def
    by (auto intro!: returns_bind_any settles call rewritten simp: terminal simp del: returns_simps(4) split: option.split)
qed

definition all_return :: "'a program list \<Rightarrow> (nat \<Rightarrow> 'a \<Rightarrow> bool) \<Rightarrow> 'a list \<Rightarrow> bool" where
  "all_return ps Q as \<longleftrightarrow> length as = length ps \<and> (\<forall>n < length ps. Q n (as ! n))"

lemma in_turn_returns: "(\<And>n. n < length ps \<Longrightarrow> returns (ps ! n) (Q n)) \<Longrightarrow> returns (in_turn ps) (all_return ps Q)"
proof (induction ps arbitrary: Q)
  case (Cons p ps)
  have "returns (in_turn ps) (all_return ps (\<lambda>n. Q (Suc n)))" using Cons.prems by (intro Cons.IH) force
  then have "returns (in_turn ps) (\<lambda>as. all_return (p # ps) Q (a # as))" if "Q 0 a" for a
    by (rule returns_mono) (auto simp: all_return_def nth_Cons that split: nat.split)
  moreover have "returns p (Q 0)" using Cons.prems [of 0] by simp
  ultimately show ?case by (auto intro: returns_mono)
qed (simp add: all_return_def)

lemma in_parallel_returns: "(\<And>n. n < length ps \<Longrightarrow> returns (ps ! n) (Q n)) \<Longrightarrow> returns (in_parallel order ps) (all_return ps Q)"
proof (induction order arbitrary: ps)
  case Nil
  then show ?case by (simp add: in_turn_returns)
next
  case (Cons i order)
  show ?case
  proof (cases "i < length ps")
    case True
    have "returns (in_parallel order (ps[i := k r])) (all_return ps Q)" if "ps ! i = Ask q k" for q k r
    proof -
      have "returns (k r) (Q i)" using Cons.prems [OF True] that by simp
      then have "returns (in_parallel order (ps[i := k r])) (all_return (ps[i := k r]) Q)"
        using Cons.prems True by (intro Cons.IH) (metis length_list_update nth_list_update_eq nth_list_update_neq)
      moreover have "all_return (ps[i := k r]) Q = all_return ps Q" by (simp add: all_return_def fun_eq_iff)
      ultimately show ?thesis by simp
    qed
    then show ?thesis using True Cons by (auto split: program.split)
  qed (use Cons in simp)
qed

text \<open>C19: however the calls of a batch interleave, the batch has a result for every call, in the order of the
  calls, that names its call and tool use and has a final status; also when calls fail.\<close>
theorem parallel_results:
  assumes "runs (run_parallel R cfg calls) d (results, e)"
  shows "length results = length calls \<and> list_all2 result_of_call calls results"
proof -
  have "returns (executeOne R cfg (calls ! n)) (\<lambda>(res, _). result_of_call (calls ! n) res)" for n
    by (rule executeOne_returns)
  then have batch: "returns (in_parallel order (map (executeOne R cfg) calls))
      (all_return (map (executeOne R cfg) calls) (\<lambda>n (res, _). result_of_call (calls ! n) res))" for order
    by (intro in_parallel_returns) simp
  have "returns (run_parallel R cfg calls) (\<lambda>(results, _). list_all2 result_of_call calls results)"
    unfolding run_parallel_def
    by (rule returns_bind_any, rule returns_bind [OF batch], rule returns_bind_any)
      (auto simp: all_return_def list_all2_conv_all_nth split_beta)
  from returns_runs [OF this assms] show ?thesis by (auto dest: list_all2_lengthD)
qed

definition sample_calls :: "tool_call list" where
  "sample_calls = resolve_calls [(''bash'', sample_tool)]
     (plain_message RoleAssistant [ToolCallPart sample_call, ToolCallPart (sample_call\<lparr>tcp_CallID := ''c2''\<rparr>)]) no_turn"

lemma sample_batch: "length sample_calls = 2 \<and> snd (play sample_env [] (run_parallel sample_run_lib sample_config sample_calls)) \<noteq> None"
  by code_simp

lemma parallel_results_witness: "\<exists>d results e. runs (run_parallel sample_run_lib sample_config sample_calls) d (results, e)
    \<and> length results = 2 \<and> list_all2 result_of_call sample_calls results"
proof -
  obtain results e where "snd (play sample_env [] (run_parallel sample_run_lib sample_config sample_calls)) = Some (results, e)"
    using sample_batch by auto
  then have "runs (run_parallel sample_run_lib sample_config sample_calls)
      (fst (play sample_env [] (run_parallel sample_run_lib sample_config sample_calls))) (results, e)"
    using play_runs [of sample_env "[]" "run_parallel sample_run_lib sample_config sample_calls"] by (metis append_Nil prod.collapse)
  then show ?thesis using parallel_results sample_batch by metis
qed

section \<open>Streams\<close>

definition new_drain :: "message \<Rightarrow> drain" where
  "new_drain m = \<lparr>drn_snapshot = (m, []), drn_usage = no_usage, drn_reason = '''', drn_requestID = ''''\<rparr>"

text \<open>C30: without checkpoints, the loop over a stream panics exactly when the stream has a delta of one kind for a
  block that was last started as another kind.\<close>
theorem stream_block_kinds:
  assumes "\<not> cfg_MessageCheckpoint cfg"
  shows "snd (play env d (drain_stream cfg step parts (new_drain m))) = None \<longleftrightarrow> \<not> well_kinded (\<lambda>_. None) parts"
proof -
  have ok: "blocks_ok (m, [])" "block_kinds (m, []) = (\<lambda>_. None)"
    by (auto simp: blocks_ok_def well_indexed_def block_kinds_def)
  have "snd (play env d (drain_stream cfg step parts (new_drain m))) = None \<longleftrightarrow> apply_all parts (m, []) = None"
    using drain_apply_all [OF assms, of "new_drain m" env d step parts] ok(1) by (auto simp: new_drain_def blocks_ok_def)
  then show ?thesis using apply_all_kinds [OF ok(1)] ok(2) by simp
qed

definition unsaved_config :: config where
  "unsaved_config = sample_config\<lparr>cfg_MessageCheckpoint := False\<rparr>"

lemma stream_block_kinds_witness:
  "snd (play sample_env [] (drain_stream unsaved_config 1
     [ReasoningStartPart ''0'' None, TextDeltaPart ''0'' ''x'' None] (new_drain first_snapshot))) = None"
proof -
  have "\<not> cfg_MessageCheckpoint unsaved_config" by (simp add: unsaved_config_def)
  from stream_block_kinds [OF this] show ?thesis by (simp del: drain_stream.simps)
qed

text \<open>C31: the text of a block of the assistant's message is the concatenation of the deltas that the stream has for
  it, in their order, whatever other blocks they are mixed with.\<close>
theorem block_text:
  assumes "\<not> cfg_MessageCheckpoint cfg" "well_indexed (drn_snapshot s)" "\<not> list_ex (starts_block i) ps"
    "snd (play env d (drain_stream cfg step (TextStartPart i pm # ps) s)) = Some (s', e)"
  shows "text_block i (drn_snapshot s') (concat (map (text_delta_of i) ps))"
proof -
  obtain m ix where s: "drn_snapshot s = (m, ix)" by fastforce
  let ?t = "append_part i (TextPart \<lparr>txt_ID = '''', txt_Text = '''', txt_ProviderMetadata = pm\<rparr>) (m, ix)"
  let ?u = "(next_revision (fst ?t), snd ?t)"
  have start: "applyStreamPart (TextStartPart i pm) (m, ix) = Some (?t, i, True)" by simp
  then have w: "well_indexed ?u" using applyStreamPart_indexed [of "(m, ix)" "TextStartPart i pm"] assms(2)
    by (fastforce simp: s)
  have b: "text_block i ?u ''''" by (simp add: text_block_def append_part_def next_revision_def)
  have "apply_all (TextStartPart i pm # ps) (m, ix) = Some (drn_snapshot s')"
    using drain_apply_all [OF assms(1,2), of env d step "TextStartPart i pm # ps"]
    unfolding assms(4) s by (cases "apply_all (TextStartPart i pm # ps) (m, ix)") simp_all
  then have "apply_all ps ?u = Some (drn_snapshot s')" by (simp add: split_beta)
  from text_block_all [OF b w assms(3) this] show ?thesis by simp
qed

lemma block_text_witness:
  "\<exists>s'. snd (play sample_env [] (drain_stream unsaved_config 1 [TextStartPart ''b'' None, ReasoningStartPart ''r'' None,
      TextDeltaPart ''b'' ''do'' None, ReasoningDeltaPart ''r'' ''hm'' None, TextDeltaPart ''b'' ''ne'' None] (new_drain first_snapshot)))
      = Some (s', None) \<and> text_block ''b'' (drn_snapshot s') ''done''"
proof -
  let ?ps = "[ReasoningStartPart ''r'' None, TextDeltaPart ''b'' ''do'' None, ReasoningDeltaPart ''r'' ''hm'' None,
    TextDeltaPart ''b'' ''ne'' None]"
  have "map_option snd (snd (play sample_env [] (drain_stream unsaved_config 1 (TextStartPart ''b'' None # ?ps) (new_drain first_snapshot))))
    = Some None" by code_simp
  then obtain s' where s': "snd (play sample_env [] (drain_stream unsaved_config 1 (TextStartPart ''b'' None # ?ps) (new_drain first_snapshot)))
    = Some (s', None)" by auto
  have "text_block ''b'' (drn_snapshot s') (concat (map (text_delta_of ''b'') ?ps))"
    by (rule block_text [OF _ _ _ s']) (simp_all add: unsaved_config_def new_drain_def well_indexed_def)
  with s' show ?thesis by simp
qed

text \<open>C32: what a provider is sent does not depend on the way the tool calls of a history are stored: expanding the
  tool parts of canonical messages, folding the expansion back and expanding again is the expansion.\<close>
theorem tool_messages_round_trip:
  assumes "list_all canonical ms"
  shows "ExpandToolMessages (NormalizeMessages (ExpandToolMessages ms)) = ExpandToolMessages ms"
  by (rule expand_normalize_expand [OF assms])

definition sample_history :: "message list" where
  "sample_history = [NewUserText ''hi'', plain_message RoleAssistant
     [text_of ''ok'', ToolPart ((pending_tool sample_call)\<lparr>tpt_State := ToolStateError, tpt_Output := ''a'', tpt_Error := ''b''\<rparr>) []]]"

lemma tool_messages_round_trip_witness:
  "ExpandToolMessages (NormalizeMessages (ExpandToolMessages sample_history)) = ExpandToolMessages sample_history
    \<and> length (ExpandToolMessages sample_history) = 3"
proof -
  have "list_all canonical sample_history" by code_simp
  moreover have "length (ExpandToolMessages sample_history) = 3" by code_simp
  ultimately show ?thesis using tool_messages_round_trip by blast
qed

section \<open>Retries\<close>

lemma double_delay_power:
  "0 < delay \<Longrightarrow> delay \<le> rty_MaxDelay p \<Longrightarrow> double_delay p n delay = min (rty_MaxDelay p) (delay * 2 ^ n)"
proof (induction n arbitrary: delay)
  case (Suc n)
  have grow: "delay * 2 \<le> delay * 2 ^ Suc n" using Suc.prems(1) by simp
  consider "delay = rty_MaxDelay p" | "delay < rty_MaxDelay p" "delay > rty_MaxDelay p div 2"
    | "delay < rty_MaxDelay p" "delay \<le> rty_MaxDelay p div 2" using Suc.prems(2) by linarith
  then show ?case
  proof cases
    case 3
    then have "double_delay p n (delay * 2) = min (rty_MaxDelay p) (delay * 2 * 2 ^ n)"
      using Suc.prems(1) by (intro Suc.IH) linarith+
    then show ?thesis using 3 by (simp add: mult.assoc)
  next
    case 2
    then have "rty_MaxDelay p \<le> delay * 2 ^ Suc n" using grow by linarith
    then show ?thesis using 2 by (simp add: min_def)
  next
    case 1
    then have "rty_MaxDelay p \<le> delay * 2 ^ Suc n" using grow Suc.prems(1) by linarith
    then show ?thesis using 1 by (simp add: min_def)
  qed
qed simp



end
