(* ===== verification/Store_Codecs.thy ===== *)
theory Store_Codecs
  imports Store_Models
begin

text \<open>
  The JSON form of the records an aggregate event carries: for each struct the members it
  marshals to (names, order and \<^verbatim>\<open>omitempty\<close> of its tags) and the decoder that reads them back.
  \<open>session_run\<close> is the pair \<^verbatim>\<open>marshalSessionRun\<close> and \<^verbatim>\<open>unmarshalSessionRun\<close> of
  \<^verbatim>\<open>store/aggregate.go\<close>, the others are the snapshot structs of that file.  Each pair is an
  interpretation of the locale \<open>codec\<close>.
\<close>

section \<open>Members with omitempty\<close>

definition omit_strs :: "string list \<Rightarrow> json option" where
  "omit_strs ss = (if ss = [] then None else Some (jstrs ss))"

definition omit_bytes :: "lib \<Rightarrow> bytes \<Rightarrow> json option" where
  "omit_bytes L b = (if b = [] then None else Some (JStr (b64 L b)))"

definition omit_ruleset :: "ruleset \<Rightarrow> json option" where
  "omit_ruleset rs = (if rs = [] then None else Some (enc_ruleset rs))"

definition omit_members :: "members \<Rightarrow> json option" where
  "omit_members ms = (if ms = [] then None else Some (JObj ms))"

definition dec_members :: "json \<Rightarrow> members res" where
  "dec_members j = (case j of JObj ms \<Rightarrow> Inr ms | JNull \<Rightarrow> Inr [] | _ \<Rightarrow> Inl (JsonError ''map''))"

definition omit_float :: "float64 \<Rightarrow> json option res" where
  "omit_float x = (if x = Finite 0 then Inr None else bindE (enc_float x) (\<lambda>j. Inr (Some j)))"

definition omit_float_ptr :: "float64 option \<Rightarrow> json option res" where
  "omit_float_ptr p = (case p of None \<Rightarrow> Inr None | Some x \<Rightarrow> bindE (enc_float x) (\<lambda>j. Inr (Some j)))"

definition dec_float_ptr :: "json \<Rightarrow> float64 option res" where
  "dec_float_ptr j = bindE (dec_float j) (\<lambda>x. Inr (Some x))"

text \<open>What decoding such a member gives back; the left sides are the unfolded \<open>get\<close>.\<close>

named_theorems member_simps

lemma omit_str_case [member_simps]:
  "(case omit_str s of None \<Rightarrow> Inr [] | Some j \<Rightarrow> if j = JNull then Inr [] else dec_str j) = Inr s"
  by (simp add: omit_str_def)

lemma omit_num_case [member_simps]:
  "(case omit_num n of None \<Rightarrow> Inr 0 | Some j \<Rightarrow> if j = JNull then Inr 0 else dec_int j) = Inr n"
  by (simp add: omit_num_def)

lemma omit_strs_case [member_simps]:
  "(case omit_strs ss of None \<Rightarrow> Inr [] | Some j \<Rightarrow> if j = JNull then Inr [] else dec_list dec_str j) = Inr ss"
  by (simp add: omit_strs_def)

lemma omit_bytes_case [member_simps]: "lib_ok L \<Longrightarrow>
  (case omit_bytes L b of None \<Rightarrow> Inr [] | Some j \<Rightarrow> if j = JNull then Inr [] else dec_bytes L j) = Inr b"
  by (simp add: omit_bytes_def)

lemma omit_members_case [member_simps]:
  "(case omit_members ms of None \<Rightarrow> Inr [] | Some j \<Rightarrow> if j = JNull then Inr [] else dec_members j) = Inr ms"
  by (simp add: omit_members_def dec_members_def)

lemma omit_ruleset_case [member_simps]: "list_all (normal_rule h) rs \<Longrightarrow>
  (case omit_ruleset rs of None \<Rightarrow> Inr [] | Some j \<Rightarrow> if j = JNull then Inr [] else dec_ruleset h j) = Inr rs"
  using dec_ruleset_enc [of h rs] by (simp add: omit_ruleset_def) (simp add: enc_ruleset_def)

lemma omit_float_case: "omit_float x = Inr v \<Longrightarrow>
  (case v of None \<Rightarrow> Inr (Finite 0) | Some j \<Rightarrow> if j = JNull then Inr (Finite 0) else dec_float j) = Inr x"
  by (auto simp: omit_float_def enc_float_def dec_float_def split: if_splits float64.splits)

lemma omit_float_ptr_case: "omit_float_ptr p = Inr v \<Longrightarrow>
  (case v of None \<Rightarrow> Inr None | Some j \<Rightarrow> if j = JNull then Inr None else dec_float_ptr j) = Inr p"
  by (auto simp: omit_float_ptr_def enc_float_def dec_float_def dec_float_ptr_def
      split: option.splits float64.splits)

lemma omit_raw_text: "omit_raw L b = Inr v \<Longrightarrow> b = [] \<or> raw_ok L b \<Longrightarrow>
  (case v of None \<Rightarrow> Inr [] | Some j \<Rightarrow> Inr (json_text L j)) = Inr b"
  using get_raw_omit [of L b v "''k''" "case v of None \<Rightarrow> [] | Some j \<Rightarrow> [(''k'', j)]"]
  by (auto simp: get_raw_def jget_def split: option.splits)

lemma enc_raw_text: "enc_raw L b = Inr v \<Longrightarrow> b \<noteq> [] \<Longrightarrow> raw_ok L b \<Longrightarrow> json_text L v = b"
  by (auto simp: enc_raw_def raw_ok_def split: option.splits)

lemma dec_list_JArr [member_simps]: "dec_list d (JArr js) = mapE d js"
  by (simp add: dec_list_def)

section \<open>The structs\<close>

definition agent_fields :: "lib \<Rightarrow> agent \<Rightarrow> (string \<times> json option) list" where
  "agent_fields L x =
    [(''id'', Some (JStr (agt_ID x))),
     (''name'', Some (JStr (agt_Name x))),
     (''instructions'', omit_str (agt_Instructions x)),
     (''tools'', omit_strs (agt_Tools x)),
     (''permissions'', omit_ruleset (agt_Permissions x)),
     (''model_ref'', omit_str (agt_ModelRef x)),
     (''options'', omit_members (agt_Options x)),
     (''output_schema'', omit_members (agt_OutputSchema x)),
     (''created_at'', Some (JStr (agt_CreatedAt x))),
     (''updated_at'', Some (JStr (agt_UpdatedAt x)))]"

definition enc_agent :: "lib \<Rightarrow> agent \<Rightarrow> json" where
  "enc_agent L x = JObj (members (agent_fields L x))"

definition dec_agent :: "lib \<Rightarrow> json \<Rightarrow> agent res" where
  "dec_agent L = dec_struct (\<lambda>ms.
     bindE (get dec_str '''' ''id'' ms) (\<lambda>v_id.
     bindE (get dec_str '''' ''name'' ms) (\<lambda>v_name.
     bindE (get dec_str '''' ''instructions'' ms) (\<lambda>v_instructions.
     bindE (get (dec_list dec_str) [] ''tools'' ms) (\<lambda>v_tools.
     bindE (get (dec_ruleset (home L)) [] ''permissions'' ms) (\<lambda>v_permissions.
     bindE (get dec_str '''' ''model_ref'' ms) (\<lambda>v_model_ref.
     bindE (get dec_members [] ''options'' ms) (\<lambda>v_options.
     bindE (get dec_members [] ''output_schema'' ms) (\<lambda>v_output_schema.
     bindE (get dec_str '''' ''created_at'' ms) (\<lambda>v_created_at.
     bindE (get dec_str '''' ''updated_at'' ms) (\<lambda>v_updated_at.
     Inr \<lparr>agt_ID = v_id, agt_Name = v_name, agt_Instructions = v_instructions, agt_Tools = v_tools, agt_Permissions = v_permissions, agt_ModelRef = v_model_ref, agt_Options = v_options, agt_OutputSchema = v_output_schema, agt_CreatedAt = v_created_at, agt_UpdatedAt = v_updated_at\<rparr>)))))))))))"

lemma agent_names: "distinct_names (map fst (agent_fields L x))"
  by (simp add: agent_fields_def distinct_names_def fold_case_def to_lower_def)

lemma agent_get:
  assumes "lib_ok L"
    "list_all (normal_rule (home L)) (agt_Permissions x)"
  shows
    "get dec_str '''' ''id'' (members (agent_fields L x)) = Inr (agt_ID x)"
    "get dec_str '''' ''name'' (members (agent_fields L x)) = Inr (agt_Name x)"
    "get dec_str '''' ''instructions'' (members (agent_fields L x)) = Inr (agt_Instructions x)"
    "get (dec_list dec_str) [] ''tools'' (members (agent_fields L x)) = Inr (agt_Tools x)"
    "get (dec_ruleset (home L)) [] ''permissions'' (members (agent_fields L x)) = Inr (agt_Permissions x)"
    "get dec_str '''' ''model_ref'' (members (agent_fields L x)) = Inr (agt_ModelRef x)"
    "get dec_members [] ''options'' (members (agent_fields L x)) = Inr (agt_Options x)"
    "get dec_members [] ''output_schema'' (members (agent_fields L x)) = Inr (agt_OutputSchema x)"
    "get dec_str '''' ''created_at'' (members (agent_fields L x)) = Inr (agt_CreatedAt x)"
    "get dec_str '''' ''updated_at'' (members (agent_fields L x)) = Inr (agt_UpdatedAt x)"
  using assms
  unfolding get_def get_raw_def agent_fields_def
  by (simp_all add: jget_members [OF agent_names [unfolded agent_fields_def]] member_simps)


definition zero_agent :: agent where
  "zero_agent = \<lparr>agt_ID = [], agt_Name = [], agt_Instructions = [], agt_Tools = [], agt_Permissions = [],
     agt_ModelRef = [], agt_Options = [], agt_OutputSchema = [], agt_CreatedAt = [], agt_UpdatedAt = []\<rparr>"

definition get_agent :: "lib \<Rightarrow> string \<Rightarrow> members \<Rightarrow> agent res" where
  "get_agent L k ms = get (dec_agent L) zero_agent k ms"

lemma enc_agent_not_null [simp]: "enc_agent L a \<noteq> JNull"
  by (simp add: enc_agent_def)

definition session_run_fields :: "lib \<Rightarrow> session_run \<Rightarrow> (string \<times> json option) list" where
  "session_run_fields L x =
    [(''id'', Some (JStr (run_ID x))),
     (''session_id'', Some (JStr (run_SessionID x))),
     (''request_id'', omit_str (run_RequestID x)),
     (''request_hash'', Some (JStr (run_RequestHash x))),
     (''admitted_version'', Some (jnum (run_AdmittedVersion x))),
     (''work_dir'', omit_str (run_WorkDir x)),
     (''workspace_id'', omit_str (run_WorkspaceID x)),
     (''client_id'', omit_str (run_ClientID x)),
     (''sequence'', Some (jnum (run_Sequence x))),
     (''status'', Some (JStr (run_Status x))),
     (''message'', Some (JStr (run_Message x))),
     (''agent'', Some (enc_agent L (run_Agent x))),
     (''output_schema_json'', Some (JStr (run_OutputSchemaJSON x))),
     (''error_type'', omit_str (run_ErrorType x)),
     (''error_message'', omit_str (run_ErrorMessage x)),
     (''created_at'', Some (jtime L (run_CreatedAt x))),
     (''started_at'', Some (jtime L (run_StartedAt x))),
     (''completed_at'', Some (jtime L (run_CompletedAt x))),
     (''updated_at'', Some (jtime L (run_UpdatedAt x)))]"

definition enc_session_run :: "lib \<Rightarrow> session_run \<Rightarrow> json" where
  "enc_session_run L x = JObj (members (session_run_fields L x))"

definition dec_session_run :: "lib \<Rightarrow> json \<Rightarrow> session_run res" where
  "dec_session_run L = dec_struct (\<lambda>ms.
     bindE (get dec_str '''' ''id'' ms) (\<lambda>v_id.
     bindE (get dec_str '''' ''session_id'' ms) (\<lambda>v_session_id.
     bindE (get dec_str '''' ''request_id'' ms) (\<lambda>v_request_id.
     bindE (get dec_str '''' ''request_hash'' ms) (\<lambda>v_request_hash.
     bindE (get dec_int 0 ''admitted_version'' ms) (\<lambda>v_admitted_version.
     bindE (get dec_str '''' ''work_dir'' ms) (\<lambda>v_work_dir.
     bindE (get dec_str '''' ''workspace_id'' ms) (\<lambda>v_workspace_id.
     bindE (get dec_str '''' ''client_id'' ms) (\<lambda>v_client_id.
     bindE (get dec_int 0 ''sequence'' ms) (\<lambda>v_sequence.
     bindE (get dec_str '''' ''status'' ms) (\<lambda>v_status.
     bindE (get dec_str '''' ''message'' ms) (\<lambda>v_message.
     bindE (get_agent L ''agent'' ms) (\<lambda>v_agent.
     bindE (get dec_str '''' ''output_schema_json'' ms) (\<lambda>v_output_schema_json.
     bindE (get dec_str '''' ''error_type'' ms) (\<lambda>v_error_type.
     bindE (get dec_str '''' ''error_message'' ms) (\<lambda>v_error_message.
     bindE (get (dec_time L) 0 ''created_at'' ms) (\<lambda>v_created_at.
     bindE (get (dec_time L) 0 ''started_at'' ms) (\<lambda>v_started_at.
     bindE (get (dec_time L) 0 ''completed_at'' ms) (\<lambda>v_completed_at.
     bindE (get (dec_time L) 0 ''updated_at'' ms) (\<lambda>v_updated_at.
     Inr \<lparr>run_ID = v_id, run_SessionID = v_session_id, run_RequestID = v_request_id, run_RequestHash = v_request_hash, run_AdmittedVersion = v_admitted_version, run_WorkDir = v_work_dir, run_WorkspaceID = v_workspace_id, run_ClientID = v_client_id, run_Sequence = v_sequence, run_Status = v_status, run_Message = v_message, run_Agent = v_agent, run_OutputSchemaJSON = v_output_schema_json, run_ErrorType = v_error_type, run_ErrorMessage = v_error_message, run_CreatedAt = v_created_at, run_StartedAt = v_started_at, run_CompletedAt = v_completed_at, run_UpdatedAt = v_updated_at\<rparr>))))))))))))))))))))"

lemma session_run_names: "distinct_names (map fst (session_run_fields L x))"
  by (simp add: session_run_fields_def distinct_names_def fold_case_def to_lower_def)

lemma session_run_get:
  assumes "lib_ok L"
    "dec_agent L (enc_agent L (run_Agent x)) = Inr a"
  shows
    "get dec_str '''' ''id'' (members (session_run_fields L x)) = Inr (run_ID x)"
    "get dec_str '''' ''session_id'' (members (session_run_fields L x)) = Inr (run_SessionID x)"
    "get dec_str '''' ''request_id'' (members (session_run_fields L x)) = Inr (run_RequestID x)"
    "get dec_str '''' ''request_hash'' (members (session_run_fields L x)) = Inr (run_RequestHash x)"
    "get dec_int 0 ''admitted_version'' (members (session_run_fields L x)) = Inr (run_AdmittedVersion x)"
    "get dec_str '''' ''work_dir'' (members (session_run_fields L x)) = Inr (run_WorkDir x)"
    "get dec_str '''' ''workspace_id'' (members (session_run_fields L x)) = Inr (run_WorkspaceID x)"
    "get dec_str '''' ''client_id'' (members (session_run_fields L x)) = Inr (run_ClientID x)"
    "get dec_int 0 ''sequence'' (members (session_run_fields L x)) = Inr (run_Sequence x)"
    "get dec_str '''' ''status'' (members (session_run_fields L x)) = Inr (run_Status x)"
    "get dec_str '''' ''message'' (members (session_run_fields L x)) = Inr (run_Message x)"
    "get_agent L ''agent'' (members (session_run_fields L x)) = Inr a"
    "get dec_str '''' ''output_schema_json'' (members (session_run_fields L x)) = Inr (run_OutputSchemaJSON x)"
    "get dec_str '''' ''error_type'' (members (session_run_fields L x)) = Inr (run_ErrorType x)"
    "get dec_str '''' ''error_message'' (members (session_run_fields L x)) = Inr (run_ErrorMessage x)"
    "get (dec_time L) 0 ''created_at'' (members (session_run_fields L x)) = Inr (run_CreatedAt x)"
    "get (dec_time L) 0 ''started_at'' (members (session_run_fields L x)) = Inr (run_StartedAt x)"
    "get (dec_time L) 0 ''completed_at'' (members (session_run_fields L x)) = Inr (run_CompletedAt x)"
    "get (dec_time L) 0 ''updated_at'' (members (session_run_fields L x)) = Inr (run_UpdatedAt x)"
  using assms
  unfolding get_raw_def get_agent_def get_def session_run_fields_def
  by (simp_all add: jget_members [OF session_run_names [unfolded session_run_fields_def]] member_simps)


definition stored_part_fields :: "lib \<Rightarrow> stored_part \<Rightarrow> json \<Rightarrow> (string \<times> json option) list" where
  "stored_part_fields L x v_payload_json =
    [(''id'', Some (JStr (prt_ID x))),
     (''message_id'', Some (JStr (prt_MessageID x))),
     (''sequence'', Some (jnum (prt_Sequence x))),
     (''kind'', Some (JStr (prt_Kind x))),
     (''payload_json'', Some v_payload_json),
     (''created_at'', Some (jtime L (prt_CreatedAt x))),
     (''updated_at'', Some (jtime L (prt_UpdatedAt x)))]"

definition enc_stored_part :: "lib \<Rightarrow> stored_part \<Rightarrow> json res" where
  "enc_stored_part L x =
     bindE (enc_raw L (prt_PayloadJSON x)) (\<lambda>v_payload_json.
     Inr (JObj (members (stored_part_fields L x v_payload_json))))"

definition dec_stored_part :: "lib \<Rightarrow> json \<Rightarrow> stored_part res" where
  "dec_stored_part L = dec_struct (\<lambda>ms.
     bindE (get dec_str '''' ''id'' ms) (\<lambda>v_id.
     bindE (get dec_str '''' ''message_id'' ms) (\<lambda>v_message_id.
     bindE (get dec_int 0 ''sequence'' ms) (\<lambda>v_sequence.
     bindE (get dec_str '''' ''kind'' ms) (\<lambda>v_kind.
     bindE (get_raw L ''payload_json'' ms) (\<lambda>v_payload_json.
     bindE (get (dec_time L) 0 ''created_at'' ms) (\<lambda>v_created_at.
     bindE (get (dec_time L) 0 ''updated_at'' ms) (\<lambda>v_updated_at.
     Inr \<lparr>prt_ID = v_id, prt_MessageID = v_message_id, prt_Sequence = v_sequence, prt_Kind = v_kind, prt_PayloadJSON = v_payload_json, prt_CreatedAt = v_created_at, prt_UpdatedAt = v_updated_at\<rparr>))))))))"

lemma stored_part_names: "distinct_names (map fst (stored_part_fields L x v_payload_json))"
  by (simp add: stored_part_fields_def distinct_names_def fold_case_def to_lower_def)

lemma stored_part_get:
  assumes "lib_ok L"
    "enc_raw L (prt_PayloadJSON x) = Inr v_payload_json" "(prt_PayloadJSON x) \<noteq> []" "raw_ok L (prt_PayloadJSON x)"
  shows
    "get dec_str '''' ''id'' (members (stored_part_fields L x v_payload_json)) = Inr (prt_ID x)"
    "get dec_str '''' ''message_id'' (members (stored_part_fields L x v_payload_json)) = Inr (prt_MessageID x)"
    "get dec_int 0 ''sequence'' (members (stored_part_fields L x v_payload_json)) = Inr (prt_Sequence x)"
    "get dec_str '''' ''kind'' (members (stored_part_fields L x v_payload_json)) = Inr (prt_Kind x)"
    "get_raw L ''payload_json'' (members (stored_part_fields L x v_payload_json)) = Inr (prt_PayloadJSON x)"
    "get (dec_time L) 0 ''created_at'' (members (stored_part_fields L x v_payload_json)) = Inr (prt_CreatedAt x)"
    "get (dec_time L) 0 ''updated_at'' (members (stored_part_fields L x v_payload_json)) = Inr (prt_UpdatedAt x)"
  using assms enc_raw_text [OF assms(2) assms(3) assms(4)]
  unfolding get_def get_raw_def stored_part_fields_def
  by (simp_all add: jget_members [OF stored_part_names [unfolded stored_part_fields_def]] member_simps)


definition stored_message_fields :: "lib \<Rightarrow> stored_message \<Rightarrow> json option \<Rightarrow> json list \<Rightarrow> (string \<times> json option) list" where
  "stored_message_fields L x v_metadata_json v_parts =
    [(''id'', Some (JStr (msg_ID x))),
     (''session_id'', Some (JStr (msg_SessionID x))),
     (''run_id'', omit_str (msg_RunID x)),
     (''idx'', Some (jnum (msg_Idx x))),
     (''role'', Some (JStr (msg_Role x))),
     (''revision'', Some (jnum (msg_Revision x))),
     (''state'', Some (JStr (msg_State x))),
     (''metadata_json'', v_metadata_json),
     (''created_at'', Some (jtime L (msg_CreatedAt x))),
     (''updated_at'', Some (jtime L (msg_UpdatedAt x))),
     (''parts'', Some (JArr v_parts))]"

definition enc_stored_message :: "lib \<Rightarrow> stored_message \<Rightarrow> json res" where
  "enc_stored_message L x =
     bindE (omit_raw L (msg_MetadataJSON x)) (\<lambda>v_metadata_json.
     bindE (mapE (enc_stored_part L) (msg_Parts x)) (\<lambda>v_parts.
     Inr (JObj (members (stored_message_fields L x v_metadata_json v_parts)))))"

definition dec_stored_message :: "lib \<Rightarrow> json \<Rightarrow> stored_message res" where
  "dec_stored_message L = dec_struct (\<lambda>ms.
     bindE (get dec_str '''' ''id'' ms) (\<lambda>v_id.
     bindE (get dec_str '''' ''session_id'' ms) (\<lambda>v_session_id.
     bindE (get dec_str '''' ''run_id'' ms) (\<lambda>v_run_id.
     bindE (get dec_int 0 ''idx'' ms) (\<lambda>v_idx.
     bindE (get dec_str '''' ''role'' ms) (\<lambda>v_role.
     bindE (get dec_int 0 ''revision'' ms) (\<lambda>v_revision.
     bindE (get dec_str '''' ''state'' ms) (\<lambda>v_state.
     bindE (get_raw L ''metadata_json'' ms) (\<lambda>v_metadata_json.
     bindE (get (dec_time L) 0 ''created_at'' ms) (\<lambda>v_created_at.
     bindE (get (dec_time L) 0 ''updated_at'' ms) (\<lambda>v_updated_at.
     bindE (get (dec_list (dec_stored_part L)) [] ''parts'' ms) (\<lambda>v_parts.
     Inr \<lparr>msg_ID = v_id, msg_SessionID = v_session_id, msg_RunID = v_run_id, msg_Idx = v_idx, msg_Role = v_role, msg_Revision = v_revision, msg_State = v_state, msg_MetadataJSON = v_metadata_json, msg_CreatedAt = v_created_at, msg_UpdatedAt = v_updated_at, msg_Parts = v_parts\<rparr>))))))))))))"

lemma stored_message_names: "distinct_names (map fst (stored_message_fields L x v_metadata_json v_parts))"
  by (simp add: stored_message_fields_def distinct_names_def fold_case_def to_lower_def)

lemma stored_message_get:
  assumes "lib_ok L"
    "omit_raw L (msg_MetadataJSON x) = Inr v_metadata_json" "(msg_MetadataJSON x) = [] \<or> raw_ok L (msg_MetadataJSON x)"
    "mapE (dec_stored_part L) v_parts = Inr (msg_Parts x)"
  shows
    "get dec_str '''' ''id'' (members (stored_message_fields L x v_metadata_json v_parts)) = Inr (msg_ID x)"
    "get dec_str '''' ''session_id'' (members (stored_message_fields L x v_metadata_json v_parts)) = Inr (msg_SessionID x)"
    "get dec_str '''' ''run_id'' (members (stored_message_fields L x v_metadata_json v_parts)) = Inr (msg_RunID x)"
    "get dec_int 0 ''idx'' (members (stored_message_fields L x v_metadata_json v_parts)) = Inr (msg_Idx x)"
    "get dec_str '''' ''role'' (members (stored_message_fields L x v_metadata_json v_parts)) = Inr (msg_Role x)"
    "get dec_int 0 ''revision'' (members (stored_message_fields L x v_metadata_json v_parts)) = Inr (msg_Revision x)"
    "get dec_str '''' ''state'' (members (stored_message_fields L x v_metadata_json v_parts)) = Inr (msg_State x)"
    "get_raw L ''metadata_json'' (members (stored_message_fields L x v_metadata_json v_parts)) = Inr (msg_MetadataJSON x)"
    "get (dec_time L) 0 ''created_at'' (members (stored_message_fields L x v_metadata_json v_parts)) = Inr (msg_CreatedAt x)"
    "get (dec_time L) 0 ''updated_at'' (members (stored_message_fields L x v_metadata_json v_parts)) = Inr (msg_UpdatedAt x)"
    "get (dec_list (dec_stored_part L)) [] ''parts'' (members (stored_message_fields L x v_metadata_json v_parts)) = Inr (msg_Parts x)"
  using assms omit_raw_text [OF assms(2) assms(3)]
  unfolding get_def get_raw_def stored_message_fields_def
  by (simp_all add: jget_members [OF stored_message_names [unfolded stored_message_fields_def]] member_simps)


definition model_call_fields :: "lib \<Rightarrow> model_call \<Rightarrow> json option \<Rightarrow> json option \<Rightarrow> json option \<Rightarrow> json option \<Rightarrow> json option \<Rightarrow> (string \<times> json option) list" where
  "model_call_fields L x v_context_percent v_cost v_structured_output_json v_metadata_json v_trace =
    [(''id'', Some (JStr (mcl_ID x))),
     (''session_id'', Some (JStr (mcl_SessionID x))),
     (''run_id'', omit_str (mcl_RunID x)),
     (''assistant_message_id'', omit_str (mcl_AssistantMessageID x)),
     (''step'', Some (jnum (mcl_Step x))),
     (''attempt'', Some (jnum (mcl_Attempt x))),
     (''status'', Some (JStr (mcl_Status x))),
     (''agent_id'', omit_str (mcl_AgentID x)),
     (''model_ref'', omit_str (mcl_ModelRef x)),
     (''provider'', omit_str (mcl_Provider x)),
     (''provider_request_id'', omit_str (mcl_ProviderRequestID x)),
     (''api'', omit_str (mcl_API x)),
     (''model_id'', omit_str (mcl_ModelID x)),
     (''finish_reason'', omit_str (mcl_FinishReason x)),
     (''stop_reason'', omit_str (mcl_StopReason x)),
     (''error_type'', omit_str (mcl_ErrorType x)),
     (''error_message'', omit_str (mcl_ErrorMessage x)),
     (''input_tokens'', Some (jnum (mcl_InputTokens x))),
     (''output_tokens'', Some (jnum (mcl_OutputTokens x))),
     (''reasoning_tokens'', omit_num (mcl_ReasoningTokens x)),
     (''cached_input_tokens'', omit_num (mcl_CachedInputTokens x)),
     (''cache_write_tokens'', omit_num (mcl_CacheWriteTokens x)),
     (''total_tokens'', Some (jnum (mcl_TotalTokens x))),
     (''context_tokens'', Some (jnum (mcl_ContextTokens x))),
     (''context_window'', omit_num (mcl_ContextWindow x)),
     (''context_percent'', v_context_percent),
     (''cost'', v_cost),
     (''structured_output_json'', v_structured_output_json),
     (''metadata_json'', v_metadata_json),
     (''trace'', v_trace),
     (''started_at'', Some (jtime L (mcl_StartedAt x))),
     (''completed_at'', Some (jtime L (mcl_CompletedAt x))),
     (''created_at'', Some (jtime L (mcl_CreatedAt x))),
     (''updated_at'', Some (jtime L (mcl_UpdatedAt x)))]"

definition enc_model_call :: "lib \<Rightarrow> model_call \<Rightarrow> json res" where
  "enc_model_call L x =
     bindE (omit_float (mcl_ContextPercent x)) (\<lambda>v_context_percent.
     bindE (omit_float_ptr (mcl_Cost x)) (\<lambda>v_cost.
     bindE (omit_raw L (mcl_StructuredOutputJSON x)) (\<lambda>v_structured_output_json.
     bindE (omit_raw L (mcl_MetadataJSON x)) (\<lambda>v_metadata_json.
     bindE (omit_raw L (mcl_Trace x)) (\<lambda>v_trace.
     Inr (JObj (members (model_call_fields L x v_context_percent v_cost v_structured_output_json v_metadata_json v_trace))))))))"

definition dec_model_call :: "lib \<Rightarrow> json \<Rightarrow> model_call res" where
  "dec_model_call L = dec_struct (\<lambda>ms.
     bindE (get dec_str '''' ''id'' ms) (\<lambda>v_id.
     bindE (get dec_str '''' ''session_id'' ms) (\<lambda>v_session_id.
     bindE (get dec_str '''' ''run_id'' ms) (\<lambda>v_run_id.
     bindE (get dec_str '''' ''assistant_message_id'' ms) (\<lambda>v_assistant_message_id.
     bindE (get dec_int 0 ''step'' ms) (\<lambda>v_step.
     bindE (get dec_int 0 ''attempt'' ms) (\<lambda>v_attempt.
     bindE (get dec_str '''' ''status'' ms) (\<lambda>v_status.
     bindE (get dec_str '''' ''agent_id'' ms) (\<lambda>v_agent_id.
     bindE (get dec_str '''' ''model_ref'' ms) (\<lambda>v_model_ref.
     bindE (get dec_str '''' ''provider'' ms) (\<lambda>v_provider.
     bindE (get dec_str '''' ''provider_request_id'' ms) (\<lambda>v_provider_request_id.
     bindE (get dec_str '''' ''api'' ms) (\<lambda>v_api.
     bindE (get dec_str '''' ''model_id'' ms) (\<lambda>v_model_id.
     bindE (get dec_str '''' ''finish_reason'' ms) (\<lambda>v_finish_reason.
     bindE (get dec_str '''' ''stop_reason'' ms) (\<lambda>v_stop_reason.
     bindE (get dec_str '''' ''error_type'' ms) (\<lambda>v_error_type.
     bindE (get dec_str '''' ''error_message'' ms) (\<lambda>v_error_message.
     bindE (get dec_int 0 ''input_tokens'' ms) (\<lambda>v_input_tokens.
     bindE (get dec_int 0 ''output_tokens'' ms) (\<lambda>v_output_tokens.
     bindE (get dec_int 0 ''reasoning_tokens'' ms) (\<lambda>v_reasoning_tokens.
     bindE (get dec_int 0 ''cached_input_tokens'' ms) (\<lambda>v_cached_input_tokens.
     bindE (get dec_int 0 ''cache_write_tokens'' ms) (\<lambda>v_cache_write_tokens.
     bindE (get dec_int 0 ''total_tokens'' ms) (\<lambda>v_total_tokens.
     bindE (get dec_int 0 ''context_tokens'' ms) (\<lambda>v_context_tokens.
     bindE (get dec_int 0 ''context_window'' ms) (\<lambda>v_context_window.
     bindE (get dec_float (Finite 0) ''context_percent'' ms) (\<lambda>v_context_percent.
     bindE (get dec_float_ptr None ''cost'' ms) (\<lambda>v_cost.
     bindE (get_raw L ''structured_output_json'' ms) (\<lambda>v_structured_output_json.
     bindE (get_raw L ''metadata_json'' ms) (\<lambda>v_metadata_json.
     bindE (get_raw L ''trace'' ms) (\<lambda>v_trace.
     bindE (get (dec_time L) 0 ''started_at'' ms) (\<lambda>v_started_at.
     bindE (get (dec_time L) 0 ''completed_at'' ms) (\<lambda>v_completed_at.
     bindE (get (dec_time L) 0 ''created_at'' ms) (\<lambda>v_created_at.
     bindE (get (dec_time L) 0 ''updated_at'' ms) (\<lambda>v_updated_at.
     Inr \<lparr>mcl_ID = v_id, mcl_SessionID = v_session_id, mcl_RunID = v_run_id, mcl_AssistantMessageID = v_assistant_message_id, mcl_Step = v_step, mcl_Attempt = v_attempt, mcl_Status = v_status, mcl_AgentID = v_agent_id, mcl_ModelRef = v_model_ref, mcl_Provider = v_provider, mcl_ProviderRequestID = v_provider_request_id, mcl_API = v_api, mcl_ModelID = v_model_id, mcl_FinishReason = v_finish_reason, mcl_StopReason = v_stop_reason, mcl_ErrorType = v_error_type, mcl_ErrorMessage = v_error_message, mcl_InputTokens = v_input_tokens, mcl_OutputTokens = v_output_tokens, mcl_ReasoningTokens = v_reasoning_tokens, mcl_CachedInputTokens = v_cached_input_tokens, mcl_CacheWriteTokens = v_cache_write_tokens, mcl_TotalTokens = v_total_tokens, mcl_ContextTokens = v_context_tokens, mcl_ContextWindow = v_context_window, mcl_ContextPercent = v_context_percent, mcl_Cost = v_cost, mcl_StructuredOutputJSON = v_structured_output_json, mcl_MetadataJSON = v_metadata_json, mcl_Trace = v_trace, mcl_StartedAt = v_started_at, mcl_CompletedAt = v_completed_at, mcl_CreatedAt = v_created_at, mcl_UpdatedAt = v_updated_at\<rparr>)))))))))))))))))))))))))))))))))))"

lemma model_call_names: "distinct_names (map fst (model_call_fields L x v_context_percent v_cost v_structured_output_json v_metadata_json v_trace))"
  by (simp add: model_call_fields_def distinct_names_def fold_case_def to_lower_def)

lemma model_call_get:
  assumes "lib_ok L"
    "omit_float (mcl_ContextPercent x) = Inr v_context_percent"
    "omit_float_ptr (mcl_Cost x) = Inr v_cost"
    "omit_raw L (mcl_StructuredOutputJSON x) = Inr v_structured_output_json" "(mcl_StructuredOutputJSON x) = [] \<or> raw_ok L (mcl_StructuredOutputJSON x)"
    "omit_raw L (mcl_MetadataJSON x) = Inr v_metadata_json" "(mcl_MetadataJSON x) = [] \<or> raw_ok L (mcl_MetadataJSON x)"
    "omit_raw L (mcl_Trace x) = Inr v_trace" "(mcl_Trace x) = [] \<or> raw_ok L (mcl_Trace x)"
  shows
    "get dec_str '''' ''id'' (members (model_call_fields L x v_context_percent v_cost v_structured_output_json v_metadata_json v_trace)) = Inr (mcl_ID x)"
    "get dec_str '''' ''session_id'' (members (model_call_fields L x v_context_percent v_cost v_structured_output_json v_metadata_json v_trace)) = Inr (mcl_SessionID x)"
    "get dec_str '''' ''run_id'' (members (model_call_fields L x v_context_percent v_cost v_structured_output_json v_metadata_json v_trace)) = Inr (mcl_RunID x)"
    "get dec_str '''' ''assistant_message_id'' (members (model_call_fields L x v_context_percent v_cost v_structured_output_json v_metadata_json v_trace)) = Inr (mcl_AssistantMessageID x)"
    "get dec_int 0 ''step'' (members (model_call_fields L x v_context_percent v_cost v_structured_output_json v_metadata_json v_trace)) = Inr (mcl_Step x)"
    "get dec_int 0 ''attempt'' (members (model_call_fields L x v_context_percent v_cost v_structured_output_json v_metadata_json v_trace)) = Inr (mcl_Attempt x)"
    "get dec_str '''' ''status'' (members (model_call_fields L x v_context_percent v_cost v_structured_output_json v_metadata_json v_trace)) = Inr (mcl_Status x)"
    "get dec_str '''' ''agent_id'' (members (model_call_fields L x v_context_percent v_cost v_structured_output_json v_metadata_json v_trace)) = Inr (mcl_AgentID x)"
    "get dec_str '''' ''model_ref'' (members (model_call_fields L x v_context_percent v_cost v_structured_output_json v_metadata_json v_trace)) = Inr (mcl_ModelRef x)"
    "get dec_str '''' ''provider'' (members (model_call_fields L x v_context_percent v_cost v_structured_output_json v_metadata_json v_trace)) = Inr (mcl_Provider x)"
    "get dec_str '''' ''provider_request_id'' (members (model_call_fields L x v_context_percent v_cost v_structured_output_json v_metadata_json v_trace)) = Inr (mcl_ProviderRequestID x)"
    "get dec_str '''' ''api'' (members (model_call_fields L x v_context_percent v_cost v_structured_output_json v_metadata_json v_trace)) = Inr (mcl_API x)"
    "get dec_str '''' ''model_id'' (members (model_call_fields L x v_context_percent v_cost v_structured_output_json v_metadata_json v_trace)) = Inr (mcl_ModelID x)"
    "get dec_str '''' ''finish_reason'' (members (model_call_fields L x v_context_percent v_cost v_structured_output_json v_metadata_json v_trace)) = Inr (mcl_FinishReason x)"
    "get dec_str '''' ''stop_reason'' (members (model_call_fields L x v_context_percent v_cost v_structured_output_json v_metadata_json v_trace)) = Inr (mcl_StopReason x)"
    "get dec_str '''' ''error_type'' (members (model_call_fields L x v_context_percent v_cost v_structured_output_json v_metadata_json v_trace)) = Inr (mcl_ErrorType x)"
    "get dec_str '''' ''error_message'' (members (model_call_fields L x v_context_percent v_cost v_structured_output_json v_metadata_json v_trace)) = Inr (mcl_ErrorMessage x)"
    "get dec_int 0 ''input_tokens'' (members (model_call_fields L x v_context_percent v_cost v_structured_output_json v_metadata_json v_trace)) = Inr (mcl_InputTokens x)"
    "get dec_int 0 ''output_tokens'' (members (model_call_fields L x v_context_percent v_cost v_structured_output_json v_metadata_json v_trace)) = Inr (mcl_OutputTokens x)"
    "get dec_int 0 ''reasoning_tokens'' (members (model_call_fields L x v_context_percent v_cost v_structured_output_json v_metadata_json v_trace)) = Inr (mcl_ReasoningTokens x)"
    "get dec_int 0 ''cached_input_tokens'' (members (model_call_fields L x v_context_percent v_cost v_structured_output_json v_metadata_json v_trace)) = Inr (mcl_CachedInputTokens x)"
    "get dec_int 0 ''cache_write_tokens'' (members (model_call_fields L x v_context_percent v_cost v_structured_output_json v_metadata_json v_trace)) = Inr (mcl_CacheWriteTokens x)"
    "get dec_int 0 ''total_tokens'' (members (model_call_fields L x v_context_percent v_cost v_structured_output_json v_metadata_json v_trace)) = Inr (mcl_TotalTokens x)"
    "get dec_int 0 ''context_tokens'' (members (model_call_fields L x v_context_percent v_cost v_structured_output_json v_metadata_json v_trace)) = Inr (mcl_ContextTokens x)"
    "get dec_int 0 ''context_window'' (members (model_call_fields L x v_context_percent v_cost v_structured_output_json v_metadata_json v_trace)) = Inr (mcl_ContextWindow x)"
    "get dec_float (Finite 0) ''context_percent'' (members (model_call_fields L x v_context_percent v_cost v_structured_output_json v_metadata_json v_trace)) = Inr (mcl_ContextPercent x)"
    "get dec_float_ptr None ''cost'' (members (model_call_fields L x v_context_percent v_cost v_structured_output_json v_metadata_json v_trace)) = Inr (mcl_Cost x)"
    "get_raw L ''structured_output_json'' (members (model_call_fields L x v_context_percent v_cost v_structured_output_json v_metadata_json v_trace)) = Inr (mcl_StructuredOutputJSON x)"
    "get_raw L ''metadata_json'' (members (model_call_fields L x v_context_percent v_cost v_structured_output_json v_metadata_json v_trace)) = Inr (mcl_MetadataJSON x)"
    "get_raw L ''trace'' (members (model_call_fields L x v_context_percent v_cost v_structured_output_json v_metadata_json v_trace)) = Inr (mcl_Trace x)"
    "get (dec_time L) 0 ''started_at'' (members (model_call_fields L x v_context_percent v_cost v_structured_output_json v_metadata_json v_trace)) = Inr (mcl_StartedAt x)"
    "get (dec_time L) 0 ''completed_at'' (members (model_call_fields L x v_context_percent v_cost v_structured_output_json v_metadata_json v_trace)) = Inr (mcl_CompletedAt x)"
    "get (dec_time L) 0 ''created_at'' (members (model_call_fields L x v_context_percent v_cost v_structured_output_json v_metadata_json v_trace)) = Inr (mcl_CreatedAt x)"
    "get (dec_time L) 0 ''updated_at'' (members (model_call_fields L x v_context_percent v_cost v_structured_output_json v_metadata_json v_trace)) = Inr (mcl_UpdatedAt x)"
  using assms omit_float_case [OF assms(2)] omit_float_ptr_case [OF assms(3)] omit_raw_text [OF assms(4) assms(5)] omit_raw_text [OF assms(6) assms(7)] omit_raw_text [OF assms(8) assms(9)]
  unfolding get_def get_raw_def model_call_fields_def
  by (simp_all add: jget_members [OF model_call_names [unfolded model_call_fields_def]] member_simps)


definition tool_use_fields :: "lib \<Rightarrow> tool_use \<Rightarrow> (string \<times> json option) list" where
  "tool_use_fields L x =
    [(''id'', Some (JStr (tlu_ID x))),
     (''session_id'', Some (JStr (tlu_SessionID x))),
     (''run_id'', omit_str (tlu_RunID x)),
     (''model_call_id'', omit_str (tlu_ModelCallID x)),
     (''assistant_message_id'', omit_str (tlu_AssistantMessageID x)),
     (''part_id'', omit_str (tlu_PartID x)),
     (''step'', Some (jnum (tlu_Step x))),
     (''ordinal'', Some (jnum (tlu_Ordinal x))),
     (''call_id'', omit_str (tlu_CallID x)),
     (''name'', Some (JStr (tlu_Name x))),
     (''status'', Some (JStr (tlu_Status x))),
     (''input_json'', omit_bytes L (tlu_InputJSON x)),
     (''output'', omit_str (tlu_Output x)),
     (''structured_json'', omit_bytes L (tlu_StructuredJSON x)),
     (''metadata_json'', omit_bytes L (tlu_MetadataJSON x)),
     (''error_type'', omit_str (tlu_ErrorType x)),
     (''error_message'', omit_str (tlu_ErrorMessage x)),
     (''proposed_at'', Some (jtime L (tlu_ProposedAt x))),
     (''authorized_at'', Some (jtime L (tlu_AuthorizedAt x))),
     (''started_at'', Some (jtime L (tlu_StartedAt x))),
     (''completed_at'', Some (jtime L (tlu_CompletedAt x))),
     (''created_at'', Some (jtime L (tlu_CreatedAt x))),
     (''updated_at'', Some (jtime L (tlu_UpdatedAt x)))]"

definition enc_tool_use :: "lib \<Rightarrow> tool_use \<Rightarrow> json" where
  "enc_tool_use L x = JObj (members (tool_use_fields L x))"

definition dec_tool_use :: "lib \<Rightarrow> json \<Rightarrow> tool_use res" where
  "dec_tool_use L = dec_struct (\<lambda>ms.
     bindE (get dec_str '''' ''id'' ms) (\<lambda>v_id.
     bindE (get dec_str '''' ''session_id'' ms) (\<lambda>v_session_id.
     bindE (get dec_str '''' ''run_id'' ms) (\<lambda>v_run_id.
     bindE (get dec_str '''' ''model_call_id'' ms) (\<lambda>v_model_call_id.
     bindE (get dec_str '''' ''assistant_message_id'' ms) (\<lambda>v_assistant_message_id.
     bindE (get dec_str '''' ''part_id'' ms) (\<lambda>v_part_id.
     bindE (get dec_int 0 ''step'' ms) (\<lambda>v_step.
     bindE (get dec_int 0 ''ordinal'' ms) (\<lambda>v_ordinal.
     bindE (get dec_str '''' ''call_id'' ms) (\<lambda>v_call_id.
     bindE (get dec_str '''' ''name'' ms) (\<lambda>v_name.
     bindE (get dec_str '''' ''status'' ms) (\<lambda>v_status.
     bindE (get (dec_bytes L) [] ''input_json'' ms) (\<lambda>v_input_json.
     bindE (get dec_str '''' ''output'' ms) (\<lambda>v_output.
     bindE (get (dec_bytes L) [] ''structured_json'' ms) (\<lambda>v_structured_json.
     bindE (get (dec_bytes L) [] ''metadata_json'' ms) (\<lambda>v_metadata_json.
     bindE (get dec_str '''' ''error_type'' ms) (\<lambda>v_error_type.
     bindE (get dec_str '''' ''error_message'' ms) (\<lambda>v_error_message.
     bindE (get (dec_time L) 0 ''proposed_at'' ms) (\<lambda>v_proposed_at.
     bindE (get (dec_time L) 0 ''authorized_at'' ms) (\<lambda>v_authorized_at.
     bindE (get (dec_time L) 0 ''started_at'' ms) (\<lambda>v_started_at.
     bindE (get (dec_time L) 0 ''completed_at'' ms) (\<lambda>v_completed_at.
     bindE (get (dec_time L) 0 ''created_at'' ms) (\<lambda>v_created_at.
     bindE (get (dec_time L) 0 ''updated_at'' ms) (\<lambda>v_updated_at.
     Inr \<lparr>tlu_ID = v_id, tlu_SessionID = v_session_id, tlu_RunID = v_run_id, tlu_ModelCallID = v_model_call_id, tlu_AssistantMessageID = v_assistant_message_id, tlu_PartID = v_part_id, tlu_Step = v_step, tlu_Ordinal = v_ordinal, tlu_CallID = v_call_id, tlu_Name = v_name, tlu_Status = v_status, tlu_InputJSON = v_input_json, tlu_Output = v_output, tlu_StructuredJSON = v_structured_json, tlu_MetadataJSON = v_metadata_json, tlu_ErrorType = v_error_type, tlu_ErrorMessage = v_error_message, tlu_ProposedAt = v_proposed_at, tlu_AuthorizedAt = v_authorized_at, tlu_StartedAt = v_started_at, tlu_CompletedAt = v_completed_at, tlu_CreatedAt = v_created_at, tlu_UpdatedAt = v_updated_at\<rparr>))))))))))))))))))))))))"

lemma tool_use_names: "distinct_names (map fst (tool_use_fields L x))"
  by (simp add: tool_use_fields_def distinct_names_def fold_case_def to_lower_def)

lemma tool_use_get:
  assumes "lib_ok L"
  shows
    "get dec_str '''' ''id'' (members (tool_use_fields L x)) = Inr (tlu_ID x)"
    "get dec_str '''' ''session_id'' (members (tool_use_fields L x)) = Inr (tlu_SessionID x)"
    "get dec_str '''' ''run_id'' (members (tool_use_fields L x)) = Inr (tlu_RunID x)"
    "get dec_str '''' ''model_call_id'' (members (tool_use_fields L x)) = Inr (tlu_ModelCallID x)"
    "get dec_str '''' ''assistant_message_id'' (members (tool_use_fields L x)) = Inr (tlu_AssistantMessageID x)"
    "get dec_str '''' ''part_id'' (members (tool_use_fields L x)) = Inr (tlu_PartID x)"
    "get dec_int 0 ''step'' (members (tool_use_fields L x)) = Inr (tlu_Step x)"
    "get dec_int 0 ''ordinal'' (members (tool_use_fields L x)) = Inr (tlu_Ordinal x)"
    "get dec_str '''' ''call_id'' (members (tool_use_fields L x)) = Inr (tlu_CallID x)"
    "get dec_str '''' ''name'' (members (tool_use_fields L x)) = Inr (tlu_Name x)"
    "get dec_str '''' ''status'' (members (tool_use_fields L x)) = Inr (tlu_Status x)"
    "get (dec_bytes L) [] ''input_json'' (members (tool_use_fields L x)) = Inr (tlu_InputJSON x)"
    "get dec_str '''' ''output'' (members (tool_use_fields L x)) = Inr (tlu_Output x)"
    "get (dec_bytes L) [] ''structured_json'' (members (tool_use_fields L x)) = Inr (tlu_StructuredJSON x)"
    "get (dec_bytes L) [] ''metadata_json'' (members (tool_use_fields L x)) = Inr (tlu_MetadataJSON x)"
    "get dec_str '''' ''error_type'' (members (tool_use_fields L x)) = Inr (tlu_ErrorType x)"
    "get dec_str '''' ''error_message'' (members (tool_use_fields L x)) = Inr (tlu_ErrorMessage x)"
    "get (dec_time L) 0 ''proposed_at'' (members (tool_use_fields L x)) = Inr (tlu_ProposedAt x)"
    "get (dec_time L) 0 ''authorized_at'' (members (tool_use_fields L x)) = Inr (tlu_AuthorizedAt x)"
    "get (dec_time L) 0 ''started_at'' (members (tool_use_fields L x)) = Inr (tlu_StartedAt x)"
    "get (dec_time L) 0 ''completed_at'' (members (tool_use_fields L x)) = Inr (tlu_CompletedAt x)"
    "get (dec_time L) 0 ''created_at'' (members (tool_use_fields L x)) = Inr (tlu_CreatedAt x)"
    "get (dec_time L) 0 ''updated_at'' (members (tool_use_fields L x)) = Inr (tlu_UpdatedAt x)"
  using assms
  unfolding get_def get_raw_def tool_use_fields_def
  by (simp_all add: jget_members [OF tool_use_names [unfolded tool_use_fields_def]] member_simps)


definition permission_request_fields :: "lib \<Rightarrow> permission_request \<Rightarrow> (string \<times> json option) list" where
  "permission_request_fields L x =
    [(''id'', Some (JStr (prq_ID x))),
     (''session_id'', Some (JStr (prq_SessionID x))),
     (''run_id'', omit_str (prq_RunID x)),
     (''tool_use_id'', omit_str (prq_ToolUseID x)),
     (''call_id'', omit_str (prq_CallID x)),
     (''action'', Some (JStr (prq_Action x))),
     (''resources'', Some (jstrs (prq_Resources x))),
     (''status'', Some (JStr (prq_Status x))),
     (''response'', omit_str (prq_Response x)),
     (''error_type'', omit_str (prq_ErrorType x)),
     (''error_message'', omit_str (prq_ErrorMessage x)),
     (''created_at'', Some (jtime L (prq_CreatedAt x))),
     (''resolved_at'', Some (jtime L (prq_ResolvedAt x))),
     (''updated_at'', Some (jtime L (prq_UpdatedAt x)))]"

definition enc_permission_request :: "lib \<Rightarrow> permission_request \<Rightarrow> json" where
  "enc_permission_request L x = JObj (members (permission_request_fields L x))"

definition dec_permission_request :: "lib \<Rightarrow> json \<Rightarrow> permission_request res" where
  "dec_permission_request L = dec_struct (\<lambda>ms.
     bindE (get dec_str '''' ''id'' ms) (\<lambda>v_id.
     bindE (get dec_str '''' ''session_id'' ms) (\<lambda>v_session_id.
     bindE (get dec_str '''' ''run_id'' ms) (\<lambda>v_run_id.
     bindE (get dec_str '''' ''tool_use_id'' ms) (\<lambda>v_tool_use_id.
     bindE (get dec_str '''' ''call_id'' ms) (\<lambda>v_call_id.
     bindE (get dec_str '''' ''action'' ms) (\<lambda>v_action.
     bindE (get (dec_list dec_str) [] ''resources'' ms) (\<lambda>v_resources.
     bindE (get dec_str '''' ''status'' ms) (\<lambda>v_status.
     bindE (get dec_str '''' ''response'' ms) (\<lambda>v_response.
     bindE (get dec_str '''' ''error_type'' ms) (\<lambda>v_error_type.
     bindE (get dec_str '''' ''error_message'' ms) (\<lambda>v_error_message.
     bindE (get (dec_time L) 0 ''created_at'' ms) (\<lambda>v_created_at.
     bindE (get (dec_time L) 0 ''resolved_at'' ms) (\<lambda>v_resolved_at.
     bindE (get (dec_time L) 0 ''updated_at'' ms) (\<lambda>v_updated_at.
     Inr \<lparr>prq_ID = v_id, prq_SessionID = v_session_id, prq_RunID = v_run_id, prq_ToolUseID = v_tool_use_id, prq_CallID = v_call_id, prq_Action = v_action, prq_Resources = v_resources, prq_Status = v_status, prq_Response = v_response, prq_ErrorType = v_error_type, prq_ErrorMessage = v_error_message, prq_CreatedAt = v_created_at, prq_ResolvedAt = v_resolved_at, prq_UpdatedAt = v_updated_at\<rparr>)))))))))))))))"

lemma permission_request_names: "distinct_names (map fst (permission_request_fields L x))"
  by (simp add: permission_request_fields_def distinct_names_def fold_case_def to_lower_def)

lemma permission_request_get:
  assumes "lib_ok L"
  shows
    "get dec_str '''' ''id'' (members (permission_request_fields L x)) = Inr (prq_ID x)"
    "get dec_str '''' ''session_id'' (members (permission_request_fields L x)) = Inr (prq_SessionID x)"
    "get dec_str '''' ''run_id'' (members (permission_request_fields L x)) = Inr (prq_RunID x)"
    "get dec_str '''' ''tool_use_id'' (members (permission_request_fields L x)) = Inr (prq_ToolUseID x)"
    "get dec_str '''' ''call_id'' (members (permission_request_fields L x)) = Inr (prq_CallID x)"
    "get dec_str '''' ''action'' (members (permission_request_fields L x)) = Inr (prq_Action x)"
    "get (dec_list dec_str) [] ''resources'' (members (permission_request_fields L x)) = Inr (prq_Resources x)"
    "get dec_str '''' ''status'' (members (permission_request_fields L x)) = Inr (prq_Status x)"
    "get dec_str '''' ''response'' (members (permission_request_fields L x)) = Inr (prq_Response x)"
    "get dec_str '''' ''error_type'' (members (permission_request_fields L x)) = Inr (prq_ErrorType x)"
    "get dec_str '''' ''error_message'' (members (permission_request_fields L x)) = Inr (prq_ErrorMessage x)"
    "get (dec_time L) 0 ''created_at'' (members (permission_request_fields L x)) = Inr (prq_CreatedAt x)"
    "get (dec_time L) 0 ''resolved_at'' (members (permission_request_fields L x)) = Inr (prq_ResolvedAt x)"
    "get (dec_time L) 0 ''updated_at'' (members (permission_request_fields L x)) = Inr (prq_UpdatedAt x)"
  using assms
  unfolding get_def get_raw_def permission_request_fields_def
  by (simp_all add: jget_members [OF permission_request_names [unfolded permission_request_fields_def]] member_simps)


definition permission_grant_fields :: "lib \<Rightarrow> permission_grant \<Rightarrow> (string \<times> json option) list" where
  "permission_grant_fields L x =
    [(''id'', Some (JStr (pgr_ID x))),
     (''session_id'', Some (JStr (pgr_SessionID x))),
     (''action'', Some (JStr (pgr_Action x))),
     (''resource'', Some (JStr (pgr_Resource x))),
     (''created_at'', Some (jtime L (pgr_CreatedAt x)))]"

definition enc_permission_grant :: "lib \<Rightarrow> permission_grant \<Rightarrow> json" where
  "enc_permission_grant L x = JObj (members (permission_grant_fields L x))"

definition dec_permission_grant :: "lib \<Rightarrow> json \<Rightarrow> permission_grant res" where
  "dec_permission_grant L = dec_struct (\<lambda>ms.
     bindE (get dec_str '''' ''id'' ms) (\<lambda>v_id.
     bindE (get dec_str '''' ''session_id'' ms) (\<lambda>v_session_id.
     bindE (get dec_str '''' ''action'' ms) (\<lambda>v_action.
     bindE (get dec_str '''' ''resource'' ms) (\<lambda>v_resource.
     bindE (get (dec_time L) 0 ''created_at'' ms) (\<lambda>v_created_at.
     Inr \<lparr>pgr_ID = v_id, pgr_SessionID = v_session_id, pgr_Action = v_action, pgr_Resource = v_resource, pgr_CreatedAt = v_created_at\<rparr>))))))"

lemma permission_grant_names: "distinct_names (map fst (permission_grant_fields L x))"
  by (simp add: permission_grant_fields_def distinct_names_def fold_case_def to_lower_def)

lemma permission_grant_get:
  assumes "lib_ok L"
  shows
    "get dec_str '''' ''id'' (members (permission_grant_fields L x)) = Inr (pgr_ID x)"
    "get dec_str '''' ''session_id'' (members (permission_grant_fields L x)) = Inr (pgr_SessionID x)"
    "get dec_str '''' ''action'' (members (permission_grant_fields L x)) = Inr (pgr_Action x)"
    "get dec_str '''' ''resource'' (members (permission_grant_fields L x)) = Inr (pgr_Resource x)"
    "get (dec_time L) 0 ''created_at'' (members (permission_grant_fields L x)) = Inr (pgr_CreatedAt x)"
  using assms
  unfolding get_def get_raw_def permission_grant_fields_def
  by (simp_all add: jget_members [OF permission_grant_names [unfolded permission_grant_fields_def]] member_simps)


definition created_data_fields :: "lib \<Rightarrow> created_data \<Rightarrow> (string \<times> json option) list" where
  "created_data_fields L x =
    [(''id'', Some (JStr (crd_ID x))),
     (''title'', omit_str (crd_Title x)),
     (''work_dir'', omit_str (crd_WorkDir x)),
     (''workspace_id'', omit_str (crd_WorkspaceID x)),
     (''client_id'', omit_str (crd_ClientID x)),
     (''created_at'', Some (JStr (crd_CreatedAt x))),
     (''updated_at'', Some (JStr (crd_UpdatedAt x)))]"

definition enc_created_data :: "lib \<Rightarrow> created_data \<Rightarrow> json" where
  "enc_created_data L x = JObj (members (created_data_fields L x))"

definition dec_created_data :: "lib \<Rightarrow> json \<Rightarrow> created_data res" where
  "dec_created_data L = dec_struct (\<lambda>ms.
     bindE (get dec_str '''' ''id'' ms) (\<lambda>v_id.
     bindE (get dec_str '''' ''title'' ms) (\<lambda>v_title.
     bindE (get dec_str '''' ''work_dir'' ms) (\<lambda>v_work_dir.
     bindE (get dec_str '''' ''workspace_id'' ms) (\<lambda>v_workspace_id.
     bindE (get dec_str '''' ''client_id'' ms) (\<lambda>v_client_id.
     bindE (get dec_str '''' ''created_at'' ms) (\<lambda>v_created_at.
     bindE (get dec_str '''' ''updated_at'' ms) (\<lambda>v_updated_at.
     Inr \<lparr>crd_ID = v_id, crd_Title = v_title, crd_WorkDir = v_work_dir, crd_WorkspaceID = v_workspace_id, crd_ClientID = v_client_id, crd_CreatedAt = v_created_at, crd_UpdatedAt = v_updated_at\<rparr>))))))))"

lemma created_data_names: "distinct_names (map fst (created_data_fields L x))"
  by (simp add: created_data_fields_def distinct_names_def fold_case_def to_lower_def)

lemma created_data_get:
  assumes "lib_ok L"
  shows
    "get dec_str '''' ''id'' (members (created_data_fields L x)) = Inr (crd_ID x)"
    "get dec_str '''' ''title'' (members (created_data_fields L x)) = Inr (crd_Title x)"
    "get dec_str '''' ''work_dir'' (members (created_data_fields L x)) = Inr (crd_WorkDir x)"
    "get dec_str '''' ''workspace_id'' (members (created_data_fields L x)) = Inr (crd_WorkspaceID x)"
    "get dec_str '''' ''client_id'' (members (created_data_fields L x)) = Inr (crd_ClientID x)"
    "get dec_str '''' ''created_at'' (members (created_data_fields L x)) = Inr (crd_CreatedAt x)"
    "get dec_str '''' ''updated_at'' (members (created_data_fields L x)) = Inr (crd_UpdatedAt x)"
  using assms
  unfolding get_def get_raw_def created_data_fields_def
  by (simp_all add: jget_members [OF created_data_names [unfolded created_data_fields_def]] member_simps)


definition renamed_data_fields :: "lib \<Rightarrow> renamed_data \<Rightarrow> (string \<times> json option) list" where
  "renamed_data_fields L x =
    [(''title'', Some (JStr (rnd_Title x))),
     (''updated_at'', Some (JStr (rnd_UpdatedAt x)))]"

definition enc_renamed_data :: "lib \<Rightarrow> renamed_data \<Rightarrow> json" where
  "enc_renamed_data L x = JObj (members (renamed_data_fields L x))"

definition dec_renamed_data :: "lib \<Rightarrow> json \<Rightarrow> renamed_data res" where
  "dec_renamed_data L = dec_struct (\<lambda>ms.
     bindE (get dec_str '''' ''title'' ms) (\<lambda>v_title.
     bindE (get dec_str '''' ''updated_at'' ms) (\<lambda>v_updated_at.
     Inr \<lparr>rnd_Title = v_title, rnd_UpdatedAt = v_updated_at\<rparr>)))"

lemma renamed_data_names: "distinct_names (map fst (renamed_data_fields L x))"
  by (simp add: renamed_data_fields_def distinct_names_def fold_case_def to_lower_def)

lemma renamed_data_get:
  assumes "lib_ok L"
  shows
    "get dec_str '''' ''title'' (members (renamed_data_fields L x)) = Inr (rnd_Title x)"
    "get dec_str '''' ''updated_at'' (members (renamed_data_fields L x)) = Inr (rnd_UpdatedAt x)"
  using assms
  unfolding get_def get_raw_def renamed_data_fields_def
  by (simp_all add: jget_members [OF renamed_data_names [unfolded renamed_data_fields_def]] member_simps)


definition moved_data_fields :: "lib \<Rightarrow> moved_data \<Rightarrow> (string \<times> json option) list" where
  "moved_data_fields L x =
    [(''work_dir'', omit_str (mvd_WorkDir x)),
     (''workspace_id'', omit_str (mvd_WorkspaceID x)),
     (''updated_at'', Some (JStr (mvd_UpdatedAt x)))]"

definition enc_moved_data :: "lib \<Rightarrow> moved_data \<Rightarrow> json" where
  "enc_moved_data L x = JObj (members (moved_data_fields L x))"

definition dec_moved_data :: "lib \<Rightarrow> json \<Rightarrow> moved_data res" where
  "dec_moved_data L = dec_struct (\<lambda>ms.
     bindE (get dec_str '''' ''work_dir'' ms) (\<lambda>v_work_dir.
     bindE (get dec_str '''' ''workspace_id'' ms) (\<lambda>v_workspace_id.
     bindE (get dec_str '''' ''updated_at'' ms) (\<lambda>v_updated_at.
     Inr \<lparr>mvd_WorkDir = v_work_dir, mvd_WorkspaceID = v_workspace_id, mvd_UpdatedAt = v_updated_at\<rparr>))))"

lemma moved_data_names: "distinct_names (map fst (moved_data_fields L x))"
  by (simp add: moved_data_fields_def distinct_names_def fold_case_def to_lower_def)

lemma moved_data_get:
  assumes "lib_ok L"
  shows
    "get dec_str '''' ''work_dir'' (members (moved_data_fields L x)) = Inr (mvd_WorkDir x)"
    "get dec_str '''' ''workspace_id'' (members (moved_data_fields L x)) = Inr (mvd_WorkspaceID x)"
    "get dec_str '''' ''updated_at'' (members (moved_data_fields L x)) = Inr (mvd_UpdatedAt x)"
  using assms
  unfolding get_def get_raw_def moved_data_fields_def
  by (simp_all add: jget_members [OF moved_data_names [unfolded moved_data_fields_def]] member_simps)


section \<open>Round trips\<close>

text \<open>
  The values that come back unchanged: raw members must be JSON text as \<^verbatim>\<open>json.Marshal\<close> writes
  it, floats finite, permission rules in the normal form that decoding gives them.
\<close>

definition agent_ok :: "lib \<Rightarrow> agent \<Rightarrow> bool" where
  "agent_ok L a \<longleftrightarrow> list_all (normal_rule (home L)) (agt_Permissions a)"

definition part_ok :: "lib \<Rightarrow> stored_part \<Rightarrow> bool" where
  "part_ok L p \<longleftrightarrow> prt_PayloadJSON p \<noteq> [] \<and> raw_ok L (prt_PayloadJSON p)"

definition message_ok :: "lib \<Rightarrow> stored_message \<Rightarrow> bool" where
  "message_ok L m \<longleftrightarrow> (msg_MetadataJSON m = [] \<or> raw_ok L (msg_MetadataJSON m)) \<and> list_all (part_ok L) (msg_Parts m)"

definition float_ok :: "float64 \<Rightarrow> bool" where
  "float_ok x \<longleftrightarrow> x \<noteq> NonFinite"

definition model_call_ok :: "lib \<Rightarrow> model_call \<Rightarrow> bool" where
  "model_call_ok L c \<longleftrightarrow> float_ok (mcl_ContextPercent c) \<and> (case mcl_Cost c of None \<Rightarrow> True | Some x \<Rightarrow> float_ok x)
     \<and> (mcl_StructuredOutputJSON c = [] \<or> raw_ok L (mcl_StructuredOutputJSON c))
     \<and> (mcl_MetadataJSON c = [] \<or> raw_ok L (mcl_MetadataJSON c))
     \<and> (mcl_Trace c = [] \<or> raw_ok L (mcl_Trace c))"

lemma omit_float_ok: "float_ok x \<Longrightarrow> \<exists>v. omit_float x = Inr v"
  by (auto simp: float_ok_def omit_float_def enc_float_def split: float64.splits)

lemma omit_float_ptr_ok: "(\<forall>x. p = Some x \<longrightarrow> float_ok x) \<Longrightarrow> \<exists>v. omit_float_ptr p = Inr v"
  by (auto simp: float_ok_def omit_float_ptr_def enc_float_def split: option.splits float64.splits)

lemma agent_round_trip:
  "lib_ok L \<Longrightarrow> agent_ok L a \<Longrightarrow> dec_agent L (enc_agent L a) = Inr a"
  by (simp add: enc_agent_def dec_agent_def dec_struct_def agent_get agent_ok_def)

lemma session_run_decodes:
  assumes "lib_ok L" "dec_agent L (enc_agent L (run_Agent r)) = Inr a"
  shows "dec_session_run L (enc_session_run L r) = Inr (r\<lparr>run_Agent := a\<rparr>)"
  by (simp add: enc_session_run_def dec_session_run_def dec_struct_def session_run_get [OF assms])

lemma session_run_round_trip:
  "lib_ok L \<Longrightarrow> agent_ok L (run_Agent r) \<Longrightarrow> dec_session_run L (enc_session_run L r) = Inr r"
  by (simp add: session_run_decodes [OF _ agent_round_trip])

lemma part_round_trip:
  assumes "lib_ok L" "part_ok L p"
  shows "\<exists>j. enc_stored_part L p = Inr j \<and> dec_stored_part L j = Inr p"
proof -
  obtain v where v: "enc_raw L (prt_PayloadJSON p) = Inr v"
    using assms by (auto simp: part_ok_def raw_ok_def enc_raw_def split: option.splits)
  show ?thesis using assms v stored_part_get [OF _ v]
    by (simp add: enc_stored_part_def dec_stored_part_def dec_struct_def part_ok_def)
qed

interpretation part_codec: codec "enc_stored_part L" "dec_stored_part L" "\<lambda>p. lib_ok L \<and> part_ok L p"
  for L :: lib
  by unfold_locales (simp add: part_round_trip)

lemma message_round_trip:
  assumes "lib_ok L" "message_ok L m"
  shows "\<exists>j. enc_stored_message L m = Inr j \<and> dec_stored_message L j = Inr m"
proof -
  obtain v where v: "omit_raw L (msg_MetadataJSON m) = Inr v"
    using assms omit_raw_ok by (auto simp: message_ok_def)
  obtain js where js: "mapE (enc_stored_part L) (msg_Parts m) = Inr js"
      "mapE (dec_stored_part L) js = Inr (msg_Parts m)"
    using part_codec.mapE_enc_dec [of "msg_Parts m" L] assms by (auto simp: message_ok_def list_all_iff)
  show ?thesis using assms v js stored_message_get [OF _ v _ js(2)]
    by (simp add: enc_stored_message_def dec_stored_message_def dec_struct_def message_ok_def)
qed

interpretation message_codec: codec "enc_stored_message L" "dec_stored_message L"
  "\<lambda>m. lib_ok L \<and> message_ok L m" for L :: lib
  by unfold_locales (simp add: message_round_trip)

lemma model_call_round_trip:
  assumes "lib_ok L" "model_call_ok L c"
  shows "\<exists>j. enc_model_call L c = Inr j \<and> dec_model_call L j = Inr c"
proof -
  obtain vp where vp: "omit_float (mcl_ContextPercent c) = Inr vp"
    using assms omit_float_ok by (auto simp: model_call_ok_def)
  have "\<forall>x. mcl_Cost c = Some x \<longrightarrow> float_ok x" using assms(2) by (auto simp: model_call_ok_def)
  then obtain vc where vc: "omit_float_ptr (mcl_Cost c) = Inr vc" using omit_float_ptr_ok by blast
  obtain vs where vs: "omit_raw L (mcl_StructuredOutputJSON c) = Inr vs"
    using assms(2) omit_raw_ok unfolding model_call_ok_def by blast
  obtain vm where vm: "omit_raw L (mcl_MetadataJSON c) = Inr vm"
    using assms(2) omit_raw_ok unfolding model_call_ok_def by blast
  obtain vt where vt: "omit_raw L (mcl_Trace c) = Inr vt"
    using assms(2) omit_raw_ok unfolding model_call_ok_def by blast
  show ?thesis using assms vp vc vs vm vt
      model_call_get [OF assms(1) vp vc vs _ vm _ vt]
    by (simp add: enc_model_call_def dec_model_call_def dec_struct_def model_call_ok_def)
qed

interpretation model_call_codec: codec "enc_model_call L" "dec_model_call L"
  "\<lambda>c. lib_ok L \<and> model_call_ok L c" for L :: lib
  by unfold_locales (simp add: model_call_round_trip)

lemma tool_use_round_trip: "lib_ok L \<Longrightarrow> dec_tool_use L (enc_tool_use L u) = Inr u"
  by (simp add: enc_tool_use_def dec_tool_use_def dec_struct_def tool_use_get)

lemma permission_request_round_trip:
  "lib_ok L \<Longrightarrow> dec_permission_request L (enc_permission_request L r) = Inr r"
  by (simp add: enc_permission_request_def dec_permission_request_def dec_struct_def permission_request_get)

lemma permission_grant_round_trip:
  "lib_ok L \<Longrightarrow> dec_permission_grant L (enc_permission_grant L g) = Inr g"
  by (simp add: enc_permission_grant_def dec_permission_grant_def dec_struct_def permission_grant_get)

interpretation agent_codec: codec "\<lambda>a. Inr (enc_agent L a)" "dec_agent L" "\<lambda>a. lib_ok L \<and> agent_ok L a"
  for L :: lib by unfold_locales (simp add: agent_round_trip)

interpretation run_codec: codec "\<lambda>r. Inr (enc_session_run L r)" "dec_session_run L"
  "\<lambda>r. lib_ok L \<and> agent_ok L (run_Agent r)"
  for L :: lib by unfold_locales (simp add: session_run_round_trip)

interpretation tool_use_codec: codec "\<lambda>u. Inr (enc_tool_use L u)" "dec_tool_use L" "\<lambda>u. lib_ok L"
  for L :: lib by unfold_locales (simp add: tool_use_round_trip)

interpretation request_codec: codec "\<lambda>r. Inr (enc_permission_request L r)" "dec_permission_request L"
  "\<lambda>r. lib_ok L"
  for L :: lib by unfold_locales (simp add: permission_request_round_trip)

interpretation grant_codec: codec "\<lambda>g. Inr (enc_permission_grant L g)" "dec_permission_grant L" "\<lambda>g. lib_ok L"
  for L :: lib by unfold_locales (simp add: permission_grant_round_trip)

text \<open>The session payloads have string members only, so they round-trip with any library.\<close>

lemma created_data_round_trip: "lib_ok L \<Longrightarrow> dec_created_data L (enc_created_data L d) = Inr d"
  by (simp add: enc_created_data_def dec_created_data_def dec_struct_def created_data_get)

lemma renamed_data_round_trip: "lib_ok L \<Longrightarrow> dec_renamed_data L (enc_renamed_data L d) = Inr d"
  by (simp add: enc_renamed_data_def dec_renamed_data_def dec_struct_def renamed_data_get)

lemma moved_data_round_trip: "lib_ok L \<Longrightarrow> dec_moved_data L (enc_moved_data L d) = Inr d"
  by (simp add: enc_moved_data_def dec_moved_data_def dec_struct_def moved_data_get)

text \<open>An agent that decodes at all is a fixed point of the round trip.\<close>

lemma dec_agent_ok: "is_abs (home L) \<Longrightarrow> dec_agent L j = Inr a \<Longrightarrow> agent_ok L a"
proof -
  assume home: "is_abs (home L)" and dec: "dec_agent L j = Inr a"
  then obtain ms where "get (dec_ruleset (home L)) [] ''permissions'' ms = Inr (agt_Permissions a)"
    unfolding dec_agent_def dec_struct_def by (cases j) (auto simp: res_simps)
  then have "agt_Permissions a = [] \<or> (\<exists>j'. dec_ruleset (home L) j' = Inr (agt_Permissions a))"
    by (auto simp: get_def split: option.splits if_splits)
  then show "agent_ok L a"
    using dec_ruleset_normal [OF home] by (auto simp: agent_ok_def)
qed

end
