(* ===== verification/Aggregate_Events.thy ===== *)
theory Aggregate_Events
  imports Store_Codecs
begin

text \<open>
  The constructors and decoders of single aggregate events, \<^verbatim>\<open>New...Event\<close> and \<^verbatim>\<open>Project...\<close> of
  \<^verbatim>\<open>store/aggregate.go\<close>.  A constructor takes the fresh identifier that \<^verbatim>\<open>NewID\<close> returns as its
  argument \<open>eid\<close>.  Every decoder is shown to return what its constructor was given.
\<close>

section \<open>Building events\<close>

definition new_event :: "string \<Rightarrow> string \<Rightarrow> string \<Rightarrow> time \<Rightarrow> json \<Rightarrow> string \<Rightarrow> string \<Rightarrow> aggregate_event" where
  \<comment> \<open>the struct literal the constructors return: id, session, type, time, data, client, run\<close>
  "new_event eid sid typ t data client run =
     \<lparr>agg_GlobalSequence = 0, agg_ID = eid, agg_Aggregate = session_ref sid, agg_Version = 0,
      agg_Type = typ, agg_SchemaVersion = 1, agg_Time = t, agg_Data = data, agg_CausationID = [],
      agg_CorrelationID = [], agg_ClientID = client, agg_RunID = run\<rparr>"

lemma new_event_simps [simp]:
  "agg_Aggregate (new_event eid sid typ t data client run) = session_ref sid"
  "agg_Type (new_event eid sid typ t data client run) = typ"
  "agg_SchemaVersion (new_event eid sid typ t data client run) = 1"
  "agg_Data (new_event eid sid typ t data client run) = data"
  "agg_RunID (new_event eid sid typ t data client run) = run"
  "agg_ClientID (new_event eid sid typ t data client run) = client"
  "agg_ID (new_event eid sid typ t data client run) = eid"
  by (simp_all add: new_event_def)

definition NewSessionRunAdmittedEvent :: "lib \<Rightarrow> string \<Rightarrow> session_run \<Rightarrow> aggregate_event res" where
  "NewSessionRunAdmittedEvent L eid run = Inr (new_event eid (run_SessionID run) EventSessionRunAdmitted
     (run_CreatedAt run) (JObj [(''run'', enc_session_run L run)]) (run_ClientID run) (run_ID run))"

definition run_event_type :: "string \<Rightarrow> string option" where
  \<comment> \<open>the map literal from run status to event type\<close>
  "run_event_type status = map_of
     [(SessionRunStatusRunning, EventSessionRunStarted),
      (SessionRunStatusCompleted, EventSessionRunCompleted),
      (SessionRunStatusFailed, EventSessionRunFailed),
      (SessionRunStatusAborted, EventSessionRunAborted)] status"

definition NewSessionRunTransitionEvent :: "lib \<Rightarrow> string \<Rightarrow> session_run \<Rightarrow> aggregate_event res" where
  "NewSessionRunTransitionEvent L eid run = (case run_event_type (run_Status run) of
     None \<Rightarrow> Inl (Errorf ''unsupported transition status'')
   | Some typ \<Rightarrow> Inr (new_event eid (run_SessionID run) typ (run_UpdatedAt run)
       (JObj [(''run'', enc_session_run L run)]) (run_ClientID run) (run_ID run)))"

definition NewSessionMessageSavedEvent :: "lib \<Rightarrow> string \<Rightarrow> stored_message \<Rightarrow> aggregate_event res" where
  "NewSessionMessageSavedEvent L eid m = bindE (enc_stored_message L m) (\<lambda>j.
     Inr (new_event eid (msg_SessionID m) EventSessionMessageSaved (msg_UpdatedAt m)
       (JObj [(''message'', j)]) [] (msg_RunID m)))"

definition NewSessionModelCallSavedEvent :: "lib \<Rightarrow> string \<Rightarrow> model_call \<Rightarrow> aggregate_event res" where
  "NewSessionModelCallSavedEvent L eid c = bindE (enc_model_call L c) (\<lambda>j.
     Inr (new_event eid (mcl_SessionID c) EventSessionModelCallSaved (mcl_UpdatedAt c)
       (JObj [(''call'', j)]) [] (mcl_RunID c)))"

definition NewSessionToolUseSavedEvent :: "lib \<Rightarrow> string \<Rightarrow> tool_use \<Rightarrow> aggregate_event res" where
  "NewSessionToolUseSavedEvent L eid u =
     Inr (new_event eid (tlu_SessionID u) EventSessionToolUseSaved (tlu_UpdatedAt u)
       (JObj [(''tool_use'', enc_tool_use L u)]) [] (tlu_RunID u))"

definition NewSessionPermissionRequestEvent :: "lib \<Rightarrow> string \<Rightarrow> permission_request \<Rightarrow> aggregate_event res" where
  "NewSessionPermissionRequestEvent L eid r =
     (if prq_ID r = '''' \<or> prq_SessionID r = '''' \<or> prq_Action r = '''' \<or> prq_Resources r = []
        \<or> prq_Status r \<noteq> PermissionRequestStatusPending \<or> prq_ResolvedAt r \<noteq> 0
        \<or> prq_CreatedAt r = 0 \<or> prq_UpdatedAt r = 0
      then Inl (Errorf ''session permission request: invalid pending snapshot'')
      else Inr (new_event eid (prq_SessionID r) EventSessionPermissionRequested (prq_UpdatedAt r)
        (JObj [(''request'', enc_permission_request L r)]) [] (prq_RunID r)))"

definition NewSessionPermissionResolutionEvent :: "lib \<Rightarrow> string \<Rightarrow> permission_request \<Rightarrow> aggregate_event res" where
  "NewSessionPermissionResolutionEvent L eid r =
     (if prq_ID r = '''' \<or> prq_SessionID r = '''' \<or> prq_Action r = '''' \<or> prq_Resources r = []
        \<or> \<not> legalPermissionResolution (prq_Status r) (prq_Response r) \<or> prq_ResolvedAt r = 0
        \<or> prq_CreatedAt r = 0 \<or> prq_UpdatedAt r = 0
      then Inl (Errorf ''session permission resolution: invalid terminal snapshot'')
      else Inr (new_event eid (prq_SessionID r) EventSessionPermissionResolved (prq_UpdatedAt r)
        (JObj [(''request'', enc_permission_request L r)]) [] (prq_RunID r)))"

definition NewSessionPermissionGrantCreatedEvent :: "lib \<Rightarrow> string \<Rightarrow> permission_grant \<Rightarrow> aggregate_event res" where
  "NewSessionPermissionGrantCreatedEvent L eid g =
     (if pgr_ID g = '''' \<or> pgr_SessionID g = '''' \<or> pgr_Action g = '''' \<or> pgr_Resource g = '''' \<or> pgr_CreatedAt g = 0
      then Inl (Errorf ''session permission grant: invalid snapshot'')
      else Inr (new_event eid (pgr_SessionID g) EventSessionPermissionGrantCreated (pgr_CreatedAt g)
        (JObj [(''grant'', enc_permission_grant L g)]) [] []))"

definition event_time :: "lib \<Rightarrow> string \<Rightarrow> time res" where
  "event_time L s = (case parse_time L s of None \<Rightarrow> Inl (Errorf ''parse session time'') | Some t \<Rightarrow> Inr t)"

definition NewSessionCreatedEvent :: "lib \<Rightarrow> string \<Rightarrow> session \<Rightarrow> aggregate_event res" where
  "NewSessionCreatedEvent L eid s = bindE (event_time L (ses_CreatedAt s)) (\<lambda>t.
     Inr (new_event eid (ses_ID s) EventSessionCreated t
       (enc_created_data L \<lparr>crd_ID = ses_ID s, crd_Title = ses_Title s, crd_WorkDir = ses_WorkDir s,
          crd_WorkspaceID = ses_WorkspaceID s, crd_ClientID = ses_ClientID s,
          crd_CreatedAt = ses_CreatedAt s, crd_UpdatedAt = ses_UpdatedAt s\<rparr>)
       (ses_ClientID s) []))"

definition NewSessionRenamedEvent :: "lib \<Rightarrow> string \<Rightarrow> string \<Rightarrow> string \<Rightarrow> string \<Rightarrow> aggregate_event res" where
  "NewSessionRenamedEvent L eid sid title updatedAt = bindE (event_time L updatedAt) (\<lambda>t.
     Inr (new_event eid sid EventSessionRenamed t
       (enc_renamed_data L \<lparr>rnd_Title = title, rnd_UpdatedAt = updatedAt\<rparr>) [] []))"

definition NewSessionMovedEvent ::
    "lib \<Rightarrow> string \<Rightarrow> string \<Rightarrow> string \<Rightarrow> string \<Rightarrow> string \<Rightarrow> aggregate_event res" where
  "NewSessionMovedEvent L eid sid workDir workspaceID updatedAt = bindE (event_time L updatedAt) (\<lambda>t.
     Inr (new_event eid sid EventSessionMoved t
       (enc_moved_data L \<lparr>mvd_WorkDir = workDir, mvd_WorkspaceID = workspaceID, mvd_UpdatedAt = updatedAt\<rparr>) [] []))"

section \<open>Decoding events\<close>

definition get_struct :: "(json \<Rightarrow> 'a res) \<Rightarrow> string \<Rightarrow> json \<Rightarrow> 'a res" where
  \<comment> \<open>the one struct member of a payload object; absent it is the zero struct\<close>
  "get_struct d k = dec_struct (\<lambda>ms. case jget k ms of None \<Rightarrow> d JNull | Some j \<Rightarrow> d j)"

definition get_run :: "lib \<Rightarrow> json \<Rightarrow> session_run res" where
  \<comment> \<open>the member \<^verbatim>\<open>run\<close> is raw text: absent it is no JSON at all\<close>
  "get_run L = dec_struct (\<lambda>ms. case jget ''run'' ms of
     None \<Rightarrow> Inl (JsonError ''decode run'') | Some j \<Rightarrow> dec_session_run L j)"

lemma get_struct_single [simp]: "get_struct d k (JObj [(k, j)]) = d j"
  by (simp add: get_struct_def dec_struct_def jget_def)

lemma get_run_single [simp]: "get_run L (JObj [(''run'', j)]) = dec_session_run L j"
  by (simp add: get_run_def dec_struct_def jget_def)

definition ProjectSessionRunAdmission :: "lib \<Rightarrow> aggregate_event \<Rightarrow> session_run res" where
  "ProjectSessionRunAdmission L e =
     (if agg_Type e \<noteq> EventSessionRunAdmitted \<or> agg_SchemaVersion e \<noteq> 1
      then Inl (Errorf ''project session run: unsupported event'')
      else bindE (get_run L (agg_Data e)) (\<lambda>run.
        if run_SessionID run \<noteq> ref_ID (agg_Aggregate e)
        then Inl (Errorf ''project session run: payload session does not match aggregate'')
        else if run_AdmittedVersion run \<noteq> agg_Version e
        then Inl (Errorf ''project session run: payload admitted version does not match event version'')
        else Inr run))"

definition ProjectSessionRunTransition :: "lib \<Rightarrow> aggregate_event \<Rightarrow> session_run res" where
  "ProjectSessionRunTransition L e =
     (if agg_SchemaVersion e \<noteq> 1 then Inl (Errorf ''project session run: unsupported event'')
      else bindE (get_run L (agg_Data e)) (\<lambda>run.
        if run_SessionID run \<noteq> ref_ID (agg_Aggregate e) \<or> run_ID run \<noteq> agg_RunID e
        then Inl (Errorf ''project session run: transition payload does not match aggregate event'')
        else if run_event_type (run_Status run) \<noteq> Some (agg_Type e)
        then Inl (Errorf ''project session run: event does not match status'')
        else Inr run))"

fun check_parts :: "string \<Rightarrow> stored_part list \<Rightarrow> string list \<Rightarrow> int list \<Rightarrow> unit res" where
  \<comment> \<open>the loop over the parts of a message snapshot with its two sets of seen keys\<close>
  "check_parts mid [] ids seqs = Inr ()"
| "check_parts mid (p # ps) ids seqs =
     (if prt_ID p = '''' \<or> prt_MessageID p \<noteq> mid then Inl (Errorf ''project session message: invalid part snapshot'')
      else if prt_ID p \<in> set ids then Inl (Errorf ''project session message: duplicate part'')
      else if prt_Sequence p \<in> set seqs then Inl (Errorf ''project session message: duplicate part sequence'')
      else check_parts mid ps (prt_ID p # ids) (prt_Sequence p # seqs))"

definition ProjectSessionMessageSaved :: "lib \<Rightarrow> aggregate_event \<Rightarrow> stored_message res" where
  "ProjectSessionMessageSaved L e =
     (if agg_Type e \<noteq> EventSessionMessageSaved \<or> agg_SchemaVersion e \<noteq> 1
      then Inl (Errorf ''project session message: unsupported event'')
      else bindE (get_struct (dec_stored_message L) ''message'' (agg_Data e)) (\<lambda>m.
        if msg_ID m = '''' \<or> msg_SessionID m \<noteq> ref_ID (agg_Aggregate e) \<or> msg_RunID m \<noteq> agg_RunID e \<or> msg_Revision m < 1
        then Inl (Errorf ''project session message: snapshot does not match aggregate event'')
        else bindE (check_parts (msg_ID m) (msg_Parts m) [] []) (\<lambda>_. Inr m)))"

definition ProjectSessionModelCallSaved :: "lib \<Rightarrow> aggregate_event \<Rightarrow> model_call res" where
  "ProjectSessionModelCallSaved L e =
     (if agg_Type e \<noteq> EventSessionModelCallSaved \<or> agg_SchemaVersion e \<noteq> 1
      then Inl (Errorf ''project session model call: unsupported event'')
      else bindE (get_struct (dec_model_call L) ''call'' (agg_Data e)) (\<lambda>c.
        if mcl_ID c = '''' \<or> mcl_SessionID c \<noteq> ref_ID (agg_Aggregate e) \<or> mcl_RunID c \<noteq> agg_RunID e
          \<or> mcl_Attempt c < 1 \<or> mcl_StartedAt c = 0 \<or> mcl_CreatedAt c = 0 \<or> mcl_UpdatedAt c = 0
        then Inl (Errorf ''project session model call: snapshot does not match aggregate event'')
        else Inr c))"

definition ProjectSessionToolUseSaved :: "lib \<Rightarrow> aggregate_event \<Rightarrow> tool_use res" where
  "ProjectSessionToolUseSaved L e =
     (if agg_Type e \<noteq> EventSessionToolUseSaved \<or> agg_SchemaVersion e \<noteq> 1
      then Inl (Errorf ''project session tool use: unsupported event'')
      else bindE (get_struct (dec_tool_use L) ''tool_use'' (agg_Data e)) (\<lambda>u.
        if tlu_ID u = '''' \<or> tlu_SessionID u \<noteq> ref_ID (agg_Aggregate e) \<or> tlu_RunID u \<noteq> agg_RunID e
          \<or> tlu_Status u = '''' \<or> tlu_ProposedAt u = 0 \<or> tlu_CreatedAt u = 0 \<or> tlu_UpdatedAt u = 0
        then Inl (Errorf ''project session tool use: snapshot does not match aggregate event'')
        else Inr u))"

definition ProjectSessionPermissionRequest :: "lib \<Rightarrow> aggregate_event \<Rightarrow> permission_request res" where
  "ProjectSessionPermissionRequest L e =
     (if (agg_Type e \<noteq> EventSessionPermissionRequested \<and> agg_Type e \<noteq> EventSessionPermissionResolved)
         \<or> agg_SchemaVersion e \<noteq> 1
      then Inl (Errorf ''project session permission request: unsupported event'')
      else bindE (get_struct (dec_permission_request L) ''request'' (agg_Data e)) (\<lambda>r.
        if prq_ID r = '''' \<or> prq_SessionID r \<noteq> ref_ID (agg_Aggregate e) \<or> prq_RunID r \<noteq> agg_RunID e
          \<or> prq_Action r = '''' \<or> prq_Resources r = [] \<or> prq_CreatedAt r = 0 \<or> prq_UpdatedAt r = 0
        then Inl (Errorf ''project session permission request: snapshot does not match aggregate event'')
        else if '''' \<in> set (prq_Resources r)
        then Inl (Errorf ''project session permission request: empty resource'')
        else if agg_Type e = EventSessionPermissionRequested \<and>
          (prq_Status r \<noteq> PermissionRequestStatusPending \<or> prq_ResolvedAt r \<noteq> 0 \<or> prq_Response r \<noteq> ''''
           \<or> prq_ErrorType r \<noteq> '''' \<or> prq_ErrorMessage r \<noteq> '''')
        then Inl (Errorf ''project session permission request: invalid requested snapshot'')
        else if agg_Type e = EventSessionPermissionResolved \<and>
          (\<not> legalPermissionResolution (prq_Status r) (prq_Response r) \<or> prq_ResolvedAt r = 0)
        then Inl (Errorf ''project session permission request: invalid resolved snapshot'')
        else Inr r))"

definition ProjectSessionPermissionGrantCreated :: "lib \<Rightarrow> aggregate_event \<Rightarrow> permission_grant res" where
  "ProjectSessionPermissionGrantCreated L e =
     (if agg_Type e \<noteq> EventSessionPermissionGrantCreated \<or> agg_SchemaVersion e \<noteq> 1
      then Inl (Errorf ''project session permission grant: unsupported event'')
      else bindE (get_struct (dec_permission_grant L) ''grant'' (agg_Data e)) (\<lambda>g.
        if pgr_ID g = '''' \<or> pgr_SessionID g \<noteq> ref_ID (agg_Aggregate e) \<or> pgr_Action g = ''''
          \<or> pgr_Resource g = '''' \<or> pgr_CreatedAt g = 0
        then Inl (Errorf ''project session permission grant: snapshot does not match aggregate event'')
        else Inr g))"

section \<open>A decoder returns what the constructor was given\<close>

lemma check_parts_conv:
  "check_parts mid ps ids seqs = Inr () \<longleftrightarrow>
     (\<forall>p \<in> set ps. prt_ID p \<noteq> '''' \<and> prt_MessageID p = mid \<and> prt_ID p \<notin> set ids \<and> prt_Sequence p \<notin> set seqs)
     \<and> distinct (map prt_ID ps) \<and> distinct (map prt_Sequence ps)"
proof (induction mid ps ids seqs rule: check_parts.induct)
  case (2 mid p ps ids seqs)
  have "prt_ID p \<notin> set (map prt_ID ps) \<longleftrightarrow> (\<forall>q \<in> set ps. prt_ID q \<noteq> prt_ID p)"
    "prt_Sequence p \<notin> set (map prt_Sequence ps) \<longleftrightarrow> (\<forall>q \<in> set ps. prt_Sequence q \<noteq> prt_Sequence p)"
    by (auto simp: image_iff)
  then show ?case using 2 by (auto simp del: set_map)
qed simp

text \<open>
  An event appended to a stream has its version and client set and a global sequence assigned;
  the decoders do not look at the last two.
\<close>

definition same_fact :: "aggregate_event \<Rightarrow> aggregate_event \<Rightarrow> bool" where
  "same_fact e e' \<longleftrightarrow> agg_Aggregate e = agg_Aggregate e' \<and> agg_Type e = agg_Type e'
     \<and> agg_SchemaVersion e = agg_SchemaVersion e' \<and> agg_Data e = agg_Data e' \<and> agg_RunID e = agg_RunID e'"

lemma same_fact_simps [simp]:
  "same_fact (e\<lparr>agg_Version := v\<rparr>) e" "same_fact (e\<lparr>agg_GlobalSequence := g\<rparr>) e"
  "same_fact (e\<lparr>agg_ClientID := c\<rparr>) e" "same_fact e e"
  by (simp_all add: same_fact_def)

lemma same_fact_trans: "same_fact a b \<Longrightarrow> same_fact b c \<Longrightarrow> same_fact a c"
  by (simp add: same_fact_def)

lemma run_transition_event:
  assumes "lib_ok L" "agent_ok L (run_Agent run)"
    and "NewSessionRunTransitionEvent L eid run = Inr e" "same_fact e' e"
  shows "ProjectSessionRunTransition L e' = Inr run"
  using assms by (auto simp: NewSessionRunTransitionEvent_def ProjectSessionRunTransition_def
      same_fact_def session_run_round_trip split: option.splits)

lemma run_admission_event:
  assumes "lib_ok L" "dec_agent L (enc_agent L (run_Agent run)) = Inr a"
    and "NewSessionRunAdmittedEvent L eid run = Inr e" "same_fact e' e"
    and "agg_Version e' = run_AdmittedVersion run"
  shows "ProjectSessionRunAdmission L e' = Inr (run\<lparr>run_Agent := a\<rparr>)"
  using assms by (auto simp: NewSessionRunAdmittedEvent_def ProjectSessionRunAdmission_def
      same_fact_def session_run_decodes)

lemma message_event:
  assumes "lib_ok L" "message_ok L m"
    and "NewSessionMessageSavedEvent L eid m = Inr e" "same_fact e' e"
  shows "ProjectSessionMessageSaved L e' =
    (if msg_ID m = '''' \<or> msg_Revision m < 1
     then Inl (Errorf ''project session message: snapshot does not match aggregate event'')
     else bindE (check_parts (msg_ID m) (msg_Parts m) [] []) (\<lambda>_. Inr m))"
  using assms message_round_trip [OF assms(1,2)]
  by (auto simp: NewSessionMessageSavedEvent_def ProjectSessionMessageSaved_def same_fact_def)

lemma model_call_event:
  assumes "lib_ok L" "model_call_ok L c"
    and "NewSessionModelCallSavedEvent L eid c = Inr e" "same_fact e' e"
  shows "ProjectSessionModelCallSaved L e' =
    (if mcl_ID c = '''' \<or> mcl_Attempt c < 1 \<or> mcl_StartedAt c = 0 \<or> mcl_CreatedAt c = 0 \<or> mcl_UpdatedAt c = 0
     then Inl (Errorf ''project session model call: snapshot does not match aggregate event'') else Inr c)"
  using assms model_call_round_trip [OF assms(1,2)]
  by (auto simp: NewSessionModelCallSavedEvent_def ProjectSessionModelCallSaved_def same_fact_def)

lemma tool_use_event:
  assumes "lib_ok L" "NewSessionToolUseSavedEvent L eid u = Inr e" "same_fact e' e"
  shows "ProjectSessionToolUseSaved L e' =
    (if tlu_ID u = '''' \<or> tlu_Status u = '''' \<or> tlu_ProposedAt u = 0 \<or> tlu_CreatedAt u = 0 \<or> tlu_UpdatedAt u = 0
     then Inl (Errorf ''project session tool use: snapshot does not match aggregate event'') else Inr u)"
  using assms by (auto simp: NewSessionToolUseSavedEvent_def ProjectSessionToolUseSaved_def
      same_fact_def tool_use_round_trip)

lemma permission_request_event:
  assumes "lib_ok L" "NewSessionPermissionRequestEvent L eid r = Inr e" "same_fact e' e"
  shows "ProjectSessionPermissionRequest L e' =
    (if '''' \<in> set (prq_Resources r) then Inl (Errorf ''project session permission request: empty resource'')
     else if prq_Response r \<noteq> '''' \<or> prq_ErrorType r \<noteq> '''' \<or> prq_ErrorMessage r \<noteq> ''''
     then Inl (Errorf ''project session permission request: invalid requested snapshot'') else Inr r)"
  using assms by (auto simp: NewSessionPermissionRequestEvent_def ProjectSessionPermissionRequest_def
      same_fact_def permission_request_round_trip split: if_splits)

lemma permission_resolution_event:
  assumes "lib_ok L" "NewSessionPermissionResolutionEvent L eid r = Inr e" "same_fact e' e"
  shows "ProjectSessionPermissionRequest L e' =
    (if '''' \<in> set (prq_Resources r) then Inl (Errorf ''project session permission request: empty resource'')
     else Inr r)"
  using assms by (auto simp: NewSessionPermissionResolutionEvent_def ProjectSessionPermissionRequest_def
      same_fact_def permission_request_round_trip split: if_splits)

lemma permission_grant_event:
  assumes "lib_ok L" "NewSessionPermissionGrantCreatedEvent L eid g = Inr e" "same_fact e' e"
  shows "ProjectSessionPermissionGrantCreated L e' = Inr g"
  using assms by (auto simp: NewSessionPermissionGrantCreatedEvent_def
      ProjectSessionPermissionGrantCreated_def same_fact_def permission_grant_round_trip split: if_splits)

end
