(* ===== verification/Aggregate_Projection.thy ===== *)
theory Aggregate_Projection
  imports Aggregate_Events
begin

text \<open>
  The projections of a session's event stream: \<^verbatim>\<open>ProjectSession\<close> and the six passes that rebuild
  runs, messages, model calls, tool uses, permission requests and grants
  (\<^verbatim>\<open>store/aggregate.go\<close>).  Each pass is a loop body over the events it is relevant to; the
  interpretations of \<open>history_pass\<close> say that it skips all others.
\<close>

section \<open>The session\<close>

definition unit_res :: "'a res \<Rightarrow> unit res" where
  "unit_res m = bindE m (\<lambda>_. Inr ())"

definition projectSessionEvent :: "lib \<Rightarrow> session option \<Rightarrow> aggregate_event \<Rightarrow> session res" where
  "projectSessionEvent L so e =
     (if agg_Type e = EventSessionCreated then
        (case so of
           Some _ \<Rightarrow> Inl (Errorf ''project session: duplicate creation event'')
         | None \<Rightarrow> bindE (dec_created_data L (agg_Data e)) (\<lambda>d.
             if crd_ID d \<noteq> ref_ID (agg_Aggregate e)
             then Inl (Errorf ''project session: payload id does not match aggregate'')
             else Inr \<lparr>ses_ID = crd_ID d, ses_Title = crd_Title d, ses_WorkDir = crd_WorkDir d,
               ses_WorkspaceID = crd_WorkspaceID d, ses_ClientID = crd_ClientID d,
               ses_CreatedAt = crd_CreatedAt d, ses_UpdatedAt = crd_UpdatedAt d,
               ses_AggregateVersion = agg_Version e\<rparr>))
      else (case so of
          None \<Rightarrow>
            (if agg_Type e \<in> {EventSessionRenamed, EventSessionMoved, EventSessionRunAdmitted,
                EventSessionRunStarted, EventSessionRunCompleted, EventSessionRunFailed,
                EventSessionRunAborted, EventSessionMessageSaved, EventSessionModelCallSaved,
                EventSessionToolUseSaved, EventSessionPermissionRequested,
                EventSessionPermissionResolved, EventSessionPermissionGrantCreated}
             then Inl (Errorf ''project session: event before creation'')
             else Inl (Errorf ''project session: unsupported event type''))
        | Some s \<Rightarrow>
            (if agg_Type e = EventSessionRenamed then
               bindE (dec_renamed_data L (agg_Data e)) (\<lambda>d. Inr (s\<lparr>ses_Title := rnd_Title d,
                 ses_UpdatedAt := rnd_UpdatedAt d, ses_AggregateVersion := agg_Version e\<rparr>))
             else if agg_Type e = EventSessionMoved then
               bindE (dec_moved_data L (agg_Data e)) (\<lambda>d. Inr (s\<lparr>ses_WorkDir := mvd_WorkDir d,
                 ses_WorkspaceID := mvd_WorkspaceID d, ses_UpdatedAt := mvd_UpdatedAt d,
                 ses_AggregateVersion := agg_Version e\<rparr>))
             else bindE
               (if agg_Type e = EventSessionRunAdmitted then unit_res (ProjectSessionRunAdmission L e)
                else if agg_Type e \<in> {EventSessionRunStarted, EventSessionRunCompleted,
                    EventSessionRunFailed, EventSessionRunAborted}
                  then unit_res (ProjectSessionRunTransition L e)
                else if agg_Type e = EventSessionMessageSaved then unit_res (ProjectSessionMessageSaved L e)
                else if agg_Type e = EventSessionModelCallSaved then unit_res (ProjectSessionModelCallSaved L e)
                else if agg_Type e = EventSessionToolUseSaved then unit_res (ProjectSessionToolUseSaved L e)
                else if agg_Type e = EventSessionPermissionRequested \<or> agg_Type e = EventSessionPermissionResolved
                  then unit_res (ProjectSessionPermissionRequest L e)
                else if agg_Type e = EventSessionPermissionGrantCreated
                  then unit_res (ProjectSessionPermissionGrantCreated L e)
                else Inl (Errorf ''project session: unsupported event type''))
               (\<lambda>_. Inr (s\<lparr>ses_AggregateVersion := agg_Version e\<rparr>)))))"

definition session_step :: "lib \<Rightarrow> session option \<times> int \<Rightarrow> aggregate_event \<Rightarrow> (session option \<times> int) res" where
  \<comment> \<open>the body of the loop of \<^verbatim>\<open>ProjectSession\<close>, its state the session and the version\<close>
  "session_step L = (\<lambda>(so, version) e.
     if ref_Type (agg_Aggregate e) \<noteq> AggregateSession
     then Inl (Errorf ''project session: unexpected aggregate type'')
     else if (case so of None \<Rightarrow> False | Some s \<Rightarrow> ref_ID (agg_Aggregate e) \<noteq> ses_ID s)
     then Inl (Errorf ''project session: event belongs to another aggregate'')
     else if agg_Version e \<noteq> version + 1 then Inl (Errorf ''project session: unexpected event version'')
     else if agg_SchemaVersion e \<noteq> 1 then Inl (Errorf ''project session: unsupported schema version'')
     else bindE (projectSessionEvent L so e) (\<lambda>s. Inr (Some s, agg_Version e)))"

definition ProjectSession :: "lib \<Rightarrow> aggregate_event list \<Rightarrow> session res" where
  "ProjectSession L evs = bindE (foldE (session_step L) (None, 0) evs) (\<lambda>(so, _).
     case so of None \<Rightarrow> Inl (Errorf ''project session: empty event stream'') | Some s \<Rightarrow> Inr s)"

section \<open>The passes\<close>

text \<open>Runs, by identifier.\<close>

definition runs_step :: "lib \<Rightarrow> (string, session_run) gomap \<Rightarrow> aggregate_event \<Rightarrow> (string, session_run) gomap res" where
  "runs_step L runs e =
     (if agg_Type e = EventSessionRunAdmitted then
        bindE (ProjectSessionRunAdmission L e) (\<lambda>run.
          if run_Status run \<noteq> SessionRunStatusQueued then Inl (Errorf ''project session run: admission status'')
          else if map_of runs (run_ID run) \<noteq> None then Inl (Errorf ''project session run: duplicate admission'')
          else Inr (AList.update (run_ID run) run runs))
      else if agg_Type e \<in> {EventSessionRunStarted, EventSessionRunCompleted,
          EventSessionRunFailed, EventSessionRunAborted} then
        bindE (ProjectSessionRunTransition L e) (\<lambda>run. case map_of runs (run_ID run) of
            None \<Rightarrow> Inl (Errorf ''project session run: illegal transition'')
          | Some previous \<Rightarrow>
              if \<not> legalProjectedRunTransition (run_Status previous) (run_Status run)
              then Inl (Errorf ''project session run: illegal transition'')
              else if run_Sequence run \<noteq> run_Sequence previous \<or> run_AdmittedVersion run \<noteq> run_AdmittedVersion previous
                \<or> run_Message run \<noteq> run_Message previous
              then Inl (Errorf ''project session run: immutable admission fields changed'')
              else Inr (AList.update (run_ID run) run runs))
      else Inr runs)"

definition ProjectSessionRuns :: "lib \<Rightarrow> aggregate_event list \<Rightarrow> session_run list res" where
  "ProjectSessionRuns L evs = bindE (ProjectSession L evs) (\<lambda>_.
     bindE (foldE (runs_step L) [] evs) (\<lambda>runs. Inr (sort_key run_Sequence (vals runs))))"

text \<open>Messages, with the index that finds the owner of a position.\<close>

type_synonym messages_state = "(string, stored_message) gomap \<times> (int, string) gomap"

definition messages_step :: "lib \<Rightarrow> messages_state \<Rightarrow> aggregate_event \<Rightarrow> messages_state res" where
  "messages_step L = (\<lambda>(messages, indices) e.
     if agg_Type e \<noteq> EventSessionMessageSaved then Inr (messages, indices)
     else bindE (ProjectSessionMessageSaved L e) (\<lambda>m.
       let put = Inr (AList.update (msg_ID m) m messages, AList.update (msg_Idx m) (msg_ID m) indices) in
       case map_of messages (msg_ID m) of
         Some previous \<Rightarrow>
           if msg_Revision m \<le> msg_Revision previous \<or> msg_SessionID m \<noteq> msg_SessionID previous
             \<or> msg_RunID m \<noteq> msg_RunID previous \<or> msg_Idx m \<noteq> msg_Idx previous \<or> msg_Role m \<noteq> msg_Role previous
           then Inl (Errorf ''project session message: invalid revision'') else put
       | None \<Rightarrow> (case map_of indices (msg_Idx m) of
           Some owner \<Rightarrow> if owner \<noteq> msg_ID m then Inl (Errorf ''project session message: index taken'') else put
         | None \<Rightarrow> put)))"

definition ProjectSessionMessages :: "lib \<Rightarrow> aggregate_event list \<Rightarrow> stored_message list res" where
  "ProjectSessionMessages L evs = bindE (ProjectSession L evs) (\<lambda>_.
     bindE (foldE (messages_step L) ([], []) evs) (\<lambda>(messages, _). Inr (sort_key msg_Idx (vals messages))))"

text \<open>Model calls, with the owner of each attempt.\<close>

type_synonym calls_state = "(string, model_call) gomap \<times> (string \<times> int \<times> int, string) gomap"

definition attempt_key :: "model_call \<Rightarrow> string \<times> int \<times> int" where
  "attempt_key c = (mcl_RunID c, mcl_Step c, mcl_Attempt c)"

definition calls_step :: "lib \<Rightarrow> calls_state \<Rightarrow> aggregate_event \<Rightarrow> calls_state res" where
  "calls_step L = (\<lambda>(calls, attempts) e.
     if agg_Type e \<noteq> EventSessionModelCallSaved then Inr (calls, attempts)
     else bindE (ProjectSessionModelCallSaved L e) (\<lambda>c.
       case map_of calls (mcl_ID c) of
         Some previous \<Rightarrow>
           if mcl_SessionID c \<noteq> mcl_SessionID previous \<or> mcl_RunID c \<noteq> mcl_RunID previous
             \<or> mcl_Step c \<noteq> mcl_Step previous \<or> mcl_Attempt c \<noteq> mcl_Attempt previous
             \<or> mcl_StartedAt c \<noteq> mcl_StartedAt previous \<or> mcl_CreatedAt c \<noteq> mcl_CreatedAt previous
           then Inl (Errorf ''project session model call: immutable identity changed'')
           else Inr (AList.update (mcl_ID c) c calls, attempts)
       | None \<Rightarrow>
           if mcl_RunID c \<noteq> '''' then
             (case map_of attempts (attempt_key c) of
                Some owner \<Rightarrow>
                  if owner \<noteq> mcl_ID c then Inl (Errorf ''project session model call: attempt taken'')
                  else Inr (AList.update (mcl_ID c) c calls, AList.update (attempt_key c) (mcl_ID c) attempts)
              | None \<Rightarrow> Inr (AList.update (mcl_ID c) c calls, AList.update (attempt_key c) (mcl_ID c) attempts))
           else Inr (AList.update (mcl_ID c) c calls, attempts)))"

definition ProjectSessionModelCalls :: "lib \<Rightarrow> aggregate_event list \<Rightarrow> model_call list res" where
  "ProjectSessionModelCalls L evs = bindE (ProjectSession L evs) (\<lambda>_.
     bindE (foldE (calls_step L) ([], []) evs) (\<lambda>(calls, _).
       Inr (sort_key (\<lambda>c. (mcl_StartedAt c, mcl_ID c)) (vals calls))))"

text \<open>
  Tool uses, with the owner of each position.  The code's key is the text \<^verbatim>\<open>run:step:ordinal\<close>; the
  triple stands for it, since the two numbers after the last colons determine it.
\<close>

type_synonym uses_state = "(string, tool_use) gomap \<times> (string \<times> int \<times> int, string) gomap"

definition use_key :: "tool_use \<Rightarrow> string \<times> int \<times> int" where
  "use_key u = (tlu_RunID u, tlu_Step u, tlu_Ordinal u)"

definition uses_step :: "lib \<Rightarrow> uses_state \<Rightarrow> aggregate_event \<Rightarrow> uses_state res" where
  "uses_step L = (\<lambda>(uses, identities) e.
     if agg_Type e \<noteq> EventSessionToolUseSaved then Inr (uses, identities)
     else bindE (ProjectSessionToolUseSaved L e) (\<lambda>u.
       case map_of uses (tlu_ID u) of
         Some previous \<Rightarrow>
           if \<not> sameToolUseIdentity previous u \<or> \<not> legalToolUseTransition (tlu_Status previous) (tlu_Status u)
           then Inl (Errorf ''project session tool use: invalid lifecycle snapshot'')
           else Inr (AList.update (tlu_ID u) u uses, identities)
       | None \<Rightarrow>
           if tlu_Status u \<noteq> ToolUseStatusProposed
           then Inl (Errorf ''project session tool use: lifecycle start'')
           else if tlu_RunID u \<noteq> '''' then
             (case map_of identities (use_key u) of
                Some owner \<Rightarrow>
                  if owner \<noteq> tlu_ID u then Inl (Errorf ''project session tool use: identity taken'')
                  else Inr (AList.update (tlu_ID u) u uses, AList.update (use_key u) (tlu_ID u) identities)
              | None \<Rightarrow> Inr (AList.update (tlu_ID u) u uses, AList.update (use_key u) (tlu_ID u) identities))
           else Inr (AList.update (tlu_ID u) u uses, identities)))"

definition ProjectSessionToolUses :: "lib \<Rightarrow> aggregate_event list \<Rightarrow> tool_use list res" where
  "ProjectSessionToolUses L evs = bindE (ProjectSession L evs) (\<lambda>_.
     bindE (foldE (uses_step L) ([], []) evs) (\<lambda>(uses, _).
       Inr (sort_key (\<lambda>u. (tlu_ProposedAt u, tlu_Step u, tlu_Ordinal u, tlu_ID u)) (vals uses))))"

text \<open>Permission requests, and the grants that approved requests allow.\<close>

definition requests_step ::
    "lib \<Rightarrow> (string, permission_request) gomap \<Rightarrow> aggregate_event \<Rightarrow> (string, permission_request) gomap res" where
  "requests_step L requests e =
     (if agg_Type e \<noteq> EventSessionPermissionRequested \<and> agg_Type e \<noteq> EventSessionPermissionResolved
      then Inr requests
      else bindE (ProjectSessionPermissionRequest L e) (\<lambda>r.
        case map_of requests (prq_ID r) of
          None \<Rightarrow>
            if agg_Type e \<noteq> EventSessionPermissionRequested
            then Inl (Errorf ''project session permission request: resolution before request'')
            else Inr (AList.update (prq_ID r) r requests)
        | Some previous \<Rightarrow>
            if agg_Type e \<noteq> EventSessionPermissionResolved \<or> prq_Status previous \<noteq> PermissionRequestStatusPending
              \<or> \<not> samePermissionRequestIdentity previous r
            then Inl (Errorf ''project session permission request: invalid lifecycle snapshot'')
            else Inr (AList.update (prq_ID r) r requests)))"

definition ProjectSessionPermissionRequests :: "lib \<Rightarrow> aggregate_event list \<Rightarrow> permission_request list res" where
  "ProjectSessionPermissionRequests L evs = bindE (ProjectSession L evs) (\<lambda>_.
     bindE (foldE (requests_step L) [] evs) (\<lambda>requests.
       Inr (sort_key (\<lambda>r. (prq_CreatedAt r, prq_ID r)) (vals requests))))"

definition grant_key :: "string \<Rightarrow> string \<Rightarrow> string" where
  "grant_key action resource = action @ [CHR 0x00] @ resource"

definition approved_keys :: "permission_request list \<Rightarrow> string list" where
  "approved_keys requests = concat (map (\<lambda>r.
     if prq_Status r = PermissionRequestStatusApproved \<and> prq_Response r = PermissionResponseAlways
     then map (grant_key (prq_Action r)) (prq_Resources r) else []) requests)"

type_synonym grants_state = "(string, permission_grant) gomap \<times> (string, string) gomap"

definition grants_step :: "lib \<Rightarrow> string list \<Rightarrow> grants_state \<Rightarrow> aggregate_event \<Rightarrow> grants_state res" where
  "grants_step L approved = (\<lambda>(grants, resources) e.
     if agg_Type e \<noteq> EventSessionPermissionGrantCreated then Inr (grants, resources)
     else bindE (ProjectSessionPermissionGrantCreated L e) (\<lambda>g.
       let key = grant_key (pgr_Action g) (pgr_Resource g) in
       if key \<notin> set approved then Inl (Errorf ''project session permission grant: no always approval'')
       else if map_of grants (pgr_ID g) \<noteq> None \<or> (case map_of resources key of None \<Rightarrow> False | Some i \<Rightarrow> i \<noteq> '''')
       then (if map_of grants (pgr_ID g) = Some g
             then Inl (Errorf ''project session permission grant: duplicate event'')
             else Inl (Errorf ''project session permission grant: duplicate grant''))
       else Inr (AList.update (pgr_ID g) g grants, AList.update key (pgr_ID g) resources)))"

definition ProjectSessionPermissionGrants :: "lib \<Rightarrow> aggregate_event list \<Rightarrow> permission_grant list res" where
  "ProjectSessionPermissionGrants L evs = bindE (ProjectSessionPermissionRequests L evs) (\<lambda>requests.
     bindE (foldE (grants_step L (approved_keys requests)) ([], []) evs) (\<lambda>(grants, _).
       Inr (sort_key (\<lambda>g. (pgr_CreatedAt g, pgr_ID g)) (vals grants))))"

record aggregate_projection =
  prj_Session :: session
  prj_Runs :: "session_run list"
  prj_Messages :: "stored_message list"
  prj_ModelCalls :: "model_call list"
  prj_ToolUses :: "tool_use list"
  prj_PermissionRequests :: "permission_request list"
  prj_PermissionGrants :: "permission_grant list"

definition ProjectSessionAggregate :: "lib \<Rightarrow> aggregate_event list \<Rightarrow> aggregate_projection res" where
  "ProjectSessionAggregate L evs =
     bindE (ProjectSession L evs) (\<lambda>s.
     bindE (ProjectSessionRuns L evs) (\<lambda>runs.
     bindE (ProjectSessionMessages L evs) (\<lambda>messages.
     bindE (ProjectSessionModelCalls L evs) (\<lambda>calls.
     bindE (ProjectSessionToolUses L evs) (\<lambda>uses.
     bindE (ProjectSessionPermissionRequests L evs) (\<lambda>requests.
     bindE (ProjectSessionPermissionGrants L evs) (\<lambda>grants.
     Inr \<lparr>prj_Session = s, prj_Runs = runs, prj_Messages = messages, prj_ModelCalls = calls,
       prj_ToolUses = uses, prj_PermissionRequests = requests, prj_PermissionGrants = grants\<rparr>)))))))"

section \<open>Which events a pass looks at\<close>

definition run_event_types :: "string list" where
  "run_event_types = [EventSessionRunAdmitted, EventSessionRunStarted, EventSessionRunCompleted,
     EventSessionRunFailed, EventSessionRunAborted]"

interpretation runs_pass: history_pass "runs_step L" "\<lambda>e. agg_Type e \<in> set run_event_types" for L :: lib
  by unfold_locales (auto simp: runs_step_def run_event_types_def)

interpretation messages_pass: history_pass "messages_step L" "\<lambda>e. agg_Type e = EventSessionMessageSaved" for L :: lib
  by unfold_locales (auto simp: messages_step_def)

interpretation calls_pass: history_pass "calls_step L" "\<lambda>e. agg_Type e = EventSessionModelCallSaved" for L :: lib
  by unfold_locales (auto simp: calls_step_def)

interpretation uses_pass: history_pass "uses_step L" "\<lambda>e. agg_Type e = EventSessionToolUseSaved" for L :: lib
  by unfold_locales (auto simp: uses_step_def)

interpretation requests_pass: history_pass "requests_step L"
  "\<lambda>e. agg_Type e = EventSessionPermissionRequested \<or> agg_Type e = EventSessionPermissionResolved" for L :: lib
  by unfold_locales (auto simp: requests_step_def)

interpretation grants_pass: history_pass "grants_step L approved"
  "\<lambda>e. agg_Type e = EventSessionPermissionGrantCreated" for L :: lib and approved :: "string list"
  by unfold_locales (auto simp: grants_step_def)

section \<open>What a projected stream looks like\<close>

lemma projectSessionEvent_version:
  "projectSessionEvent L so e = Inr s \<Longrightarrow> ses_AggregateVersion s = agg_Version e"
  by (auto simp: projectSessionEvent_def res_simps split: option.splits if_splits)

lemma projectSessionEvent_id:
  "projectSessionEvent L so e = Inr s \<Longrightarrow>
     ses_ID s = (case so of None \<Rightarrow> ref_ID (agg_Aggregate e) | Some s' \<Rightarrow> ses_ID s')"
  by (auto simp: projectSessionEvent_def res_simps split: option.splits if_splits)

lemma session_step_conv:
  "session_step L (so, v) e = Inr (so', v') \<longleftrightarrow>
     ref_Type (agg_Aggregate e) = AggregateSession \<and> (\<forall>s. so = Some s \<longrightarrow> ref_ID (agg_Aggregate e) = ses_ID s) \<and>
     agg_Version e = v + 1 \<and> agg_SchemaVersion e = 1 \<and> v' = agg_Version e \<and>
     (\<exists>s. projectSessionEvent L so e = Inr s \<and> so' = Some s)"
proof (cases so)
  case None
  then show ?thesis by (simp add: session_step_def res_simps) auto
next
  case (Some s)
  then show ?thesis by (simp add: session_step_def res_simps) auto
qed

text \<open>The loop invariant: versions count the events from 1, and all belong to the one session.\<close>

lemma session_fold_shape:
  assumes "foldE (session_step L) (None, 0) evs = Inr (so, v)"
  shows "v = int (length evs) \<and> (so = None \<longleftrightarrow> evs = []) \<and>
    (\<forall>s. so = Some s \<longrightarrow> ses_AggregateVersion s = v \<and>
       (\<forall>e \<in> set evs. agg_Aggregate e = session_ref (ses_ID s))) \<and>
    (\<forall>i < length evs. agg_Version (evs ! i) = int i + 1)"
  using assms
proof (induction evs arbitrary: so v rule: rev_induct)
  case (snoc e evs)
  from snoc.prems obtain so' v' where prev: "foldE (session_step L) (None, 0) evs = Inr (so', v')"
    and step: "session_step L (so', v') e = Inr (so, v)"
    by (simp add: bindE_Inr_conv) blast
  from step obtain s where s: "projectSessionEvent L so' e = Inr s" "so = Some s" "v = agg_Version e"
      "agg_Version e = v' + 1" "ref_Type (agg_Aggregate e) = AggregateSession"
      "\<forall>s'. so' = Some s' \<longrightarrow> ref_ID (agg_Aggregate e) = ses_ID s'"
    by (simp only: session_step_conv) blast
  note IH = snoc.IH [OF prev]
  have id: "agg_Aggregate e = session_ref (ses_ID s)"
    using s(5,6) projectSessionEvent_id [OF s(1)] session_ref_surj by (cases so') simp_all
  have ids: "\<forall>e' \<in> set evs. agg_Aggregate e' = session_ref (ses_ID s)"
    using IH projectSessionEvent_id [OF s(1)] by (cases so') simp_all
  have ver: "\<forall>i < length (evs @ [e]). agg_Version ((evs @ [e]) ! i) = int i + 1"
    using IH s(4) by (simp add: nth_append less_Suc_eq)
  have len: "v = int (length (evs @ [e]))" using IH s(3,4) by simp
  show ?case using len ver id ids s(2,3) projectSessionEvent_version [OF s(1)] by simp
qed simp

lemma ProjectSession_conv:
  "ProjectSession L evs = Inr s \<longleftrightarrow> foldE (session_step L) (None, 0) evs = Inr (Some s, int (length evs))"
proof (cases "foldE (session_step L) (None, 0) evs")
  case (Inr p)
  obtain so v where p: "p = (so, v)" by fastforce
  have "v = int (length evs)" using session_fold_shape [of L evs so v] Inr p by blast
  then show ?thesis using Inr p by (cases so) (simp_all add: ProjectSession_def)
qed (simp add: ProjectSession_def)

lemma ProjectSession_shape:
  assumes "ProjectSession L evs = Inr s"
  shows "ses_AggregateVersion s = int (length evs)" "evs \<noteq> []"
    "\<forall>e \<in> set evs. agg_Aggregate e = session_ref (ses_ID s)"
    "\<forall>i < length evs. agg_Version (evs ! i) = int i + 1"
  using session_fold_shape [of L evs "Some s" "int (length evs)"] assms
  by (auto simp: ProjectSession_conv)

lemma ProjectSession_snoc:
  assumes "ProjectSession L evs = Inr s"
  shows "ProjectSession L (evs @ [e]) =
    (if ref_Type (agg_Aggregate e) \<noteq> AggregateSession
     then Inl (Errorf ''project session: unexpected aggregate type'')
     else if ref_ID (agg_Aggregate e) \<noteq> ses_ID s
     then Inl (Errorf ''project session: event belongs to another aggregate'')
     else if agg_Version e \<noteq> ses_AggregateVersion s + 1 then Inl (Errorf ''project session: unexpected event version'')
     else if agg_SchemaVersion e \<noteq> 1 then Inl (Errorf ''project session: unsupported schema version'')
     else projectSessionEvent L (Some s) e)"
proof -
  have "foldE (session_step L) (None, 0) evs = Inr (Some s, ses_AggregateVersion s)"
    using assms ProjectSession_shape(1) [OF assms] by (simp add: ProjectSession_conv)
  then show ?thesis unfolding ProjectSession_def by (simp add: session_step_def bindE_assoc)
      (cases "projectSessionEvent L (Some s) e"; simp)
qed

text \<open>A stream that projects has only prefixes that do.\<close>

lemma ProjectSession_prefix:
  assumes "ProjectSession L (evs @ es) = Inr s" "evs \<noteq> []"
  shows "\<exists>s'. ProjectSession L evs = Inr s' \<and> ses_ID s' = ses_ID s"
proof -
  obtain so v where fold: "foldE (session_step L) (None, 0) evs = Inr (so, v)"
    using assms(1) foldE_prefix_Inr [of "session_step L" "(None, 0)" evs es] by (auto simp: ProjectSession_conv)
  then obtain s' where s': "so = Some s'" using session_fold_shape [OF fold] assms(2) by (cases so) auto
  then have proj: "ProjectSession L evs = Inr s'" using fold by (simp add: ProjectSession_def)
  have "agg_Aggregate (hd evs) = session_ref (ses_ID s')" "agg_Aggregate (hd evs) = session_ref (ses_ID s)"
    using ProjectSession_shape(3) [OF proj] ProjectSession_shape(3) [OF assms(1)] assms(2) by auto
  then show ?thesis using proj by simp
qed

end
