(* ===== verification/Memory_State.thy ===== *)
theory Memory_State
  imports Aggregate_Projection
begin

text \<open>
  The in-memory store (\<^verbatim>\<open>store/memory/memory.go\<close>): its state, the outside world an operation reads,
  the copying helpers, and the commit of one aggregate event that the session operations share.

  An operation runs under the store's one mutex, so it is a function from a state to a result and
  a state.  Values are immutable here, so a Go deep copy is the value itself unless it changes it:
  \<open>copyAgent\<close> normalizes through JSON and \<open>copySessionEvent\<close> ties \<^verbatim>\<open>Data\<close> to \<^verbatim>\<open>DataJSON\<close>.
\<close>

section \<open>State\<close>

record store =
  st_agents :: "(string, agent) gomap"
  st_sessions :: "(string, session) gomap"
  st_clients :: "(string, client) gomap"
  st_workspaces :: "(string, workspace) gomap"
  st_messages :: "(string, stored_message) gomap"
  st_parts :: "(string, stored_part) gomap"
  st_modelCalls :: "(string, model_call) gomap"
  st_toolUses :: "(string, tool_use) gomap"
  st_permissionRequests :: "(string, permission_request) gomap"
  st_permissionGrants :: "(string, permission_grant) gomap"
  st_events :: "(string, session_event) gomap"
  st_aggregates :: "(aggregate_ref, aggregate_event list) gomap"
  st_globalSeq :: int
  st_runs :: "(string, session_run) gomap"
  st_auth :: "auth option"

definition NewStore :: store where
  "NewStore = \<lparr>st_agents = [], st_sessions = [], st_clients = [], st_workspaces = [], st_messages = [],
     st_parts = [], st_modelCalls = [], st_toolUses = [], st_permissionRequests = [],
     st_permissionGrants = [], st_events = [], st_aggregates = [], st_globalSeq = 0, st_runs = [],
     st_auth = None\<rparr>"

text \<open>
  What an operation reads from outside: the clock, and the bodies of the identifiers that
  \<^verbatim>\<open>ksuid.New\<close> returns to its calls, numbered by call site.
\<close>

record world =
  w_now :: time
  w_fresh :: "nat \<Rightarrow> string"

definition PrefixAgent :: string where "PrefixAgent = ''agt_''"
definition PrefixSession :: string where "PrefixSession = ''ses_''"
definition PrefixRun :: string where "PrefixRun = ''run_''"
definition PrefixMessage :: string where "PrefixMessage = ''msg_''"
definition PrefixEvent :: string where "PrefixEvent = ''evt_''"
definition PrefixModelCall :: string where "PrefixModelCall = ''mcl_''"
definition PrefixPart :: string where "PrefixPart = ''prt_''"
definition PrefixToolUse :: string where "PrefixToolUse = ''tlu_''"
definition PrefixClient :: string where "PrefixClient = ''cli_''"
definition PrefixWorkspace :: string where "PrefixWorkspace = ''wsp_''"
definition PrefixPermissionRequest :: string where "PrefixPermissionRequest = ''prq_''"
definition PrefixPermissionGrant :: string where "PrefixPermissionGrant = ''pgr_''"

lemmas prefix_defs = PrefixAgent_def PrefixSession_def PrefixRun_def PrefixMessage_def PrefixEvent_def
  PrefixModelCall_def PrefixPart_def PrefixToolUse_def PrefixClient_def PrefixWorkspace_def
  PrefixPermissionRequest_def PrefixPermissionGrant_def

definition NewID :: "world \<Rightarrow> string \<Rightarrow> nat \<Rightarrow> string" where
  "NewID w prefix n = prefix @ w_fresh w n"

definition known_prefixes :: "string list" where
  "known_prefixes = [PrefixAgent, PrefixSession, PrefixRun, PrefixMessage, PrefixEvent, PrefixModelCall,
     PrefixPart, PrefixToolUse, PrefixClient, PrefixWorkspace, PrefixPermissionRequest, PrefixPermissionGrant]"

definition ParseID :: "string \<Rightarrow> (string \<times> string) res" where
  "ParseID i = (case List.find (has_prefix i) known_prefixes of
     Some p \<Rightarrow> Inr (p, drop (length p) i) | None \<Rightarrow> Inl (Errorf ''ParseID: unknown prefix''))"

definition Now :: "lib \<Rightarrow> world \<Rightarrow> string" where
  "Now L w = fmt_now L (w_now w)"

section \<open>Operations\<close>

type_synonym 'a outcome = "'a res \<times> store"

text \<open>A call whose error the operation returns before it has changed the state.\<close>

definition attempt :: "store \<Rightarrow> 'b res \<Rightarrow> ('b \<Rightarrow> 'a outcome) \<Rightarrow> 'a outcome" where
  "attempt s m f = (case m of Inl e \<Rightarrow> (Inl e, s) | Inr x \<Rightarrow> f x)"

lemma attempt_simps [simp]: "attempt s (Inl e) f = (Inl e, s)" "attempt s (Inr x) f = f x"
  by (simp_all add: attempt_def)

lemma attempt_ok [res_simps]:
  "attempt s m f = (Inr y, s') \<longleftrightarrow> (\<exists>x. m = Inr x \<and> f x = (Inr y, s'))"
  by (cases m) auto

lemma attempt_state: "P s \<Longrightarrow> (\<And>x. m = Inr x \<Longrightarrow> P (snd (f x))) \<Longrightarrow> P (snd (attempt s m f))"
  by (cases m) auto

lemma option_state:
  "(m = None \<Longrightarrow> P (snd a)) \<Longrightarrow> (\<And>y. m = Some y \<Longrightarrow> P (snd (f y))) \<Longrightarrow>
     P (snd (case m of None \<Rightarrow> a | Some y \<Rightarrow> f y))"
  by (cases m) auto

lemma if_state:
  "(c \<Longrightarrow> P (snd a)) \<Longrightarrow> (\<not> c \<Longrightarrow> P (snd b)) \<Longrightarrow> P (snd (if c then a else b))"
  by simp

lemma pair_state: "(\<And>x y. p = (x, y) \<Longrightarrow> P (snd (f x y))) \<Longrightarrow> P (snd (case p of (x, y) \<Rightarrow> f x y))"
  by (cases p) auto

lemma value_state: "P s \<Longrightarrow> P (snd (r, s))"
  by simp

text \<open>What holds of the state before each branch and after it holds after the operation.\<close>

lemmas outcome_state = attempt_state option_state if_state pair_state value_state

lemma attempt_split:
  "P (attempt s m f) \<longleftrightarrow> (\<forall>e. m = Inl e \<longrightarrow> P (Inl e, s)) \<and> (\<forall>x. m = Inr x \<longrightarrow> P (f x))"
  by (cases m) auto

definition lookup :: "go_error \<Rightarrow> (string, 'v) gomap \<Rightarrow> string \<Rightarrow> 'v res" where
  \<comment> \<open>\<^verbatim>\<open>v, ok := m[k]; if !ok { return e }\<close>\<close>
  "lookup e m k = (case map_of m k of None \<Rightarrow> Inl e | Some v \<Rightarrow> Inr v)"

lemma lookup_ok [simp]: "lookup e m k = Inr v \<longleftrightarrow> map_of m k = Some v"
  by (simp add: lookup_def split: option.splits)

lemma lookup_err: "lookup e m k = Inl e' \<longleftrightarrow> map_of m k = None \<and> e' = e"
  by (auto simp: lookup_def split: option.splits)

definition check :: "bool \<Rightarrow> go_error \<Rightarrow> unit res" where
  \<comment> \<open>\<^verbatim>\<open>if !b { return e }\<close>\<close>
  "check b e = (if b then Inr () else Inl e)"

lemma check_ok [simp]: "check b e = Inr u \<longleftrightarrow> b"
  by (simp add: check_def)

lemma check_err: "check b e = Inl e' \<longleftrightarrow> \<not> b \<and> e' = e"
  by (auto simp: check_def)

section \<open>Copies\<close>

definition copyAgent :: "lib \<Rightarrow> agent \<Rightarrow> agent" where
  "copyAgent L a = (case dec_agent L (enc_agent L a) of Inr c \<Rightarrow> c | Inl _ \<Rightarrow> a)"

definition copySessionRun :: "lib \<Rightarrow> session_run \<Rightarrow> session_run" where
  "copySessionRun L run = run\<lparr>run_Agent := copyAgent L (run_Agent run)\<rparr>"

definition copySessionEvent :: "session_event \<Rightarrow> session_event" where
  "copySessionEvent e = (if evt_DataJSON e = None then e else e\<lparr>evt_Data := evt_DataJSON e\<rparr>)"

definition copyAuth :: "auth option \<Rightarrow> auth" where
  "copyAuth a = (case a of None \<Rightarrow> \<lparr>auth_Providers = [], auth_UpdatedAt = []\<rparr> | Some x \<Rightarrow> x)"

lemma copySessionRun_simps [simp]:
  "run_ID (copySessionRun L r) = run_ID r" "run_SessionID (copySessionRun L r) = run_SessionID r"
  "run_Status (copySessionRun L r) = run_Status r" "run_Sequence (copySessionRun L r) = run_Sequence r"
  "run_Message (copySessionRun L r) = run_Message r"
  "run_AdmittedVersion (copySessionRun L r) = run_AdmittedVersion r"
  "run_Agent (copySessionRun L r) = copyAgent L (run_Agent r)"
  "run_RequestID (copySessionRun L r) = run_RequestID r" "run_RequestHash (copySessionRun L r) = run_RequestHash r"
  "run_ClientID (copySessionRun L r) = run_ClientID r"
  "run_CreatedAt (copySessionRun L r) = run_CreatedAt r"
  "run_StartedAt (copySessionRun L r) = run_StartedAt r"
  "run_CompletedAt (copySessionRun L r) = run_CompletedAt r"
  "run_UpdatedAt (copySessionRun L r) = run_UpdatedAt r"
  "run_ErrorType (copySessionRun L r) = run_ErrorType r"
  "run_ErrorMessage (copySessionRun L r) = run_ErrorMessage r"
  by (simp_all add: copySessionRun_def)

lemma copySessionEvent_simps [simp]:
  "evt_ID (copySessionEvent e) = evt_ID e" "evt_SessionID (copySessionEvent e) = evt_SessionID e"
  "evt_Seq (copySessionEvent e) = evt_Seq e" "evt_DataJSON (copySessionEvent e) = evt_DataJSON e"
  "evt_Type (copySessionEvent e) = evt_Type e" "evt_Time (copySessionEvent e) = evt_Time e"
  by (simp_all add: copySessionEvent_def)

lemma copyAgent_ok: "lib_ok L \<Longrightarrow> agent_ok L a \<Longrightarrow> copyAgent L a = a"
  by (simp add: copyAgent_def agent_round_trip)

lemma copySessionRun_ok: "lib_ok L \<Longrightarrow> agent_ok L (run_Agent r) \<Longrightarrow> copySessionRun L r = r"
  by (simp add: copySessionRun_def copyAgent_ok)

section \<open>Committing an aggregate event\<close>

definition history :: "store \<Rightarrow> aggregate_ref \<Rightarrow> aggregate_event list" where
  \<comment> \<open>\<^verbatim>\<open>s.aggregates[ref]\<close>, nil when there is none\<close>
  "history s ref = (case map_of (st_aggregates s) ref of None \<Rightarrow> [] | Some evs \<Rightarrow> evs)"

definition project_next ::
    "lib \<Rightarrow> session \<Rightarrow> aggregate_event list \<Rightarrow> aggregate_event \<Rightarrow> (aggregate_event \<times> session) res" where
  \<comment> \<open>\<^verbatim>\<open>event.Version = session.AggregateVersion + 1; store.ProjectSession(append(history, event))\<close>\<close>
  "project_next L session hist e =
     (let e = e\<lparr>agg_Version := ses_AggregateVersion session + 1\<rparr> in
      bindE (ProjectSession L (hist @ [e])) (\<lambda>projected. Inr (e, projected)))"

definition appendPermissionAggregateCommitLocked :: "aggregate_event \<Rightarrow> session \<Rightarrow> store \<Rightarrow> store" where
  "appendPermissionAggregateCommitLocked e projected s =
     (let seq = st_globalSeq s + 1; e = e\<lparr>agg_GlobalSequence := seq\<rparr> in
      s\<lparr>st_globalSeq := seq,
        st_aggregates := AList.update (agg_Aggregate e) (history s (agg_Aggregate e) @ [e]) (st_aggregates s),
        st_sessions := AList.update (ref_ID (agg_Aggregate e)) projected (st_sessions s)\<rparr>)"

abbreviation "commit \<equiv> appendPermissionAggregateCommitLocked"

definition append_next :: "lib \<Rightarrow> aggregate_event \<Rightarrow> store \<Rightarrow> (aggregate_event \<times> session) res" where
  \<comment> \<open>the validation against the session's stream that precedes each commit\<close>
  "append_next L e s = bindE (lookup NilDereference (st_sessions s) (ref_ID (agg_Aggregate e)))
     (\<lambda>session. project_next L session (history s (agg_Aggregate e)) e)"

definition next_event_seq :: "store \<Rightarrow> string \<Rightarrow> int" where
  \<comment> \<open>the loops over \<^verbatim>\<open>s.events\<close> for the highest \<^verbatim>\<open>Seq\<close> of a session, plus 1\<close>
  "next_event_seq s sid = max_where (\<lambda>e. evt_SessionID e = sid) evt_Seq (vals (st_events s)) + 1"

definition new_session_event :: "store \<Rightarrow> string \<Rightarrow> string \<Rightarrow> string \<Rightarrow> time \<Rightarrow> json \<Rightarrow> session_event" where
  "new_session_event s eid sid typ t payload = \<lparr>evt_ID = eid, evt_SchemaVersion = 1, evt_Type = typ,
     evt_Time = t, evt_SessionID = sid, evt_Seq = next_event_seq s sid, evt_DataJSON = Some payload,
     evt_Data = Some payload\<rparr>"

definition sorted_desc :: "('a \<Rightarrow> string) \<Rightarrow> 'a list \<Rightarrow> 'a list" where
  \<comment> \<open>\<^verbatim>\<open>sort.Slice(out, func(i, j int) bool { return key(out[i]) > key(out[j]) })\<close>; equal keys may come
     in any order, here the stable one\<close>
  "sorted_desc key xs = rev (sort_key key (rev xs))"

lemma sorted_desc_set [simp]: "set (sorted_desc key xs) = set xs"
  by (simp add: sorted_desc_def)

lemma sorted_desc_sorted: "sorted (rev (map key (sorted_desc key xs)))"
  by (simp add: sorted_desc_def rev_map)

end
