(* ===== verification/Memory_Catalog.thy ===== *)
theory Memory_Catalog
  imports Memory_State
begin

text \<open>
  The tables of \<^verbatim>\<open>memory.go\<close> that are not event-sourced: agents, clients, workspaces and the stored
  credentials.  A \<^verbatim>\<open>*T\<close> argument the code writes back to is returned in its updated form.
\<close>

section \<open>Agents\<close>

definition CreateAgent :: "lib \<Rightarrow> world \<Rightarrow> agent \<Rightarrow> store \<Rightarrow> agent outcome" where
  "CreateAgent L w a s =
     (let a = (if agt_ID a = '''' then a\<lparr>agt_ID := NewID w PrefixAgent 0\<rparr> else a);
          a = a\<lparr>agt_CreatedAt := Now L w, agt_UpdatedAt := Now L w\<rparr> in
      (Inr a, s\<lparr>st_agents := AList.update (agt_ID a) (copyAgent L a) (st_agents s)\<rparr>))"

definition GetAgent :: "lib \<Rightarrow> string \<Rightarrow> store \<Rightarrow> agent res" where
  "GetAgent L i s = bindE (lookup (Errorf ''agent not found'') (st_agents s) i) (\<lambda>a. Inr (copyAgent L a))"

definition ListAgents :: "lib \<Rightarrow> store \<Rightarrow> agent list res" where
  "ListAgents L s = Inr (sorted_desc agt_CreatedAt (map (copyAgent L) (vals (st_agents s))))"

definition UpdateAgent :: "lib \<Rightarrow> world \<Rightarrow> agent \<Rightarrow> store \<Rightarrow> agent outcome" where
  "UpdateAgent L w a s = attempt s (lookup (Errorf ''agent not found'') (st_agents s) (agt_ID a)) (\<lambda>existing.
     let a = a\<lparr>agt_UpdatedAt := Now L w, agt_CreatedAt := agt_CreatedAt existing\<rparr> in
     (Inr a, s\<lparr>st_agents := AList.update (agt_ID a) (copyAgent L a) (st_agents s)\<rparr>))"

definition DeleteAgent :: "string \<Rightarrow> store \<Rightarrow> unit outcome" where
  "DeleteAgent i s = attempt s (lookup (Errorf ''agent not found'') (st_agents s) i) (\<lambda>_.
     (Inr (), s\<lparr>st_agents := AList.delete i (st_agents s)\<rparr>))"

section \<open>Clients\<close>

definition DefaultClientID :: string where "DefaultClientID = ''cli_wingclient''"
definition DefaultClientName :: string where "DefaultClientName = ''WingClient''"

definition CreateClientWithID :: "lib \<Rightarrow> world \<Rightarrow> string \<Rightarrow> string \<Rightarrow> store \<Rightarrow> client outcome" where
  "CreateClientWithID L w i name s =
     (let name = trim_space name in
      attempt s (check (name \<noteq> '''') (Errorf ''client name is required'')) (\<lambda>_.
      attempt s (check (\<not> equal_fold name DefaultClientName) ErrClientNameExists) (\<lambda>_.
      attempt s (check (\<forall>c \<in> set (vals (st_clients s)). \<not> equal_fold (cli_Name c) name) ErrClientNameExists) (\<lambda>_.
      attempt s (check (map_of (st_clients s) i = None) ErrClientIDExists) (\<lambda>_.
        let c = \<lparr>cli_ID = i, cli_Name = name, cli_CreatedAt = Now L w\<rparr> in
        (Inr c, s\<lparr>st_clients := AList.update i c (st_clients s)\<rparr>))))))"

definition CreateClient :: "lib \<Rightarrow> world \<Rightarrow> string \<Rightarrow> store \<Rightarrow> client outcome" where
  "CreateClient L w name s = CreateClientWithID L w (NewID w PrefixClient 0) name s"

definition EnsureDefaultClient :: "lib \<Rightarrow> world \<Rightarrow> store \<Rightarrow> client outcome" where
  "EnsureDefaultClient L w s = (case map_of (st_clients s) DefaultClientID of
     Some c \<Rightarrow> (Inr c, s)
   | None \<Rightarrow> let c = \<lparr>cli_ID = DefaultClientID, cli_Name = DefaultClientName, cli_CreatedAt = Now L w\<rparr> in
       (Inr c, s\<lparr>st_clients := AList.update DefaultClientID c (st_clients s)\<rparr>))"

definition GetClient :: "string \<Rightarrow> store \<Rightarrow> client res" where
  "GetClient i s = lookup (Errorf ''client not found'') (st_clients s) i"

definition ListClients :: "store \<Rightarrow> client list res" where
  "ListClients s = Inr (sorted_desc cli_CreatedAt (vals (st_clients s)))"

section \<open>Workspaces\<close>

definition workspaceNameExists :: "string \<Rightarrow> string \<Rightarrow> string \<Rightarrow> store \<Rightarrow> bool" where
  "workspaceNameExists clientID name excludeID s = (\<exists>x \<in> set (vals (st_workspaces s)).
     wsp_ID x \<noteq> excludeID \<and> wsp_ClientID x = clientID \<and> equal_fold (wsp_Name x) name)"

definition client_exists :: "string \<Rightarrow> store \<Rightarrow> unit res" where
  \<comment> \<open>the guard \<^verbatim>\<open>if id != "" { if _, ok := s.clients[id]; !ok { return ... } }\<close>\<close>
  "client_exists i s = check (i = '''' \<or> map_of (st_clients s) i \<noteq> None) (Errorf ''client not found'')"

definition workspace_exists :: "string \<Rightarrow> store \<Rightarrow> unit res" where
  "workspace_exists i s = check (i = '''' \<or> map_of (st_workspaces s) i \<noteq> None) (Errorf ''workspace not found'')"

definition CreateWorkspace :: "lib \<Rightarrow> world \<Rightarrow> workspace \<Rightarrow> store \<Rightarrow> workspace outcome" where
  "CreateWorkspace L w x s =
     (let x = (if wsp_ID x = '''' then x\<lparr>wsp_ID := NewID w PrefixWorkspace 0\<rparr> else x);
          x = x\<lparr>wsp_CreatedAt := Now L w, wsp_UpdatedAt := Now L w\<rparr> in
      attempt s (client_exists (wsp_ClientID x) s) (\<lambda>_.
      attempt s (check (\<not> workspaceNameExists (wsp_ClientID x) (wsp_Name x) '''' s) ErrWorkspaceNameExists) (\<lambda>_.
        (Inr x, s\<lparr>st_workspaces := AList.update (wsp_ID x) x (st_workspaces s)\<rparr>))))"

definition GetWorkspace :: "string \<Rightarrow> store \<Rightarrow> workspace res" where
  "GetWorkspace i s = lookup (Errorf ''workspace not found'') (st_workspaces s) i"

definition ListWorkspaces :: "store \<Rightarrow> workspace list res" where
  "ListWorkspaces s = Inr (sorted_desc wsp_CreatedAt (vals (st_workspaces s)))"

definition ListWorkspacesByClient :: "string \<Rightarrow> store \<Rightarrow> workspace list res" where
  "ListWorkspacesByClient clientID s =
     Inr (sorted_desc wsp_CreatedAt (filter (\<lambda>x. wsp_ClientID x = clientID) (vals (st_workspaces s))))"

definition UpdateWorkspace :: "lib \<Rightarrow> world \<Rightarrow> workspace \<Rightarrow> store \<Rightarrow> workspace outcome" where
  "UpdateWorkspace L w x s =
     attempt s (lookup (Errorf ''workspace not found'') (st_workspaces s) (wsp_ID x)) (\<lambda>existing.
     attempt s (client_exists (wsp_ClientID x) s) (\<lambda>_.
     attempt s (check (\<not> workspaceNameExists (wsp_ClientID x) (wsp_Name x) (wsp_ID x) s) ErrWorkspaceNameExists) (\<lambda>_.
       let x = x\<lparr>wsp_UpdatedAt := Now L w, wsp_CreatedAt := wsp_CreatedAt existing\<rparr> in
       (Inr x, s\<lparr>st_workspaces := AList.update (wsp_ID x) x (st_workspaces s)\<rparr>))))"

definition clear_workspace :: "string \<Rightarrow> session \<Rightarrow> session" where
  "clear_workspace i x = (if ses_WorkspaceID x = i then x\<lparr>ses_WorkspaceID := ''''\<rparr> else x)"

definition DeleteWorkspace :: "string \<Rightarrow> store \<Rightarrow> unit outcome" where
  "DeleteWorkspace i s = attempt s (lookup (Errorf ''workspace not found'') (st_workspaces s) i) (\<lambda>_.
     (Inr (), s\<lparr>st_workspaces := AList.delete i (st_workspaces s),
       st_sessions := map_values (clear_workspace i) (st_sessions s)\<rparr>))"

section \<open>Credentials\<close>

definition GetAuth :: "store \<Rightarrow> auth res" where
  "GetAuth s = Inr (copyAuth (st_auth s))"

definition SetAuth :: "lib \<Rightarrow> world \<Rightarrow> auth \<Rightarrow> store \<Rightarrow> auth outcome" where
  "SetAuth L w a s = (let a = a\<lparr>auth_UpdatedAt := Now L w\<rparr> in (Inr a, s\<lparr>st_auth := Some (copyAuth (Some a))\<rparr>))"

section \<open>Names stay unique\<close>

text \<open>Tables in which two rows that \<open>R\<close> relates are the same row.\<close>

definition unique_by :: "('v \<Rightarrow> 'v \<Rightarrow> bool) \<Rightarrow> ('k, 'v) gomap \<Rightarrow> bool" where
  "unique_by R m \<longleftrightarrow> (\<forall>k v k' v'. map_of m k = Some v \<longrightarrow> map_of m k' = Some v' \<longrightarrow> R v v' \<longrightarrow> k = k')"

lemma unique_by_Nil [simp]: "unique_by R []"
  by (simp add: unique_by_def)

lemma unique_by_update:
  assumes "unique_by R m" "\<And>v v'. R v v' \<Longrightarrow> R v' v"
    and "\<And>k' v'. map_of m k' = Some v' \<Longrightarrow> k' \<noteq> k \<Longrightarrow> \<not> R v' v"
  shows "unique_by R (AList.update k v m)"
  using assms(1,2) assms(3) unfolding unique_by_def by (fastforce split: if_splits)

lemma unique_by_delete: "unique_by R m \<Longrightarrow> unique_by R (AList.delete k m)"
  unfolding unique_by_def by (simp split: if_splits)

definition same_client_name :: "client \<Rightarrow> client \<Rightarrow> bool" where
  "same_client_name a b = equal_fold (cli_Name a) (cli_Name b)"

definition same_workspace_name :: "workspace \<Rightarrow> workspace \<Rightarrow> bool" where
  "same_workspace_name a b \<longleftrightarrow> wsp_ClientID a = wsp_ClientID b \<and> equal_fold (wsp_Name a) (wsp_Name b)"

text \<open>
  The invariant of the client and workspace tables: rows are stored under their identifiers, and
  no two clients, and no two workspaces of a client, have names that differ in case only.
\<close>

definition catalog_inv :: "store \<Rightarrow> bool" where
  "catalog_inv s \<longleftrightarrow>
     wf_map (st_clients s) \<and> wf_map (st_workspaces s) \<and>
     (\<forall>k c. map_of (st_clients s) k = Some c \<longrightarrow> cli_ID c = k \<and>
        (equal_fold (cli_Name c) DefaultClientName \<longrightarrow> k = DefaultClientID)) \<and>
     (\<forall>k x. map_of (st_workspaces s) k = Some x \<longrightarrow> wsp_ID x = k \<and> k \<noteq> '''') \<and>
     unique_by same_client_name (st_clients s) \<and> unique_by same_workspace_name (st_workspaces s)"

lemma catalog_inv_frame:
  "st_clients s' = st_clients s \<Longrightarrow> st_workspaces s' = st_workspaces s \<Longrightarrow> catalog_inv s' = catalog_inv s"
  by (simp add: catalog_inv_def)

lemma catalog_inv_client:
  assumes "catalog_inv s" "cli_ID c = i" "equal_fold (cli_Name c) DefaultClientName \<longrightarrow> i = DefaultClientID"
    and "\<And>k' c'. map_of (st_clients s) k' = Some c' \<Longrightarrow> k' \<noteq> i \<Longrightarrow> \<not> same_client_name c' c"
  shows "catalog_inv (s\<lparr>st_clients := AList.update i c (st_clients s)\<rparr>)"
proof -
  have "unique_by same_client_name (AList.update i c (st_clients s))"
    using assms(1,4) by (intro unique_by_update) (auto simp: catalog_inv_def same_client_name_def equal_fold_sym)
  then show ?thesis using assms(1-3) unfolding catalog_inv_def by simp
qed

lemma catalog_inv_workspace:
  assumes "catalog_inv s" "wsp_ID x = i" "i \<noteq> ''''" "\<not> workspaceNameExists (wsp_ClientID x) (wsp_Name x) excl s"
    "excl = '''' \<or> excl = i"
  shows "catalog_inv (s\<lparr>st_workspaces := AList.update i x (st_workspaces s)\<rparr>)"
proof -
  have "\<not> same_workspace_name x' x" if "map_of (st_workspaces s) k' = Some x'" "k' \<noteq> i" for k' x'
  proof -
    have "x' \<in> set (vals (st_workspaces s))" "wsp_ID x' = k'" "k' \<noteq> ''''"
      using that(1) assms(1) by (auto simp: catalog_inv_def map_simps)
    then show ?thesis using that(2) assms(4,5)
      by (auto simp: workspaceNameExists_def same_workspace_name_def)
  qed
  then have "unique_by same_workspace_name (AList.update i x (st_workspaces s))"
    using assms(1) by (intro unique_by_update) (auto simp: catalog_inv_def same_workspace_name_def equal_fold_sym)
  then show ?thesis using assms(1-3) unfolding catalog_inv_def by simp
qed

lemma catalog_inv_NewStore: "catalog_inv NewStore"
  by (simp add: catalog_inv_def NewStore_def)

lemma CreateClientWithID_catalog:
  assumes "catalog_inv s" shows "catalog_inv (snd (CreateClientWithID L w i name s))"
  unfolding CreateClientWithID_def Let_def
proof (intro attempt_state [where P = catalog_inv] assms, simp only: check_ok snd_conv)
  assume fresh: "\<not> equal_fold (trim_space name) DefaultClientName"
    "\<forall>c \<in> set (vals (st_clients s)). \<not> equal_fold (cli_Name c) (trim_space name)"
  then show "catalog_inv (s\<lparr>st_clients := AList.update i
      \<lparr>cli_ID = i, cli_Name = trim_space name, cli_CreatedAt = Now L w\<rparr> (st_clients s)\<rparr>)"
    using assms by (intro catalog_inv_client)
      (auto simp: catalog_inv_def same_client_name_def map_simps)
qed

lemma EnsureDefaultClient_catalog:
  assumes "catalog_inv s" shows "catalog_inv (snd (EnsureDefaultClient L w s))"
proof (cases "map_of (st_clients s) DefaultClientID")
  case None
  have "catalog_inv (s\<lparr>st_clients := AList.update DefaultClientID \<lparr>cli_ID = DefaultClientID,
      cli_Name = DefaultClientName, cli_CreatedAt = Now L w\<rparr> (st_clients s)\<rparr>)"
    using assms None by (intro catalog_inv_client)
      (auto simp: catalog_inv_def same_client_name_def)
  then show ?thesis using None by (simp add: EnsureDefaultClient_def Let_def)
qed (simp add: EnsureDefaultClient_def assms)

lemma CreateWorkspace_catalog:
  assumes "catalog_inv s" shows "catalog_inv (snd (CreateWorkspace L w x s))"
  unfolding CreateWorkspace_def Let_def
  by (intro attempt_state [where P = catalog_inv] assms, simp only: snd_conv,
      rule catalog_inv_workspace [where excl = "''''"])
    (use assms in \<open>auto simp: NewID_def prefix_defs\<close>)

lemma UpdateWorkspace_catalog:
  assumes "catalog_inv s" shows "catalog_inv (snd (UpdateWorkspace L w x s))"
  unfolding UpdateWorkspace_def Let_def
  by (intro attempt_state [where P = catalog_inv] assms, simp only: snd_conv,
      rule catalog_inv_workspace [where excl = "wsp_ID x"])
    (use assms in \<open>auto simp: catalog_inv_def\<close>)

lemma DeleteWorkspace_catalog:
  assumes "catalog_inv s" shows "catalog_inv (snd (DeleteWorkspace i s))"
  unfolding DeleteWorkspace_def
  by (intro attempt_state [where P = catalog_inv] assms)
    (use assms unique_by_delete in \<open>auto simp: catalog_inv_def split: if_splits\<close>)

end
