(* ===== verification/Memory_Sessions.thy ===== *)
theory Memory_Sessions
  imports Memory_Catalog
begin

text \<open>
  The session operations of \<^verbatim>\<open>memory.go\<close>: creation, rename, move and purge, the reads, the pages of
  the aggregate's stream, the rebuild of its projections, and the stream of client events.
\<close>

section \<open>Creation\<close>

definition CreateSession :: "lib \<Rightarrow> world \<Rightarrow> session \<Rightarrow> store \<Rightarrow> session outcome" where
  "CreateSession L w x s =
     (let x = (if ses_ID x = '''' then x\<lparr>ses_ID := NewID w PrefixSession 0\<rparr> else x);
          x = x\<lparr>ses_CreatedAt := Now L w, ses_UpdatedAt := Now L w\<rparr>;
          ref = session_ref (ses_ID x) in
      attempt s (client_exists (ses_ClientID x) s) (\<lambda>_.
      attempt s (workspace_exists (ses_WorkspaceID x) s) (\<lambda>_.
      attempt s (check (history s ref = [])
        (AggregateVersionConflict (ref_Type ref) (ref_ID ref) 0 (int (length (history s ref))))) (\<lambda>_.
      attempt s (NewSessionCreatedEvent L (NewID w PrefixEvent 1) x) (\<lambda>e.
        let s' = s\<lparr>st_globalSeq := st_globalSeq s + 1\<rparr>;
            e = e\<lparr>agg_GlobalSequence := st_globalSeq s', agg_Version := 1\<rparr> in
        attempt s' (ProjectSession L [e]) (\<lambda>projected.
          (Inr projected, s'\<lparr>st_aggregates := AList.update ref [e] (st_aggregates s'),
             st_sessions := AList.update (ses_ID x) projected (st_sessions s')\<rparr>)))))))"

section \<open>Rename and move\<close>

definition applySessionMetadataEvent ::
    "lib \<Rightarrow> aggregate_event \<Rightarrow> int \<Rightarrow> string \<Rightarrow> store \<Rightarrow> session outcome" where
  "applySessionMetadataEvent L e expectedVersion workspaceID s =
     attempt s (lookup ErrSessionNotFound (st_sessions s) (ref_ID (agg_Aggregate e))) (\<lambda>existing.
     attempt s (check (ses_AggregateVersion existing = expectedVersion)
       (AggregateVersionConflict (ref_Type (agg_Aggregate e)) (ref_ID (agg_Aggregate e)) expectedVersion
          (ses_AggregateVersion existing))) (\<lambda>_.
     attempt s (workspace_exists workspaceID s) (\<lambda>_.
     attempt s (project_next L existing (history s (agg_Aggregate e)) (e\<lparr>agg_ClientID := ses_ClientID existing\<rparr>))
       (\<lambda>(e, projected).
       if agg_Type e = EventSessionRenamed \<and> ses_Title projected = ses_Title existing then (Inr existing, s)
       else if agg_Type e = EventSessionMoved \<and> ses_WorkDir projected = ses_WorkDir existing
         \<and> ses_WorkspaceID projected = ses_WorkspaceID existing then (Inr existing, s)
       else (Inr projected, commit e projected s)))))"

definition RenameSession :: "lib \<Rightarrow> world \<Rightarrow> string \<Rightarrow> string \<Rightarrow> int \<Rightarrow> store \<Rightarrow> session outcome" where
  "RenameSession L w i title expectedVersion s =
     attempt s (NewSessionRenamedEvent L (NewID w PrefixEvent 0) i title (Now L w)) (\<lambda>e.
       applySessionMetadataEvent L e expectedVersion '''' s)"

definition MoveSession :: "lib \<Rightarrow> world \<Rightarrow> string \<Rightarrow> string \<Rightarrow> string \<Rightarrow> int \<Rightarrow> store \<Rightarrow> session outcome" where
  "MoveSession L w i workDir workspaceID expectedVersion s =
     attempt s (NewSessionMovedEvent L (NewID w PrefixEvent 0) i workDir workspaceID (Now L w)) (\<lambda>e.
       applySessionMetadataEvent L e expectedVersion workspaceID s)"

section \<open>Purge\<close>

definition PurgeSession :: "string \<Rightarrow> int \<Rightarrow> store \<Rightarrow> unit outcome" where
  "PurgeSession i expectedVersion s =
     attempt s (lookup ErrSessionNotFound (st_sessions s) i) (\<lambda>x.
     attempt s (check (ses_AggregateVersion x = expectedVersion)
       (AggregateVersionConflict AggregateSession i expectedVersion (ses_AggregateVersion x))) (\<lambda>_.
       let msgIDs = map fst (filter (\<lambda>(k, m). msg_SessionID m = i) (st_messages s)) in
       (Inr (), s\<lparr>st_messages := filter (\<lambda>(k, m). k \<notin> set msgIDs) (st_messages s),
          st_parts := del_where (\<lambda>p. prt_MessageID p \<in> set msgIDs) (st_parts s),
          st_modelCalls := del_where (\<lambda>c. mcl_SessionID c = i) (st_modelCalls s),
          st_toolUses := del_where (\<lambda>u. tlu_SessionID u = i) (st_toolUses s),
          st_permissionRequests := del_where (\<lambda>r. prq_SessionID r = i) (st_permissionRequests s),
          st_permissionGrants := del_where (\<lambda>g. pgr_SessionID g = i) (st_permissionGrants s),
          st_events := del_where (\<lambda>e. evt_SessionID e = i) (st_events s),
          st_runs := del_where (\<lambda>r. run_SessionID r = i) (st_runs s),
          st_aggregates := AList.delete (session_ref i) (st_aggregates s),
          st_sessions := AList.delete i (st_sessions s)\<rparr>)))"

section \<open>Reads\<close>

definition GetSession :: "string \<Rightarrow> store \<Rightarrow> session res" where
  "GetSession i s = lookup (Errorf ''session not found'') (st_sessions s) i"

definition ListSessions :: "store \<Rightarrow> session list res" where
  "ListSessions s = Inr (sorted_desc ses_CreatedAt (vals (st_sessions s)))"

definition ListSessionsByClient :: "string \<Rightarrow> store \<Rightarrow> session list res" where
  "ListSessionsByClient clientID s =
     Inr (sorted_desc ses_CreatedAt (filter (\<lambda>x. ses_ClientID x = clientID) (vals (st_sessions s))))"

definition ListSessionsByWorkspace :: "string \<Rightarrow> store \<Rightarrow> session list res" where
  "ListSessionsByWorkspace workspaceID s =
     Inr (sorted_desc ses_CreatedAt (filter (\<lambda>x. ses_WorkspaceID x = workspaceID) (vals (st_sessions s))))"

fun page_loop :: "int \<Rightarrow> nat \<Rightarrow> aggregate_event list \<Rightarrow> aggregate_event list \<Rightarrow> aggregate_event list" where
  \<comment> \<open>the loop of \<^verbatim>\<open>ListAggregateEvents\<close>, \<open>out\<close> what it has collected\<close>
  "page_loop after limit [] out = out"
| "page_loop after limit (e # es) out =
     (if agg_Version e \<le> after then page_loop after limit es out
      else let out = out @ [e] in if length out = limit then out else page_loop after limit es out)"

definition ListAggregateEvents :: "aggregate_ref \<Rightarrow> int \<Rightarrow> int \<Rightarrow> store \<Rightarrow> aggregate_event list res" where
  "ListAggregateEvents ref afterVersion limit s =
     (let limit = (if limit \<le> 0 then 100 else limit) in
      Inr (page_loop afterVersion (nat limit) (history s ref) []))"

section \<open>Rebuilding the projections\<close>

definition put_message :: "stored_message \<Rightarrow> store \<Rightarrow> store" where
  "put_message m s = s\<lparr>st_messages := AList.update (msg_ID m) (m\<lparr>msg_Parts := []\<rparr>) (st_messages s),
     st_parts := put_all prt_ID (msg_Parts m) (st_parts s)\<rparr>"

definition session_part :: "string \<Rightarrow> store \<Rightarrow> stored_part \<Rightarrow> bool" where
  \<comment> \<open>\<^verbatim>\<open>message, ok := s.messages[value.MessageID]; ok && message.SessionID == id\<close>\<close>
  "session_part i s p = (case map_of (st_messages s) (prt_MessageID p) of
     None \<Rightarrow> False | Some m \<Rightarrow> msg_SessionID m = i)"

definition replaceSessionProjectionLocked :: "lib \<Rightarrow> aggregate_projection \<Rightarrow> store \<Rightarrow> store" where
  "replaceSessionProjectionLocked L p s =
     (let i = ses_ID (prj_Session p);
          s = s\<lparr>st_runs := del_where (\<lambda>r. run_SessionID r = i) (st_runs s),
            st_parts := del_where (session_part i s) (st_parts s),
            st_messages := del_where (\<lambda>m. msg_SessionID m = i) (st_messages s),
            st_modelCalls := del_where (\<lambda>c. mcl_SessionID c = i) (st_modelCalls s),
            st_toolUses := del_where (\<lambda>u. tlu_SessionID u = i) (st_toolUses s),
            st_permissionRequests := del_where (\<lambda>r. prq_SessionID r = i) (st_permissionRequests s),
            st_permissionGrants := del_where (\<lambda>g. pgr_SessionID g = i) (st_permissionGrants s)\<rparr>;
          s = s\<lparr>st_sessions := AList.update i (prj_Session p) (st_sessions s),
            st_runs := put_all run_ID (map (copySessionRun L) (prj_Runs p)) (st_runs s)\<rparr>;
          s = fold put_message (prj_Messages p) s in
      s\<lparr>st_modelCalls := put_all mcl_ID (prj_ModelCalls p) (st_modelCalls s),
        st_toolUses := put_all tlu_ID (prj_ToolUses p) (st_toolUses s),
        st_permissionRequests := put_all prq_ID (prj_PermissionRequests p) (st_permissionRequests s),
        st_permissionGrants := put_all pgr_ID (prj_PermissionGrants p) (st_permissionGrants s)\<rparr>)"

definition RebuildSessionProjections :: "lib \<Rightarrow> string \<Rightarrow> store \<Rightarrow> unit outcome" where
  "RebuildSessionProjections L i s =
     attempt s (ProjectSessionAggregate L (history s (session_ref i))) (\<lambda>p.
       (Inr (), replaceSessionProjectionLocked L p s))"

definition RebuildAllSessionProjections :: "lib \<Rightarrow> store \<Rightarrow> unit outcome" where
  "RebuildAllSessionProjections L s =
     attempt s (mapE (\<lambda>(ref, evs). ProjectSessionAggregate L evs)
         (filter (\<lambda>(ref, evs). ref_Type ref = AggregateSession) (st_aggregates s))) (\<lambda>ps.
       (Inr (), fold (replaceSessionProjectionLocked L) ps s))"

section \<open>Client events\<close>

definition AppendSessionEvent :: "world \<Rightarrow> session_event \<Rightarrow> store \<Rightarrow> session_event outcome" where
  "AppendSessionEvent w e s =
     attempt s (lookup ErrSessionNotFound (st_sessions s) (evt_SessionID e)) (\<lambda>_.
       let e = (if evt_ID e = '''' then e\<lparr>evt_ID := NewID w PrefixEvent 0\<rparr> else e);
           e = (if evt_Time e = 0 then e\<lparr>evt_Time := w_now w\<rparr> else e);
           e = (if evt_SchemaVersion e = 0 then e\<lparr>evt_SchemaVersion := 1\<rparr> else e);
           e = (if evt_DataJSON e = None \<and> evt_Data e \<noteq> None then e\<lparr>evt_DataJSON := evt_Data e\<rparr> else e);
           e = (if evt_DataJSON e = None then e\<lparr>evt_DataJSON := Some (JObj [])\<rparr> else e);
           e = e\<lparr>evt_Seq := next_event_seq s (evt_SessionID e)\<rparr>;
           e = e\<lparr>evt_Data := evt_DataJSON e\<rparr> in
       (Inr (copySessionEvent e), s\<lparr>st_events := AList.update (evt_ID e) (copySessionEvent e) (st_events s)\<rparr>))"

definition ListSessionEvents :: "string \<Rightarrow> int \<Rightarrow> int \<Rightarrow> store \<Rightarrow> session_event list res" where
  "ListSessionEvents sid after limit s =
     bindE (lookup ErrSessionNotFound (st_sessions s) sid) (\<lambda>_.
       let limit = (if limit \<le> 0 \<or> limit > 500 then 100 else limit);
           out = sort_key evt_Seq (filter (\<lambda>e. evt_SessionID e = sid \<and> evt_Seq e > after)
             (map copySessionEvent (vals (st_events s)))) in
       Inr (if int (length out) > limit then take (nat limit) out else out))"

definition SessionEventWatermark :: "string \<Rightarrow> store \<Rightarrow> int res" where
  "SessionEventWatermark sid s =
     bindE (lookup ErrSessionNotFound (st_sessions s) sid) (\<lambda>_.
       Inr (max_where (\<lambda>e. evt_SessionID e = sid) evt_Seq (vals (st_events s))))"

end
