(* ===== verification/Memory_Messages.thy ===== *)
theory Memory_Messages
  imports Memory_Sessions
begin

text \<open>
  Messages and model calls of \<^verbatim>\<open>memory.go\<close>.  A message row holds no parts: they are rows of their
  own, joined by \<^verbatim>\<open>ListMessages\<close>.  Saving a message with a higher revision replaces its parts.
\<close>

section \<open>Saving a message\<close>

fun validate_parts_loop :: "string \<Rightarrow> stored_part list \<Rightarrow> string list \<Rightarrow> int list \<Rightarrow> unit res" where
  "validate_parts_loop mid [] ids seqs = Inr ()"
| "validate_parts_loop mid (p # ps) ids seqs =
     (if prt_MessageID p \<noteq> mid then Inl (Errorf ''part does not belong to message'')
      else if prt_ID p \<in> set ids then Inl (Errorf ''duplicate part ID'')
      else if prt_Sequence p \<in> set seqs then Inl (Errorf ''duplicate part sequence'')
      else validate_parts_loop mid ps (prt_ID p # ids) (prt_Sequence p # seqs))"

definition validateMessageParts :: "stored_message \<Rightarrow> unit res" where
  "validateMessageParts m = validate_parts_loop (msg_ID m) (msg_Parts m) [] []"

definition messageParts :: "(string, stored_part) gomap \<Rightarrow> string \<Rightarrow> stored_part list" where
  "messageParts parts mid = sort_key prt_Sequence (filter (\<lambda>p. prt_MessageID p = mid) (vals parts))"

definition messageRevisionEqual :: "stored_message \<Rightarrow> stored_part list \<Rightarrow> stored_message \<Rightarrow> bool" where
  "messageRevisionEqual existing existingParts incoming \<longleftrightarrow>
     msg_Role existing = msg_Role incoming \<and> msg_State existing = msg_State incoming
     \<and> msg_MetadataJSON existing = msg_MetadataJSON incoming
     \<and> length existingParts = length (msg_Parts incoming)
     \<and> list_all2 (\<lambda>a b. prt_ID a = prt_ID b \<and> prt_Sequence a = prt_Sequence b \<and> prt_Kind a = prt_Kind b
         \<and> prt_PayloadJSON a = prt_PayloadJSON b) existingParts (msg_Parts incoming)"

definition prepare_part :: "stored_part list \<Rightarrow> time \<Rightarrow> stored_part \<Rightarrow> stored_part" where
  \<comment> \<open>the body of the loop over the parts; \<open>oldParts\<close> is read as a map, the last of equal keys winning\<close>
  "prepare_part oldParts now p =
     (let p = (case map_of (rev (map (\<lambda>q. (prt_ID q, q)) oldParts)) (prt_ID p) of
            Some old \<Rightarrow> p\<lparr>prt_CreatedAt := prt_CreatedAt old\<rparr>
          | None \<Rightarrow> if prt_CreatedAt p = 0 then p\<lparr>prt_CreatedAt := now\<rparr> else p) in
      if prt_UpdatedAt p = 0 then p\<lparr>prt_UpdatedAt := now\<rparr> else p)"

definition prepareMessageSnapshot ::
    "stored_message \<Rightarrow> stored_message option \<Rightarrow> stored_part list \<Rightarrow> time \<Rightarrow> stored_message" where
  "prepareMessageSnapshot m existing oldParts now =
     (let m = (case existing of
            None \<Rightarrow> if msg_CreatedAt m = 0 then m\<lparr>msg_CreatedAt := now\<rparr> else m
          | Some e \<Rightarrow> m\<lparr>msg_CreatedAt := msg_CreatedAt e\<rparr>);
          m = (if msg_UpdatedAt m = 0 then m\<lparr>msg_UpdatedAt := now\<rparr> else m) in
      m\<lparr>msg_Parts := map (prepare_part oldParts now) (msg_Parts m)\<rparr>)"

definition appendMessageAggregateLocked :: "lib \<Rightarrow> world \<Rightarrow> stored_message \<Rightarrow> store \<Rightarrow> store res" where
  "appendMessageAggregateLocked L w m s =
     bindE (NewSessionMessageSavedEvent L (NewID w PrefixEvent 0) m) (\<lambda>e.
     bindE (append_next L e s) (\<lambda>(e, projected). Inr (commit e projected s)))"

definition applyMessageSnapshotLocked :: "stored_message \<Rightarrow> store \<Rightarrow> store" where
  "applyMessageSnapshotLocked m s =
     s\<lparr>st_messages := AList.update (msg_ID m) (m\<lparr>msg_Parts := []\<rparr>) (st_messages s),
       st_parts := put_all prt_ID (msg_Parts m) (del_where (\<lambda>p. prt_MessageID p = msg_ID m) (st_parts s))\<rparr>"

definition save_snapshot :: "lib \<Rightarrow> world \<Rightarrow> stored_message \<Rightarrow> store \<Rightarrow> unit outcome" where
  "save_snapshot L w m s =
     attempt s (appendMessageAggregateLocked L w m s) (\<lambda>s'. (Inr (), applyMessageSnapshotLocked m s'))"

definition SaveMessage :: "lib \<Rightarrow> world \<Rightarrow> stored_message \<Rightarrow> store \<Rightarrow> unit outcome" where
  "SaveMessage L w m s =
     (let m = (if msg_Revision m = 0 then m\<lparr>msg_Revision := 1\<rparr> else m);
          m = (if msg_State m = '''' then m\<lparr>msg_State := ''completed''\<rparr> else m) in
      attempt s (lookup ErrSessionNotFound (st_sessions s) (msg_SessionID m)) (\<lambda>_.
      attempt s (validateMessageParts m) (\<lambda>_.
      case map_of (st_messages s) (msg_ID m) of
        Some existing \<Rightarrow>
          if msg_SessionID existing \<noteq> msg_SessionID m \<or> msg_RunID existing \<noteq> msg_RunID m
            \<or> msg_Idx existing \<noteq> msg_Idx m \<or> msg_Role existing \<noteq> msg_Role m
          then (Inl (Errorf ''message identity is immutable''), s)
          else if msg_Revision m < msg_Revision existing then (Inl ErrMessageRevisionStale, s)
          else
            let existingParts = messageParts (st_parts s) (msg_ID m) in
            if msg_Revision m = msg_Revision existing then
              (if messageRevisionEqual existing existingParts m then (Inr (), s)
               else (Inl ErrMessageRevisionConflict, s))
            else save_snapshot L w (prepareMessageSnapshot m (Some existing) existingParts (w_now w)) s
      | None \<Rightarrow>
          attempt s (check (\<forall>x \<in> set (vals (st_messages s)).
              \<not> (msg_SessionID x = msg_SessionID m \<and> msg_Idx x = msg_Idx m))
            (Errorf ''message index belongs to another message'')) (\<lambda>_.
          attempt s (check (msg_RunID m = '''' \<or> (case map_of (st_runs s) (msg_RunID m) of
                None \<Rightarrow> False | Some run \<Rightarrow> run_SessionID run = msg_SessionID m))
            (Errorf ''session run does not belong to session'')) (\<lambda>_.
          attempt s (check (\<forall>p \<in> set (msg_Parts m). case map_of (st_parts s) (prt_ID p) of
                None \<Rightarrow> True | Some owner \<Rightarrow> prt_MessageID owner = msg_ID m)
            (Errorf ''part belongs to another message'')) (\<lambda>_.
          save_snapshot L w (prepareMessageSnapshot m None [] (w_now w)) s))))))"

section \<open>Listing messages\<close>

definition join_parts :: "stored_part list \<Rightarrow> stored_message \<Rightarrow> stored_message" where
  "join_parts parts m = m\<lparr>msg_Parts := sort_key prt_Sequence
     (msg_Parts m @ filter (\<lambda>p. prt_MessageID p = msg_ID m) parts)\<rparr>"

definition ListMessages :: "string \<Rightarrow> store \<Rightarrow> stored_message list res" where
  "ListMessages sid s =
     bindE (lookup ErrSessionNotFound (st_sessions s) sid) (\<lambda>_.
       let msgs = sort_key msg_Idx (filter (\<lambda>m. msg_SessionID m = sid) (vals (st_messages s))) in
       Inr (map (join_parts (vals (st_parts s))) msgs))"

section \<open>Model calls\<close>

definition default_model_call :: "world \<Rightarrow> model_call \<Rightarrow> model_call" where
  "default_model_call w c =
     (let c = (if mcl_Attempt c = 0 then c\<lparr>mcl_Attempt := 1\<rparr> else c);
          c = (if mcl_StartedAt c = 0 then c\<lparr>mcl_StartedAt := w_now w\<rparr> else c);
          c = (if mcl_CreatedAt c = 0 then c\<lparr>mcl_CreatedAt := w_now w\<rparr> else c) in
      if mcl_UpdatedAt c = 0 then c\<lparr>mcl_UpdatedAt := w_now w\<rparr> else c)"

definition keep_call_identity :: "model_call \<Rightarrow> model_call \<Rightarrow> model_call" where
  "keep_call_identity existing c = c\<lparr>mcl_SessionID := mcl_SessionID existing, mcl_RunID := mcl_RunID existing,
     mcl_Step := mcl_Step existing, mcl_Attempt := mcl_Attempt existing,
     mcl_StartedAt := mcl_StartedAt existing, mcl_CreatedAt := mcl_CreatedAt existing\<rparr>"

definition save_model_call :: "lib \<Rightarrow> world \<Rightarrow> model_call \<Rightarrow> store \<Rightarrow> unit outcome" where
  \<comment> \<open>the tail of \<^verbatim>\<open>UpsertModelCall\<close>: validate the event, store the row, commit\<close>
  "save_model_call L w c s =
     attempt s (NewSessionModelCallSavedEvent L (NewID w PrefixEvent 1) c) (\<lambda>e.
     attempt s (append_next L e s) (\<lambda>(e, projected).
       (Inr (), commit e projected (s\<lparr>st_modelCalls := AList.update (mcl_ID c) c (st_modelCalls s)\<rparr>))))"

definition UpsertModelCall :: "lib \<Rightarrow> world \<Rightarrow> model_call \<Rightarrow> store \<Rightarrow> unit outcome" where
  "UpsertModelCall L w c s =
     (let c = (if mcl_ID c = '''' then c\<lparr>mcl_ID := NewID w PrefixModelCall 0\<rparr> else c) in
      case map_of (st_modelCalls s) (mcl_ID c) of
        Some existing \<Rightarrow> save_model_call L w (keep_call_identity existing (default_model_call w c)) s
      | None \<Rightarrow>
          attempt s (lookup ErrSessionNotFound (st_sessions s) (mcl_SessionID c)) (\<lambda>_.
          attempt s (check (mcl_RunID c = '''' \<or> (case map_of (st_runs s) (mcl_RunID c) of
                None \<Rightarrow> False | Some run \<Rightarrow> run_SessionID run = mcl_SessionID c))
            (Errorf ''session run does not belong to session'')) (\<lambda>_.
          let c = default_model_call w c in
          attempt s (check (mcl_RunID c = '''' \<or> (\<forall>x \<in> set (vals (st_modelCalls s)).
              \<not> (mcl_RunID x = mcl_RunID c \<and> mcl_Step x = mcl_Step c \<and> mcl_Attempt x = mcl_Attempt c)))
            ErrModelCallAttemptConflict) (\<lambda>_. save_model_call L w c s))))"

definition later_call :: "model_call \<Rightarrow> model_call option \<Rightarrow> bool" where
  "later_call c latest = (case latest of None \<Rightarrow> True | Some l \<Rightarrow>
     mcl_StartedAt c > mcl_StartedAt l \<or> (mcl_StartedAt c = mcl_StartedAt l \<and> mcl_ID c > mcl_ID l))"

definition LatestModelCall :: "string \<Rightarrow> store \<Rightarrow> model_call option res" where
  "LatestModelCall sid s =
     bindE (lookup ErrSessionNotFound (st_sessions s) sid) (\<lambda>_.
       Inr (fold (\<lambda>c latest. if mcl_SessionID c \<noteq> sid \<or> mcl_ContextTokens c = 0 then latest
          else if later_call c latest then Some c else latest) (vals (st_modelCalls s)) None))"

definition ListModelCalls :: "string \<Rightarrow> store \<Rightarrow> model_call list res" where
  "ListModelCalls sid s =
     bindE (lookup ErrSessionNotFound (st_sessions s) sid) (\<lambda>_.
       Inr (sort_key (\<lambda>c. (mcl_StartedAt c, mcl_ID c))
         (filter (\<lambda>c. mcl_SessionID c = sid) (vals (st_modelCalls s)))))"

section \<open>Interrupting a run's model calls\<close>

text \<open>
  The events of one batch are first validated against growing copies of the histories, then
  committed one at a time.  An update holds the candidate, its event and the projected session.
\<close>

type_synonym pending_state = "(aggregate_ref, aggregate_event list) gomap \<times> (string, session) gomap"

definition pending_session :: "store \<Rightarrow> (string, session) gomap \<Rightarrow> string \<Rightarrow> session res" where
  "pending_session s sessions sid = (case map_of sessions sid of
     Some x \<Rightarrow> Inr x | None \<Rightarrow> lookup NilDereference (st_sessions s) sid)"

definition pending_history ::
    "store \<Rightarrow> (aggregate_ref, aggregate_event list) gomap \<Rightarrow> aggregate_ref \<Rightarrow> aggregate_event list" where
  "pending_history s evs ref = (case map_of evs ref of Some es \<Rightarrow> es | None \<Rightarrow> history s ref)"

definition interrupted_call :: "world \<Rightarrow> string \<Rightarrow> string \<Rightarrow> model_call \<Rightarrow> model_call" where
  "interrupted_call w errorType errorMessage c = c\<lparr>mcl_Status := ModelCallStatusAborted,
     mcl_ErrorType := errorType, mcl_ErrorMessage := errorMessage,
     mcl_CompletedAt := w_now w, mcl_UpdatedAt := w_now w\<rparr>"

definition prepare_call_update ::
    "lib \<Rightarrow> world \<Rightarrow> store \<Rightarrow> pending_state \<times> (model_call \<times> aggregate_event \<times> session) list
       \<Rightarrow> model_call \<Rightarrow> (pending_state \<times> (model_call \<times> aggregate_event \<times> session) list) res" where
  "prepare_call_update L w s = (\<lambda>((evs, sessions), updates) c.
     bindE (NewSessionModelCallSavedEvent L (NewID w PrefixEvent (length updates)) c) (\<lambda>e.
     bindE (pending_session s sessions (mcl_SessionID c)) (\<lambda>session.
     let hist = pending_history s evs (agg_Aggregate e) in
     bindE (project_next L session hist e) (\<lambda>(e, projected).
       Inr ((AList.update (agg_Aggregate e) (hist @ [e]) evs,
             AList.update (mcl_SessionID c) projected sessions), updates @ [(c, e, projected)])))))"

definition commit_call_update :: "model_call \<times> aggregate_event \<times> session \<Rightarrow> store \<Rightarrow> store" where
  "commit_call_update = (\<lambda>(c, e, projected) s.
     commit e projected (s\<lparr>st_modelCalls := AList.update (mcl_ID c) c (st_modelCalls s)\<rparr>))"

definition InterruptActiveModelCalls ::
    "lib \<Rightarrow> world \<Rightarrow> string \<Rightarrow> string \<Rightarrow> string \<Rightarrow> store \<Rightarrow> unit outcome" where
  "InterruptActiveModelCalls L w runID errorType errorMessage s =
     attempt s (foldE (prepare_call_update L w s) (([], []), [])
       (map (interrupted_call w errorType errorMessage)
         (filter (\<lambda>c. mcl_RunID c = runID \<and> mcl_Status c = ModelCallStatusStarted) (vals (st_modelCalls s)))))
     (\<lambda>(_, updates). (Inr (), fold commit_call_update updates s))"

end
