(* ===== verification/Memory_Runs.thy ===== *)
theory Memory_Runs
  imports Memory_Sessions
begin

text \<open>
  The queue of session runs in \<^verbatim>\<open>memory.go\<close>: admission with request deduplication, the claim of the
  next queued run, settlement, and the reads.
\<close>

section \<open>Request hash\<close>

definition SessionRunRequestHash :: "lib \<Rightarrow> session_run \<Rightarrow> string res" where
  "SessionRunRequestHash L run =
     bindE (if run_OutputSchemaJSON run = [] then Inr JNull
            else case json_parse L (run_OutputSchemaJSON run) of
              None \<Rightarrow> Inl (JsonError ''decode run output schema'') | Some j \<Rightarrow> Inr j) (\<lambda>schema.
       let a = (run_Agent run)\<lparr>agt_CreatedAt := '''', agt_UpdatedAt := ''''\<rparr> in
       Inr (sha256_hex L (json_text L (JObj
         [(''message'', JStr (run_Message run)), (''agent'', enc_agent L a), (''output_schema'', schema),
          (''client_id'', JStr (run_ClientID run)), (''work_dir'', JStr (run_WorkDir run)),
          (''workspace_id'', JStr (run_WorkspaceID run))]))))"

section \<open>Admission\<close>

record run_admission =
  adm_Run :: session_run
  adm_SessionVersion :: int
  adm_Created :: bool
  adm_QueuedEvent :: "session_event option"

definition next_run_sequence :: "string \<Rightarrow> session_run list \<Rightarrow> int" where
  "next_run_sequence sid runs =
     fold (\<lambda>r n. if run_SessionID r = sid \<and> run_Sequence r \<ge> n then run_Sequence r + 1 else n) runs 1"

definition queued_run :: "world \<Rightarrow> session \<Rightarrow> string \<Rightarrow> session_run \<Rightarrow> store \<Rightarrow> session_run" where
  \<comment> \<open>the run that is admitted: its identifier, position, status, hash, version and times\<close>
  "queued_run w session hash run s =
     (let run = (if run_ID run = '''' then run\<lparr>run_ID := NewID w PrefixRun 0\<rparr> else run) in
      run\<lparr>run_Sequence := next_run_sequence (run_SessionID run) (vals (st_runs s)),
        run_Status := SessionRunStatusQueued, run_RequestHash := hash,
        run_AdmittedVersion := ses_AggregateVersion session + 1,
        run_CreatedAt := w_now w, run_UpdatedAt := w_now w\<rparr>)"

definition record_admission :: "lib \<Rightarrow> world \<Rightarrow> session \<Rightarrow> session_run \<Rightarrow> store \<Rightarrow> run_admission outcome" where
  "record_admission L w session run s =
     attempt s (NewSessionRunAdmittedEvent L (NewID w PrefixEvent 1) run) (\<lambda>e.
       let sid = run_SessionID run;
           seq = st_globalSeq s + 1;
           e = e\<lparr>agg_Version := run_AdmittedVersion run, agg_GlobalSequence := seq\<rparr>;
           queued = new_session_event s (NewID w PrefixEvent 2) sid ''session.run.queued'' (run_CreatedAt run)
             (JObj [(''run_id'', JStr (run_ID run)), (''message'', JStr (run_Message run))]);
           cp = copySessionRun L run in
       (Inr \<lparr>adm_Run = copySessionRun L cp, adm_SessionVersion = run_AdmittedVersion run, adm_Created = True,
          adm_QueuedEvent = Some (copySessionEvent queued)\<rparr>,
        s\<lparr>st_globalSeq := seq,
          st_runs := AList.update (run_ID run) cp (st_runs s),
          st_aggregates := AList.update (session_ref sid) (history s (session_ref sid) @ [e]) (st_aggregates s),
          st_sessions := AList.update sid (session\<lparr>ses_AggregateVersion := run_AdmittedVersion run\<rparr>) (st_sessions s),
          st_events := AList.update (evt_ID queued) (copySessionEvent queued) (st_events s)\<rparr>))"

definition AdmitSessionRun :: "lib \<Rightarrow> world \<Rightarrow> session_run \<Rightarrow> store \<Rightarrow> run_admission outcome" where
  "AdmitSessionRun L w run s =
     attempt s (lookup ErrSessionNotFound (st_sessions s) (run_SessionID run)) (\<lambda>session.
       let sid = run_SessionID run;
           run = run\<lparr>run_WorkDir := ses_WorkDir session, run_WorkspaceID := ses_WorkspaceID session,
             run_ClientID := ses_ClientID session\<rparr> in
       attempt s (SessionRunRequestHash L run) (\<lambda>hash.
       case (if run_RequestID run = '''' then None
             else List.find (\<lambda>r. run_SessionID r = sid \<and> run_RequestID r = run_RequestID run) (vals (st_runs s))) of
         Some existing \<Rightarrow>
           if run_RequestHash existing \<noteq> hash
           then (Inl (SessionRunAdmissionConflict sid (run_RequestID run)), s)
           else (Inr \<lparr>adm_Run = copySessionRun L existing, adm_SessionVersion = ses_AggregateVersion session,
             adm_Created = False, adm_QueuedEvent = None\<rparr>, s)
       | None \<Rightarrow>
           record_admission L w session (queued_run w session hash run s) s))"

section \<open>Reads\<close>

definition GetSessionRun :: "lib \<Rightarrow> string \<Rightarrow> string \<Rightarrow> store \<Rightarrow> session_run res" where
  "GetSessionRun L sid runID s =
     bindE (lookup ErrSessionNotFound (st_sessions s) sid) (\<lambda>_.
     bindE (lookup ErrSessionRunNotFound (st_runs s) runID) (\<lambda>run.
     bindE (check (run_SessionID run = sid) ErrSessionRunNotFound) (\<lambda>_. Inr (copySessionRun L run))))"

definition ListSessionRuns :: "lib \<Rightarrow> string \<Rightarrow> store \<Rightarrow> session_run list res" where
  "ListSessionRuns L sid s =
     bindE (lookup ErrSessionNotFound (st_sessions s) sid) (\<lambda>_.
       Inr (sort_key run_Sequence (map (copySessionRun L) (filter (\<lambda>r. run_SessionID r = sid) (vals (st_runs s))))))"

definition ListQueuedSessionRunSessions :: "store \<Rightarrow> string list res" where
  "ListQueuedSessionRunSessions s = Inr (sort (remdups (map run_SessionID
     (filter (\<lambda>r. run_Status r = SessionRunStatusQueued) (vals (st_runs s))))))"

definition CountQueuedSessionRuns :: "store \<Rightarrow> int res" where
  "CountQueuedSessionRuns s =
     Inr (fold (\<lambda>r n. if run_Status r = SessionRunStatusQueued then n + 1 else n) (vals (st_runs s)) 0)"

definition ListRunningSessionRuns :: "lib \<Rightarrow> store \<Rightarrow> session_run list res" where
  "ListRunningSessionRuns L s = Inr (sort_key (\<lambda>r. (run_SessionID r, run_Sequence r))
     (map (copySessionRun L) (filter (\<lambda>r. run_Status r = SessionRunStatusRunning) (vals (st_runs s)))))"

section \<open>Claim and settlement\<close>

record run_transition =
  \<comment> \<open>\<open>None\<close> is the zero struct\<close>
  rtr_Run :: "session_run option"
  rtr_Event :: "session_event option"
  rtr_Changed :: bool

definition no_transition :: run_transition where
  "no_transition = \<lparr>rtr_Run = None, rtr_Event = None, rtr_Changed = False\<rparr>"

definition run_event_data :: "lib \<Rightarrow> session_run \<Rightarrow> members \<Rightarrow> json" where
  \<comment> \<open>the map of \<^verbatim>\<open>appendRunEventLocked\<close>, marshalled with its keys in order\<close>
  "run_event_data L run extra =
     (let stamp = (\<lambda>k t m. if t = 0 then m else AList.update k (JStr (fmt_time L t)) m);
          data = fold (\<lambda>(k, v). AList.update k v) extra [];
          data = AList.update ''run_id'' (JStr (run_ID run)) data;
          data = AList.update ''status'' (JStr (run_Status run)) data;
          data = AList.update ''error_type'' (JStr (run_ErrorType run)) data;
          data = AList.update ''error_message'' (JStr (run_ErrorMessage run)) data;
          data = stamp ''started_at'' (run_StartedAt run) data;
          data = stamp ''completed_at'' (run_CompletedAt run) data;
          data = stamp ''updated_at'' (run_UpdatedAt run) data in
      JObj (sort_key fst data))"

definition appendRunEventLocked ::
    "lib \<Rightarrow> string \<Rightarrow> session_run \<Rightarrow> string \<Rightarrow> members \<Rightarrow> time \<Rightarrow> store \<Rightarrow> session_event \<times> store" where
  "appendRunEventLocked L eid run typ extra now s =
     (let e = copySessionEvent (new_session_event s eid (run_SessionID run) typ now (run_event_data L run extra)) in
      (e, s\<lparr>st_events := AList.update eid e (st_events s)\<rparr>))"

definition next_queued :: "string \<Rightarrow> session_run list \<Rightarrow> session_run option" where
  "next_queued sid runs = fold (\<lambda>r n. if run_SessionID r = sid \<and> run_Status r = SessionRunStatusQueued
       \<and> (case n of None \<Rightarrow> True | Some m \<Rightarrow> run_Sequence r < run_Sequence m) then Some r else n) runs None"

definition transition_run ::
    "lib \<Rightarrow> world \<Rightarrow> session \<Rightarrow> session_run \<Rightarrow> string \<Rightarrow> members \<Rightarrow> store \<Rightarrow> run_transition outcome" where
  \<comment> \<open>the tail that the claim and the settlement share: record the candidate and both its events\<close>
  "transition_run L w session candidate typ extra s =
     attempt s (NewSessionRunTransitionEvent L (NewID w PrefixEvent 0) candidate) (\<lambda>e.
     attempt s (project_next L session (history s (agg_Aggregate e)) e) (\<lambda>(e, projected).
       let (event, s) = appendRunEventLocked L (NewID w PrefixEvent 1) candidate typ extra (w_now w) s;
           s = commit e projected s in
       (Inr \<lparr>rtr_Run = Some (copySessionRun L candidate), rtr_Event = Some event, rtr_Changed = True\<rparr>,
        s\<lparr>st_runs := AList.update (run_ID candidate) candidate (st_runs s)\<rparr>)))"

definition ClaimNextSessionRun :: "lib \<Rightarrow> world \<Rightarrow> string \<Rightarrow> store \<Rightarrow> run_transition outcome" where
  "ClaimNextSessionRun L w sid s =
     attempt s (lookup ErrSessionNotFound (st_sessions s) sid) (\<lambda>session.
       if \<exists>r \<in> set (vals (st_runs s)). run_SessionID r = sid \<and> run_Status r = SessionRunStatusRunning
       then (Inr no_transition, s)
       else case next_queued sid (vals (st_runs s)) of
         None \<Rightarrow> (Inr no_transition, s)
       | Some run \<Rightarrow>
           transition_run L w session ((copySessionRun L run)\<lparr>run_Status := SessionRunStatusRunning,
             run_StartedAt := w_now w, run_UpdatedAt := w_now w\<rparr>) ''session.run.started'' [] s)"

definition SettleSessionRun :: "lib \<Rightarrow> world \<Rightarrow> run_settlement \<Rightarrow> store \<Rightarrow> run_transition outcome" where
  "SettleSessionRun L w st s =
     attempt s (check (isSessionRunTerminal (stl_Status st)) ErrSessionRunTransitionConflict) (\<lambda>_.
     attempt s (lookup ErrSessionRunNotFound (st_runs s) (stl_ID st)) (\<lambda>run.
       if isSessionRunTerminal (run_Status run) then
         (if run_Status run = stl_Status st \<and> run_ErrorType run = stl_ErrorType st
             \<and> run_ErrorMessage run = stl_ErrorMessage st
          then (Inr (no_transition\<lparr>rtr_Run := Some (copySessionRun L run)\<rparr>), s)
          else (Inl ErrSessionRunTransitionConflict, s))
       else if run_Status run \<noteq> stl_ExpectedStatus st
         \<or> \<not> legalSessionRunSettlement (run_Status run) (stl_Status st)
       then (Inl ErrSessionRunTransitionConflict, s)
       else
         let candidate = (copySessionRun L run)\<lparr>run_Status := stl_Status st, run_ErrorType := stl_ErrorType st,
               run_ErrorMessage := stl_ErrorMessage st, run_CompletedAt := w_now w, run_UpdatedAt := w_now w\<rparr> in
         attempt s (lookup ErrSessionNotFound (st_sessions s) (run_SessionID candidate)) (\<lambda>session.
           transition_run L w session candidate (''session.run.'' @ stl_Status st) (stl_EventData st) s)))"

end
