(* ===== verification/Memory_Tools.thy ===== *)
theory Memory_Tools
  imports Memory_Messages Memory_Runs
begin

text \<open>
  Tool uses and permission requests of \<^verbatim>\<open>memory.go\<close>: the guarded lifecycle of a tool use, the
  request and resolution of permissions with the grants that \<^verbatim>\<open>always\<close> creates, and the two batch
  interruptions at start-up.
\<close>

section \<open>Tool uses\<close>

definition appendToolUseAggregateLocked :: "lib \<Rightarrow> string \<Rightarrow> tool_use \<Rightarrow> store \<Rightarrow> store res" where
  "appendToolUseAggregateLocked L eid u s =
     bindE (lookup ErrSessionNotFound (st_sessions s) (tlu_SessionID u)) (\<lambda>session.
     bindE (NewSessionToolUseSavedEvent L eid u) (\<lambda>e.
     bindE (project_next L session (history s (agg_Aggregate e)) e) (\<lambda>(e, projected).
       Inr (commit e projected s))))"

definition put_tool_use :: "tool_use \<Rightarrow> store \<Rightarrow> store" where
  "put_tool_use u s = s\<lparr>st_toolUses := AList.update (tlu_ID u) u (st_toolUses s)\<rparr>"

definition default_tool_use :: "world \<Rightarrow> tool_use \<Rightarrow> tool_use" where
  "default_tool_use w u =
     (let u = (if tlu_ProposedAt u = 0 then u\<lparr>tlu_ProposedAt := w_now w\<rparr> else u);
          u = (if tlu_CreatedAt u = 0 then u\<lparr>tlu_CreatedAt := w_now w\<rparr> else u) in
      if tlu_UpdatedAt u = 0 then u\<lparr>tlu_UpdatedAt := w_now w\<rparr> else u)"

definition keep_tool_use_times :: "tool_use \<Rightarrow> tool_use \<Rightarrow> tool_use" where
  "keep_tool_use_times existing u =
     (let u = u\<lparr>tlu_CreatedAt := tlu_CreatedAt existing, tlu_ProposedAt := tlu_ProposedAt existing\<rparr>;
          u = (if tlu_AuthorizedAt u = 0 then u\<lparr>tlu_AuthorizedAt := tlu_AuthorizedAt existing\<rparr> else u);
          u = (if tlu_StartedAt u = 0 then u\<lparr>tlu_StartedAt := tlu_StartedAt existing\<rparr> else u);
          u = (if tlu_CompletedAt u = 0 then u\<lparr>tlu_CompletedAt := tlu_CompletedAt existing\<rparr> else u) in
      if tlu_UpdatedAt u = 0 then u\<lparr>tlu_UpdatedAt := tlu_UpdatedAt existing\<rparr> else u)"

definition stamp_tool_use :: "world \<Rightarrow> tool_use \<Rightarrow> tool_use \<Rightarrow> tool_use" where
  "stamp_tool_use w existing u =
     (let now = w_now w;
          u = (if tlu_UpdatedAt u = tlu_UpdatedAt existing then u\<lparr>tlu_UpdatedAt := now\<rparr> else u);
          u = (if tlu_Status u = ToolUseStatusAuthorized \<and> tlu_AuthorizedAt u = 0
               then u\<lparr>tlu_AuthorizedAt := now\<rparr> else u);
          u = (if tlu_Status u = ToolUseStatusStarted \<and> tlu_StartedAt u = 0 then u\<lparr>tlu_StartedAt := now\<rparr> else u) in
      if isToolUseTerminal (tlu_Status u) \<and> tlu_CompletedAt u = 0 then u\<lparr>tlu_CompletedAt := now\<rparr> else u)"

text \<open>
  \<^verbatim>\<open>sameToolUseMemory\<close> compares every field but \<^verbatim>\<open>ID\<close>, which are equal where it is called, so it is
  equality of the two records up to the identifier.
\<close>

definition sameToolUse :: "tool_use \<Rightarrow> tool_use \<Rightarrow> bool" where
  "sameToolUse a b \<longleftrightarrow> sameToolUseIdentity a b \<and> tlu_Status a = tlu_Status b
     \<and> tlu_InputJSON a = tlu_InputJSON b \<and> tlu_Output a = tlu_Output b
     \<and> tlu_StructuredJSON a = tlu_StructuredJSON b \<and> tlu_MetadataJSON a = tlu_MetadataJSON b
     \<and> tlu_ErrorType a = tlu_ErrorType b \<and> tlu_ErrorMessage a = tlu_ErrorMessage b
     \<and> tlu_ProposedAt a = tlu_ProposedAt b \<and> tlu_AuthorizedAt a = tlu_AuthorizedAt b
     \<and> tlu_StartedAt a = tlu_StartedAt b \<and> tlu_CompletedAt a = tlu_CompletedAt b
     \<and> tlu_CreatedAt a = tlu_CreatedAt b \<and> tlu_UpdatedAt a = tlu_UpdatedAt b"

definition save_tool_use :: "lib \<Rightarrow> string \<Rightarrow> tool_use \<Rightarrow> store \<Rightarrow> unit outcome" where
  "save_tool_use L eid u s =
     attempt s (appendToolUseAggregateLocked L eid u s) (\<lambda>s'. (Inr (), put_tool_use u s'))"

definition SaveToolUse :: "lib \<Rightarrow> world \<Rightarrow> tool_use \<Rightarrow> store \<Rightarrow> unit outcome" where
  "SaveToolUse L w u s =
     (let u = (if tlu_ID u = '''' then u\<lparr>tlu_ID := NewID w PrefixToolUse 0\<rparr> else u) in
      case map_of (st_toolUses s) (tlu_ID u) of
        None \<Rightarrow>
          attempt s (lookup ErrSessionNotFound (st_sessions s) (tlu_SessionID u)) (\<lambda>_.
          attempt s (check (tlu_Status u = ToolUseStatusProposed) ErrToolUseInvalidTransition) (\<lambda>_.
          attempt s (check (tlu_RunID u = '''' \<or> (case map_of (st_runs s) (tlu_RunID u) of
                None \<Rightarrow> False | Some run \<Rightarrow> run_SessionID run = tlu_SessionID u))
            (Errorf ''session run does not belong to session'')) (\<lambda>_.
          attempt s (check (tlu_RunID u = '''' \<or> (\<forall>x \<in> set (vals (st_toolUses s)).
              \<not> (tlu_RunID x = tlu_RunID u \<and> tlu_Step x = tlu_Step u \<and> tlu_Ordinal x = tlu_Ordinal u)))
            ErrToolUseIdentityConflict) (\<lambda>_.
          save_tool_use L (NewID w PrefixEvent 1) (default_tool_use w u) s))))
      | Some existing \<Rightarrow>
          attempt s (check (sameToolUseIdentity existing u) ErrToolUseIdentityConflict) (\<lambda>_.
          let u = keep_tool_use_times existing u in
          if tlu_Status u = tlu_Status existing then
            attempt s (check (sameToolUse existing u) ErrToolUseInvalidTransition) (\<lambda>_. (Inr (), s))
          else
            attempt s (check (legalToolUseTransition (tlu_Status existing) (tlu_Status u))
              ErrToolUseInvalidTransition) (\<lambda>_.
            attempt s (check (tlu_Status u = ToolUseStatusAuthorized \<or> tlu_InputJSON existing = tlu_InputJSON u)
              ErrToolUseInvalidTransition) (\<lambda>_.
            save_tool_use L (NewID w PrefixEvent 1) (stamp_tool_use w existing u) s))))"

definition ListToolUses :: "string \<Rightarrow> store \<Rightarrow> tool_use list res" where
  "ListToolUses sid s =
     bindE (lookup ErrSessionNotFound (st_sessions s) sid) (\<lambda>_.
       Inr (sort_key (\<lambda>u. (tlu_ProposedAt u, tlu_Step u, tlu_Ordinal u, tlu_ID u))
         (filter (\<lambda>u. tlu_SessionID u = sid) (vals (st_toolUses s)))))"

definition active_tool_use :: "tool_use \<Rightarrow> bool" where
  "active_tool_use u \<longleftrightarrow> tlu_Status u = ToolUseStatusProposed \<or> tlu_Status u = ToolUseStatusAuthorized
     \<or> tlu_Status u = ToolUseStatusStarted"

definition interrupted_use :: "world \<Rightarrow> tool_use \<Rightarrow> tool_use" where
  "interrupted_use w u = u\<lparr>tlu_Status := ToolUseStatusInterrupted, tlu_ErrorType := ''process_interrupted'',
     tlu_ErrorMessage := ''tool use interrupted because the process stopped'',
     tlu_CompletedAt := w_now w, tlu_UpdatedAt := w_now w\<rparr>"

fun interrupt_uses_loop :: "lib \<Rightarrow> world \<Rightarrow> nat \<Rightarrow> tool_use list \<Rightarrow> store \<Rightarrow> unit outcome" where
  \<comment> \<open>the loop over the table; an error leaves the uses before it interrupted\<close>
  "interrupt_uses_loop L w n [] s = (Inr (), s)"
| "interrupt_uses_loop L w n (u # us) s =
     (if active_tool_use u
      then attempt s (appendToolUseAggregateLocked L (NewID w PrefixEvent n) (interrupted_use w u) s) (\<lambda>s'.
        interrupt_uses_loop L w (n + 1) us (put_tool_use (interrupted_use w u) s'))
      else interrupt_uses_loop L w n us s)"

definition InterruptActiveToolUses :: "lib \<Rightarrow> world \<Rightarrow> store \<Rightarrow> unit outcome" where
  "InterruptActiveToolUses L w s = interrupt_uses_loop L w 0 (vals (st_toolUses s)) s"

section \<open>Permission requests\<close>

record request_transition =
  \<comment> \<open>\<open>None\<close> is the zero event\<close>
  qtr_Request :: permission_request
  qtr_Event :: "session_event option"
  qtr_Changed :: bool

definition samePendingPermissionRequest :: "permission_request \<Rightarrow> permission_request \<Rightarrow> bool" where
  "samePendingPermissionRequest a b \<longleftrightarrow> prq_SessionID a = prq_SessionID b \<and> prq_RunID a = prq_RunID b
     \<and> prq_ToolUseID a = prq_ToolUseID b \<and> prq_CallID a = prq_CallID b \<and> prq_Action a = prq_Action b
     \<and> prq_Status a = PermissionRequestStatusPending \<and> prq_Status b = PermissionRequestStatusPending
     \<and> prq_Resources a = prq_Resources b"

definition newPermissionEventLocked ::
    "lib \<Rightarrow> string \<Rightarrow> permission_request \<Rightarrow> string \<Rightarrow> time \<Rightarrow> store \<Rightarrow> session_event" where
  "newPermissionEventLocked L eid r typ now s =
     new_session_event s eid (prq_SessionID r) typ now (enc_permission_request L r)"

definition permissionRequestAggregateLocked ::
    "lib \<Rightarrow> string \<Rightarrow> session \<Rightarrow> aggregate_event list \<Rightarrow> permission_request \<Rightarrow> bool \<Rightarrow> (aggregate_event \<times> session) res" where
  "permissionRequestAggregateLocked L eid session hist r resolved =
     bindE (if resolved then NewSessionPermissionResolutionEvent L eid r
            else NewSessionPermissionRequestEvent L eid r) (\<lambda>e.
       project_next L session hist (e\<lparr>agg_ClientID := ses_ClientID session\<rparr>))"

definition permissionGrantAggregateLocked ::
    "lib \<Rightarrow> string \<Rightarrow> session \<Rightarrow> aggregate_event list \<Rightarrow> permission_grant \<Rightarrow> (aggregate_event \<times> session) res" where
  "permissionGrantAggregateLocked L eid session hist g =
     bindE (NewSessionPermissionGrantCreatedEvent L eid g) (\<lambda>e.
       project_next L session hist (e\<lparr>agg_ClientID := ses_ClientID session\<rparr>))"

definition put_request :: "permission_request \<Rightarrow> store \<Rightarrow> store" where
  "put_request r s = s\<lparr>st_permissionRequests := AList.update (prq_ID r) r (st_permissionRequests s)\<rparr>"

definition put_event :: "session_event \<Rightarrow> store \<Rightarrow> store" where
  "put_event e s = s\<lparr>st_events := AList.update (evt_ID e) e (st_events s)\<rparr>"

definition record_request :: "lib \<Rightarrow> world \<Rightarrow> session \<Rightarrow> permission_request \<Rightarrow> store \<Rightarrow> request_transition outcome" where
  \<comment> \<open>the tail of \<^verbatim>\<open>CreatePermissionRequest\<close> for a request that is new\<close>
  "record_request L w session r s =
     (let now = w_now w;
          r = r\<lparr>prq_CreatedAt := now, prq_UpdatedAt := now\<rparr>;
          event = copySessionEvent
            (newPermissionEventLocked L (NewID w PrefixEvent 1) r ''session.permission.requested'' now s) in
      attempt s (permissionRequestAggregateLocked L (NewID w PrefixEvent 2) session
          (history s (session_ref (prq_SessionID r))) r False) (\<lambda>(e, projected).
        (Inr \<lparr>qtr_Request = r, qtr_Event = Some event, qtr_Changed = True\<rparr>,
         put_event event (commit e projected (put_request r s)))))"

definition CreatePermissionRequest ::
    "lib \<Rightarrow> world \<Rightarrow> permission_request \<Rightarrow> store \<Rightarrow> request_transition outcome" where
  "CreatePermissionRequest L w r s =
     (let conflict = PermissionRequestTransitionConflict (prq_SessionID r) (prq_ID r);
          r = (if prq_Status r = '''' then r\<lparr>prq_Status := PermissionRequestStatusPending\<rparr> else r) in
      attempt s (check (prq_Status r = PermissionRequestStatusPending \<and> prq_Action r \<noteq> '''' \<and> prq_Resources r \<noteq> [])
        conflict) (\<lambda>_.
      attempt s (lookup ErrSessionNotFound (st_sessions s) (prq_SessionID r)) (\<lambda>session.
      attempt s (check (prq_RunID r = '''' \<or> (case map_of (st_runs s) (prq_RunID r) of
            None \<Rightarrow> False | Some run \<Rightarrow> run_SessionID run = prq_SessionID r))
        (Errorf ''session run does not belong to session'')) (\<lambda>_.
      attempt s (if prq_ToolUseID r = '''' then Inr () else case map_of (st_toolUses s) (prq_ToolUseID r) of
            None \<Rightarrow> Inl (Errorf ''tool use does not belong to session'')
          | Some use \<Rightarrow>
              if tlu_SessionID use \<noteq> prq_SessionID r then Inl (Errorf ''tool use does not belong to session'')
              else if prq_RunID r \<noteq> '''' \<and> tlu_RunID use \<noteq> prq_RunID r
              then Inl (Errorf ''tool use does not belong to run'')
              else if prq_CallID r \<noteq> '''' \<and> tlu_CallID use \<noteq> '''' \<and> tlu_CallID use \<noteq> prq_CallID r
              then Inl (Errorf ''tool use does not belong to call'') else Inr ()) (\<lambda>_.
      attempt s (check ('''' \<notin> set (prq_Resources r)) conflict) (\<lambda>_.
      let r = (if prq_ID r = '''' then r\<lparr>prq_ID := NewID w PrefixPermissionRequest 0\<rparr> else r) in
      case map_of (st_permissionRequests s) (prq_ID r) of
        Some existing \<Rightarrow>
          if samePendingPermissionRequest existing r
          then (Inr \<lparr>qtr_Request = existing, qtr_Event = None, qtr_Changed = False\<rparr>, s)
          else (Inl (PermissionRequestTransitionConflict (prq_SessionID r) (prq_ID r)), s)
      | None \<Rightarrow> record_request L w session r s))))))"

definition GetPermissionRequest :: "string \<Rightarrow> string \<Rightarrow> store \<Rightarrow> permission_request res" where
  "GetPermissionRequest sid i s =
     bindE (lookup ErrSessionNotFound (st_sessions s) sid) (\<lambda>_.
     bindE (lookup (PermissionRequestNotFound sid i) (st_permissionRequests s) i) (\<lambda>r.
     bindE (check (prq_SessionID r = sid) (PermissionRequestNotFound sid i)) (\<lambda>_. Inr r)))"

definition ListPermissionRequests :: "string \<Rightarrow> store \<Rightarrow> permission_request list res" where
  "ListPermissionRequests sid s =
     bindE (lookup ErrSessionNotFound (st_sessions s) sid) (\<lambda>_.
       Inr (sort_key (\<lambda>r. (prq_CreatedAt r, prq_ID r))
         (filter (\<lambda>r. prq_SessionID r = sid) (vals (st_permissionRequests s)))))"

definition ListPermissionGrants :: "string \<Rightarrow> store \<Rightarrow> permission_grant list res" where
  "ListPermissionGrants sid s =
     bindE (lookup ErrSessionNotFound (st_sessions s) sid) (\<lambda>_.
       Inr (sort_key (\<lambda>g. (pgr_CreatedAt g, pgr_ID g))
         (filter (\<lambda>g. pgr_SessionID g = sid) (vals (st_permissionGrants s)))))"

text \<open>
  The loop over the resources of an \<^verbatim>\<open>always\<close> response.  Its state is the projected session, the
  history, the events and the grants collected so far.
\<close>

type_synonym grant_state = "session \<times> aggregate_event list \<times> aggregate_event list \<times> permission_grant list"

definition grant_resource ::
    "lib \<Rightarrow> world \<Rightarrow> permission_request \<Rightarrow> permission_grant list \<Rightarrow> grant_state \<Rightarrow> string \<Rightarrow> grant_state res" where
  "grant_resource L w r existing = (\<lambda>(projected, hist, events, grants) resource.
     if \<exists>g \<in> set existing. pgr_SessionID g = prq_SessionID r \<and> pgr_Action g = prq_Action r \<and> pgr_Resource g = resource
     then Inr (projected, hist, events, grants)
     else
       let g = \<lparr>pgr_ID = NewID w PrefixPermissionGrant (length grants), pgr_SessionID = prq_SessionID r,
             pgr_Action = prq_Action r, pgr_Resource = resource, pgr_CreatedAt = w_now w\<rparr> in
       bindE (permissionGrantAggregateLocked L (NewID w PrefixEvent (2 + length grants)) projected hist g)
         (\<lambda>(e, nxt). Inr (nxt, hist @ [e], events @ [e], grants @ [g])))"

definition resolved_request :: "world \<Rightarrow> permission_resolution \<Rightarrow> permission_request \<Rightarrow> permission_request" where
  "resolved_request w rs r = r\<lparr>prq_Status := rsl_Status rs, prq_Response := rsl_Response rs,
     prq_ErrorType := rsl_ErrorType rs, prq_ErrorMessage := rsl_ErrorMessage rs,
     prq_ResolvedAt := w_now w, prq_UpdatedAt := w_now w\<rparr>"

definition record_resolution ::
    "lib \<Rightarrow> world \<Rightarrow> session \<Rightarrow> permission_request \<Rightarrow> store \<Rightarrow> request_transition outcome" where
  \<comment> \<open>the tail of \<^verbatim>\<open>ResolvePermissionRequest\<close>, \<open>r\<close> the request as resolved\<close>
  "record_resolution L w session r s =
     (let event = copySessionEvent
            (newPermissionEventLocked L (NewID w PrefixEvent 0) r ''session.permission.resolved'' (w_now w) s);
          hist = history s (session_ref (prq_SessionID r)) in
      attempt s (permissionRequestAggregateLocked L (NewID w PrefixEvent 1) session hist r True) (\<lambda>(e, projected).
      attempt s (if prq_Response r = PermissionResponseAlways
          then foldE (grant_resource L w r (vals (st_permissionGrants s)))
            (projected, hist @ [e], [e], []) (prq_Resources r)
          else Inr (projected, hist @ [e], [e], [])) (\<lambda>(projected, hist, events, grants).
        let s = fold (\<lambda>e. commit e projected) events s;
            s = s\<lparr>st_permissionGrants := put_all pgr_ID grants (st_permissionGrants s)\<rparr> in
        (Inr \<lparr>qtr_Request = r, qtr_Event = Some event, qtr_Changed = True\<rparr>,
         put_event event (put_request r s)))))"

definition ResolvePermissionRequest ::
    "lib \<Rightarrow> world \<Rightarrow> permission_resolution \<Rightarrow> store \<Rightarrow> request_transition outcome" where
  "ResolvePermissionRequest L w rs s =
     (let sid = rsl_SessionID rs;
          conflict = PermissionRequestTransitionConflict sid (rsl_RequestID rs);
          missing = PermissionRequestNotFound sid (rsl_RequestID rs);
          expected = (if rsl_ExpectedStatus rs = '''' then PermissionRequestStatusPending else rsl_ExpectedStatus rs) in
      attempt s (check (expected = PermissionRequestStatusPending
        \<and> legalPermissionResolution (rsl_Status rs) (rsl_Response rs)) conflict) (\<lambda>_.
      attempt s (lookup ErrSessionNotFound (st_sessions s) sid) (\<lambda>session.
      attempt s (lookup missing (st_permissionRequests s) (rsl_RequestID rs)) (\<lambda>r.
      attempt s (check (prq_SessionID r = sid) missing) (\<lambda>_.
      if prq_Status r \<noteq> PermissionRequestStatusPending then
        (if prq_Status r = rsl_Status rs \<and> prq_Response r = rsl_Response rs \<and> prq_ErrorType r = rsl_ErrorType rs
            \<and> prq_ErrorMessage r = rsl_ErrorMessage rs
         then (Inr \<lparr>qtr_Request = r, qtr_Event = None, qtr_Changed = False\<rparr>, s)
         else (Inl conflict, s))
      else record_resolution L w session (resolved_request w rs r) s)))))"

section \<open>Interrupting pending requests\<close>

definition interrupted_request :: "world \<Rightarrow> permission_request \<Rightarrow> permission_request" where
  "interrupted_request w r = r\<lparr>prq_Status := PermissionRequestStatusInterrupted,
     prq_ErrorType := ''process_interrupted'',
     prq_ErrorMessage := ''permission request interrupted because the process stopped'',
     prq_ResolvedAt := w_now w, prq_UpdatedAt := w_now w\<rparr>"

type_synonym pending_request = "permission_request \<times> session_event \<times> aggregate_event \<times> session"

definition prepare_interruption ::
    "lib \<Rightarrow> world \<Rightarrow> store \<Rightarrow> pending_state \<times> pending_request list \<Rightarrow> permission_request
       \<Rightarrow> (pending_state \<times> pending_request list) res" where
  "prepare_interruption L w s = (\<lambda>((evs, sessions), pending) r.
     let ref = session_ref (prq_SessionID r);
         event = newPermissionEventLocked L (NewID w PrefixEvent (2 * length pending)) r
           ''session.permission.resolved'' (w_now w) s in
     bindE (pending_session s sessions (prq_SessionID r)) (\<lambda>session.
     let hist = pending_history s evs ref in
     bindE (permissionRequestAggregateLocked L (NewID w PrefixEvent (2 * length pending + 1)) session hist r True)
       (\<lambda>(e, projected). Inr ((AList.update ref (hist @ [e]) evs,
          AList.update (prq_SessionID r) projected sessions), pending @ [(r, event, e, projected)]))))"

definition commit_interruption :: "pending_request \<Rightarrow> store \<Rightarrow> store" where
  "commit_interruption = (\<lambda>(r, event, e, projected) s.
     put_event (copySessionEvent event) (put_request r (commit e projected s)))"

definition InterruptPendingPermissionRequests ::
    "lib \<Rightarrow> world \<Rightarrow> store \<Rightarrow> request_transition list outcome" where
  "InterruptPendingPermissionRequests L w s =
     attempt s (foldE (prepare_interruption L w s) (([], []), [])
       (map (interrupted_request w) (sort_key (\<lambda>r. (prq_CreatedAt r, prq_ID r))
         (filter (\<lambda>r. prq_Status r = PermissionRequestStatusPending) (vals (st_permissionRequests s))))))
     (\<lambda>(_, pending).
       (Inr (map (\<lambda>(r, event, _). \<lparr>qtr_Request = r, qtr_Event = Some (copySessionEvent event),
          qtr_Changed = True\<rparr>) pending),
        fold commit_interruption pending s))"

end
