(* ===== verification/Session_Recorders.thy ===== *)
theory Session_Recorders
  imports Agent_Run Memory_Tools
begin

text \<open>
  The recorders of \<^verbatim>\<open>agent/session/persist.go\<close>: the callbacks by which a run records its tool uses and
  model calls in the store.  Floating-point results are rounded by a function \<open>rnd\<close> from rational
  numbers; the logger is left out.
\<close>

section \<open>Tool uses\<close>

record recorder =
  rec_SessionID :: string
  rec_RunID :: string

definition toolUseRecord :: "recorder \<Rightarrow> 'a use_info_scheme \<Rightarrow> tool_use" where
  "toolUseRecord r i =
     \<lparr>tlu_ID = '''', tlu_SessionID = rec_SessionID r, tlu_RunID = rec_RunID r, tlu_ModelCallID = use_ModelCallID i,
      tlu_AssistantMessageID = use_MessageID i, tlu_PartID = use_PartID i, tlu_Step = use_Step i, tlu_Ordinal = use_Ordinal i,
      tlu_CallID = use_CallID i, tlu_Name = use_Name i, tlu_Status = '''', tlu_InputJSON = [], tlu_Output = '''',
      tlu_StructuredJSON = [], tlu_MetadataJSON = [], tlu_ErrorType = '''', tlu_ErrorMessage = '''', tlu_ProposedAt = 0,
      tlu_AuthorizedAt = 0, tlu_StartedAt = 0, tlu_CompletedAt = 0, tlu_CreatedAt = 0, tlu_UpdatedAt = 0\<rparr>"

definition input_text :: "lib \<Rightarrow> members \<Rightarrow> bytes" where
  \<comment> \<open>\<^verbatim>\<open>json.Marshal\<close> of the arguments\<close>
  "input_text L args = json_text L (JObj args)"

definition ToolUseRecorder_Propose :: "lib \<Rightarrow> world \<Rightarrow> recorder \<Rightarrow> use_info \<Rightarrow> store \<Rightarrow> string outcome" where
  "ToolUseRecorder_Propose L w r i s =
     (let u = (toolUseRecord r i)\<lparr>tlu_ID := NewID w PrefixToolUse 0, tlu_Status := ToolUseStatusProposed,
            tlu_InputJSON := input_text L (use_Args i), tlu_ProposedAt := use_At i\<rparr> in
      case SaveToolUse L w u s of
        (Inl e, s) \<Rightarrow> (Inl e, s)
      | (Inr _, s) \<Rightarrow> (Inr (tlu_ID u), s))"

definition ToolUseRecorder_Authorize :: "lib \<Rightarrow> world \<Rightarrow> recorder \<Rightarrow> use_info \<Rightarrow> store \<Rightarrow> unit outcome" where
  "ToolUseRecorder_Authorize L w r i s =
     SaveToolUse L w ((toolUseRecord r i)\<lparr>tlu_ID := use_ToolUseID i, tlu_Status := ToolUseStatusAuthorized,
       tlu_InputJSON := input_text L (use_Args i), tlu_AuthorizedAt := use_At i\<rparr>) s"

definition ToolUseRecorder_Start :: "lib \<Rightarrow> world \<Rightarrow> recorder \<Rightarrow> use_info \<Rightarrow> store \<Rightarrow> unit outcome" where
  "ToolUseRecorder_Start L w r i s =
     SaveToolUse L w ((toolUseRecord r i)\<lparr>tlu_ID := use_ToolUseID i, tlu_Status := ToolUseStatusStarted,
       tlu_InputJSON := input_text L (use_Args i), tlu_StartedAt := use_At i\<rparr>) s"

definition storeToolUseStatus :: "string \<Rightarrow> string" where
  "storeToolUseStatus status =
     (if status = ToolUseCompleted then ToolUseStatusCompleted
      else if status = ToolUseFailed then ToolUseStatusFailed
      else if status = ToolUseInterrupted then ToolUseStatusInterrupted
      else if status = ToolUseDeclined then ToolUseStatusDeclined
      else status)"

definition meta_json :: "meta \<Rightarrow> json" where
  "meta_json m = (case m of None \<Rightarrow> JNull | Some ms \<Rightarrow> JObj ms)"

definition finished_use :: "lib \<Rightarrow> recorder \<Rightarrow> finish_info \<Rightarrow> tool_use" where
  "finished_use L r i =
     (let res = fin_ToolResult i in
      (toolUseRecord r i)\<lparr>tlu_ID := use_ToolUseID i, tlu_Status := storeToolUseStatus (fin_Status i),
        tlu_InputJSON := input_text L (use_Args i), tlu_Output := trs_Output res,
        tlu_StructuredJSON := json_text L (trs_Structured res), tlu_MetadataJSON := json_text L (meta_json (trs_Metadata res)),
        tlu_ErrorType := fin_ErrorType i,
        tlu_ErrorMessage := (if fin_ErrorMessage i = '''' then (case fin_Failure i of Some f \<Rightarrow> err_text f | None \<Rightarrow> '''')
          else fin_ErrorMessage i),
        tlu_ProposedAt := fin_ProposedAt i, tlu_AuthorizedAt := fin_AuthorizedAt i, tlu_StartedAt := fin_StartedAt i,
        tlu_CompletedAt := use_At i\<rparr>)"

definition ToolUseRecorder_Finish :: "lib \<Rightarrow> world \<Rightarrow> recorder \<Rightarrow> finish_info \<Rightarrow> store \<Rightarrow> unit outcome" where
  "ToolUseRecorder_Finish L w r i s = SaveToolUse L w (finished_use L r i) s"

section \<open>Model calls\<close>

type_synonym rounding = "rat \<Rightarrow> float64"

fun float_op :: "rounding \<Rightarrow> (rat \<Rightarrow> rat \<Rightarrow> rat) \<Rightarrow> float64 \<Rightarrow> float64 \<Rightarrow> float64" where
  "float_op rnd f (Finite a) (Finite b) = rnd (f a b)"
| "float_op rnd f _ _ = NonFinite"

definition ContextPercent :: "rounding \<Rightarrow> usage \<Rightarrow> int \<Rightarrow> float64" where
  "ContextPercent rnd u window =
     (if window \<le> 0 then Finite 0
      else float_op rnd (*) (float_op rnd (/) (rnd (of_int (ContextTokens u))) (rnd (of_int window))) (Finite 100))"

record model_info =
  inf_ContextWindow :: int
  inf_InputCostPerMTok :: float64
  inf_OutputCostPerMTok :: float64

definition token_cost :: "rounding \<Rightarrow> int \<Rightarrow> float64 \<Rightarrow> float64" where
  "token_cost rnd tokens price = float_op rnd (*) (float_op rnd (/) (rnd (of_int tokens)) (Finite 1000000)) price"

definition estimatedCost :: "rounding \<Rightarrow> usage \<Rightarrow> model_info \<Rightarrow> float64 option" where
  "estimatedCost rnd u info =
     (if UsageEmpty u \<or> inf_InputCostPerMTok info = Finite 0 \<and> inf_OutputCostPerMTok info = Finite 0 then None
      else Some (float_op rnd (+) (token_cost rnd (usg_InputTokens u) (inf_InputCostPerMTok info))
        (token_cost rnd (usg_OutputTokens u) (inf_OutputCostPerMTok info))))"

definition enc_model_ref :: "model_ref \<Rightarrow> json" where
  "enc_model_ref m = JObj (members
     [(''provider'', omit_str (mrf_Provider m)), (''id'', omit_str (mrf_ID m)), (''api'', omit_str (mrf_API m)),
      (''base_url'', omit_str (mrf_BaseURL m)), (''env'', omit_strs (mrf_Env m)),
      (''context_window'', omit_num (mrf_ContextWindow m)), (''max_output'', omit_num (mrf_MaxOutput m)),
      (''capabilities'', Some (let c = mrf_Capabilities m in JObj
        [(''tools'', JBool (cap_Tools c)), (''images'', JBool (cap_Images c)), (''reasoning'', JBool (cap_Reasoning c)),
         (''structured_output'', JBool (cap_StructuredOutput c))]))])"

definition enc_counts :: "(string, int) gomap \<Rightarrow> json" where
  "enc_counts m = JObj (map (\<lambda>(k, n). (k, jnum n)) (sort_key fst m))"

definition enc_call_trace :: "call_trace \<Rightarrow> json" where
  "enc_call_trace t = JObj (members
     [(''version'', Some (JStr (ctr_Version t))), (''model'', Some (enc_model_ref (ctr_Model t))),
      (''api'', Some (JStr (ctr_API t))), (''provider'', Some (JStr (ctr_Provider t))),
      (''capabilities'', Some (JObj (if ctr_Thinking t then [(''thinking'', JBool True)] else []))),
      (''runtime'', Some (JObj [(''current_date'', JBool (ctr_CurrentDate t))])),
      (''tools'', if ctr_Tools t = [] then None else Some (JArr (map (\<lambda>x. JObj
        [(''name'', JStr (ttr_Name x)), (''schema_hash'', JStr (ttr_SchemaHash x)),
         (''schema_bytes'', jnum (int (ttr_SchemaBytes x)))]) (ctr_Tools t)))),
      (''messages'', Some (JObj [(''count'', jnum (int (ctr_Count t))), (''by_role'', enc_counts (ctr_ByRole t)),
        (''part_kinds'', enc_counts (ctr_PartKinds t))])),
      (''system'', Some (JObj [(''sha256'', JStr (ctr_SystemSHA256 t)), (''bytes'', jnum (int (ctr_SystemBytes t)))])),
      (''lowered'', Some (JObj (if ctr_ReasoningSummaryAuto t then [(''reasoning_summary_auto'', JBool True)] else [])))])"

record call_recorder = recorder +
  rec_AgentID :: string
  rec_Model :: model_ref
  rec_ModelInfo :: model_info

definition call_outcome :: "failure option \<Rightarrow> string \<times> string \<times> string" where
  \<comment> \<open>status, error type and error message of a call\<close>
  "call_outcome f =
     (case f of
        None \<Rightarrow> (ModelCallStatusCompleted, '''', '''')
      | Some e \<Rightarrow>
          if is_canceled e \<or> is_deadline e
          then (ModelCallStatusAborted, if is_deadline e then ''deadline_exceeded'' else ''canceled'', err_text e)
          else (ModelCallStatusFailed, case as_provider_error e of Some p \<Rightarrow> pve_Category p | None \<Rightarrow> ''model_error'', err_text e))"

definition modelCallRecord :: "lib \<Rightarrow> rounding \<Rightarrow> world \<Rightarrow> call_recorder \<Rightarrow> turn \<Rightarrow> model_call" where
  "modelCallRecord L rnd w r t =
     (let m = trn_Assistant t; model = rec_Model r; window = inf_ContextWindow (rec_ModelInfo r);
          usage = (if UsageEmpty (trn_Usage t) then (case mes_Usage m of Some u \<Rightarrow> u | None \<Rightarrow> trn_Usage t) else trn_Usage t);
          (status, errorType, errorMessage) = call_outcome (trn_Failure t);
          (provider, api, modelID) = (case mes_Origin m of
            Some g \<Rightarrow> (org_Provider g, org_API g, org_ModelID g) | None \<Rightarrow> (mrf_Provider model, mrf_API model, mrf_ID model));
          trace = (case trn_Trace t of Some c \<Rightarrow> if ctr_Version c \<noteq> '''' then json_text L (enc_call_trace c) else [] | None \<Rightarrow> []) in
      \<lparr>mcl_ID = trn_ModelCallID t, mcl_SessionID = rec_SessionID r, mcl_RunID = rec_RunID r, mcl_AssistantMessageID = '''',
       mcl_Step = trn_Step t, mcl_Attempt = (if trn_Attempt t = 0 then 1 else int (trn_Attempt t)), mcl_Status = status,
       mcl_AgentID = rec_AgentID r, mcl_ModelRef = ModelRef_Ref model, mcl_Provider = provider,
       mcl_ProviderRequestID = trn_ProviderRequestID t, mcl_API = api, mcl_ModelID = modelID,
       mcl_FinishReason = mes_FinishReason m, mcl_StopReason = '''', mcl_ErrorType = errorType, mcl_ErrorMessage = errorMessage,
       mcl_InputTokens = usg_InputTokens usage, mcl_OutputTokens = usg_OutputTokens usage,
       mcl_ReasoningTokens = usg_ReasoningTokens usage, mcl_CachedInputTokens = usg_CachedInputTokens usage,
       mcl_CacheWriteTokens = usg_CacheWriteTokens usage, mcl_TotalTokens = TotalOrComputed usage,
       mcl_ContextTokens = ContextTokens usage, mcl_ContextWindow = window, mcl_ContextPercent = ContextPercent rnd usage window,
       mcl_Cost = estimatedCost rnd usage (rec_ModelInfo r), mcl_StructuredOutputJSON = [], mcl_MetadataJSON = trace,
       mcl_Trace = trace, mcl_StartedAt = trn_StartedAt t, mcl_CompletedAt = trn_CompletedAt t, mcl_CreatedAt = w_now w,
       mcl_UpdatedAt = w_now w\<rparr>)"

definition ModelCallRecorder_Start :: "lib \<Rightarrow> rounding \<Rightarrow> world \<Rightarrow> call_recorder \<Rightarrow> call_start_info \<Rightarrow> store \<Rightarrow> string outcome" where
  "ModelCallRecorder_Start L rnd w r i s =
     (let call = (modelCallRecord L rnd w r (no_turn\<lparr>trn_ModelCallID := NewID w PrefixModelCall 0, trn_Step := csi_Step i,
            trn_Attempt := csi_Attempt i, trn_StartedAt := csi_StartedAt i, trn_Trace := csi_Trace i\<rparr>))
            \<lparr>mcl_Status := ModelCallStatusStarted, mcl_AssistantMessageID := csi_MessageID i\<rparr> in
      case UpsertModelCall L w call s of
        (Inl e, s) \<Rightarrow> (Inl e, s)
      | (Inr _, s) \<Rightarrow> (Inr (mcl_ID call), s))"

definition ModelCallRecorder_Finish :: "lib \<Rightarrow> rounding \<Rightarrow> world \<Rightarrow> call_recorder \<Rightarrow> call_finish_info \<Rightarrow> store \<Rightarrow> unit outcome" where
  "ModelCallRecorder_Finish L rnd w r i s =
     (let t = no_turn\<lparr>trn_ModelCallID := cfi_CallID i, trn_Step := cfi_Step i, trn_Attempt := cfi_Attempt i,
            trn_ProviderRequestID := cfi_ProviderRequestID i, trn_Usage := cfi_Usage i, trn_StartedAt := cfi_StartedAt i,
            trn_CompletedAt := cfi_CompletedAt i, trn_Trace := cfi_Trace i, trn_Failure := cfi_Failure i\<rparr>;
          t = (case cfi_Assistant i of Some m \<Rightarrow> t\<lparr>trn_Assistant := m\<rparr> | None \<Rightarrow> t) in
      UpsertModelCall L w (modelCallRecord L rnd w r t) s)"

end
