(* ===== verification/Session_Views.thy ===== *)
theory Session_Views
  imports Memory_Tools
begin

text \<open>
  How a live table of the store relates to the stream of one session: the rows the session owns are
  exactly the rows that the pass over its events computes.  The locale \<open>session_view\<close> states what
  each pass promises and proves the relation's laws once; every pass interprets it.
\<close>

section \<open>The rows of a session\<close>

definition own :: "('v \<Rightarrow> string) \<Rightarrow> string \<Rightarrow> ('k, 'v) gomap \<Rightarrow> 'k \<Rightarrow> 'v option" where
  "own owner sid m k = (case map_of m k of None \<Rightarrow> None | Some v \<Rightarrow> if owner v = sid then Some v else None)"

definition keyed :: "('v \<Rightarrow> 'k) \<Rightarrow> ('k, 'v) gomap \<Rightarrow> bool" where
  "keyed key m \<longleftrightarrow> (\<forall>k v. map_of m k = Some v \<longrightarrow> key v = k)"

lemma own_Some: "own owner sid m k = Some v \<longleftrightarrow> map_of m k = Some v \<and> owner v = sid"
  by (auto simp: own_def split: option.splits if_splits)

lemma own_Nil [simp]: "own owner sid [] = Map.empty"
  by (simp add: own_def fun_eq_iff)

lemma own_update_same:
  "owner v = sid \<Longrightarrow> own owner sid (AList.update k v m) = (own owner sid m)(k \<mapsto> v)"
  by (auto simp: own_def fun_eq_iff)

lemma own_update_other:
  "owner v \<noteq> sid \<Longrightarrow> (\<And>u. map_of m k = Some u \<Longrightarrow> owner u \<noteq> sid) \<Longrightarrow>
     own owner sid (AList.update k v m) = own owner sid m"
  by (auto simp: own_def fun_eq_iff split: option.splits)

lemma own_empty: "own owner sid m = Map.empty \<longleftrightarrow> (\<forall>k v. map_of m k = Some v \<longrightarrow> owner v \<noteq> sid)"
  by (auto simp: own_def fun_eq_iff split: option.splits if_splits)

lemma own_del_where_owner:
  "wf_map m \<Longrightarrow> own owner sid (del_where (\<lambda>v. owner v = i) m) = (if sid = i then Map.empty else own owner sid m)"
  by (auto simp: own_def fun_eq_iff map_simps split: option.splits)

lemma keyed_Nil [simp]: "keyed key []"
  by (simp add: keyed_def)

lemma keyed_update [simp]: "key v = k \<Longrightarrow> keyed key m \<Longrightarrow> keyed key (AList.update k v m)"
  by (simp add: keyed_def)

lemma keyed_delete [simp]: "keyed key m \<Longrightarrow> keyed key (AList.delete k m)"
  by (simp add: keyed_def)

lemma keyed_del_where [simp]: "wf_map m \<Longrightarrow> keyed key m \<Longrightarrow> keyed key (del_where p m)"
  by (auto simp: keyed_def map_simps split: option.splits if_splits)

lemma keyed_map_values: "keyed key m \<Longrightarrow> (\<And>v. key (f v) = key v) \<Longrightarrow> keyed key (map_values f m)"
  by (auto simp: keyed_def)

lemma keyed_vals_distinct: "wf_map m \<Longrightarrow> keyed key m \<Longrightarrow> distinct (map key (vals m))"
proof -
  assume wf: "wf_map m" and keyed: "keyed key m"
  have "map key (vals m) = map fst m"
    using wf keyed by (auto simp: vals_def keyed_def wf_map_def)
  then show ?thesis using wf by (simp add: wf_map_def)
qed

lemma keyed_put_all [simp]: "keyed key m \<Longrightarrow> keyed key (put_all key vs m)"
  by (induction vs arbitrary: m) auto

text \<open>Deleting a session's rows and inserting them again gives the table back.\<close>

lemma rebuild_rows:
  assumes m: "wf_map m" and rows: "wf_map rows" "keyed key rows" "map_of rows = own owner sid m"
  shows "map_of (put_all key (sort_key f (vals rows)) (del_where (\<lambda>v. owner v = sid) m)) = map_of m"
proof
  fix k
  have dist: "distinct (map key (sort_key f (vals rows)))"
    using keyed_vals_distinct [OF rows(1,2)] by (simp only: map_sort_key_distinct)
  have find: "List.find (\<lambda>v. key v = k) (sort_key f (vals rows)) = map_of rows k"
  proof (cases "map_of rows k")
    case None
    then have "\<forall>v \<in> set (vals rows). key v \<noteq> k"
      using rows(1,2) by (force simp: map_simps keyed_def)
    then show ?thesis using None by (simp add: find_None_iff)
  next
    case (Some v)
    then have "v \<in> set (vals rows)" "key v = k" using rows(1,2) by (auto simp: map_simps keyed_def)
    then show ?thesis using Some by (simp add: find_distinct_Some [OF dist])
  qed
  show "map_of (put_all key (sort_key f (vals rows)) (del_where (\<lambda>v. owner v = sid) m)) k = map_of m k"
    unfolding map_of_put_all [OF dist] find rows(3)
    using m by (auto simp: own_def map_simps split: option.splits)
qed

section \<open>What a pass promises\<close>

definition view_of :: "('s \<Rightarrow> 'ev \<Rightarrow> 'e + 's) \<Rightarrow> 's \<Rightarrow> ('s \<Rightarrow> ('k, 'v) gomap) \<Rightarrow> ('v \<Rightarrow> string)
    \<Rightarrow> string \<Rightarrow> 'ev list \<Rightarrow> ('k, 'v) gomap \<Rightarrow> bool" where
  "view_of pass start rows owner sid evs m \<longleftrightarrow>
     (\<exists>st. foldE pass start evs = Inr st \<and> map_of (rows st) = own owner sid m)"

locale session_view = history_pass pass relevant
  for pass :: "'s \<Rightarrow> 'ev \<Rightarrow> 'e + 's" and relevant :: "'ev \<Rightarrow> bool" +
  fixes start :: 's
    and rows :: "'s \<Rightarrow> ('k, 'v) gomap"
    and key :: "'v \<Rightarrow> 'k"
    and owner :: "'v \<Rightarrow> string"
    and consistent :: "'s \<Rightarrow> bool"
  assumes start_rows: "rows start = []"
    and start_consistent: "consistent start"
    and pass_consistent: "consistent st \<Longrightarrow> pass st e = Inr st' \<Longrightarrow> consistent st'"
    and consistent_rows: "consistent st \<Longrightarrow> wf_map (rows st) \<and> keyed key (rows st)"
begin

lemma fold_consistent: "foldE pass start evs = Inr st \<Longrightarrow> consistent st"
  by (rule foldE_invariant [of pass start evs st consistent]) (auto simp: start_consistent pass_consistent)

lemma view_start: "own owner sid m = Map.empty \<Longrightarrow> view_of pass start rows owner sid [] m"
  by (simp add: view_of_def start_rows)

lemma view_cong:
  "own owner sid m' = own owner sid m \<Longrightarrow>
     view_of pass start rows owner sid evs m \<Longrightarrow> view_of pass start rows owner sid evs m'"
  by (simp add: view_of_def)

lemma view_irrelevant:
  "\<not> relevant e \<Longrightarrow> view_of pass start rows owner sid evs m \<Longrightarrow> view_of pass start rows owner sid (evs @ [e]) m"
  using pass_snoc_irrelevant by (simp add: view_of_def)

lemma view_snoc:
  assumes "view_of pass start rows owner sid evs m"
    and "\<And>st. consistent st \<Longrightarrow> map_of (rows st) = own owner sid m \<Longrightarrow>
      \<exists>st'. pass st e = Inr st' \<and> map_of (rows st') = own owner sid m'"
  shows "view_of pass start rows owner sid (evs @ [e]) m'"
  using assms fold_consistent unfolding view_of_def by fastforce

lemma view_rebuild:
  assumes "view_of pass start rows owner sid evs m" "wf_map m" "foldE pass start evs = Inr st"
  shows "map_of (put_all key (sort_key f (vals (rows st))) (del_where (\<lambda>v. owner v = sid) m)) = map_of m"
  using assms(1) fold_consistent [OF assms(3)] consistent_rows assms(2,3)
  by (intro rebuild_rows) (auto simp: view_of_def)

lemma view_row:
  assumes "view_of pass start rows owner sid evs m" "map_of m k = Some v" "owner v = sid"
  shows "\<exists>st. foldE pass start evs = Inr st \<and> map_of (rows st) k = Some v"
  using assms by (auto simp: view_of_def own_def)

end

text \<open>An index whose entries point to rows with that field.\<close>

definition indexes :: "('v \<Rightarrow> 'f) \<Rightarrow> ('f, 'k) gomap \<Rightarrow> ('k, 'v) gomap \<Rightarrow> bool" where
  "indexes f idx m \<longleftrightarrow> (\<forall>x k. map_of idx x = Some k \<longrightarrow> (\<exists>v. map_of m k = Some v \<and> f v = x))"

lemma indexes_Nil [simp]: "indexes f [] m"
  by (simp add: indexes_def)

lemma indexes_update:
  assumes "indexes f idx m" "\<And>u. map_of m k = Some u \<Longrightarrow> f u = f v"
  shows "indexes f (AList.update (f v) k idx) (AList.update k v m)"
  unfolding indexes_def
proof (intro allI impI)
  fix x j assume j: "map_of (AList.update (f v) k idx) x = Some j"
  show "\<exists>u. map_of (AList.update k v m) j = Some u \<and> f u = x"
  proof (cases "x = f v")
    case True
    then show ?thesis using j by simp
  next
    case False
    then obtain u where u: "map_of m j = Some u" "f u = x" using j assms(1) by (auto simp: indexes_def)
    then show ?thesis using assms(2) False by (cases "j = k") auto
  qed
qed

lemma indexes_keep:
  assumes "indexes f idx m" "\<And>u. map_of m k = Some u \<Longrightarrow> f u = f v"
  shows "indexes f idx (AList.update k v m)"
  unfolding indexes_def
proof (intro allI impI)
  fix x j assume "map_of idx x = Some j"
  then obtain u where u: "map_of m j = Some u" "f u = x" using assms(1) unfolding indexes_def by blast
  show "\<exists>u. map_of (AList.update k v m) j = Some u \<and> f u = x"
    using u assms(2) by (cases "j = k") auto
qed

lemma index_row:
  "indexes f idx m \<Longrightarrow> map_of idx (f v) \<noteq> None \<Longrightarrow> \<exists>k u. map_of idx (f v) = Some k \<and> map_of m k = Some u \<and> f u = f v"
  unfolding indexes_def by blast

section \<open>The passes\<close>

definition runs_consistent :: "(string, session_run) gomap \<Rightarrow> bool" where
  "runs_consistent m \<longleftrightarrow> wf_map m \<and> keyed run_ID m"

interpretation runs_view: session_view "runs_step L" "\<lambda>e. agg_Type e \<in> set run_event_types" "[]" "\<lambda>m. m"
  run_ID run_SessionID runs_consistent for L :: lib
  by unfold_locales (auto simp: runs_consistent_def runs_step_def res_simps split: if_splits option.splits)

definition calls_consistent :: "calls_state \<Rightarrow> bool" where
  "calls_consistent st \<longleftrightarrow> wf_map (fst st) \<and> keyed mcl_ID (fst st) \<and> indexes attempt_key (snd st) (fst st)"

lemma calls_step_consistent:
  assumes "calls_consistent st" "calls_step L st e = Inr st'" shows "calls_consistent st'"
proof -
  obtain calls attempts where st: "st = (calls, attempts)" by fastforce
  show ?thesis
  proof (cases "agg_Type e = EventSessionModelCallSaved")
    case True
    then obtain c where c: "ProjectSessionModelCallSaved L e = Inr c"
      using assms(2) by (auto simp: st calls_step_def res_simps)
    have ok: "\<And>old. map_of calls (mcl_ID c) = Some old \<Longrightarrow> attempt_key old = attempt_key c"
      and st': "st' = (AList.update (mcl_ID c) c calls, attempts)
        \<or> st' = (AList.update (mcl_ID c) c calls, AList.update (attempt_key c) (mcl_ID c) attempts)"
      using assms(2) True c by (auto simp: st calls_step_def attempt_key_def split: option.splits if_splits)
    show ?thesis using assms(1) st' indexes_update [of attempt_key attempts calls "mcl_ID c" c]
        indexes_keep [of attempt_key attempts calls "mcl_ID c" c] ok
      by (elim disjE) (simp_all add: st calls_consistent_def)
  qed (use assms in \<open>simp add: st calls_step_def\<close>)
qed

interpretation calls_view: session_view "calls_step L" "\<lambda>e. agg_Type e = EventSessionModelCallSaved" "([], [])" fst
  mcl_ID mcl_SessionID calls_consistent for L :: lib
  by unfold_locales (simp, simp add: calls_consistent_def, erule (1) calls_step_consistent,
      simp add: calls_consistent_def)

definition uses_consistent :: "uses_state \<Rightarrow> bool" where
  "uses_consistent st \<longleftrightarrow> wf_map (fst st) \<and> keyed tlu_ID (fst st) \<and> indexes use_key (snd st) (fst st)"

lemma uses_step_consistent:
  assumes "uses_consistent st" "uses_step L st e = Inr st'" shows "uses_consistent st'"
proof -
  obtain uses identities where st: "st = (uses, identities)" by fastforce
  show ?thesis
  proof (cases "agg_Type e = EventSessionToolUseSaved")
    case True
    then obtain u where u: "ProjectSessionToolUseSaved L e = Inr u"
      using assms(2) by (auto simp: st uses_step_def res_simps)
    have ok: "\<And>old. map_of uses (tlu_ID u) = Some old \<Longrightarrow> use_key old = use_key u"
      and st': "st' = (AList.update (tlu_ID u) u uses, identities)
        \<or> st' = (AList.update (tlu_ID u) u uses, AList.update (use_key u) (tlu_ID u) identities)"
      using assms(2) True u
      by (auto simp: st uses_step_def use_key_def sameToolUseIdentity_def split: option.splits if_splits)
    show ?thesis using assms(1) st' indexes_update [of use_key identities uses "tlu_ID u" u]
        indexes_keep [of use_key identities uses "tlu_ID u" u] ok
      by (elim disjE) (simp_all add: st uses_consistent_def)
  qed (use assms in \<open>simp add: st uses_step_def\<close>)
qed

interpretation uses_view: session_view "uses_step L" "\<lambda>e. agg_Type e = EventSessionToolUseSaved" "([], [])" fst
  tlu_ID tlu_SessionID uses_consistent for L :: lib
  by unfold_locales (simp, simp add: uses_consistent_def, erule (1) uses_step_consistent,
      simp add: uses_consistent_def)

definition requests_consistent :: "(string, permission_request) gomap \<Rightarrow> bool" where
  "requests_consistent m \<longleftrightarrow> wf_map m \<and> keyed prq_ID m"

interpretation requests_view: session_view "requests_step L"
  "\<lambda>e. agg_Type e = EventSessionPermissionRequested \<or> agg_Type e = EventSessionPermissionResolved" "[]" "\<lambda>m. m"
  prq_ID prq_SessionID requests_consistent for L :: lib
  by unfold_locales (auto simp: requests_consistent_def requests_step_def res_simps split: if_splits option.splits)

definition messages_consistent :: "messages_state \<Rightarrow> bool" where
  "messages_consistent st \<longleftrightarrow> wf_map (fst st) \<and> keyed msg_ID (fst st) \<and> indexes msg_Idx (snd st) (fst st)"

lemma messages_step_consistent:
  assumes "messages_consistent st" "messages_step L st e = Inr st'" shows "messages_consistent st'"
proof -
  obtain messages indices where st: "st = (messages, indices)" by fastforce
  show ?thesis
  proof (cases "agg_Type e = EventSessionMessageSaved")
    case True
    then obtain m where m: "ProjectSessionMessageSaved L e = Inr m"
      using assms(2) by (auto simp: st messages_step_def res_simps)
    then have st': "st' = (AList.update (msg_ID m) m messages, AList.update (msg_Idx m) (msg_ID m) indices)"
      and idx: "\<And>previous. map_of messages (msg_ID m) = Some previous \<Longrightarrow> msg_Idx m = msg_Idx previous"
      using assms(2) True by (auto simp: st messages_step_def Let_def split: option.splits if_splits)
    show ?thesis using assms(1) indexes_update [of msg_Idx indices messages "msg_ID m" m] idx
      by (simp add: st st' messages_consistent_def)
  qed (use assms in \<open>auto simp: st messages_step_def\<close>)
qed

interpretation messages_view: session_view "messages_step L" "\<lambda>e. agg_Type e = EventSessionMessageSaved" "([], [])"
  fst msg_ID msg_SessionID messages_consistent for L :: lib
  by unfold_locales (simp, simp add: messages_consistent_def, erule (1) messages_step_consistent,
      simp add: messages_consistent_def split_def)

definition key_of_grant :: "permission_grant \<Rightarrow> string" where
  "key_of_grant g = grant_key (pgr_Action g) (pgr_Resource g)"

definition grants_consistent :: "grants_state \<Rightarrow> bool" where
  "grants_consistent st \<longleftrightarrow> wf_map (fst st) \<and> keyed pgr_ID (fst st) \<and> indexes key_of_grant (snd st) (fst st)"

lemma grants_step_consistent:
  assumes "grants_consistent st" "grants_step L approved st e = Inr st'" shows "grants_consistent st'"
proof -
  obtain grants resources where st: "st = (grants, resources)" by fastforce
  show ?thesis
  proof (cases "agg_Type e = EventSessionPermissionGrantCreated")
    case True
    then obtain g where g: "ProjectSessionPermissionGrantCreated L e = Inr g"
      using assms(2) by (auto simp: st grants_step_def res_simps)
    then have st': "st' = (AList.update (pgr_ID g) g grants,
        AList.update (key_of_grant g) (pgr_ID g) resources)"
      and new: "map_of grants (pgr_ID g) = None"
      using assms(2) True by (auto simp: st grants_step_def Let_def key_of_grant_def split: if_splits)
    show ?thesis using assms(1) indexes_update [of key_of_grant resources grants "pgr_ID g" g] new
      by (simp add: st st' grants_consistent_def)
  qed (use assms in \<open>auto simp: st grants_step_def\<close>)
qed

interpretation grants_view: session_view "grants_step L approved"
  "\<lambda>e. agg_Type e = EventSessionPermissionGrantCreated" "([], [])" fst pgr_ID pgr_SessionID grants_consistent
  for L :: lib and approved :: "string list"
  by unfold_locales (simp, simp add: grants_consistent_def, erule (1) grants_step_consistent,
      simp add: grants_consistent_def split_def)

section \<open>One more event\<close>

text \<open>An event that a pass accepts updates the session's rows by the snapshot the event carries.\<close>

abbreviation runs_ok :: "lib \<Rightarrow> string \<Rightarrow> aggregate_event list \<Rightarrow> (string, session_run) gomap \<Rightarrow> bool" where
  "runs_ok L \<equiv> view_of (runs_step L) [] (\<lambda>m. m) run_SessionID"

abbreviation messages_ok :: "lib \<Rightarrow> string \<Rightarrow> aggregate_event list \<Rightarrow> (string, stored_message) gomap \<Rightarrow> bool" where
  "messages_ok L \<equiv> view_of (messages_step L) ([], []) fst msg_SessionID"

abbreviation calls_ok :: "lib \<Rightarrow> string \<Rightarrow> aggregate_event list \<Rightarrow> (string, model_call) gomap \<Rightarrow> bool" where
  "calls_ok L \<equiv> view_of (calls_step L) ([], []) fst mcl_SessionID"

abbreviation uses_ok :: "lib \<Rightarrow> string \<Rightarrow> aggregate_event list \<Rightarrow> (string, tool_use) gomap \<Rightarrow> bool" where
  "uses_ok L \<equiv> view_of (uses_step L) ([], []) fst tlu_SessionID"

abbreviation requests_ok :: "lib \<Rightarrow> string \<Rightarrow> aggregate_event list \<Rightarrow> (string, permission_request) gomap \<Rightarrow> bool" where
  "requests_ok L \<equiv> view_of (requests_step L) [] (\<lambda>m. m) prq_SessionID"

abbreviation grants_ok ::
    "lib \<Rightarrow> string list \<Rightarrow> string \<Rightarrow> aggregate_event list \<Rightarrow> (string, permission_grant) gomap \<Rightarrow> bool" where
  "grants_ok L approved \<equiv> view_of (grants_step L approved) ([], []) fst pgr_SessionID"

lemma runs_snoc_admitted:
  assumes "runs_ok L sid evs R" "agg_Type e = EventSessionRunAdmitted" "ProjectSessionRunAdmission L e = Inr run"
    and "run_SessionID run = sid" "run_Status run = SessionRunStatusQueued" "map_of R (run_ID run) = None"
  shows "runs_ok L sid (evs @ [e]) (AList.update (run_ID run) run R)"
  using assms(1) by (rule runs_view.view_snoc)
    (use assms in \<open>simp add: runs_step_def own_update_same own_def\<close>)

lemma runs_snoc_transition:
  assumes "runs_ok L sid evs R" "run_event_type (run_Status run) = Some (agg_Type e)"
    and "ProjectSessionRunTransition L e = Inr run" "run_SessionID run = sid"
    and "map_of R (run_ID run) = Some previous" "run_SessionID previous = sid"
    and "legalProjectedRunTransition (run_Status previous) (run_Status run)"
    and "run_Sequence run = run_Sequence previous" "run_AdmittedVersion run = run_AdmittedVersion previous"
    and "run_Message run = run_Message previous"
  shows "runs_ok L sid (evs @ [e]) (AList.update (run_ID run) run R)"
proof (rule runs_view.view_snoc [OF assms(1)])
  fix st assume st: "map_of st = own run_SessionID sid R"
  have "agg_Type e \<in> {EventSessionRunStarted, EventSessionRunCompleted, EventSessionRunFailed, EventSessionRunAborted}"
    using assms(2) by (auto simp: run_event_type_def split: if_splits)
  moreover from this have "agg_Type e \<noteq> EventSessionRunAdmitted" by auto
  ultimately show "\<exists>st'. runs_step L st e = Inr st' \<and> map_of st' = own run_SessionID sid (AList.update (run_ID run) run R)"
    using assms(3-) st by (simp add: runs_step_def own_update_same own_def)
qed

lemma messages_snoc:
  assumes "messages_ok L sid evs M" "agg_Type e = EventSessionMessageSaved" "ProjectSessionMessageSaved L e = Inr m"
    and "msg_SessionID m = sid"
    and "\<And>old. map_of M (msg_ID m) = Some old \<Longrightarrow> msg_Revision old < msg_Revision m \<and> msg_SessionID old = sid
      \<and> msg_RunID old = msg_RunID m \<and> msg_Idx old = msg_Idx m \<and> msg_Role old = msg_Role m"
    and "\<And>k u. map_of M (msg_ID m) = None \<Longrightarrow> map_of M k = Some u \<Longrightarrow> msg_SessionID u = sid \<Longrightarrow> msg_Idx u \<noteq> msg_Idx m"
  shows "messages_ok L sid (evs @ [e]) (AList.update (msg_ID m) m M)"
proof (rule messages_view.view_snoc [OF assms(1)])
  fix st assume st: "messages_consistent st" "map_of (fst st) = own msg_SessionID sid M"
  obtain messages indices where pair: "st = (messages, indices)" by fastforce
  have ind: "map_of indices (msg_Idx m) = None" if none: "map_of M (msg_ID m) = None"
  proof (rule ccontr)
    assume "map_of indices (msg_Idx m) \<noteq> None"
    then obtain i u where "map_of messages i = Some u" "msg_Idx u = msg_Idx m"
      using index_row [of msg_Idx indices messages m] st(1)
      unfolding messages_consistent_def pair fst_conv snd_conv by blast
    then show False using st(2) assms(6) [OF none] by (auto simp: pair own_Some)
  qed
  have old: "map_of messages (msg_ID m) = map_of M (msg_ID m)"
    using st(2) assms(5) by (cases "map_of M (msg_ID m)") (auto simp: pair own_def)
  have "messages_step L (messages, indices) e =
      Inr (AList.update (msg_ID m) m messages, AList.update (msg_Idx m) (msg_ID m) indices)"
  proof (cases "map_of M (msg_ID m)")
    case None
    then show ?thesis using assms(2,3) ind old by (simp add: messages_step_def)
  next
    case (Some u)
    then show ?thesis using assms(2-4) assms(5) [OF Some] old by (simp add: messages_step_def)
  qed
  then show "\<exists>st'. messages_step L st e = Inr st' \<and> map_of (fst st') = own msg_SessionID sid (AList.update (msg_ID m) m M)"
    using st(2) assms(4) by (simp add: pair own_update_same)
qed

lemma calls_snoc_new:
  assumes "calls_ok L sid evs C" "agg_Type e = EventSessionModelCallSaved" "ProjectSessionModelCallSaved L e = Inr c"
    and "mcl_SessionID c = sid" "map_of C (mcl_ID c) = None"
    and "\<And>k u. map_of C k = Some u \<Longrightarrow> mcl_RunID c \<noteq> '''' \<Longrightarrow> attempt_key u \<noteq> attempt_key c"
  shows "calls_ok L sid (evs @ [e]) (AList.update (mcl_ID c) c C)"
proof (rule calls_view.view_snoc [OF assms(1)])
  fix st assume st: "calls_consistent st" "map_of (fst st) = own mcl_SessionID sid C"
  obtain calls attempts where pair: "st = (calls, attempts)" by fastforce
  have "map_of attempts (attempt_key c) = None" if "mcl_RunID c \<noteq> ''''"
  proof (rule ccontr)
    assume "map_of attempts (attempt_key c) \<noteq> None"
    then obtain i u where "map_of calls i = Some u" "attempt_key u = attempt_key c"
      using index_row [of attempt_key attempts calls c] st(1) unfolding calls_consistent_def pair fst_conv snd_conv by blast
    then show False using st(2) assms(6) that by (auto simp: pair own_Some)
  qed
  then show "\<exists>st'. calls_step L st e = Inr st' \<and> map_of (fst st') = own mcl_SessionID sid (AList.update (mcl_ID c) c C)"
    using st(2) assms(2-5) by (simp add: pair calls_step_def own_update_same own_def)
qed

lemma calls_snoc_existing:
  assumes "calls_ok L sid evs C" "agg_Type e = EventSessionModelCallSaved" "ProjectSessionModelCallSaved L e = Inr c"
    and "mcl_SessionID c = sid" "map_of C (mcl_ID c) = Some old"
    and "mcl_SessionID old = sid" "attempt_key old = attempt_key c"
    and "mcl_StartedAt old = mcl_StartedAt c" "mcl_CreatedAt old = mcl_CreatedAt c"
  shows "calls_ok L sid (evs @ [e]) (AList.update (mcl_ID c) c C)"
  using assms(1) by (rule calls_view.view_snoc)
    (use assms in \<open>auto simp: calls_step_def attempt_key_def own_update_same own_def\<close>)

lemma uses_snoc_new:
  assumes "uses_ok L sid evs U" "agg_Type e = EventSessionToolUseSaved" "ProjectSessionToolUseSaved L e = Inr u"
    and "tlu_SessionID u = sid" "map_of U (tlu_ID u) = None" "tlu_Status u = ToolUseStatusProposed"
    and "\<And>k x. map_of U k = Some x \<Longrightarrow> tlu_RunID u \<noteq> '''' \<Longrightarrow> use_key x \<noteq> use_key u"
  shows "uses_ok L sid (evs @ [e]) (AList.update (tlu_ID u) u U)"
proof (rule uses_view.view_snoc [OF assms(1)])
  fix st assume st: "uses_consistent st" "map_of (fst st) = own tlu_SessionID sid U"
  obtain uses identities where pair: "st = (uses, identities)" by fastforce
  have "map_of identities (use_key u) = None" if "tlu_RunID u \<noteq> ''''"
  proof (rule ccontr)
    assume "map_of identities (use_key u) \<noteq> None"
    then obtain i x where "map_of uses i = Some x" "use_key x = use_key u"
      using index_row [of use_key identities uses u] st(1) unfolding uses_consistent_def pair fst_conv snd_conv by blast
    then show False using st(2) assms(7) that by (auto simp: pair own_Some)
  qed
  then show "\<exists>st'. uses_step L st e = Inr st' \<and> map_of (fst st') = own tlu_SessionID sid (AList.update (tlu_ID u) u U)"
    using st(2) assms(2-6) by (simp add: pair uses_step_def own_update_same own_def)
qed

lemma uses_snoc_existing:
  assumes "uses_ok L sid evs U" "agg_Type e = EventSessionToolUseSaved" "ProjectSessionToolUseSaved L e = Inr u"
    and "tlu_SessionID u = sid" "map_of U (tlu_ID u) = Some old"
    and "sameToolUseIdentity old u" "legalToolUseTransition (tlu_Status old) (tlu_Status u)"
  shows "uses_ok L sid (evs @ [e]) (AList.update (tlu_ID u) u U)"
  using assms(1) by (rule uses_view.view_snoc)
    (use assms in \<open>auto simp: uses_step_def sameToolUseIdentity_def own_update_same own_def\<close>)

lemma requests_snoc_new:
  assumes "requests_ok L sid evs R" "agg_Type e = EventSessionPermissionRequested"
    and "ProjectSessionPermissionRequest L e = Inr r" "prq_SessionID r = sid" "map_of R (prq_ID r) = None"
  shows "requests_ok L sid (evs @ [e]) (AList.update (prq_ID r) r R)"
  using assms(1) by (rule requests_view.view_snoc)
    (use assms in \<open>auto simp: requests_step_def own_update_same own_def\<close>)

lemma requests_snoc_resolved:
  assumes "requests_ok L sid evs R" "agg_Type e = EventSessionPermissionResolved"
    and "ProjectSessionPermissionRequest L e = Inr r" "prq_SessionID r = sid" "map_of R (prq_ID r) = Some old"
    and "prq_Status old = PermissionRequestStatusPending" "samePermissionRequestIdentity old r"
  shows "requests_ok L sid (evs @ [e]) (AList.update (prq_ID r) r R)"
  using assms(1) by (rule requests_view.view_snoc)
    (use assms in \<open>auto simp: requests_step_def samePermissionRequestIdentity_def own_update_same own_def\<close>)

lemma grants_snoc:
  assumes "grants_ok L approved sid evs G" "agg_Type e = EventSessionPermissionGrantCreated"
    and "ProjectSessionPermissionGrantCreated L e = Inr g" "pgr_SessionID g = sid"
    and "map_of G (pgr_ID g) = None" "key_of_grant g \<in> set approved"
    and "\<And>k u. map_of G k = Some u \<Longrightarrow> pgr_SessionID u = sid \<Longrightarrow> key_of_grant u \<noteq> key_of_grant g"
  shows "grants_ok L approved sid (evs @ [e]) (AList.update (pgr_ID g) g G)"
proof (rule grants_view.view_snoc [OF assms(1)])
  fix st assume st: "grants_consistent st" "map_of (fst st) = own pgr_SessionID sid G"
  obtain grants resources where pair: "st = (grants, resources)" by fastforce
  have "map_of resources (key_of_grant g) = None"
  proof (rule ccontr)
    assume "map_of resources (key_of_grant g) \<noteq> None"
    then obtain i u where "map_of grants i = Some u" "key_of_grant u = key_of_grant g"
      using index_row [of key_of_grant resources grants g] st(1) unfolding grants_consistent_def pair fst_conv snd_conv by blast
    then show False using st(2) assms(7) by (auto simp: pair own_Some)
  qed
  then show "\<exists>st'. grants_step L approved st e = Inr st' \<and>
      map_of (fst st') = own pgr_SessionID sid (AList.update (pgr_ID g) g G)"
    using st(2) assms(2-6) by (simp add: pair grants_step_def key_of_grant_def own_update_same own_def)
qed

end
