(* ===== verification/Store_Invariant.thy ===== *)
theory Store_Invariant
  imports Session_Views
begin

text \<open>
  The invariant of the store: every table is keyed by its rows' identifiers, and for every session
  the stream of aggregate events projects to the session row and to the rows of the six tables it
  owns.  A message's parts are rows of their own, so the invariant has a ghost table of messages
  with their parts in the order in which they were saved.
\<close>

section \<open>Streams\<close>

lemma history_commit [simp]:
  "history (appendPermissionAggregateCommitLocked e p s) ref =
     (if ref = agg_Aggregate e then history s ref @ [e\<lparr>agg_GlobalSequence := st_globalSeq s + 1\<rparr>] else history s ref)"
  by (simp add: history_def appendPermissionAggregateCommitLocked_def Let_def)

lemma commit_fields [simp]:
  "st_sessions (appendPermissionAggregateCommitLocked e p s) =
     AList.update (ref_ID (agg_Aggregate e)) p (st_sessions s)"
  "st_globalSeq (appendPermissionAggregateCommitLocked e p s) = st_globalSeq s + 1"
  "st_runs (appendPermissionAggregateCommitLocked e p s) = st_runs s"
  "st_messages (appendPermissionAggregateCommitLocked e p s) = st_messages s"
  "st_parts (appendPermissionAggregateCommitLocked e p s) = st_parts s"
  "st_modelCalls (appendPermissionAggregateCommitLocked e p s) = st_modelCalls s"
  "st_toolUses (appendPermissionAggregateCommitLocked e p s) = st_toolUses s"
  "st_permissionRequests (appendPermissionAggregateCommitLocked e p s) = st_permissionRequests s"
  "st_permissionGrants (appendPermissionAggregateCommitLocked e p s) = st_permissionGrants s"
  "st_events (appendPermissionAggregateCommitLocked e p s) = st_events s"
  "st_clients (appendPermissionAggregateCommitLocked e p s) = st_clients s"
  "st_workspaces (appendPermissionAggregateCommitLocked e p s) = st_workspaces s"
  "st_agents (appendPermissionAggregateCommitLocked e p s) = st_agents s"
  "st_auth (appendPermissionAggregateCommitLocked e p s) = st_auth s"
  by (simp_all add: appendPermissionAggregateCommitLocked_def Let_def)

lemma history_frame: "st_aggregates s' = st_aggregates s \<Longrightarrow> history s' = history s"
  by (simp add: history_def fun_eq_iff)

text \<open>The projection does not look at the global sequence number.\<close>

lemma decode_global [simp]:
  "ProjectSessionRunAdmission L (e\<lparr>agg_GlobalSequence := g\<rparr>) = ProjectSessionRunAdmission L e"
  "ProjectSessionRunTransition L (e\<lparr>agg_GlobalSequence := g\<rparr>) = ProjectSessionRunTransition L e"
  "ProjectSessionMessageSaved L (e\<lparr>agg_GlobalSequence := g\<rparr>) = ProjectSessionMessageSaved L e"
  "ProjectSessionModelCallSaved L (e\<lparr>agg_GlobalSequence := g\<rparr>) = ProjectSessionModelCallSaved L e"
  "ProjectSessionToolUseSaved L (e\<lparr>agg_GlobalSequence := g\<rparr>) = ProjectSessionToolUseSaved L e"
  "ProjectSessionPermissionRequest L (e\<lparr>agg_GlobalSequence := g\<rparr>) = ProjectSessionPermissionRequest L e"
  "ProjectSessionPermissionGrantCreated L (e\<lparr>agg_GlobalSequence := g\<rparr>) = ProjectSessionPermissionGrantCreated L e"
  by (simp_all add: ProjectSessionRunAdmission_def ProjectSessionRunTransition_def ProjectSessionMessageSaved_def
      ProjectSessionModelCallSaved_def ProjectSessionToolUseSaved_def ProjectSessionPermissionRequest_def
      ProjectSessionPermissionGrantCreated_def cong: if_cong)

lemma projectSessionEvent_global [simp]:
  "projectSessionEvent L so (e\<lparr>agg_GlobalSequence := g\<rparr>) = projectSessionEvent L so e"
  by (cases so) (simp_all add: projectSessionEvent_def cong: if_cong)

lemma session_step_global: "session_step L st (e\<lparr>agg_GlobalSequence := g\<rparr>) = session_step L st e"
proof -
  obtain so v where "st = (so, v)" by fastforce
  then show ?thesis by (cases so) (simp_all add: session_step_def cong: if_cong)
qed

lemma ProjectSession_global [simp]:
  "ProjectSession L (evs @ [e\<lparr>agg_GlobalSequence := g\<rparr>]) = ProjectSession L (evs @ [e])"
  unfolding ProjectSession_def by (simp only: foldE_snoc session_step_global)

lemma ProjectSession_single_global:
  "ProjectSession L [e\<lparr>agg_GlobalSequence := g, agg_Version := v\<rparr>] = ProjectSession L [e\<lparr>agg_Version := v\<rparr>]"
proof -
  have swap: "e\<lparr>agg_GlobalSequence := g, agg_Version := v\<rparr> = e\<lparr>agg_Version := v, agg_GlobalSequence := g\<rparr>" by simp
  show ?thesis unfolding swap
    using ProjectSession_global [where evs = "[]" and e = "e\<lparr>agg_Version := v\<rparr>" and g = g] by simp
qed

lemma project_next_ok:
  "project_next L session hist e = Inr (e', p) \<longleftrightarrow>
     e' = e\<lparr>agg_Version := ses_AggregateVersion session + 1\<rparr> \<and> ProjectSession L (hist @ [e']) = Inr p"
  by (auto simp: project_next_def Let_def res_simps)

lemma append_next_ok:
  "append_next L e s = Inr (e', p) \<longleftrightarrow>
     (\<exists>session. map_of (st_sessions s) (ref_ID (agg_Aggregate e)) = Some session
        \<and> project_next L session (history s (agg_Aggregate e)) e = Inr (e', p))"
  by (simp add: append_next_def res_simps)

text \<open>A stream that projects after one more event has decoded that event.\<close>

lemma ProjectSession_last:
  assumes "ProjectSession L (hist @ [e]) = Inr p" "ProjectSession L hist = Inr q"
  shows "projectSessionEvent L (Some q) e = Inr p"
  using assms by (simp add: ProjectSession_snoc split: if_splits)

lemma projected_decodes:
  assumes "projectSessionEvent L (Some q) e = Inr p"
  shows "agg_Type e = EventSessionMessageSaved \<Longrightarrow> \<exists>m. ProjectSessionMessageSaved L e = Inr m"
    "agg_Type e = EventSessionModelCallSaved \<Longrightarrow> \<exists>c. ProjectSessionModelCallSaved L e = Inr c"
    "agg_Type e = EventSessionToolUseSaved \<Longrightarrow> \<exists>u. ProjectSessionToolUseSaved L e = Inr u"
    "agg_Type e = EventSessionPermissionRequested \<Longrightarrow> \<exists>r. ProjectSessionPermissionRequest L e = Inr r"
    "agg_Type e = EventSessionPermissionResolved \<Longrightarrow> \<exists>r. ProjectSessionPermissionRequest L e = Inr r"
  using assms by (simp_all add: projectSessionEvent_def unit_res_def res_simps)

section \<open>The session row\<close>

text \<open>
  The row is the projection of the stream up to the workspace, which \<^verbatim>\<open>DeleteWorkspace\<close> clears in the
  row without an event.
\<close>

definition same_but_workspace :: "session \<Rightarrow> session \<Rightarrow> bool" where
  "same_but_workspace a b \<longleftrightarrow> a\<lparr>ses_WorkspaceID := ''''\<rparr> = b\<lparr>ses_WorkspaceID := ''''\<rparr>"

lemma same_but_workspace_refl [simp]: "same_but_workspace a a"
  by (simp add: same_but_workspace_def)

lemma same_but_workspaceD:
  assumes "same_but_workspace a b"
  shows "ses_ID a = ses_ID b" "ses_AggregateVersion a = ses_AggregateVersion b" "ses_Title a = ses_Title b"
    "ses_WorkDir a = ses_WorkDir b" "ses_ClientID a = ses_ClientID b" "ses_CreatedAt a = ses_CreatedAt b"
    "ses_UpdatedAt a = ses_UpdatedAt b"
  using assms by (cases a, cases b, simp add: same_but_workspace_def)+

definition head_ok :: "lib \<Rightarrow> string \<Rightarrow> aggregate_event list \<Rightarrow> session option \<Rightarrow> bool" where
  "head_ok L sid evs so = (case so of None \<Rightarrow> evs = []
     | Some x \<Rightarrow> (\<exists>p. ProjectSession L evs = Inr p \<and> ses_ID p = sid \<and> same_but_workspace x p))"

lemma head_ok_Some:
  assumes "head_ok L sid evs (Some x)"
  obtains p where "ProjectSession L evs = Inr p" "ses_ID p = sid" "same_but_workspace x p"
    "ses_AggregateVersion x = int (length evs)" "evs \<noteq> []"
  using assms ProjectSession_shape(1,2) same_but_workspaceD(2) unfolding head_ok_def option.case by metis

lemma head_ok_next:
  assumes "head_ok L sid evs (Some x)" "ProjectSession L (evs @ [e]) = Inr p"
  shows "head_ok L sid (evs @ [e\<lparr>agg_GlobalSequence := g\<rparr>]) (Some p)"
proof -
  obtain q where q: "ProjectSession L evs = Inr q" "ses_ID q = sid" using assms(1) by (rule head_ok_Some)
  have "ses_ID p = ses_ID q"
    using projectSessionEvent_id [OF ProjectSession_last [OF assms(2) q(1)]] by simp
  then show ?thesis using assms(2) q(2) by (simp add: head_ok_def)
qed

section \<open>Messages and their parts\<close>

definition parts_of :: "(string, stored_message) gomap \<Rightarrow> string \<Rightarrow> stored_part \<Rightarrow> bool" where
  "parts_of J i p \<longleftrightarrow> (\<exists>m. map_of J (prt_MessageID p) = Some m \<and> p \<in> set (msg_Parts m) \<and> prt_ID p = i)"

definition parts_rel :: "(string, stored_message) gomap \<Rightarrow> (string, stored_part) gomap \<Rightarrow> bool" where
  "parts_rel J P \<longleftrightarrow> (\<forall>i p. map_of P i = Some p \<longleftrightarrow> parts_of J i p)"

definition messages_rel ::
    "(string, stored_message) gomap \<Rightarrow> (string, stored_message) gomap \<Rightarrow> (string, stored_part) gomap \<Rightarrow> bool" where
  "messages_rel J M P \<longleftrightarrow> wf_map J \<and> keyed msg_ID J \<and> parts_rel J P \<and>
     (\<forall>i. map_of M i = map_option (\<lambda>m. m\<lparr>msg_Parts := []\<rparr>) (map_of J i)) \<and>
     (\<forall>i m. map_of J i = Some m \<longrightarrow> distinct (map prt_ID (msg_Parts m))
        \<and> (\<forall>p \<in> set (msg_Parts m). prt_MessageID p = msg_ID m))"

lemma messages_rel_Nil [simp]: "messages_rel [] [] []"
  by (simp add: messages_rel_def parts_rel_def parts_of_def)

lemma parts_rel_unique:
  assumes "parts_rel J P" "parts_rel J' P'" "map_of J = map_of J'" shows "map_of P = map_of P'"
proof
  fix i
  have same: "map_of P i = Some p \<longleftrightarrow> map_of P' i = Some p" for p
    using assms unfolding parts_rel_def parts_of_def by simp
  show "map_of P i = map_of P' i"
  proof (cases "map_of P i")
    case None
    then have "map_of P' i \<noteq> Some p" for p using same [of p] by simp
    then have "map_of P' i = None" by (cases "map_of P' i") blast+
    then show ?thesis using None by simp
  next
    case (Some p)
    then show ?thesis using same [of p] by simp
  qed
qed

lemma parts_rel_put:
  assumes P: "wf_map P" "parts_rel J P" "keyed msg_ID J"
    and m: "distinct (map prt_ID (msg_Parts m))" "\<forall>p \<in> set (msg_Parts m). prt_MessageID p = msg_ID m"
    and free: "\<And>p q. p \<in> set (msg_Parts m) \<Longrightarrow> map_of P (prt_ID p) = Some q \<Longrightarrow> prt_MessageID q = msg_ID m"
    and gone: "\<And>i q. map_of P' i = Some q \<longleftrightarrow> map_of P i = Some q \<and> prt_MessageID q \<noteq> msg_ID m"
  shows "parts_rel (AList.update (msg_ID m) m J) (put_all prt_ID (msg_Parts m) P')"
  unfolding parts_rel_def
proof (intro allI)
  fix i p
  show "map_of (put_all prt_ID (msg_Parts m) P') i = Some p \<longleftrightarrow> parts_of (AList.update (msg_ID m) m J) i p"
  proof (cases "List.find (\<lambda>p. prt_ID p = i) (msg_Parts m)")
    case (Some q)
    then have q: "q \<in> set (msg_Parts m)" "prt_ID q = i" by (simp_all add: find_distinct_Some [OF m(1)])
    have other: "\<not> parts_of J i p" if "prt_MessageID p \<noteq> msg_ID m"
      using free [OF q(1)] that P(2) q(2) by (auto simp: parts_rel_def)
    have "p = q" if "p \<in> set (msg_Parts m)" "prt_ID p = i"
      using that Some find_distinct_Some [OF m(1), of i p] by simp
    then show ?thesis unfolding map_of_put_all [OF m(1)]
      using Some q m(2) other by (auto simp: parts_of_def)
  next
    case None
    then have none: "\<forall>q \<in> set (msg_Parts m). prt_ID q \<noteq> i" by (auto simp: find_None_iff)
    show ?thesis unfolding map_of_put_all [OF m(1)] None option.case gone
      using none P(2) by (auto simp: parts_of_def parts_rel_def)
  qed
qed

lemma messages_rel_save:
  assumes rel: "messages_rel J M P" and wf: "wf_map P"
    and m: "distinct (map prt_ID (msg_Parts m))" "\<forall>p \<in> set (msg_Parts m). prt_MessageID p = msg_ID m"
    and free: "\<And>p q. p \<in> set (msg_Parts m) \<Longrightarrow> map_of P (prt_ID p) = Some q \<Longrightarrow> prt_MessageID q = msg_ID m"
  shows "messages_rel (AList.update (msg_ID m) m J) (AList.update (msg_ID m) (m\<lparr>msg_Parts := []\<rparr>) M)
    (put_all prt_ID (msg_Parts m) (del_where (\<lambda>p. prt_MessageID p = msg_ID m) P))"
proof -
  have "parts_rel (AList.update (msg_ID m) m J)
      (put_all prt_ID (msg_Parts m) (del_where (\<lambda>p. prt_MessageID p = msg_ID m) P))"
  proof (rule parts_rel_put [OF wf _ _ m free])
    show "parts_rel J P" "keyed msg_ID J" using rel by (auto simp: messages_rel_def)
    show "map_of (del_where (\<lambda>p. prt_MessageID p = msg_ID m) P) i = Some q \<longleftrightarrow>
        map_of P i = Some q \<and> prt_MessageID q \<noteq> msg_ID m" for i q
      using wf by (auto simp: map_simps split: option.splits)
  qed
  then show ?thesis using rel m unfolding messages_rel_def by simp
qed

section \<open>The invariant\<close>

definition approved_of :: "string \<Rightarrow> (string, permission_request) gomap \<Rightarrow> string set" where
  \<comment> \<open>what the session's requests answered with \<^verbatim>\<open>always\<close> allow to be granted\<close>
  "approved_of sid R = {grant_key (prq_Action r) x | k r x. map_of R k = Some r \<and> prq_SessionID r = sid
     \<and> prq_Status r = PermissionRequestStatusApproved \<and> prq_Response r = PermissionResponseAlways
     \<and> x \<in> set (prq_Resources r)}"

definition views_ok :: "lib \<Rightarrow> string \<Rightarrow> aggregate_event list \<Rightarrow> store \<Rightarrow> (string, stored_message) gomap \<Rightarrow> bool" where
  "views_ok L sid evs s J \<longleftrightarrow>
     runs_ok L sid evs (st_runs s) \<and> messages_ok L sid evs J \<and> calls_ok L sid evs (st_modelCalls s) \<and>
     uses_ok L sid evs (st_toolUses s) \<and> requests_ok L sid evs (st_permissionRequests s) \<and>
     (\<forall>A. approved_of sid (st_permissionRequests s) \<subseteq> set A \<longrightarrow> grants_ok L A sid evs (st_permissionGrants s))"

text \<open>
  A resource that is listed twice would be granted twice, and an action with a zero byte could make
  two grants share their key, so the rows the invariant is about have neither.
\<close>

definition request_clean :: "permission_request \<Rightarrow> bool" where
  "request_clean r \<longleftrightarrow> CHR 0x00 \<notin> set (prq_Action r) \<and> distinct (prq_Resources r)"

definition tables_ok :: "lib \<Rightarrow> store \<Rightarrow> bool" where
  "tables_ok L s \<longleftrightarrow>
     wf_map (st_sessions s) \<and> keyed ses_ID (st_sessions s) \<and>
     wf_map (st_runs s) \<and> keyed run_ID (st_runs s) \<and> wf_map (st_parts s) \<and>
     wf_map (st_messages s) \<and> keyed msg_ID (st_messages s) \<and>
     wf_map (st_modelCalls s) \<and> keyed mcl_ID (st_modelCalls s) \<and>
     wf_map (st_toolUses s) \<and> keyed tlu_ID (st_toolUses s) \<and>
     wf_map (st_permissionRequests s) \<and> keyed prq_ID (st_permissionRequests s) \<and>
     wf_map (st_permissionGrants s) \<and> keyed pgr_ID (st_permissionGrants s) \<and>
     wf_map (st_aggregates s) \<and>
     (\<forall>ref evs. map_of (st_aggregates s) ref = Some evs \<longrightarrow> ref_Type ref = AggregateSession \<and> evs \<noteq> []) \<and>
     (\<forall>k r. map_of (st_runs s) k = Some r \<longrightarrow> agent_ok L (run_Agent r)) \<and>
     (\<forall>k c. map_of (st_modelCalls s) k = Some c \<longrightarrow> model_call_ok L c) \<and>
     (\<forall>k r. map_of (st_permissionRequests s) k = Some r \<longrightarrow> request_clean r) \<and>
     (\<forall>k g. map_of (st_permissionGrants s) k = Some g \<longrightarrow> CHR 0x00 \<notin> set (pgr_Action g))"

definition sessions_ok :: "lib \<Rightarrow> store \<Rightarrow> (string, stored_message) gomap \<Rightarrow> bool" where
  "sessions_ok L s J \<longleftrightarrow> (\<forall>sid.
     head_ok L sid (history s (session_ref sid)) (map_of (st_sessions s) sid) \<and>
     views_ok L sid (history s (session_ref sid)) s J)"

definition store_inv :: "lib \<Rightarrow> store \<Rightarrow> bool" where
  "store_inv L s \<longleftrightarrow> tables_ok L s \<and> (\<exists>J. messages_rel J (st_messages s) (st_parts s) \<and> sessions_ok L s J)"

lemma store_invI:
  "tables_ok L s \<Longrightarrow> messages_rel J (st_messages s) (st_parts s) \<Longrightarrow> sessions_ok L s J \<Longrightarrow> store_inv L s"
  by (auto simp: store_inv_def)

lemma views_ok_empty:
  assumes "own run_SessionID sid (st_runs s) = Map.empty" "own msg_SessionID sid J = Map.empty"
    "own mcl_SessionID sid (st_modelCalls s) = Map.empty" "own tlu_SessionID sid (st_toolUses s) = Map.empty"
    "own prq_SessionID sid (st_permissionRequests s) = Map.empty"
    "own pgr_SessionID sid (st_permissionGrants s) = Map.empty"
  shows "views_ok L sid [] s J"
  using assms runs_view.view_start messages_view.view_start calls_view.view_start uses_view.view_start
    requests_view.view_start grants_view.view_start by (simp add: views_ok_def)

lemma store_inv_NewStore: "store_inv L NewStore"
proof (rule store_invI [where J = "[]"])
  show "tables_ok L NewStore" by (simp add: tables_ok_def NewStore_def)
  show "messages_rel [] (st_messages NewStore) (st_parts NewStore)" by (simp add: NewStore_def)
  show "sessions_ok L NewStore []"
    unfolding sessions_ok_def by (auto simp: NewStore_def history_def head_ok_def intro: views_ok_empty)
qed

text \<open>Operations on other tables keep the invariant.\<close>

lemma store_inv_frame:
  assumes "store_inv L s"
    and "st_sessions s' = st_sessions s" "st_runs s' = st_runs s" "st_messages s' = st_messages s"
    "st_parts s' = st_parts s" "st_modelCalls s' = st_modelCalls s" "st_toolUses s' = st_toolUses s"
    "st_permissionRequests s' = st_permissionRequests s" "st_permissionGrants s' = st_permissionGrants s"
    "st_aggregates s' = st_aggregates s"
  shows "store_inv L s'"
  using assms(1) unfolding store_inv_def tables_ok_def sessions_ok_def views_ok_def
    history_frame [OF assms(10)] assms(2-) by blast

section \<open>One event of a kind\<close>

text \<open>
  An event of one kind changes the rows of that kind and leaves those of the other kinds alone.
  \<open>views_step\<close> has the common part: the passes for which the event is irrelevant.
\<close>

lemma views_metadata:
  assumes "agg_Type e \<in> {EventSessionCreated, EventSessionRenamed, EventSessionMoved}" "views_ok L sid evs s J"
  shows "views_ok L sid (evs @ [e]) s J"
  using assms runs_view.view_irrelevant [of e] messages_view.view_irrelevant [of e] calls_view.view_irrelevant [of e]
    uses_view.view_irrelevant [of e] requests_view.view_irrelevant [of e] grants_view.view_irrelevant [of e]
  by (auto simp: views_ok_def run_event_types_def)

lemma views_run:
  assumes "agg_Type e \<in> set run_event_types" "views_ok L sid evs s J" "runs_ok L sid (evs @ [e]) R"
  shows "views_ok L sid (evs @ [e]) (s\<lparr>st_runs := R\<rparr>) J"
  using assms messages_view.view_irrelevant [of e] calls_view.view_irrelevant [of e]
    uses_view.view_irrelevant [of e] requests_view.view_irrelevant [of e] grants_view.view_irrelevant [of e]
  by (auto simp: views_ok_def run_event_types_def)

lemma views_message:
  assumes "agg_Type e = EventSessionMessageSaved" "views_ok L sid evs s J" "messages_ok L sid (evs @ [e]) J'"
  shows "views_ok L sid (evs @ [e]) s J'"
  using assms runs_view.view_irrelevant [of e] calls_view.view_irrelevant [of e]
    uses_view.view_irrelevant [of e] requests_view.view_irrelevant [of e] grants_view.view_irrelevant [of e]
  by (auto simp: views_ok_def run_event_types_def)

lemma views_call:
  assumes "agg_Type e = EventSessionModelCallSaved" "views_ok L sid evs s J" "calls_ok L sid (evs @ [e]) C"
  shows "views_ok L sid (evs @ [e]) (s\<lparr>st_modelCalls := C\<rparr>) J"
  using assms runs_view.view_irrelevant [of e] messages_view.view_irrelevant [of e]
    uses_view.view_irrelevant [of e] requests_view.view_irrelevant [of e] grants_view.view_irrelevant [of e]
  by (auto simp: views_ok_def run_event_types_def)

lemma views_use:
  assumes "agg_Type e = EventSessionToolUseSaved" "views_ok L sid evs s J" "uses_ok L sid (evs @ [e]) U"
  shows "views_ok L sid (evs @ [e]) (s\<lparr>st_toolUses := U\<rparr>) J"
  using assms runs_view.view_irrelevant [of e] messages_view.view_irrelevant [of e] calls_view.view_irrelevant [of e]
    requests_view.view_irrelevant [of e] grants_view.view_irrelevant [of e]
  by (auto simp: views_ok_def run_event_types_def)

lemma views_request:
  assumes "agg_Type e = EventSessionPermissionRequested \<or> agg_Type e = EventSessionPermissionResolved"
    "views_ok L sid evs s J" "requests_ok L sid (evs @ [e]) R"
    "approved_of sid (st_permissionRequests s) \<subseteq> approved_of sid R"
  shows "views_ok L sid (evs @ [e]) (s\<lparr>st_permissionRequests := R\<rparr>) J"
  using assms runs_view.view_irrelevant [of e] messages_view.view_irrelevant [of e] calls_view.view_irrelevant [of e]
    uses_view.view_irrelevant [of e] grants_view.view_irrelevant [of e]
  by (auto simp: views_ok_def run_event_types_def)

lemma views_grant:
  assumes "agg_Type e = EventSessionPermissionGrantCreated" "views_ok L sid evs s J"
    "\<And>A. approved_of sid (st_permissionRequests s) \<subseteq> set A \<Longrightarrow> grants_ok L A sid (evs @ [e]) G"
  shows "views_ok L sid (evs @ [e]) (s\<lparr>st_permissionGrants := G\<rparr>) J"
  using assms runs_view.view_irrelevant [of e] messages_view.view_irrelevant [of e] calls_view.view_irrelevant [of e]
    uses_view.view_irrelevant [of e] requests_view.view_irrelevant [of e]
  by (auto simp: views_ok_def run_event_types_def)

end
