(* ===== verification/Preserve_Sessions.thy ===== *)
theory Preserve_Sessions
  imports Store_Invariant
begin

text \<open>
  The commit of one event keeps the invariant, given the rows of its kind; creation, rename, move,
  purge and the catalog operations keep it.
\<close>

section \<open>One commit\<close>

lemma sessions_okD:
  "sessions_ok L s J \<Longrightarrow> head_ok L sid (history s (session_ref sid)) (map_of (st_sessions s) sid)"
  "sessions_ok L s J \<Longrightarrow> views_ok L sid (history s (session_ref sid)) s J"
  by (simp_all add: sessions_ok_def)

lemma sessions_ok_step:
  assumes "sessions_ok L s J"
    and "\<And>i. i \<noteq> sid \<Longrightarrow> history t (session_ref i) = history s (session_ref i)"
    and "\<And>i. i \<noteq> sid \<Longrightarrow> map_of (st_sessions t) i = map_of (st_sessions s) i"
    and "head_ok L sid (history t (session_ref sid)) (map_of (st_sessions t) sid)"
    and "views_ok L sid (history t (session_ref sid)) t J'"
    and "\<And>i evs. i \<noteq> sid \<Longrightarrow> views_ok L i evs s J \<Longrightarrow> views_ok L i evs t J'"
  shows "sessions_ok L t J'"
  unfolding sessions_ok_def
proof
  fix i
  show "head_ok L i (history t (session_ref i)) (map_of (st_sessions t) i) \<and> views_ok L i (history t (session_ref i)) t J'"
    using assms sessions_okD [OF assms(1), of i] by (cases "i = sid") simp_all
qed

lemma views_ok_frame:
  "st_runs t = st_runs s \<Longrightarrow> st_modelCalls t = st_modelCalls s \<Longrightarrow> st_toolUses t = st_toolUses s \<Longrightarrow>
   st_permissionRequests t = st_permissionRequests s \<Longrightarrow> st_permissionGrants t = st_permissionGrants s \<Longrightarrow>
   views_ok L sid evs t J = views_ok L sid evs s J"
  by (simp add: views_ok_def)

text \<open>The event and session that an operation commits for the session \<open>sid\<close>.\<close>

definition commits :: "lib \<Rightarrow> store \<Rightarrow> string \<Rightarrow> aggregate_event \<Rightarrow> session \<Rightarrow> bool" where
  "commits L s sid e p \<longleftrightarrow> agg_Aggregate e = session_ref sid \<and>
     (\<exists>x. map_of (st_sessions s) sid = Some x) \<and> ProjectSession L (history s (session_ref sid) @ [e]) = Inr p"

lemma project_next_commits:
  assumes "map_of (st_sessions s) sid = Some x" "agg_Aggregate e0 = session_ref sid"
    "project_next L x (history s (session_ref sid)) e0 = Inr (e, p)"
  shows "commits L s sid e p"
  using assms by (auto simp: commits_def project_next_ok)

lemma commits_id:
  assumes "sessions_ok L s J" "commits L s sid e p" shows "ses_ID p = sid"
proof -
  obtain x where x: "map_of (st_sessions s) sid = Some x" using assms(2) by (auto simp: commits_def)
  obtain q where q: "ProjectSession L (history s (session_ref sid)) = Inr q" "ses_ID q = sid"
    using sessions_okD(1) [OF assms(1), of sid] unfolding x by (rule head_ok_Some)
  then show ?thesis using projectSessionEvent_id ProjectSession_last assms(2)
    unfolding commits_def by fastforce
qed

lemma commits_last:
  assumes "sessions_ok L s J" "commits L s sid e p"
  shows "\<exists>q. projectSessionEvent L (Some q) e = Inr p"
proof -
  obtain x where x: "map_of (st_sessions s) sid = Some x" using assms(2) by (auto simp: commits_def)
  obtain q where q: "ProjectSession L (history s (session_ref sid)) = Inr q"
    using sessions_okD(1) [OF assms(1), of sid] unfolding x by (rule head_ok_Some)
  then show ?thesis using ProjectSession_last assms(2) unfolding commits_def by blast
qed

lemma commit_tables:
  assumes "tables_ok L s" "sessions_ok L s J" "commits L s sid e p"
  shows "tables_ok L (commit e p s)"
proof -
  have agg: "st_aggregates (commit e p s) = AList.update (session_ref sid)
      (history s (session_ref sid) @ [e\<lparr>agg_GlobalSequence := st_globalSeq s + 1\<rparr>]) (st_aggregates s)"
    using assms(3) by (simp add: appendPermissionAggregateCommitLocked_def Let_def commits_def)
  have ref: "ref_ID (agg_Aggregate e) = sid" using assms(3) by (simp add: commits_def)
  show ?thesis using assms(1) commits_id [OF assms(2,3)] unfolding tables_ok_def agg commit_fields ref
    by simp
qed

lemma commit_head:
  assumes "sessions_ok L s J" "commits L s sid e p"
  shows "head_ok L sid (history s (session_ref sid) @ [e\<lparr>agg_GlobalSequence := g\<rparr>]) (Some p)"
  using head_ok_next sessions_okD(1) [OF assms(1)] assms(2) unfolding commits_def by metis

text \<open>The store after a commit and an update of one table.\<close>

lemma commit_sessions:
  assumes "sessions_ok L s J" "commits L s sid e p"
    and "st_sessions t = st_sessions (commit e p s)" "st_aggregates t = st_aggregates (commit e p s)"
    and "\<And>g. views_ok L sid (history s (session_ref sid) @ [e\<lparr>agg_GlobalSequence := g\<rparr>]) t J'"
    and "\<And>i evs. i \<noteq> sid \<Longrightarrow> views_ok L i evs s J \<Longrightarrow> views_ok L i evs t J'"
  shows "sessions_ok L t J'"
proof (rule sessions_ok_step [OF assms(1)])
  have hist: "history t = history (commit e p s)" using assms(4) by (rule history_frame)
  have e: "agg_Aggregate e = session_ref sid" using assms(2) by (simp add: commits_def)
  show "history t (session_ref i) = history s (session_ref i)" if "i \<noteq> sid" for i
    using that by (simp add: hist e)
  show "map_of (st_sessions t) i = map_of (st_sessions s) i" if "i \<noteq> sid" for i
    using that by (simp add: assms(3) e)
  show "head_ok L sid (history t (session_ref sid)) (map_of (st_sessions t) sid)"
    using commit_head [OF assms(1,2)] by (simp add: hist e assms(3))
  show "views_ok L sid (history t (session_ref sid)) t J'" using assms(5) by (simp add: hist e)
qed (rule assms(6))

section \<open>Rename and move\<close>

lemma metadata_commit_inv:
  assumes inv: "store_inv L s" and c: "commits L s sid e p"
    and e: "agg_Type e \<in> {EventSessionCreated, EventSessionRenamed, EventSessionMoved}"
  shows "store_inv L (commit e p s)"
proof -
  obtain J where J: "messages_rel J (st_messages s) (st_parts s)" and ok: "sessions_ok L s J" "tables_ok L s"
    using inv by (auto simp: store_inv_def)
  have "sessions_ok L (commit e p s) J"
  proof (rule commit_sessions [OF ok(1) c])
    show "views_ok L sid (history s (session_ref sid) @ [e\<lparr>agg_GlobalSequence := g\<rparr>]) (commit e p s) J" for g
      using views_metadata [OF _ sessions_okD(2) [OF ok(1)], of "e\<lparr>agg_GlobalSequence := g\<rparr>"] e
      by (subst views_ok_frame) simp_all
    show "views_ok L i evs s J \<Longrightarrow> views_ok L i evs (commit e p s) J" for i evs by (subst views_ok_frame) simp_all
  qed simp_all
  then show ?thesis using commit_tables [OF ok(2,1) c] J by (intro store_invI [where J = J]) simp_all
qed

lemma applySessionMetadataEvent_inv:
  assumes inv: "store_inv L s" and e: "agg_Aggregate e = session_ref sid"
    "agg_Type e = EventSessionRenamed \<or> agg_Type e = EventSessionMoved"
  shows "store_inv L (snd (applySessionMetadataEvent L e v ws s))"
proof -
  have "store_inv L (commit e' p s)"
    if "map_of (st_sessions s) sid = Some x"
      "project_next L x (history s (session_ref sid)) (e\<lparr>agg_ClientID := ses_ClientID x\<rparr>) = Inr (e', p)" for x e' p
  proof (rule metadata_commit_inv [OF inv])
    show "commits L s sid e' p" using that(1) _ that(2) by (rule project_next_commits) (simp add: e)
    show "agg_Type e' \<in> {EventSessionCreated, EventSessionRenamed, EventSessionMoved}"
      using that(2) e(2) by (auto simp: project_next_ok)
  qed
  then show ?thesis unfolding applySessionMetadataEvent_def e(1) session_ref_simps
    by (intro attempt_state [where P = "store_inv L"] inv) (auto simp: inv)
qed

lemma RenameSession_inv: "store_inv L s \<Longrightarrow> store_inv L (snd (RenameSession L w i title v s))"
  unfolding RenameSession_def
  by (intro attempt_state [where P = "store_inv L"])
    (auto simp: NewSessionRenamedEvent_def res_simps intro!: applySessionMetadataEvent_inv)

lemma MoveSession_inv: "store_inv L s \<Longrightarrow> store_inv L (snd (MoveSession L w i dir ws v s))"
  unfolding MoveSession_def
  by (intro attempt_state [where P = "store_inv L"])
    (auto simp: NewSessionMovedEvent_def res_simps intro!: applySessionMetadataEvent_inv)

section \<open>Creation\<close>

text \<open>A session that has no events owns no rows.\<close>

lemma views_ok_start:
  assumes "views_ok L sid [] s J"
  shows "own run_SessionID sid (st_runs s) = Map.empty" "own msg_SessionID sid J = Map.empty"
    "own mcl_SessionID sid (st_modelCalls s) = Map.empty" "own tlu_SessionID sid (st_toolUses s) = Map.empty"
    "own prq_SessionID sid (st_permissionRequests s) = Map.empty"
    "own pgr_SessionID sid (st_permissionGrants s) = Map.empty"
proof -
  obtain A where "approved_of sid (st_permissionRequests s) \<subseteq> set A"
    using assms by (intro that [of "concat (map (\<lambda>r. map (grant_key (prq_Action r)) (prq_Resources r))
      (vals (st_permissionRequests s)))"]) (force simp: approved_of_def vals_def dest: map_of_SomeD)
  then have "grants_ok L A sid [] (st_permissionGrants s)" using assms by (simp add: views_ok_def)
  then show "own run_SessionID sid (st_runs s) = Map.empty" "own msg_SessionID sid J = Map.empty"
    "own mcl_SessionID sid (st_modelCalls s) = Map.empty" "own tlu_SessionID sid (st_toolUses s) = Map.empty"
    "own prq_SessionID sid (st_permissionRequests s) = Map.empty"
    "own pgr_SessionID sid (st_permissionGrants s) = Map.empty"
    using assms by (simp_all add: views_ok_def view_of_def)
qed

lemma created_projects:
  assumes "lib_ok L" "NewSessionCreatedEvent L eid x = Inr e"
  shows "ProjectSession L [e\<lparr>agg_GlobalSequence := g, agg_Version := 1\<rparr>] = Inr (x\<lparr>ses_AggregateVersion := 1\<rparr>)"
proof -
  obtain t where e: "e = new_event eid (ses_ID x) EventSessionCreated t
      (enc_created_data L \<lparr>crd_ID = ses_ID x, crd_Title = ses_Title x, crd_WorkDir = ses_WorkDir x,
        crd_WorkspaceID = ses_WorkspaceID x, crd_ClientID = ses_ClientID x,
        crd_CreatedAt = ses_CreatedAt x, crd_UpdatedAt = ses_UpdatedAt x\<rparr>) (ses_ClientID x) []"
    using assms(2) by (auto simp: NewSessionCreatedEvent_def res_simps)
  show ?thesis unfolding ProjectSession_single_global e
    by (simp add: ProjectSession_def session_step_def projectSessionEvent_def created_data_round_trip [OF assms(1)])
qed

lemma CreateSession_inv:
  assumes inv: "store_inv L s" and L: "lib_ok L"
  shows "store_inv L (snd (CreateSession L w x s))"
proof -
  define y where "y = (if ses_ID x = '''' then x\<lparr>ses_ID := NewID w PrefixSession 0\<rparr> else x)
    \<lparr>ses_CreatedAt := Now L w, ses_UpdatedAt := Now L w\<rparr>"
  obtain J where J: "messages_rel J (st_messages s) (st_parts s)" and ok: "sessions_ok L s J" "tables_ok L s"
    using inv by (auto simp: store_inv_def)
  have "store_inv L (s\<lparr>st_globalSeq := g, st_aggregates := AList.update (session_ref (ses_ID y)) [e\<lparr>agg_GlobalSequence := g, agg_Version := 1\<rparr>] (st_aggregates s),
      st_sessions := AList.update (ses_ID y) (y\<lparr>ses_AggregateVersion := 1\<rparr>) (st_sessions s)\<rparr>)" (is "store_inv L ?t")
    if none: "history s (session_ref (ses_ID y)) = []" and e: "NewSessionCreatedEvent L eid y = Inr e" for e g eid
  proof (rule store_invI [where J = J])
    let ?e = "e\<lparr>agg_GlobalSequence := g, agg_Version := 1\<rparr>"
    show "tables_ok L ?t" using ok(2) unfolding tables_ok_def by simp
    show "messages_rel J (st_messages ?t) (st_parts ?t)" using J by simp
    show "sessions_ok L ?t J"
    proof (rule sessions_ok_step [where sid = "ses_ID y", OF ok(1)])
      have hist: "history ?t (session_ref (ses_ID y)) = [?e]" by (simp add: history_def)
      show "head_ok L (ses_ID y) (history ?t (session_ref (ses_ID y))) (map_of (st_sessions ?t) (ses_ID y))"
        unfolding hist using created_projects [OF L e, of g] by (simp add: head_ok_def)
      have "agg_Type ?e \<in> {EventSessionCreated, EventSessionRenamed, EventSessionMoved}"
        using e by (auto simp: NewSessionCreatedEvent_def res_simps)
      then have "views_ok L (ses_ID y) ([] @ [?e]) s J"
        using sessions_okD(2) [OF ok(1), of "ses_ID y"] none by (intro views_metadata) simp_all
      then show "views_ok L (ses_ID y) (history ?t (session_ref (ses_ID y))) ?t J"
        unfolding hist by (subst views_ok_frame) simp_all
      show "views_ok L i evs s J \<Longrightarrow> views_ok L i evs ?t J" for i evs by (subst views_ok_frame) simp_all
    qed (simp_all add: history_def)
  qed
  then have step: "store_inv L (s\<lparr>st_globalSeq := g, st_aggregates := AList.update (session_ref (ses_ID y)) [e\<lparr>agg_GlobalSequence := g, agg_Version := 1\<rparr>] (st_aggregates s),
      st_sessions := AList.update (ses_ID y) p (st_sessions s)\<rparr>)"
    if "history s (session_ref (ses_ID y)) = []" "NewSessionCreatedEvent L eid y = Inr e"
      "ProjectSession L [e\<lparr>agg_GlobalSequence := g, agg_Version := 1\<rparr>] = Inr p" for e g eid p
    using that created_projects [OF L that(2), of g] by simp
  show ?thesis
    unfolding CreateSession_def Let_def y_def [symmetric]
    by (intro attempt_state [where P = "store_inv L"] inv)
      (use step inv in \<open>auto intro!: attempt_state [where P = "store_inv L"] store_inv_frame [OF inv] simp: y_def\<close>)
qed

section \<open>Purge\<close>

lemma approved_of_own:
  "own prq_SessionID sid R' = own prq_SessionID sid R \<Longrightarrow> approved_of sid R' = approved_of sid R"
proof -
  have "approved_of sid R = {grant_key (prq_Action r) x | k r x. own prq_SessionID sid R k = Some r
     \<and> prq_Status r = PermissionRequestStatusApproved \<and> prq_Response r = PermissionResponseAlways
     \<and> x \<in> set (prq_Resources r)}" for R
    unfolding approved_of_def own_Some by blast
  then show "own prq_SessionID sid R' = own prq_SessionID sid R \<Longrightarrow> approved_of sid R' = approved_of sid R"
    by simp
qed

lemma views_ok_cong:
  assumes "views_ok L sid evs s J"
    and "own run_SessionID sid (st_runs t) = own run_SessionID sid (st_runs s)"
    "own msg_SessionID sid J' = own msg_SessionID sid J"
    "own mcl_SessionID sid (st_modelCalls t) = own mcl_SessionID sid (st_modelCalls s)"
    "own tlu_SessionID sid (st_toolUses t) = own tlu_SessionID sid (st_toolUses s)"
    "own prq_SessionID sid (st_permissionRequests t) = own prq_SessionID sid (st_permissionRequests s)"
    "own pgr_SessionID sid (st_permissionGrants t) = own pgr_SessionID sid (st_permissionGrants s)"
  shows "views_ok L sid evs t J'"
  using assms(1) unfolding views_ok_def view_of_def assms(2-) approved_of_own [OF assms(6)] .

lemma wf_map_entry: "wf_map M \<Longrightarrow> (k, v) \<in> set M \<longleftrightarrow> map_of M k = Some v"
  by (simp add: wf_map_def map_of_eq_Some_iff)

lemma purge_keys:
  assumes "wf_map M" "map_of M k = Some m"
  shows "k \<in> set (map fst (filter (\<lambda>(k, m). msg_SessionID m = i) M)) \<longleftrightarrow> msg_SessionID m = i"
  using assms wf_map_entry [OF assms(1)] by force

lemma purge_messages:
  assumes "wf_map M"
  shows "filter (\<lambda>(k, m). k \<notin> set (map fst (filter (\<lambda>(k, m). msg_SessionID m = i) M))) M =
    del_where (\<lambda>m. msg_SessionID m = i) M"
  unfolding del_where_def
proof (rule filter_cong [OF refl])
  fix kv assume "kv \<in> set M"
  then have "map_of M (fst kv) = Some (snd kv)" using wf_map_entry [OF assms, of "fst kv" "snd kv"] by simp
  from purge_keys [OF assms this, of i]
  show "(case kv of (k, m) \<Rightarrow> k \<notin> set (map fst (filter (\<lambda>(k, m). msg_SessionID m = i) M))) =
      (case kv of (k, m) \<Rightarrow> \<not> msg_SessionID m = i)" by (cases kv) simp
qed

lemma messages_rel_row:
  assumes "messages_rel J M P"
  shows "map_of J k = Some m \<Longrightarrow> map_of M k = Some (m\<lparr>msg_Parts := []\<rparr>)"
    "map_of M k = Some u \<Longrightarrow> \<exists>m. map_of J k = Some m \<and> u = m\<lparr>msg_Parts := []\<rparr>"
    "map_of J k = None \<longleftrightarrow> map_of M k = None"
  using assms by (auto simp: messages_rel_def)

lemma messages_rel_part:
  assumes "messages_rel J M P" "map_of P i = Some p"
  shows "\<exists>m. map_of J (prt_MessageID p) = Some m \<and> p \<in> set (msg_Parts m) \<and> prt_ID p = i
    \<and> map_of M (prt_MessageID p) = Some (m\<lparr>msg_Parts := []\<rparr>)"
  using assms by (auto simp: messages_rel_def parts_rel_def parts_of_def)

text \<open>Deleting the messages of a session, and their parts.\<close>

lemma messages_rel_delete:
  assumes rel: "messages_rel J M P" and wf: "wf_map M" "wf_map P"
    and q: "\<And>p k. map_of P k = Some p \<Longrightarrow> q p \<longleftrightarrow>
      (\<exists>m. map_of M (prt_MessageID p) = Some m \<and> msg_SessionID m = i)"
  shows "messages_rel (del_where (\<lambda>m. msg_SessionID m = i) J) (del_where (\<lambda>m. msg_SessionID m = i) M) (del_where q P)"
proof -
  have J: "wf_map J" "keyed msg_ID J" "parts_rel J P" using rel by (auto simp: messages_rel_def)
  have "parts_rel (del_where (\<lambda>m. msg_SessionID m = i) J) (del_where q P)"
    unfolding parts_rel_def
  proof (intro allI)
    fix k p
    have "parts_of (del_where (\<lambda>m. msg_SessionID m = i) J) k p \<longleftrightarrow> parts_of J k p \<and>
        \<not> (\<exists>m. map_of J (prt_MessageID p) = Some m \<and> msg_SessionID m = i)"
      using J(1) by (auto simp: parts_of_def map_simps split: option.splits if_splits)
    moreover have "parts_of J k p \<longleftrightarrow> map_of P k = Some p" using J(3) by (simp add: parts_rel_def)
    moreover have "map_of P k = Some p \<Longrightarrow> q p \<longleftrightarrow> (\<exists>m. map_of J (prt_MessageID p) = Some m \<and> msg_SessionID m = i)"
      using q messages_rel_part [OF rel] by fastforce
    ultimately show "map_of (del_where q P) k = Some p \<longleftrightarrow> parts_of (del_where (\<lambda>m. msg_SessionID m = i) J) k p"
      using wf(2) by (auto simp: map_simps split: option.splits)
  qed
  moreover have "map_of (del_where (\<lambda>m. msg_SessionID m = i) M) k =
      map_option (\<lambda>m. m\<lparr>msg_Parts := []\<rparr>) (map_of (del_where (\<lambda>m. msg_SessionID m = i) J) k)" for k
    using rel wf(1) J(1) by (cases "map_of J k") (auto simp: messages_rel_def map_simps)
  ultimately show ?thesis using rel J unfolding messages_rel_def
    by (auto simp: map_simps split: option.splits if_splits)
qed

lemma PurgeSession_inv:
  assumes inv: "store_inv L s" shows "store_inv L (snd (PurgeSession i v s))"
proof -
  obtain J where J: "messages_rel J (st_messages s) (st_parts s)" and ok: "sessions_ok L s J" "tables_ok L s"
    using inv by (auto simp: store_inv_def)
  let ?ids = "map fst (filter (\<lambda>(k, m). msg_SessionID m = i) (st_messages s))"
  let ?J = "del_where (\<lambda>m. msg_SessionID m = i) J"
  define t where "t = s\<lparr>st_messages := del_where (\<lambda>m. msg_SessionID m = i) (st_messages s),
    st_parts := del_where (\<lambda>p. prt_MessageID p \<in> set ?ids) (st_parts s),
    st_modelCalls := del_where (\<lambda>c. mcl_SessionID c = i) (st_modelCalls s),
    st_toolUses := del_where (\<lambda>u. tlu_SessionID u = i) (st_toolUses s),
    st_permissionRequests := del_where (\<lambda>r. prq_SessionID r = i) (st_permissionRequests s),
    st_permissionGrants := del_where (\<lambda>g. pgr_SessionID g = i) (st_permissionGrants s),
    st_events := del_where (\<lambda>e. evt_SessionID e = i) (st_events s),
    st_runs := del_where (\<lambda>r. run_SessionID r = i) (st_runs s),
    st_aggregates := AList.delete (session_ref i) (st_aggregates s),
    st_sessions := AList.delete i (st_sessions s)\<rparr>"
  have wf: "wf_map (st_messages s)" "wf_map (st_parts s)" "wf_map J"
    using ok(2) J by (simp_all add: tables_ok_def messages_rel_def)
  have tab: "wf_map (st_runs s)" "wf_map (st_modelCalls s)" "wf_map (st_toolUses s)"
    "wf_map (st_permissionRequests s)" "wf_map (st_permissionGrants s)" using ok(2) by (simp_all add: tables_ok_def)
  note own_del = own_del_where_owner [OF tab(1), of run_SessionID] own_del_where_owner [OF wf(3), of msg_SessionID]
    own_del_where_owner [OF tab(2), of mcl_SessionID] own_del_where_owner [OF tab(3), of tlu_SessionID]
    own_del_where_owner [OF tab(4), of prq_SessionID] own_del_where_owner [OF tab(5), of pgr_SessionID]
  have "store_inv L t"
  proof (rule store_invI)
    show "tables_ok L t" using ok(2) unfolding tables_ok_def t_def
      by (auto simp: map_simps split: option.splits if_splits)
    show "messages_rel ?J (st_messages t) (st_parts t)"
    proof -
      have "prt_MessageID p \<in> set ?ids \<longleftrightarrow> (\<exists>m. map_of (st_messages s) (prt_MessageID p) = Some m \<and> msg_SessionID m = i)"
        if p: "map_of (st_parts s) k = Some p" for p k
      proof -
        obtain m where m: "map_of (st_messages s) (prt_MessageID p) = Some m"
          using messages_rel_part [OF J p] by blast
        then show ?thesis using purge_keys [OF wf(1) m, of i] by simp
      qed
      from messages_rel_delete [OF J wf(1,2) this] show ?thesis by (simp add: t_def)
    qed
    show "sessions_ok L t ?J"
    proof (rule sessions_ok_step [OF ok(1), where sid = i])
      have hist: "history t (session_ref i) = []" by (simp add: t_def history_def)
      show "head_ok L i (history t (session_ref i)) (map_of (st_sessions t) i)"
        unfolding hist by (simp add: head_ok_def t_def)
      show "views_ok L i (history t (session_ref i)) t ?J"
        unfolding hist by (rule views_ok_empty) (simp_all add: t_def own_del)
      show "views_ok L j evs s J \<Longrightarrow> views_ok L j evs t ?J" if "j \<noteq> i" for j evs
        by (erule views_ok_cong) (use that in \<open>simp_all add: t_def own_del\<close>)
    qed (simp_all add: t_def history_def)
  qed
  then show ?thesis unfolding PurgeSession_def Let_def purge_messages [OF wf(1)] t_def
    by (intro attempt_state [where P = "store_inv L"] inv) simp
qed

section \<open>Workspaces and the catalog\<close>

lemma DeleteWorkspace_inv:
  assumes inv: "store_inv L s" shows "store_inv L (snd (DeleteWorkspace i s))"
proof -
  define t where "t = s\<lparr>st_workspaces := AList.delete i (st_workspaces s),
    st_sessions := map_values (clear_workspace i) (st_sessions s)\<rparr>"
  obtain J where J: "messages_rel J (st_messages s) (st_parts s)" and ok: "sessions_ok L s J" "tables_ok L s"
    using inv by (auto simp: store_inv_def)
  have same: "same_but_workspace x p \<Longrightarrow> same_but_workspace (clear_workspace i x) p" for x p
    by (simp add: same_but_workspace_def clear_workspace_def)
  have id: "ses_ID (clear_workspace i x) = ses_ID x" for x by (simp add: clear_workspace_def)
  have "store_inv L t"
  proof (rule store_invI)
    show "tables_ok L t" using ok(2) id unfolding tables_ok_def t_def by (simp add: keyed_map_values)
    show "messages_rel J (st_messages t) (st_parts t)" using J by (simp add: t_def)
    show "sessions_ok L t J" unfolding sessions_ok_def
    proof
      fix sid
      have hist: "history t = history s" by (rule history_frame) (simp add: t_def)
      have sess: "st_sessions t = map_values (clear_workspace i) (st_sessions s)" by (simp add: t_def)
      have "head_ok L sid (history t (session_ref sid)) (map_of (st_sessions t) sid)"
        using sessions_okD(1) [OF ok(1), of sid] same
        by (cases "map_of (st_sessions s) sid") (auto simp: hist sess head_ok_def)
      moreover have "views_ok L sid (history t (session_ref sid)) t J"
        unfolding hist by (rule views_ok_cong [OF sessions_okD(2) [OF ok(1)]]) (simp_all add: t_def)
      ultimately show "head_ok L sid (history t (session_ref sid)) (map_of (st_sessions t) sid) \<and>
          views_ok L sid (history t (session_ref sid)) t J" ..
    qed
  qed
  then show ?thesis unfolding DeleteWorkspace_def t_def
    by (intro attempt_state [where P = "store_inv L"] inv) simp
qed

lemma catalog_operations_inv:
  assumes "store_inv L s"
  shows "store_inv L (snd (CreateAgent L w a s))" "store_inv L (snd (UpdateAgent L w a s))"
    "store_inv L (snd (DeleteAgent i s))" "store_inv L (snd (CreateClientWithID L w i name s))"
    "store_inv L (snd (EnsureDefaultClient L w s))" "store_inv L (snd (CreateWorkspace L w x s))"
    "store_inv L (snd (UpdateWorkspace L w x s))" "store_inv L (snd (SetAuth L w au s))"
    "store_inv L (snd (AppendSessionEvent w e s))"
  unfolding CreateAgent_def UpdateAgent_def DeleteAgent_def CreateClientWithID_def EnsureDefaultClient_def
    CreateWorkspace_def UpdateWorkspace_def SetAuth_def AppendSessionEvent_def Let_def
  by (auto intro!: attempt_state [where P = "store_inv L"] assms store_inv_frame [OF assms] split: option.splits)

end
