(* ===== verification/Preserve_Runs.thy ===== *)
theory Preserve_Runs
  imports Preserve_Sessions
begin

text \<open>Admission, claim and settlement of runs keep the invariant of the store.\<close>


section \<open>Admission\<close>

lemma copySessionRun_decoded:
  "dec_agent L (enc_agent L (run_Agent r)) = Inr a \<Longrightarrow> copySessionRun L r = r\<lparr>run_Agent := a\<rparr>"
  by (simp add: copySessionRun_def copyAgent_def)

lemma ProjectSession_admitted:
  assumes p: "ProjectSession L evs = Inr p" "ses_ID p = run_SessionID r"
    and v: "run_AdmittedVersion r = ses_AggregateVersion p + 1"
    and L: "lib_ok L" and a: "dec_agent L (enc_agent L (run_Agent r)) = Inr a"
    and e: "NewSessionRunAdmittedEvent L eid r = Inr e"
  shows "ProjectSession L (evs @ [e\<lparr>agg_Version := run_AdmittedVersion r\<rparr>]) =
    Inr (p\<lparr>ses_AggregateVersion := run_AdmittedVersion r\<rparr>)"
proof -
  let ?e = "e\<lparr>agg_Version := run_AdmittedVersion r\<rparr>"
  have dec: "ProjectSessionRunAdmission L ?e = Inr (r\<lparr>run_Agent := a\<rparr>)"
    by (rule run_admission_event [OF L a e]) simp_all
  have shape: "agg_Aggregate ?e = session_ref (run_SessionID r)" "agg_Type ?e = EventSessionRunAdmitted"
    "agg_SchemaVersion ?e = 1" "agg_Version ?e = run_AdmittedVersion r"
    using e by (auto simp: NewSessionRunAdmittedEvent_def)
  have ety: "agg_Type e = EventSessionRunAdmitted" using shape(2) by simp
  show ?thesis unfolding ProjectSession_snoc [OF p(1)] shape using p(2) v dec
    by (simp add: projectSessionEvent_def unit_res_def ety)
qed

lemma admitted_inv:
  assumes inv: "store_inv L s" and x: "map_of (st_sessions s) (run_SessionID r) = Some x"
    and r: "run_Status r = SessionRunStatusQueued" "run_AdmittedVersion r = ses_AggregateVersion x + 1"
      "map_of (st_runs s) (run_ID r) = None"
    and L: "lib_ok L" "is_abs (home L)" and a: "dec_agent L (enc_agent L (run_Agent r)) = Inr a"
    and e: "NewSessionRunAdmittedEvent L eid r = Inr e"
    and t: "st_runs t = AList.update (run_ID r) (copySessionRun L r) (st_runs s)"
      "st_aggregates t = AList.update (session_ref (run_SessionID r)) (history s (session_ref (run_SessionID r)) @
         [e\<lparr>agg_Version := run_AdmittedVersion r, agg_GlobalSequence := g\<rparr>]) (st_aggregates s)"
      "st_sessions t = AList.update (run_SessionID r) (x\<lparr>ses_AggregateVersion := run_AdmittedVersion r\<rparr>) (st_sessions s)"
      "st_messages t = st_messages s" "st_parts t = st_parts s" "st_modelCalls t = st_modelCalls s"
      "st_toolUses t = st_toolUses s" "st_permissionRequests t = st_permissionRequests s"
      "st_permissionGrants t = st_permissionGrants s"
  shows "store_inv L t"
proof -
  let ?sid = "run_SessionID r" and ?e = "e\<lparr>agg_Version := run_AdmittedVersion r, agg_GlobalSequence := g\<rparr>"
  obtain J where J: "messages_rel J (st_messages s) (st_parts s)" and ok: "sessions_ok L s J" "tables_ok L s"
    using inv by (auto simp: store_inv_def)
  obtain p where p: "ProjectSession L (history s (session_ref ?sid)) = Inr p" "ses_ID p = ?sid" "same_but_workspace x p"
    using sessions_okD(1) [OF ok(1), of ?sid] unfolding x by (rule head_ok_Some)
  have dec: "ProjectSessionRunAdmission L ?e = Inr (r\<lparr>run_Agent := a\<rparr>)"
    by (rule run_admission_event [OF L(1) a e]) (simp_all add: same_fact_def)
  have ety: "agg_Type ?e = EventSessionRunAdmitted" using e by (auto simp: NewSessionRunAdmittedEvent_def)
  show ?thesis
  proof (rule store_invI)
    have "ses_ID x = ?sid" using same_but_workspaceD(1) [OF p(3)] p(2) by simp
    then show "tables_ok L t" using ok(2) dec_agent_ok [OF L(2) a] unfolding tables_ok_def t
      by (simp add: copySessionRun_decoded [OF a])
    show "messages_rel J (st_messages t) (st_parts t)" using J by (simp add: t)
    show "sessions_ok L t J"
    proof (rule sessions_ok_step [OF ok(1), where sid = ?sid])
      show "history t (session_ref i) = history s (session_ref i)" if "i \<noteq> ?sid" for i
        using that by (simp add: history_def t(2))
      show "map_of (st_sessions t) i = map_of (st_sessions s) i" if "i \<noteq> ?sid" for i using that by (simp add: t(3))
      have hist: "history t (session_ref ?sid) = history s (session_ref ?sid) @ [?e]" by (simp add: history_def t(2))
      have "ProjectSession L (history s (session_ref ?sid) @ [?e]) = Inr (p\<lparr>ses_AggregateVersion := run_AdmittedVersion r\<rparr>)"
        using ProjectSession_admitted [OF p(1,2) _ L(1) a e] r(2) same_but_workspaceD(2) [OF p(3)] by simp
      moreover have "same_but_workspace (x\<lparr>ses_AggregateVersion := v\<rparr>) (p\<lparr>ses_AggregateVersion := v\<rparr>)" for v
        using p(3) unfolding same_but_workspace_def by (cases x, cases p) simp
      ultimately show "head_ok L ?sid (history t (session_ref ?sid)) (map_of (st_sessions t) ?sid)"
        using p(2) by (simp add: hist t(3) head_ok_def)
      have "runs_ok L ?sid (history s (session_ref ?sid) @ [?e]) (AList.update (run_ID (r\<lparr>run_Agent := a\<rparr>)) (r\<lparr>run_Agent := a\<rparr>) (st_runs s))"
        using sessions_okD(2) [OF ok(1), of ?sid] r ety dec
        by (intro runs_snoc_admitted) (simp_all add: views_ok_def)
      then have "views_ok L ?sid (history s (session_ref ?sid) @ [?e]) (s\<lparr>st_runs := st_runs t\<rparr>) J"
        using sessions_okD(2) [OF ok(1), of ?sid] ety
        by (intro views_run) (simp_all add: run_event_types_def t(1) copySessionRun_decoded [OF a])
      then show "views_ok L ?sid (history t (session_ref ?sid)) t J"
        unfolding hist by (subst views_ok_frame [where s = "s\<lparr>st_runs := st_runs t\<rparr>"]) (simp_all add: t)
      show "views_ok L i evs s J \<Longrightarrow> views_ok L i evs t J" if "i \<noteq> ?sid" for i evs
        by (erule views_ok_cong) (use that r(3) in \<open>auto simp: t intro!: own_update_other\<close>)
    qed
  qed
qed

lemma record_admission_inv:
  assumes inv: "store_inv L s" and x: "map_of (st_sessions s) (run_SessionID r) = Some x"
    and r: "run_Status r = SessionRunStatusQueued" "run_AdmittedVersion r = ses_AggregateVersion x + 1"
      "map_of (st_runs s) (run_ID r) = None"
    and L: "lib_ok L" "is_abs (home L)" and a: "dec_agent L (enc_agent L (run_Agent r)) = Inr a"
  shows "store_inv L (snd (record_admission L w x r s))"
  unfolding record_admission_def Let_def
  by (intro outcome_state [where P = "store_inv L"] inv)
    (erule admitted_inv [OF inv x r L a], simp_all)

lemma queued_run_fields [simp]:
  "run_SessionID (queued_run w x hash run s) = run_SessionID run"
  "run_Status (queued_run w x hash run s) = SessionRunStatusQueued"
  "run_AdmittedVersion (queued_run w x hash run s) = ses_AggregateVersion x + 1"
  "run_ID (queued_run w x hash run s) = (if run_ID run = '''' then NewID w PrefixRun 0 else run_ID run)"
  "run_Agent (queued_run w x hash run s) = run_Agent run"
  "run_Sequence (queued_run w x hash run s) = next_run_sequence (run_SessionID run) (vals (st_runs s))"
  by (simp_all add: queued_run_def Let_def)

lemma AdmitSessionRun_inv:
  assumes inv: "store_inv L s" and L: "lib_ok L" "is_abs (home L)"
    and a: "dec_agent L (enc_agent L (run_Agent run)) = Inr a"
    and fresh: "map_of (st_runs s) (if run_ID run = '''' then NewID w PrefixRun 0 else run_ID run) = None"
  shows "store_inv L (snd (AdmitSessionRun L w run s))"
  unfolding AdmitSessionRun_def Let_def
  by (intro outcome_state [where P = "store_inv L"] inv, rule record_admission_inv [OF inv _ _ _ _ L])
    (use a fresh in \<open>simp_all split: if_splits\<close>)

section \<open>Transitions\<close>

lemma transition_inv:
  assumes inv: "store_inv L s" and c: "commits L s sid e p"
    and r: "run_SessionID r = sid" "map_of (st_runs s) (run_ID r) = Some previous" "run_SessionID previous = sid"
      "legalProjectedRunTransition (run_Status previous) (run_Status r)"
      "run_Sequence r = run_Sequence previous" "run_AdmittedVersion r = run_AdmittedVersion previous"
      "run_Message r = run_Message previous" "agent_ok L (run_Agent r)"
    and e: "run_event_type (run_Status r) = Some (agg_Type e)" "ProjectSessionRunTransition L e = Inr r"
  shows "store_inv L ((commit e p s)\<lparr>st_runs := AList.update (run_ID r) r (st_runs s)\<rparr>)" (is "store_inv L ?t")
proof -
  obtain J where J: "messages_rel J (st_messages s) (st_parts s)" and ok: "sessions_ok L s J" "tables_ok L s"
    using inv by (auto simp: store_inv_def)
  show ?thesis
  proof (rule store_invI)
    show "tables_ok L ?t" using commit_tables [OF ok(2,1) c] r(8) unfolding tables_ok_def by simp
    show "messages_rel J (st_messages ?t) (st_parts ?t)" using J by simp
    show "sessions_ok L ?t J"
    proof (rule commit_sessions [OF ok(1) c])
      fix g
      let ?e = "e\<lparr>agg_GlobalSequence := g\<rparr>"
      have ety: "agg_Type ?e \<in> set run_event_types"
        using e(1) by (auto simp: run_event_type_def run_event_types_def split: if_splits)
      have "runs_ok L sid (history s (session_ref sid) @ [?e]) (AList.update (run_ID r) r (st_runs s))"
        using sessions_okD(2) [OF ok(1), of sid] e r(1,3,4,5,6,7)
        by (intro runs_snoc_transition [OF _ _ _ _ r(2)]) (simp_all add: views_ok_def)
      then have "views_ok L sid (history s (session_ref sid) @ [?e])
          (s\<lparr>st_runs := AList.update (run_ID r) r (st_runs s)\<rparr>) J"
        using sessions_okD(2) [OF ok(1), of sid] ety by (intro views_run)
      then show "views_ok L sid (history s (session_ref sid) @ [?e]) ?t J"
        by (subst views_ok_frame [where s = "s\<lparr>st_runs := AList.update (run_ID r) r (st_runs s)\<rparr>"]) simp_all
    next
      show "views_ok L i evs s J \<Longrightarrow> views_ok L i evs ?t J" if "i \<noteq> sid" for i evs
        by (erule views_ok_cong) (use that r(1,2,3) in \<open>auto intro!: own_update_other\<close>)
    qed simp_all
  qed
qed

lemma transition_run_inv:
  assumes inv: "store_inv L s" and x: "map_of (st_sessions s) (run_SessionID r) = Some x"
    and r: "map_of (st_runs s) (run_ID r) = Some previous" "run_SessionID previous = run_SessionID r"
      "legalProjectedRunTransition (run_Status previous) (run_Status r)"
      "run_Sequence r = run_Sequence previous" "run_AdmittedVersion r = run_AdmittedVersion previous"
      "run_Message r = run_Message previous" "agent_ok L (run_Agent r)"
    and L: "lib_ok L"
  shows "store_inv L (snd (transition_run L w x r event_type extra s))"
  unfolding transition_run_def appendRunEventLocked_def Let_def prod.case
proof (intro outcome_state [where P = "store_inv L"] inv)
  fix e0 ep e p
  assume e0: "NewSessionRunTransitionEvent L (NewID w PrefixEvent 0) r = Inr e0" and ep: "ep = (e, p)"
    and pn: "project_next L x (history s (agg_Aggregate e0)) e0 = Inr ep"
  have agg: "agg_Aggregate e0 = session_ref (run_SessionID r)" and ety: "run_event_type (run_Status r) = Some (agg_Type e0)"
    using e0 by (auto simp: NewSessionRunTransitionEvent_def split: option.splits)
  have e: "e = e0\<lparr>agg_Version := ses_AggregateVersion x + 1\<rparr>" using pn by (simp add: ep project_next_ok)
  have "commits L s (run_SessionID r) e p" using x agg pn by (intro project_next_commits) (simp_all add: ep)
  then have "store_inv L ((commit e p s)\<lparr>st_runs := AList.update (run_ID r) r (st_runs s)\<rparr>)"
    by (rule transition_inv [OF inv _ refl r])
      (use ety run_transition_event [OF L r(7) e0] in \<open>simp_all add: e\<close>)
  then show "store_inv L (commit e p (s\<lparr>st_events := es\<rparr>)\<lparr>st_runs := AList.update (run_ID r) r
      (st_runs (commit e p (s\<lparr>st_events := es\<rparr>)))\<rparr>)" for es
    by (rule store_inv_frame)
      (simp_all add: appendPermissionAggregateCommitLocked_def Let_def history_def)
qed

lemma next_queued_in:
  "next_queued sid rs = Some r \<Longrightarrow> r \<in> set rs \<and> run_SessionID r = sid \<and> run_Status r = SessionRunStatusQueued"
proof -
  have "fold (\<lambda>r n. if run_SessionID r = sid \<and> run_Status r = SessionRunStatusQueued
       \<and> (case n of None \<Rightarrow> True | Some m \<Rightarrow> run_Sequence r < run_Sequence m) then Some r else n) rs n = Some r \<Longrightarrow>
     n = Some r \<or> (r \<in> set rs \<and> run_SessionID r = sid \<and> run_Status r = SessionRunStatusQueued)" for n
    by (induction rs arbitrary: n) (fastforce split: if_splits)+
  then show "next_queued sid rs = Some r \<Longrightarrow> ?thesis" by (fastforce simp: next_queued_def)
qed

lemma store_inv_run:
  assumes "store_inv L s" "lib_ok L" "r \<in> set (vals (st_runs s))"
  shows "map_of (st_runs s) (run_ID r) = Some r" "copySessionRun L r = r" "agent_ok L (run_Agent r)"
  using assms copySessionRun_ok by (auto simp: store_inv_def tables_ok_def map_simps keyed_def)

lemma ClaimNextSessionRun_inv:
  assumes inv: "store_inv L s" and L: "lib_ok L"
  shows "store_inv L (snd (ClaimNextSessionRun L w sid s))"
  unfolding ClaimNextSessionRun_def
proof (intro outcome_state [where P = "store_inv L"] inv)
  fix x r assume x: "lookup ErrSessionNotFound (st_sessions s) sid = Inr x" and r: "next_queued sid (vals (st_runs s)) = Some r"
  note q = next_queued_in [OF r]
  note row = store_inv_run [OF inv L conjunct1 [OF q]]
  show "store_inv L (snd (transition_run L w x ((copySessionRun L r)\<lparr>run_Status := SessionRunStatusRunning,
      run_StartedAt := w_now w, run_UpdatedAt := w_now w\<rparr>) ''session.run.started'' [] s))"
    by (rule transition_run_inv [OF inv _ _ _ _ _ _ _ _ L, where previous = r])
      (use x q row in \<open>simp_all add: legalProjectedRunTransition_def\<close>)
qed

lemma SettleSessionRun_inv:
  assumes inv: "store_inv L s" and L: "lib_ok L"
  shows "store_inv L (snd (SettleSessionRun L w st s))"
  unfolding SettleSessionRun_def Let_def
proof (intro outcome_state [where P = "store_inv L"] inv)
  fix r x assume r: "lookup ErrSessionRunNotFound (st_runs s) (stl_ID st) = Inr r"
    and x: "lookup ErrSessionNotFound (st_sessions s) (run_SessionID ((copySessionRun L r)\<lparr>run_Status := stl_Status st,
      run_ErrorType := stl_ErrorType st, run_ErrorMessage := stl_ErrorMessage st, run_CompletedAt := w_now w,
      run_UpdatedAt := w_now w\<rparr>)) = Inr x"
    and legal: "\<not> (run_Status r \<noteq> stl_ExpectedStatus st \<or> \<not> legalSessionRunSettlement (run_Status r) (stl_Status st))"
  have "r \<in> set (vals (st_runs s))"
    using r inv by (auto simp: store_inv_def tables_ok_def map_simps)
  note row = store_inv_run [OF inv L this]
  show "store_inv L (snd (transition_run L w x ((copySessionRun L r)\<lparr>run_Status := stl_Status st,
      run_ErrorType := stl_ErrorType st, run_ErrorMessage := stl_ErrorMessage st, run_CompletedAt := w_now w,
      run_UpdatedAt := w_now w\<rparr>) (''session.run.'' @ stl_Status st) (stl_EventData st) s))"
    by (rule transition_run_inv [OF inv _ _ _ _ _ _ _ _ L, where previous = r])
      (use x row legal settlement_projected in simp_all)
qed

end
