(* ===== verification/Preserve_Messages.thy ===== *)
theory Preserve_Messages
  imports Preserve_Runs
begin

text \<open>Saving messages and model calls keeps the invariant of the store.\<close>

section \<open>Messages\<close>

lemma validate_parts_conv:
  "validate_parts_loop mid ps ids seqs = Inr () \<longleftrightarrow>
     (\<forall>p \<in> set ps. prt_MessageID p = mid \<and> prt_ID p \<notin> set ids \<and> prt_Sequence p \<notin> set seqs)
     \<and> distinct (map prt_ID ps) \<and> distinct (map prt_Sequence ps)"
proof (induction mid ps ids seqs rule: validate_parts_loop.induct)
  case (2 mid p ps ids seqs)
  have "prt_ID p \<notin> set (map prt_ID ps) \<longleftrightarrow> (\<forall>q \<in> set ps. prt_ID q \<noteq> prt_ID p)"
    "prt_Sequence p \<notin> set (map prt_Sequence ps) \<longleftrightarrow> (\<forall>q \<in> set ps. prt_Sequence q \<noteq> prt_Sequence p)"
    by (auto simp: image_iff)
  then show ?case using 2 by (auto simp del: set_map)
qed simp

lemma prepare_part_simps [simp]:
  "prt_ID (prepare_part old now p) = prt_ID p" "prt_MessageID (prepare_part old now p) = prt_MessageID p"
  "prt_Sequence (prepare_part old now p) = prt_Sequence p" "prt_Kind (prepare_part old now p) = prt_Kind p"
  "prt_PayloadJSON (prepare_part old now p) = prt_PayloadJSON p"
  by (simp_all add: prepare_part_def Let_def split: option.split)

lemma prepareMessageSnapshot_simps [simp]:
  "msg_ID (prepareMessageSnapshot m ex old now) = msg_ID m"
  "msg_SessionID (prepareMessageSnapshot m ex old now) = msg_SessionID m"
  "msg_RunID (prepareMessageSnapshot m ex old now) = msg_RunID m"
  "msg_Idx (prepareMessageSnapshot m ex old now) = msg_Idx m"
  "msg_Role (prepareMessageSnapshot m ex old now) = msg_Role m"
  "msg_Revision (prepareMessageSnapshot m ex old now) = msg_Revision m"
  "msg_State (prepareMessageSnapshot m ex old now) = msg_State m"
  "msg_MetadataJSON (prepareMessageSnapshot m ex old now) = msg_MetadataJSON m"
  "msg_Parts (prepareMessageSnapshot m ex old now) = map (prepare_part old now) (msg_Parts m)"
  by (simp_all add: prepareMessageSnapshot_def Let_def split: option.split)

text \<open>The parts of a snapshot are the message's own, and their identifiers are not taken by another message.\<close>

definition parts_valid :: "store \<Rightarrow> stored_message \<Rightarrow> bool" where
  "parts_valid s m \<longleftrightarrow> distinct (map prt_ID (msg_Parts m)) \<and> (\<forall>p \<in> set (msg_Parts m). prt_MessageID p = msg_ID m
     \<and> (\<forall>q. map_of (st_parts s) (prt_ID p) = Some q \<longrightarrow> prt_MessageID q = msg_ID m))"

lemma parts_valid_prepare [simp]:
  "parts_valid s (prepareMessageSnapshot m ex old now) = parts_valid s m"
  by (simp add: parts_valid_def comp_def)

lemma message_ok_prepare [simp]:
  "message_ok L (prepareMessageSnapshot m ex old now) = message_ok L m"
  by (simp add: message_ok_def part_ok_def list_all_iff)

lemma save_snapshot_inv:
  assumes inv: "store_inv L s" and L: "lib_ok L" "message_ok L m" and parts: "parts_valid s m"
    and old: "\<And>u. map_of (st_messages s) (msg_ID m) = Some u \<Longrightarrow> msg_Revision u < msg_Revision m
      \<and> msg_SessionID u = msg_SessionID m \<and> msg_RunID u = msg_RunID m \<and> msg_Idx u = msg_Idx m \<and> msg_Role u = msg_Role m"
    and new: "\<And>k u. map_of (st_messages s) (msg_ID m) = None \<Longrightarrow> map_of (st_messages s) k = Some u \<Longrightarrow>
      msg_SessionID u = msg_SessionID m \<Longrightarrow> msg_Idx u \<noteq> msg_Idx m"
  shows "store_inv L (snd (save_snapshot L w m s))"
proof -
  let ?sid = "msg_SessionID m"
  obtain J where J: "messages_rel J (st_messages s) (st_parts s)" and ok: "sessions_ok L s J" "tables_ok L s"
    using inv by (auto simp: store_inv_def)
  have "store_inv L (applyMessageSnapshotLocked m (commit e p s))" (is "store_inv L ?t")
    if e0: "NewSessionMessageSavedEvent L eid m = Inr e0" and an: "append_next L e0 s = Inr (e, p)" for eid e0 e p
  proof -
    have shape: "agg_Aggregate e0 = session_ref ?sid" "agg_Type e0 = EventSessionMessageSaved"
      using e0 by (auto simp: NewSessionMessageSavedEvent_def res_simps)
    have c: "commits L s ?sid e p"
      using an shape by (auto simp: append_next_ok intro: project_next_commits)
    have e: "same_fact e e0" "agg_Type e = EventSessionMessageSaved"
      using an shape by (auto simp: append_next_ok project_next_ok)
    obtain q where "projectSessionEvent L (Some q) e = Inr p" using commits_last [OF ok(1) c] by blast
    then obtain m' where "ProjectSessionMessageSaved L e = Inr m'" using projected_decodes(1) e(2) by blast
    then have "ProjectSessionMessageSaved L e = Inr m"
      using message_event [OF L e0 e(1)] by (simp add: res_simps split: if_splits)
    then have dec: "ProjectSessionMessageSaved L (e\<lparr>agg_GlobalSequence := g\<rparr>) = Inr m" for g by simp
    let ?J = "AList.update (msg_ID m) m J"
    have msgs: "messages_ok L ?sid (history s (session_ref ?sid) @ [e\<lparr>agg_GlobalSequence := g\<rparr>]) ?J" for g
    proof (rule messages_snoc [OF _ _ dec])
      show "messages_ok L ?sid (history s (session_ref ?sid)) J"
        using sessions_okD(2) [OF ok(1)] by (simp add: views_ok_def)
      show "map_of J (msg_ID m) = Some u \<Longrightarrow> msg_Revision u < msg_Revision m \<and> msg_SessionID u = ?sid
          \<and> msg_RunID u = msg_RunID m \<and> msg_Idx u = msg_Idx m \<and> msg_Role u = msg_Role m" for u
        using messages_rel_row(1) [OF J] old by fastforce
      show "map_of J (msg_ID m) = None \<Longrightarrow> map_of J k = Some u \<Longrightarrow> msg_SessionID u = ?sid \<Longrightarrow> msg_Idx u \<noteq> msg_Idx m" for k u
        using messages_rel_row(1,3) [OF J] new by fastforce
    qed (simp_all add: e)
    show ?thesis
    proof (rule store_invI)
      show "tables_ok L ?t" using commit_tables [OF ok(2,1) c]
        unfolding tables_ok_def applyMessageSnapshotLocked_def by simp
      have "wf_map (st_parts s)" using ok(2) by (simp add: tables_ok_def)
      from messages_rel_save [OF J this, of m] parts
      show "messages_rel ?J (st_messages ?t) (st_parts ?t)"
        by (simp add: applyMessageSnapshotLocked_def parts_valid_def)
      show "sessions_ok L ?t ?J"
      proof (rule commit_sessions [OF ok(1) c])
        show "views_ok L ?sid (history s (session_ref ?sid) @ [e\<lparr>agg_GlobalSequence := g\<rparr>]) ?t ?J" for g
          using views_message [OF _ sessions_okD(2) [OF ok(1)] msgs] e(2)
          by (subst views_ok_frame [where s = s]) (simp_all add: applyMessageSnapshotLocked_def)
        show "views_ok L i evs s J \<Longrightarrow> views_ok L i evs ?t ?J" if "i \<noteq> ?sid" for i evs
        proof (erule views_ok_cong)
          show "own msg_SessionID i ?J = own msg_SessionID i J"
          proof (rule own_update_other)
            show "msg_SessionID u \<noteq> i" if "map_of J (msg_ID m) = Some u" for u
              using old [OF messages_rel_row(1) [OF J that]] \<open>i \<noteq> ?sid\<close> by simp
          qed (use that in simp)
        qed (simp_all add: applyMessageSnapshotLocked_def)
      qed (simp_all add: applyMessageSnapshotLocked_def appendPermissionAggregateCommitLocked_def Let_def)
    qed
  qed
  then show ?thesis unfolding save_snapshot_def
    by (intro outcome_state [where P = "store_inv L"] inv)
      (auto simp: appendMessageAggregateLocked_def res_simps)
qed

lemma SaveMessage_inv:
  assumes inv: "store_inv L s" and L: "lib_ok L" "message_ok L m"
    and free: "\<And>p q. p \<in> set (msg_Parts m) \<Longrightarrow> map_of (st_parts s) (prt_ID p) = Some q \<Longrightarrow> prt_MessageID q = msg_ID m"
  shows "store_inv L (snd (SaveMessage L w m s))"
proof -
  define n where "n = (let m = (if msg_Revision m = 0 then m\<lparr>msg_Revision := 1\<rparr> else m) in
    if msg_State m = '''' then m\<lparr>msg_State := ''completed''\<rparr> else m)"
  have n: "message_ok L n" "msg_ID n = msg_ID m" "msg_Parts n = msg_Parts m"
    using L(2) by (simp_all add: n_def Let_def message_ok_def)
  have valid: "parts_valid s n" if "validateMessageParts n = Inr ()"
    using that free n by (auto simp: validateMessageParts_def validate_parts_conv parts_valid_def)
  have rows: "x \<in> set (vals (st_messages s)) \<longleftrightarrow> (\<exists>k. map_of (st_messages s) k = Some x)" for x
    using inv by (intro vals_mem) (simp add: store_inv_def tables_ok_def)
  show ?thesis unfolding SaveMessage_def n_def [unfolded Let_def, symmetric] Let_def
    by (intro outcome_state [where P = "store_inv L"] inv; rule save_snapshot_inv [OF inv L(1)])
      (use n(1) valid rows in \<open>auto split: if_splits\<close>)
qed

end
