(* ===== verification/Preserve_Calls.thy ===== *)
theory Preserve_Calls
  imports Preserve_Messages
begin

text \<open>
  Model calls keep the invariant, one at a time and as a batch: the batch is validated against
  copies of the histories that carry no global sequence numbers yet, and committing it event by
  event gives the stores the validation saw.
\<close>

section \<open>One call\<close>

lemma call_commit_inv:
  assumes inv: "store_inv L s" and L: "lib_ok L" "model_call_ok L c"
    and e0: "NewSessionModelCallSavedEvent L eid c = Inr e0" and fact: "same_fact e e0"
    and cm: "commits L s (mcl_SessionID c) e p"
    and old: "\<And>u. map_of (st_modelCalls s) (mcl_ID c) = Some u \<Longrightarrow> mcl_SessionID u = mcl_SessionID c
      \<and> attempt_key u = attempt_key c \<and> mcl_StartedAt u = mcl_StartedAt c \<and> mcl_CreatedAt u = mcl_CreatedAt c"
    and new: "\<And>k u. map_of (st_modelCalls s) (mcl_ID c) = None \<Longrightarrow> map_of (st_modelCalls s) k = Some u \<Longrightarrow>
      mcl_RunID c \<noteq> '''' \<Longrightarrow> attempt_key u \<noteq> attempt_key c"
  shows "store_inv L (commit e p (s\<lparr>st_modelCalls := AList.update (mcl_ID c) c (st_modelCalls s)\<rparr>))" (is "store_inv L ?t")
proof -
  let ?sid = "mcl_SessionID c" and ?C = "AList.update (mcl_ID c) c (st_modelCalls s)"
  obtain J where J: "messages_rel J (st_messages s) (st_parts s)" and ok: "sessions_ok L s J" "tables_ok L s"
    using inv by (auto simp: store_inv_def)
  have ety: "agg_Type e = EventSessionModelCallSaved"
    using e0 fact by (auto simp: NewSessionModelCallSavedEvent_def res_simps same_fact_def)
  obtain q where "projectSessionEvent L (Some q) e = Inr p" using commits_last [OF ok(1) cm] by blast
  then obtain c' where "ProjectSessionModelCallSaved L e = Inr c'" using projected_decodes(2) ety by blast
  then have "ProjectSessionModelCallSaved L e = Inr c"
    using model_call_event [OF L e0 fact] by (simp split: if_splits)
  then have dec: "ProjectSessionModelCallSaved L (e\<lparr>agg_GlobalSequence := g\<rparr>) = Inr c" for g by simp
  have view: "calls_ok L ?sid (history s (session_ref ?sid)) (st_modelCalls s)"
    using sessions_okD(2) [OF ok(1)] by (simp add: views_ok_def)
  have calls: "calls_ok L ?sid (history s (session_ref ?sid) @ [e\<lparr>agg_GlobalSequence := g\<rparr>]) ?C" for g
  proof (cases "map_of (st_modelCalls s) (mcl_ID c)")
    case None
    show ?thesis by (rule calls_snoc_new [OF view _ dec refl None]) (use ety new [OF None] in auto)
  next
    case (Some u)
    show ?thesis by (rule calls_snoc_existing [OF view _ dec refl Some]) (use ety old [OF Some] in simp_all)
  qed
  have hist: "history (s\<lparr>st_modelCalls := ?C\<rparr>) = history s" by (rule history_frame) simp
  have same: "st_sessions ?t = st_sessions (commit e p s)" "st_aggregates ?t = st_aggregates (commit e p s)"
    by (simp_all add: appendPermissionAggregateCommitLocked_def Let_def hist)
  show ?thesis
  proof (rule store_invI)
    show "tables_ok L ?t" using commit_tables [OF ok(2,1) cm] L(2) unfolding tables_ok_def same by simp
    show "messages_rel J (st_messages ?t) (st_parts ?t)" using J by simp
    show "sessions_ok L ?t J"
    proof (rule commit_sessions [OF ok(1) cm same])
      show "views_ok L ?sid (history s (session_ref ?sid) @ [e\<lparr>agg_GlobalSequence := g\<rparr>]) ?t J" for g
        using views_call [OF _ sessions_okD(2) [OF ok(1)] calls] ety
        by (subst views_ok_frame [where s = "s\<lparr>st_modelCalls := ?C\<rparr>"]) simp_all
      show "views_ok L i evs s J \<Longrightarrow> views_ok L i evs ?t J" if "i \<noteq> ?sid" for i evs
        by (erule views_ok_cong) (use that old in \<open>auto intro!: own_update_other\<close>)
    qed
  qed
qed

lemma default_model_call_simps [simp]:
  "mcl_ID (default_model_call w c) = mcl_ID c" "mcl_SessionID (default_model_call w c) = mcl_SessionID c"
  "mcl_RunID (default_model_call w c) = mcl_RunID c" "mcl_Step (default_model_call w c) = mcl_Step c"
  "model_call_ok L (default_model_call w c) = model_call_ok L c"
  by (simp_all add: default_model_call_def Let_def model_call_ok_def)

lemma keep_call_identity_simps [simp]:
  "mcl_ID (keep_call_identity old c) = mcl_ID c" "mcl_SessionID (keep_call_identity old c) = mcl_SessionID old"
  "attempt_key (keep_call_identity old c) = attempt_key old" "mcl_RunID (keep_call_identity old c) = mcl_RunID old"
  "mcl_Step (keep_call_identity old c) = mcl_Step old" "mcl_Attempt (keep_call_identity old c) = mcl_Attempt old"
  "mcl_StartedAt (keep_call_identity old c) = mcl_StartedAt old"
  "mcl_CreatedAt (keep_call_identity old c) = mcl_CreatedAt old"
  "model_call_ok L (keep_call_identity old c) = model_call_ok L c"
  by (simp_all add: keep_call_identity_def attempt_key_def model_call_ok_def)

lemma append_next_commits:
  assumes "append_next L e0 s = Inr (e, p)" "agg_Aggregate e0 = session_ref sid"
  shows "commits L s sid e p \<and> same_fact e e0"
  using assms by (auto simp: append_next_ok project_next_ok intro!: project_next_commits)

lemma UpsertModelCall_inv:
  assumes inv: "store_inv L s" and L: "lib_ok L" "model_call_ok L c"
  shows "store_inv L (snd (UpsertModelCall L w c s))"
proof -
  define d where "d = (if mcl_ID c = '''' then c\<lparr>mcl_ID := NewID w PrefixModelCall 0\<rparr> else c)"
  have d: "model_call_ok L d" using L(2) by (simp add: d_def model_call_ok_def)
  have rows: "x \<in> set (vals (st_modelCalls s)) \<longleftrightarrow> (\<exists>k. map_of (st_modelCalls s) k = Some x)" for x
    using inv by (intro vals_mem) (simp add: store_inv_def tables_ok_def)
  have save: "store_inv L (snd (save_model_call L w x s))"
    if "model_call_ok L x"
      "\<And>u. map_of (st_modelCalls s) (mcl_ID x) = Some u \<Longrightarrow> mcl_SessionID u = mcl_SessionID x
        \<and> attempt_key u = attempt_key x \<and> mcl_StartedAt u = mcl_StartedAt x \<and> mcl_CreatedAt u = mcl_CreatedAt x"
      "\<And>k u. map_of (st_modelCalls s) (mcl_ID x) = None \<Longrightarrow> map_of (st_modelCalls s) k = Some u \<Longrightarrow>
        mcl_RunID x \<noteq> '''' \<Longrightarrow> attempt_key u \<noteq> attempt_key x" for x
    unfolding save_model_call_def
  proof (intro outcome_state [where P = "store_inv L"] inv)
    fix e0 ep e p
    assume e0: "NewSessionModelCallSavedEvent L (NewID w PrefixEvent 1) x = Inr e0" "append_next L e0 s = Inr ep" "ep = (e, p)"
    have "agg_Aggregate e0 = session_ref (mcl_SessionID x)"
      using e0(1) by (auto simp: NewSessionModelCallSavedEvent_def res_simps)
    then have cm: "commits L s (mcl_SessionID x) e p \<and> same_fact e e0" using e0(2,3) append_next_commits by blast
    show "store_inv L (commit e p (s\<lparr>st_modelCalls := AList.update (mcl_ID x) x (st_modelCalls s)\<rparr>))"
    proof (rule call_commit_inv [OF inv L(1) that(1) e0(1)])
      show "same_fact e e0" "commits L s (mcl_SessionID x) e p" using cm by auto
    qed (erule that(2), erule (2) that(3))
  qed
  show ?thesis unfolding UpsertModelCall_def d_def [symmetric] Let_def
    by (intro outcome_state [where P = "store_inv L"] inv save)
      (use d rows in \<open>auto simp: attempt_key_def\<close>)
qed

section \<open>Batches\<close>

definition strip :: "aggregate_event \<Rightarrow> aggregate_event" where
  "strip e = e\<lparr>agg_GlobalSequence := 0\<rparr>"

lemma strip_global [simp]: "strip (e\<lparr>agg_GlobalSequence := g\<rparr>) = strip e"
  by (simp add: strip_def)

lemma session_fold_strip: "foldE (session_step L) st (map strip evs) = foldE (session_step L) st evs"
  by (induction evs arbitrary: st) (simp_all add: strip_def session_step_global)

lemma ProjectSession_strip: "map strip evs = map strip evs' \<Longrightarrow> ProjectSession L evs = ProjectSession L evs'"
  unfolding ProjectSession_def by (metis session_fold_strip)

definition pending_rel :: "store \<Rightarrow> pending_state \<Rightarrow> store \<Rightarrow> bool" where
  "pending_rel s = (\<lambda>(evs, sessions) t.
     (\<forall>i. map_of (st_sessions t) i = (case map_of sessions i of Some x \<Rightarrow> Some x | None \<Rightarrow> map_of (st_sessions s) i)) \<and>
     (\<forall>ref. map strip (pending_history s evs ref) = map strip (history t ref)))"

lemma pending_rel_start: "pending_rel s ([], []) s"
  by (simp add: pending_rel_def pending_history_def)

lemma pending_rel_next:
  assumes rel: "pending_rel s (evs, sessions) t" and x: "pending_session s sessions sid = Inr x"
    and e0: "agg_Aggregate e0 = session_ref sid"
    and pn: "project_next L x (pending_history s evs (session_ref sid)) e0 = Inr (e, p)"
  shows "commits L t sid e p"
    and "st_sessions t' = st_sessions (commit e p t) \<Longrightarrow> st_aggregates t' = st_aggregates (commit e p t) \<Longrightarrow>
      pending_rel s (AList.update (session_ref sid) (pending_history s evs (session_ref sid) @ [e]) evs,
        AList.update sid p sessions) t'"
proof -
  have agg: "agg_Aggregate e = session_ref sid" using pn e0 by (auto simp: project_next_ok)
  have "map_of (st_sessions t) sid = Some x"
    using rel x by (auto simp: pending_rel_def pending_session_def split: option.splits)
  moreover have "ProjectSession L (history t (session_ref sid) @ [e]) = Inr p"
  proof -
    have "map strip (history t (session_ref sid) @ [e]) = map strip (pending_history s evs (session_ref sid) @ [e])"
      using rel by (simp add: pending_rel_def)
    moreover have "ProjectSession L (pending_history s evs (session_ref sid) @ [e]) = Inr p"
      using pn unfolding project_next_ok by blast
    ultimately show ?thesis using ProjectSession_strip by metis
  qed
  ultimately show "commits L t sid e p" using agg by (simp add: commits_def)
  assume t': "st_sessions t' = st_sessions (commit e p t)" "st_aggregates t' = st_aggregates (commit e p t)"
  have "history t' = history (commit e p t)" by (rule history_frame) (rule t'(2))
  then show "pending_rel s (AList.update (session_ref sid) (pending_history s evs (session_ref sid) @ [e]) evs,
        AList.update sid p sessions) t'"
    using rel agg by (simp add: pending_rel_def t'(1) pending_history_def split: option.splits)
qed

lemma prepare_calls_inv:
  assumes "foldE (prepare_call_update L w s) ((evs, sessions), us) cs = Inr (pend, us')"
    and "store_inv L (fold commit_call_update us s)" "pending_rel s (evs, sessions) (fold commit_call_update us s)"
    and "lib_ok L" "distinct (map mcl_ID cs)"
    and "\<forall>c \<in> set cs. model_call_ok L c \<and> (\<exists>u. map_of (st_modelCalls (fold commit_call_update us s)) (mcl_ID c) = Some u
      \<and> mcl_SessionID u = mcl_SessionID c \<and> attempt_key u = attempt_key c \<and> mcl_StartedAt u = mcl_StartedAt c
      \<and> mcl_CreatedAt u = mcl_CreatedAt c)"
  shows "store_inv L (fold commit_call_update us' s)"
  using assms
proof (induction cs arbitrary: evs sessions us)
  case (Cons c cs)
  let ?t = "fold commit_call_update us s"
  from Cons.prems(1) obtain e0 x e p where
    e0: "NewSessionModelCallSavedEvent L (NewID w PrefixEvent (length us)) c = Inr e0"
    and x: "pending_session s sessions (mcl_SessionID c) = Inr x"
    and pn: "project_next L x (pending_history s evs (agg_Aggregate e0)) e0 = Inr (e, p)"
    and rest: "foldE (prepare_call_update L w s) ((AList.update (agg_Aggregate e0)
      (pending_history s evs (agg_Aggregate e0) @ [e]) evs, AList.update (mcl_SessionID c) p sessions), us @ [(c, e, p)]) cs
        = Inr (pend, us')"
    by (auto simp: prepare_call_update_def Let_def res_simps project_next_ok)
  have agg: "agg_Aggregate e0 = session_ref (mcl_SessionID c)"
    using e0 by (auto simp: NewSessionModelCallSavedEvent_def res_simps)
  note step = pending_rel_next [OF Cons.prems(3) x agg pn [unfolded agg]]
  let ?t' = "fold commit_call_update (us @ [(c, e, p)]) s"
  have t': "?t' = commit e p (?t\<lparr>st_modelCalls := AList.update (mcl_ID c) c (st_modelCalls ?t)\<rparr>)"
    by (simp add: commit_call_update_def)
  have hist: "history (?t\<lparr>st_modelCalls := C\<rparr>) = history ?t" for C by (rule history_frame) simp
  have "same_fact e e0" using pn by (auto simp: project_next_ok)
  then have "store_inv L ?t'" unfolding t'
    using call_commit_inv [OF Cons.prems(2,4) _ e0 _ step(1)] Cons.prems(6) by auto
  moreover have "pending_rel s (AList.update (agg_Aggregate e0) (pending_history s evs (agg_Aggregate e0) @ [e]) evs,
      AList.update (mcl_SessionID c) p sessions) ?t'"
    unfolding agg t' by (rule step(2)) (simp_all add: appendPermissionAggregateCommitLocked_def Let_def hist)
  moreover have "mcl_ID c \<notin> mcl_ID ` set cs" using Cons.prems(5) by simp
  then have "\<forall>d \<in> set cs. map_of (st_modelCalls ?t') (mcl_ID d) = map_of (st_modelCalls ?t) (mcl_ID d)"
    unfolding t' by (auto simp: image_iff)
  ultimately show ?case using Cons.prems(4,5,6) by (intro Cons.IH [OF rest]) simp_all
qed simp

lemma InterruptActiveModelCalls_inv:
  assumes inv: "store_inv L s" and L: "lib_ok L"
  shows "store_inv L (snd (InterruptActiveModelCalls L w runID errorType errorMessage s))"
proof -
  let ?cs = "map (interrupted_call w errorType errorMessage)
    (filter (\<lambda>c. mcl_RunID c = runID \<and> mcl_Status c = ModelCallStatusStarted) (vals (st_modelCalls s)))"
  have tab: "wf_map (st_modelCalls s)" "keyed mcl_ID (st_modelCalls s)"
    "\<forall>k c. map_of (st_modelCalls s) k = Some c \<longrightarrow> model_call_ok L c"
    using inv by (auto simp: store_inv_def tables_ok_def)
  have simps: "mcl_ID (interrupted_call w errorType errorMessage c) = mcl_ID c"
    "mcl_SessionID (interrupted_call w errorType errorMessage c) = mcl_SessionID c"
    "attempt_key (interrupted_call w errorType errorMessage c) = attempt_key c"
    "mcl_StartedAt (interrupted_call w errorType errorMessage c) = mcl_StartedAt c"
    "mcl_CreatedAt (interrupted_call w errorType errorMessage c) = mcl_CreatedAt c"
    "model_call_ok L (interrupted_call w errorType errorMessage c) = model_call_ok L c" for c
    by (simp_all add: interrupted_call_def attempt_key_def model_call_ok_def)
  have dist: "distinct (map mcl_ID ?cs)"
    using keyed_vals_distinct [OF tab(1,2)] by (simp add: comp_def simps distinct_map_filter)
  have rows: "\<forall>c \<in> set ?cs. model_call_ok L c \<and> (\<exists>u. map_of (st_modelCalls s) (mcl_ID c) = Some u
      \<and> mcl_SessionID u = mcl_SessionID c \<and> attempt_key u = attempt_key c \<and> mcl_StartedAt u = mcl_StartedAt c
      \<and> mcl_CreatedAt u = mcl_CreatedAt c)"
    using tab by (auto simp: simps map_simps keyed_def)
  have "store_inv L (fold commit_call_update us s)"
    if "foldE (prepare_call_update L w s) (([], []), []) ?cs = Inr (pend, us)" for pend us
    using prepare_calls_inv [OF that _ _ L dist] rows inv pending_rel_start by simp
  then show ?thesis unfolding InterruptActiveModelCalls_def
    by (intro outcome_state [where P = "store_inv L"] inv) simp
qed

end
