(* ===== verification/Preserve_Tools.thy ===== *)
theory Preserve_Tools
  imports Preserve_Calls
begin

text \<open>Tool uses, permission requests and grants keep the invariant of the store.\<close>

section \<open>Tool uses\<close>

lemma use_commit_inv:
  assumes inv: "store_inv L s" and L: "lib_ok L"
    and e0: "NewSessionToolUseSavedEvent L eid u = Inr e0" and fact: "same_fact e e0"
    and cm: "commits L s (tlu_SessionID u) e p"
    and old: "\<And>x. map_of (st_toolUses s) (tlu_ID u) = Some x \<Longrightarrow>
      sameToolUseIdentity x u \<and> legalToolUseTransition (tlu_Status x) (tlu_Status u)"
    and new: "map_of (st_toolUses s) (tlu_ID u) = None \<Longrightarrow> tlu_Status u = ToolUseStatusProposed \<and>
      (\<forall>k x. map_of (st_toolUses s) k = Some x \<longrightarrow> tlu_RunID u \<noteq> '''' \<longrightarrow> use_key x \<noteq> use_key u)"
  shows "store_inv L (put_tool_use u (commit e p s))" (is "store_inv L ?t")
proof -
  let ?sid = "tlu_SessionID u" and ?U = "AList.update (tlu_ID u) u (st_toolUses s)"
  obtain J where J: "messages_rel J (st_messages s) (st_parts s)" and ok: "sessions_ok L s J" "tables_ok L s"
    using inv by (auto simp: store_inv_def)
  have ety: "agg_Type e = EventSessionToolUseSaved"
    using e0 fact by (auto simp: NewSessionToolUseSavedEvent_def same_fact_def)
  obtain q where "projectSessionEvent L (Some q) e = Inr p" using commits_last [OF ok(1) cm] by blast
  then obtain u' where "ProjectSessionToolUseSaved L e = Inr u'" using projected_decodes(3) ety by blast
  then have "ProjectSessionToolUseSaved L e = Inr u" using tool_use_event [OF L e0 fact] by (simp split: if_splits)
  then have dec: "ProjectSessionToolUseSaved L (e\<lparr>agg_GlobalSequence := g\<rparr>) = Inr u" for g by simp
  have view: "uses_ok L ?sid (history s (session_ref ?sid)) (st_toolUses s)"
    using sessions_okD(2) [OF ok(1)] by (simp add: views_ok_def)
  have uses: "uses_ok L ?sid (history s (session_ref ?sid) @ [e\<lparr>agg_GlobalSequence := g\<rparr>]) ?U" for g
  proof (cases "map_of (st_toolUses s) (tlu_ID u)")
    case None
    show ?thesis by (rule uses_snoc_new [OF view _ dec refl None]) (use ety new [OF None] in auto)
  next
    case (Some x)
    show ?thesis by (rule uses_snoc_existing [OF view _ dec refl Some]) (use ety old [OF Some] in simp_all)
  qed
  show ?thesis
  proof (rule store_invI)
    show "tables_ok L ?t" using commit_tables [OF ok(2,1) cm] unfolding tables_ok_def put_tool_use_def by simp
    show "messages_rel J (st_messages ?t) (st_parts ?t)" using J by (simp add: put_tool_use_def)
    show "sessions_ok L ?t J"
    proof (rule commit_sessions [OF ok(1) cm])
      show "views_ok L ?sid (history s (session_ref ?sid) @ [e\<lparr>agg_GlobalSequence := g\<rparr>]) ?t J" for g
        using views_use [OF _ sessions_okD(2) [OF ok(1)] uses] ety
        by (subst views_ok_frame [where s = "s\<lparr>st_toolUses := ?U\<rparr>"]) (simp_all add: put_tool_use_def)
      show "views_ok L i evs s J \<Longrightarrow> views_ok L i evs ?t J" if "i \<noteq> ?sid" for i evs
      proof (erule views_ok_cong)
        show "own tlu_SessionID i (st_toolUses ?t) = own tlu_SessionID i (st_toolUses s)"
          using that old by (auto simp: put_tool_use_def sameToolUseIdentity_def intro!: own_update_other)
      qed (simp_all add: put_tool_use_def)
    qed (simp_all add: put_tool_use_def)
  qed
qed

lemma save_tool_use_inv:
  assumes inv: "store_inv L s" and L: "lib_ok L"
    and old: "\<And>x. map_of (st_toolUses s) (tlu_ID u) = Some x \<Longrightarrow>
      sameToolUseIdentity x u \<and> legalToolUseTransition (tlu_Status x) (tlu_Status u)"
    and new: "map_of (st_toolUses s) (tlu_ID u) = None \<Longrightarrow> tlu_Status u = ToolUseStatusProposed \<and>
      (\<forall>k x. map_of (st_toolUses s) k = Some x \<longrightarrow> tlu_RunID u \<noteq> '''' \<longrightarrow> use_key x \<noteq> use_key u)"
    and t: "appendToolUseAggregateLocked L eid u s = Inr t"
  shows "store_inv L (put_tool_use u t)"
proof -
  obtain x e0 e p where x: "map_of (st_sessions s) (tlu_SessionID u) = Some x"
    and e0: "NewSessionToolUseSavedEvent L eid u = Inr e0"
    and pn: "project_next L x (history s (agg_Aggregate e0)) e0 = Inr (e, p)" and t': "t = commit e p s"
    using t by (auto simp: appendToolUseAggregateLocked_def res_simps)
  have agg: "agg_Aggregate e0 = session_ref (tlu_SessionID u)" using e0 by (auto simp: NewSessionToolUseSavedEvent_def)
  have cm: "commits L s (tlu_SessionID u) e p" using x agg pn by (intro project_next_commits) simp_all
  have fact: "same_fact e e0" using pn by (auto simp: project_next_ok)
  show ?thesis unfolding t' by (rule use_commit_inv [OF inv L e0 fact cm]) (erule old, erule new)
qed

lemma sameToolUseIdentity_time [simp]:
  "sameToolUseIdentity x (stamp_tool_use w old u) = sameToolUseIdentity x u"
  "sameToolUseIdentity x (keep_tool_use_times old u) = sameToolUseIdentity x u"
  "tlu_Status (stamp_tool_use w old u) = tlu_Status u" "tlu_Status (keep_tool_use_times old u) = tlu_Status u"
  "tlu_ID (stamp_tool_use w old u) = tlu_ID u" "tlu_ID (keep_tool_use_times old u) = tlu_ID u"
  "tlu_ID (default_tool_use w u) = tlu_ID u" "tlu_Status (default_tool_use w u) = tlu_Status u"
  "tlu_SessionID (default_tool_use w u) = tlu_SessionID u"
  "tlu_RunID (default_tool_use w u) = tlu_RunID u" "tlu_Step (default_tool_use w u) = tlu_Step u"
  "tlu_Ordinal (default_tool_use w u) = tlu_Ordinal u"
  by (simp_all add: sameToolUseIdentity_def stamp_tool_use_def keep_tool_use_times_def default_tool_use_def
      use_key_def Let_def)

lemma SaveToolUse_inv:
  assumes inv: "store_inv L s" and L: "lib_ok L"
  shows "store_inv L (snd (SaveToolUse L w u s))"
proof -
  define v where "v = (if tlu_ID u = '''' then u\<lparr>tlu_ID := NewID w PrefixToolUse 0\<rparr> else u)"
  have rows: "x \<in> set (vals (st_toolUses s)) \<longleftrightarrow> (\<exists>k. map_of (st_toolUses s) k = Some x)" for x
    using inv by (intro vals_mem) (simp add: store_inv_def tables_ok_def)
  show ?thesis unfolding SaveToolUse_def save_tool_use_def v_def [symmetric] Let_def
    by (intro outcome_state [where P = "store_inv L"] inv; rule save_tool_use_inv [OF inv L])
      (use rows in \<open>auto simp: use_key_def\<close>)
qed

lemma interrupted_use_simps [simp]:
  "tlu_ID (interrupted_use w u) = tlu_ID u" "tlu_Status (interrupted_use w u) = ToolUseStatusInterrupted"
  "sameToolUseIdentity u (interrupted_use w u)" "tlu_SessionID (interrupted_use w u) = tlu_SessionID u"
  by (simp_all add: interrupted_use_def sameToolUseIdentity_def)

lemma active_interrupt: "active_tool_use u \<Longrightarrow> legalToolUseTransition (tlu_Status u) ToolUseStatusInterrupted"
  by (auto simp: active_tool_use_def legalToolUseTransition_def)

lemma append_tool_use_table:
  "appendToolUseAggregateLocked L eid u s = Inr t \<Longrightarrow> st_toolUses t = st_toolUses s"
  by (auto simp: appendToolUseAggregateLocked_def res_simps)

lemma interrupt_uses_loop_inv:
  assumes "store_inv L s" "lib_ok L" "distinct (map tlu_ID us)"
    "\<forall>u \<in> set us. map_of (st_toolUses s) (tlu_ID u) = Some u"
  shows "store_inv L (snd (interrupt_uses_loop L w n us s))"
  using assms
proof (induction us arbitrary: n s)
  case (Cons u us)
  have row: "map_of (st_toolUses s) (tlu_ID u) = Some u" using Cons.prems(4) by simp
  show ?case
  proof (cases "active_tool_use u")
    case True
    show ?thesis unfolding interrupt_uses_loop.simps if_P [OF True]
    proof (rule attempt_state [where P = "store_inv L", OF Cons.prems(1)])
      fix t assume t: "appendToolUseAggregateLocked L (NewID w PrefixEvent n) (interrupted_use w u) s = Inr t"
      have "store_inv L (put_tool_use (interrupted_use w u) t)"
        by (rule save_tool_use_inv [OF Cons.prems(1,2) _ _ t]) (use row active_interrupt [OF True] in auto)
      moreover have "\<forall>x \<in> set us. map_of (st_toolUses (put_tool_use (interrupted_use w u) t)) (tlu_ID x) = Some x"
        using Cons.prems(3,4) append_tool_use_table [OF t] by (auto simp: put_tool_use_def image_iff)
      ultimately show "store_inv L (snd (interrupt_uses_loop L w (n + 1) us (put_tool_use (interrupted_use w u) t)))"
        using Cons.prems(2,3) by (intro Cons.IH) simp_all
    qed
  next
    case False
    then show ?thesis using Cons.IH [OF Cons.prems(1,2), of n] Cons.prems(3,4) by simp
  qed
qed simp

lemma InterruptActiveToolUses_inv:
  assumes inv: "store_inv L s" and L: "lib_ok L"
  shows "store_inv L (snd (InterruptActiveToolUses L w s))"
proof -
  have tab: "wf_map (st_toolUses s)" "keyed tlu_ID (st_toolUses s)"
    using inv by (auto simp: store_inv_def tables_ok_def)
  then show ?thesis unfolding InterruptActiveToolUses_def
    using keyed_vals_distinct [OF tab]
    by (intro interrupt_uses_loop_inv inv L) (auto simp: map_simps keyed_def)
qed

end
