(* ===== verification/Preserve_Permissions.thy ===== *)
theory Preserve_Permissions
  imports Preserve_Tools
begin

text \<open>
  Permission requests keep the invariant of the store, and so does a resolution with the grants it
  creates: its loop commits every event with the last projected session, which gives the same store
  as committing each event with its own.
\<close>

section \<open>Requests\<close>

lemma approved_of_update:
  assumes "\<And>old. map_of R (prq_ID r) = Some old \<Longrightarrow> prq_Status old \<noteq> PermissionRequestStatusApproved"
  shows "approved_of sid R \<subseteq> approved_of sid (AList.update (prq_ID r) r R)"
proof
  fix x assume "x \<in> approved_of sid R"
  then obtain k q y where q: "map_of R k = Some q" "prq_SessionID q = sid" "prq_Response q = PermissionResponseAlways"
    "prq_Status q = PermissionRequestStatusApproved" "y \<in> set (prq_Resources q)" "x = grant_key (prq_Action q) y"
    by (auto simp: approved_of_def)
  have "k \<noteq> prq_ID r" using assms q by auto
  then have "map_of (AList.update (prq_ID r) r R) k = Some q" using q(1) by simp
  then show "x \<in> approved_of sid (AList.update (prq_ID r) r R)" using q(2-) unfolding approved_of_def by blast
qed

lemma request_commit_inv:
  assumes inv: "store_inv L s" and cm: "commits L s (prq_SessionID r) e p" and clean: "request_clean r"
    and dec: "ProjectSessionPermissionRequest L e = Inr r"
    and row: "agg_Type e = EventSessionPermissionRequested \<and> map_of (st_permissionRequests s) (prq_ID r) = None \<or>
      agg_Type e = EventSessionPermissionResolved \<and> map_of (st_permissionRequests s) (prq_ID r) = Some old
        \<and> prq_Status old = PermissionRequestStatusPending \<and> samePermissionRequestIdentity old r"
  shows "store_inv L (put_request r (commit e p s))" (is "store_inv L ?t")
proof -
  let ?sid = "prq_SessionID r" and ?R = "AList.update (prq_ID r) r (st_permissionRequests s)"
  obtain J where J: "messages_rel J (st_messages s) (st_parts s)" and ok: "sessions_ok L s J" "tables_ok L s"
    using inv by (auto simp: store_inv_def)
  have dec': "ProjectSessionPermissionRequest L (e\<lparr>agg_GlobalSequence := g\<rparr>) = Inr r" for g using dec by simp
  have view: "requests_ok L ?sid (history s (session_ref ?sid)) (st_permissionRequests s)"
    using sessions_okD(2) [OF ok(1)] by (simp add: views_ok_def)
  have reqs: "requests_ok L ?sid (history s (session_ref ?sid) @ [e\<lparr>agg_GlobalSequence := g\<rparr>]) ?R" for g
    using row
  proof
    assume "agg_Type e = EventSessionPermissionRequested \<and> map_of (st_permissionRequests s) (prq_ID r) = None"
    then show ?thesis by (intro requests_snoc_new [OF view _ dec' refl]) simp_all
  next
    assume old: "agg_Type e = EventSessionPermissionResolved \<and> map_of (st_permissionRequests s) (prq_ID r) = Some old
        \<and> prq_Status old = PermissionRequestStatusPending \<and> samePermissionRequestIdentity old r"
    then show ?thesis by (intro requests_snoc_resolved [OF view _ dec' refl, where old = old]) simp_all
  qed
  have mono: "approved_of i (st_permissionRequests s) \<subseteq> approved_of i ?R" for i
    by (rule approved_of_update) (use row in auto)
  show ?thesis
  proof (rule store_invI)
    show "tables_ok L ?t" using commit_tables [OF ok(2,1) cm] clean unfolding tables_ok_def put_request_def by simp
    show "messages_rel J (st_messages ?t) (st_parts ?t)" using J by (simp add: put_request_def)
    show "sessions_ok L ?t J"
    proof (rule commit_sessions [OF ok(1) cm])
      show "views_ok L ?sid (history s (session_ref ?sid) @ [e\<lparr>agg_GlobalSequence := g\<rparr>]) ?t J" for g
        using views_request [OF _ sessions_okD(2) [OF ok(1)] reqs mono] row
        by (subst views_ok_frame [where s = "s\<lparr>st_permissionRequests := ?R\<rparr>"]) (auto simp: put_request_def)
      show "views_ok L i evs s J \<Longrightarrow> views_ok L i evs ?t J" if "i \<noteq> ?sid" for i evs
      proof (erule views_ok_cong)
        show "own prq_SessionID i (st_permissionRequests ?t) = own prq_SessionID i (st_permissionRequests s)"
          using that row by (auto simp: put_request_def samePermissionRequestIdentity_def intro!: own_update_other)
      qed (simp_all add: put_request_def)
    qed (simp_all add: put_request_def)
  qed
qed

lemma commit_put_request: "commit e p (put_request r s) = put_request r (commit e p s)"
proof -
  have "history (put_request r s) = history s" by (rule history_frame) (simp add: put_request_def)
  then show ?thesis by (simp add: appendPermissionAggregateCommitLocked_def put_request_def Let_def)
qed

lemma put_event_inv: "store_inv L s \<Longrightarrow> store_inv L (put_event e s)"
  by (erule store_inv_frame) (simp_all add: put_event_def)

text \<open>What the construction of a request's aggregate event gives.\<close>

lemma request_aggregate:
  assumes pa: "permissionRequestAggregateLocked L eid x hist r resolved = Inr (e, p)" and L: "lib_ok L"
    and sub: "ProjectSession L (hist @ [e]) = Inr p \<Longrightarrow> \<exists>q. projectSessionEvent L (Some q) e = Inr p"
  shows "agg_Aggregate e = session_ref (prq_SessionID r)" "ProjectSession L (hist @ [e]) = Inr p"
    "agg_Type e = (if resolved then EventSessionPermissionResolved else EventSessionPermissionRequested)"
    "ProjectSessionPermissionRequest L e = Inr r"
    "resolved \<Longrightarrow> legalPermissionResolution (prq_Status r) (prq_Response r)"
proof -
  obtain e0 where e0: "(if resolved then NewSessionPermissionResolutionEvent L eid r
      else NewSessionPermissionRequestEvent L eid r) = Inr e0"
    and pn: "project_next L x hist (e0\<lparr>agg_ClientID := ses_ClientID x\<rparr>) = Inr (e, p)"
    using pa by (auto simp: permissionRequestAggregateLocked_def res_simps)
  have shape: "agg_Aggregate e0 = session_ref (prq_SessionID r)"
    "agg_Type e0 = (if resolved then EventSessionPermissionResolved else EventSessionPermissionRequested)"
    using e0 by (auto simp: NewSessionPermissionResolutionEvent_def NewSessionPermissionRequestEvent_def split: if_splits)
  have fact: "same_fact e e0" using pn by (auto simp: project_next_ok same_fact_def)
  then show agg: "agg_Aggregate e = session_ref (prq_SessionID r)"
    and ety: "agg_Type e = (if resolved then EventSessionPermissionResolved else EventSessionPermissionRequested)"
    using shape by (auto simp: same_fact_def)
  show proj: "ProjectSession L (hist @ [e]) = Inr p" using pn unfolding project_next_ok by blast
  obtain r' where r': "ProjectSessionPermissionRequest L e = Inr r'"
    using sub [OF proj] projected_decodes(4,5) ety by (metis (full_types))
  show "ProjectSessionPermissionRequest L e = Inr r"
  proof (cases resolved)
    case True
    then show ?thesis using permission_resolution_event [OF L _ fact, of eid r] e0 r' by (simp split: if_splits)
  next
    case False
    then show ?thesis using permission_request_event [OF L _ fact, of eid r] e0 r' by (simp split: if_splits)
  qed
  show "resolved \<Longrightarrow> legalPermissionResolution (prq_Status r) (prq_Response r)"
    using e0 by (auto simp: NewSessionPermissionResolutionEvent_def split: if_splits)
qed

lemma request_aggregate_store:
  assumes inv: "store_inv L s" and L: "lib_ok L" and x: "map_of (st_sessions s) (prq_SessionID r) = Some x"
    and pa: "permissionRequestAggregateLocked L eid y hist r resolved = Inr (e, p)"
    and hist: "map strip hist = map strip (history s (session_ref (prq_SessionID r)))"
  shows "commits L s (prq_SessionID r) e p"
    "agg_Type e = (if resolved then EventSessionPermissionResolved else EventSessionPermissionRequested)"
    "ProjectSessionPermissionRequest L e = Inr r"
    "resolved \<Longrightarrow> legalPermissionResolution (prq_Status r) (prq_Response r)"
proof -
  obtain J where ok: "sessions_ok L s J" using inv by (auto simp: store_inv_def)
  have same: "ProjectSession L (hist @ [e]) = ProjectSession L (history s (session_ref (prq_SessionID r)) @ [e])"
    by (rule ProjectSession_strip) (simp add: hist)
  obtain q where q: "ProjectSession L (history s (session_ref (prq_SessionID r))) = Inr q"
    using sessions_okD(1) [OF ok, of "prq_SessionID r"] unfolding x by (rule head_ok_Some)
  have sub: "ProjectSession L (hist @ [e]) = Inr p \<Longrightarrow> \<exists>q. projectSessionEvent L (Some q) e = Inr p"
    using ProjectSession_last [OF _ q] unfolding same by blast
  note facts = request_aggregate [OF pa L sub]
  show "commits L s (prq_SessionID r) e p" using facts(1,2) x same by (simp add: commits_def)
  show "agg_Type e = (if resolved then EventSessionPermissionResolved else EventSessionPermissionRequested)"
    "ProjectSessionPermissionRequest L e = Inr r" using facts(3,4) by simp_all
  show "resolved \<Longrightarrow> legalPermissionResolution (prq_Status r) (prq_Response r)" by (rule facts(5))
qed

lemma record_request_inv:
  assumes inv: "store_inv L s" and L: "lib_ok L" and clean: "request_clean r"
    and x: "map_of (st_sessions s) (prq_SessionID r) = Some x" and new: "map_of (st_permissionRequests s) (prq_ID r) = None"
  shows "store_inv L (snd (record_request L w x r s))"
  unfolding record_request_def Let_def
proof (intro outcome_state [where P = "store_inv L"] inv)
  let ?r = "r\<lparr>prq_CreatedAt := w_now w, prq_UpdatedAt := w_now w\<rparr>"
  fix ep e p assume pa: "permissionRequestAggregateLocked L (NewID w PrefixEvent 2) x
      (history s (session_ref (prq_SessionID ?r))) ?r False = Inr ep" "ep = (e, p)"
  note facts = request_aggregate_store [OF inv L _ pa(1) [unfolded pa(2)] refl]
  show "store_inv L (put_event ev (commit e p (put_request ?r s)))" for ev
    unfolding commit_put_request
    by (intro put_event_inv request_commit_inv [OF inv]) (use facts x new clean in \<open>simp_all add: request_clean_def\<close>)
qed

lemma CreatePermissionRequest_inv:
  assumes inv: "store_inv L s" and L: "lib_ok L" and clean: "request_clean r"
  shows "store_inv L (snd (CreatePermissionRequest L w r s))"
  unfolding CreatePermissionRequest_def Let_def
  by (intro outcome_state [where P = "store_inv L"] inv; rule record_request_inv [OF inv L])
    (use clean in \<open>auto simp: request_clean_def\<close>)

section \<open>Grants\<close>

lemma grant_key_inj:
  assumes "CHR 0x00 \<notin> set a" "CHR 0x00 \<notin> set b" "grant_key a x = grant_key b y" shows "a = b \<and> x = y"
proof -
  have "takeWhile (\<lambda>c. c \<noteq> CHR 0x00) (grant_key d z) = d" if "CHR 0x00 \<notin> set d" for d z
    using that unfolding grant_key_def by (subst takeWhile_append2) auto
  then have "a = b" using assms by metis
  then show ?thesis using assms(3) by (simp add: grant_key_def)
qed

definition put_grant :: "permission_grant \<Rightarrow> store \<Rightarrow> store" where
  "put_grant g s = s\<lparr>st_permissionGrants := AList.update (pgr_ID g) g (st_permissionGrants s)\<rparr>"

lemma grant_commit_inv:
  assumes inv: "store_inv L s" and cm: "commits L s (pgr_SessionID g) e p"
    and ety: "agg_Type e = EventSessionPermissionGrantCreated" and dec: "ProjectSessionPermissionGrantCreated L e = Inr g"
    and g: "CHR 0x00 \<notin> set (pgr_Action g)" "map_of (st_permissionGrants s) (pgr_ID g) = None"
      "key_of_grant g \<in> approved_of (pgr_SessionID g) (st_permissionRequests s)"
      "\<And>k u. map_of (st_permissionGrants s) k = Some u \<Longrightarrow> pgr_SessionID u = pgr_SessionID g \<Longrightarrow>
        \<not> (pgr_Action u = pgr_Action g \<and> pgr_Resource u = pgr_Resource g)"
  shows "store_inv L (put_grant g (commit e p s))" (is "store_inv L ?t")
proof -
  let ?sid = "pgr_SessionID g" and ?G = "AList.update (pgr_ID g) g (st_permissionGrants s)"
  obtain J where J: "messages_rel J (st_messages s) (st_parts s)" and ok: "sessions_ok L s J" "tables_ok L s"
    using inv by (auto simp: store_inv_def)
  have keys: "key_of_grant u \<noteq> key_of_grant g" if u: "map_of (st_permissionGrants s) k = Some u" "pgr_SessionID u = ?sid" for k u
  proof
    have "CHR 0x00 \<notin> set (pgr_Action u)" using ok(2) u(1) unfolding tables_ok_def by blast
    moreover assume "key_of_grant u = key_of_grant g"
    ultimately show False using g(4) [OF u] grant_key_inj g(1) unfolding key_of_grant_def by blast
  qed
  have grants: "grants_ok L A ?sid (history s (session_ref ?sid) @ [e\<lparr>agg_GlobalSequence := n\<rparr>]) ?G"
    if A: "approved_of ?sid (st_permissionRequests s) \<subseteq> set A" for A n
  proof (rule grants_snoc)
    show "grants_ok L A ?sid (history s (session_ref ?sid)) (st_permissionGrants s)"
      using sessions_okD(2) [OF ok(1), of ?sid] A by (simp add: views_ok_def)
    show "key_of_grant g \<in> set A" using A g(3) by blast
  qed (use ety dec g(2) keys in simp_all)
  show ?thesis
  proof (rule store_invI)
    show "tables_ok L ?t" using commit_tables [OF ok(2,1) cm] g(1) unfolding tables_ok_def put_grant_def by simp
    show "messages_rel J (st_messages ?t) (st_parts ?t)" using J by (simp add: put_grant_def)
    show "sessions_ok L ?t J"
    proof (rule commit_sessions [OF ok(1) cm])
      show "views_ok L ?sid (history s (session_ref ?sid) @ [e\<lparr>agg_GlobalSequence := n\<rparr>]) ?t J" for n
        using views_grant [OF _ sessions_okD(2) [OF ok(1)] grants] ety
        by (subst views_ok_frame [where s = "s\<lparr>st_permissionGrants := ?G\<rparr>"]) (simp_all add: put_grant_def)
      show "views_ok L i evs s J \<Longrightarrow> views_ok L i evs ?t J" if "i \<noteq> ?sid" for i evs
      proof (erule views_ok_cong)
        show "own pgr_SessionID i (st_permissionGrants ?t) = own pgr_SessionID i (st_permissionGrants s)"
          using that g(2) by (auto simp: put_grant_def intro!: own_update_other)
      qed (simp_all add: put_grant_def)
    qed (simp_all add: put_grant_def)
  qed
qed

section \<open>Resolution\<close>

text \<open>
  The store that a resolution ends in after the events and grants collected so far, and its two
  steps: the first event and one more.
\<close>

definition resolution_store ::
    "permission_request \<Rightarrow> session \<Rightarrow> aggregate_event list \<Rightarrow> permission_grant list \<Rightarrow> store \<Rightarrow> store" where
  "resolution_store r p es gs s = put_request r ((fold (\<lambda>e. commit e p) es s)
     \<lparr>st_permissionGrants := put_all pgr_ID gs (st_permissionGrants s)\<rparr>)"

lemma put_all_snoc: "put_all key (vs @ [v]) m = AList.update (key v) v (put_all key vs m)"
  by (simp add: put_all_def)

lemma put_all_row:
  "map_of (put_all key vs m) k = Some v \<Longrightarrow> map_of m k = Some v \<or> (v \<in> set vs \<and> key v = k)"
  by (induction vs rule: rev_induct) (auto simp: put_all_snoc split: if_splits)

lemma fold_commit_table: "st_permissionGrants (fold (\<lambda>e. commit e p) es s) = st_permissionGrants s"
  by (induction es arbitrary: s) simp_all

lemma fold_commit_last:
  assumes "\<forall>e \<in> set es. agg_Aggregate e = session_ref sid"
  shows "fold (\<lambda>e. commit e p) es s = (fold (\<lambda>e. commit e q) es s)
    \<lparr>st_sessions := if es = [] then st_sessions s else AList.update sid p (st_sessions s)\<rparr>"
  using assms
proof (induction es rule: rev_induct)
  case (snoc e es)
  have hist: "history (t\<lparr>st_sessions := S\<rparr>) = history t" for t :: store and S by (rule history_frame) simp
  have idem: "AList.update sid a (AList.update sid b m) = AList.update sid a m" for a b :: session and m
    by (rule update_last)
  show ?case using snoc
    by (auto simp: appendPermissionAggregateCommitLocked_def Let_def hist idem)
qed simp

lemma resolution_store_start:
  "resolution_store r p [e] [] s = put_request r (commit e p s)"
  by (simp add: resolution_store_def put_all_def appendPermissionAggregateCommitLocked_def Let_def)

lemma resolution_store_next:
  assumes es: "\<forall>e \<in> set (es @ [e]). agg_Aggregate e = session_ref sid" and "es \<noteq> []"
  shows "resolution_store r q (es @ [e]) (gs @ [g]) s = put_grant g (commit e q (resolution_store r p es gs s))"
proof -
  let ?F = "\<lambda>p. fold (\<lambda>e. commit e p) es s"
  have hist: "history (t\<lparr>st_sessions := S\<rparr>) = history t" "history (t\<lparr>st_permissionGrants := G\<rparr>) = history t"
    for t :: store and S G by (rule history_frame, simp)+
  have e: "agg_Aggregate e = session_ref sid" "\<forall>e \<in> set es. agg_Aggregate e = session_ref sid" using es by simp_all
  have q: "?F q = (?F p)\<lparr>st_sessions := AList.update sid q (st_sessions s)\<rparr>"
    using fold_commit_last [OF e(2), of q s p] assms(2) by simp
  have p: "st_sessions (?F p) = AList.update sid p (st_sessions s)"
    using arg_cong [OF fold_commit_last [OF e(2), of p s p], of st_sessions] assms(2) by simp
  have idem: "AList.update sid a (AList.update sid b m) = AList.update sid a m" for a b :: session and m
    by (rule update_last)
  show ?thesis unfolding resolution_store_def commit_put_request
    by (simp add: q p e(1) hist idem put_grant_def put_request_def put_all_snoc
        appendPermissionAggregateCommitLocked_def Let_def)
qed

text \<open>The identifiers that a resolution draws for its grants are new, and no two are the same.\<close>

definition ids_fresh :: "nat \<Rightarrow> world \<Rightarrow> store \<Rightarrow> bool" where
  "ids_fresh n w s \<longleftrightarrow> distinct (map (w_fresh w) [0..<n])
     \<and> list_all (\<lambda>k. map_of (st_permissionGrants s) (NewID w PrefixPermissionGrant k) = None) [0..<n]"

lemma ids_freshD:
  assumes "ids_fresh n w s" "k < n"
  shows "map_of (st_permissionGrants s) (NewID w PrefixPermissionGrant k) = None"
    "j < k \<Longrightarrow> NewID w PrefixPermissionGrant j \<noteq> NewID w PrefixPermissionGrant k"
proof -
  have inj: "inj_on (w_fresh w) {0..<n}" using assms(1) by (simp add: ids_fresh_def distinct_map)
  show "j < k \<Longrightarrow> NewID w PrefixPermissionGrant j \<noteq> NewID w PrefixPermissionGrant k"
    using inj_onD [OF inj, of j k] assms(2) by (auto simp: NewID_def)
  show "map_of (st_permissionGrants s) (NewID w PrefixPermissionGrant k) = None"
    using assms by (simp add: ids_fresh_def list_all_iff)
qed

lemma grants_loop_inv:
  assumes "foldE (grant_resource L w r (vals (st_permissionGrants s))) (p, hist, es, gs) xs = Inr (p', hist', es', gs')"
    and "store_inv L (resolution_store r p es gs s)" "es \<noteq> []" "\<forall>e \<in> set es. agg_Aggregate e = session_ref (prq_SessionID r)"
    and "map_of (st_sessions (resolution_store r p es gs s)) (prq_SessionID r) \<noteq> None"
    and "map strip hist = map strip (history (resolution_store r p es gs s) (session_ref (prq_SessionID r)))"
    and r: "request_clean r" "prq_Status r = PermissionRequestStatusApproved" "prq_Response r = PermissionResponseAlways"
    and "set xs \<subseteq> set (prq_Resources r)" "distinct xs"
    and "\<forall>g \<in> set gs. pgr_Resource g \<notin> set xs \<and> (\<exists>k < length gs. pgr_ID g = NewID w PrefixPermissionGrant k)"
    and "length gs + length xs \<le> n"
    and s: "wf_map (st_permissionGrants s)" "ids_fresh n w s" and L: "lib_ok L"
  shows "store_inv L (resolution_store r p' es' gs' s)"
  using assms(1-6,10-13)
proof (induction xs arbitrary: p hist es gs)
  case (Cons x xs)
  let ?T = "resolution_store r p es gs s" and ?sid = "prq_SessionID r"
  show ?case
  proof (cases "\<exists>g \<in> set (vals (st_permissionGrants s)). pgr_SessionID g = ?sid \<and> pgr_Action g = prq_Action r \<and> pgr_Resource g = x")
    case True
    then have rest: "foldE (grant_resource L w r (vals (st_permissionGrants s))) (p, hist, es, gs) xs = Inr (p', hist', es', gs')"
      using Cons.prems(1) by (simp add: grant_resource_def)
    have sub: "set xs \<subseteq> set (prq_Resources r)" "distinct xs"
      "\<forall>g \<in> set gs. pgr_Resource g \<notin> set xs \<and> (\<exists>k < length gs. pgr_ID g = NewID w PrefixPermissionGrant k)"
      "length gs + length xs \<le> n"
      using Cons.prems(7-10) by auto
    show ?thesis by (rule Cons.IH [OF rest Cons.prems(2-6) sub])
  next
    case new: False
    define g where "g = \<lparr>pgr_ID = NewID w PrefixPermissionGrant (length gs), pgr_SessionID = ?sid,
      pgr_Action = prq_Action r, pgr_Resource = x, pgr_CreatedAt = w_now w\<rparr>"
    obtain e q where pa: "permissionGrantAggregateLocked L (NewID w PrefixEvent (2 + length gs)) p hist g = Inr (e, q)"
      and rest: "foldE (grant_resource L w r (vals (st_permissionGrants s))) (q, hist @ [e], es @ [e], gs @ [g]) xs
        = Inr (p', hist', es', gs')"
      using Cons.prems(1) new by (auto simp: grant_resource_def g_def Let_def res_simps)
    obtain e0 where e0: "NewSessionPermissionGrantCreatedEvent L (NewID w PrefixEvent (2 + length gs)) g = Inr e0"
      and pn: "project_next L p hist (e0\<lparr>agg_ClientID := ses_ClientID p\<rparr>) = Inr (e, q)"
      using pa by (auto simp: permissionGrantAggregateLocked_def res_simps)
    have fact: "same_fact e e0" using pn by (auto simp: project_next_ok same_fact_def)
    have e: "agg_Aggregate e = session_ref ?sid" "agg_Type e = EventSessionPermissionGrantCreated"
      "ProjectSessionPermissionGrantCreated L e = Inr g"
      using fact e0 permission_grant_event [OF L e0 fact]
      by (auto simp: same_fact_def NewSessionPermissionGrantCreatedEvent_def g_def split: if_splits)
    have "map strip (history ?T (session_ref ?sid) @ [e]) = map strip (hist @ [e])" using Cons.prems(6) by simp
    then have "ProjectSession L (history ?T (session_ref ?sid) @ [e]) = Inr q"
      using pn ProjectSession_strip unfolding project_next_ok by metis
    then have cm: "commits L ?T (pgr_SessionID g) e q" using Cons.prems(5) e(1) by (auto simp: commits_def g_def)
    have tab: "st_permissionGrants ?T = put_all pgr_ID gs (st_permissionGrants s)"
      "map_of (st_permissionRequests ?T) (prq_ID r) = Some r"
      by (simp_all add: resolution_store_def put_request_def)
    have "length gs < n" using Cons.prems(10) by simp
    note ids = ids_freshD [OF s(2) this]
    have next_store: "resolution_store r q (es @ [e]) (gs @ [g]) s = put_grant g (commit e q ?T)"
      by (rule resolution_store_next [where sid = ?sid]) (use Cons.prems(3,4) e(1) in auto)
    have inv': "store_inv L (put_grant g (commit e q ?T))"
    proof (rule grant_commit_inv [OF Cons.prems(2) cm e(2,3)])
      show "CHR 0x00 \<notin> set (pgr_Action g)" using r(1) by (simp add: g_def request_clean_def)
      show "map_of (st_permissionGrants ?T) (pgr_ID g) = None"
      proof (rule ccontr)
        assume "map_of (st_permissionGrants ?T) (pgr_ID g) \<noteq> None"
        then obtain u where "map_of (put_all pgr_ID gs (st_permissionGrants s)) (pgr_ID g) = Some u" by (auto simp: tab)
        from put_all_row [OF this] show False
          using Cons.prems(9) ids by (auto simp: g_def)
      qed
      show "key_of_grant g \<in> approved_of (pgr_SessionID g) (st_permissionRequests ?T)"
        using tab(2) r Cons.prems(7) unfolding approved_of_def key_of_grant_def g_def by fastforce
      show "\<not> (pgr_Action u = pgr_Action g \<and> pgr_Resource u = pgr_Resource g)"
        if "map_of (st_permissionGrants ?T) k = Some u" "pgr_SessionID u = pgr_SessionID g" for k u
        using put_all_row [OF that(1) [unfolded tab]] that(2) new Cons.prems(9) vals_mem [OF s(1)]
        by (auto simp: g_def)
    qed
    have hist': "history (put_grant g (commit e q ?T)) = history (commit e q ?T)"
      by (rule history_frame) (simp add: put_grant_def)
    show ?thesis
    proof (rule Cons.IH [OF rest])
      show "store_inv L (resolution_store r q (es @ [e]) (gs @ [g]) s)" using inv' by (simp only: next_store)
      show "map_of (st_sessions (resolution_store r q (es @ [e]) (gs @ [g]) s)) ?sid \<noteq> None"
        unfolding next_store by (simp add: put_grant_def e(1))
      show "map strip (hist @ [e]) = map strip (history (resolution_store r q (es @ [e]) (gs @ [g]) s) (session_ref ?sid))"
        unfolding next_store hist' using Cons.prems(6) e(1) by simp
      show "\<forall>h \<in> set (gs @ [g]). pgr_Resource h \<notin> set xs \<and> (\<exists>k < length (gs @ [g]). pgr_ID h = NewID w PrefixPermissionGrant k)"
        using Cons.prems(8,9) by (auto simp: g_def less_Suc_eq)
    qed (use Cons.prems(4,7,8,10) e(1) in auto)
  qed
qed simp

lemma put_grants_event:
  "store_inv L (resolution_store r p es gs s) \<Longrightarrow> store_inv L (put_event ev (put_request r
     ((fold (\<lambda>e. commit e p) es s)\<lparr>st_permissionGrants := put_all pgr_ID gs (st_permissionGrants (fold (\<lambda>e. commit e p) es s))\<rparr>)))"
  unfolding resolution_store_def fold_commit_table by (rule put_event_inv)

lemma record_resolution_inv:
  assumes inv: "store_inv L s" and L: "lib_ok L" and ids: "ids_fresh (length (prq_Resources r)) w s"
    and x: "map_of (st_sessions s) (prq_SessionID r) = Some x"
    and old: "map_of (st_permissionRequests s) (prq_ID r) = Some old" "prq_Status old = PermissionRequestStatusPending"
      "samePermissionRequestIdentity old r"
  shows "store_inv L (snd (record_resolution L w x r s))"
  unfolding record_resolution_def Let_def
proof (intro outcome_state [where P = "store_inv L"] inv)
  fix ep e p st p' y es gs z hist'
  assume pa: "permissionRequestAggregateLocked L (NewID w PrefixEvent 1) x (history s (session_ref (prq_SessionID r))) r True = Inr ep"
      "ep = (e, p)"
    and st: "(if prq_Response r = PermissionResponseAlways then foldE (grant_resource L w r (vals (st_permissionGrants s)))
        (p, history s (session_ref (prq_SessionID r)) @ [e], [e], []) (prq_Resources r)
      else Inr (p, history s (session_ref (prq_SessionID r)) @ [e], [e], [])) = Inr st"
      "st = (p', y)" "y = (hist', z)" "z = (es, gs)"
  note facts = request_aggregate_store [OF inv L x pa(1) [unfolded pa(2)] refl]
  have "request_clean old" and tab: "wf_map (st_permissionGrants s)"
    using inv old(1) unfolding store_inv_def tables_ok_def by blast+
  then have clean: "request_clean r"
    using old(3) unfolding request_clean_def samePermissionRequestIdentity_def by simp
  have agg: "agg_Aggregate e = session_ref (prq_SessionID r)" using facts(1) by (simp add: commits_def)
  have first: "store_inv L (resolution_store r p [e] [] s)" unfolding resolution_store_start
    by (rule request_commit_inv [OF inv facts(1) clean facts(3), where old = old]) (use facts(2) old in simp)
  have "store_inv L (resolution_store r p' es gs s)"
  proof (cases "prq_Response r = PermissionResponseAlways")
    case True
    then have loop: "foldE (grant_resource L w r (vals (st_permissionGrants s)))
        (p, history s (session_ref (prq_SessionID r)) @ [e], [e], []) (prq_Resources r) = Inr (p', hist', es, gs)"
      using st by simp
    have "history (put_request r (commit e p s)) = history (commit e p s)" by (rule history_frame) (simp add: put_request_def)
    then have hist: "map strip (history s (session_ref (prq_SessionID r)) @ [e]) =
        map strip (history (resolution_store r p [e] [] s) (session_ref (prq_SessionID r)))"
      by (simp add: resolution_store_start agg)
    have "prq_Status r = PermissionRequestStatusApproved"
      using facts(4) True by (simp add: legalPermissionResolution_def split: if_splits)
    then show ?thesis
      by (intro grants_loop_inv [OF loop first _ _ _ hist clean _ True _ _ _ _ tab ids L])
        (use agg clean in \<open>simp_all add: resolution_store_start put_request_def request_clean_def\<close>)
  next
    case False
    then show ?thesis using st first by simp
  qed
  then show "store_inv L (put_event ev (put_request r ((fold (\<lambda>e. commit e p') es s)
      \<lparr>st_permissionGrants := put_all pgr_ID gs (st_permissionGrants (fold (\<lambda>e. commit e p') es s))\<rparr>)))" for ev
    by (rule put_grants_event)
qed

lemma ResolvePermissionRequest_inv:
  assumes inv: "store_inv L s" and L: "lib_ok L"
    and ids: "\<And>r. map_of (st_permissionRequests s) (rsl_RequestID rs) = Some r \<Longrightarrow> ids_fresh (length (prq_Resources r)) w s"
  shows "store_inv L (snd (ResolvePermissionRequest L w rs s))"
proof -
  have "keyed prq_ID (st_permissionRequests s)" using inv by (auto simp: store_inv_def tables_ok_def)
  then show ?thesis unfolding ResolvePermissionRequest_def Let_def
    by (intro outcome_state [where P = "store_inv L"] inv; intro record_resolution_inv [OF inv L])
      (auto simp: ids resolved_request_def samePermissionRequestIdentity_def keyed_def)
qed

section \<open>Interruption\<close>

lemma prepare_interruptions_inv:
  assumes "foldE (prepare_interruption L w s) ((evs, sessions), ps) rs = Inr (pend, ps')"
    and "store_inv L (fold commit_interruption ps s)" "pending_rel s (evs, sessions) (fold commit_interruption ps s)"
    and "lib_ok L" "distinct (map prq_ID rs)"
    and "\<forall>r \<in> set rs. request_clean r \<and> (\<exists>old. map_of (st_permissionRequests (fold commit_interruption ps s)) (prq_ID r) = Some old
      \<and> prq_Status old = PermissionRequestStatusPending \<and> samePermissionRequestIdentity old r)"
  shows "store_inv L (fold commit_interruption ps' s)"
  using assms
proof (induction rs arbitrary: evs sessions ps)
  case (Cons r rs)
  let ?t = "fold commit_interruption ps s" and ?sid = "prq_SessionID r"
  let ?hist = "pending_history s evs (session_ref ?sid)"
  from Cons.prems(1) obtain ev x e p where
    x: "pending_session s sessions ?sid = Inr x"
    and pa: "permissionRequestAggregateLocked L (NewID w PrefixEvent (2 * length ps + 1)) x ?hist r True = Inr (e, p)"
    and rest: "foldE (prepare_interruption L w s) ((AList.update (session_ref ?sid) (?hist @ [e]) evs,
      AList.update ?sid p sessions), ps @ [(r, ev, e, p)]) rs = Inr (pend, ps')"
    by (auto simp: prepare_interruption_def Let_def res_simps)
  obtain e0 where e0: "NewSessionPermissionResolutionEvent L (NewID w PrefixEvent (2 * length ps + 1)) r = Inr e0"
    and pn: "project_next L x ?hist (e0\<lparr>agg_ClientID := ses_ClientID x\<rparr>) = Inr (e, p)"
    using pa by (auto simp: permissionRequestAggregateLocked_def res_simps)
  have agg: "agg_Aggregate (e0\<lparr>agg_ClientID := ses_ClientID x\<rparr>) = session_ref ?sid"
    using e0 by (auto simp: NewSessionPermissionResolutionEvent_def split: if_splits)
  note step = pending_rel_next [OF Cons.prems(3) x agg pn]
  have row: "map_of (st_sessions ?t) ?sid = Some x"
    using Cons.prems(3) x by (auto simp: pending_rel_def pending_session_def split: option.splits)
  have hist: "map strip ?hist = map strip (history ?t (session_ref ?sid))"
    using Cons.prems(3) by (simp add: pending_rel_def)
  note facts = request_aggregate_store [OF Cons.prems(2,4) row pa hist]
  obtain old where old: "request_clean r" "map_of (st_permissionRequests ?t) (prq_ID r) = Some old"
      "prq_Status old = PermissionRequestStatusPending" "samePermissionRequestIdentity old r"
    using Cons.prems(6) by auto
  let ?t' = "fold commit_interruption (ps @ [(r, ev, e, p)]) s"
  have t': "?t' = put_event (copySessionEvent ev) (put_request r (commit e p ?t))"
    by (simp add: commit_interruption_def)
  have inv': "store_inv L ?t'" unfolding t'
    by (intro put_event_inv request_commit_inv [OF Cons.prems(2) facts(1) old(1) facts(3), where old = old])
      (use facts(2) old in simp)
  have rel': "pending_rel s (AList.update (session_ref ?sid) (?hist @ [e]) evs, AList.update ?sid p sessions) ?t'"
    unfolding t' by (rule step(2)) (simp_all add: put_event_def put_request_def)
  have "prq_ID r \<notin> prq_ID ` set rs" using Cons.prems(5) by simp
  then have "\<forall>q \<in> set rs. map_of (st_permissionRequests ?t') (prq_ID q) = map_of (st_permissionRequests ?t) (prq_ID q)"
    unfolding t' by (auto simp: image_iff put_event_def put_request_def)
  then have rows: "\<forall>q \<in> set rs. request_clean q \<and> (\<exists>old. map_of (st_permissionRequests ?t') (prq_ID q) = Some old
      \<and> prq_Status old = PermissionRequestStatusPending \<and> samePermissionRequestIdentity old q)"
    using Cons.prems(6) by simp
  show ?case by (rule Cons.IH [OF rest inv' rel' Cons.prems(4) _ rows]) (use Cons.prems(5) in simp)
qed simp

lemma InterruptPendingPermissionRequests_inv:
  assumes inv: "store_inv L s" and L: "lib_ok L"
  shows "store_inv L (snd (InterruptPendingPermissionRequests L w s))"
proof -
  let ?rs = "map (interrupted_request w) (sort_key (\<lambda>r. (prq_CreatedAt r, prq_ID r))
    (filter (\<lambda>r. prq_Status r = PermissionRequestStatusPending) (vals (st_permissionRequests s))))"
  have tab: "wf_map (st_permissionRequests s)" "keyed prq_ID (st_permissionRequests s)"
    "\<And>k r. map_of (st_permissionRequests s) k = Some r \<Longrightarrow> request_clean r"
    using inv unfolding store_inv_def tables_ok_def by blast+
  have same: "prq_ID (interrupted_request w r) = prq_ID r" "samePermissionRequestIdentity r (interrupted_request w r)"
    "request_clean (interrupted_request w r) = request_clean r" for r
    by (simp_all add: interrupted_request_def samePermissionRequestIdentity_def request_clean_def)
  have dist: "distinct (map prq_ID ?rs)"
    using keyed_vals_distinct [OF tab(1,2)]
    by (simp add: comp_def same distinct_map_filter distinct_map inj_on_def)
  have rows: "\<forall>r \<in> set ?rs. request_clean r \<and> (\<exists>old. map_of (st_permissionRequests s) (prq_ID r) = Some old
      \<and> prq_Status old = PermissionRequestStatusPending \<and> samePermissionRequestIdentity old r)"
  proof
    fix r assume "r \<in> set ?rs"
    then obtain old where "old \<in> set (vals (st_permissionRequests s))" "prq_Status old = PermissionRequestStatusPending"
      "r = interrupted_request w old" by auto
    moreover from this(1) have "map_of (st_permissionRequests s) (prq_ID old) = Some old"
      using tab(1,2) by (auto simp: map_simps keyed_def)
    ultimately show "request_clean r \<and> (\<exists>old. map_of (st_permissionRequests s) (prq_ID r) = Some old
      \<and> prq_Status old = PermissionRequestStatusPending \<and> samePermissionRequestIdentity old r)"
      using tab(3) by (auto simp: same)
  qed
  have "store_inv L (fold commit_interruption ps s)"
    if "foldE (prepare_interruption L w s) (([], []), []) ?rs = Inr (pend, ps)" for pend ps
    using prepare_interruptions_inv [OF that _ _ L dist] rows inv pending_rel_start by simp
  then show ?thesis unfolding InterruptPendingPermissionRequests_def
    by (intro outcome_state [where P = "store_inv L"] inv) simp
qed

end
