(* ===== verification/Store_Rebuild.thy ===== *)
theory Store_Rebuild
  imports Preserve_Permissions
begin

text \<open>
  Rebuilding the projections of a session from its stream gives the tables back as they are: the
  live tables are what the stream says.  The session row is the one exception: it is replaced by
  its projection, which can differ in the workspace.
\<close>

section \<open>The aggregate projects\<close>

lemma approved_keys_cover:
  assumes "wf_map R" "map_of R = own prq_SessionID sid Rs"
  shows "approved_of sid Rs \<subseteq> set (approved_keys (sort_key f (vals R)))"
proof
  fix x assume "x \<in> approved_of sid Rs"
  then obtain k r y where r: "map_of Rs k = Some r" "prq_SessionID r = sid" "prq_Status r = PermissionRequestStatusApproved"
    "prq_Response r = PermissionResponseAlways" "y \<in> set (prq_Resources r)" "x = grant_key (prq_Action r) y"
    by (auto simp: approved_of_def)
  then have "map_of R k = Some r" using assms(2) by (simp add: own_def)
  then have "r \<in> set (sort_key f (vals R))" using assms(1) by (auto simp: map_simps)
  then show "x \<in> set (approved_keys (sort_key f (vals R)))" unfolding approved_keys_def using r(3-) by force
qed

definition projected_rows :: "lib \<Rightarrow> store \<Rightarrow> (string, stored_message) gomap \<Rightarrow> string \<Rightarrow> aggregate_projection \<Rightarrow> bool" where
  \<comment> \<open>putting the rows of the projection where the session's rows were gives the tables\<close>
  "projected_rows L s J sid pr \<longleftrightarrow>
     map_of (put_all run_ID (prj_Runs pr) (del_where (\<lambda>r. run_SessionID r = sid) (st_runs s))) = map_of (st_runs s) \<and>
     set (prj_Runs pr) \<subseteq> set (vals (st_runs s)) \<and>
     map_of (put_all msg_ID (prj_Messages pr) (del_where (\<lambda>m. msg_SessionID m = sid) J)) = map_of J \<and>
     distinct (map msg_ID (prj_Messages pr)) \<and>
     (\<forall>m \<in> set (prj_Messages pr). map_of J (msg_ID m) = Some m \<and> msg_SessionID m = sid) \<and>
     map_of (put_all mcl_ID (prj_ModelCalls pr) (del_where (\<lambda>c. mcl_SessionID c = sid) (st_modelCalls s)))
       = map_of (st_modelCalls s) \<and>
     map_of (put_all tlu_ID (prj_ToolUses pr) (del_where (\<lambda>u. tlu_SessionID u = sid) (st_toolUses s)))
       = map_of (st_toolUses s) \<and>
     map_of (put_all prq_ID (prj_PermissionRequests pr) (del_where (\<lambda>r. prq_SessionID r = sid) (st_permissionRequests s)))
       = map_of (st_permissionRequests s) \<and>
     map_of (put_all pgr_ID (prj_PermissionGrants pr) (del_where (\<lambda>g. pgr_SessionID g = sid) (st_permissionGrants s)))
       = map_of (st_permissionGrants s)"

lemma view_ofE:
  assumes "view_of pass start rows owner sid evs m"
  obtains st where "foldE pass start evs = Inr st" "map_of (rows st) = own owner sid m"
  using assms by (auto simp: view_of_def)

lemma aggregate_projects:
  assumes tab: "tables_ok L s" and J: "messages_rel J (st_messages s) (st_parts s)" and ok: "sessions_ok L s J"
    and p: "ProjectSession L (history s (session_ref sid)) = Inr p"
  shows "\<exists>pr. ProjectSessionAggregate L (history s (session_ref sid)) = Inr pr \<and> prj_Session pr = p
    \<and> projected_rows L s J sid pr"
proof -
  let ?evs = "history s (session_ref sid)"
  have views: "runs_ok L sid ?evs (st_runs s)" "messages_ok L sid ?evs J" "calls_ok L sid ?evs (st_modelCalls s)"
    "uses_ok L sid ?evs (st_toolUses s)" "requests_ok L sid ?evs (st_permissionRequests s)"
    "\<And>A. approved_of sid (st_permissionRequests s) \<subseteq> set A \<Longrightarrow> grants_ok L A sid ?evs (st_permissionGrants s)"
    using sessions_okD(2) [OF ok, of sid] by (simp_all add: views_ok_def)
  have wf: "wf_map (st_runs s)" "wf_map J" "keyed msg_ID J" "wf_map (st_modelCalls s)" "wf_map (st_toolUses s)"
    "wf_map (st_permissionRequests s)" "wf_map (st_permissionGrants s)"
    using tab J by (simp_all add: tables_ok_def messages_rel_def)
  obtain R where R: "foldE (runs_step L) [] ?evs = Inr R" "map_of R = own run_SessionID sid (st_runs s)"
    using views(1) by (rule view_ofE)
  obtain M where M: "foldE (messages_step L) ([], []) ?evs = Inr M" "map_of (fst M) = own msg_SessionID sid J"
    using views(2) by (rule view_ofE)
  obtain C where C: "foldE (calls_step L) ([], []) ?evs = Inr C" using views(3) by (rule view_ofE)
  obtain U where U: "foldE (uses_step L) ([], []) ?evs = Inr U" using views(4) by (rule view_ofE)
  obtain Q where Q: "foldE (requests_step L) [] ?evs = Inr Q" "map_of Q = own prq_SessionID sid (st_permissionRequests s)"
    using views(5) by (rule view_ofE)
  have wfR: "wf_map R" using runs_view.fold_consistent [OF R(1)] by (simp add: runs_consistent_def)
  have wfM: "wf_map (fst M)" "keyed msg_ID (fst M)"
    using messages_view.fold_consistent [OF M(1)] by (simp_all add: messages_consistent_def split_def)
  have wfQ: "wf_map Q" using requests_view.fold_consistent [OF Q(1)] requests_view.consistent_rows by blast
  let ?Q = "sort_key (\<lambda>r. (prq_CreatedAt r, prq_ID r)) (vals Q)"
  have gv: "grants_ok L (approved_keys ?Q) sid ?evs (st_permissionGrants s)"
    by (rule views(6)) (rule approved_keys_cover [OF wfQ Q(2)])
  then obtain G where G: "foldE (grants_step L (approved_keys ?Q)) ([], []) ?evs = Inr G" by (rule view_ofE)
  let ?M = "sort_key msg_Idx (vals (fst M))"
  define pr where "pr = \<lparr>prj_Session = p, prj_Runs = sort_key run_Sequence (vals R), prj_Messages = ?M,
    prj_ModelCalls = sort_key (\<lambda>c. (mcl_StartedAt c, mcl_ID c)) (vals (fst C)),
    prj_ToolUses = sort_key (\<lambda>u. (tlu_ProposedAt u, tlu_Step u, tlu_Ordinal u, tlu_ID u)) (vals (fst U)),
    prj_PermissionRequests = ?Q,
    prj_PermissionGrants = sort_key (\<lambda>g. (pgr_CreatedAt g, pgr_ID g)) (vals (fst G))\<rparr>"
  have "ProjectSessionAggregate L ?evs = Inr pr"
    by (simp add: ProjectSessionAggregate_def ProjectSessionRuns_def ProjectSessionMessages_def
        ProjectSessionModelCalls_def ProjectSessionToolUses_def ProjectSessionPermissionRequests_def
        ProjectSessionPermissionGrants_def p R M C U Q G pr_def split_def)
  moreover have "set (sort_key run_Sequence (vals R)) \<subseteq> set (vals (st_runs s))"
  proof
    fix r assume "r \<in> set (sort_key run_Sequence (vals R))"
    then obtain k where "map_of R k = Some r" using wfR by (auto simp: map_simps)
    then have "map_of (st_runs s) k = Some r" by (simp add: R(2) own_Some)
    then show "r \<in> set (vals (st_runs s))" using wf(1) by (auto simp: map_simps)
  qed
  moreover have "map_of J (msg_ID m) = Some m \<and> msg_SessionID m = sid" if mem: "m \<in> set ?M" for m
  proof -
    obtain k where "map_of (fst M) k = Some m" using mem wfM(1) by (auto simp: map_simps)
    then have "map_of J k = Some m" "msg_SessionID m = sid" by (simp_all add: M(2) own_Some)
    then show ?thesis using wf(3) by (auto simp: keyed_def)
  qed
  moreover have "distinct (map msg_ID ?M)"
    using keyed_vals_distinct [OF wfM] by (simp only: map_sort_key_distinct)
  ultimately show ?thesis
    using runs_view.view_rebuild [OF views(1) wf(1) R(1)] messages_view.view_rebuild [OF views(2) wf(2) M(1)]
      calls_view.view_rebuild [OF views(3) wf(4) C] uses_view.view_rebuild [OF views(4) wf(5) U]
      requests_view.view_rebuild [OF views(5) wf(6) Q(1)] grants_view.view_rebuild [OF gv wf(7) G]
    by (intro exI [of _ pr]) (auto simp: projected_rows_def pr_def)
qed

section \<open>Messages and parts\<close>

lemma messages_rel_insert:
  assumes rel: "messages_rel J M P" and wf: "wf_map P" and new: "map_of J (msg_ID m) = None"
    and m: "distinct (map prt_ID (msg_Parts m))" "\<forall>p \<in> set (msg_Parts m). prt_MessageID p = msg_ID m"
    and free: "\<And>p q. p \<in> set (msg_Parts m) \<Longrightarrow> map_of P (prt_ID p) = Some q \<Longrightarrow> q = p"
  shows "messages_rel (AList.update (msg_ID m) m J) (AList.update (msg_ID m) (m\<lparr>msg_Parts := []\<rparr>) M)
    (put_all prt_ID (msg_Parts m) P)"
proof -
  have parts: "map_of P i = Some q \<Longrightarrow> prt_MessageID q \<noteq> msg_ID m" for i q
    using messages_rel_part [OF rel] new by fastforce
  have "parts_rel (AList.update (msg_ID m) m J) (put_all prt_ID (msg_Parts m) P)"
  proof (rule parts_rel_put [OF wf _ _ m])
    show "parts_rel J P" "keyed msg_ID J" using rel by (auto simp: messages_rel_def)
    show "prt_MessageID q = msg_ID m" if "p \<in> set (msg_Parts m)" "map_of P (prt_ID p) = Some q" for p q
      using free [OF that] that(1) m(2) by simp
    show "map_of P i = Some q \<longleftrightarrow> map_of P i = Some q \<and> prt_MessageID q \<noteq> msg_ID m" for i q using parts by blast
  qed
  then show ?thesis using rel m unfolding messages_rel_def by simp
qed

lemma fold_put_message_fields [simp]:
  "st_sessions (fold put_message ms s) = st_sessions s" "st_runs (fold put_message ms s) = st_runs s"
  "st_modelCalls (fold put_message ms s) = st_modelCalls s" "st_toolUses (fold put_message ms s) = st_toolUses s"
  "st_permissionRequests (fold put_message ms s) = st_permissionRequests s"
  "st_permissionGrants (fold put_message ms s) = st_permissionGrants s"
  "st_events (fold put_message ms s) = st_events s" "st_aggregates (fold put_message ms s) = st_aggregates s"
  "st_globalSeq (fold put_message ms s) = st_globalSeq s" "st_clients (fold put_message ms s) = st_clients s"
  "st_workspaces (fold put_message ms s) = st_workspaces s" "st_agents (fold put_message ms s) = st_agents s"
  "st_auth (fold put_message ms s) = st_auth s"
  by (induction ms arbitrary: s) (simp_all add: put_message_def)

lemma fold_put_message:
  assumes "messages_rel J (st_messages s) (st_parts s)" "wf_map (st_parts s)" "wf_map (st_messages s)"
    and "distinct (map msg_ID ms)" "\<forall>m \<in> set ms. map_of J (msg_ID m) = None \<and> distinct (map prt_ID (msg_Parts m))
      \<and> (\<forall>p \<in> set (msg_Parts m). prt_MessageID p = msg_ID m \<and> map_of P (prt_ID p) = Some p)"
    and "\<forall>i p. map_of (st_parts s) i = Some p \<longrightarrow> map_of P i = Some p"
  shows "messages_rel (put_all msg_ID ms J) (st_messages (fold put_message ms s)) (st_parts (fold put_message ms s))
    \<and> wf_map (st_parts (fold put_message ms s)) \<and> wf_map (st_messages (fold put_message ms s))"
  using assms
proof (induction ms arbitrary: J s)
  case (Cons m ms)
  have m: "map_of J (msg_ID m) = None" "distinct (map prt_ID (msg_Parts m))"
    "\<forall>p \<in> set (msg_Parts m). prt_MessageID p = msg_ID m \<and> map_of P (prt_ID p) = Some p"
    using Cons.prems(5) by simp_all
  have rel: "messages_rel (AList.update (msg_ID m) m J) (st_messages (put_message m s)) (st_parts (put_message m s))"
    unfolding put_message_def
    using messages_rel_insert [OF Cons.prems(1,2) m(1,2)] m(3) Cons.prems(6) by fastforce
  have sub: "map_of P i = Some p" if "map_of (st_parts (put_message m s)) i = Some p" for i p
    using that Cons.prems(6) m by (auto simp: put_message_def map_of_put_all find_distinct_Some split: option.splits)
  have "messages_rel (put_all msg_ID ms (AList.update (msg_ID m) m J))
      (st_messages (fold put_message ms (put_message m s))) (st_parts (fold put_message ms (put_message m s)))
    \<and> wf_map (st_parts (fold put_message ms (put_message m s))) \<and> wf_map (st_messages (fold put_message ms (put_message m s)))"
  proof (rule Cons.IH [OF rel])
    show "wf_map (st_parts (put_message m s))" "wf_map (st_messages (put_message m s))"
      using Cons.prems(2,3) by (simp_all add: put_message_def)
    show "distinct (map msg_ID ms)" using Cons.prems(4) by simp
    show "\<forall>i p. map_of (st_parts (put_message m s)) i = Some p \<longrightarrow> map_of P i = Some p" using sub by blast
    have "msg_ID m \<notin> msg_ID ` set ms" using Cons.prems(4) by simp
    then show "\<forall>n \<in> set ms. map_of (AList.update (msg_ID m) m J) (msg_ID n) = None \<and> distinct (map prt_ID (msg_Parts n))
        \<and> (\<forall>p \<in> set (msg_Parts n). prt_MessageID p = msg_ID n \<and> map_of P (prt_ID p) = Some p)"
      using Cons.prems(5) by (auto simp: image_iff)
  qed
  then show ?case by simp
qed simp

lemma messages_rel_unique:
  assumes "messages_rel J M P" "messages_rel J' M' P'" "map_of J' = map_of J"
  shows "map_of M' = map_of M" "map_of P' = map_of P"
proof -
  show "map_of M' = map_of M" using assms by (auto simp: messages_rel_def fun_eq_iff)
  show "map_of P' = map_of P" using parts_rel_unique [OF _ _ assms(3)] assms(1,2) by (auto simp: messages_rel_def)
qed

section \<open>The rebuild\<close>

definition same_content :: "store \<Rightarrow> store \<Rightarrow> bool" where
  \<comment> \<open>the same tables but for the session rows\<close>
  "same_content s t \<longleftrightarrow>
     map_of (st_runs t) = map_of (st_runs s) \<and> map_of (st_messages t) = map_of (st_messages s) \<and>
     map_of (st_parts t) = map_of (st_parts s) \<and> map_of (st_modelCalls t) = map_of (st_modelCalls s) \<and>
     map_of (st_toolUses t) = map_of (st_toolUses s) \<and>
     map_of (st_permissionRequests t) = map_of (st_permissionRequests s) \<and>
     map_of (st_permissionGrants t) = map_of (st_permissionGrants s) \<and>
     st_aggregates t = st_aggregates s \<and> st_globalSeq t = st_globalSeq s \<and> st_events t = st_events s \<and>
     st_agents t = st_agents s \<and> st_clients t = st_clients s \<and> st_workspaces t = st_workspaces s \<and> st_auth t = st_auth s"

definition tables_wf :: "store \<Rightarrow> bool" where
  "tables_wf s \<longleftrightarrow> wf_map (st_sessions s) \<and> wf_map (st_runs s) \<and> wf_map (st_messages s) \<and> wf_map (st_parts s) \<and>
     wf_map (st_modelCalls s) \<and> wf_map (st_toolUses s) \<and> wf_map (st_permissionRequests s) \<and>
     wf_map (st_permissionGrants s)"

lemma same_content_refl: "same_content s s"
  by (simp add: same_content_def)

lemma same_content_trans: "same_content s t \<Longrightarrow> same_content t u \<Longrightarrow> same_content s u"
  by (simp add: same_content_def)

lemma tables_ok_wf: "tables_ok L s \<Longrightarrow> tables_wf s"
  by (simp add: tables_ok_def tables_wf_def)

lemma replace_keeps_rest:
  "st_aggregates (replaceSessionProjectionLocked L pr s) = st_aggregates s"
  "st_globalSeq (replaceSessionProjectionLocked L pr s) = st_globalSeq s"
  "st_events (replaceSessionProjectionLocked L pr s) = st_events s"
  "st_agents (replaceSessionProjectionLocked L pr s) = st_agents s"
  "st_clients (replaceSessionProjectionLocked L pr s) = st_clients s"
  "st_workspaces (replaceSessionProjectionLocked L pr s) = st_workspaces s"
  "st_auth (replaceSessionProjectionLocked L pr s) = st_auth s"
  by (simp_all add: replaceSessionProjectionLocked_def Let_def)

lemma replace_same:
  assumes L: "lib_ok L" and tab: "tables_ok L s" and J: "messages_rel J (st_messages s) (st_parts s)"
    and rows: "projected_rows L s J sid pr" and id: "ses_ID (prj_Session pr) = sid"
  shows "same_content s (replaceSessionProjectionLocked L pr s)"
    "st_sessions (replaceSessionProjectionLocked L pr s) = AList.update sid (prj_Session pr) (st_sessions s)"
    "tables_wf (replaceSessionProjectionLocked L pr s)"
proof -
  let ?t = "replaceSessionProjectionLocked L pr s"
  define u where "u = s\<lparr>st_parts := del_where (session_part sid s) (st_parts s),
    st_messages := del_where (\<lambda>m. msg_SessionID m = sid) (st_messages s),
    st_modelCalls := del_where (\<lambda>c. mcl_SessionID c = sid) (st_modelCalls s),
    st_toolUses := del_where (\<lambda>u. tlu_SessionID u = sid) (st_toolUses s),
    st_permissionRequests := del_where (\<lambda>r. prq_SessionID r = sid) (st_permissionRequests s),
    st_permissionGrants := del_where (\<lambda>g. pgr_SessionID g = sid) (st_permissionGrants s),
    st_sessions := AList.update sid (prj_Session pr) (st_sessions s),
    st_runs := put_all run_ID (map (copySessionRun L) (prj_Runs pr))
      (del_where (\<lambda>r. run_SessionID r = sid) (st_runs s))\<rparr>"
  let ?J = "del_where (\<lambda>m. msg_SessionID m = sid) J"
  have sp: "session_part sid (s\<lparr>st_runs := R\<rparr>) = session_part sid s" for R by (simp add: session_part_def fun_eq_iff)
  have t: "?t = (fold put_message (prj_Messages pr) u)\<lparr>
      st_modelCalls := put_all mcl_ID (prj_ModelCalls pr) (st_modelCalls u),
      st_toolUses := put_all tlu_ID (prj_ToolUses pr) (st_toolUses u),
      st_permissionRequests := put_all prq_ID (prj_PermissionRequests pr) (st_permissionRequests u),
      st_permissionGrants := put_all pgr_ID (prj_PermissionGrants pr) (st_permissionGrants u)\<rparr>"
    by (simp add: replaceSessionProjectionLocked_def Let_def id u_def sp)
  have wf: "wf_map (st_messages s)" "wf_map (st_parts s)" "wf_map J" "wf_map (st_runs s)" "tables_wf s"
    using tab J tables_ok_wf by (simp_all add: tables_ok_def messages_rel_def)
  have copies: "map (copySessionRun L) (prj_Runs pr) = prj_Runs pr"
  proof (rule map_idI)
    fix r assume "r \<in> set (prj_Runs pr)"
    then obtain k where "map_of (st_runs s) k = Some r"
      using rows wf(4) unfolding projected_rows_def by (metis subsetD vals_mem)
    then have "agent_ok L (run_Agent r)" using tab unfolding tables_ok_def by blast
    then show "copySessionRun L r = r" by (rule copySessionRun_ok [OF L])
  qed
  have del: "messages_rel ?J (st_messages u) (st_parts u)"
    using messages_rel_delete [OF J wf(1,2), of "session_part sid s" sid]
    by (simp add: u_def session_part_def split: option.splits)
  have parts: "prt_MessageID p = msg_ID m \<and> map_of (st_parts s) (prt_ID p) = Some p"
    if "m \<in> set (prj_Messages pr)" "p \<in> set (msg_Parts m)" for m p
  proof -
    have m: "map_of J (msg_ID m) = Some m" using rows that(1) by (auto simp: projected_rows_def)
    then have "prt_MessageID p = msg_ID m" using J that(2) by (auto simp: messages_rel_def)
    moreover have "parts_of J (prt_ID p) p" using m that(2) calculation by (auto simp: parts_of_def)
    then have "map_of (st_parts s) (prt_ID p) = Some p" using J by (auto simp: messages_rel_def parts_rel_def)
    ultimately show ?thesis by blast
  qed
  have gone: "map_of ?J (msg_ID m) = None \<and> distinct (map prt_ID (msg_Parts m))" if "m \<in> set (prj_Messages pr)" for m
    using rows that wf(3) J by (auto simp: projected_rows_def map_simps messages_rel_def)
  have sub: "map_of (st_parts s) i = Some p" if "map_of (st_parts u) i = Some p" for i p
    using that wf(2) by (auto simp: u_def map_simps split: option.splits if_splits)
  have wfu: "wf_map (st_parts u)" "wf_map (st_messages u)" using wf by (simp_all add: u_def)
  have msgs: "messages_rel (put_all msg_ID (prj_Messages pr) ?J) (st_messages ?t) (st_parts ?t)"
    "wf_map (st_parts ?t)" "wf_map (st_messages ?t)"
    using fold_put_message [OF del wfu, where P = "st_parts s" and ms = "prj_Messages pr"] parts gone sub rows
    by (auto simp: t projected_rows_def)
  have "map_of (put_all msg_ID (prj_Messages pr) ?J) = map_of J" using rows by (simp add: projected_rows_def)
  note same = messages_rel_unique [OF J msgs(1) this]
  show "same_content s ?t" unfolding same_content_def replace_keeps_rest
    using rows same by (simp add: t copies projected_rows_def u_def)
  show "st_sessions ?t = AList.update sid (prj_Session pr) (st_sessions s)" by (simp add: t u_def)
  show "tables_wf ?t" using msgs(2,3) wf(5) unfolding tables_wf_def by (simp add: t u_def)
qed

lemma store_inv_same:
  assumes inv: "store_inv L s" and wf: "tables_wf t" and same: "same_content s t"
    and sess: "st_sessions t = AList.update sid p (st_sessions s)"
    and p: "ProjectSession L (history s (session_ref sid)) = Inr p" "ses_ID p = sid"
  shows "store_inv L t"
proof -
  obtain J where J: "messages_rel J (st_messages s) (st_parts s)" and ok: "sessions_ok L s J" "tables_ok L s"
    using inv by (auto simp: store_inv_def)
  have hist: "history t = history s" by (rule history_frame) (use same in \<open>simp add: same_content_def\<close>)
  have eq: "map_of (st_runs t) = map_of (st_runs s)" "map_of (st_messages t) = map_of (st_messages s)"
    "map_of (st_parts t) = map_of (st_parts s)" "map_of (st_modelCalls t) = map_of (st_modelCalls s)"
    "map_of (st_toolUses t) = map_of (st_toolUses s)"
    "map_of (st_permissionRequests t) = map_of (st_permissionRequests s)"
    "map_of (st_permissionGrants t) = map_of (st_permissionGrants s)" "st_aggregates t = st_aggregates s"
    using same by (simp_all add: same_content_def)
  show ?thesis
  proof (rule store_invI)
    show "tables_ok L t" using ok(2) wf p(2) unfolding tables_ok_def tables_wf_def keyed_def eq sess by simp
    show "messages_rel J (st_messages t) (st_parts t)" using J unfolding messages_rel_def parts_rel_def eq .
    show "sessions_ok L t J" unfolding sessions_ok_def
    proof
      fix i
      have "views_ok L i (history s (session_ref i)) t J"
        by (rule views_ok_cong [OF sessions_okD(2) [OF ok(1)]]) (simp_all add: own_def fun_eq_iff eq)
      moreover have "head_ok L i (history s (session_ref i)) (map_of (st_sessions t) i)"
        using sessions_okD(1) [OF ok(1), of i] p by (simp add: sess head_ok_def)
      ultimately show "head_ok L i (history t (session_ref i)) (map_of (st_sessions t) i) \<and>
          views_ok L i (history t (session_ref i)) t J" unfolding hist by blast
    qed
  qed
qed

text \<open>One rebuild, and the invariant after it.\<close>

lemma replace_session:
  assumes inv: "store_inv L s" and L: "lib_ok L" and p: "ProjectSession L (history s (session_ref sid)) = Inr p" "ses_ID p = sid"
  obtains pr where "ProjectSessionAggregate L (history s (session_ref sid)) = Inr pr"
    "store_inv L (replaceSessionProjectionLocked L pr s)" "same_content s (replaceSessionProjectionLocked L pr s)"
    "st_sessions (replaceSessionProjectionLocked L pr s) = AList.update sid p (st_sessions s)"
proof -
  obtain J where J: "messages_rel J (st_messages s) (st_parts s)" and ok: "sessions_ok L s J" "tables_ok L s"
    using inv by (auto simp: store_inv_def)
  obtain pr where pr: "ProjectSessionAggregate L (history s (session_ref sid)) = Inr pr" "prj_Session pr = p"
    "projected_rows L s J sid pr" using aggregate_projects [OF ok(2) J ok(1) p(1)] by blast
  have id: "ses_ID (prj_Session pr) = sid" using pr(2) p(2) by simp
  note same = replace_same [OF L ok(2) J pr(3) id, unfolded pr(2)]
  show thesis
    by (rule that [OF pr(1) store_inv_same [OF inv same(3,1,2) p] same(1,2)])
qed

lemma rebuild_session:
  assumes inv: "store_inv L s" and L: "lib_ok L" and x: "map_of (st_sessions s) sid = Some x"
  obtains p t where "RebuildSessionProjections L sid s = (Inr (), t)" "store_inv L t" "same_content s t"
    "st_sessions t = AList.update sid p (st_sessions s)" "ProjectSession L (history s (session_ref sid)) = Inr p"
    "same_but_workspace x p"
proof -
  obtain J where ok: "sessions_ok L s J" using inv by (auto simp: store_inv_def)
  obtain p where p: "ProjectSession L (history s (session_ref sid)) = Inr p" "ses_ID p = sid" "same_but_workspace x p"
    using sessions_okD(1) [OF ok, of sid] unfolding x by (rule head_ok_Some)
  obtain pr where pr: "ProjectSessionAggregate L (history s (session_ref sid)) = Inr pr"
    "store_inv L (replaceSessionProjectionLocked L pr s)" "same_content s (replaceSessionProjectionLocked L pr s)"
    "st_sessions (replaceSessionProjectionLocked L pr s) = AList.update sid p (st_sessions s)"
    by (rule replace_session [OF inv L p(1,2)])
  show thesis by (rule that [OF _ pr(2-4) p(1,3)]) (simp add: RebuildSessionProjections_def attempt_def pr(1))
qed

section \<open>Rebuilding every session\<close>

text \<open>
  The code projects every stream first and replaces the sessions afterwards; a session replaced later
  is projected from a stream the earlier ones do not touch.
\<close>

definition sessions_close :: "store \<Rightarrow> store \<Rightarrow> bool" where
  \<comment> \<open>the session rows are those of before up to the workspace\<close>
  "sessions_close s t \<longleftrightarrow> (\<forall>i. rel_option same_but_workspace (map_of (st_sessions s) i) (map_of (st_sessions t) i))"

lemma sessions_close_refl: "sessions_close s s"
  by (simp add: sessions_close_def option.rel_refl)

lemma same_but_workspace_trans: "same_but_workspace a b \<Longrightarrow> same_but_workspace b c \<Longrightarrow> same_but_workspace a c"
  by (simp add: same_but_workspace_def)

lemma same_but_workspace_sym: "same_but_workspace a b \<Longrightarrow> same_but_workspace b a"
  by (simp add: same_but_workspace_def)

lemma stream_session:
  assumes inv: "store_inv L s" and mem: "map_of (st_aggregates s) ref = Some evs"
  obtains p x where "ref = session_ref (ses_ID p)" "history s ref = evs" "ProjectSession L evs = Inr p"
    "map_of (st_sessions s) (ses_ID p) = Some x" "same_but_workspace x p"
proof -
  obtain J where ok: "sessions_ok L s J" "tables_ok L s" using inv by (auto simp: store_inv_def)
  have "ref_Type ref = AggregateSession" "evs \<noteq> []" using ok(2) mem unfolding tables_ok_def by blast+
  then have ref: "ref = session_ref (ref_ID ref)" using session_ref_surj by metis
  have hist: "history s ref = evs" using mem by (simp add: history_def)
  have head: "head_ok L (ref_ID ref) evs (map_of (st_sessions s) (ref_ID ref))"
    using sessions_okD(1) [OF ok(1), of "ref_ID ref"] ref hist by simp
  then obtain x where x: "map_of (st_sessions s) (ref_ID ref) = Some x"
    using \<open>evs \<noteq> []\<close> by (cases "map_of (st_sessions s) (ref_ID ref)") (auto simp: head_ok_def)
  obtain p where "ProjectSession L evs = Inr p" "ses_ID p = ref_ID ref" "same_but_workspace x p"
    using head unfolding x by (rule head_ok_Some)
  then show thesis using that [of p x] ref hist x by simp
qed

lemma replace_all:
  assumes "list_all2 (\<lambda>(ref, evs) pr. ProjectSessionAggregate L evs = Inr pr) kvs prs"
    and "store_inv L s" "lib_ok L" "\<forall>(ref, evs) \<in> set kvs. map_of (st_aggregates s) ref = Some evs"
  shows "store_inv L (fold (replaceSessionProjectionLocked L) prs s)
    \<and> same_content s (fold (replaceSessionProjectionLocked L) prs s)
    \<and> sessions_close s (fold (replaceSessionProjectionLocked L) prs s)"
  using assms
proof (induction arbitrary: s rule: list_all2_induct)
  case Nil
  then show ?case by (simp add: same_content_refl sessions_close_refl)
next
  case (Cons kv kvs pr prs)
  obtain ref evs where kv: "kv = (ref, evs)" by fastforce
  have "map_of (st_aggregates s) ref = Some evs" using Cons.prems(3) kv by simp
  then obtain p x where p: "ref = session_ref (ses_ID p)" "history s ref = evs" "ProjectSession L evs = Inr p"
      "map_of (st_sessions s) (ses_ID p) = Some x" "same_but_workspace x p"
    by (rule stream_session [OF Cons.prems(1)])
  let ?t = "replaceSessionProjectionLocked L pr s" and ?u = "fold (replaceSessionProjectionLocked L) prs (replaceSessionProjectionLocked L pr s)"
  have t: "store_inv L ?t" "same_content s ?t" "st_sessions ?t = AList.update (ses_ID p) p (st_sessions s)"
  proof -
    obtain pr' where pr': "ProjectSessionAggregate L (history s (session_ref (ses_ID p))) = Inr pr'"
      "store_inv L (replaceSessionProjectionLocked L pr' s)" "same_content s (replaceSessionProjectionLocked L pr' s)"
      "st_sessions (replaceSessionProjectionLocked L pr' s) = AList.update (ses_ID p) p (st_sessions s)"
      by (rule replace_session [OF Cons.prems(1,2), of "ses_ID p" p]) (use p in simp_all)
    have "pr' = pr" using pr'(1) Cons.hyps(1) p(1,2) kv by simp
    then show "store_inv L ?t" "same_content s ?t" "st_sessions ?t = AList.update (ses_ID p) p (st_sessions s)"
      using pr' by simp_all
  qed
  have "\<forall>(ref, evs) \<in> set kvs. map_of (st_aggregates ?t) ref = Some evs"
    using Cons.prems(3) t(2) by (auto simp: same_content_def)
  from Cons.IH [OF t(1) Cons.prems(2) this]
  have u: "store_inv L ?u" "same_content ?t ?u" "sessions_close ?t ?u" by blast+
  have "rel_option same_but_workspace (map_of (st_sessions s) i) (map_of (st_sessions ?u) i)" for i
  proof (cases "i = ses_ID p")
    case True
    then obtain z where "map_of (st_sessions ?u) i = Some z" "same_but_workspace p z"
      using u(3) [unfolded sessions_close_def, rule_format, of i] by (auto simp: t(3) option_rel_Some1)
    then show ?thesis using True p(4,5) same_but_workspace_trans by auto
  next
    case False
    then show ?thesis using u(3) [unfolded sessions_close_def, rule_format, of i] by (simp add: t(3))
  qed
  then show ?case using u(1) same_content_trans [OF t(2) u(2)] by (simp add: sessions_close_def)
qed

lemma mapE_conv: "mapE f xs = Inr ys \<longleftrightarrow> list_all2 (\<lambda>x y. f x = Inr y) xs ys"
  by (induction xs arbitrary: ys) (auto simp: res_simps list_all2_Cons1)

lemma rebuild_all:
  assumes inv: "store_inv L s" and L: "lib_ok L"
  obtains t where "RebuildAllSessionProjections L s = (Inr (), t)" "store_inv L t" "same_content s t" "sessions_close s t"
proof -
  let ?kvs = "filter (\<lambda>(ref, evs). ref_Type ref = AggregateSession) (st_aggregates s)"
  have wf: "wf_map (st_aggregates s)" using inv by (auto simp: store_inv_def tables_ok_def)
  have rows: "\<forall>(ref, evs) \<in> set ?kvs. map_of (st_aggregates s) ref = Some evs"
    using wf_map_entry [OF wf] by auto
  have "\<exists>pr. ProjectSessionAggregate L (snd kv) = Inr pr" if "kv \<in> set ?kvs" for kv
  proof -
    have "map_of (st_aggregates s) (fst kv) = Some (snd kv)" using rows that by auto
    then obtain p x where p: "fst kv = session_ref (ses_ID p)" "history s (fst kv) = snd kv" "ProjectSession L (snd kv) = Inr p"
      by (rule stream_session [OF inv])
    show ?thesis by (rule replace_session [OF inv L, of "ses_ID p" p]) (use p in auto)
  qed
  then have "\<exists>pr. ProjectSessionAggregate L (snd kv) = Inr pr" if "kv \<in> set ?kvs" for kv using that by blast
  then obtain f where f: "\<And>kv. kv \<in> set ?kvs \<Longrightarrow> ProjectSessionAggregate L (snd kv) = Inr (f kv)" by metis
  have prs: "mapE (\<lambda>(ref, evs). ProjectSessionAggregate L evs) ?kvs = Inr (map f ?kvs)"
    by (rule mapE_all_Inr) (use f in \<open>auto simp: split_def\<close>)
  then have "list_all2 (\<lambda>(ref, evs) pr. ProjectSessionAggregate L evs = Inr pr) ?kvs (map f ?kvs)"
    by (simp add: mapE_conv split_def)
  from replace_all [OF this inv L rows] show thesis
    by (intro that [of "fold (replaceSessionProjectionLocked L) (map f ?kvs) s"])
      (simp_all add: RebuildAllSessionProjections_def attempt_def prs)
qed

end
