(* ===== verification/Store_Frames.thy ===== *)
theory Store_Frames
  imports Store_Rebuild
begin

text \<open>
  What the operations leave alone.  A field of the store (or a tuple of fields) is passive when no
  update of the tables that record sessions, messages, calls, tools, permissions, events, agents and
  credentials changes it; the operations on those tables keep it, which is proved once for every
  such field.
\<close>

section \<open>Passive fields\<close>

locale passive_field =
  fixes f :: "store \<Rightarrow> 'a"
  assumes passive_upd [simp]:
    "f (s\<lparr>st_sessions := v1\<rparr>) = f s" "f (s\<lparr>st_messages := v2\<rparr>) = f s" "f (s\<lparr>st_parts := v3\<rparr>) = f s"
    "f (s\<lparr>st_modelCalls := v4\<rparr>) = f s" "f (s\<lparr>st_toolUses := v5\<rparr>) = f s"
    "f (s\<lparr>st_permissionRequests := v6\<rparr>) = f s" "f (s\<lparr>st_permissionGrants := v7\<rparr>) = f s"
    "f (s\<lparr>st_events := v8\<rparr>) = f s" "f (s\<lparr>st_aggregates := v9\<rparr>) = f s" "f (s\<lparr>st_globalSeq := v10\<rparr>) = f s"
    "f (s\<lparr>st_agents := v11\<rparr>) = f s" "f (s\<lparr>st_auth := v12\<rparr>) = f s"
begin

lemma keeps_commit [simp]: "f (commit e p s) = f s"
  by (simp add: appendPermissionAggregateCommitLocked_def Let_def)

lemma keeps_appends:
  "appendMessageAggregateLocked L w m s = Inr t \<Longrightarrow> f t = f s"
  "appendToolUseAggregateLocked L eid u s = Inr t \<Longrightarrow> f t = f s"
  by (auto simp: appendMessageAggregateLocked_def appendToolUseAggregateLocked_def res_simps)

lemma keeps_puts [simp]:
  "f (put_event ev s) = f s" "f (put_request r s) = f s" "f (put_tool_use u s) = f s" "f (put_message m s) = f s"
  "f (applyMessageSnapshotLocked m s) = f s"
  by (simp_all add: put_event_def put_request_def put_tool_use_def put_message_def applyMessageSnapshotLocked_def Let_def)

lemma fold_keeps: "(\<And>x s. f (g x s) = f s) \<Longrightarrow> f (fold g xs s) = f s"
  by (induction xs arbitrary: s) simp_all

lemma keeps_folds [simp]:
  "f (fold commit_call_update us s) = f s" "f (fold commit_interruption ps s) = f s" "f (fold put_message ms s) = f s"
  "f (fold (\<lambda>e. commit e p) es s) = f s"
  by (rule fold_keeps; simp add: commit_call_update_def commit_interruption_def split_def)+

lemma keeps_sessions:
  "f (snd (CreateAgent L w a s)) = f s" "f (snd (UpdateAgent L w a s)) = f s" "f (snd (DeleteAgent i s)) = f s"
  "f (snd (SetAuth L w au s)) = f s" "f (snd (AppendSessionEvent w ev s)) = f s"
  "f (snd (CreateSession L w x s)) = f s" "f (snd (RenameSession L w i title v s)) = f s"
  "f (snd (MoveSession L w i dir ws v s)) = f s"
  unfolding CreateAgent_def UpdateAgent_def DeleteAgent_def SetAuth_def AppendSessionEvent_def CreateSession_def
    RenameSession_def MoveSession_def applySessionMetadataEvent_def Let_def
  by (intro outcome_state [where P = "\<lambda>t. f t = f s"]; simp)+

lemma keeps_messages:
  "f (snd (SaveMessage L w m s)) = f s" "f (snd (UpsertModelCall L w c s)) = f s"
  "f (snd (InterruptActiveModelCalls L w rid et em s)) = f s"
  unfolding SaveMessage_def save_snapshot_def UpsertModelCall_def save_model_call_def InterruptActiveModelCalls_def Let_def
  by (intro outcome_state [where P = "\<lambda>t. f t = f s"]; simp add: keeps_appends)+

lemma keeps_save_tool_use: "f (snd (save_tool_use L eid u s)) = f s"
  unfolding save_tool_use_def Let_def by (intro outcome_state [where P = "\<lambda>t. f t = f s"]; simp add: keeps_appends)

lemma keeps_interrupt_loop: "f (snd (interrupt_uses_loop L w n us s)) = f s"
proof (induction us arbitrary: n s)
  case (Cons u us)
  show ?case unfolding interrupt_uses_loop.simps
    by (intro outcome_state [where P = "\<lambda>t. f t = f s"]) (simp_all add: Cons.IH keeps_appends)
qed simp

lemma keeps_tools:
  "f (snd (SaveToolUse L w u s)) = f s" "f (snd (InterruptActiveToolUses L w s)) = f s"
  "f (snd (CreatePermissionRequest L w r s)) = f s" "f (snd (ResolvePermissionRequest L w rs s)) = f s"
  "f (snd (InterruptPendingPermissionRequests L w s)) = f s"
  unfolding SaveToolUse_def InterruptActiveToolUses_def CreatePermissionRequest_def record_request_def
    ResolvePermissionRequest_def record_resolution_def InterruptPendingPermissionRequests_def Let_def
  by (intro outcome_state [where P = "\<lambda>t. f t = f s"] keeps_save_tool_use keeps_interrupt_loop; simp)+

lemmas keeps = keeps_sessions keeps_messages keeps_tools

end

text \<open>A field that the run operations, the purge and the rebuild leave alone too.\<close>

locale catalog_field = passive_field f for f :: "store \<Rightarrow> 'a" +
  assumes passive_runs [simp]: "f (s\<lparr>st_runs := v\<rparr>) = f s"
begin

lemma keeps_replace [simp]: "f (replaceSessionProjectionLocked L pr s) = f s"
  by (simp add: replaceSessionProjectionLocked_def Let_def)

lemma keeps_runs:
  "f (snd (AdmitSessionRun L w r s)) = f s" "f (snd (ClaimNextSessionRun L w i s)) = f s"
  "f (snd (SettleSessionRun L w st s)) = f s" "f (snd (PurgeSession i v s)) = f s"
  "f (snd (RebuildSessionProjections L i s)) = f s" "f (snd (RebuildAllSessionProjections L s)) = f s"
  unfolding AdmitSessionRun_def record_admission_def ClaimNextSessionRun_def SettleSessionRun_def transition_run_def
    appendRunEventLocked_def PurgeSession_def RebuildSessionProjections_def RebuildAllSessionProjections_def Let_def
  by (intro outcome_state [where P = "\<lambda>t. f t = f s"]; (simp | auto simp: fold_keeps))+

end

interpretation catalog_tables: catalog_field "\<lambda>s. (st_clients s, st_workspaces s)"
  by unfold_locales simp_all

interpretation run_table: passive_field st_runs
  by unfold_locales simp_all

lemma run_table_catalog:
  "st_runs (snd (CreateClientWithID L w i name s)) = st_runs s" "st_runs (snd (EnsureDefaultClient L w s)) = st_runs s"
  "st_runs (snd (CreateWorkspace L w x s)) = st_runs s" "st_runs (snd (UpdateWorkspace L w x s)) = st_runs s"
  "st_runs (snd (DeleteWorkspace i s)) = st_runs s"
  unfolding CreateClientWithID_def EnsureDefaultClient_def CreateWorkspace_def UpdateWorkspace_def DeleteWorkspace_def Let_def
  by (intro outcome_state [where P = "\<lambda>t. st_runs t = st_runs s"]; simp)+

section \<open>Properties of the streams\<close>

text \<open>
  A property of the streams does not depend on the tables, and the commit of an event keeps it.  All
  operations that change the streams by commits only keep such a property.
\<close>

locale stream_property =
  fixes P :: "store \<Rightarrow> bool"
  assumes tables [simp]:
    "P (s\<lparr>st_sessions := v1\<rparr>) = P s" "P (s\<lparr>st_messages := v2\<rparr>) = P s" "P (s\<lparr>st_parts := v3\<rparr>) = P s"
    "P (s\<lparr>st_modelCalls := v4\<rparr>) = P s" "P (s\<lparr>st_toolUses := v5\<rparr>) = P s"
    "P (s\<lparr>st_permissionRequests := v6\<rparr>) = P s" "P (s\<lparr>st_permissionGrants := v7\<rparr>) = P s"
    "P (s\<lparr>st_events := v8\<rparr>) = P s" "P (s\<lparr>st_agents := v9\<rparr>) = P s" "P (s\<lparr>st_auth := v10\<rparr>) = P s"
    "P (s\<lparr>st_clients := v11\<rparr>) = P s" "P (s\<lparr>st_workspaces := v12\<rparr>) = P s" "P (s\<lparr>st_runs := v13\<rparr>) = P s"
    and committed: "P s \<Longrightarrow> P (commit e p s)"
begin

lemma fold_keeps: "P s \<Longrightarrow> (\<And>x s. P s \<Longrightarrow> P (g x s)) \<Longrightarrow> P (fold g xs s)"
  by (induction xs arbitrary: s) simp_all

lemma puts [simp]:
  "P (put_event ev s) = P s" "P (put_request r s) = P s" "P (put_tool_use u s) = P s" "P (put_message m s) = P s"
  "P (applyMessageSnapshotLocked m s) = P s"
  by (simp_all add: put_event_def put_request_def put_tool_use_def put_message_def applyMessageSnapshotLocked_def Let_def)

lemma put_messages [simp]: "P (fold put_message ms s) = P s"
  by (induction ms arbitrary: s) simp_all

lemma steps:
  "P s \<Longrightarrow> P (commit_call_update cu s)" "P s \<Longrightarrow> P (commit_interruption ci s)"
  by (simp_all add: commit_call_update_def commit_interruption_def split_def committed)

lemma appends:
  "P s \<Longrightarrow> appendMessageAggregateLocked L w m s = Inr t \<Longrightarrow> P t"
  "P s \<Longrightarrow> appendToolUseAggregateLocked L eid u s = Inr t \<Longrightarrow> P t"
  by (auto simp: appendMessageAggregateLocked_def appendToolUseAggregateLocked_def res_simps intro: committed)

lemma replace [simp]: "P (replaceSessionProjectionLocked L pr s) = P s"
  by (simp add: replaceSessionProjectionLocked_def Let_def)

lemma keeps_catalog:
  assumes [simp]: "P s"
  shows "P (snd (CreateAgent L w a s))" "P (snd (UpdateAgent L w a s))" "P (snd (DeleteAgent i s))"
    "P (snd (CreateClientWithID L w i name s))" "P (snd (EnsureDefaultClient L w s))" "P (snd (CreateWorkspace L w x s))"
    "P (snd (UpdateWorkspace L w x s))" "P (snd (DeleteWorkspace i s))" "P (snd (SetAuth L w au s))"
    "P (snd (AppendSessionEvent w ev s))"
  unfolding CreateAgent_def UpdateAgent_def DeleteAgent_def CreateClientWithID_def EnsureDefaultClient_def
    CreateWorkspace_def UpdateWorkspace_def DeleteWorkspace_def SetAuth_def AppendSessionEvent_def Let_def
  by (intro outcome_state [where P = P]; simp)+

lemma keeps_sessions:
  assumes [simp]: "P s"
  shows "P (snd (RenameSession L w i title v s))" "P (snd (MoveSession L w i dir ws v s))"
    "P (snd (ClaimNextSessionRun L w i s))" "P (snd (SettleSessionRun L w st s))"
  unfolding RenameSession_def MoveSession_def applySessionMetadataEvent_def ClaimNextSessionRun_def SettleSessionRun_def
    transition_run_def appendRunEventLocked_def Let_def
  by (intro outcome_state [where P = P]; auto intro: committed)+

lemma keeps_rebuild:
  assumes "P s"
  shows "P (snd (RebuildSessionProjections L i s))" "P (snd (RebuildAllSessionProjections L s))"
  unfolding RebuildSessionProjections_def RebuildAllSessionProjections_def
  by (intro attempt_state [where P = P] assms; simp add: assms fold_keeps)+

lemma keeps_messages:
  assumes [simp]: "P s"
  shows "P (snd (SaveMessage L w m s))" "P (snd (UpsertModelCall L w c s))"
    "P (snd (InterruptActiveModelCalls L w rid et em s))"
  unfolding SaveMessage_def save_snapshot_def UpsertModelCall_def save_model_call_def InterruptActiveModelCalls_def Let_def
  by (intro outcome_state [where P = P]; auto intro: committed fold_keeps steps appends [OF assms])+

lemma keeps_interrupt_loop: "P s \<Longrightarrow> P (snd (interrupt_uses_loop L w n us s))"
proof (induction us arbitrary: n s)
  case (Cons u us)
  show ?case unfolding interrupt_uses_loop.simps
    by (intro outcome_state [where P = P] Cons.prems Cons.IH) (simp_all add: appends(2) [OF Cons.prems])
qed simp

lemma keeps_tools:
  assumes [simp]: "P s"
  shows "P (snd (SaveToolUse L w u s))" "P (snd (InterruptActiveToolUses L w s))"
    "P (snd (CreatePermissionRequest L w r s))" "P (snd (ResolvePermissionRequest L w rs s))"
    "P (snd (InterruptPendingPermissionRequests L w s))"
  unfolding SaveToolUse_def save_tool_use_def InterruptActiveToolUses_def CreatePermissionRequest_def record_request_def
    ResolvePermissionRequest_def record_resolution_def InterruptPendingPermissionRequests_def Let_def
  by (intro outcome_state [where P = P] keeps_interrupt_loop assms;
      auto intro: committed fold_keeps steps appends [OF assms])+

lemmas keeps = keeps_catalog keeps_sessions keeps_rebuild keeps_messages keeps_tools

end

end
