(* ===== verification/Store_Commands.thy ===== *)
theory Store_Commands
  imports Store_Frames
begin

text \<open>
  The store as a state machine: one command per operation of the interface that changes the state,
  the states that sequences of commands reach, and what a property of the store has to promise to
  hold in all of them.
\<close>

section \<open>Commands\<close>

datatype command =
    Create_Agent agent | Update_Agent agent | Delete_Agent string
  | Create_Client string | Create_Client_With_ID string string | Ensure_Default_Client
  | Create_Workspace workspace | Update_Workspace workspace | Delete_Workspace string
  | Set_Auth auth
  | Create_Session session | Rename_Session string string int | Move_Session string string string int
  | Purge_Session string int
  | Append_Session_Event session_event
  | Rebuild_Session_Projections string | Rebuild_All_Session_Projections
  | Admit_Session_Run session_run | Claim_Next_Session_Run string | Settle_Session_Run run_settlement
  | Save_Message stored_message
  | Upsert_Model_Call model_call | Interrupt_Active_Model_Calls string string string
  | Save_Tool_Use tool_use | Interrupt_Active_Tool_Uses
  | Create_Permission_Request permission_request | Resolve_Permission_Request permission_resolution
  | Interrupt_Pending_Permission_Requests

fun exec :: "lib \<Rightarrow> world \<Rightarrow> command \<Rightarrow> store \<Rightarrow> store" where
  "exec L w (Create_Agent a) s = snd (CreateAgent L w a s)"
| "exec L w (Update_Agent a) s = snd (UpdateAgent L w a s)"
| "exec L w (Delete_Agent i) s = snd (DeleteAgent i s)"
| "exec L w (Create_Client name) s = snd (CreateClient L w name s)"
| "exec L w (Create_Client_With_ID i name) s = snd (CreateClientWithID L w i name s)"
| "exec L w Ensure_Default_Client s = snd (EnsureDefaultClient L w s)"
| "exec L w (Create_Workspace x) s = snd (CreateWorkspace L w x s)"
| "exec L w (Update_Workspace x) s = snd (UpdateWorkspace L w x s)"
| "exec L w (Delete_Workspace i) s = snd (DeleteWorkspace i s)"
| "exec L w (Set_Auth a) s = snd (SetAuth L w a s)"
| "exec L w (Create_Session x) s = snd (CreateSession L w x s)"
| "exec L w (Rename_Session i title v) s = snd (RenameSession L w i title v s)"
| "exec L w (Move_Session i dir ws v) s = snd (MoveSession L w i dir ws v s)"
| "exec L w (Purge_Session i v) s = snd (PurgeSession i v s)"
| "exec L w (Append_Session_Event e) s = snd (AppendSessionEvent w e s)"
| "exec L w (Rebuild_Session_Projections i) s = snd (RebuildSessionProjections L i s)"
| "exec L w Rebuild_All_Session_Projections s = snd (RebuildAllSessionProjections L s)"
| "exec L w (Admit_Session_Run r) s = snd (AdmitSessionRun L w r s)"
| "exec L w (Claim_Next_Session_Run i) s = snd (ClaimNextSessionRun L w i s)"
| "exec L w (Settle_Session_Run st) s = snd (SettleSessionRun L w st s)"
| "exec L w (Save_Message m) s = snd (SaveMessage L w m s)"
| "exec L w (Upsert_Model_Call c) s = snd (UpsertModelCall L w c s)"
| "exec L w (Interrupt_Active_Model_Calls r t m) s = snd (InterruptActiveModelCalls L w r t m s)"
| "exec L w (Save_Tool_Use u) s = snd (SaveToolUse L w u s)"
| "exec L w Interrupt_Active_Tool_Uses s = snd (InterruptActiveToolUses L w s)"
| "exec L w (Create_Permission_Request r) s = snd (CreatePermissionRequest L w r s)"
| "exec L w (Resolve_Permission_Request rs) s = snd (ResolvePermissionRequest L w rs s)"
| "exec L w Interrupt_Pending_Permission_Requests s = snd (InterruptPendingPermissionRequests L w s)"

text \<open>
  The states reached from the empty store by commands that satisfy \<open>ok\<close>, and the interface of a
  property that all of them have.
\<close>

inductive reachable :: "lib \<Rightarrow> (world \<Rightarrow> command \<Rightarrow> store \<Rightarrow> bool) \<Rightarrow> store \<Rightarrow> bool" for L ok where
  reachable_start: "reachable L ok NewStore"
| reachable_step: "reachable L ok s \<Longrightarrow> ok w c s \<Longrightarrow> reachable L ok (exec L w c s)"

inductive_cases reachableE: "reachable L ok s"

locale store_property =
  fixes L :: lib
    and ok :: "world \<Rightarrow> command \<Rightarrow> store \<Rightarrow> bool"
    and P :: "store \<Rightarrow> bool"
  assumes holds_start: "P NewStore"
    and holds_step: "P s \<Longrightarrow> ok w c s \<Longrightarrow> P (exec L w c s)"
begin

lemma holds: "reachable L ok s \<Longrightarrow> P s"
  by (induction rule: reachable.induct) (auto intro: holds_start holds_step)

lemma holds_mono:
  assumes "reachable L ok' s" "\<And>w c s. ok' w c s \<Longrightarrow> ok w c s" shows "P s"
  using assms(1) by (induction rule: reachable.induct) (auto intro: holds_start holds_step assms(2))

end

lemma reachable_mono:
  assumes "reachable L ok s" "\<And>w c s. ok w c s \<Longrightarrow> ok' w c s" shows "reachable L ok' s"
  using assms(1) by (induction rule: reachable.induct) (auto intro: reachable.intros assms(2))

text \<open>Sequences of commands, for runs on concrete inputs.\<close>

fun run_commands :: "lib \<Rightarrow> (world \<times> command) list \<Rightarrow> store \<Rightarrow> store" where
  "run_commands L [] s = s"
| "run_commands L ((w, c) # cs) s = run_commands L cs (exec L w c s)"

fun all_ok :: "lib \<Rightarrow> (world \<Rightarrow> command \<Rightarrow> store \<Rightarrow> bool) \<Rightarrow> (world \<times> command) list \<Rightarrow> store \<Rightarrow> bool" where
  "all_ok L ok [] s \<longleftrightarrow> True"
| "all_ok L ok ((w, c) # cs) s \<longleftrightarrow> ok w c s \<and> all_ok L ok cs (exec L w c s)"

lemma run_commands_from: "reachable L ok s \<Longrightarrow> all_ok L ok cs s \<Longrightarrow> reachable L ok (run_commands L cs s)"
proof (induction cs arbitrary: s)
  case (Cons wc cs)
  obtain w c where wc: "wc = (w, c)" by fastforce
  have "reachable L ok (exec L w c s)" using Cons.prems wc by (auto intro: reachable_step)
  then show ?case using Cons.IH Cons.prems wc by simp
qed simp

lemma run_commands_reachable: "all_ok L ok cs NewStore \<Longrightarrow> reachable L ok (run_commands L cs NewStore)"
  by (rule run_commands_from [OF reachable_start])

section \<open>The tables are what the streams say\<close>

text \<open>
  The commands that the callers of the store send: the snapshots they pass are ones that JSON and
  the event decoders take (an agent's document decodes, a message's parts and a model call's
  metadata are JSON), new identifiers are new, a part keeps to its message, and a request names each
  of its resources once.
\<close>

fun command_ok :: "lib \<Rightarrow> world \<Rightarrow> command \<Rightarrow> store \<Rightarrow> bool" where
  "command_ok L w (Admit_Session_Run r) s \<longleftrightarrow>
     is_abs (home L) \<and> (case dec_agent L (enc_agent L (run_Agent r)) of Inl _ \<Rightarrow> False | Inr _ \<Rightarrow> True) \<and>
     map_of (st_runs s) (if run_ID r = '''' then NewID w PrefixRun 0 else run_ID r) = None"
| "command_ok L w (Save_Message m) s \<longleftrightarrow>
     message_ok L m \<and> (\<forall>p \<in> set (msg_Parts m). case map_of (st_parts s) (prt_ID p) of
       None \<Rightarrow> True | Some q \<Rightarrow> prt_MessageID q = msg_ID m)"
| "command_ok L w (Upsert_Model_Call c) s \<longleftrightarrow> model_call_ok L c"
| "command_ok L w (Create_Permission_Request r) s \<longleftrightarrow> request_clean r"
| "command_ok L w (Resolve_Permission_Request rs) s \<longleftrightarrow>
     (case map_of (st_permissionRequests s) (rsl_RequestID rs) of
       None \<Rightarrow> True | Some r \<Rightarrow> ids_fresh (length (prq_Resources r)) w s)"
| "command_ok L w c s \<longleftrightarrow> True"

lemma RebuildSessionProjections_inv:
  assumes inv: "store_inv L s" and L: "lib_ok L"
  shows "store_inv L (snd (RebuildSessionProjections L i s))"
proof (cases "map_of (st_sessions s) i")
  case None
  obtain J where ok: "sessions_ok L s J" using inv by (auto simp: store_inv_def)
  have "history s (session_ref i) = []" using sessions_okD(1) [OF ok, of i] None by (simp add: head_ok_def)
  then have "ProjectSessionAggregate L (history s (session_ref i)) = Inl (Errorf ''project session: empty event stream'')"
    by (simp add: ProjectSessionAggregate_def ProjectSession_def)
  then show ?thesis using inv by (simp add: RebuildSessionProjections_def)
next
  case (Some x)
  show ?thesis by (rule rebuild_session [OF inv L Some]) simp
qed

lemma RebuildAllSessionProjections_inv:
  assumes "store_inv L s" "lib_ok L" shows "store_inv L (snd (RebuildAllSessionProjections L s))"
  by (rule rebuild_all [OF assms]) simp

lemma exec_inv:
  assumes inv: "store_inv L s" and L: "lib_ok L" and ok: "command_ok L w c s"
  shows "store_inv L (exec L w c s)"
proof (cases c)
  case (Admit_Session_Run r)
  then obtain a where "dec_agent L (enc_agent L (run_Agent r)) = Inr a" using ok by (auto split: sum.splits)
  then show ?thesis using ok Admit_Session_Run by (simp add: AdmitSessionRun_inv [OF inv L])
next
  case (Save_Message m)
  then show ?thesis using ok by (auto intro!: SaveMessage_inv [OF inv L])
next
  case (Resolve_Permission_Request rs)
  then show ?thesis using ok by (auto intro!: ResolvePermissionRequest_inv [OF inv L])
qed (use ok in \<open>simp_all add: inv L catalog_operations_inv [OF inv] CreateClient_def DeleteWorkspace_inv CreateSession_inv RenameSession_inv
    MoveSession_inv PurgeSession_inv RebuildSessionProjections_inv RebuildAllSessionProjections_inv
    ClaimNextSessionRun_inv SettleSessionRun_inv UpsertModelCall_inv InterruptActiveModelCalls_inv
    SaveToolUse_inv InterruptActiveToolUses_inv CreatePermissionRequest_inv
    InterruptPendingPermissionRequests_inv\<close>)

interpretation contents: store_property L "command_ok L" "\<lambda>s. lib_ok L \<longrightarrow> store_inv L s" for L :: lib
  by unfold_locales (auto intro: store_inv_NewStore exec_inv)

section \<open>Names\<close>

lemma catalog_inv_same: "catalog_inv s \<Longrightarrow> (st_clients t, st_workspaces t) = (st_clients s, st_workspaces s) \<Longrightarrow> catalog_inv t"
  using catalog_inv_frame [of t s] by simp

lemmas catalog_keeps = catalog_tables.keeps [THEN catalog_inv_same [rotated]]
  catalog_tables.keeps_runs [THEN catalog_inv_same [rotated]]

lemma exec_catalog: "catalog_inv s \<Longrightarrow> catalog_inv (exec L w c s)"
  by (cases c) (simp_all add: CreateClient_def CreateClientWithID_catalog EnsureDefaultClient_catalog CreateWorkspace_catalog
      UpdateWorkspace_catalog DeleteWorkspace_catalog catalog_keeps)

interpretation names: store_property L "\<lambda>w c s. True" catalog_inv for L :: lib
  by unfold_locales (auto intro: catalog_inv_NewStore exec_catalog)

section \<open>The order of all events\<close>

text \<open>
  Each event gets the next global sequence number when it is committed, so in every stream the
  numbers grow, no two events of the store share one, and the counter is not behind any of them.
\<close>

definition order_inv :: "store \<Rightarrow> bool" where
  "order_inv s \<longleftrightarrow> wf_map (st_aggregates s) \<and>
     (\<forall>ref. sorted_wrt (<) (map agg_GlobalSequence (history s ref))) \<and>
     (\<forall>ref. \<forall>e \<in> set (history s ref). 0 < agg_GlobalSequence e \<and> agg_GlobalSequence e \<le> st_globalSeq s) \<and>
     (\<forall>ref ref' e e'. e \<in> set (history s ref) \<longrightarrow> e' \<in> set (history s ref') \<longrightarrow>
        agg_GlobalSequence e = agg_GlobalSequence e' \<longrightarrow> ref = ref' \<and> e = e') \<and> 0 \<le> st_globalSeq s"

lemma order_inv_frame:
  "order_inv s \<Longrightarrow> st_aggregates t = st_aggregates s \<Longrightarrow> st_globalSeq t = st_globalSeq s \<Longrightarrow> order_inv t"
  using history_frame [of t s] by (simp add: order_inv_def)

text \<open>A stream grows by one event with the next number; another event may be skipped before it.\<close>

lemma order_inv_snoc:
  assumes inv: "order_inv s" and seq: "agg_GlobalSequence e = st_globalSeq s + 1"
    and t: "st_aggregates t = AList.update ref (history s ref @ [e]) (st_aggregates s)" "st_globalSeq t = st_globalSeq s + 1"
  shows "order_inv t"
proof -
  have hist: "history t r = (if r = ref then history s r @ [e] else history s r)" for r
    by (simp add: history_def t(1))
  have below: "agg_GlobalSequence d \<le> st_globalSeq s" if "d \<in> set (history s r)" for d r
    using inv that unfolding order_inv_def by blast
  have "sorted_wrt (<) (map agg_GlobalSequence (history t r))" for r
    using inv below seq by (force simp: hist order_inv_def sorted_wrt_append)
  moreover have "0 < agg_GlobalSequence d \<and> agg_GlobalSequence d \<le> st_globalSeq t" if "d \<in> set (history t r)" for d r
    using inv that seq unfolding order_inv_def hist t(2) by (fastforce split: if_splits)
  moreover have "r = r' \<and> d = d'" if "d \<in> set (history t r)" "d' \<in> set (history t r')"
    "agg_GlobalSequence d = agg_GlobalSequence d'" for r r' d d'
  proof -
    have old: "(d = e \<and> r = ref) \<or> d \<in> set (history s r)" "(d' = e \<and> r' = ref) \<or> d' \<in> set (history s r')"
      using that(1,2) by (auto simp: hist split: if_splits)
    have "agg_GlobalSequence e \<noteq> agg_GlobalSequence x" if "x \<in> set (history s y)" for x y
      using below [OF that] seq by simp
    then show ?thesis using old that(3) inv unfolding order_inv_def by metis
  qed
  moreover have "wf_map (st_aggregates t)" "0 \<le> st_globalSeq t" using inv by (simp_all add: t order_inv_def)
  ultimately show ?thesis unfolding order_inv_def by blast
qed

lemma order_inv_commit: "order_inv s \<Longrightarrow> order_inv (commit e p s)"
  by (erule order_inv_snoc [where e = "e\<lparr>agg_GlobalSequence := st_globalSeq s + 1\<rparr>" and ref = "agg_Aggregate e"])
    (simp_all add: appendPermissionAggregateCommitLocked_def Let_def)

lemma order_inv_fold: "(\<And>x s. order_inv s \<Longrightarrow> order_inv (g x s)) \<Longrightarrow> order_inv s \<Longrightarrow> order_inv (fold g xs s)"
  by (induction xs arbitrary: s) simp_all

interpretation event_order: stream_property order_inv
proof unfold_locales
  show "order_inv s \<Longrightarrow> order_inv (commit e p s)" for e p s by (rule order_inv_commit)
qed (auto simp: order_inv_def history_def)

lemma order_inv_bump: "order_inv s \<Longrightarrow> order_inv (s\<lparr>st_globalSeq := st_globalSeq s + 1\<rparr>)"
  unfolding order_inv_def history_def by force

lemma CreateSession_order:
  assumes inv: "order_inv s" shows "order_inv (snd (CreateSession L w x s))"
proof -
  have new: "order_inv (s\<lparr>st_globalSeq := st_globalSeq s + 1,
      st_aggregates := AList.update ref [e\<lparr>agg_GlobalSequence := st_globalSeq s + 1, agg_Version := 1\<rparr>] (st_aggregates s),
      st_sessions := S\<rparr>)" if "history s ref = []" for ref e S
    by (rule order_inv_snoc [OF inv, where ref = ref and e = "e\<lparr>agg_GlobalSequence := st_globalSeq s + 1, agg_Version := 1\<rparr>"])
      (simp_all add: that)
  define y where "y = (if ses_ID x = '''' then x\<lparr>ses_ID := NewID w PrefixSession 0\<rparr> else x)
    \<lparr>ses_CreatedAt := Now L w, ses_UpdatedAt := Now L w\<rparr>"
  show ?thesis unfolding CreateSession_def Let_def y_def [symmetric]
    by (intro outcome_state [where P = order_inv] inv; simp add: order_inv_bump [OF inv] new del: event_order.tables)
qed

lemma AdmitSessionRun_order:
  assumes inv: "order_inv s" shows "order_inv (snd (AdmitSessionRun L w r s))"
proof -
  have new: "order_inv (s\<lparr>st_globalSeq := st_globalSeq s + 1, st_runs := R,
      st_aggregates := AList.update ref (history s ref @ [e\<lparr>agg_Version := v, agg_GlobalSequence := st_globalSeq s + 1\<rparr>])
        (st_aggregates s), st_sessions := S, st_events := E\<rparr>)" for ref e v R S E
    by (rule order_inv_snoc [OF inv, where ref = ref and e = "e\<lparr>agg_Version := v, agg_GlobalSequence := st_globalSeq s + 1\<rparr>"])
      simp_all
  show ?thesis unfolding AdmitSessionRun_def record_admission_def Let_def
    by (intro outcome_state [where P = order_inv] inv; (rule new)?; simp)
qed

lemma PurgeSession_order:
  assumes "order_inv s" shows "order_inv (snd (PurgeSession i v s))"
proof -
  have "order_inv (s\<lparr>st_aggregates := AList.delete (session_ref i) (st_aggregates s)\<rparr>)" (is "order_inv ?t")
  proof -
    have "history ?t ref = (if ref = session_ref i then [] else history s ref)" for ref by (simp add: history_def)
    then show ?thesis using assms unfolding order_inv_def by (auto split: if_splits)
  qed
  then show ?thesis unfolding PurgeSession_def Let_def
    by (intro attempt_state [where P = order_inv] assms) (simp, erule order_inv_frame; simp)
qed

lemma exec_order: "order_inv s \<Longrightarrow> order_inv (exec L w c s)"
  by (cases c) (simp_all add: CreateClient_def CreateSession_order AdmitSessionRun_order PurgeSession_order
      event_order.keeps)

interpretation ordered: store_property L "\<lambda>w c s. True" order_inv for L :: lib
  by unfold_locales (simp_all add: exec_order, simp add: order_inv_def NewStore_def history_def)

end
