(* ===== verification/Run_Queue.thy ===== *)
theory Run_Queue
  imports Store_Commands
begin

text \<open>
  The runs of a session are a queue: at most one is running, positions are not shared, a request is
  admitted once, and the claim takes the oldest queued run.
\<close>

section \<open>The queue\<close>

definition both_running :: "session_run \<Rightarrow> session_run \<Rightarrow> bool" where
  "both_running a b \<longleftrightarrow> run_SessionID a = run_SessionID b \<and> run_Status a = SessionRunStatusRunning
     \<and> run_Status b = SessionRunStatusRunning"

definition same_position :: "session_run \<Rightarrow> session_run \<Rightarrow> bool" where
  "same_position a b \<longleftrightarrow> run_SessionID a = run_SessionID b \<and> run_Sequence a = run_Sequence b"

definition same_request :: "session_run \<Rightarrow> session_run \<Rightarrow> bool" where
  "same_request a b \<longleftrightarrow> run_SessionID a = run_SessionID b \<and> run_RequestID a = run_RequestID b \<and> run_RequestID a \<noteq> ''''"

definition queue_inv :: "(string, session_run) gomap \<Rightarrow> bool" where
  "queue_inv R \<longleftrightarrow> wf_map R \<and> keyed run_ID R \<and>
     unique_by both_running R \<and> unique_by same_position R \<and> unique_by same_request R"

lemma queue_relations_sym:
  "both_running a b \<Longrightarrow> both_running b a" "same_position a b \<Longrightarrow> same_position b a" "same_request a b \<Longrightarrow> same_request b a"
  by (auto simp: both_running_def same_position_def same_request_def)

lemma queue_inv_map:
  assumes "queue_inv R" "wf_map R'" "map_of R' = map_of R" shows "queue_inv R'"
proof -
  have "unique_by P R' = unique_by P R" for P by (simp only: unique_by_def assms(3))
  moreover have "keyed run_ID R' = keyed run_ID R" by (simp only: keyed_def assms(3))
  ultimately show ?thesis using assms(1,2) by (simp add: queue_inv_def)
qed

lemma unique_by_del_where: "wf_map m \<Longrightarrow> unique_by R m \<Longrightarrow> unique_by R (del_where p m)"
  by (auto simp: unique_by_def map_simps split: option.splits if_splits)

lemma queue_inv_purge: "queue_inv R \<Longrightarrow> queue_inv (del_where p R)"
  by (simp add: queue_inv_def unique_by_del_where)

lemma next_run_sequence_upper:
  assumes "r \<in> set rs" "run_SessionID r = sid" shows "run_Sequence r < next_run_sequence sid rs"
proof -
  let ?f = "\<lambda>r n. if run_SessionID r = sid \<and> run_Sequence r \<ge> n then run_Sequence r + 1 else n"
  have mono: "n \<le> fold ?f rs n" for rs n
  proof (induction rs arbitrary: n)
    case (Cons a rs)
    have "n \<le> ?f a n" by simp
    also have "\<dots> \<le> fold ?f rs (?f a n)" by (rule Cons.IH)
    finally show ?case by simp
  qed simp
  have "run_Sequence r < fold ?f rs n" for n
    using assms(1)
  proof (induction rs arbitrary: n)
    case (Cons a rs)
    show ?case
    proof (cases "a = r")
      case True
      have "run_Sequence r < ?f r n" using assms(2) by auto
      also have "\<dots> \<le> fold ?f rs (?f r n)" by (rule mono)
      finally show ?thesis using True by simp
    next
      case False
      then have "r \<in> set rs" using Cons.prems by simp
      then show ?thesis using Cons.IH by simp
    qed
  qed simp
  then show ?thesis by (simp add: next_run_sequence_def)
qed

text \<open>Admission puts a run at a position of its own.\<close>

lemma queue_inv_admit:
  assumes inv: "queue_inv R" and key: "run_ID r = k" and st: "run_Status r \<noteq> SessionRunStatusRunning"
    and seq: "run_Sequence r = next_run_sequence (run_SessionID r) (vals R)"
    and req: "\<forall>u \<in> set (vals R). \<not> same_request u r"
  shows "queue_inv (AList.update k r R)"
proof -
  have wf: "wf_map R" "keyed run_ID R" using inv by (auto simp: queue_inv_def)
  have row: "u \<in> set (vals R)" if "map_of R i = Some u" for i u using that wf(1) by (auto simp: map_simps)
  have "unique_by both_running (AList.update k r R)"
    using inv queue_relations_sym(1) st by (intro unique_by_update) (auto simp: queue_inv_def both_running_def)
  moreover have "unique_by same_position (AList.update k r R)"
    using inv queue_relations_sym(2) row next_run_sequence_upper [of _ "vals R"] seq
    by (intro unique_by_update) (fastforce simp: queue_inv_def same_position_def)+
  moreover have "unique_by same_request (AList.update k r R)"
    using inv queue_relations_sym(3) row req by (intro unique_by_update) (auto simp: queue_inv_def)
  ultimately show ?thesis using wf key by (simp add: queue_inv_def)
qed

text \<open>A transition keeps the run's place; it may start the run when no other is running.\<close>

lemma queue_inv_transition:
  assumes inv: "queue_inv R" and old: "map_of R (run_ID r) = Some old"
    and same: "run_SessionID r = run_SessionID old" "run_Sequence r = run_Sequence old" "run_RequestID r = run_RequestID old"
    and st: "run_Status r = SessionRunStatusRunning \<Longrightarrow>
      \<forall>u \<in> set (vals R). \<not> (run_SessionID u = run_SessionID r \<and> run_Status u = SessionRunStatusRunning)"
  shows "queue_inv (AList.update (run_ID r) r R)"
proof -
  have wf: "wf_map R" "keyed run_ID R" using inv by (auto simp: queue_inv_def)
  have row: "u \<in> set (vals R)" if "map_of R i = Some u" for i u using that wf(1) by (auto simp: map_simps)
  have "unique_by both_running (AList.update (run_ID r) r R)"
    using inv queue_relations_sym(1) st row by (intro unique_by_update) (auto simp: queue_inv_def both_running_def)
  moreover have "unique_by same_position (AList.update (run_ID r) r R)"
  proof (rule unique_by_update)
    show "unique_by same_position R" using inv by (simp add: queue_inv_def)
    then show "\<not> same_position u r" if "map_of R i = Some u" "i \<noteq> run_ID r" for i u
      using that old same unfolding unique_by_def same_position_def by metis
  qed (rule queue_relations_sym)
  moreover have "unique_by same_request (AList.update (run_ID r) r R)"
  proof (rule unique_by_update)
    show "unique_by same_request R" using inv by (simp add: queue_inv_def)
    then show "\<not> same_request u r" if "map_of R i = Some u" "i \<noteq> run_ID r" for i u
      using that old same unfolding unique_by_def same_request_def by metis
  qed (rule queue_relations_sym)
  ultimately show ?thesis using wf by (simp add: queue_inv_def)
qed

section \<open>The operations keep it\<close>

lemma AdmitSessionRun_queue:
  assumes inv: "queue_inv (st_runs s)" shows "queue_inv (st_runs (snd (AdmitSessionRun L w r s)))"
proof -
  have new: "queue_inv (AList.update (run_ID q) (copySessionRun L q) (st_runs s))"
    if "q = queued_run w x hash run s" "run_RequestID run = '''' \<or>
      List.find (\<lambda>u. run_SessionID u = run_SessionID run \<and> run_RequestID u = run_RequestID run) (vals (st_runs s)) = None"
    for q x hash run
  proof (rule queue_inv_admit [OF inv])
    show "\<forall>u \<in> set (vals (st_runs s)). \<not> same_request u (copySessionRun L q)"
      using that by (auto simp: same_request_def queued_run_def Let_def find_None_iff)
  qed (simp_all add: that(1) queued_run_def Let_def)
  have rec: "queue_inv (st_runs (snd (record_admission L w x q s)))"
    if "queue_inv (AList.update (run_ID q) (copySessionRun L q) (st_runs s))" for x q
    unfolding record_admission_def Let_def
    by (intro outcome_state [where P = "\<lambda>t. queue_inv (st_runs t)"] inv) (simp add: that)
  show ?thesis unfolding AdmitSessionRun_def Let_def
    by (intro outcome_state [where P = "\<lambda>t. queue_inv (st_runs t)"] inv rec new [OF refl])
      (simp split: if_splits)
qed

lemma transition_run_runs:
  "st_runs (snd (transition_run L w x r kind extra s)) = st_runs s \<or>
   st_runs (snd (transition_run L w x r kind extra s)) = AList.update (run_ID r) r (st_runs s)"
  unfolding transition_run_def appendRunEventLocked_def Let_def
  by (intro outcome_state [where P = "\<lambda>t. st_runs t = st_runs s \<or> st_runs t = AList.update (run_ID r) r (st_runs s)"]) simp_all

lemma transition_run_queue:
  assumes "queue_inv (st_runs s)" "queue_inv (AList.update (run_ID r) r (st_runs s))"
  shows "queue_inv (st_runs (snd (transition_run L w x r kind extra s)))"
  using transition_run_runs [of L w x r kind extra s] assms by auto

lemma ClaimNextSessionRun_queue:
  assumes inv: "queue_inv (st_runs s)" shows "queue_inv (st_runs (snd (ClaimNextSessionRun L w sid s)))"
  unfolding ClaimNextSessionRun_def
proof (intro outcome_state [where P = "\<lambda>t. queue_inv (st_runs t)"] inv transition_run_queue)
  fix r assume idle: "\<not> (\<exists>r \<in> set (vals (st_runs s)). run_SessionID r = sid \<and> run_Status r = SessionRunStatusRunning)"
    and r: "next_queued sid (vals (st_runs s)) = Some r"
  let ?r = "(copySessionRun L r)\<lparr>run_Status := SessionRunStatusRunning, run_StartedAt := w_now w, run_UpdatedAt := w_now w\<rparr>"
  have q: "r \<in> set (vals (st_runs s))" "run_SessionID r = sid" using next_queued_in [OF r] by simp_all
  have "map_of (st_runs s) (run_ID ?r) = Some r" using q(1) inv by (auto simp: queue_inv_def keyed_def map_simps)
  then show "queue_inv (AList.update (run_ID ?r) ?r (st_runs s))"
    by (rule queue_inv_transition [OF inv]) (use idle q(2) in auto)
qed

lemma SettleSessionRun_queue:
  assumes inv: "queue_inv (st_runs s)" shows "queue_inv (st_runs (snd (SettleSessionRun L w st s)))"
  unfolding SettleSessionRun_def Let_def
proof (intro outcome_state [where P = "\<lambda>t. queue_inv (st_runs t)"] inv transition_run_queue)
  fix u r assume terminal: "check (isSessionRunTerminal (stl_Status st)) ErrSessionRunTransitionConflict = Inr u"
    and r: "lookup ErrSessionRunNotFound (st_runs s) (stl_ID st) = Inr r"
  let ?r = "(copySessionRun L r)\<lparr>run_Status := stl_Status st, run_ErrorType := stl_ErrorType st,
    run_ErrorMessage := stl_ErrorMessage st, run_CompletedAt := w_now w, run_UpdatedAt := w_now w\<rparr>"
  have "map_of (st_runs s) (run_ID ?r) = Some r" using r inv by (auto simp: queue_inv_def keyed_def)
  then show "queue_inv (AList.update (run_ID ?r) ?r (st_runs s))"
    by (rule queue_inv_transition [OF inv]) (use terminal in \<open>auto simp: isSessionRunTerminal_def\<close>)
qed

lemma exec_queue:
  assumes queue: "queue_inv (st_runs s)" and inv: "store_inv L s" and L: "lib_ok L"
  shows "queue_inv (st_runs (exec L w c s))"
proof -
  have rebuilt: "queue_inv (st_runs t)" if "store_inv L t" "same_content s t" for t
    by (rule queue_inv_map [OF queue]) (use that in \<open>auto simp: store_inv_def tables_ok_def same_content_def\<close>)
  have "queue_inv (st_runs (snd (RebuildSessionProjections L i s)))" for i
  proof (cases "map_of (st_sessions s) i")
    case None
    obtain J where ok: "sessions_ok L s J" using inv by (auto simp: store_inv_def)
    have "history s (session_ref i) = []" using sessions_okD(1) [OF ok, of i] None by (simp add: head_ok_def)
    then show ?thesis using queue by (simp add: RebuildSessionProjections_def ProjectSessionAggregate_def ProjectSession_def)
  next
    case (Some x)
    show ?thesis by (rule rebuild_session [OF inv L Some]) (simp add: rebuilt)
  qed
  moreover have "queue_inv (st_runs (snd (RebuildAllSessionProjections L s)))"
    by (rule rebuild_all [OF inv L]) (simp add: rebuilt)
  moreover have "queue_inv (st_runs (snd (PurgeSession i v s)))" for i v
    unfolding PurgeSession_def Let_def
    by (intro attempt_state [where P = "\<lambda>t. queue_inv (st_runs t)"] queue) (simp add: queue_inv_purge queue)
  ultimately show ?thesis
    by (cases c) (simp_all add: queue run_table.keeps run_table_catalog CreateClient_def AdmitSessionRun_queue
        ClaimNextSessionRun_queue SettleSessionRun_queue)
qed

interpretation queues: store_property L "command_ok L" "\<lambda>s. lib_ok L \<longrightarrow> store_inv L s \<and> queue_inv (st_runs s)" for L :: lib
  by unfold_locales (auto intro: exec_queue exec_inv store_inv_NewStore, simp add: queue_inv_def NewStore_def unique_by_def)

section \<open>The claim\<close>

lemma next_queued_first:
  assumes "next_queued sid rs = Some r" "u \<in> set rs" "run_SessionID u = sid" "run_Status u = SessionRunStatusQueued"
  shows "run_Sequence r \<le> run_Sequence u"
proof -
  let ?f = "\<lambda>r n. if run_SessionID r = sid \<and> run_Status r = SessionRunStatusQueued
       \<and> (case n of None \<Rightarrow> True | Some m \<Rightarrow> run_Sequence r < run_Sequence m) then Some r else n"
  have mono: "\<exists>r. fold ?f us (Some m) = Some r \<and> run_Sequence r \<le> run_Sequence m" for m us
  proof (induction us arbitrary: m)
    case (Cons a us)
    show ?case using Cons.IH [of a] Cons.IH [of m] by force
  qed simp
  have "fold ?f rs n = Some r \<Longrightarrow> run_Sequence r \<le> run_Sequence u" for n
    using assms(2)
  proof (induction rs arbitrary: n)
    case (Cons a rs)
    show ?case
    proof (cases "a = u")
      case True
      have "\<exists>m'. ?f u n = Some m' \<and> run_Sequence m' \<le> run_Sequence u" using assms(3,4) by (cases n) auto
      then obtain m' where m': "?f u n = Some m'" "run_Sequence m' \<le> run_Sequence u" by blast
      have "fold ?f rs (Some m') = Some r" using Cons.prems(1) by (simp only: True fold_simps m'(1))
      then show ?thesis using mono [of rs m'] m'(2) by simp
    next
      case False
      then show ?thesis using Cons.IH Cons.prems by simp
    qed
  qed simp
  then show ?thesis using assms(1) by (simp add: next_queued_def)
qed

lemma next_queued_None:
  assumes "next_queued sid rs = None" shows "\<forall>u \<in> set rs. \<not> (run_SessionID u = sid \<and> run_Status u = SessionRunStatusQueued)"
proof -
  let ?f = "\<lambda>r n. if run_SessionID r = sid \<and> run_Status r = SessionRunStatusQueued
       \<and> (case n of None \<Rightarrow> True | Some m \<Rightarrow> run_Sequence r < run_Sequence m) then Some r else n"
  have some: "fold ?f us (Some m) \<noteq> None" for us m
    by (induction us arbitrary: m) auto
  have "fold ?f rs None = None \<Longrightarrow> \<forall>u \<in> set rs. \<not> (run_SessionID u = sid \<and> run_Status u = SessionRunStatusQueued)"
  proof (induction rs)
    case (Cons a rs)
    then show ?case using some [of rs a] by (auto split: if_splits)
  qed simp
  then show ?thesis using assms by (simp add: next_queued_def)
qed

end
