(* ===== verification/Sample_Store.thy ===== *)
theory Sample_Store
  imports Run_Queue
begin

text \<open>
  A concrete environment and a concrete store for it, on which the properties are evaluated: times
  are written in unary, bytes stand for their own base64, and the only JSON text is \<^verbatim>\<open>null\<close>.
\<close>

section \<open>The environment\<close>

definition unary :: "int \<Rightarrow> string" where
  "unary t = (if t < 0 then ''-'' else ''+'') @ replicate (nat \<bar>t\<bar>) CHR ''1''"

definition of_unary :: "string \<Rightarrow> int option" where
  "of_unary s = (case s of [] \<Rightarrow> None
     | c # cs \<Rightarrow> Some (if c = CHR ''-'' then - int (length cs) else int (length cs)))"

definition sample_lib :: lib where
  "sample_lib = \<lparr>fmt_time = unary, fmt_now = unary, parse_time = of_unary, b64 = (\<lambda>b. b), unb64 = Some,
     json_text = (\<lambda>_. ''null''), json_parse = (\<lambda>s. if s = ''null'' then Some JNull else None),
     sha256_hex = (\<lambda>s. s), home = ''/h''\<rparr>"

lemma sample_lib_ok: "lib_ok sample_lib"
  by (auto simp: lib_ok_def sample_lib_def unary_def of_unary_def)

definition sample_world :: "nat \<Rightarrow> world" where
  \<comment> \<open>the environment of the command number \<open>k\<close>: its time, and identifiers of its own\<close>
  "sample_world k = \<lparr>w_now = int k + 1, w_fresh = (\<lambda>n. unary (int k) @ unary (int n))\<rparr>"

section \<open>A session with a run\<close>

definition sample_agent :: agent where
  "sample_agent = \<lparr>agt_ID = ''agt_1'', agt_Name = ''build'', agt_Instructions = '''', agt_Tools = [], agt_Permissions = [],
     agt_ModelRef = '''', agt_Options = [], agt_OutputSchema = [], agt_CreatedAt = '''', agt_UpdatedAt = ''''\<rparr>"

definition sample_session :: session where
  "sample_session = \<lparr>ses_ID = ''ses_1'', ses_Title = ''first'', ses_WorkDir = ''/w'', ses_WorkspaceID = '''',
     ses_ClientID = ''cli_1'', ses_CreatedAt = '''', ses_UpdatedAt = '''', ses_AggregateVersion = 0\<rparr>"

definition sample_run :: "string \<Rightarrow> session_run" where
  \<comment> \<open>the request to run the agent under the identifier \<open>i\<close>\<close>
  "sample_run i = \<lparr>run_ID = i, run_SessionID = ''ses_1'', run_RequestID = ''req'' @ i, run_RequestHash = '''',
     run_AdmittedVersion = 0, run_WorkDir = '''', run_WorkspaceID = '''', run_ClientID = '''', run_Sequence = 0,
     run_Status = '''', run_Message = ''go'', run_Agent = sample_agent, run_OutputSchemaJSON = '''',
     run_ErrorType = '''', run_ErrorMessage = '''', run_CreatedAt = 0, run_StartedAt = 0, run_CompletedAt = 0,
     run_UpdatedAt = 0\<rparr>"

fun numbered :: "nat \<Rightarrow> command list \<Rightarrow> (world \<times> command) list" where
  "numbered k [] = []"
| "numbered k (c # cs) = (sample_world k, c) # numbered (Suc k) cs"

definition sample_commands :: "command list" where
  "sample_commands = [Create_Client_With_ID ''cli_1'' ''desk'', Create_Session sample_session,
     Admit_Session_Run (sample_run ''run_1''), Admit_Session_Run (sample_run ''run_2''),
     Rename_Session ''ses_1'' ''second'' 3, Claim_Next_Session_Run ''ses_1'']"

definition sample_store :: store where
  "sample_store = run_commands sample_lib (numbered 0 sample_commands) NewStore"

lemma sample_reachable: "reachable sample_lib (command_ok sample_lib) sample_store"
  unfolding sample_store_def by (rule run_commands_reachable) code_simp

definition sample_state :: store where
  \<comment> \<open>the store after the commands, written out\<close>
  "sample_state =
     \<lparr>st_agents = [], st_sessions = [(''ses_1'', \<lparr>ses_ID = ''ses_1'', ses_Title = ''second'',
     ses_WorkDir = ''/w'', ses_WorkspaceID = [], ses_ClientID = ''cli_1'', ses_CreatedAt = ''+11'', ses_UpdatedAt =
     ''+11111'', ses_AggregateVersion = 5\<rparr>)], st_clients = [(''cli_1'', \<lparr>cli_ID = ''cli_1'', cli_Name =
     ''desk'', cli_CreatedAt = ''+1''\<rparr>)], st_workspaces = [], st_messages = [], st_parts = [], st_modelCalls =
     [], st_toolUses = [], st_permissionRequests = [], st_permissionGrants = [], st_events = [(''evt_+11+11'',
     \<lparr>evt_ID = ''evt_+11+11'', evt_SchemaVersion = 1, evt_Type = ''session.run.queued'', evt_Time = 3,
     evt_SessionID = ''ses_1'', evt_Seq = 1, evt_DataJSON = Some (JObj [(''run_id'', JStr ''run_1''), (''message'',
     JStr ''go'')]), evt_Data = Some (JObj [(''run_id'', JStr ''run_1''), (''message'', JStr ''go'')])\<rparr>),
     (''evt_+111+11'', \<lparr>evt_ID = ''evt_+111+11'', evt_SchemaVersion = 1, evt_Type = ''session.run.queued'',
     evt_Time = 4, evt_SessionID = ''ses_1'', evt_Seq = 2, evt_DataJSON = Some (JObj [(''run_id'', JStr ''run_2''),
     (''message'', JStr ''go'')]), evt_Data = Some (JObj [(''run_id'', JStr ''run_2''), (''message'', JStr
     ''go'')])\<rparr>), (''evt_+11111+1'', \<lparr>evt_ID = ''evt_+11111+1'', evt_SchemaVersion = 1, evt_Type =
     ''session.run.started'', evt_Time = 6, evt_SessionID = ''ses_1'', evt_Seq = 3, evt_DataJSON = Some (JObj
     [(''error_message'', JStr []), (''error_type'', JStr []), (''run_id'', JStr ''run_1''), (''started_at'', JStr
     ''+111111''), (''status'', JStr ''running''), (''updated_at'', JStr ''+111111'')]), evt_Data = Some (JObj
     [(''error_message'', JStr []), (''error_type'', JStr []), (''run_id'', JStr ''run_1''), (''started_at'', JStr
     ''+111111''), (''status'', JStr ''running''), (''updated_at'', JStr ''+111111'')])\<rparr>)], st_aggregates =
     [(\<lparr>ref_Type = ''session'', ref_ID = ''ses_1''\<rparr>, [\<lparr>agg_GlobalSequence = 1, agg_ID =
     ''evt_+1+1'', agg_Aggregate = \<lparr>ref_Type = ''session'', ref_ID = ''ses_1''\<rparr>, agg_Version = 1,
     agg_Type = ''session.created'', agg_SchemaVersion = 1, agg_Time = 2, agg_Data = JObj [(''id'', JStr ''ses_1''),
     (''title'', JStr ''first''), (''work_dir'', JStr ''/w''), (''client_id'', JStr ''cli_1''), (''created_at'', JStr
     ''+11''), (''updated_at'', JStr ''+11'')], agg_CausationID = [], agg_CorrelationID = [], agg_ClientID =
     ''cli_1'', agg_RunID = []\<rparr>, \<lparr>agg_GlobalSequence = 2, agg_ID = ''evt_+11+1'', agg_Aggregate =
     \<lparr>ref_Type = ''session'', ref_ID = ''ses_1''\<rparr>, agg_Version = 2, agg_Type =
     ''session.run.admitted'', agg_SchemaVersion = 1, agg_Time = 3, agg_Data = JObj [(''run'', JObj [(''id'', JStr
     ''run_1''), (''session_id'', JStr ''ses_1''), (''request_id'', JStr ''reqrun_1''), (''request_hash'', JStr
     ''null''), (''admitted_version'', JNum 2), (''work_dir'', JStr ''/w''), (''client_id'', JStr ''cli_1''),
     (''sequence'', JNum (rat_of_int 1)), (''status'', JStr ''queued''), (''message'', JStr ''go''), (''agent'', JObj
     [(''id'', JStr ''agt_1''), (''name'', JStr ''build''), (''created_at'', JStr []), (''updated_at'', JStr [])]),
     (''output_schema_json'', JStr []), (''created_at'', JStr ''+111''), (''started_at'', JStr ''+''),
     (''completed_at'', JStr ''+''), (''updated_at'', JStr ''+111'')])], agg_CausationID = [], agg_CorrelationID =
     [], agg_ClientID = ''cli_1'', agg_RunID = ''run_1''\<rparr>, \<lparr>agg_GlobalSequence = 3, agg_ID =
     ''evt_+111+1'', agg_Aggregate = \<lparr>ref_Type = ''session'', ref_ID = ''ses_1''\<rparr>, agg_Version = 3,
     agg_Type = ''session.run.admitted'', agg_SchemaVersion = 1, agg_Time = 4, agg_Data = JObj [(''run'', JObj
     [(''id'', JStr ''run_2''), (''session_id'', JStr ''ses_1''), (''request_id'', JStr ''reqrun_2''),
     (''request_hash'', JStr ''null''), (''admitted_version'', JNum 3), (''work_dir'', JStr ''/w''), (''client_id'',
     JStr ''cli_1''), (''sequence'', JNum 2), (''status'', JStr ''queued''), (''message'', JStr ''go''), (''agent'',
     JObj [(''id'', JStr ''agt_1''), (''name'', JStr ''build''), (''created_at'', JStr []), (''updated_at'', JStr
     [])]), (''output_schema_json'', JStr []), (''created_at'', JStr ''+1111''), (''started_at'', JStr ''+''),
     (''completed_at'', JStr ''+''), (''updated_at'', JStr ''+1111'')])], agg_CausationID = [], agg_CorrelationID =
     [], agg_ClientID = ''cli_1'', agg_RunID = ''run_2''\<rparr>, \<lparr>agg_GlobalSequence = 4, agg_ID =
     ''evt_+1111+'', agg_Aggregate = \<lparr>ref_Type = ''session'', ref_ID = ''ses_1''\<rparr>, agg_Version = 4,
     agg_Type = ''session.renamed'', agg_SchemaVersion = 1, agg_Time = 5, agg_Data = JObj [(''title'', JStr
     ''second''), (''updated_at'', JStr ''+11111'')], agg_CausationID = [], agg_CorrelationID = [], agg_ClientID =
     ''cli_1'', agg_RunID = []\<rparr>, \<lparr>agg_GlobalSequence = 5, agg_ID = ''evt_+11111+'', agg_Aggregate =
     \<lparr>ref_Type = ''session'', ref_ID = ''ses_1''\<rparr>, agg_Version = 5, agg_Type = ''session.run.started'',
     agg_SchemaVersion = 1, agg_Time = 6, agg_Data = JObj [(''run'', JObj [(''id'', JStr ''run_1''), (''session_id'',
     JStr ''ses_1''), (''request_id'', JStr ''reqrun_1''), (''request_hash'', JStr ''null''), (''admitted_version'',
     JNum 2), (''work_dir'', JStr ''/w''), (''client_id'', JStr ''cli_1''), (''sequence'', JNum (rat_of_int 1)),
     (''status'', JStr ''running''), (''message'', JStr ''go''), (''agent'', JObj [(''id'', JStr ''agt_1''),
     (''name'', JStr ''build''), (''created_at'', JStr []), (''updated_at'', JStr [])]), (''output_schema_json'',
     JStr []), (''created_at'', JStr ''+111''), (''started_at'', JStr ''+111111''), (''completed_at'', JStr ''+''),
     (''updated_at'', JStr ''+111111'')])], agg_CausationID = [], agg_CorrelationID = [], agg_ClientID = ''cli_1'',
     agg_RunID = ''run_1''\<rparr>])], st_globalSeq = 5, st_runs = [(''run_1'', \<lparr>run_ID = ''run_1'',
     run_SessionID = ''ses_1'', run_RequestID = ''reqrun_1'', run_RequestHash = ''null'', run_AdmittedVersion = 2,
     run_WorkDir = ''/w'', run_WorkspaceID = [], run_ClientID = ''cli_1'', run_Sequence = 1, run_Status =
     ''running'', run_Message = ''go'', run_Agent = \<lparr>agt_ID = ''agt_1'', agt_Name = ''build'',
     agt_Instructions = [], agt_Tools = [], agt_Permissions = [], agt_ModelRef = [], agt_Options = [],
     agt_OutputSchema = [], agt_CreatedAt = [], agt_UpdatedAt = []\<rparr>, run_OutputSchemaJSON = [], run_ErrorType
     = [], run_ErrorMessage = [], run_CreatedAt = 3, run_StartedAt = 6, run_CompletedAt = 0, run_UpdatedAt =
     6\<rparr>), (''run_2'', \<lparr>run_ID = ''run_2'', run_SessionID = ''ses_1'', run_RequestID = ''reqrun_2'',
     run_RequestHash = ''null'', run_AdmittedVersion = 3, run_WorkDir = ''/w'', run_WorkspaceID = [], run_ClientID =
     ''cli_1'', run_Sequence = 2, run_Status = ''queued'', run_Message = ''go'', run_Agent = \<lparr>agt_ID =
     ''agt_1'', agt_Name = ''build'', agt_Instructions = [], agt_Tools = [], agt_Permissions = [], agt_ModelRef = [],
     agt_Options = [], agt_OutputSchema = [], agt_CreatedAt = [], agt_UpdatedAt = []\<rparr>, run_OutputSchemaJSON =
     [], run_ErrorType = [], run_ErrorMessage = [], run_CreatedAt = 4, run_StartedAt = 0, run_CompletedAt = 0,
     run_UpdatedAt = 4\<rparr>)], st_auth = None\<rparr>"

lemma sample_store_state [code]: "sample_store = sample_state"
  by code_simp

lemma accepted: "\<not> isl (fst r) \<Longrightarrow> \<exists>p. r = (Inr p, snd r)"
  by (cases "fst r") (metis isl_def, metis prod.collapse)

definition sample_row :: session where
  \<comment> \<open>the row of the session after the commands\<close>
  "sample_row = sample_session\<lparr>ses_Title := ''second'', ses_CreatedAt := unary 2, ses_UpdatedAt := unary 5,
     ses_AggregateVersion := 5\<rparr>"

lemma sample_session_row: "map_of (st_sessions sample_store) ''ses_1'' = Some sample_row"
  by code_simp

end
