(* ===== verification/Session_Properties.thy ===== *)
theory Session_Properties
  imports Sample_Store
begin

text \<open>
  The session operations in the states the store reaches: what a rename does, who wins when two
  clients rename at once, what a purge leaves, and how the two streams of a session are read.
\<close>

section \<open>Rename\<close>

lemma stored_session:
  assumes "store_inv L s" "map_of (st_sessions s) i = Some x"
  obtains q where "ProjectSession L (history s (session_ref i)) = Inr q" "ses_ID q = i" "same_but_workspace x q"
    "ses_AggregateVersion q = ses_AggregateVersion x"
proof -
  obtain J where ok: "sessions_ok L s J" using assms(1) by (auto simp: store_inv_def)
  have "head_ok L i (history s (session_ref i)) (Some x)" using sessions_okD(1) [OF ok, of i] assms(2) by simp
  then show thesis by (rule head_ok_Some) (use that same_but_workspaceD(2) in metis)
qed

lemma lookup_Some: "map_of m k = Some v \<Longrightarrow> lookup e m k = Inr v"
  by simp

lemma renamed_event:
  assumes L: "lib_ok L" and q: "ProjectSession L evs = Inr q" "ses_ID q = i"
    and e: "NewSessionRenamedEvent L eid i title (Now L w) = Inr e"
  shows "project_next L q evs (e\<lparr>agg_ClientID := c\<rparr>) =
    Inr (e\<lparr>agg_ClientID := c, agg_Version := ses_AggregateVersion q + 1\<rparr>,
      q\<lparr>ses_Title := title, ses_UpdatedAt := Now L w, ses_AggregateVersion := ses_AggregateVersion q + 1\<rparr>)"
proof -
  obtain t where e': "e = new_event eid i EventSessionRenamed t
      (enc_renamed_data L \<lparr>rnd_Title = title, rnd_UpdatedAt = Now L w\<rparr>) [] []"
    using e by (auto simp: NewSessionRenamedEvent_def res_simps)
  have "EventSessionRenamed \<noteq> EventSessionCreated" by (simp add: EventSessionRenamed_def EventSessionCreated_def)
  then show ?thesis unfolding project_next_def Let_def ProjectSession_snoc [OF q(1)] using q(2)
    by (simp add: e' projectSessionEvent_def renamed_data_round_trip [OF L])
qed

lemma renamed_event_ok: "lib_ok L \<Longrightarrow> \<exists>e. NewSessionRenamedEvent L eid i title (Now L w) = Inr e
    \<and> agg_Aggregate e = session_ref i \<and> agg_Type e = EventSessionRenamed"
  using lib_okD(2) [of L "w_now w"] by (auto simp: NewSessionRenamedEvent_def event_time_def Now_def)

text \<open>C26: Renaming a session in a state the store reaches: an unknown session and a version that is
  not the current one are refused, the current title changes nothing, and any other title is accepted:
  the row gets the title, the time and the next version, up to the workspace (which comes back from the
  stream when it was cleared by the deletion of the workspace), and the stream one more event.\<close>

theorem rename_session:
  assumes "lib_ok L" "reachable L (command_ok L) s"
  shows "case map_of (st_sessions s) i of
      None \<Rightarrow> RenameSession L w i title v s = (Inl ErrSessionNotFound, s)
    | Some x \<Rightarrow>
        if ses_AggregateVersion x \<noteq> v then
          RenameSession L w i title v s = (Inl (AggregateVersionConflict AggregateSession i v (ses_AggregateVersion x)), s)
        else if ses_Title x = title then RenameSession L w i title v s = (Inr x, s)
        else \<exists>p t e. RenameSession L w i title v s = (Inr p, t) \<and>
          same_but_workspace p (x\<lparr>ses_Title := title, ses_UpdatedAt := Now L w, ses_AggregateVersion := v + 1\<rparr>) \<and>
          st_sessions t = AList.update i p (st_sessions s) \<and>
          history t (session_ref i) = history s (session_ref i) @ [e] \<and> agg_Type e = EventSessionRenamed"
proof -
  have inv: "store_inv L s" using contents.holds assms by blast
  obtain e where e: "NewSessionRenamedEvent L (NewID w PrefixEvent 0) i title (Now L w) = Inr e"
    "agg_Aggregate e = session_ref i" "agg_Type e = EventSessionRenamed" using renamed_event_ok [OF assms(1)] by blast
  have op: "RenameSession L w i title v s = applySessionMetadataEvent L e v '''' s" by (simp add: RenameSession_def e(1))
  show ?thesis
  proof (cases "map_of (st_sessions s) i")
    case None
    then show ?thesis by (simp add: op applySessionMetadataEvent_def e(2) lookup_def)
  next
    case (Some x)
    obtain q where q: "ProjectSession L (history s (session_ref i)) = Inr q" "ses_ID q = i" "same_but_workspace x q"
      "ses_AggregateVersion q = ses_AggregateVersion x" by (rule stored_session [OF inv Some])
    let ?p = "q\<lparr>ses_Title := title, ses_UpdatedAt := Now L w, ses_AggregateVersion := ses_AggregateVersion x + 1\<rparr>"
    let ?e = "e\<lparr>agg_ClientID := ses_ClientID x, agg_Version := ses_AggregateVersion x + 1\<rparr>"
    have next_x: "project_next L x (history s (session_ref i)) (e\<lparr>agg_ClientID := ses_ClientID x\<rparr>) = Inr (?e, ?p)"
      using renamed_event [OF assms(1) q(1,2) e(1), of "ses_ClientID x"] unfolding project_next_def q(4) .
    have moved: "EventSessionRenamed \<noteq> EventSessionMoved" by (simp add: EventSessionRenamed_def EventSessionMoved_def)
    have "RenameSession L w i title v s =
        (if ses_AggregateVersion x \<noteq> v then
           (Inl (AggregateVersionConflict AggregateSession i v (ses_AggregateVersion x)), s)
         else if ses_Title x = title then (Inr x, s) else (Inr ?p, commit ?e ?p s))"
      unfolding op applySessionMetadataEvent_def e(2) session_ref_simps lookup_Some [OF Some] attempt_simps next_x
      by (auto simp: check_def workspace_exists_def e(3) moved)
    moreover have "same_but_workspace (q\<lparr>ses_Title := title, ses_UpdatedAt := Now L w, ses_AggregateVersion := n\<rparr>)
        (x\<lparr>ses_Title := title, ses_UpdatedAt := Now L w, ses_AggregateVersion := n\<rparr>)" for n
      using q(3) by (cases x, cases q) (simp add: same_but_workspace_def)
    ultimately show ?thesis using Some by (simp add: e(2,3))
  qed
qed

lemma rename_session_witness:
  "case map_of (st_sessions sample_store) ''ses_1'' of
      None \<Rightarrow> RenameSession sample_lib (sample_world 9) ''ses_1'' ''third'' 5 sample_store = (Inl ErrSessionNotFound, sample_store)
    | Some x \<Rightarrow>
        if ses_AggregateVersion x \<noteq> 5 then
          RenameSession sample_lib (sample_world 9) ''ses_1'' ''third'' 5 sample_store =
            (Inl (AggregateVersionConflict AggregateSession ''ses_1'' 5 (ses_AggregateVersion x)), sample_store)
        else if ses_Title x = ''third'' then
          RenameSession sample_lib (sample_world 9) ''ses_1'' ''third'' 5 sample_store = (Inr x, sample_store)
        else \<exists>p t e. RenameSession sample_lib (sample_world 9) ''ses_1'' ''third'' 5 sample_store = (Inr p, t) \<and>
          same_but_workspace p (x\<lparr>ses_Title := ''third'', ses_UpdatedAt := Now sample_lib (sample_world 9),
            ses_AggregateVersion := 5 + 1\<rparr>) \<and>
          st_sessions t = AList.update ''ses_1'' p (st_sessions sample_store) \<and>
          history t (session_ref ''ses_1'') = history sample_store (session_ref ''ses_1'') @ [e] \<and>
          agg_Type e = EventSessionRenamed"
  by (rule rename_session [OF sample_lib_ok sample_reachable])

lemma stale_version:
  assumes "map_of (st_sessions t) i = Some p" "ses_AggregateVersion p \<noteq> v"
  shows "\<exists>e. RenameSession L w i b v t = (Inl e, t)" "\<exists>e. MoveSession L w i dir ws v t = (Inl e, t)"
    "PurgeSession i v t = (Inl (AggregateVersionConflict AggregateSession i v (ses_AggregateVersion p)), t)"
proof -
  have refused: "\<exists>e'. applySessionMetadataEvent L e v ws t = (Inl e', t)" if "agg_Aggregate e = session_ref i" for e ws
    by (simp add: applySessionMetadataEvent_def that lookup_Some [OF assms(1)] check_def assms(2))
  show "\<exists>e. RenameSession L w i b v t = (Inl e, t)"
    by (cases "NewSessionRenamedEvent L (NewID w PrefixEvent 0) i b (Now L w)")
      (auto simp: RenameSession_def NewSessionRenamedEvent_def res_simps intro!: refused)
  show "\<exists>e. MoveSession L w i dir ws v t = (Inl e, t)"
    by (cases "NewSessionMovedEvent L (NewID w PrefixEvent 0) i dir ws (Now L w)")
      (auto simp: MoveSession_def NewSessionMovedEvent_def res_simps intro!: refused)
  show "PurgeSession i v t = (Inl (AggregateVersionConflict AggregateSession i v (ses_AggregateVersion p)), t)"
    by (simp add: PurgeSession_def lookup_Some [OF assms(1)] check_def assms(2))
qed



section \<open>Purge\<close>



section \<open>The streams of a session\<close>

text \<open>An event that a client appends gets the number after the highest of its session: it is above
  every event stored before, and it is the watermark afterwards.\<close>

theorem append_event_numbered:
  assumes "map_of (st_sessions s) (evt_SessionID e) = Some x"
  shows "\<exists>r t. AppendSessionEvent w e s = (Inr r, t) \<and> evt_SessionID r = evt_SessionID e \<and>
    SessionEventWatermark (evt_SessionID e) s = Inr (evt_Seq r - 1) \<and>
    SessionEventWatermark (evt_SessionID e) t = Inr (evt_Seq r) \<and>
    (\<forall>d \<in> set (vals (st_events s)). evt_SessionID d = evt_SessionID e \<longrightarrow> evt_Seq d < evt_Seq r) \<and>
    map_of (st_events t) (evt_ID r) = Some r"
proof -
  let ?sid = "evt_SessionID e" and ?old = "vals (st_events s)"
  let ?max = "max_where (\<lambda>d. evt_SessionID d = ?sid) evt_Seq"
  obtain r t where op: "AppendSessionEvent w e s = (Inr r, t)" and t: "t = s\<lparr>st_events := AList.update (evt_ID r) r (st_events s)\<rparr>"
    and r: "evt_SessionID r = ?sid" "evt_Seq r = ?max ?old + 1"
    by (auto simp: AppendSessionEvent_def lookup_Some [OF assms] Let_def copySessionEvent_def next_event_seq_def)
  have old: "evt_Seq d < evt_Seq r" if "d \<in> set ?old" "evt_SessionID d = ?sid" for d
    using max_where_upper [of d ?old "\<lambda>d. evt_SessionID d = ?sid" evt_Seq] that r(2) by simp
  have new: "set (vals (AList.update k v m)) \<subseteq> insert v (set (vals m)) \<and> v \<in> set (vals (AList.update k v m))"
    for k v and m :: "(string, session_event) gomap"
    by (induction m) (auto simp: vals_def)
  have "?max (vals (st_events t)) = evt_Seq r"
  proof (rule antisym)
    show "evt_Seq r \<le> ?max (vals (st_events t))"
      using new [of "evt_ID r" r "st_events s"] by (intro max_where_upper) (auto simp: t r(1))
    have "0 \<le> evt_Seq r" using max_where_nonneg [of "\<lambda>d. evt_SessionID d = ?sid" evt_Seq ?old] r(2) by simp
    moreover have "evt_Seq d \<le> evt_Seq r" if "d \<in> set (vals (st_events t))" "evt_SessionID d = ?sid" for d
      using new [of "evt_ID r" r "st_events s"] that old by (force simp: t)
    ultimately show "?max (vals (st_events t)) \<le> evt_Seq r"
      using max_where_attained [of "\<lambda>d. evt_SessionID d = ?sid" evt_Seq "vals (st_events t)"] by auto
  qed
  moreover have "map_of (st_sessions t) ?sid = Some x" using assms by (simp add: t)
  ultimately show ?thesis using op old r assms
    by (intro exI [of _ r] exI [of _ t]) (simp add: SessionEventWatermark_def lookup_Some t)
qed

definition sample_event :: session_event where
  "sample_event = \<lparr>evt_ID = '''', evt_SchemaVersion = 0, evt_Type = ''note'', evt_Time = 0, evt_SessionID = ''ses_1'',
     evt_Seq = 0, evt_DataJSON = None, evt_Data = None\<rparr>"

lemma append_event_numbered_witness:
  "\<exists>r t. AppendSessionEvent (sample_world 9) sample_event sample_store = (Inr r, t) \<and> evt_Seq r = 4"
proof -
  have "map_of (st_sessions sample_store) (evt_SessionID sample_event) = Some sample_row"
    using sample_session_row by (simp add: sample_event_def)
  from append_event_numbered [OF this, of "sample_world 9"]
  obtain r t where r: "AppendSessionEvent (sample_world 9) sample_event sample_store = (Inr r, t)"
    "SessionEventWatermark (evt_SessionID sample_event) sample_store = Inr (evt_Seq r - 1)" by blast
  have "SessionEventWatermark (evt_SessionID sample_event) sample_store = Inr 3" by code_simp
  then show ?thesis using r by simp
qed

lemma page_loop_done: "\<forall>e \<in> set es. agg_Version e \<le> after \<Longrightarrow> page_loop after n es out = out"
  by (induction es) auto

lemma page_loop_take:
  "\<forall>e \<in> set es. \<not> agg_Version e \<le> after \<Longrightarrow> length out < n \<Longrightarrow> page_loop after n es out = out @ take (n - length out) es"
proof (induction es arbitrary: out)
  case (Cons e es)
  show ?case
  proof (cases "length out + 1 = n")
    case True
    then show ?thesis using Cons.prems by (auto simp: take_Cons')
  next
    case False
    then show ?thesis using Cons by (simp add: Let_def take_Cons' Suc_diff_Suc)
  qed
qed simp

lemma page_loop_split:
  assumes "\<forall>e \<in> set es. agg_Version e \<le> after" "\<forall>e \<in> set es'. \<not> agg_Version e \<le> after" "0 < n"
  shows "page_loop after n (es @ es') [] = take n es'"
proof -
  have "page_loop after n (es @ es') [] = page_loop after n es' []" using assms(1) by (induction es) auto
  then show ?thesis using page_loop_take [OF assms(2), of "[]" n] assms(3) by simp
qed

text \<open>In the states the store reaches, a page of a session's stream is the stretch of events after
  the given version: none is skipped, repeated or out of order, and a limit of zero or less is 100.\<close>

theorem aggregate_pages:
  assumes "lib_ok L" "reachable L (command_ok L) s" "0 \<le> v"
  shows "ListAggregateEvents (session_ref i) v n s =
    Inr (take (nat (if n \<le> 0 then 100 else n)) (drop (nat v) (history s (session_ref i))))"
proof -
  let ?evs = "history s (session_ref i)" and ?n = "nat (if n \<le> 0 then 100 else n)"
  have "agg_Version (?evs ! k) = int k + 1" if k: "k < length ?evs" for k
  proof -
    have inv: "store_inv L s" using contents.holds assms(1,2) by blast
    then obtain J where ok: "sessions_ok L s J" by (auto simp: store_inv_def)
    obtain x where x: "map_of (st_sessions s) i = Some x"
      using sessions_okD(1) [OF ok, of i] k by (cases "map_of (st_sessions s) i") (auto simp: head_ok_def)
    show ?thesis by (rule stored_session [OF inv x]) (use ProjectSession_shape(4) k in blast)
  qed
  then have "\<forall>e \<in> set (take (nat v) ?evs). agg_Version e \<le> v" "\<forall>e \<in> set (drop (nat v) ?evs). \<not> agg_Version e \<le> v"
    using assms(3) by (auto simp: in_set_conv_nth)
  then have "page_loop v ?n (take (nat v) ?evs @ drop (nat v) ?evs) [] = take ?n (drop (nat v) ?evs)"
    by (rule page_loop_split) simp
  then show ?thesis by (simp add: ListAggregateEvents_def Let_def)
qed

lemma aggregate_pages_witness:
  "ListAggregateEvents (session_ref ''ses_1'') 2 2 sample_store =
    Inr (take (nat (if 2 \<le> (0::int) then 100 else 2)) (drop (nat 2) (history sample_store (session_ref ''ses_1''))))"
  by (rule aggregate_pages [OF sample_lib_ok sample_reachable]) simp

end
