(* ===== verification/Run_Properties.thy ===== *)
theory Run_Properties
  imports Session_Properties
begin

text \<open>
  The queue of runs in the states the store reaches: admission is idempotent, the claim starts the
  oldest queued run and never fails, and a settlement is final.
\<close>

section \<open>Transitions go through\<close>

lemma run_event_types_distinct:
  "run_event_type st = Some ty \<Longrightarrow> ty \<in> {EventSessionRunStarted, EventSessionRunCompleted, EventSessionRunFailed,
     EventSessionRunAborted} \<and> ty \<noteq> EventSessionCreated \<and> ty \<noteq> EventSessionRenamed \<and> ty \<noteq> EventSessionMoved \<and>
     ty \<noteq> EventSessionRunAdmitted"
  by (auto simp: run_event_type_def EventSessionRunStarted_def EventSessionRunCompleted_def EventSessionRunFailed_def
      EventSessionRunAborted_def EventSessionCreated_def EventSessionRenamed_def EventSessionMoved_def
      EventSessionRunAdmitted_def split: if_splits)

lemma transition_run_ok:
  assumes inv: "store_inv L s" and L: "lib_ok L"
    and x: "map_of (st_sessions s) (run_SessionID r) = Some x" and ty: "run_event_type (run_Status r) = Some ty"
    and agent: "agent_ok L (run_Agent r)"
  shows "\<exists>tr t e. transition_run L w x r kind extra s = (Inr tr, t) \<and> rtr_Run tr = Some r \<and> rtr_Changed tr \<and>
    st_runs t = AList.update (run_ID r) r (st_runs s) \<and>
    history t (session_ref (run_SessionID r)) = history s (session_ref (run_SessionID r)) @ [e] \<and> agg_Type e = ty"
proof -
  let ?sid = "run_SessionID r"
  obtain q where q: "ProjectSession L (history s (session_ref ?sid)) = Inr q" "ses_ID q = ?sid"
    "ses_AggregateVersion q = ses_AggregateVersion x" using stored_session [OF inv x] by metis
  obtain e where e: "NewSessionRunTransitionEvent L (NewID w PrefixEvent 0) r = Inr e" "agg_Aggregate e = session_ref ?sid"
    "agg_Type e = ty" "agg_SchemaVersion e = 1"
    by (simp add: NewSessionRunTransitionEvent_def ty)
  let ?e = "e\<lparr>agg_Version := ses_AggregateVersion x + 1\<rparr>"
  have dec: "ProjectSessionRunTransition L ?e = Inr r" by (rule run_transition_event [OF L agent e(1)]) simp
  have "ProjectSession L (history s (session_ref ?sid) @ [?e]) =
      Inr (q\<lparr>ses_AggregateVersion := ses_AggregateVersion x + 1\<rparr>)"
    unfolding ProjectSession_snoc [OF q(1)] using run_event_types_distinct [OF ty] dec e(2-4) q(2,3)
    by (auto simp: projectSessionEvent_def unit_res_def)
  then have pn: "project_next L x (history s (session_ref ?sid)) e =
      Inr (?e, q\<lparr>ses_AggregateVersion := ses_AggregateVersion x + 1\<rparr>)"
    by (simp add: project_next_def Let_def)
  have "history (u\<lparr>st_events := E\<rparr>) = history u" "history (u\<lparr>st_runs := R\<rparr>) = history u" for u E R
    by (rule history_frame, simp)+
  then show ?thesis
    by (simp add: transition_run_def appendRunEventLocked_def Let_def e pn copySessionRun_ok [OF L agent])
qed

lemma run_has_session:
  assumes inv: "store_inv L s" and r: "r \<in> set (vals (st_runs s))"
  shows "\<exists>x. map_of (st_sessions s) (run_SessionID r) = Some x"
proof (rule ccontr)
  let ?sid = "run_SessionID r"
  assume none: "\<nexists>x. map_of (st_sessions s) ?sid = Some x"
  obtain J where ok: "sessions_ok L s J" "tables_ok L s" using inv by (auto simp: store_inv_def)
  have row: "map_of (st_runs s) (run_ID r) = Some r"
    using r ok(2) by (auto simp: tables_ok_def map_simps keyed_def)
  have "map_of (st_sessions s) ?sid = None" using none by (cases "map_of (st_sessions s) ?sid") auto
  then have "history s (session_ref ?sid) = []" using sessions_okD(1) [OF ok(1), of ?sid] by (simp add: head_ok_def)
  then have "runs_ok L ?sid [] (st_runs s)" using sessions_okD(2) [OF ok(1), of ?sid] by (simp add: views_ok_def)
  from runs_view.view_row [OF this row refl] show False by simp
qed

section \<open>The claim\<close>

text \<open>C15: A claim in a state the store reaches never fails.  It does nothing while a run of the session is
  running or none is queued; otherwise it starts the queued run with the lowest position, and the row
  and the stream say so.\<close>

theorem claim_oldest_queued:
  assumes "lib_ok L" "reachable L (command_ok L) s" "map_of (st_sessions s) i = Some x"
  shows "let rs = filter (\<lambda>r. run_SessionID r = i) (vals (st_runs s)) in
    if (\<exists>r \<in> set rs. run_Status r = SessionRunStatusRunning) \<or> (\<forall>r \<in> set rs. run_Status r \<noteq> SessionRunStatusQueued)
    then ClaimNextSessionRun L w i s = (Inr no_transition, s)
    else \<exists>r tr t e. ClaimNextSessionRun L w i s = (Inr tr, t) \<and> rtr_Changed tr \<and> r \<in> set rs \<and>
      run_Status r = SessionRunStatusQueued \<and>
      (\<forall>u \<in> set rs. run_Status u = SessionRunStatusQueued \<longrightarrow> run_Sequence r \<le> run_Sequence u) \<and>
      (let r' = r\<lparr>run_Status := SessionRunStatusRunning, run_StartedAt := w_now w, run_UpdatedAt := w_now w\<rparr> in
       rtr_Run tr = Some r' \<and> st_runs t = AList.update (run_ID r) r' (st_runs s)) \<and>
      history t (session_ref i) = history s (session_ref i) @ [e] \<and> agg_Type e = EventSessionRunStarted"
proof -
  have inv: "store_inv L s" using contents.holds assms(1,2) by blast
  let ?rs = "filter (\<lambda>r. run_SessionID r = i) (vals (st_runs s))"
  note op = ClaimNextSessionRun_def lookup_Some [OF assms(3)] attempt_simps
  show ?thesis
  proof (cases "\<exists>r \<in> set ?rs. run_Status r = SessionRunStatusRunning")
    case True
    then have "ClaimNextSessionRun L w i s = (Inr no_transition, s)" unfolding op by auto
    then show ?thesis using True by (simp add: Let_def)
  next
    case idle: False
    have op': "ClaimNextSessionRun L w i s = (case next_queued i (vals (st_runs s)) of
        None \<Rightarrow> (Inr no_transition, s)
      | Some run \<Rightarrow> transition_run L w x ((copySessionRun L run)\<lparr>run_Status := SessionRunStatusRunning,
          run_StartedAt := w_now w, run_UpdatedAt := w_now w\<rparr>) ''session.run.started'' [] s)"
      unfolding op using idle by auto
    show ?thesis
    proof (cases "next_queued i (vals (st_runs s))")
      case None
      then show ?thesis using next_queued_None [OF None] by (simp add: op' Let_def)
    next
      case (Some r)
      note r = next_queued_in [OF Some]
      note row = store_inv_run [OF inv assms(1) conjunct1 [OF r]]
      let ?r = "r\<lparr>run_Status := SessionRunStatusRunning, run_StartedAt := w_now w, run_UpdatedAt := w_now w\<rparr>"
      have ty: "run_event_type (run_Status ?r) = Some EventSessionRunStarted" by (simp add: run_event_type_def)
      obtain tr t e where t: "transition_run L w x ?r ''session.run.started'' [] s = (Inr tr, t)" "rtr_Run tr = Some ?r"
        "rtr_Changed tr" "st_runs t = AList.update (run_ID r) ?r (st_runs s)"
        "history t (session_ref i) = history s (session_ref i) @ [e]" "agg_Type e = EventSessionRunStarted"
        using transition_run_ok [OF inv assms(1) _ ty, of x w "''session.run.started''" "[]"] assms(3) r row(3) by auto
      have "\<forall>u \<in> set ?rs. run_Status u = SessionRunStatusQueued \<longrightarrow> run_Sequence r \<le> run_Sequence u"
        using next_queued_first [OF Some] by auto
      moreover have "ClaimNextSessionRun L w i s = (Inr tr, t)" by (simp add: op' Some row(2) t(1))
      moreover have "\<not> (\<forall>u \<in> set ?rs. run_Status u \<noteq> SessionRunStatusQueued)" using r by auto
      ultimately show ?thesis using idle r t(2-) unfolding Let_def by auto
    qed
  qed
qed

lemma claim_oldest_queued_witness:
  "let s = exec sample_lib (sample_world 6) (Settle_Session_Run \<lparr>stl_ID = ''run_1'', stl_ExpectedStatus = SessionRunStatusRunning,
       stl_Status = SessionRunStatusCompleted, stl_ErrorType = '''', stl_ErrorMessage = '''', stl_EventData = []\<rparr>) sample_store in
   \<exists>tr t. ClaimNextSessionRun sample_lib (sample_world 7) ''ses_1'' s = (Inr tr, t) \<and> rtr_Changed tr \<and>
     map_option run_ID (rtr_Run tr) = Some ''run_2''"
proof -
  define c where "c = Settle_Session_Run \<lparr>stl_ID = ''run_1'', stl_ExpectedStatus = SessionRunStatusRunning,
    stl_Status = SessionRunStatusCompleted, stl_ErrorType = '''', stl_ErrorMessage = '''', stl_EventData = []\<rparr>"
  define s where "s = exec sample_lib (sample_world 6) c sample_store"
  have s: "reachable sample_lib (command_ok sample_lib) s"
    unfolding s_def by (rule reachable_step [OF sample_reachable]) (simp add: c_def)
  have rows: "map_of (st_sessions s) ''ses_1'' \<noteq> None" unfolding s_def c_def by code_simp
  then obtain x where x: "map_of (st_sessions s) ''ses_1'' = Some x" by blast
  let ?rs = "filter (\<lambda>r. run_SessionID r = ''ses_1'') (vals (st_runs s))"
  have idle: "\<not> list_ex (\<lambda>r. run_Status r = SessionRunStatusRunning) ?rs" unfolding s_def c_def by code_simp
  have queued: "map run_ID (filter (\<lambda>r. run_Status r = SessionRunStatusQueued) ?rs) = [''run_2'']" unfolding s_def c_def by code_simp
  have "\<not> ((\<exists>r \<in> set ?rs. run_Status r = SessionRunStatusRunning) \<or> (\<forall>r \<in> set ?rs. run_Status r \<noteq> SessionRunStatusQueued))"
  proof -
    have "filter (\<lambda>r. run_Status r = SessionRunStatusQueued) ?rs \<noteq> []"
    proof
      assume "filter (\<lambda>r. run_Status r = SessionRunStatusQueued) ?rs = []"
      then show False using queued by (simp only: list.map) simp
    qed
    then show ?thesis using idle unfolding filter_empty_conv list_ex_iff by blast
  qed
  moreover have "run_ID r = ''run_2''" if "r \<in> set ?rs" "run_Status r = SessionRunStatusQueued" for r
  proof -
    have "run_ID r \<in> set (map run_ID (filter (\<lambda>r. run_Status r = SessionRunStatusQueued) ?rs))" using that by simp
    then show ?thesis unfolding queued by simp
  qed
  ultimately obtain r tr t where claim: "ClaimNextSessionRun sample_lib (sample_world 7) ''ses_1'' s = (Inr tr, t)"
    "rtr_Changed tr" "run_ID r = ''run_2''"
    "rtr_Run tr = Some (r\<lparr>run_Status := SessionRunStatusRunning, run_StartedAt := w_now (sample_world 7),
       run_UpdatedAt := w_now (sample_world 7)\<rparr>)"
    using claim_oldest_queued [OF sample_lib_ok s x, of "sample_world 7"] unfolding Let_def by (simp only: if_False) blast
  show ?thesis unfolding c_def [symmetric] s_def [symmetric] Let_def
  proof (intro exI conjI)
    show "ClaimNextSessionRun sample_lib (sample_world 7) ''ses_1'' s = (Inr tr, t)" by (rule claim(1))
    show "rtr_Changed tr" by (rule claim(2))
    show "map_option run_ID (rtr_Run tr) = Some ''run_2''" unfolding claim(4) using claim(3) by simp
  qed
qed

section \<open>Settlement\<close>

text \<open>C16: Settling a run that the store has, in a state it reaches: a status that is not terminal is
  refused; a run that is settled already accepts the same outcome again and refuses any other, and
  neither changes the store; a run that is not in the expected status, or cannot go from it to the new
  one, is refused; everything else succeeds and records the outcome.\<close>

theorem settle_run:
  assumes "lib_ok L" "reachable L (command_ok L) s" "map_of (st_runs s) (stl_ID st) = Some r"
  shows "if \<not> isSessionRunTerminal (stl_Status st) then
      SettleSessionRun L w st s = (Inl ErrSessionRunTransitionConflict, s)
    else if isSessionRunTerminal (run_Status r) then
      (if run_Status r = stl_Status st \<and> run_ErrorType r = stl_ErrorType st \<and> run_ErrorMessage r = stl_ErrorMessage st
       then SettleSessionRun L w st s = (Inr (no_transition\<lparr>rtr_Run := Some r\<rparr>), s)
       else SettleSessionRun L w st s = (Inl ErrSessionRunTransitionConflict, s))
    else if run_Status r \<noteq> stl_ExpectedStatus st \<or> \<not> legalSessionRunSettlement (run_Status r) (stl_Status st) then
      SettleSessionRun L w st s = (Inl ErrSessionRunTransitionConflict, s)
    else \<exists>tr t e. SettleSessionRun L w st s = (Inr tr, t) \<and> rtr_Changed tr \<and>
      (let r' = r\<lparr>run_Status := stl_Status st, run_ErrorType := stl_ErrorType st, run_ErrorMessage := stl_ErrorMessage st,
         run_CompletedAt := w_now w, run_UpdatedAt := w_now w\<rparr> in
       rtr_Run tr = Some r' \<and> st_runs t = AList.update (run_ID r) r' (st_runs s)) \<and>
      history t (session_ref (run_SessionID r)) = history s (session_ref (run_SessionID r)) @ [e] \<and>
      Some (agg_Type e) = run_event_type (stl_Status st)"
proof -
  have inv: "store_inv L s" using contents.holds assms(1,2) by blast
  have mem: "r \<in> set (vals (st_runs s))" using assms(3) inv by (auto simp: store_inv_def tables_ok_def map_simps)
  note row = store_inv_run [OF inv assms(1) mem]
  let ?r = "r\<lparr>run_Status := stl_Status st, run_ErrorType := stl_ErrorType st, run_ErrorMessage := stl_ErrorMessage st,
    run_CompletedAt := w_now w, run_UpdatedAt := w_now w\<rparr>"
  obtain x where x: "map_of (st_sessions s) (run_SessionID r) = Some x"
    using run_has_session [OF inv mem] by blast
  have op: "SettleSessionRun L w st s = (if \<not> isSessionRunTerminal (stl_Status st) then (Inl ErrSessionRunTransitionConflict, s)
    else if isSessionRunTerminal (run_Status r) then
      (if run_Status r = stl_Status st \<and> run_ErrorType r = stl_ErrorType st \<and> run_ErrorMessage r = stl_ErrorMessage st
       then (Inr (no_transition\<lparr>rtr_Run := Some r\<rparr>), s) else (Inl ErrSessionRunTransitionConflict, s))
    else if run_Status r \<noteq> stl_ExpectedStatus st \<or> \<not> legalSessionRunSettlement (run_Status r) (stl_Status st) then
      (Inl ErrSessionRunTransitionConflict, s)
    else transition_run L w x ?r (''session.run.'' @ stl_Status st) (stl_EventData st) s)"
    by (simp add: SettleSessionRun_def lookup_Some [OF assms(3)] row(2) Let_def check_def lookup_Some [OF x])
  define ty where "ty = the (run_event_type (stl_Status st))"
  have "isSessionRunTerminal (stl_Status st) \<Longrightarrow> run_event_type (stl_Status st) = Some ty"
    unfolding ty_def by (auto simp: isSessionRunTerminal_def run_event_type_def)
  then show ?thesis unfolding op
    using transition_run_ok [OF inv assms(1), of ?r x ty w "''session.run.'' @ stl_Status st" "stl_EventData st"] x row(3)
    by (auto simp: Let_def)
qed

lemma settle_run_witness:
  "\<exists>tr t. SettleSessionRun sample_lib (sample_world 9) \<lparr>stl_ID = ''run_1'', stl_ExpectedStatus = SessionRunStatusRunning,
     stl_Status = SessionRunStatusFailed, stl_ErrorType = ''x'', stl_ErrorMessage = ''y'', stl_EventData = []\<rparr> sample_store
     = (Inr tr, t) \<and> rtr_Changed tr"
proof -
  define st where "st = \<lparr>stl_ID = ''run_1'', stl_ExpectedStatus = SessionRunStatusRunning,
     stl_Status = SessionRunStatusFailed, stl_ErrorType = ''x'', stl_ErrorMessage = ''y'', stl_EventData = []\<rparr>"
  obtain r where r: "map_of (st_runs sample_store) (stl_ID st) = Some r" "run_Status r = SessionRunStatusRunning"
  proof -
    have "map_option run_Status (map_of (st_runs sample_store) (stl_ID st)) = Some SessionRunStatusRunning"
      unfolding st_def by code_simp
    then show thesis using that by auto
  qed
  have "isSessionRunTerminal (stl_Status st)" "\<not> isSessionRunTerminal (run_Status r)" "run_Status r = stl_ExpectedStatus st"
    "legalSessionRunSettlement (run_Status r) (stl_Status st)"
    by (simp_all add: st_def r(2) isSessionRunTerminal_def legalSessionRunSettlement_def)
  then show ?thesis using settle_run [OF sample_lib_ok sample_reachable r(1), of "sample_world 9"] unfolding st_def [symmetric]
    by auto
qed

end
