(* ===== verification/Record_Properties.thy ===== *)
theory Record_Properties
  imports Run_Properties
begin

text \<open>
  What the records of a session go through: a tool use moves only along its lifecycle, a message
  only to higher revisions, a permission request is resolved once, and a request to run an agent is
  admitted once.  The properties of one operation hold in every state of the store, reached or not.
\<close>

section \<open>Tool uses\<close>

lemma save_tool_use_ok:
  assumes "save_tool_use L e u s = (Inr (), t)"
  shows "st_toolUses t = AList.update (tlu_ID u) u (st_toolUses s)"
  using assms
  by (auto simp: save_tool_use_def appendToolUseAggregateLocked_def res_simps put_tool_use_def attempt_def
      appendPermissionAggregateCommitLocked_def Let_def split: sum.splits)

lemma stamped:
  "tlu_ID (stamp_tool_use w a u) = tlu_ID u" "tlu_Status (stamp_tool_use w a u) = tlu_Status u"
  "tlu_InputJSON (stamp_tool_use w a u) = tlu_InputJSON u" "sameToolUseIdentity b (stamp_tool_use w a u) = sameToolUseIdentity b u"
  "tlu_ProposedAt (stamp_tool_use w a u) = tlu_ProposedAt u" "tlu_CreatedAt (stamp_tool_use w a u) = tlu_CreatedAt u"
  by (simp_all add: stamp_tool_use_def Let_def sameToolUseIdentity_def)

lemma kept:
  "tlu_ID (keep_tool_use_times a u) = tlu_ID u" "tlu_Status (keep_tool_use_times a u) = tlu_Status u"
  "tlu_InputJSON (keep_tool_use_times a u) = tlu_InputJSON u" "sameToolUseIdentity b (keep_tool_use_times a u) = sameToolUseIdentity b u"
  "tlu_ProposedAt (keep_tool_use_times a u) = tlu_ProposedAt a" "tlu_CreatedAt (keep_tool_use_times a u) = tlu_CreatedAt a"
  by (simp_all add: keep_tool_use_times_def Let_def sameToolUseIdentity_def)

lemma terminal_stuck: "isToolUseTerminal a \<Longrightarrow> \<not> legalToolUseTransition a b"
  by (auto simp: isToolUseTerminal_def legalToolUseTransition_def)

text \<open>C12: Saving a tool use that is recorded either changes nothing or moves it along the lifecycle
  proposed, authorized, started, and then to an outcome; its identity and the time of its proposal
  never change, and its input changes only when it is authorized.  A tool use that has an outcome is
  never changed again.\<close>

theorem tool_use_moves:
  assumes "map_of (st_toolUses s) i = Some old" "tlu_ID u = i" "i \<noteq> ''''" "SaveToolUse L w u s = (r, t)"
  shows "t = s \<or> (r = Inr () \<and> \<not> isToolUseTerminal (tlu_Status old) \<and>
    (\<exists>new. st_toolUses t = AList.update i new (st_toolUses s) \<and> tlu_Status new = tlu_Status u \<and>
       legalToolUseTransition (tlu_Status old) (tlu_Status new) \<and> sameToolUseIdentity old new \<and>
       tlu_ProposedAt new = tlu_ProposedAt old \<and> tlu_CreatedAt new = tlu_CreatedAt old \<and>
       (tlu_Status new = ToolUseStatusAuthorized \<or> tlu_InputJSON new = tlu_InputJSON old)))"
proof -
  let ?u = "keep_tool_use_times old u"
  have op: "SaveToolUse L w u s =
      (if \<not> sameToolUseIdentity old u then (Inl ErrToolUseIdentityConflict, s)
       else if tlu_Status u = tlu_Status old then
         (if sameToolUse old ?u then (Inr (), s) else (Inl ErrToolUseInvalidTransition, s))
       else if \<not> legalToolUseTransition (tlu_Status old) (tlu_Status u) then (Inl ErrToolUseInvalidTransition, s)
       else if tlu_Status u \<noteq> ToolUseStatusAuthorized \<and> tlu_InputJSON old \<noteq> tlu_InputJSON u
       then (Inl ErrToolUseInvalidTransition, s)
       else save_tool_use L (NewID w PrefixEvent 1) (stamp_tool_use w old ?u) s)"
    using assms(1-3) by (simp add: SaveToolUse_def Let_def check_def attempt_simps kept)
  show ?thesis
  proof (cases "\<exists>new. st_toolUses t = AList.update i new (st_toolUses s)")
    case False
    have "r \<noteq> Inr () \<or> t = s"
      using assms(4) False save_tool_use_ok [of L _ "stamp_tool_use w old ?u" s t] assms(2)
      unfolding op by (auto simp: stamped kept split: if_splits)
    moreover have "r \<noteq> Inr () \<Longrightarrow> t = s"
      using assms(4) unfolding op save_tool_use_def attempt_def by (auto split: if_splits sum.splits)
    ultimately show ?thesis by blast
  next
    case True
    show ?thesis
    proof (cases "t = s")
      case changed: False
      then have legal: "legalToolUseTransition (tlu_Status old) (tlu_Status u)" "sameToolUseIdentity old u"
        "tlu_Status u = ToolUseStatusAuthorized \<or> tlu_InputJSON old = tlu_InputJSON u"
        and save: "save_tool_use L (NewID w PrefixEvent 1) (stamp_tool_use w old ?u) s = (r, t)"
        using assms(4) unfolding op by (auto split: if_splits)
      have ok: "r = Inr ()" using save changed unfolding save_tool_use_def attempt_def by (auto split: sum.splits)
      have "st_toolUses t = AList.update i (stamp_tool_use w old ?u) (st_toolUses s)"
        using save_tool_use_ok save unfolding ok by (fastforce simp: stamped kept assms(2))
      then show ?thesis using ok legal terminal_stuck
        by (intro disjI2 [where P = "t = s"] conjI exI [of _ "stamp_tool_use w old ?u"]) (auto simp: stamped kept)
    qed simp
  qed
qed

text \<open>The tool uses of the samples are those of the first run of the sample session.\<close>

definition sample_use :: "string \<Rightarrow> tool_use" where
  "sample_use status = \<lparr>tlu_ID = ''use_1'', tlu_SessionID = ''ses_1'', tlu_RunID = ''run_1'', tlu_ModelCallID = '''',
     tlu_AssistantMessageID = '''', tlu_PartID = '''', tlu_Step = 1, tlu_Ordinal = 1, tlu_CallID = ''c'', tlu_Name = ''bash'',
     tlu_Status = status, tlu_InputJSON = ''null'', tlu_Output = '''', tlu_StructuredJSON = [], tlu_MetadataJSON = [],
     tlu_ErrorType = '''', tlu_ErrorMessage = '''', tlu_ProposedAt = 0, tlu_AuthorizedAt = 0, tlu_StartedAt = 0,
     tlu_CompletedAt = 0, tlu_CreatedAt = 0, tlu_UpdatedAt = 0\<rparr>"

lemma tool_use_moves_witness:
  "let s = exec sample_lib (sample_world 7) (Save_Tool_Use (sample_use ToolUseStatusProposed)) sample_store;
       out = SaveToolUse sample_lib (sample_world 8) (sample_use ToolUseStatusAuthorized) s in
   fst out = Inr () \<and> (\<exists>new. st_toolUses (snd out) = AList.update ''use_1'' new (st_toolUses s) \<and>
     tlu_Status new = ToolUseStatusAuthorized \<and> legalToolUseTransition ToolUseStatusProposed (tlu_Status new))"
proof -
  define s where "s = exec sample_lib (sample_world 7) (Save_Tool_Use (sample_use ToolUseStatusProposed)) sample_store"
  define out where "out = SaveToolUse sample_lib (sample_world 8) (sample_use ToolUseStatusAuthorized) s"
  have old: "map_option tlu_Status (map_of (st_toolUses s) ''use_1'') = Some ToolUseStatusProposed"
    unfolding s_def by code_simp
  then obtain u where u: "map_of (st_toolUses s) ''use_1'' = Some u" "tlu_Status u = ToolUseStatusProposed" by auto
  have new: "map_option tlu_Status (map_of (st_toolUses (snd out)) ''use_1'') = Some ToolUseStatusAuthorized"
    unfolding out_def s_def by code_simp
  then have "snd out \<noteq> s" using old by (auto simp: ToolUseStatusAuthorized_def ToolUseStatusProposed_def)
  have eq: "SaveToolUse sample_lib (sample_world 8) (sample_use ToolUseStatusAuthorized) s = (fst out, snd out)"
    by (simp add: out_def)
  have "tlu_ID (sample_use ToolUseStatusAuthorized) = ''use_1''" "''use_1'' \<noteq> ''''" by (simp_all add: sample_use_def)
  from tool_use_moves [OF u(1) this eq] \<open>snd out \<noteq> s\<close> u(2)
  show ?thesis unfolding Let_def s_def [symmetric] out_def [symmetric] by (auto simp: sample_use_def)
qed

section \<open>Message revisions\<close>

lemma save_snapshot_ok:
  assumes "save_snapshot L w m s = (r, t)"
  shows "(\<exists>e. r = Inl e \<and> t = s) \<or> (r = Inr () \<and> st_messages t = AList.update (msg_ID m) (m\<lparr>msg_Parts := []\<rparr>) (st_messages s) \<and>
    st_parts t = put_all prt_ID (msg_Parts m) (del_where (\<lambda>p. prt_MessageID p = msg_ID m) (st_parts s)))"
  using assms
  by (auto simp: save_snapshot_def appendMessageAggregateLocked_def res_simps attempt_def
      applyMessageSnapshotLocked_def appendPermissionAggregateCommitLocked_def Let_def split: sum.splits)

lemma replaced_parts:
  assumes "wf_map ps" "distinct (map prt_ID qs)" "\<forall>q \<in> set qs. prt_MessageID q = i"
  shows "map_of (put_all prt_ID qs (del_where (\<lambda>p. prt_MessageID p = i) ps)) k = Some p \<and> prt_MessageID p = i
    \<longleftrightarrow> p \<in> set qs \<and> k = prt_ID p"
proof (cases "List.find (\<lambda>v. prt_ID v = k) qs")
  case None
  then have "\<forall>q \<in> set qs. prt_ID q \<noteq> k" by (auto simp: find_None_iff)
  then show ?thesis by (auto simp: map_of_put_all [OF assms(2)] map_of_del_where [OF assms(1)] None split: option.splits if_splits)
next
  case (Some q)
  then have q: "q \<in> set qs" "prt_ID q = k" using find_distinct_Some [OF assms(2)] by blast+
  then have "p \<in> set qs \<and> k = prt_ID p \<longleftrightarrow> p = q" using assms(2) by (auto simp: distinct_map dest: inj_onD)
  then show ?thesis using q assms(3) by (auto simp: map_of_put_all [OF assms(2)] Some)
qed

definition same_message :: "stored_message \<Rightarrow> stored_message \<Rightarrow> bool" where
  \<comment> \<open>what a later revision of a message may not change\<close>
  "same_message a b \<longleftrightarrow> msg_ID a = msg_ID b \<and> msg_SessionID a = msg_SessionID b \<and> msg_RunID a = msg_RunID b \<and>
     msg_Idx a = msg_Idx b \<and> msg_Role a = msg_Role b \<and> msg_CreatedAt a = msg_CreatedAt b"

text \<open>C14: Saving a message that is recorded, in a state the store reaches, either changes nothing, and
  then it fails or repeats the revision that is recorded; or it records a higher revision of the same
  message, whose parts replace all the parts the message had.  A lower revision always fails.\<close>

theorem message_revisions:
  assumes "lib_ok L" "reachable L (command_ok L) s" "map_of (st_messages s) i = Some old" "msg_ID m = i"
    and "SaveMessage L w m s = (r, t)" "v = (if msg_Revision m = 0 then 1 else msg_Revision m)"
  shows "(t = s \<and> (r = Inr () \<longrightarrow> v = msg_Revision old)) \<or>
    (r = Inr () \<and> msg_Revision old < v \<and> (\<exists>new. msg_Revision new = v \<and>
       st_messages t = AList.update i (new\<lparr>msg_Parts := []\<rparr>) (st_messages s) \<and> same_message old new \<and>
       map prt_ID (msg_Parts new) = map prt_ID (msg_Parts m) \<and>
       map prt_PayloadJSON (msg_Parts new) = map prt_PayloadJSON (msg_Parts m) \<and>
       (\<forall>k p. (map_of (st_parts t) k = Some p \<and> prt_MessageID p = i) = (p \<in> set (msg_Parts new) \<and> k = prt_ID p))))"
proof -
  have inv: "store_inv L s" using contents.holds assms(1,2) by blast
  then have wf: "wf_map (st_parts s)" and key: "msg_ID old = i"
    using assms(3) by (auto simp: store_inv_def tables_ok_def keyed_def)
  define n where "n = (let m = (if msg_Revision m = 0 then m\<lparr>msg_Revision := 1\<rparr> else m) in
    if msg_State m = '''' then m\<lparr>msg_State := ''completed''\<rparr> else m)"
  let ?parts = "messageParts (st_parts s) i"
  let ?new = "prepareMessageSnapshot n (Some old) ?parts (w_now w)"
  have n: "msg_ID n = i" "msg_Revision n = v" "msg_Parts n = msg_Parts m" by (simp_all add: n_def assms(4,6) Let_def)
  have ids: "map prt_ID (msg_Parts ?new) = map prt_ID (msg_Parts m)"
    "map prt_PayloadJSON (msg_Parts ?new) = map prt_PayloadJSON (msg_Parts m)"
    "\<forall>p \<in> set (msg_Parts ?new). \<exists>q \<in> set (msg_Parts m). prt_MessageID p = prt_MessageID q"
    by (auto simp: prepareMessageSnapshot_def Let_def n comp_def)
  have op: "SaveMessage L w m s = attempt s (lookup ErrSessionNotFound (st_sessions s) (msg_SessionID n)) (\<lambda>_.
      attempt s (validateMessageParts n) (\<lambda>_.
        if msg_SessionID old \<noteq> msg_SessionID n \<or> msg_RunID old \<noteq> msg_RunID n \<or> msg_Idx old \<noteq> msg_Idx n
          \<or> msg_Role old \<noteq> msg_Role n then (Inl (Errorf ''message identity is immutable''), s)
        else if v < msg_Revision old then (Inl ErrMessageRevisionStale, s)
        else if v = msg_Revision old then
          (if messageRevisionEqual old ?parts n then (Inr (), s) else (Inl ErrMessageRevisionConflict, s))
        else save_snapshot L w ?new s))"
    unfolding SaveMessage_def n_def [unfolded Let_def, symmetric] Let_def n using assms(3) by simp
  show ?thesis
  proof (cases "validateMessageParts n = Inr () \<and> msg_SessionID old = msg_SessionID n \<and> msg_RunID old = msg_RunID n \<and>
      msg_Idx old = msg_Idx n \<and> msg_Role old = msg_Role n \<and> msg_Revision old < v \<and> r = Inr () \<and>
      save_snapshot L w ?new s = (Inr (), t)")
    case False
    then have "t = s \<and> (r = Inr () \<longrightarrow> v = msg_Revision old)"
      using assms(5) save_snapshot_ok [of L w ?new s r t] unfolding op
      by (auto simp: attempt_def split: sum.splits if_splits)
    then show ?thesis by blast
  next
    case True
    then have valid: "validateMessageParts n = Inr ()" and same: "msg_SessionID old = msg_SessionID n"
      "msg_RunID old = msg_RunID n" "msg_Idx old = msg_Idx n" "msg_Role old = msg_Role n" "msg_Revision old < v"
      and save: "r = Inr ()" "save_snapshot L w ?new s = (Inr (), t)" by blast+
    note saved = save_snapshot_ok [OF save(2)]
    have "distinct (map prt_ID (msg_Parts m))" "\<forall>q \<in> set (msg_Parts m). prt_MessageID q = i"
      using valid n by (auto simp: validateMessageParts_def validate_parts_conv)
    then have "distinct (map prt_ID (msg_Parts ?new))" "\<forall>p \<in> set (msg_Parts ?new). prt_MessageID p = i"
      unfolding ids(1) using ids(3) by metis+
    note parts = replaced_parts [OF wf this]
    have "same_message old ?new" using same n key by (simp add: same_message_def) (simp add: prepareMessageSnapshot_def Let_def)
    with save(1) saved same(5) ids n parts show ?thesis
      by (intro disjI2 [where P = "t = s \<and> _"] conjI exI [of _ ?new]) auto
  qed
qed

section \<open>Permission requests\<close>

definition grants :: "permission_request \<Rightarrow> string \<Rightarrow> permission_grant \<Rightarrow> bool" where
  \<comment> \<open>the grant allows the action of the request on the resource, for its session\<close>
  "grants r resource g \<longleftrightarrow> pgr_SessionID g = prq_SessionID r \<and> pgr_Action g = prq_Action r \<and> pgr_Resource g = resource"

lemma grant_loop:
  assumes "foldE (grant_resource L w r ex) (p, h, es, gs) xs = Inr (p', h', es', gs')"
    and "map pgr_ID gs = map (NewID w PrefixPermissionGrant) [0..<length gs]"
  shows "map pgr_ID gs' = map (NewID w PrefixPermissionGrant) [0..<length gs'] \<and> length gs' \<le> length gs + length xs \<and>
    set gs \<subseteq> set gs' \<and> (\<forall>x \<in> set xs. \<exists>g \<in> set ex \<union> set gs'. grants r x g)"
  using assms
proof (induction xs arbitrary: p h es gs)
  case (Cons x xs)
  show ?case
  proof (cases "\<exists>g \<in> set ex. grants r x g")
    case True
    then have "foldE (grant_resource L w r ex) (p, h, es, gs) xs = Inr (p', h', es', gs')"
      using Cons.prems(1) by (auto simp: grant_resource_def grants_def)
    from Cons.IH [OF this Cons.prems(2)] True show ?thesis by auto
  next
    case False
    obtain st where st: "grant_resource L w r ex (p, h, es, gs) x = Inr st" "foldE (grant_resource L w r ex) st xs = Inr (p', h', es', gs')"
      using Cons.prems(1) by (auto simp: res_simps)
    then obtain p1 h1 es1 g where "st = (p1, h1, es1, gs @ [g])"
      and g: "grants r x g" "pgr_ID g = NewID w PrefixPermissionGrant (length gs)"
      using False unfolding grant_resource_def grants_def by (fastforce simp: res_simps Let_def)
    with st(2) have step: "foldE (grant_resource L w r ex) (p1, h1, es1, gs @ [g]) xs = Inr (p', h', es', gs')" by simp
    have "map pgr_ID (gs @ [g]) = map (NewID w PrefixPermissionGrant) [0..<length (gs @ [g])]"
      using Cons.prems(2) g(2) by simp
    from Cons.IH [OF step this] g(1) show ?thesis by auto
  qed
qed simp

lemma put_grants:
  assumes "wf_map m" "map pgr_ID gs = map (NewID w PrefixPermissionGrant) [0..<length gs]" "length gs \<le> n"
    and "ids_fresh n w s" "m = st_permissionGrants s" "g \<in> set (vals m) \<union> set gs"
  shows "g \<in> set (vals (put_all pgr_ID gs m))"
proof -
  note fresh = ids_freshD [OF assms(4)]
  have new: "pgr_ID a \<in> NewID w PrefixPermissionGrant ` {..<n}" if "a \<in> set gs" for a
  proof -
    have "pgr_ID a \<in> set (map pgr_ID gs)" using that by simp
    then show ?thesis unfolding assms(2) using assms(3) by auto
  qed
  have "inj_on (NewID w PrefixPermissionGrant) {..<n}"
    using fresh(2) by (intro inj_onI) (metis lessThan_iff nat_neq_iff)
  then have dist: "distinct (map pgr_ID gs)" unfolding assms(2) distinct_map
    by (auto intro: inj_on_subset simp: assms(3) subset_eq order_less_le_trans [OF _ assms(3)])
  note lookup = map_of_put_all [OF dist, of m]
  have "\<exists>k. map_of (put_all pgr_ID gs m) k = Some g"
  proof (cases "g \<in> set gs")
    case True
    then have "List.find (\<lambda>v. pgr_ID v = pgr_ID g) gs = Some g" using find_distinct_Some [OF dist] by blast
    then show ?thesis unfolding lookup by (intro exI [of _ "pgr_ID g"]) simp
  next
    case False
    then obtain k where k: "map_of m k = Some g" using assms(1,6) by (auto simp: map_simps)
    then have "\<forall>a \<in> set gs. pgr_ID a \<noteq> k" using new fresh(1) assms(5) by fastforce
    then have "List.find (\<lambda>v. pgr_ID v = k) gs = None" by (auto simp: find_None_iff)
    then show ?thesis unfolding lookup using k by (intro exI [of _ k]) simp
  qed
  then show ?thesis using assms(1) by (simp add: map_simps)
qed

lemma fold_commit_requests: "st_permissionRequests (fold (\<lambda>e. commit e p) es s) = st_permissionRequests s"
  by (induction es arbitrary: s) simp_all

text \<open>C17: Resolving a recorded permission request changes the store only if the request is pending
  and the outcome is one of the legal pairs of status and response; then the request has that outcome.
  A resolved request keeps its outcome: the same outcome is accepted again, any other is refused.
  After the response \<^verbatim>\<open>always\<close> the session holds a grant for every resource of the request, and
  after any other response it holds the grants it had.\<close>

theorem permission_resolved:
  assumes "lib_ok L" "reachable L (command_ok L) s" "map_of (st_permissionRequests s) i = Some old" "rsl_RequestID rs = i"
    and "command_ok L w (Resolve_Permission_Request rs) s" "ResolvePermissionRequest L w rs s = (r, t)"
  shows "(t = s \<and> (\<forall>q. r = Inr q \<longrightarrow> \<not> qtr_Changed q \<and> qtr_Request q = old \<and> prq_Status old = rsl_Status rs \<and> prq_Response old = rsl_Response rs)) \<or>
    (prq_Status old = PermissionRequestStatusPending \<and> legalPermissionResolution (rsl_Status rs) (rsl_Response rs) \<and>
     (\<exists>q. r = Inr q \<and> qtr_Changed q \<and> qtr_Request q = resolved_request w rs old) \<and>
     st_permissionRequests t = AList.update i (resolved_request w rs old) (st_permissionRequests s) \<and>
     (if rsl_Response rs = PermissionResponseAlways
      then (\<forall>x \<in> set (prq_Resources old). \<exists>g \<in> set (vals (st_permissionGrants t)). grants old x g)
      else st_permissionGrants t = st_permissionGrants s))"
proof -
  have inv: "store_inv L s" using contents.holds assms(1,2) by blast
  then have tab: "wf_map (st_permissionGrants s)" "prq_ID old = i"
    using assms(3) by (auto simp: store_inv_def tables_ok_def keyed_def)
  have ids: "ids_fresh (length (prq_Resources old)) w s" using assms(3-5) by simp
  let ?new = "resolved_request w rs old"
  have new: "prq_ID ?new = i" "prq_SessionID ?new = prq_SessionID old" "prq_Resources ?new = prq_Resources old"
    "prq_Response ?new = rsl_Response rs" "grants ?new = grants old"
    by (simp_all add: resolved_request_def tab grants_def fun_eq_iff)
  show ?thesis
  proof (cases "\<exists>x. legalPermissionResolution (rsl_Status rs) (rsl_Response rs) \<and> prq_Status old = PermissionRequestStatusPending \<and>
      (\<exists>q. r = Inr q) \<and> record_resolution L w x ?new s = (r, t)")
    case False
    have "\<exists>e. record_resolution L w x ?new s = (r, t) \<Longrightarrow> t = s \<or> (\<exists>q. r = Inr q)" for x
      by (auto simp: record_resolution_def Let_def attempt_def split: sum.splits)
    then have "t = s \<and> (\<forall>q. r = Inr q \<longrightarrow> \<not> qtr_Changed q \<and> qtr_Request q = old \<and> prq_Status old = rsl_Status rs \<and> prq_Response old = rsl_Response rs)"
      using assms(3,4,6) False
      by (auto simp: ResolvePermissionRequest_def Let_def attempt_def check_def lookup_def split: sum.splits if_splits option.splits)
    then show ?thesis by blast
  next
    case True
    then obtain x q where legal: "legalPermissionResolution (rsl_Status rs) (rsl_Response rs)"
      "prq_Status old = PermissionRequestStatusPending" and q: "r = Inr q"
      and rec: "record_resolution L w x ?new s = (Inr q, t)" by blast
    obtain p h es gs e0 p0 where loop: "(if rsl_Response rs = PermissionResponseAlways
        then foldE (grant_resource L w ?new (vals (st_permissionGrants s)))
          (p0, history s (session_ref (prq_SessionID old)) @ [e0], [e0], []) (prq_Resources old)
        else Inr (p0, history s (session_ref (prq_SessionID old)) @ [e0], [e0], [])) = Inr (p, h, es, gs)"
      and out: "qtr_Changed q" "qtr_Request q = ?new"
        "st_permissionRequests t = AList.update i ?new (st_permissionRequests s)"
        "st_permissionGrants t = put_all pgr_ID gs (st_permissionGrants s)"
      using rec unfolding record_resolution_def Let_def new
      by (auto simp: attempt_def put_event_def put_request_def new fold_commit_table fold_commit_requests split: sum.splits)
    show ?thesis
    proof (cases "rsl_Response rs = PermissionResponseAlways")
      case always: True
      have gs: "map pgr_ID gs = map (NewID w PrefixPermissionGrant) [0..<length gs]" "length gs \<le> length (prq_Resources old)"
        "\<forall>x \<in> set (prq_Resources old). \<exists>g \<in> set (vals (st_permissionGrants s)) \<union> set gs. grants old x g"
        using grant_loop [of L w ?new] loop always new(5) by fastforce+
      have "\<forall>x \<in> set (prq_Resources old). \<exists>g \<in> set (vals (st_permissionGrants t)). grants old x g"
        using gs(3) put_grants [OF tab(1) gs(1,2) ids refl] unfolding out(4) by blast
      then show ?thesis using legal q out always by auto
    next
      case False
      then show ?thesis using loop legal q out by auto
    qed
  qed
qed

text \<open>The samples of requests and messages are in a session that has nothing else.\<close>

definition empty_session :: store where
  "empty_session = run_commands sample_lib (numbered 0 [Create_Client_With_ID ''cli_1'' ''desk'', Create_Session sample_session]) NewStore"

lemma empty_session_reachable: "reachable sample_lib (command_ok sample_lib) empty_session"
  unfolding empty_session_def by (rule run_commands_reachable) code_simp

definition sample_request :: "string \<Rightarrow> string list \<Rightarrow> permission_request" where
  \<comment> \<open>a request in the sample session, under the identifier \<open>i\<close>\<close>
  "sample_request i resources = \<lparr>prq_ID = i, prq_SessionID = ''ses_1'', prq_RunID = '''', prq_ToolUseID = '''',
     prq_CallID = '''', prq_Action = ''bash'', prq_Resources = resources, prq_Status = '''', prq_Response = '''',
     prq_ErrorType = '''', prq_ErrorMessage = '''', prq_CreatedAt = 0, prq_ResolvedAt = 0, prq_UpdatedAt = 0\<rparr>"

definition sample_always :: permission_resolution where
  "sample_always = \<lparr>rsl_SessionID = ''ses_1'', rsl_RequestID = ''prq_1'', rsl_ExpectedStatus = '''',
     rsl_Status = PermissionRequestStatusApproved, rsl_Response = PermissionResponseAlways, rsl_ErrorType = '''',
     rsl_ErrorMessage = ''''\<rparr>"

lemma permission_resolved_witness:
  "let s = exec sample_lib (sample_world 7) (Create_Permission_Request (sample_request ''prq_1'' [''ls'', ''rm''])) empty_session;
       out = ResolvePermissionRequest sample_lib (sample_world 8) sample_always s in
   (\<exists>q. fst out = Inr q \<and> qtr_Changed q) \<and>
   (\<exists>g. g \<in> set (vals (st_permissionGrants (snd out))) \<and> pgr_Action g = ''bash'' \<and> pgr_Resource g = ''rm'')"
proof -
  define c where "c = Create_Permission_Request (sample_request ''prq_1'' [''ls'', ''rm''])"
  define s where "s = exec sample_lib (sample_world 7) c empty_session"
  define out where "out = ResolvePermissionRequest sample_lib (sample_world 8) sample_always s"
  have ok: "command_ok sample_lib (sample_world 7) c empty_session" unfolding c_def by code_simp
  have reached: "reachable sample_lib (command_ok sample_lib) s" unfolding s_def by (rule reachable_step [OF empty_session_reachable ok])
  have row: "map_option (\<lambda>r. (prq_Status r, prq_Action r, prq_Resources r)) (map_of (st_permissionRequests s) ''prq_1'') =
      Some (PermissionRequestStatusPending, ''bash'', [''ls'', ''rm''])" unfolding s_def c_def by code_simp
  then obtain old where old: "map_of (st_permissionRequests s) ''prq_1'' = Some old" "prq_Status old = PermissionRequestStatusPending"
    "prq_Action old = ''bash''" "prq_Resources old = [''ls'', ''rm'']" by auto
  have ok': "command_ok sample_lib (sample_world 8) (Resolve_Permission_Request sample_always) s" unfolding s_def c_def by code_simp
  have resolved: "map_option prq_Status (map_of (st_permissionRequests (snd out)) ''prq_1'') = Some PermissionRequestStatusApproved"
    unfolding out_def s_def c_def by code_simp
  then have "snd out \<noteq> s" using old(1,2) by (auto simp: PermissionRequestStatusPending_def PermissionRequestStatusApproved_def)
  moreover have "rsl_RequestID sample_always = ''prq_1''" "rsl_Response sample_always = PermissionResponseAlways"
    by (simp_all add: sample_always_def)
  moreover have "ResolvePermissionRequest sample_lib (sample_world 8) sample_always s = (fst out, snd out)" by (simp add: out_def)
  ultimately have "(\<exists>q. fst out = Inr q \<and> qtr_Changed q) \<and>
      (\<forall>x \<in> set (prq_Resources old). \<exists>g \<in> set (vals (st_permissionGrants (snd out))). grants old x g)"
    using permission_resolved [OF sample_lib_ok reached old(1) _ ok', of "fst out" "snd out"] by auto
  then show ?thesis unfolding Let_def c_def [symmetric] s_def [symmetric] out_def [symmetric]
    using old(3,4) by (auto simp: grants_def)
qed

definition sample_message :: "int \<Rightarrow> string \<Rightarrow> stored_message" where
  \<comment> \<open>the assistant's message at revision \<open>n\<close> with one part\<close>
  "sample_message n part = \<lparr>msg_ID = ''msg_1'', msg_SessionID = ''ses_1'', msg_RunID = '''', msg_Idx = 0,
     msg_Role = ''assistant'', msg_Revision = n, msg_State = ''in_progress'', msg_MetadataJSON = [], msg_CreatedAt = 0,
     msg_UpdatedAt = 0, msg_Parts = [\<lparr>prt_ID = part, prt_MessageID = ''msg_1'', prt_Sequence = 0, prt_Kind = ''text'',
       prt_PayloadJSON = ''null'', prt_CreatedAt = 0, prt_UpdatedAt = 0\<rparr>]\<rparr>"

lemma message_revisions_witness:
  "let s = exec sample_lib (sample_world 7) (Save_Message (sample_message 1 ''prt_1'')) empty_session;
       out = SaveMessage sample_lib (sample_world 8) (sample_message 2 ''prt_2'') s in
   fst out = Inr () \<and> (\<exists>p. map_of (st_parts (snd out)) ''prt_2'' = Some p \<and> prt_MessageID p = ''msg_1'') \<and>
   (\<nexists>p. map_of (st_parts (snd out)) ''prt_1'' = Some p \<and> prt_MessageID p = ''msg_1'')"
proof -
  define c where "c = Save_Message (sample_message 1 ''prt_1'')"
  define s where "s = exec sample_lib (sample_world 7) c empty_session"
  define out where "out = SaveMessage sample_lib (sample_world 8) (sample_message 2 ''prt_2'') s"
  have ok: "command_ok sample_lib (sample_world 7) c empty_session" unfolding c_def by code_simp
  have reached: "reachable sample_lib (command_ok sample_lib) s" unfolding s_def by (rule reachable_step [OF empty_session_reachable ok])
  have row: "map_option msg_Revision (map_of (st_messages s) ''msg_1'') = Some 1" unfolding s_def c_def by code_simp
  then obtain old where old: "map_of (st_messages s) ''msg_1'' = Some old" "msg_Revision old = 1" by auto
  have saved: "map_option msg_Revision (map_of (st_messages (snd out)) ''msg_1'') = Some 2"
    unfolding out_def s_def c_def by code_simp
  then have changed: "snd out \<noteq> s" using old by auto
  have eq: "SaveMessage sample_lib (sample_world 8) (sample_message 2 ''prt_2'') s = (fst out, snd out)"
    by (simp add: out_def)
  have ids: "map prt_ID (msg_Parts (sample_message 2 ''prt_2'')) = [''prt_2'']" by (simp add: sample_message_def)
  have "msg_ID (sample_message 2 ''prt_2'') = ''msg_1''" by (simp add: sample_message_def)
  note saves = message_revisions [OF sample_lib_ok reached old(1) this eq refl, unfolded ids]
  obtain new :: stored_message where ok2: "fst out = Inr ()" and part: "map prt_ID (msg_Parts new) = [''prt_2'']" and
    rows: "\<And>k p. (map_of (st_parts (snd out)) k = Some p \<and> prt_MessageID p = ''msg_1'') = (p \<in> set (msg_Parts new) \<and> k = prt_ID p)"
    using saves
  proof (elim disjE conjE exE)
    assume "snd out = s"
    then show thesis using changed by contradiction
  next
    fix new :: stored_message
    assume "fst out = Inr ()" "map prt_ID (msg_Parts new) = [''prt_2'']"
      "\<forall>k p. (map_of (st_parts (snd out)) k = Some p \<and> prt_MessageID p = ''msg_1'') = (p \<in> set (msg_Parts new) \<and> k = prt_ID p)"
    then show thesis by (intro that [of new]) simp_all
  qed
  obtain p where p: "msg_Parts new = [p]" "prt_ID p = ''prt_2''" using part by (auto simp: map_eq_Cons_conv)
  show ?thesis unfolding Let_def c_def [symmetric] s_def [symmetric] out_def [symmetric] rows
    using ok2 p by simp
qed

section \<open>Admission\<close>

text \<open>C21: A request that has been admitted, in a state the store reaches, is not admitted again: with
  the hash it had it returns the run that was admitted, with another it is a conflict, and neither
  changes the store.\<close>

theorem admitted_once:
  assumes "lib_ok L" "reachable L (command_ok L) s" "map_of (st_runs s) i = Some r" "run_RequestID r \<noteq> ''''"
    and "map_of (st_sessions s) (run_SessionID r) = Some x" "run_SessionID q = run_SessionID r" "run_RequestID q = run_RequestID r"
    and "SessionRunRequestHash L (q\<lparr>run_WorkDir := ses_WorkDir x, run_WorkspaceID := ses_WorkspaceID x,
      run_ClientID := ses_ClientID x\<rparr>) = Inr hash"
  shows "AdmitSessionRun L w q s =
    (if hash = run_RequestHash r then (Inr \<lparr>adm_Run = r, adm_SessionVersion = ses_AggregateVersion x, adm_Created = False,
       adm_QueuedEvent = None\<rparr>, s)
     else (Inl (SessionRunAdmissionConflict (run_SessionID r) (run_RequestID r)), s))"
proof -
  have inv: "store_inv L s" "queue_inv (st_runs s)" using contents.holds queues.holds assms(1,2) by blast+
  then have wf: "wf_map (st_runs s)" by (auto simp: store_inv_def tables_ok_def)
  let ?p = "\<lambda>u. run_SessionID u = run_SessionID r \<and> run_RequestID u = run_RequestID r"
  have mem: "r \<in> set (vals (st_runs s))" using assms(3) wf by (auto simp: map_simps)
  have found: "List.find ?p (vals (st_runs s)) = Some r"
  proof (cases "List.find ?p (vals (st_runs s))")
    case None
    then show ?thesis using mem by (auto simp: find_None_iff)
  next
    case (Some u)
    then have u: "u \<in> set (vals (st_runs s))" "?p u" by (auto simp: find_Some_iff)
    then obtain j where j: "map_of (st_runs s) j = Some u" using wf by (auto simp: map_simps)
    then have "i = j" using inv(2) u(2) assms(3,4)
      unfolding queue_inv_def unique_by_def same_request_def by metis
    then show ?thesis using Some j assms(3) by simp
  qed
  have copy: "copySessionRun L r = r" using store_inv_run [OF inv(1) assms(1) mem] by simp
  show ?thesis
    using assms(4,6,7,8) found copy
    by (simp add: AdmitSessionRun_def lookup_Some [OF assms(5)] Let_def attempt_simps)
qed

lemma admitted_once_witness:
  "\<exists>x. AdmitSessionRun sample_lib (sample_world 9) (sample_run ''run_2'') sample_store =
     (Inr \<lparr>adm_Run = x, adm_SessionVersion = 5, adm_Created = False, adm_QueuedEvent = None\<rparr>, sample_store) \<and> run_Sequence x = 2"
proof -
  have row: "map_option (\<lambda>r. (run_SessionID r, run_RequestID r, run_RequestHash r, run_Sequence r)) (map_of (st_runs sample_store) ''run_2'') =
      Some (''ses_1'', ''reqrun_2'', ''null'', 2)" by code_simp
  then obtain r where r: "map_of (st_runs sample_store) ''run_2'' = Some r" "run_SessionID r = ''ses_1''"
    "run_RequestID r = ''reqrun_2''" "run_RequestHash r = ''null''" "run_Sequence r = 2" by auto
  have row': "map_of (st_sessions sample_store) (run_SessionID r) = Some sample_row" unfolding r(2) by (rule sample_session_row)
  have hash: "SessionRunRequestHash sample_lib ((sample_run ''run_2'')\<lparr>run_WorkDir := ses_WorkDir sample_row,
      run_WorkspaceID := ses_WorkspaceID sample_row, run_ClientID := ses_ClientID sample_row\<rparr>) = Inr ''null''" by code_simp
  have "run_RequestID r \<noteq> ''''" "run_SessionID (sample_run ''run_2'') = run_SessionID r" "run_RequestID (sample_run ''run_2'') = run_RequestID r"
    "ses_AggregateVersion sample_row = 5"
    by (simp_all add: r sample_run_def sample_row_def)
  with admitted_once [OF sample_lib_ok sample_reachable r(1) _ row' _ _ hash, of "sample_world 9"] show ?thesis by (simp add: r(4,5))
qed

end
