(* ===== verification/Recorder_Protocol.thy ===== *)
theory Recorder_Protocol
  imports Agent_Properties Session_Recorders Record_Properties
begin

text \<open>
  The run loop, the recorder of tool uses and the store together: while the callbacks of a run are
  answered by the recorder, the store has a tool use exactly for every use the loop has proposed, with the
  status the protocol of the loop has reached.  Other callbacks, and other runs, may change the rest of the
  store at any time.
\<close>

section \<open>Runs that are recorded\<close>

fun is_use_callback :: "question \<Rightarrow> bool" where
  "is_use_callback (ToolUse_Propose _) = True"
| "is_use_callback (ToolUse_Authorize _) = True"
| "is_use_callback (ToolUse_Start _) = True"
| "is_use_callback (ToolUse_Finish _) = True"
| "is_use_callback _ = False"

definition error_of :: "(go_error \<Rightarrow> string) \<Rightarrow> 'a res \<Rightarrow> failure option" where
  "error_of tx r = (case r of Inl e \<Rightarrow> Some (Failure (tx e)) | Inr _ \<Rightarrow> None)"

fun record_use :: "lib \<Rightarrow> (go_error \<Rightarrow> string) \<Rightarrow> recorder \<Rightarrow> world \<Rightarrow> question \<Rightarrow> store \<Rightarrow> answer \<times> store" where
  \<comment> \<open>the recorder's answer to a callback about a tool use; \<open>tx\<close> is the text of a store's error\<close>
  "record_use L tx rec w (ToolUse_Propose i) s =
     (case ToolUseRecorder_Propose L w rec i s of
        (Inl e, s') \<Rightarrow> (Is_Text (Inl (Failure (tx e))), s') | (Inr i, s') \<Rightarrow> (Is_Text (Inr i), s'))"
| "record_use L tx rec w (ToolUse_Authorize i) s = apfst (Is_Error \<circ> error_of tx) (ToolUseRecorder_Authorize L w rec i s)"
| "record_use L tx rec w (ToolUse_Start i) s = apfst (Is_Error \<circ> error_of tx) (ToolUseRecorder_Start L w rec i s)"
| "record_use L tx rec w (ToolUse_Finish i) s = apfst (Is_Error \<circ> error_of tx) (ToolUseRecorder_Finish L w rec i s)"
| "record_use L tx rec w q s = (Is_Done, s)"

definition use_of_run :: "recorder \<Rightarrow> store \<Rightarrow> tool_use \<Rightarrow> bool" where
  "use_of_run rec s u \<longleftrightarrow> tlu_RunID u = rec_RunID rec \<and> map_of (st_toolUses s) (tlu_ID u) = Some u"

definition ids_agree :: "store \<Rightarrow> bool" where
  \<comment> \<open>the table of tool uses has one row per identifier, and rows have the identifier they are filed under\<close>
  "ids_agree s \<longleftrightarrow> wf_map (st_toolUses s) \<and> (\<forall>i u. map_of (st_toolUses s) i = Some u \<longrightarrow> tlu_ID u = i)"

inductive records :: "lib \<Rightarrow> (go_error \<Rightarrow> string) \<Rightarrow> recorder \<Rightarrow> store \<Rightarrow> dialogue \<Rightarrow> store \<Rightarrow> bool" for L tx rec s where
  start: "records L tx rec s [] s"
| use: "records L tx rec s d t \<Longrightarrow> is_use_callback q \<Longrightarrow> record_use L tx rec w q t = (r, t') \<Longrightarrow> records L tx rec s (d @ [(q, r)]) t'"
| other: "records L tx rec s d t \<Longrightarrow> \<not> is_use_callback q \<Longrightarrow> ids_agree t' \<Longrightarrow> use_of_run rec t' = use_of_run rec t \<Longrightarrow>
    records L tx rec s (d @ [(q, r)]) t'"

inductive_cases records_NilE: "records L tx rec s [] t"
inductive_cases records_snocE: "records L tx rec s (d @ [(q, r)]) t"

section \<open>One command of the store\<close>

definition key_of_use :: "tool_use \<Rightarrow> int \<times> int" where
  "key_of_use u = (tlu_Step u, tlu_Ordinal u)"

lemma identity_parts:
  "sameToolUseIdentity a b \<Longrightarrow> tlu_RunID a = tlu_RunID b \<and> key_of_use a = key_of_use b"
  by (simp add: sameToolUseIdentity_def key_of_use_def)

lemma save_tool_use_error: "save_tool_use L e u s = (Inl x, t) \<Longrightarrow> t = s"
  by (auto simp: save_tool_use_def attempt_def split: sum.splits)

lemma SaveToolUse_error: "SaveToolUse L w u s = (Inl e, t) \<Longrightarrow> t = s"
  by (auto simp: SaveToolUse_def attempt_def Let_def dest: save_tool_use_error split: sum.splits option.splits if_splits)

definition saved_as :: "store \<Rightarrow> tool_use \<Rightarrow> store \<Rightarrow> bool" where
  \<comment> \<open>the row of the use is new or replaced, with its status and key\<close>
  "saved_as s u t \<longleftrightarrow> (\<exists>i new. st_toolUses t = AList.update i new (st_toolUses s) \<and> tlu_ID new = i \<and> tlu_Status new = tlu_Status u
     \<and> tlu_RunID new = tlu_RunID u \<and> key_of_use new = key_of_use u
     \<and> (case map_of (st_toolUses s) i of
          None \<Rightarrow> tlu_Status u = ToolUseStatusProposed
            \<and> (tlu_RunID u \<noteq> '''' \<longrightarrow> (\<forall>x \<in> set (vals (st_toolUses s)). \<not> (tlu_RunID x = tlu_RunID u \<and> key_of_use x = key_of_use u)))
        | Some old \<Rightarrow> tlu_RunID old = tlu_RunID u \<and> key_of_use old = key_of_use u
            \<and> legalToolUseTransition (tlu_Status old) (tlu_Status u)))"

definition repeated :: "store \<Rightarrow> tool_use \<Rightarrow> store \<Rightarrow> bool" where
  \<comment> \<open>the use is recorded as it is already\<close>
  "repeated s u t \<longleftrightarrow> t = s \<and> (\<exists>i old. map_of (st_toolUses s) i = Some old \<and> tlu_RunID old = tlu_RunID u
     \<and> key_of_use old = key_of_use u \<and> tlu_Status old = tlu_Status u)"

lemma SaveToolUse_ok:
  assumes "SaveToolUse L w u s = (Inr (), t)"
  shows "saved_as s u t \<or> repeated s u t"
proof -
  define v where "v = (if tlu_ID u = '''' then u\<lparr>tlu_ID := NewID w PrefixToolUse 0\<rparr> else u)"
  have v: "tlu_Status v = tlu_Status u" "tlu_RunID v = tlu_RunID u" "key_of_use v = key_of_use u"
    by (simp_all add: v_def key_of_use_def)
  have default: "tlu_ID (default_tool_use w v) = tlu_ID v" "tlu_Status (default_tool_use w v) = tlu_Status v"
    "tlu_RunID (default_tool_use w v) = tlu_RunID v" "key_of_use (default_tool_use w v) = key_of_use v"
    by (simp_all add: default_tool_use_def Let_def key_of_use_def)
  show ?thesis
  proof (cases "map_of (st_toolUses s) (tlu_ID v)")
    case None
    have save: "save_tool_use L (NewID w PrefixEvent 1) (default_tool_use w v) s = (Inr (), t)"
      and c: "tlu_Status v = ToolUseStatusProposed" "tlu_RunID v = '''' \<or> (\<forall>x \<in> set (vals (st_toolUses s)).
              \<not> (tlu_RunID x = tlu_RunID v \<and> tlu_Step x = tlu_Step v \<and> tlu_Ordinal x = tlu_Ordinal v))"
      using assms None unfolding SaveToolUse_def v_def [symmetric] Let_def
      by (auto simp: attempt_def check_def split: sum.splits if_splits)
    have "saved_as s u t" unfolding saved_as_def
      by (rule exI [of _ "tlu_ID v"], rule exI [of _ "default_tool_use w v"])
        (use save_tool_use_ok [OF save] None c v default in \<open>auto simp: key_of_use_def\<close>)
    then show ?thesis ..
  next
    case (Some old)
    let ?u = "keep_tool_use_times old v"
    have same: "sameToolUseIdentity old v"
      using assms Some unfolding SaveToolUse_def v_def [symmetric] Let_def
      by (auto simp: attempt_def check_def split: if_splits)
    note parts = identity_parts [OF same]
    show ?thesis
    proof (cases "tlu_Status v = tlu_Status old")
      case True
      then have "t = s" using assms Some same unfolding SaveToolUse_def v_def [symmetric] Let_def
        by (auto simp: attempt_def check_def kept split: if_splits)
      then have "repeated s u t" using Some parts v True unfolding repeated_def by metis
      then show ?thesis ..
    next
      case False
      then have legal: "legalToolUseTransition (tlu_Status old) (tlu_Status v)"
        and save: "save_tool_use L (NewID w PrefixEvent 1) (stamp_tool_use w old ?u) s = (Inr (), t)"
        using assms Some same unfolding SaveToolUse_def v_def [symmetric] Let_def
        by (auto simp: attempt_def check_def kept split: if_splits)
      let ?n = "stamp_tool_use w old ?u"
      have n: "tlu_ID ?n = tlu_ID v" "tlu_Status ?n = tlu_Status v" "sameToolUseIdentity old ?n"
        using same by (simp_all add: stamped kept)
      have "saved_as s u t" unfolding saved_as_def
        by (rule exI [of _ "tlu_ID v"], rule exI [of _ ?n])
          (use save_tool_use_ok [OF save] Some legal parts v n identity_parts [OF n(3)] in auto)
      then show ?thesis ..
    qed
  qed
qed

section \<open>The store and the watcher agree\<close>

definition agrees :: "recorder \<Rightarrow> store \<Rightarrow> int \<times> int \<Rightarrow> string \<Rightarrow> bool" where
  \<comment> \<open>the run has one use with the key, in the given status; none when the status is empty\<close>
  "agrees rec s k st \<longleftrightarrow>
     (st = '''' \<longrightarrow> (\<forall>v. use_of_run rec s v \<longrightarrow> key_of_use v \<noteq> k)) \<and>
     (st \<noteq> '''' \<longrightarrow> (\<exists>u. use_of_run rec s u \<and> key_of_use u = k \<and> tlu_Status u = st
        \<and> (\<forall>v. use_of_run rec s v \<and> key_of_use v = k \<longrightarrow> v = u)))"

lemma saved_ids_agree: "saved_as s u t \<Longrightarrow> ids_agree s \<Longrightarrow> ids_agree t"
  by (auto simp: saved_as_def ids_agree_def split: if_splits)

lemma saved_uses:
  assumes "saved_as s u t" "tlu_RunID u = rec_RunID rec" "rec_RunID rec \<noteq> ''''" "ids_agree s"
  obtains new where "tlu_Status new = tlu_Status u" "key_of_use new = key_of_use u"
    "\<And>v. use_of_run rec t v \<longleftrightarrow> v = new \<or> use_of_run rec s v \<and> tlu_ID v \<noteq> tlu_ID new"
    "\<And>v. use_of_run rec s v \<Longrightarrow> tlu_ID v = tlu_ID new \<Longrightarrow> key_of_use v = key_of_use u"
    "(\<forall>v. use_of_run rec s v \<longrightarrow> key_of_use v \<noteq> key_of_use u)
       \<or> (\<exists>old. use_of_run rec s old \<and> key_of_use old = key_of_use u \<and> tlu_ID old = tlu_ID new)"
proof -
  obtain i new where new: "st_toolUses t = AList.update i new (st_toolUses s)" "tlu_ID new = i" "tlu_Status new = tlu_Status u"
     "tlu_RunID new = tlu_RunID u" "key_of_use new = key_of_use u"
     and row: "case map_of (st_toolUses s) i of
          None \<Rightarrow> \<forall>x \<in> set (vals (st_toolUses s)). \<not> (tlu_RunID x = tlu_RunID u \<and> key_of_use x = key_of_use u)
        | Some old \<Rightarrow> tlu_RunID old = tlu_RunID u \<and> key_of_use old = key_of_use u"
    using assms(1-3) unfolding saved_as_def by (auto split: option.splits)
  have wf: "wf_map (st_toolUses s)" and ids: "map_of (st_toolUses s) j = Some v \<Longrightarrow> tlu_ID v = j" for j v
    using assms(4) by (auto simp: ids_agree_def)
  show thesis
  proof (rule that [OF new(3,5)])
    show "use_of_run rec t v \<longleftrightarrow> v = new \<or> use_of_run rec s v \<and> tlu_ID v \<noteq> tlu_ID new" for v
      using new assms(2) by (auto simp: use_of_run_def)
    show "key_of_use v = key_of_use u" if "use_of_run rec s v" "tlu_ID v = tlu_ID new" for v
      using that row new(2) by (auto simp: use_of_run_def)
    show "(\<forall>v. use_of_run rec s v \<longrightarrow> key_of_use v \<noteq> key_of_use u)
       \<or> (\<exists>old. use_of_run rec s old \<and> key_of_use old = key_of_use u \<and> tlu_ID old = tlu_ID new)"
    proof (cases "map_of (st_toolUses s) i")
      case None
      then show ?thesis using row assms(2) by (auto simp: use_of_run_def vals_mem [OF wf])
    next
      case (Some old)
      then have "use_of_run rec s old \<and> key_of_use old = key_of_use u \<and> tlu_ID old = tlu_ID new"
        using row assms(2) ids [OF Some] new(2) by (simp add: use_of_run_def)
      then show ?thesis by blast
    qed
  qed
qed

lemma saved_agrees:
  assumes "saved_as s u t" "tlu_RunID u = rec_RunID rec" "rec_RunID rec \<noteq> ''''" "ids_agree s" "agrees rec s k st"
    "tlu_Status u \<noteq> ''''"
  shows "agrees rec t k (if k = key_of_use u then tlu_Status u else st)"
proof -
  obtain new where new: "tlu_Status new = tlu_Status u" "key_of_use new = key_of_use u"
    and uses: "\<And>v. use_of_run rec t v \<longleftrightarrow> v = new \<or> use_of_run rec s v \<and> tlu_ID v \<noteq> tlu_ID new"
    and row: "\<And>v. use_of_run rec s v \<Longrightarrow> tlu_ID v = tlu_ID new \<Longrightarrow> key_of_use v = key_of_use u"
    and fresh: "(\<forall>v. use_of_run rec s v \<longrightarrow> key_of_use v \<noteq> key_of_use u)
       \<or> (\<exists>old. use_of_run rec s old \<and> key_of_use old = key_of_use u \<and> tlu_ID old = tlu_ID new)"
    by (rule saved_uses [OF assms(1-4)]) blast
  show ?thesis
  proof (cases "k = key_of_use u")
    case True
    have one: "v = new" if v: "use_of_run rec t v" "key_of_use v = k" for v
    proof (rule ccontr)
      assume "v \<noteq> new"
      then have v': "use_of_run rec s v" "tlu_ID v \<noteq> tlu_ID new" using v(1) uses by auto
      then obtain old where "use_of_run rec s old" "key_of_use old = k" "tlu_ID old = tlu_ID new"
        using fresh v(2) True by auto
      then have "v = old" using assms(5) v' v(2) unfolding agrees_def by metis
      then show False using v'(2) \<open>tlu_ID old = tlu_ID new\<close> by simp
    qed
    have "use_of_run rec t new" "key_of_use new = k" "tlu_Status new = tlu_Status u" using new uses True by auto
    then have "\<exists>u'. use_of_run rec t u' \<and> key_of_use u' = k \<and> tlu_Status u' = tlu_Status u
        \<and> (\<forall>v. use_of_run rec t v \<and> key_of_use v = k \<longrightarrow> v = u')"
      using one by blast
    then show ?thesis using True assms(6) unfolding agrees_def by simp
  next
    case False
    then have "use_of_run rec t v \<and> key_of_use v = k \<longleftrightarrow> use_of_run rec s v \<and> key_of_use v = k" for v
      using uses [of v] new(2) row [of v] by auto
    then show ?thesis using assms(5) False unfolding agrees_def by (simp add: conj_commute imp_conjL) metis
  qed
qed

section \<open>The recorder's answers\<close>

lemma recorder_uses:
  "tlu_RunID (toolUseRecord rec i) = rec_RunID rec" "key_of_use (toolUseRecord rec i) = (use_Step i, use_Ordinal i)"
  "tlu_RunID (finished_use L rec j) = rec_RunID rec" "key_of_use (finished_use L rec j) = (use_Step j, use_Ordinal j)"
  "tlu_Status (finished_use L rec j) = storeToolUseStatus (fin_Status j)"
  by (simp_all add: toolUseRecord_def finished_use_def key_of_use_def Let_def)

definition may_keep :: "recorder \<Rightarrow> int \<times> int \<Rightarrow> string \<Rightarrow> store \<Rightarrow> store \<Rightarrow> bool" where
  \<comment> \<open>an answered callback about the key: the run's uses are as before, except that the use with the key has the status\<close>
  "may_keep rec k status s t \<longleftrightarrow> ids_agree t \<and>
     (\<forall>j st. agrees rec s j st \<longrightarrow> agrees rec t j (if j = k then status else st))"

lemma SaveToolUse_keeps:
  assumes "SaveToolUse L w u s = (Inr (), t)" "tlu_RunID u = rec_RunID rec" "rec_RunID rec \<noteq> ''''" "ids_agree s"
    "tlu_Status u \<noteq> ''''"
  shows "may_keep rec (key_of_use u) (tlu_Status u) s t"
  using SaveToolUse_ok [OF assms(1)]
proof
  assume "saved_as s u t"
  then show ?thesis unfolding may_keep_def using saved_ids_agree saved_agrees assms(2-5) by blast
next
  assume "repeated s u t"
  then obtain i old where t: "t = s" and old: "map_of (st_toolUses s) i = Some old" "tlu_RunID old = tlu_RunID u"
     "key_of_use old = key_of_use u" "tlu_Status old = tlu_Status u"
    by (auto simp: repeated_def)
  have "use_of_run rec s old" using old assms(2,4) by (auto simp: use_of_run_def ids_agree_def)
  then have "agrees rec s (key_of_use u) (tlu_Status u)" if "agrees rec s (key_of_use u) st" for st
    using that old(3,4) assms(5) unfolding agrees_def by metis
  then show ?thesis unfolding may_keep_def t using assms(4) by auto
qed

lemma NewID_ToolUse_nonempty [simp]: "NewID w PrefixToolUse n \<noteq> ''''"
  by (simp add: NewID_def PrefixToolUse_def)

lemma storeToolUseStatus_id: "storeToolUseStatus st = st"
  by (simp add: storeToolUseStatus_def use_status_simps)

definition moves :: "recorder \<Rightarrow> int \<times> int \<Rightarrow> string \<Rightarrow> string \<Rightarrow> store \<Rightarrow> store \<Rightarrow> bool" where
  \<comment> \<open>the use with the key goes from one status to another, the others stay\<close>
  "moves rec k st st' s t \<longleftrightarrow> ids_agree t \<and> (agrees rec s k st \<longrightarrow> agrees rec t k st')
     \<and> (\<forall>j x. j \<noteq> k \<longrightarrow> agrees rec s j x \<longrightarrow> agrees rec t j x)"

lemma moves_refl: "ids_agree s \<Longrightarrow> moves rec k st st s s"
  by (simp add: moves_def)

lemma may_keep_moves: "may_keep rec k st' s t \<Longrightarrow> moves rec k st st' s t"
  unfolding may_keep_def moves_def by (metis (full_types))

lemma error_of_simps [simp]: "error_answer (Is_Error (error_of tx x)) = error_of tx x"
  "error_of tx (Inl e) = Some (Failure (tx e))" "error_of tx (Inr y) = None"
  by (simp_all add: error_of_def)

lemma Save_moves:
  assumes "SaveToolUse L w u s = (x, t)" "tlu_RunID u = rec_RunID rec" "rec_RunID rec \<noteq> ''''" "ids_agree s"
    "tlu_Status u \<noteq> ''''" "key_of_use u = k"
  shows "moves rec k (uwt_Status a) (uwt_Status (moved_to (tlu_Status u) (Is_Error (error_of tx x)) a)) s t"
proof (cases x)
  case (Inl e)
  then have "t = s" using SaveToolUse_error assms(1) by blast
  then show ?thesis using moves_refl [OF assms(4)] Inl by (simp add: moved_to_def)
next
  case (Inr y)
  then have "may_keep rec k (tlu_Status u) s t" using SaveToolUse_keeps [of L w u s t rec] assms by simp
  then show ?thesis using Inr by (simp add: moved_to_def may_keep_moves)
qed

lemma record_use_moves:
  assumes "record_use L tx rec w q s = (r, t)" "is_use_callback q" "use_accept R cfg a q r = Some a'" "use_key_of q = Some k"
    "rec_RunID rec \<noteq> ''''" "ids_agree s"
  shows "moves rec k (uwt_Status a) (uwt_Status a') s t"
proof (cases q)
  case (ToolUse_Propose i)
  let ?u = "(toolUseRecord rec i)\<lparr>tlu_ID := NewID w PrefixToolUse 0, tlu_Status := ToolUseStatusProposed,
            tlu_InputJSON := input_text L (use_Args i), tlu_ProposedAt := use_At i\<rparr>"
  have u: "tlu_RunID ?u = rec_RunID rec" "key_of_use ?u = k" "tlu_Status ?u \<noteq> ''''"
    using assms(4) ToolUse_Propose by (simp_all add: toolUseRecord_def key_of_use_def tool_status_defs)
  obtain x t0 where x0: "SaveToolUse L w ?u s = (x, t0)" by fastforce
  then have x: "SaveToolUse L w ?u s = (x, t)"
    "r = (case x of Inl e \<Rightarrow> Is_Text (Inl (Failure (tx e))) | Inr _ \<Rightarrow> Is_Text (Inr (NewID w PrefixToolUse 0)))"
    using assms(1) ToolUse_Propose by (simp_all add: ToolUseRecorder_Propose_def Let_def split: sum.splits)
  show ?thesis
    using Save_moves [OF x(1) u(1) assms(5,6) u(3,2), of a tx] x(2) assms(3) ToolUse_Propose
    by (auto simp: moved_to_def split: sum.splits if_splits)
next
  case (ToolUse_Authorize i)
  let ?u = "(toolUseRecord rec i)\<lparr>tlu_ID := use_ToolUseID i, tlu_Status := ToolUseStatusAuthorized,
       tlu_InputJSON := input_text L (use_Args i), tlu_AuthorizedAt := use_At i\<rparr>"
  have u: "tlu_RunID ?u = rec_RunID rec" "key_of_use ?u = k" "tlu_Status ?u \<noteq> ''''"
    using assms(4) ToolUse_Authorize by (simp_all add: toolUseRecord_def key_of_use_def tool_status_defs)
  obtain x where x: "SaveToolUse L w ?u s = (x, t)" "r = Is_Error (error_of tx x)"
    using assms(1) ToolUse_Authorize by (auto simp: ToolUseRecorder_Authorize_def apfst_def map_prod_def split: prod.splits)
  show ?thesis
    using Save_moves [OF x(1) u(1) assms(5,6) u(3,2), of a tx] x(2) assms(3) ToolUse_Authorize
    by (auto simp del: error_of_simps split: if_splits)
next
  case (ToolUse_Start i)
  let ?u = "(toolUseRecord rec i)\<lparr>tlu_ID := use_ToolUseID i, tlu_Status := ToolUseStatusStarted,
       tlu_InputJSON := input_text L (use_Args i), tlu_StartedAt := use_At i\<rparr>"
  have u: "tlu_RunID ?u = rec_RunID rec" "key_of_use ?u = k" "tlu_Status ?u \<noteq> ''''"
    using assms(4) ToolUse_Start by (simp_all add: toolUseRecord_def key_of_use_def tool_status_defs)
  obtain x where x: "SaveToolUse L w ?u s = (x, t)" "r = Is_Error (error_of tx x)"
    using assms(1) ToolUse_Start by (auto simp: ToolUseRecorder_Start_def apfst_def map_prod_def split: prod.splits)
  show ?thesis
    using Save_moves [OF x(1) u(1) assms(5,6) u(3,2), of a tx] x(2) assms(3) ToolUse_Start
    by (auto simp del: error_of_simps split: if_splits)
next
  case (ToolUse_Finish i)
  let ?u = "finished_use L rec i"
  have "fin_Status i \<noteq> ''''" using assms(3) ToolUse_Finish by (auto simp: legalToolUseTransition_def tool_status_defs split: if_splits)
  then have u: "tlu_RunID ?u = rec_RunID rec" "key_of_use ?u = k" "tlu_Status ?u \<noteq> ''''"
    using assms(4) ToolUse_Finish by (simp_all add: recorder_uses storeToolUseStatus_id)
  obtain x where x: "SaveToolUse L w ?u s = (x, t)" "r = Is_Error (error_of tx x)"
    using assms(1) ToolUse_Finish by (auto simp: ToolUseRecorder_Finish_def apfst_def map_prod_def split: prod.splits)
  show ?thesis
    using Save_moves [OF x(1) u(1) assms(5,6) u(3,2), of a tx] x(2) assms(3) ToolUse_Finish
    by (auto simp: recorder_uses storeToolUseStatus_id simp del: error_of_simps split: if_splits)
qed (use assms(2) in simp_all)

section \<open>Callbacks that succeed\<close>

definition use_ok :: "tool_use \<Rightarrow> bool" where
  \<comment> \<open>what the projection of a saved use asks for\<close>
  "use_ok u \<longleftrightarrow> tlu_ID u \<noteq> '''' \<and> tlu_Status u \<noteq> '''' \<and> tlu_ProposedAt u \<noteq> 0 \<and> tlu_CreatedAt u \<noteq> 0 \<and> tlu_UpdatedAt u \<noteq> 0"

definition run_filed :: "lib \<Rightarrow> 'a recorder_scheme \<Rightarrow> store \<Rightarrow> bool" where
  \<comment> \<open>a store in order, with the session and the run of the recorder\<close>
  "run_filed L rec s \<longleftrightarrow> store_inv L s \<and> map_of (st_sessions s) (rec_SessionID rec) \<noteq> None
     \<and> (\<exists>run. map_of (st_runs s) (rec_RunID rec) = Some run \<and> run_SessionID run = rec_SessionID rec)"

lemma project_tool_use:
  assumes "lib_ok L" "ProjectSession L hist = Inr p" "ses_ID p = tlu_SessionID u" "use_ok u"
    "NewSessionToolUseSavedEvent L eid u = Inr e" "v = int (length hist) + 1"
  shows "ProjectSession L (hist @ [e\<lparr>agg_Version := v\<rparr>]) = Inr (p\<lparr>ses_AggregateVersion := v\<rparr>)"
proof -
  let ?e = "e\<lparr>agg_Version := v\<rparr>"
  have e: "agg_Type ?e = EventSessionToolUseSaved" "agg_SchemaVersion ?e = 1" "agg_Aggregate ?e = session_ref (tlu_SessionID u)"
    using assms(5) by (auto simp: NewSessionToolUseSavedEvent_def new_event_def)
  have "ProjectSessionToolUseSaved L ?e = Inr u"
    using tool_use_event [OF assms(1,5), of ?e] assms(4) by (simp add: use_ok_def)
  then have "projectSessionEvent L (Some p) ?e = Inr (p\<lparr>ses_AggregateVersion := v\<rparr>)"
    using e by (simp add: projectSessionEvent_def event_type_defs unit_res_def)
  then have "session_step L (Some p, int (length hist)) ?e = Inr (Some (p\<lparr>ses_AggregateVersion := v\<rparr>), v)"
    using e assms(3,6) by (simp add: session_step_conv session_ref_def)
  then show ?thesis using assms(2,6) by (simp add: ProjectSession_conv)
qed

lemma save_tool_use_succeeds:
  assumes "lib_ok L" "store_inv L s" "map_of (st_sessions s) (tlu_SessionID u) \<noteq> None" "use_ok u"
  shows "\<exists>t. save_tool_use L eid u s = (Inr (), t) \<and> st_runs t = st_runs s
    \<and> (\<forall>i. map_of (st_sessions s) i \<noteq> None \<longrightarrow> map_of (st_sessions t) i \<noteq> None)"
proof -
  let ?sid = "tlu_SessionID u"
  obtain x where x: "map_of (st_sessions s) ?sid = Some x" using assms(3) by blast
  have "head_ok L ?sid (history s (session_ref ?sid)) (map_of (st_sessions s) ?sid)"
    using assms(2) unfolding store_inv_def sessions_ok_def by blast
  then obtain p where p: "ProjectSession L (history s (session_ref ?sid)) = Inr p" "ses_ID p = ?sid"
    "ses_AggregateVersion x = int (length (history s (session_ref ?sid)))"
    using head_ok_Some x by metis
  obtain e where e: "NewSessionToolUseSavedEvent L eid u = Inr e" "agg_Aggregate e = session_ref ?sid"
    by (simp add: NewSessionToolUseSavedEvent_def new_event_def)
  note proj = project_tool_use [OF assms(1) p(1,2) assms(4) e(1) refl]
  show ?thesis
    using x e proj p(3) unfolding save_tool_use_def appendToolUseAggregateLocked_def
    by (simp add: lookup_def project_next_def attempt_def appendPermissionAggregateCommitLocked_def put_tool_use_def Let_def)
qed

lemma save_keeps_filed:
  assumes "lib_ok L" "run_filed L rec s" "tlu_SessionID u = rec_SessionID rec" "use_ok u"
  shows "\<exists>t. save_tool_use L eid u s = (Inr (), t) \<and> st_toolUses t = AList.update (tlu_ID u) u (st_toolUses s)
    \<and> st_runs t = st_runs s \<and> map_of (st_sessions t) (rec_SessionID rec) \<noteq> None"
proof -
  obtain t where "save_tool_use L eid u s = (Inr (), t)" "st_runs t = st_runs s" "map_of (st_sessions t) (rec_SessionID rec) \<noteq> None"
    using save_tool_use_succeeds [OF assms(1) _ _ assms(4), of s eid] assms(2,3) unfolding run_filed_def by auto
  then show ?thesis using save_tool_use_ok by blast
qed

lemma first_save:
  assumes "lib_ok L" "run_filed L rec s" "tlu_SessionID u = rec_SessionID rec" "tlu_RunID u = rec_RunID rec" "tlu_ID u \<noteq> ''''"
    "tlu_Status u = ToolUseStatusProposed" "w_now w \<noteq> 0" "map_of (st_toolUses s) (tlu_ID u) = None"
    "\<And>v. use_of_run rec s v \<Longrightarrow> key_of_use v \<noteq> key_of_use u"
  shows "\<exists>t. SaveToolUse L w u s = (Inr (), t) \<and> run_filed L rec t
    \<and> map_of (st_toolUses t) (tlu_ID u) = Some (default_tool_use w u) \<and> use_ok (default_tool_use w u)"
proof -
  have inv: "store_inv L s" using assms(2) by (simp add: run_filed_def)
  then have tab: "wf_map (st_toolUses s)" "keyed tlu_ID (st_toolUses s)" by (auto simp: store_inv_def tables_ok_def)
  have ok: "use_ok (default_tool_use w u)"
    using assms(5-7) by (simp add: use_ok_def default_tool_use_def Let_def tool_status_defs)
  have u: "tlu_ID (default_tool_use w u) = tlu_ID u" "tlu_SessionID (default_tool_use w u) = rec_SessionID rec"
    using assms(3) by simp_all
  obtain t where t: "save_tool_use L (NewID w PrefixEvent 1) (default_tool_use w u) s = (Inr (), t)"
    "st_toolUses t = AList.update (tlu_ID u) (default_tool_use w u) (st_toolUses s)" "st_runs t = st_runs s"
    "map_of (st_sessions t) (rec_SessionID rec) \<noteq> None"
    using save_keeps_filed [OF assms(1,2) u(2) ok, of "NewID w PrefixEvent 1"] u(1) by auto
  have fresh: "\<forall>x \<in> set (vals (st_toolUses s)).
      \<not> (tlu_RunID x = tlu_RunID u \<and> tlu_Step x = tlu_Step u \<and> tlu_Ordinal x = tlu_Ordinal u)"
    using assms(4,9) tab(2) by (fastforce simp: vals_mem [OF tab(1)] use_of_run_def key_of_use_def keyed_def)
  have "SaveToolUse L w u s = (Inr (), t)"
    using assms(2-6,8) t(1) fresh
    by (auto simp: SaveToolUse_def run_filed_def attempt_def lookup_def check_def)
  moreover from this have "store_inv L t" using SaveToolUse_inv [OF inv assms(1), of w u] by simp
  ultimately show ?thesis using assms(2) t ok by (auto simp: run_filed_def)
qed

lemma next_save:
  assumes "lib_ok L" "run_filed L rec s" "tlu_SessionID u = rec_SessionID rec" "map_of (st_toolUses s) (tlu_ID u) = Some old"
    "use_ok old" "sameToolUseIdentity old u" "legalToolUseTransition (tlu_Status old) (tlu_Status u)" "tlu_ID u \<noteq> ''''"
    "tlu_Status u = ToolUseStatusAuthorized \<or> tlu_InputJSON old = tlu_InputJSON u" "w_now w \<noteq> 0"
  shows "\<exists>t new. SaveToolUse L w u s = (Inr (), t) \<and> run_filed L rec t \<and> map_of (st_toolUses t) (tlu_ID u) = Some new
    \<and> use_ok new \<and> sameToolUseIdentity old new \<and> tlu_Status new = tlu_Status u \<and> tlu_InputJSON new = tlu_InputJSON u
    \<and> tlu_Output new = tlu_Output u"
proof -
  let ?n = "stamp_tool_use w old (keep_tool_use_times old u)"
  have inv: "store_inv L s" using assms(2) by (simp add: run_filed_def)
  have status: "tlu_Status u \<noteq> ''''" "tlu_Status u \<noteq> tlu_Status old"
    using assms(7) by (auto simp: legalToolUseTransition_def tool_status_defs split: if_splits)
  have kept: "tlu_InputJSON ?n = tlu_InputJSON u" "tlu_InputJSON (keep_tool_use_times old u) = tlu_InputJSON u" "tlu_Output ?n = tlu_Output u"
    by (simp_all add: stamp_tool_use_def keep_tool_use_times_def Let_def)
  have "tlu_ProposedAt ?n \<noteq> 0 \<and> tlu_CreatedAt ?n \<noteq> 0 \<and> tlu_UpdatedAt ?n \<noteq> 0"
    using assms(5,10) by (simp add: stamp_tool_use_def keep_tool_use_times_def use_ok_def Let_def)
  then have ok: "use_ok ?n" using assms(8) status(1) by (simp add: use_ok_def)
  have u: "tlu_SessionID ?n = rec_SessionID rec" "tlu_ID ?n = tlu_ID u"
    using assms(3) by (simp_all add: stamp_tool_use_def keep_tool_use_times_def Let_def)
  obtain t where t: "save_tool_use L (NewID w PrefixEvent 1) ?n s = (Inr (), t)"
    "st_toolUses t = AList.update (tlu_ID u) ?n (st_toolUses s)" "st_runs t = st_runs s"
    "map_of (st_sessions t) (rec_SessionID rec) \<noteq> None"
    using save_keeps_filed [OF assms(1,2) u(1) ok, of "NewID w PrefixEvent 1"] u(2) by auto
  have "SaveToolUse L w u s = (Inr (), t)"
    using assms(4,6-9) status(2) t(1) kept(2) by (auto simp: SaveToolUse_def attempt_def check_def Let_def)
  moreover from this have "store_inv L t" using SaveToolUse_inv [OF inv assms(1), of w u] by simp
  ultimately show ?thesis using assms(2,6) t ok kept(1,3) by (auto simp: run_filed_def)
qed

lemma identity_default [simp]: "sameToolUseIdentity (default_tool_use w u) v = sameToolUseIdentity u v"
  by (simp add: sameToolUseIdentity_def default_tool_use_def Let_def)

lemma lifecycle_saved:
  assumes "lib_ok L" "run_filed L rec s" "toolUseRecord rec j = toolUseRecord rec i" "toolUseRecord rec k = toolUseRecord rec i"
    "toolUseRecord rec f = toolUseRecord rec i" "use_Args k = use_Args j" "use_Args f = use_Args j"
    "use_ToolUseID j = NewID w1 PrefixToolUse 0" "use_ToolUseID k = NewID w1 PrefixToolUse 0" "use_ToolUseID f = NewID w1 PrefixToolUse 0"
    "legalToolUseTransition ToolUseStatusStarted (fin_Status f)"
    "w_now w1 \<noteq> 0" "w_now w2 \<noteq> 0" "w_now w3 \<noteq> 0" "w_now w4 \<noteq> 0"
    "map_of (st_toolUses s) (NewID w1 PrefixToolUse 0) = None" "\<And>v. use_of_run rec s v \<Longrightarrow> key_of_use v \<noteq> (use_Step i, use_Ordinal i)"
  shows "\<exists>s1 s2 s3 s4 u. ToolUseRecorder_Propose L w1 rec i s = (Inr (NewID w1 PrefixToolUse 0), s1)
    \<and> ToolUseRecorder_Authorize L w2 rec j s1 = (Inr (), s2) \<and> ToolUseRecorder_Start L w3 rec k s2 = (Inr (), s3)
    \<and> ToolUseRecorder_Finish L w4 rec f s3 = (Inr (), s4) \<and> map_of (st_toolUses s4) (NewID w1 PrefixToolUse 0) = Some u
    \<and> tlu_Status u = fin_Status f \<and> tlu_InputJSON u = input_text L (use_Args j) \<and> tlu_Output u = trs_Output (fin_ToolResult f)
    \<and> tlu_RunID u = rec_RunID rec"
proof -
  let ?id = "NewID w1 PrefixToolUse 0" and ?r = "toolUseRecord rec i"
  have r: "tlu_SessionID ?r = rec_SessionID rec" "tlu_RunID ?r = rec_RunID rec" "key_of_use ?r = (use_Step i, use_Ordinal i)"
    by (simp_all add: toolUseRecord_def key_of_use_def)
  let ?p = "?r\<lparr>tlu_ID := ?id, tlu_Status := ToolUseStatusProposed, tlu_InputJSON := input_text L (use_Args i), tlu_ProposedAt := use_At i\<rparr>"
  obtain s1 where s1: "SaveToolUse L w1 ?p s = (Inr (), s1)" "run_filed L rec s1"
    "map_of (st_toolUses s1) ?id = Some (default_tool_use w1 ?p)" "use_ok (default_tool_use w1 ?p)"
    using first_save [OF assms(1,2), of ?p w1] r assms(12,16,17) by (auto simp: key_of_use_def)
  let ?a = "?r\<lparr>tlu_ID := ?id, tlu_Status := ToolUseStatusAuthorized, tlu_InputJSON := input_text L (use_Args j), tlu_AuthorizedAt := use_At j\<rparr>"
  have "\<exists>s2 u2. SaveToolUse L w2 ?a s1 = (Inr (), s2) \<and> run_filed L rec s2 \<and> map_of (st_toolUses s2) (tlu_ID ?a) = Some u2
    \<and> use_ok u2 \<and> sameToolUseIdentity (default_tool_use w1 ?p) u2 \<and> tlu_Status u2 = tlu_Status ?a \<and> tlu_InputJSON u2 = tlu_InputJSON ?a
    \<and> tlu_Output u2 = tlu_Output ?a"
    by (rule next_save [OF assms(1) s1(2) _ _ s1(4)])
      (use r s1(3) assms(13) in \<open>simp_all add: legalToolUseTransition_def, simp add: sameToolUseIdentity_def\<close>)
  then obtain s2 u2 where s2: "SaveToolUse L w2 ?a s1 = (Inr (), s2)" "run_filed L rec s2" "map_of (st_toolUses s2) ?id = Some u2"
    "use_ok u2" "sameToolUseIdentity ?r u2" "tlu_Status u2 = ToolUseStatusAuthorized" "tlu_InputJSON u2 = input_text L (use_Args j)"
    unfolding identity_default by (auto simp: sameToolUseIdentity_def)
  let ?s = "?r\<lparr>tlu_ID := ?id, tlu_Status := ToolUseStatusStarted, tlu_InputJSON := input_text L (use_Args k), tlu_StartedAt := use_At k\<rparr>"
  have "\<exists>s3 u3. SaveToolUse L w3 ?s s2 = (Inr (), s3) \<and> run_filed L rec s3 \<and> map_of (st_toolUses s3) (tlu_ID ?s) = Some u3
    \<and> use_ok u3 \<and> sameToolUseIdentity u2 u3 \<and> tlu_Status u3 = tlu_Status ?s \<and> tlu_InputJSON u3 = tlu_InputJSON ?s
    \<and> tlu_Output u3 = tlu_Output ?s"
    by (rule next_save [OF assms(1) s2(2) _ _ s2(4)])
      (use r s2 assms(6,14) in \<open>simp_all add: legalToolUseTransition_def sameToolUseIdentity_def tool_status_defs\<close>)
  then obtain s3 u3 where s3: "SaveToolUse L w3 ?s s2 = (Inr (), s3)" "run_filed L rec s3" "map_of (st_toolUses s3) ?id = Some u3"
    "use_ok u3" "sameToolUseIdentity ?r u3" "tlu_Status u3 = ToolUseStatusStarted" "tlu_InputJSON u3 = input_text L (use_Args j)"
    using s2(5) assms(6) by (auto simp: sameToolUseIdentity_def)
  let ?f = "finished_use L rec f"
  have f: "tlu_SessionID ?f = rec_SessionID rec" "tlu_ID ?f = ?id" "sameToolUseIdentity u3 ?f" "tlu_Status ?f = fin_Status f"
    "tlu_InputJSON ?f = input_text L (use_Args j)" "tlu_Output ?f = trs_Output (fin_ToolResult f)"
    using s3(5) r(1) unfolding finished_use_def assms(5) Let_def
    by (simp_all add: sameToolUseIdentity_def storeToolUseStatus_id assms(7,10))
  have "\<exists>s4 u4. SaveToolUse L w4 ?f s3 = (Inr (), s4) \<and> run_filed L rec s4 \<and> map_of (st_toolUses s4) (tlu_ID ?f) = Some u4
    \<and> use_ok u4 \<and> sameToolUseIdentity u3 u4 \<and> tlu_Status u4 = tlu_Status ?f \<and> tlu_InputJSON u4 = tlu_InputJSON ?f
    \<and> tlu_Output u4 = tlu_Output ?f"
    by (rule next_save [OF assms(1) s3(2) f(1) _ s3(4) f(3)]) (use s3 f assms(11,15) in simp_all)
  moreover have "tlu_RunID u3 = rec_RunID rec" using s3(5) r(2) by (simp add: sameToolUseIdentity_def)
  ultimately show ?thesis using s1(1) s2(1) s3(1) f assms(3,4,8,9)
    unfolding ToolUseRecorder_Propose_def ToolUseRecorder_Authorize_def ToolUseRecorder_Start_def ToolUseRecorder_Finish_def Let_def
    by (auto dest!: identity_parts)
qed

text \<open>C22: in a store that has the session and the run, and no use of the run at that step and ordinal, the
  callbacks of an executed call succeed one after the other: the use is proposed under a new identifier,
  authorized, started and finished, and its row ends with the status, the input that was authorized and the
  output that was reported.\<close>

theorem recorded_lifecycle:
  assumes "lib_ok L" "run_filed L rec s" "toolUseRecord rec j = toolUseRecord rec i" "toolUseRecord rec k = toolUseRecord rec i"
    "toolUseRecord rec f = toolUseRecord rec i" "use_Args k = use_Args j" "use_Args f = use_Args j"
    "use_ToolUseID j = NewID w1 PrefixToolUse 0" "use_ToolUseID k = NewID w1 PrefixToolUse 0" "use_ToolUseID f = NewID w1 PrefixToolUse 0"
    "legalToolUseTransition ToolUseStatusStarted (fin_Status f)"
    "w_now w1 \<noteq> 0" "w_now w2 \<noteq> 0" "w_now w3 \<noteq> 0" "w_now w4 \<noteq> 0"
    "map_of (st_toolUses s) (NewID w1 PrefixToolUse 0) = None" "\<And>v. use_of_run rec s v \<Longrightarrow> key_of_use v \<noteq> (use_Step i, use_Ordinal i)"
  shows "\<exists>s1 s2 s3 s4 u. ToolUseRecorder_Propose L w1 rec i s = (Inr (NewID w1 PrefixToolUse 0), s1)
    \<and> ToolUseRecorder_Authorize L w2 rec j s1 = (Inr (), s2) \<and> ToolUseRecorder_Start L w3 rec k s2 = (Inr (), s3)
    \<and> ToolUseRecorder_Finish L w4 rec f s3 = (Inr (), s4) \<and> map_of (st_toolUses s4) (NewID w1 PrefixToolUse 0) = Some u
    \<and> tlu_Status u = fin_Status f \<and> tlu_InputJSON u = input_text L (use_Args j) \<and> tlu_Output u = trs_Output (fin_ToolResult f)"
  using lifecycle_saved [OF assms] by blast

section \<open>Whole runs\<close>

definition linked :: "recorder \<Rightarrow> dialogue \<Rightarrow> (int \<times> int \<Rightarrow> use_watch) \<Rightarrow> store \<Rightarrow> bool" where
  "linked rec d m s \<longleftrightarrow> ids_agree s \<and> (\<forall>k. agrees rec s k (uwt_Status (m k)))"

lemma use_callback_key: "is_use_callback q \<Longrightarrow> \<exists>k. use_key_of q = Some k"
  by (cases q) auto

lemma other_keeps_status:
  assumes "watch_uses R cfg m q r = Some m'" "\<not> is_use_callback q"
  shows "uwt_Status (m' k) = uwt_Status (m k)"
  using assms by (cases q) (auto simp: uses.accept_all_def split: option.splits if_splits)

lemma agrees_same: "use_of_run rec t = use_of_run rec s \<Longrightarrow> agrees rec t k st = agrees rec s k st"
  by (simp add: agrees_def)

lemma records_linked:
  assumes "records L tx rec s d t" "watch (watch_uses R cfg) d (\<lambda>_. unproposed) = Some m" "rec_RunID rec \<noteq> ''''"
    "ids_agree s" "\<forall>u. \<not> use_of_run rec s u"
  shows "linked rec d m t"
  using assms
proof (induction arbitrary: m)
  case start
  then have "m = (\<lambda>_. unproposed)" by simp
  then show ?case using start.prems by (simp add: linked_def agrees_def unproposed_def)
next
  case (use d t q w r t')
  obtain m0 where m0: "watch (watch_uses R cfg) d (\<lambda>_. unproposed) = Some m0" "watch_uses R cfg m0 q r = Some m"
    using use.prems(1) by (auto simp: watch_append split: option.splits)
  have before: "linked rec d m0 t" by (rule use.IH [OF m0(1)]) (use use.prems in auto)
  obtain k where k: "use_key_of q = Some k" using use_callback_key use.hyps(2) by blast
  have a: "use_accept R cfg (m0 k) q r = Some (m k)" "\<And>j. j \<noteq> k \<Longrightarrow> m j = m0 j"
    using m0(2) k by (auto simp: uses.accept_all_def split: option.splits)
  have "moves rec k (uwt_Status (m0 k)) (uwt_Status (m k)) t t'"
    using record_use_moves [OF use.hyps(3,2) a(1) k use.prems(2)] before by (simp add: linked_def)
  then show ?case using before a(2) unfolding linked_def moves_def by metis
next
  case (other d t q t' r)
  obtain m0 where m0: "watch (watch_uses R cfg) d (\<lambda>_. unproposed) = Some m0" "watch_uses R cfg m0 q r = Some m"
    using other.prems(1) by (auto simp: watch_append split: option.splits)
  have "linked rec d m0 t" by (rule other.IH [OF m0(1)]) (use other.prems in auto)
  then have "agrees rec t' k (uwt_Status (m0 k))" for k
    unfolding linked_def agrees_same [OF other.hyps(4)] by blast
  then show ?case using other.hyps(3) other_keeps_status [OF m0(2) other.hyps(2)] unfolding linked_def by simp
qed

definition in_step :: "config \<Rightarrow> use_watch \<Rightarrow> bool" where
  \<comment> \<open>what the status of a use tells of its execution\<close>
  "in_step cfg s \<longleftrightarrow> (uwt_Executed s \<longrightarrow> uwt_Status s \<noteq> '''' \<and> uwt_Status s \<noteq> ToolUseStatusProposed \<and> uwt_Status s \<noteq> ToolUseStatusAuthorized)
     \<and> (uwt_Status s = ToolUseStatusCompleted \<longrightarrow> uwt_Executed s)"

lemma in_step_accept:
  assumes "in_step cfg s" "use_accept R cfg s q r = Some s'" "cfg_ToolUseLifecycle cfg"
  shows "in_step cfg s'"
  using assms
  by (cases q) (auto simp: in_step_def moved_to_def recorded_def tool_status_defs legalToolUseTransition_def
      split: if_splits option.splits sum.splits)

lemma watch_in_step:
  assumes "watch (watch_uses R cfg) d (\<lambda>_. unproposed) = Some m" "cfg_ToolUseLifecycle cfg"
  shows "in_step cfg (m k)"
  using assms
proof (induction d arbitrary: m rule: rev_induct)
  case Nil
  then show ?case by (auto simp: in_step_def unproposed_def tool_status_defs)
next
  case (snoc x d)
  obtain q r where x: "x = (q, r)" by fastforce
  obtain m0 where m0: "watch (watch_uses R cfg) d (\<lambda>_. unproposed) = Some m0" "watch_uses R cfg m0 q r = Some m"
    using snoc.prems by (auto simp: watch_append x split: option.splits)
  have "in_step cfg (m0 k)" by (rule snoc.IH [OF m0(1) snoc.prems(2)])
  then show ?case using m0(2) in_step_accept [OF _ _ snoc.prems(2)] by (fastforce simp: uses.accept_all_def split: option.splits if_splits)
qed

lemma uses_tell:
  assumes "linked rec d m s" "remembers d k (m k)" "in_step cfg (m k)"
  shows "use_of_run rec s u \<Longrightarrow> key_of_use u = k \<Longrightarrow> tlu_Status u = uwt_Status (m k) \<and> uwt_Status (m k) \<noteq> ''''"
    "executed_before d k \<Longrightarrow> \<exists>u. use_of_run rec s u \<and> key_of_use u = k"
proof -
  have k: "agrees rec s k (uwt_Status (m k))" using assms(1) unfolding linked_def by blast
  show "use_of_run rec s u \<Longrightarrow> key_of_use u = k \<Longrightarrow> tlu_Status u = uwt_Status (m k) \<and> uwt_Status (m k) \<noteq> ''''"
    using k unfolding agrees_def by metis
  assume "executed_before d k"
  then have "uwt_Status (m k) \<noteq> ''''" using assms(2,3) by (simp add: remembers_def in_step_def)
  then show "\<exists>u. use_of_run rec s u \<and> key_of_use u = k" using k unfolding agrees_def by blast
qed

text \<open>C3: the record survives a crash: while a run's uses are recorded, at every moment the store tells what has
  been executed: a use of the run that is completed has been executed, one that is only proposed or authorized has
  not, and each execution has its use in the store.\<close>

theorem recorded_executions:
  assumes "cfg_ToolUseLifecycle cfg" "talks (Run fuel R cfg) d" "records L tx rec s d t"
    "rec_RunID rec \<noteq> ''''" "ids_agree s" "\<forall>u. \<not> use_of_run rec s u"
  shows "(\<forall>u. use_of_run rec t u \<longrightarrow>
      (tlu_Status u = ToolUseStatusCompleted \<longrightarrow> executed_before d (key_of_use u)) \<and>
      (tlu_Status u = ToolUseStatusProposed \<or> tlu_Status u = ToolUseStatusAuthorized \<longrightarrow> \<not> executed_before d (key_of_use u)))
    \<and> (\<forall>k. executed_before d k \<longrightarrow> (\<exists>u. use_of_run rec t u \<and> key_of_use u = k \<and>
        tlu_Status u \<noteq> ToolUseStatusProposed \<and> tlu_Status u \<noteq> ToolUseStatusAuthorized))"
proof -
  obtain m where m: "watch (watch_uses R cfg) d (\<lambda>_. unproposed) = Some m" using Run_watch [OF assms(2)] by blast
  note tell = uses_tell [OF records_linked [OF assms(3) m assms(4-6)] watch_remembers [OF m] watch_in_step [OF m assms(1)]]
  have step: "in_step cfg (m k)" "remembers d k (m k)" for k
    by (rule watch_in_step [OF m assms(1)], rule watch_remembers [OF m])
  show ?thesis
    by (intro conjI allI impI)
      (use tell(1) [OF _ refl] tell(2) step in \<open>metis in_step_def remembers_def\<close>)+
qed

text \<open>The sample run, with its tool uses recorded in the sample store.\<close>

definition sample_recorder :: recorder where
  "sample_recorder = \<lparr>rec_SessionID = ''ses_1'', rec_RunID = ''run_1''\<rparr>"

definition recorded_answer :: "nat \<Rightarrow> question \<Rightarrow> store \<Rightarrow> answer \<times> store" where
  "recorded_answer n q s = record_use sample_lib (\<lambda>_. '''') sample_recorder (sample_world n) q s"

fun recorded_by :: "nat \<Rightarrow> dialogue \<Rightarrow> store \<Rightarrow> store option" where
  \<comment> \<open>the store after the callbacks of a dialogue, if their answers are the recorder's\<close>
  "recorded_by n [] s = Some s"
| "recorded_by n ((q, r) # d) s =
     (if is_use_callback q then case recorded_answer n q s of (r', t) \<Rightarrow> if r = r' then recorded_by (Suc n) d t else None
      else recorded_by n d s)"

fun recorded_env :: "dialogue \<Rightarrow> question \<Rightarrow> answer" where
  "recorded_env d (ToolUse_Propose i) = Is_Text (Inr (NewID (sample_world 7) PrefixToolUse 0))"
| "recorded_env d q = sample_env d q"

definition recorded_talk :: dialogue where
  "recorded_talk = fst (play recorded_env [] (Run 3 sample_run_lib sample_config))"

definition use_statuses :: "store \<Rightarrow> (string \<times> (string \<times> string \<times> int \<times> int)) list" where
  "use_statuses s = map (\<lambda>(i, u). (i, tlu_RunID u, tlu_Status u, tlu_Step u, tlu_Ordinal u)) (st_toolUses s)"

lemma sample_has_no_uses: "st_toolUses sample_store = []"
  by code_simp

lemma recorded_talks: "talks (Run 3 sample_run_lib sample_config) recorded_talk"
  using play_runs [of recorded_env "[]" "Run 3 sample_run_lib sample_config" "fst (play recorded_env [] (Run 3 sample_run_lib sample_config))"
      "snd (play recorded_env [] (Run 3 sample_run_lib sample_config))"]
  by (simp add: recorded_talk_def)

lemma record_use_ids:
  assumes "record_use L tx rec w q s = (r, t)" "ids_agree s" shows "ids_agree t"
proof -
  have save: "SaveToolUse L w u s = (x, t') \<Longrightarrow> ids_agree t'" for u x t'
    using SaveToolUse_error [of L w u s _ t'] SaveToolUse_ok [of L w u s t'] saved_ids_agree assms(2)
    by (cases x) (auto simp: repeated_def)
  show ?thesis using assms
    by (cases q) (auto simp: ToolUseRecorder_Propose_def ToolUseRecorder_Authorize_def ToolUseRecorder_Start_def
        ToolUseRecorder_Finish_def apfst_def map_prod_def Let_def dest: save split: prod.splits sum.splits)
qed

lemma recorded_by_records:
  assumes "recorded_by n d s = Some t" "records sample_lib (\<lambda>_. '''') sample_recorder s0 e s" "ids_agree s"
  shows "records sample_lib (\<lambda>_. '''') sample_recorder s0 (e @ d) t \<and> ids_agree t"
  using assms
proof (induction n d s arbitrary: e rule: recorded_by.induct)
  case (2 n q r d s)
  show ?case
  proof (cases "is_use_callback q")
    case True
    then obtain s1 where s1: "recorded_answer n q s = (r, s1)" "recorded_by (Suc n) d s1 = Some t"
      using "2.prems"(1) by (auto split: prod.splits if_splits)
    have "records sample_lib (\<lambda>_. '''') sample_recorder s0 (e @ [(q, r)]) s1"
      by (rule records.use [OF "2.prems"(2) True]) (use s1 in \<open>simp add: recorded_answer_def\<close>)
    moreover have "ids_agree s1" using record_use_ids s1(1) "2.prems"(3) unfolding recorded_answer_def by metis
    ultimately have "records sample_lib (\<lambda>_. '''') sample_recorder s0 ((e @ [(q, r)]) @ d) t \<and> ids_agree t"
      using "2.IH"(1) [OF True s1(1) [symmetric] refl s1(2)] by blast
    then show ?thesis by simp
  next
    case False
    then have "records sample_lib (\<lambda>_. '''') sample_recorder s0 (e @ [(q, r)]) s"
      using records.other [OF "2.prems"(2)] "2.prems"(3) by blast
    then have "records sample_lib (\<lambda>_. '''') sample_recorder s0 ((e @ [(q, r)]) @ d) t \<and> ids_agree t"
      using False "2.prems"(1) by (intro "2.IH"(2) [OF False _ _ "2.prems"(3)]) simp_all
    then show ?thesis by simp
  qed
qed simp

lemma recorded_by_filter: "recorded_by n (filter (is_use_callback \<circ> fst) d) s = recorded_by n d s"
  by (induction n d s rule: recorded_by.induct) (auto split: prod.splits)

text \<open>What the talk says about its one tool use.\<close>

definition sample_id :: string where
  "sample_id = NewID (sample_world 7) PrefixToolUse 0"

definition sample_row_of_use :: tool_use where
  "sample_row_of_use =
     \<lparr>tlu_ID = '''', tlu_SessionID = ''ses_1'', tlu_RunID = ''run_1'', tlu_ModelCallID = ''cal_1'', tlu_AssistantMessageID = '''',
      tlu_PartID = '''', tlu_Step = 1, tlu_Ordinal = 1, tlu_CallID = ''c1'', tlu_Name = ''bash'', tlu_Status = '''',
      tlu_InputJSON = [], tlu_Output = '''', tlu_StructuredJSON = [], tlu_MetadataJSON = [], tlu_ErrorType = '''',
      tlu_ErrorMessage = '''', tlu_ProposedAt = 0, tlu_AuthorizedAt = 0, tlu_StartedAt = 0, tlu_CompletedAt = 0,
      tlu_CreatedAt = 0, tlu_UpdatedAt = 0\<rparr>"

fun callback_of :: "question \<times> answer \<Rightarrow> (nat \<times> tool_use \<times> members \<times> string \<times> string \<times> answer) option" where
  \<comment> \<open>which callback it is, on which use, with its arguments, identifier, status and answer\<close>
  "callback_of (ToolUse_Propose i, r) = Some (1, toolUseRecord sample_recorder i, use_Args i, '''', '''', r)"
| "callback_of (ToolUse_Authorize i, r) = Some (2, toolUseRecord sample_recorder i, use_Args i, use_ToolUseID i, '''', r)"
| "callback_of (ToolUse_Start i, r) = Some (3, toolUseRecord sample_recorder i, use_Args i, use_ToolUseID i, '''', r)"
| "callback_of (ToolUse_Finish i, r) = Some (4, toolUseRecord sample_recorder i, use_Args i, use_ToolUseID i, fin_Status i, r)"
| "callback_of _ = None"

lemma callback_of_cases:
  assumes "callback_of x = Some (n, u, a, i, st, r)"
  shows "n = 1 \<Longrightarrow> \<exists>j. x = (ToolUse_Propose j, r) \<and> toolUseRecord sample_recorder j = u \<and> use_Args j = a"
    "n = 2 \<Longrightarrow> \<exists>j. x = (ToolUse_Authorize j, r) \<and> toolUseRecord sample_recorder j = u \<and> use_Args j = a \<and> use_ToolUseID j = i"
    "n = 3 \<Longrightarrow> \<exists>j. x = (ToolUse_Start j, r) \<and> toolUseRecord sample_recorder j = u \<and> use_Args j = a \<and> use_ToolUseID j = i"
    "n = 4 \<Longrightarrow> \<exists>j. x = (ToolUse_Finish j, r) \<and> toolUseRecord sample_recorder j = u \<and> use_Args j = a \<and> use_ToolUseID j = i
       \<and> fin_Status j = st"
  using assms by (cases x rule: callback_of.cases; simp)+

lemma sample_callbacks: "let a = [(''command'', JStr ''ls'')]; u = sample_row_of_use in
  map callback_of (filter (is_use_callback \<circ> fst) recorded_talk) =
    [Some (1, u, a, '''', '''', Is_Text (Inr sample_id)), Some (2, u, a, sample_id, '''', Is_Error None),
     Some (3, u, a, sample_id, '''', Is_Error None), Some (4, u, a, sample_id, ToolUseStatusCompleted, Is_Error None)]"
  by code_simp

lemma sample_infos: "\<exists>i j k f. filter (is_use_callback \<circ> fst) recorded_talk =
    [(ToolUse_Propose i, Is_Text (Inr sample_id)), (ToolUse_Authorize j, Is_Error None), (ToolUse_Start k, Is_Error None),
     (ToolUse_Finish f, Is_Error None)]
   \<and> toolUseRecord sample_recorder i = sample_row_of_use \<and> toolUseRecord sample_recorder j = sample_row_of_use
   \<and> toolUseRecord sample_recorder k = sample_row_of_use \<and> toolUseRecord sample_recorder f = sample_row_of_use
   \<and> use_Args k = use_Args j \<and> use_Args f = use_Args j
   \<and> use_ToolUseID j = sample_id \<and> use_ToolUseID k = sample_id \<and> use_ToolUseID f = sample_id \<and> fin_Status f = ToolUseStatusCompleted"
proof -
  obtain w x y z where c: "filter (is_use_callback \<circ> fst) recorded_talk = [w, x, y, z]"
    using sample_callbacks unfolding Let_def by (auto simp: map_eq_Cons_conv)
  have e: "callback_of w = Some (1, sample_row_of_use, [(''command'', JStr ''ls'')], '''', '''', Is_Text (Inr sample_id))"
    "callback_of x = Some (2, sample_row_of_use, [(''command'', JStr ''ls'')], sample_id, '''', Is_Error None)"
    "callback_of y = Some (3, sample_row_of_use, [(''command'', JStr ''ls'')], sample_id, '''', Is_Error None)"
    "callback_of z = Some (4, sample_row_of_use, [(''command'', JStr ''ls'')], sample_id, ToolUseStatusCompleted, Is_Error None)"
    using sample_callbacks unfolding Let_def c by simp_all
  show ?thesis unfolding c
    using callback_of_cases(1) [OF e(1) refl] callback_of_cases(2) [OF e(2) refl] callback_of_cases(3) [OF e(3) refl]
      callback_of_cases(4) [OF e(4) refl] by force
qed

lemma sample_filed: "run_filed sample_lib sample_recorder sample_store"
proof -
  have "store_inv sample_lib sample_store" using contents.holds [OF sample_reachable] sample_lib_ok by blast
  then show ?thesis
    by (simp add: run_filed_def sample_recorder_def sample_store_state sample_state_def)
qed

lemma sample_worlds: "w_now (sample_world n) \<noteq> 0"
  by (simp add: sample_world_def)

lemma sample_fresh: "map_of (st_toolUses sample_store) i = None" "\<not> use_of_run sample_recorder sample_store v"
  by (simp_all add: use_of_run_def sample_has_no_uses)

lemma recorded_lifecycle_witness:
  "\<exists>i f s3 s4 u. ToolUseRecorder_Propose sample_lib (sample_world 7) sample_recorder i sample_store = (Inr sample_id, s3)
    \<and> ToolUseRecorder_Finish sample_lib (sample_world 10) sample_recorder f s4 = (Inr (), u)
    \<and> map_option tlu_Status (map_of (st_toolUses u) sample_id) = Some ToolUseStatusCompleted"
proof -
  obtain i j k :: use_info and f :: finish_info where c: "toolUseRecord sample_recorder i = sample_row_of_use" "toolUseRecord sample_recorder j = sample_row_of_use"
   "toolUseRecord sample_recorder k = sample_row_of_use" "toolUseRecord sample_recorder f = sample_row_of_use"
   "use_Args k = use_Args j" "use_Args f = use_Args j"
   "use_ToolUseID j = sample_id" "use_ToolUseID k = sample_id" "use_ToolUseID f = sample_id" "fin_Status f = ToolUseStatusCompleted"
    using sample_infos by blast
  have legal: "legalToolUseTransition ToolUseStatusStarted (fin_Status f)"
    by (simp add: c(10) legalToolUseTransition_def tool_status_defs)
  have same: "toolUseRecord sample_recorder j = toolUseRecord sample_recorder i" "toolUseRecord sample_recorder k = toolUseRecord sample_recorder i"
    "toolUseRecord sample_recorder f = toolUseRecord sample_recorder i" by (simp_all add: c)
  show ?thesis
    using recorded_lifecycle [OF sample_lib_ok sample_filed same c(5,6) c(7-9) [unfolded sample_id_def] legal
        sample_worlds [of 7] sample_worlds [of 8] sample_worlds [of 9] sample_worlds [of 10] sample_fresh(1)]
      sample_fresh(2) c(10) unfolding sample_id_def by fastforce
qed

lemma recorded_to_the_end: "\<exists>t u. recorded_by 7 recorded_talk sample_store = Some t
    \<and> map_of (st_toolUses t) sample_id = Some u \<and> tlu_Status u = ToolUseStatusCompleted \<and> tlu_RunID u = ''run_1''"
proof -
  obtain i j k :: use_info and f :: finish_info where talk: "filter (is_use_callback \<circ> fst) recorded_talk =
    [(ToolUse_Propose i, Is_Text (Inr sample_id)), (ToolUse_Authorize j, Is_Error None), (ToolUse_Start k, Is_Error None),
     (ToolUse_Finish f, Is_Error None)]"
   and c: "toolUseRecord sample_recorder i = sample_row_of_use" "toolUseRecord sample_recorder j = sample_row_of_use"
   "toolUseRecord sample_recorder k = sample_row_of_use" "toolUseRecord sample_recorder f = sample_row_of_use"
   "use_Args k = use_Args j" "use_Args f = use_Args j"
   "use_ToolUseID j = sample_id" "use_ToolUseID k = sample_id" "use_ToolUseID f = sample_id" "fin_Status f = ToolUseStatusCompleted"
    using sample_infos by blast
  have legal: "legalToolUseTransition ToolUseStatusStarted (fin_Status f)"
    by (simp add: c(10) legalToolUseTransition_def tool_status_defs)
  have same: "toolUseRecord sample_recorder j = toolUseRecord sample_recorder i" "toolUseRecord sample_recorder k = toolUseRecord sample_recorder i"
    "toolUseRecord sample_recorder f = toolUseRecord sample_recorder i" by (simp_all add: c)
  note saved = lifecycle_saved [OF sample_lib_ok sample_filed same c(5,6) c(7-9) [unfolded sample_id_def] legal
        sample_worlds [of 7] sample_worlds [of 8] sample_worlds [of 9] sample_worlds [of 10] sample_fresh(1),
        folded sample_id_def]
  obtain s1 s2 s3 s4 u where s: "ToolUseRecorder_Propose sample_lib (sample_world 7) sample_recorder i sample_store = (Inr sample_id, s1)"
    "ToolUseRecorder_Authorize sample_lib (sample_world 8) sample_recorder j s1 = (Inr (), s2)"
    "ToolUseRecorder_Start sample_lib (sample_world 9) sample_recorder k s2 = (Inr (), s3)"
    "ToolUseRecorder_Finish sample_lib (sample_world 10) sample_recorder f s3 = (Inr (), s4)"
    "map_of (st_toolUses s4) sample_id = Some u" "tlu_Status u = fin_Status f" "tlu_RunID u = ''run_1''"
    using saved sample_fresh(2) by (auto simp: sample_recorder_def)
  have "recorded_by 7 recorded_talk sample_store = Some s4"
    unfolding recorded_by_filter [symmetric, of _ recorded_talk] talk using s by (simp add: recorded_answer_def error_of_def)
  then show ?thesis using s(5-7) c(10) by simp
qed

lemma recorded_executions_witness:
  "\<exists>t u. records sample_lib (\<lambda>_. '''') sample_recorder sample_store recorded_talk t \<and> use_of_run sample_recorder t u
    \<and> tlu_Status u = ToolUseStatusCompleted \<and> executed_before recorded_talk (key_of_use u)"
proof -
  obtain t u where t: "recorded_by 7 recorded_talk sample_store = Some t" "map_of (st_toolUses t) sample_id = Some u"
    "tlu_Status u = ToolUseStatusCompleted" "tlu_RunID u = ''run_1''"
    using recorded_to_the_end by blast
  have ids: "ids_agree sample_store" by (simp add: ids_agree_def sample_has_no_uses)
  have none: "\<forall>u. \<not> use_of_run sample_recorder sample_store u" using sample_fresh(2) by blast
  have r: "records sample_lib (\<lambda>_. '''') sample_recorder sample_store ([] @ recorded_talk) t \<and> ids_agree t"
    by (rule recorded_by_records [OF t(1) records.start ids])
  then have "use_of_run sample_recorder t u" using t(2,4) by (auto simp: use_of_run_def sample_recorder_def ids_agree_def)
  moreover have "cfg_ToolUseLifecycle sample_config" "rec_RunID sample_recorder \<noteq> ''''"
    by (simp_all add: sample_config_def sample_recorder_def)
  ultimately show ?thesis
    using recorded_executions [OF _ recorded_talks _ _ ids none] r t(3) unfolding append_Nil by metis
qed

end
