(* ===== verification/Permission_Properties.thy ===== *)
theory Permission_Properties
  imports Permission
begin

text \<open>
  What the permission rules guarantee: the matcher against its pattern language, the choice of the
  deciding rule, and the normal form in which rules are stored.
\<close>

text \<open>The matcher always returns, and it never says that a pattern matches a value outside
  the language of the pattern: its answer is no, or the right one.\<close>

theorem wildcard_sound: "wildcardMatch p v \<in> {Some False, Some (glob p v)}"
  using wildcardMatch_returns [of p v] by auto




text \<open>C37: Rule sets are merged so that the last set decides: its last applicable rule gives the
  effect, and only when it has none do the sets before it count, down to the default effect.\<close>

theorem Evaluate_merge_last:
  "Evaluate a v (Merge []) d = \<lparr>dec_Effect = d, dec_Rule = None\<rparr> \<and>
   Evaluate a v (Merge (sets @ [rs])) d = (case List.find (applies a v) (rev rs) of
     Some r \<Rightarrow> \<lparr>dec_Effect = rule_Effect r, dec_Rule = Some r\<rparr>
   | None \<Rightarrow> Evaluate a v (Merge sets) d)"
proof -
  have split: "List.find q (xs @ ys) = (case List.find q xs of Some y \<Rightarrow> Some y | None \<Rightarrow> List.find q ys)"
    for q :: "rule \<Rightarrow> bool" and xs ys by (induction xs) auto
  show ?thesis by (simp add: Evaluate_def Merge_concat evaluate_loop_rev split split: option.splits)
qed

text \<open>C34: Whatever spelling of a rule set is read (a list of rules, one effect, or an object by
  action), the set that results is in normal form, and storing it and reading it again gives the
  same set.\<close>

theorem ruleset_round_trip:
  assumes "is_abs h" "dec_ruleset h j = Inr rs"
  shows "dec_ruleset h (enc_ruleset rs) = Inr rs \<and> list_all (normal_rule h) rs"
  using dec_ruleset_normal [OF assms] dec_ruleset_enc by simp

lemma ruleset_round_trip_witness:
  "let rs = [\<lparr>rule_Action = ''bash'', rule_Resource = ''/h/x'', rule_Effect = EffectAsk\<rparr>] in
   dec_ruleset ''/h'' (enc_ruleset rs) = Inr rs \<and> list_all (normal_rule ''/h'') rs"
proof -
  have "dec_ruleset ''/h'' (JObj [(''bash'', JObj [(''~/x'', JStr ''ask'')])]) =
      Inr [\<lparr>rule_Action = ''bash'', rule_Resource = ''/h/x'', rule_Effect = EffectAsk\<rparr>]"
    by code_simp
  from ruleset_round_trip [OF _ this] show ?thesis by (simp add: is_abs_def has_prefix_def Let_def)
qed

end
