(* ===== verification/Store_Errors.thy ===== *)
theory Store_Errors
  imports Store_Commands
begin

text \<open>
  What a refused command leaves behind: the store as it was.
\<close>

section \<open>Refusals\<close>

definition error_of :: "'a outcome \<Rightarrow> go_error option" where
  "error_of r = (case fst r of Inl e \<Rightarrow> Some e | Inr _ \<Rightarrow> None)"

fun refusal :: "lib \<Rightarrow> world \<Rightarrow> command \<Rightarrow> store \<Rightarrow> go_error option" where
  "refusal L w (Create_Agent a) s = error_of (CreateAgent L w a s)"
| "refusal L w (Update_Agent a) s = error_of (UpdateAgent L w a s)"
| "refusal L w (Delete_Agent i) s = error_of (DeleteAgent i s)"
| "refusal L w (Create_Client name) s = error_of (CreateClient L w name s)"
| "refusal L w (Create_Client_With_ID i name) s = error_of (CreateClientWithID L w i name s)"
| "refusal L w Ensure_Default_Client s = error_of (EnsureDefaultClient L w s)"
| "refusal L w (Create_Workspace x) s = error_of (CreateWorkspace L w x s)"
| "refusal L w (Update_Workspace x) s = error_of (UpdateWorkspace L w x s)"
| "refusal L w (Delete_Workspace i) s = error_of (DeleteWorkspace i s)"
| "refusal L w (Set_Auth a) s = error_of (SetAuth L w a s)"
| "refusal L w (Create_Session x) s = error_of (CreateSession L w x s)"
| "refusal L w (Rename_Session i title v) s = error_of (RenameSession L w i title v s)"
| "refusal L w (Move_Session i dir ws v) s = error_of (MoveSession L w i dir ws v s)"
| "refusal L w (Purge_Session i v) s = error_of (PurgeSession i v s)"
| "refusal L w (Append_Session_Event e) s = error_of (AppendSessionEvent w e s)"
| "refusal L w (Rebuild_Session_Projections i) s = error_of (RebuildSessionProjections L i s)"
| "refusal L w Rebuild_All_Session_Projections s = error_of (RebuildAllSessionProjections L s)"
| "refusal L w (Admit_Session_Run r) s = error_of (AdmitSessionRun L w r s)"
| "refusal L w (Claim_Next_Session_Run i) s = error_of (ClaimNextSessionRun L w i s)"
| "refusal L w (Settle_Session_Run st) s = error_of (SettleSessionRun L w st s)"
| "refusal L w (Save_Message m) s = error_of (SaveMessage L w m s)"
| "refusal L w (Upsert_Model_Call c) s = error_of (UpsertModelCall L w c s)"
| "refusal L w (Interrupt_Active_Model_Calls r t m) s = error_of (InterruptActiveModelCalls L w r t m s)"
| "refusal L w (Save_Tool_Use u) s = error_of (SaveToolUse L w u s)"
| "refusal L w Interrupt_Active_Tool_Uses s = error_of (InterruptActiveToolUses L w s)"
| "refusal L w (Create_Permission_Request r) s = error_of (CreatePermissionRequest L w r s)"
| "refusal L w (Resolve_Permission_Request rs) s = error_of (ResolvePermissionRequest L w rs s)"
| "refusal L w Interrupt_Pending_Permission_Requests s = error_of (InterruptPendingPermissionRequests L w s)"

text \<open>An operation whose error leaves the store alone, and the shapes of such operations.\<close>

definition atomic :: "store \<Rightarrow> 'a outcome \<Rightarrow> bool" where
  "atomic s r \<longleftrightarrow> (\<forall>e. fst r = Inl e \<longrightarrow> snd r = s)"

lemma atomic_attempt: "(\<And>x. m = Inr x \<Longrightarrow> atomic s (f x)) \<Longrightarrow> atomic s (attempt s m f)"
  by (cases m) (auto simp: atomic_def)

lemma atomic_done: "atomic s (Inr y, t)" "atomic s (Inl e, s)"
  by (simp_all add: atomic_def)

lemma atomic_if: "(c \<Longrightarrow> atomic s a) \<Longrightarrow> (\<not> c \<Longrightarrow> atomic s b) \<Longrightarrow> atomic s (if c then a else b)"
  by simp

lemma atomic_option:
  "(m = None \<Longrightarrow> atomic s a) \<Longrightarrow> (\<And>y. m = Some y \<Longrightarrow> atomic s (f y)) \<Longrightarrow>
     atomic s (case m of None \<Rightarrow> a | Some y \<Rightarrow> f y)"
  by (cases m) auto

lemma atomic_pair: "(\<And>x y. p = (x, y) \<Longrightarrow> atomic s (f x y)) \<Longrightarrow> atomic s (case p of (x, y) \<Rightarrow> f x y)"
  by (cases p) auto

lemmas atomic_intros = atomic_attempt atomic_done atomic_if atomic_option atomic_pair

lemma atomic_catalog:
  "atomic s (CreateAgent L w a s)" "atomic s (UpdateAgent L w a s)" "atomic s (DeleteAgent i s)"
  "atomic s (CreateClientWithID L w i name s)" "atomic s (EnsureDefaultClient L w s)"
  "atomic s (CreateWorkspace L w x s)" "atomic s (UpdateWorkspace L w x s)" "atomic s (DeleteWorkspace i s)"
  "atomic s (SetAuth L w au s)"
  unfolding CreateAgent_def UpdateAgent_def DeleteAgent_def CreateClientWithID_def EnsureDefaultClient_def
    CreateWorkspace_def UpdateWorkspace_def DeleteWorkspace_def SetAuth_def Let_def
  by (intro atomic_intros)+

lemma atomic_sessions:
  "atomic s (RenameSession L w i title v s)" "atomic s (MoveSession L w i dir ws v s)" "atomic s (PurgeSession i v s)"
  "atomic s (AppendSessionEvent w ev s)" "atomic s (RebuildSessionProjections L i s)"
  "atomic s (RebuildAllSessionProjections L s)"
  unfolding RenameSession_def MoveSession_def applySessionMetadataEvent_def PurgeSession_def AppendSessionEvent_def
    RebuildSessionProjections_def RebuildAllSessionProjections_def Let_def
  by (intro atomic_intros)+

lemma atomic_runs:
  "atomic s (AdmitSessionRun L w r s)" "atomic s (ClaimNextSessionRun L w i s)" "atomic s (SettleSessionRun L w st s)"
  unfolding AdmitSessionRun_def record_admission_def ClaimNextSessionRun_def SettleSessionRun_def transition_run_def
    appendRunEventLocked_def Let_def
  by (intro atomic_intros)+

lemma atomic_messages:
  "atomic s (SaveMessage L w m s)" "atomic s (UpsertModelCall L w c s)"
  "atomic s (InterruptActiveModelCalls L w rid et em s)"
  unfolding SaveMessage_def save_snapshot_def UpsertModelCall_def save_model_call_def InterruptActiveModelCalls_def Let_def
  by (intro atomic_intros)+

lemma atomic_tools:
  "atomic s (SaveToolUse L w u s)" "atomic s (CreatePermissionRequest L w r s)"
  "atomic s (ResolvePermissionRequest L w rs s)" "atomic s (InterruptPendingPermissionRequests L w s)"
  unfolding SaveToolUse_def save_tool_use_def CreatePermissionRequest_def record_request_def ResolvePermissionRequest_def
    record_resolution_def InterruptPendingPermissionRequests_def Let_def
  by (intro atomic_intros)+

lemma refused_attempt:
  "Q t \<Longrightarrow> (\<And>x. m = Inr x \<Longrightarrow> \<forall>e. fst (f x) = Inl e \<longrightarrow> Q (snd (f x))) \<Longrightarrow>
     \<forall>e. fst (attempt t m f) = Inl e \<longrightarrow> Q (snd (attempt t m f))"
  by (cases m) auto

lemma atomic_create_session:
  assumes "error_of (CreateSession L w x s) = Some e"
  shows "snd (CreateSession L w x s) = s \<or> snd (CreateSession L w x s) = s\<lparr>st_globalSeq := st_globalSeq s + 1\<rparr>"
proof -
  have "\<forall>e. fst (CreateSession L w x s) = Inl e \<longrightarrow>
      (\<lambda>t. t = s \<or> t = s\<lparr>st_globalSeq := st_globalSeq s + 1\<rparr>) (snd (CreateSession L w x s))"
    unfolding CreateSession_def Let_def by (intro refused_attempt) simp_all
  then show ?thesis using assms by (auto simp: error_of_def split: sum.splits)
qed

lemmas atomic_operations = atomic_catalog atomic_sessions atomic_runs atomic_messages atomic_tools

lemma atomicD: "atomic s r \<Longrightarrow> error_of r = Some e \<Longrightarrow> snd r = s"
  by (auto simp: atomic_def error_of_def split: sum.splits)

lemmas refused_operations = atomic_operations [THEN atomicD]

lemma refused_store:
  assumes "refusal L w c s = Some e" "c \<noteq> Interrupt_Active_Tool_Uses" "\<forall>x. c \<noteq> Create_Session x"
  shows "exec L w c s = s"
  using assms by (cases c) (simp_all add: refused_operations CreateClient_def)

end
