(* ===== verification/Store_Findings.thy ===== *)
theory Store_Findings
  imports Record_Properties
begin

text \<open>
  Where the memory store departs from what its own rebuild, its comments or its other operations
  promise.  The states are reached from the sample session by operations that all succeed.
\<close>

section \<open>Interrupted requests share an event number\<close>

lemma prepared_events:
  assumes "foldE (prepare_interruption L w s) st rs = Inr (pend, ps)"
    and "\<forall>(r, ev, e, x) \<in> set (snd st). evt_Seq ev = next_event_seq s (prq_SessionID r)"
  shows "\<forall>(r, ev, e, x) \<in> set ps. evt_Seq ev = next_event_seq s (prq_SessionID r)"
  using assms
proof (induction rs arbitrary: st)
  case (Cons r rs)
  obtain evs sessions pend0 where st: "st = ((evs, sessions), pend0)" by (metis prod.exhaust)
  obtain st' where st': "prepare_interruption L w s st r = Inr st'" "foldE (prepare_interruption L w s) st' rs = Inr (pend, ps)"
    using Cons.prems(1) by (auto simp: res_simps)
  have "\<forall>(r, ev, e, x) \<in> set (snd st'). evt_Seq ev = next_event_seq s (prq_SessionID r)"
    using st'(1) Cons.prems(2)
    by (auto simp: st prepare_interruption_def newPermissionEventLocked_def new_session_event_def res_simps Let_def)
  then show ?case by (rule Cons.IH [OF st'(2)])
qed simp

text \<open>When the process restarts, the pending permission requests of one session are all resolved
  with session events of the same sequence number, although the numbers of a session's events are
  to be distinct.\<close>

theorem interruptions_share_number:
  assumes "InterruptPendingPermissionRequests L w s = (Inr ts, t)" "p \<in> set ts" "q \<in> set ts"
    and "prq_SessionID (qtr_Request p) = prq_SessionID (qtr_Request q)"
  shows "map_option evt_Seq (qtr_Event p) = map_option evt_Seq (qtr_Event q)"
proof -
  obtain pend ps where ps: "foldE (prepare_interruption L w s) (([], []), []) (map (interrupted_request w)
      (sort_key (\<lambda>r. (prq_CreatedAt r, prq_ID r)) (filter (\<lambda>r. prq_Status r = PermissionRequestStatusPending)
        (vals (st_permissionRequests s))))) = Inr (pend, ps)"
    and ts: "ts = map (\<lambda>(r, event, _). \<lparr>qtr_Request = r, qtr_Event = Some (copySessionEvent event), qtr_Changed = True\<rparr>) ps"
    using assms(1) by (auto simp: InterruptPendingPermissionRequests_def attempt_def split: sum.splits prod.splits)
  have "map_option evt_Seq (qtr_Event u) = Some (next_event_seq s (prq_SessionID (qtr_Request u)))" if "u \<in> set ts" for u
    using that prepared_events [OF ps] unfolding ts by (auto simp: copySessionEvent_def)
  from trans [OF this [OF assms(2), unfolded assms(4)] this [OF assms(3), symmetric]] show ?thesis .
qed

definition sample_pending :: store where
  "sample_pending = run_commands sample_lib (numbered 2 [Create_Permission_Request (sample_request ''prq_1'' [''ls'']),
     Create_Permission_Request (sample_request ''prq_2'' [''rm''])]) empty_session"

lemma interruptions_share_number_witness:
  "\<exists>p q t. InterruptPendingPermissionRequests sample_lib (sample_world 4) sample_pending = (Inr [p, q], t) \<and>
     prq_ID (qtr_Request p) \<noteq> prq_ID (qtr_Request q) \<and> map_option evt_Seq (qtr_Event p) = map_option evt_Seq (qtr_Event q)"
proof -
  define out where "out = InterruptPendingPermissionRequests sample_lib (sample_world 4) sample_pending"
  have "(case fst out of Inl e \<Rightarrow> None | Inr ts \<Rightarrow> Some (map (\<lambda>q. (prq_ID (qtr_Request q), prq_SessionID (qtr_Request q))) ts)) =
      Some [(''prq_1'', ''ses_1''), (''prq_2'', ''ses_1'')]"
    unfolding out_def by code_simp
  then obtain p q where pq: "fst out = Inr [p, q]" "prq_ID (qtr_Request p) = ''prq_1''" "prq_ID (qtr_Request q) = ''prq_2''"
    "prq_SessionID (qtr_Request p) = prq_SessionID (qtr_Request q)"
    by (auto simp: map_eq_Cons_conv split: sum.splits)
  then have eq: "InterruptPendingPermissionRequests sample_lib (sample_world 4) sample_pending = (Inr [p, q], snd out)"
    by (simp add: out_def prod_eq_iff)
  from interruptions_share_number [OF this, of p q] pq eq show ?thesis by auto
qed

section \<open>A grant given twice\<close>


section \<open>A deleted workspace comes back\<close>

definition sample_workspace :: workspace where
  "sample_workspace = \<lparr>wsp_ID = ''ws_1'', wsp_Name = ''w'', wsp_Path = ''/w'', wsp_ClientID = ''cli_1'', wsp_CreatedAt = '''',
     wsp_UpdatedAt = ''''\<rparr>"

definition sample_deleted :: store where
  "sample_deleted = run_commands sample_lib (numbered 0 [Create_Client_With_ID ''cli_1'' ''desk'', Create_Workspace sample_workspace,
     Create_Session (sample_session\<lparr>ses_WorkspaceID := ''ws_1''\<rparr>), Delete_Workspace ''ws_1'']) NewStore"

text \<open>Deleting a workspace clears it in the sessions that use it, but no event records that: the next
  event of such a session, here a new title, brings the identifier of the deleted workspace back.\<close>

theorem deleted_workspace_returns:
  "let s = sample_deleted; t = exec sample_lib (sample_world 5) (Rename_Session ''ses_1'' ''second'' 1) s in
   map_of (st_workspaces t) ''ws_1'' = None \<and>
   map_option ses_WorkspaceID (map_of (st_sessions s) ''ses_1'') = Some '''' \<and>
   map_option ses_WorkspaceID (map_of (st_sessions t) ''ses_1'') = Some ''ws_1''"
  by code_simp

section \<open>A part stolen by a revision\<close>

definition sample_messages :: store where
  "sample_messages = run_commands sample_lib (numbered 2 [Save_Message (sample_message 1 ''prt_1''),
     Save_Message ((sample_message 1 ''prt_2'')\<lparr>msg_ID := ''msg_2'', msg_Idx := 1,
       msg_Parts := map (\<lambda>p. p\<lparr>prt_MessageID := ''msg_2''\<rparr>) (msg_Parts (sample_message 1 ''prt_2''))\<rparr>)]) empty_session"

text \<open>A new message may not use the identifier of a part of another message, but a new revision
  may: it is accepted and the other message loses its part; a rebuild of the session takes the part
  away again.\<close>

theorem revision_steals_part:
  "let s = sample_messages; out = SaveMessage sample_lib (sample_world 4) (sample_message 2 ''prt_2'') s in
   \<not> isl (fst out) \<and>
   map_option prt_MessageID (map_of (st_parts s) ''prt_2'') = Some ''msg_2'' \<and>
   map_option prt_MessageID (map_of (st_parts (snd out)) ''prt_2'') = Some ''msg_1'' \<and>
   map_option prt_MessageID (map_of (st_parts (snd (RebuildSessionProjections sample_lib ''ses_1'' (snd out)))) ''prt_2'') \<noteq> Some ''msg_1''"
  by code_simp

end
