(* ===== verification/Spec2Isabelle.thy ===== *)
theory Spec2Isabelle
  imports Tool_Findings Recorder_Protocol Agent_Properties Permission_Properties Store_Properties Session_Properties Run_Properties Record_Properties Store_Findings
begin

text \<open>
  \<^bold>\<open>Wingman\<close> runs coding agents: a daemon keeps sessions, each with a queue of runs; a run sends the
  conversation to a language model, executes the tools the model calls, under permission rules, and
  records every step in a store whose sessions are streams of events.  This library models the part of the
  Go code that decides what happens: the store with its event streams (\<^verbatim>\<open>src/store\<close>, in its in-memory
  implementation), the permission rules (\<^verbatim>\<open>src/permission\<close>), the messages (\<^verbatim>\<open>src/models\<close>), the run loop
  (\<^verbatim>\<open>src/agent/run\<close>), the recorder that joins loop and store (\<^verbatim>\<open>src/agent/session/persist.go\<close>) and the tools
  that change files (\<^verbatim>\<open>src/tool\<close>).

  \<^bold>\<open>The parts and how they interact.\<close>
  \<^item> \<open>Wingman_Prelude\<close>, \<open>Go_Json\<close>, \<open>Go_Path\<close>: results that may be errors (\<open>bindE\<close>, \<open>mapE\<close>, \<open>foldE\<close>), Go maps as
    association lists, the string functions, \<^verbatim>\<open>encoding/json\<close> with the rules of struct tags, and paths.
  \<^item> \<open>Permission\<close> is \<^verbatim>\<open>permission.go\<close>: \<open>wildcardMatch\<close>, \<open>Evaluate\<close>, \<open>Merge\<close>, \<open>ExpandHome\<close> and the JSON spellings of a
    ruleset.  The run loop asks \<open>Evaluate\<close> before it executes a tool (\<open>checkPermission\<close> in \<open>Agent_Tools\<close>).
  \<^item> \<open>Store_Models\<close>, \<open>Store_Codecs\<close> are \<^verbatim>\<open>store/models.go\<close> and the snapshots of \<^verbatim>\<open>store/aggregate.go\<close>: every struct
    is a record with the source's fields, every status a string constant, and \<open>legalToolUseTransition\<close> and its
    like are the tables of transitions.  \<open>Aggregate_Events\<close> and \<open>Aggregate_Projection\<close> are the constructors,
    decoders and projections of events.
  \<^item> \<open>Memory_State\<close> and the theories \<open>Memory_...\<close> are \<^verbatim>\<open>store/memory/memory.go\<close>: the state is the record \<open>store\<close>
    with one association list per map of the Go struct, an operation under the mutex is a function from a
    store to a result and a store, and \<open>world\<close> holds the clock and the fresh identifiers an operation
    reads.  Every operation of the interface is there, and \<open>Store_Commands\<close> has one command for each that
    changes the state.
  \<^item> \<open>Model_Content\<close> is \<^verbatim>\<open>models.go\<close> and \<^verbatim>\<open>stream.go\<close>: messages, parts, usage, stream parts, and the two forms of
    tool calls in a history (\<open>NormalizeMessages\<close>, \<open>ExpandToolMessages\<close>).
  \<^item> \<open>Agent_Types\<close>, \<open>Agent_Program\<close>, \<open>Agent_Stream\<close>, \<open>Agent_Tools\<close>, \<open>Agent_Turn\<close> and \<open>Agent_Run\<close> are \<^verbatim>\<open>agent/run\<close>: what
    the loop asks of its environment (hooks, callbacks, the client, tools, the clock, the user) is a
    question, and \<open>Run\<close> is a tree that branches on the answers, so that one definition covers every
    behaviour of the environment.  Tools that run in parallel are interleavings of their trees.
  \<^item> \<open>Session_Recorders\<close> is the recorder of tool uses and model calls: it answers the callbacks of the loop
    from the store.
  \<^item> \<open>Tool_Files\<close>, \<open>Tool_Patch\<close> are the tools \<^verbatim>\<open>write\<close>, \<^verbatim>\<open>edit\<close> and \<^verbatim>\<open>apply_patch\<close> over a file system whose calls may fail.

  \<^bold>\<open>What the theorems show.\<close>
  \<^item> Store: \<open>Session_Views\<close> and \<open>Store_Invariant\<close> state that the live tables are what the streams project to,
    the theories \<open>Preserve_...\<close> that every operation keeps it (the interpretation \<open>contents\<close> carries it to every
    reachable store), and \<open>Store_Rebuild\<close> that a rebuild therefore changes nothing.  \<open>Run_Queue\<close> is the queue
    discipline of runs, \<open>Store_Errors\<close> the atomicity of refused commands, \<open>Session_Properties\<close>,
    \<open>Run_Properties\<close> and \<open>Record_Properties\<close> the behaviour of single operations on every branch that matters,
    \<open>Store_Findings\<close> where the code departs from what its parts promise.
  \<^item> Loop: \<open>Tool_Protocol\<close> and \<open>Run_Protocol\<close> follow each tool use with a watcher (an automaton over questions and
    answers, whose weakest precondition is computed from the tree): a tool is executed at most once, on valid
    input, under the rules or the user's approval, after its start is recorded.  \<open>Call_Protocol\<close> does the
    same for model calls and \<open>Revision_Protocol\<close> for checkpoints; \<open>Run_Outcome\<close> is about termination and
    results, \<open>Stream_Properties\<close> and \<open>Content_Properties\<close> about streams and messages.  \<open>Agent_Properties\<close> draws the
    properties from them.
  \<^item> Loop and store together: \<open>Recorder_Protocol\<close> proves that the rows of the store agree with the watchers
    while the recorder answers, so that after a crash the store tells what has been executed, and that in a
    store in order the callbacks of an executed call succeed.
  \<^item> Tools: \<open>Path_Properties\<close>, \<open>File_Properties\<close> and \<open>Patch_Properties\<close> prove the containment of paths, that a tool
    changes only files whose permission is asked for, what \<^verbatim>\<open>edit\<close> replaces, that a patch section is an edit
    script, and that the parser reads a written patch back.  \<open>Tool_Findings\<close> has the inputs they are tried on
    and three findings.

  \<^bold>\<open>Interfaces.\<close>  The locales are the contracts between the parts: \<open>codec\<close> (a decoder reads back what its
  encoder writes, interpreted for every snapshot), \<open>history_pass\<close> and \<open>session_view\<close> (what a projection promises
  of the events it looks at, interpreted for the six passes), \<open>store_property\<close> (what carries over to all
  reachable stores), \<open>passive_field\<close>, \<open>catalog_field\<close> and \<open>stream_property\<close> (what operations leave alone) and
  \<open>keyed_monitor\<close> (a monitor per key, interpreted for tool uses).

  \<^bold>\<open>Fuel and bounds.\<close>  \<open>Run\<close> takes a number of turns, since a run without \<^verbatim>\<open>MaxSteps\<close> need not end;
  \<open>run_terminates\<close> shows that more turns than the limit of steps are never used, so the fuel is no restriction on a
  run that has a limit.  All other loops are structural or have a measure.  Go's \<^verbatim>\<open>int\<close> counters (token counts,
  sequence numbers, versions, times in milliseconds) are unbounded integers: they would have to exceed
  \<open>2 ^ 63\<close> to differ; the doubling of the retry delays is modelled with the code's guard against that.  Strings are lists of bytes.

  \<^bold>\<open>Assumptions.\<close>  \<open>lib\<close> holds the text formats of Go's library (times, base64, JSON text, SHA-256); \<open>lib_ok\<close> says that
  what is written can be read.  \<open>run_lib\<close> holds the JSON schema compiler, which is outside of the repository, and
  \<open>file_env\<close> the package that compares texts.  Nothing is assumed of the last two.  White space is trimmed as
  far as it is ASCII.

  \<^bold>\<open>Not modelled.\<close>
  \<^item> \<^verbatim>\<open>store/sqlite.go\<close>: the same interface over SQL; its behaviour is that of statements and transactions of a
    database that is not part of the repository.
  \<^item> \<^verbatim>\<open>agent/session/session.go\<close> and the parts of \<^verbatim>\<open>persist.go\<close> that load, save and recover messages: they go through
    the registry of part decoders, which plugins extend at run time.
  \<^item> \<^verbatim>\<open>agent/plugin\<close>, \<^verbatim>\<open>pluginhost\<close>, \<^verbatim>\<open>mcp\<close>, \<^verbatim>\<open>execution\<close>: child processes, remote calls and the lifetimes of the
    resources behind them; the hooks they install are answers of the environment of \<open>Run\<close>.
  \<^item> \<^verbatim>\<open>plugins/compaction\<close>: a hook whose summary is written by a model.
  \<^item> \<^verbatim>\<open>models/providers\<close>, \<^verbatim>\<open>models/catalog\<close>: the HTTP protocols of model providers; the stream they deliver is an
    answer of the environment.
  \<^item> \<^verbatim>\<open>server\<close>, \<^verbatim>\<open>api\<close>, \<^verbatim>\<open>client\<close>, \<^verbatim>\<open>cmd\<close>, \<^verbatim>\<open>app\<close>, \<^verbatim>\<open>internal\<close>, \<^verbatim>\<open>web\<close>: request plumbing, generated code, process
    management and the user interface.
  \<^item> The other tools (\<^verbatim>\<open>read\<close>, \<^verbatim>\<open>grep\<close>, \<^verbatim>\<open>glob\<close>, \<^verbatim>\<open>bash\<close>, \<^verbatim>\<open>webfetch\<close>, \<^verbatim>\<open>websearch\<close>): what they return comes from
    directories, processes and the network.
\<close>

end
